(* ===== verification/Fcf_Prelude.thy ===== *)
theory Fcf_Prelude
  imports Main "HOL-Library.Word"
begin

text \<open>
  Shared vocabulary of the development.

  \<^item> \<open>named_theorems\<close> collections the component theories feed and use.
  \<^item> The model of \<open>std::map\<close>: an association list that is kept in strictly ascending
    key order (\<open>om_*\<close>). Iterating over the C++ map is iterating over the list, so the
    deterministic traversal orders of the program are visible in the model. Lookup after an
    insertion or an erasure is described without any side condition; only statements that
    relate iteration to lookup need the order invariant \<open>om_wf\<close>.
  \<^item> Decimal rendering (\<open>std::to_string\<close>) and small list lemmas.
\<close>

named_theorems fcf_frame \<open>field-by-field frame equations of the state transformers\<close>
named_theorems fcf_wf \<open>preservation of the well-formedness invariants\<close>

type_synonym u8 = "8 word"
type_synonym u16 = "16 word"
type_synonym u32 = "32 word"
type_synonym u64 = "64 word"

section \<open>Ordered maps\<close>

type_synonym ('k, 'v) omap = "('k \<times> 'v) list"

abbreviation om_find :: "('k, 'v) omap \<Rightarrow> 'k \<Rightarrow> 'v option" where
  "om_find m k \<equiv> map_of m k"

text \<open>\<open>m[k] = v\<close>: replace the value of \<open>k\<close> or insert it at its place in the order.\<close>

fun om_put :: "'k::linorder \<Rightarrow> 'v \<Rightarrow> ('k, 'v) omap \<Rightarrow> ('k, 'v) omap" where
  "om_put k v [] = [(k, v)]"
| "om_put k v ((k', v') # m) =
     (if k < k' then (k, v) # (k', v') # m
      else if k = k' then (k, v) # m
      else (k', v') # om_put k v m)"

text \<open>\<open>m.emplace(k, v)\<close>: insert only if the key is absent.\<close>

definition om_emplace :: "'k::linorder \<Rightarrow> 'v \<Rightarrow> ('k, 'v) omap \<Rightarrow> ('k, 'v) omap" where
  "om_emplace k v m = (if om_find m k = None then om_put k v m else m)"

text \<open>\<open>m.erase(k)\<close>.\<close>

definition om_erase :: "'k \<Rightarrow> ('k, 'v) omap \<Rightarrow> ('k, 'v) omap" where
  "om_erase k m = filter (\<lambda>e. fst e \<noteq> k) m"

text \<open>\<open>for (auto& entry : m) entry.second = f(entry.second)\<close>.\<close>

definition om_map :: "('v \<Rightarrow> 'w) \<Rightarrow> ('k, 'v) omap \<Rightarrow> ('k, 'w) omap" where
  "om_map f m = map (\<lambda>(k, v). (k, f v)) m"

text \<open>\<open>f(m.find(k)->second)\<close> in place, nothing when the key is absent.\<close>

definition om_adjust :: "'k::linorder \<Rightarrow> ('v \<Rightarrow> 'v) \<Rightarrow> ('k, 'v) omap \<Rightarrow> ('k, 'v) omap" where
  "om_adjust k f m = (case om_find m k of None \<Rightarrow> m | Some v \<Rightarrow> om_put k (f v) m)"

text \<open>\<open>f(m[k])\<close> in place: \<open>operator[]\<close> inserts the default value \<open>d\<close> for an absent key.\<close>

definition om_adjust_default ::
    "'v \<Rightarrow> 'k::linorder \<Rightarrow> ('v \<Rightarrow> 'v) \<Rightarrow> ('k, 'v) omap \<Rightarrow> ('k, 'v) omap" where
  "om_adjust_default d k f m =
     om_put k (f (case om_find m k of None \<Rightarrow> d | Some v \<Rightarrow> v)) m"

abbreviation om_keys :: "('k, 'v) omap \<Rightarrow> 'k list" where
  "om_keys m \<equiv> map fst m"

definition om_wf :: "('k::linorder, 'v) omap \<Rightarrow> bool" where
  "om_wf m \<longleftrightarrow> sorted_wrt (<) (om_keys m)"

lemma om_find_put [simp]: "om_find (om_put k v m) k' = (if k' = k then Some v else om_find m k')"
  by (induction m) auto

lemma om_find_erase [simp]: "om_find (om_erase k m) k' = (if k' = k then None else om_find m k')"
  by (induction m) (auto simp: om_erase_def)

lemma om_find_map [simp]: "om_find (om_map f m) k = map_option f (om_find m k)"
  by (induction m) (auto simp: om_map_def)

lemma om_find_emplace [simp]:
  "om_find (om_emplace k v m) k' =
     (if k' = k \<and> om_find m k = None then Some v else om_find m k')"
  by (simp add: om_emplace_def)

lemma om_find_adjust [simp]:
  "om_find (om_adjust k f m) k' =
     (if k' = k then map_option f (om_find m k) else om_find m k')"
  by (auto simp: om_adjust_def split: option.split)

lemma om_find_adjust_default [simp]:
  "om_find (om_adjust_default d k f m) k' =
     (if k' = k then Some (f (case om_find m k of None \<Rightarrow> d | Some v \<Rightarrow> v)) else om_find m k')"
  by (simp add: om_adjust_default_def)

lemma om_keys_put [simp]: "fst ` set (om_put k v m) = insert k (fst ` set m)"
  by (induction k v m rule: om_put.induct) (simp_all add: insert_commute)

lemma om_keys_map [simp]: "map fst (om_map f m) = map fst m"
  by (induction m) (auto simp: om_map_def)

lemma om_keys_map_set [simp]: "fst ` set (om_map f m) = fst ` set m"
  by (simp add: om_map_def image_image case_prod_unfold)

lemma om_keys_erase [simp]: "fst ` set (om_erase k m) = fst ` set m - {k}"
  by (auto simp: om_erase_def)

lemma om_find_None_iff: "om_find m k = None \<longleftrightarrow> k \<notin> fst ` set m"
  by (rule map_of_eq_None_iff)

lemma om_wf_Nil [simp, intro]: "om_wf []"
  by (simp add: om_wf_def)

lemma om_wf_Cons: "om_wf ((k, v) # m) \<longleftrightarrow> (\<forall>k' \<in> fst ` set m. k < k') \<and> om_wf m"
  by (auto simp: om_wf_def)

lemma om_wf_put [simp, fcf_wf]: "om_wf m \<Longrightarrow> om_wf (om_put k v m)"
proof (induction m)
  case (Cons e m)
  obtain k' v' where e: "e = (k', v')" by (cases e)
  show ?case
  proof (cases "k < k' \<or> k = k'")
    case True
    with Cons.prems e show ?thesis by (auto simp: om_wf_Cons)
  next
    case False
    then have "k' < k" by auto
    with Cons.IH Cons.prems e show ?thesis by (auto simp: om_wf_Cons)
  qed
qed (simp add: om_wf_def)

lemma om_wf_emplace [simp, fcf_wf]: "om_wf m \<Longrightarrow> om_wf (om_emplace k v m)"
  by (simp add: om_emplace_def)

lemma om_wf_erase [simp, fcf_wf]: "om_wf m \<Longrightarrow> om_wf (om_erase k m)"
  by (simp add: om_wf_def om_erase_def sorted_wrt_map sorted_wrt_filter)

lemma om_wf_map [simp, fcf_wf]: "om_wf (om_map f m) \<longleftrightarrow> om_wf m"
  unfolding om_wf_def by (simp only: om_keys_map)

lemma om_wf_adjust [simp, fcf_wf]: "om_wf m \<Longrightarrow> om_wf (om_adjust k f m)"
  by (simp add: om_adjust_def split: option.split)

lemma om_wf_adjust_default [simp, fcf_wf]: "om_wf m \<Longrightarrow> om_wf (om_adjust_default d k f m)"
  by (simp add: om_adjust_default_def)

lemma om_wf_distinct: "om_wf m \<Longrightarrow> distinct (om_keys m)"
  by (simp add: om_wf_def strict_sorted_iff)

text \<open>Iteration agrees with lookup on a well-formed map.\<close>

lemma om_in_set_iff: "om_wf m \<Longrightarrow> (k, v) \<in> set m \<longleftrightarrow> om_find m k = Some v"
  using om_wf_distinct by fastforce

lemma om_find_in_set: "om_find m k = Some v \<Longrightarrow> (k, v) \<in> set m"
  by (rule map_of_SomeD)

lemma om_find_dom: "om_find m k = Some v \<Longrightarrow> k \<in> fst ` set m"
  by (force dest: map_of_SomeD)

lemma om_length_put: "om_find m k = None \<Longrightarrow> length (om_put k v m) = Suc (length m)"
  by (induction m) (auto split: if_splits)

lemma om_put_absent_set:
  "om_find m k = None \<Longrightarrow> set (om_put k v m) = insert (k, v) (set m)"
  by (induction m) (auto split: if_splits)

section \<open>Decimal rendering\<close>

text \<open>\<open>std::to_string\<close> of an unsigned value.\<close>

definition digit_char :: "nat \<Rightarrow> char" where
  "digit_char d = char_of (48 + d)"

fun nat_to_string :: "nat \<Rightarrow> string" where
  "nat_to_string n =
     (if n < 10 then [digit_char n] else nat_to_string (n div 10) @ [digit_char (n mod 10)])"

declare nat_to_string.simps [simp del]

section \<open>Sequences of state transformers\<close>

text \<open>A C++ loop over a sequence that updates the state with each element.\<close>

abbreviation for_each :: "'a list \<Rightarrow> ('a \<Rightarrow> 's \<Rightarrow> 's) \<Rightarrow> 's \<Rightarrow> 's" where
  "for_each xs f s \<equiv> fold f xs s"

lemma fold_invariant_list:
  "P s \<Longrightarrow> (\<And>x s. x \<in> set xs \<Longrightarrow> P s \<Longrightarrow> P (f x s)) \<Longrightarrow> P (fold f xs s)"
  by (induction xs arbitrary: s) auto

lemma fold_preserves:
  "(\<And>x s. x \<in> set xs \<Longrightarrow> g (f x s) = g s) \<Longrightarrow> g (fold f xs s) = g s"
  by (induction xs arbitrary: s) auto

end
