(* ===== verification/Fcf_Ids.thy ===== *)
theory Fcf_Ids
  imports Fcf_Prelude
begin

text \<open>
  Strongly typed identities (\<open>include/fcf/ids.hpp\<close>).

  \<open>template <class Tag> class Id\<close> is the phantom type \<open>'tag Id\<close> over a 64-bit value: as
  in the code, identities of different domains have different types and cannot be compared.
  \<open>IdSet\<close> is a list that the \<open>id_set_*\<close> operations keep strictly ascending; the locale
  \<open>sorted_set\<close> states the contract of such a set once, for identity sets here and for
  enumeration sets in \<open>Fcf_Enum\<close>.
\<close>

section \<open>The identity type\<close>

datatype 'tag Id = Id (id_value: u64)

definition id_valid :: "'tag Id \<Rightarrow> bool" where
  "id_valid i \<longleftrightarrow> id_value i \<noteq> 0"

abbreviation id_invalid :: "'tag Id" where
  "id_invalid \<equiv> Id 0"

instantiation Id :: (type) linorder
begin

definition less_eq_Id :: "'a Id \<Rightarrow> 'a Id \<Rightarrow> bool" where
  "less_eq_Id a b \<longleftrightarrow> id_value a \<le> id_value b"

definition less_Id :: "'a Id \<Rightarrow> 'a Id \<Rightarrow> bool" where
  "less_Id a b \<longleftrightarrow> id_value a < id_value b"

instance
  by standard (auto simp: less_eq_Id_def less_Id_def intro: Id.expand)

end

lemma less_Id_simps [simp]:
  "Id a < Id b \<longleftrightarrow> a < b" "Id a \<le> Id b \<longleftrightarrow> a \<le> b"
  by (simp_all add: less_Id_def less_eq_Id_def)

lemma id_valid_simps [simp]: "id_valid (Id a) \<longleftrightarrow> a \<noteq> 0"
  by (simp add: id_valid_def)

section \<open>Identity domains\<close>

text \<open>One tag per domain; the tag's name is what \<open>id_domain_name\<close> returns.\<close>

datatype CoordinatorEpochTag = CoordinatorEpochTag
datatype WorkerIdTag = WorkerIdTag
datatype WorkerBootIdTag = WorkerBootIdTag
datatype WorkerIncarnationTag = WorkerIncarnationTag
datatype NodeIdTag = NodeIdTag
datatype HostIdTag = HostIdTag
datatype ProcessIdTag = ProcessIdTag
datatype DeviceIdTag = DeviceIdTag
datatype AcceleratorIdTag = AcceleratorIdTag
datatype ResourceIdTag = ResourceIdTag
datatype WorkloadIdTag = WorkloadIdTag
datatype ServiceIdTag = ServiceIdTag
datatype AttemptIdTag = AttemptIdTag
datatype ExecutionIdTag = ExecutionIdTag
datatype ContainmentDomainIdTag = ContainmentDomainIdTag
datatype IsolationDomainIdTag = IsolationDomainIdTag
datatype FailureDomainIdTag = FailureDomainIdTag
datatype DependencyIdTag = DependencyIdTag
datatype FaultIdTag = FaultIdTag
datatype FaultGenerationTag = FaultGenerationTag
datatype TopologyGenerationTag = TopologyGenerationTag
datatype PolicyGenerationTag = PolicyGenerationTag
datatype ResourceGenerationTag = ResourceGenerationTag
datatype DependencyGenerationTag = DependencyGenerationTag
datatype ContainmentGenerationTag = ContainmentGenerationTag
datatype ActionIdTag = ActionIdTag
datatype ActionGenerationTag = ActionGenerationTag
datatype VerificationGenerationTag = VerificationGenerationTag
datatype ReleaseGenerationTag = ReleaseGenerationTag
datatype DegradedModeIdTag = DegradedModeIdTag
datatype ReservationIdTag = ReservationIdTag
datatype LeaseIdTag = LeaseIdTag
datatype EvidenceSequenceTag = EvidenceSequenceTag
datatype HistorySequenceTag = HistorySequenceTag

type_synonym CoordinatorEpoch = "CoordinatorEpochTag Id"
type_synonym WorkerId = "WorkerIdTag Id"
type_synonym WorkerBootId = "WorkerBootIdTag Id"
type_synonym WorkerIncarnation = "WorkerIncarnationTag Id"
type_synonym NodeId = "NodeIdTag Id"
type_synonym HostId = "HostIdTag Id"
type_synonym ProcessId = "ProcessIdTag Id"
type_synonym DeviceId = "DeviceIdTag Id"
type_synonym AcceleratorId = "AcceleratorIdTag Id"
type_synonym ResourceId = "ResourceIdTag Id"
type_synonym WorkloadId = "WorkloadIdTag Id"
type_synonym ServiceId = "ServiceIdTag Id"
type_synonym AttemptId = "AttemptIdTag Id"
type_synonym ExecutionId = "ExecutionIdTag Id"
type_synonym ContainmentDomainId = "ContainmentDomainIdTag Id"
type_synonym IsolationDomainId = "IsolationDomainIdTag Id"
type_synonym FailureDomainId = "FailureDomainIdTag Id"
type_synonym DependencyId = "DependencyIdTag Id"
type_synonym FaultId = "FaultIdTag Id"
type_synonym FaultGeneration = "FaultGenerationTag Id"
type_synonym TopologyGeneration = "TopologyGenerationTag Id"
type_synonym PolicyGeneration = "PolicyGenerationTag Id"
type_synonym ResourceGeneration = "ResourceGenerationTag Id"
type_synonym DependencyGeneration = "DependencyGenerationTag Id"
type_synonym ContainmentGeneration = "ContainmentGenerationTag Id"
type_synonym ActionId = "ActionIdTag Id"
type_synonym ActionGeneration = "ActionGenerationTag Id"
type_synonym VerificationGeneration = "VerificationGenerationTag Id"
type_synonym ReleaseGeneration = "ReleaseGenerationTag Id"
type_synonym DegradedModeId = "DegradedModeIdTag Id"
type_synonym ReservationId = "ReservationIdTag Id"
type_synonym LeaseId = "LeaseIdTag Id"
type_synonym EvidenceSequence = "EvidenceSequenceTag Id"
type_synonym HistorySequence = "HistorySequenceTag Id"

section \<open>Generations\<close>

definition next_generation :: "'tag Id \<Rightarrow> 'tag Id" where
  "next_generation current =
     (if id_value current = - 1 then current else Id (id_value current + 1))"

lemma unat_plus_one: "(x::u64) \<noteq> - 1 \<Longrightarrow> unat (x + 1) = Suc (unat x)"
  by (metis add.commute add.right_inverse add_left_cancel unatSuc)

lemma next_generation_less: "id_value current \<noteq> - 1 \<Longrightarrow> current < next_generation current"
  by (simp add: next_generation_def less_Id_def word_less_nat_alt unat_plus_one)

lemma next_generation_le [simp, intro]: "current \<le> next_generation current"
  using next_generation_less [of current, THEN less_imp_le]
  by (cases "id_value current = - 1") (auto simp: next_generation_def)

lemma next_generation_valid [simp, intro]: "id_valid (next_generation current)"
proof (cases "id_value current = - 1")
  case False
  then have "unat (id_value current + 1) \<noteq> 0" by (simp add: unat_plus_one)
  then have "id_value current + 1 \<noteq> 0" by (metis unat_0)
  with False show ?thesis by (simp add: next_generation_def id_valid_def)
qed (simp add: next_generation_def id_valid_def)

section \<open>Identity sets\<close>

type_synonym 'a IdSet = "'a list"

fun id_set_contains :: "'a::linorder IdSet \<Rightarrow> 'a \<Rightarrow> bool" where
  "id_set_contains [] x = False"
| "id_set_contains (entry # s) x =
     (if entry = x then True else if entry > x then False else id_set_contains s x)"

text \<open>The result also carries the returned flag: whether the set changed.\<close>

fun id_set_insert :: "'a::linorder IdSet \<Rightarrow> 'a \<Rightarrow> 'a IdSet \<times> bool" where
  "id_set_insert [] x = ([x], True)"
| "id_set_insert (entry # s) x =
     (if entry < x then (let (s', b) = id_set_insert s x in (entry # s', b))
      else if entry = x then (entry # s, False)
      else (x # entry # s, True))"

fun id_set_erase :: "'a::linorder IdSet \<Rightarrow> 'a \<Rightarrow> 'a IdSet \<times> bool" where
  "id_set_erase [] x = ([], False)"
| "id_set_erase (entry # s) x =
     (if entry = x then (s, True)
      else if entry > x then (entry # s, False)
      else (let (s', b) = id_set_erase s x in (entry # s', b)))"

abbreviation id_set_add :: "'a::linorder IdSet \<Rightarrow> 'a \<Rightarrow> 'a IdSet" where
  "id_set_add s x \<equiv> fst (id_set_insert s x)"

abbreviation id_set_del :: "'a::linorder IdSet \<Rightarrow> 'a \<Rightarrow> 'a IdSet" where
  "id_set_del s x \<equiv> fst (id_set_erase s x)"

abbreviation id_set_wf :: "'a::linorder IdSet \<Rightarrow> bool" where
  "id_set_wf s \<equiv> sorted_wrt (<) s"

text \<open>
  The contract of a canonical set: insertion and membership test agree with the mathematical
  set, the returned flag says whether the element was new, and the canonical form is kept.
\<close>

locale sorted_set =
  fixes invar :: "'a list \<Rightarrow> bool"
    and ins :: "'a list \<Rightarrow> 'a \<Rightarrow> 'a list \<times> bool"
    and mem :: "'a list \<Rightarrow> 'a \<Rightarrow> bool"
  assumes set_ins: "set (fst (ins s x)) = insert x (set s)"
    and ins_flag: "invar s \<Longrightarrow> snd (ins s x) \<longleftrightarrow> x \<notin> set s"
    and mem_iff: "invar s \<Longrightarrow> mem s x \<longleftrightarrow> x \<in> set s"
    and invar_empty: "invar []"
    and invar_ins: "invar s \<Longrightarrow> invar (fst (ins s x))"
begin

text \<open>Accumulating a sequence of elements, the way the engine's loops do.\<close>

lemma set_fold_ins: "set (fold (\<lambda>x s. fst (ins s x)) xs s) = set xs \<union> set s"
  by (induction xs arbitrary: s) (auto simp: set_ins)

lemma invar_fold_ins: "invar s \<Longrightarrow> invar (fold (\<lambda>x s. fst (ins s x)) xs s)"
  by (induction xs arbitrary: s) (auto simp: invar_ins)

lemma mem_ins: "invar s \<Longrightarrow> mem (fst (ins s x)) y \<longleftrightarrow> y = x \<or> mem s y"
  by (simp add: mem_iff invar_ins set_ins)

end

lemma set_id_set_add [simp]: "set (id_set_add s x) = insert x (set s)"
  by (induction s) (auto split: prod.split simp: case_prod_beta Let_def)

lemma id_set_wf_add: "id_set_wf s \<Longrightarrow> id_set_wf (id_set_add s x)"
  by (induction s) (auto simp: case_prod_beta Let_def)

lemma id_set_insert_flag: "id_set_wf s \<Longrightarrow> snd (id_set_insert s x) \<longleftrightarrow> x \<notin> set s"
  by (induction s) (auto simp: case_prod_beta Let_def)

lemma id_set_contains_iff: "id_set_wf s \<Longrightarrow> id_set_contains s x \<longleftrightarrow> x \<in> set s"
  by (induction s) auto

interpretation idset: sorted_set id_set_wf id_set_insert id_set_contains
  by unfold_locales
    (auto simp: id_set_wf_add id_set_insert_flag id_set_contains_iff)

declare idset.invar_ins [fcf_wf] idset.invar_fold_ins [fcf_wf]

lemma set_id_set_del: "id_set_wf s \<Longrightarrow> set (id_set_del s x) = set s - {x}"
  by (induction s) (auto simp: case_prod_beta Let_def)

lemma set_id_set_del_subset: "set (id_set_del s x) \<subseteq> set s"
  by (induction s) (auto simp: case_prod_beta Let_def)

lemma id_set_wf_del [fcf_wf]: "id_set_wf s \<Longrightarrow> id_set_wf (id_set_del s x)"
  using set_id_set_del_subset [of _ x]
  by (induction s) (auto simp: case_prod_beta Let_def)

lemma id_set_erase_flag: "id_set_wf s \<Longrightarrow> snd (id_set_erase s x) \<longleftrightarrow> x \<in> set s"
  by (induction s) (auto simp: case_prod_beta Let_def)

lemma id_set_contains_sound: "id_set_contains s x \<Longrightarrow> x \<in> set s"
  by (induction s) (auto split: if_splits)

lemma id_set_wf_unique: "id_set_wf s \<Longrightarrow> id_set_wf t \<Longrightarrow> set s = set t \<Longrightarrow> s = t"
  by (rule strict_sorted_equal)

section \<open>Rendering and parsing\<close>

text \<open>The digit loop of \<open>to_string\<close>, most significant digit first.\<close>

function dec_loop :: "u64 \<Rightarrow> string \<Rightarrow> string" where
  "dec_loop v acc =
     (if v = 0 then acc else dec_loop (v div 10) (digit_char (unat (v mod 10)) # acc))"
  by pat_completeness auto

lemma unat_div_10_less: "(v::u64) \<noteq> 0 \<Longrightarrow> unat (v div 10) < unat v"
proof -
  assume "v \<noteq> 0"
  then have "0 < unat v" by (simp add: unat_gt_0)
  then show ?thesis unfolding unat_div_distrib by simp
qed

termination dec_loop
  by (relation "measure (\<lambda>(v, acc). unat v)") (auto intro: unat_div_10_less)

declare dec_loop.simps [simp del]

definition id_to_string :: "string \<Rightarrow> 'tag Id \<Rightarrow> string" where
  "id_to_string kName i =
     kName @ '':'' @ (if \<not> id_valid i then ''invalid'' else dec_loop (id_value i) [])"

fun parse_digits :: "string \<Rightarrow> u64 \<Rightarrow> u64 option" where
  "parse_digits [] v = Some v"
| "parse_digits (c # text) v =
     (if of_char c < (48::nat) \<or> of_char c > (57::nat) then None
      else
        let digit = of_nat (of_char c - 48) :: u64
        in if v > (- 1 - digit) div 10 then None
           else parse_digits text (v * 10 + digit))"

text \<open>\<open>parse_id\<close>: the result is \<open>None\<close> where the code returns \<open>false\<close>.\<close>

definition parse_id :: "string \<Rightarrow> string \<Rightarrow> 'tag Id option" where
  "parse_id kName text =
     (if text = [] then None
      else if CHR '':'' \<in> set text then
        (if takeWhile (\<lambda>c. c \<noteq> CHR '':'') text \<noteq> kName then None
         else
           let rest = tl (dropWhile (\<lambda>c. c \<noteq> CHR '':'') text)
           in if rest = [] then None else map_option Id (parse_digits rest 0))
      else map_option Id (parse_digits text 0))"

subsection \<open>Decimal values of digit strings\<close>

definition is_digit :: "char \<Rightarrow> bool" where
  "is_digit c \<longleftrightarrow> 48 \<le> (of_char c :: nat) \<and> of_char c \<le> (57::nat)"

fun dec_value :: "string \<Rightarrow> nat \<Rightarrow> nat" where
  "dec_value [] n = n"
| "dec_value (c # ds) n = dec_value ds (10 * n + (of_char c - 48))"

lemma dec_value_mono: "n \<le> dec_value ds n"
proof (induction ds arbitrary: n)
  case (Cons c ds)
  have "n \<le> 10 * n + (of_char c - 48)" by simp
  also have "\<dots> \<le> dec_value ds (10 * n + (of_char c - 48))" by (rule Cons.IH)
  finally show ?case by simp
qed simp

lemma dec_value_append: "dec_value (xs @ ys) n = dec_value ys (dec_value xs n)"
  by (induction xs arbitrary: n) auto

lemma unat_max_u64 [simp]: "unat (- 1 :: u64) = 18446744073709551615"
  by (simp add: unsigned_minus_1_eq_mask mask_eq_exp_minus_1)

lemma unat_lt_u64 [simp]: "unat (v::u64) < 18446744073709551616"
  using unsigned_less [of v, where 'a = nat] by simp

lemma overflow_guard:
  fixes d v :: u64
  assumes "unat d < 10"
  shows "v > (- 1 - d) div 10 \<longleftrightarrow> 2 ^ 64 \<le> 10 * unat v + unat d"
proof -
  have "unat (- 1 - d) = 2 ^ 64 - 1 - unat d"
    by (subst unat_sub) simp_all
  then have "unat ((- 1 - d) div 10) = (2 ^ 64 - 1 - unat d) div 10"
    unfolding unat_div_distrib by simp
  then show ?thesis unfolding word_less_nat_alt using assms by (simp; arith)
qed

lemma accumulate_digit:
  fixes d v :: u64
  assumes "10 * unat v + unat d < 2 ^ 64"
  shows "unat (v * 10 + d) = 10 * unat v + unat d"
  using assms by (simp add: unat_word_ariths mult.commute)

lemma parse_digits_iff:
  "parse_digits ds v = Some r \<longleftrightarrow>
     (\<forall>c \<in> set ds. is_digit c) \<and> dec_value ds (unat v) < 2 ^ 64 \<and>
     unat r = dec_value ds (unat v)"
proof (induction ds arbitrary: v)
  case Nil
  show ?case by (auto simp: word_unat_eq_iff)
next
  case (Cons c ds)
  show ?case
  proof (cases "is_digit c")
    case False
    then show ?thesis by (auto simp: is_digit_def)
  next
    case True
    define d where "d = (of_nat (of_char c - 48) :: u64)"
    have d: "unat d = of_char c - 48" "unat d < 10"
      using True unfolding d_def unat_of_nat is_digit_def by auto
    show ?thesis
    proof (cases "10 * unat v + unat d < 2 ^ 64")
      case fits: True
      then have "\<not> v > (- 1 - d) div 10" using overflow_guard [OF d(2), of v] by linarith
      with True Cons.IH [of "v * 10 + d"] accumulate_digit [OF fits] d(1) show ?thesis
        by (simp add: is_digit_def Let_def flip: d_def)
    next
      case False
      then have "v > (- 1 - d) div 10" using overflow_guard [OF d(2), of v] by linarith
      moreover have "2 ^ 64 \<le> dec_value ds (10 * unat v + (of_char c - 48))"
        using False dec_value_mono [of "10 * unat v + (of_char c - 48)" ds] d(1) by linarith
      ultimately show ?thesis using True by (simp add: is_digit_def Let_def flip: d_def)
    qed
  qed
qed

lemma is_digit_digit_char [simp]: "d < 10 \<Longrightarrow> is_digit (digit_char d)"
  by (simp add: is_digit_def digit_char_def)

lemma of_char_digit_char [simp]: "d < 10 \<Longrightarrow> of_char (digit_char d) = 48 + d"
  by (simp add: digit_char_def)

lemma dec_loop_digits: "(\<forall>c \<in> set acc. is_digit c) \<Longrightarrow> \<forall>c \<in> set (dec_loop v acc). is_digit c"
proof (induction v acc rule: dec_loop.induct)
  case (1 v acc)
  have "unat (v mod 10) < 10" unfolding unat_mod_distrib by simp
  with 1 show ?case by (simp add: dec_loop.simps [of v acc])
qed

lemma dec_value_dec_loop: "dec_value (dec_loop v acc) 0 = dec_value acc (unat v)"
proof (induction v acc rule: dec_loop.induct)
  case (1 v acc)
  have m: "unat (v mod 10) < 10" unfolding unat_mod_distrib by simp
  have "unat v = 10 * unat (v div 10) + unat (v mod 10)"
    unfolding unat_div_distrib unat_mod_distrib by simp
  with 1 m show ?case by (simp add: dec_loop.simps [of v acc])
qed

lemma dec_loop_nonempty: "v \<noteq> 0 \<or> acc \<noteq> [] \<Longrightarrow> dec_loop v acc \<noteq> []"
  by (induction v acc rule: dec_loop.induct) (subst dec_loop.simps, simp)

lemma digits_no_colon: "\<forall>c \<in> set ds. is_digit c \<Longrightarrow> CHR '':'' \<notin> set ds"
  by (auto simp: is_digit_def)

text \<open>
  Rendering and parsing are inverse on every valid identity: \<open>parse_id\<close> reads back exactly
  the identity \<open>to_string\<close> printed, for every domain name without a colon.
\<close>

theorem parse_id_to_string:
  assumes "id_valid i" and "CHR '':'' \<notin> set kName"
  shows "parse_id kName (id_to_string kName i) = Some i"
proof -
  let ?ds = "dec_loop (id_value i) []"
  have nz: "id_value i \<noteq> 0" using assms(1) by (simp add: id_valid_def)
  have "parse_digits ?ds 0 = Some (id_value i)"
    using dec_loop_digits [of "[]" "id_value i"] dec_value_dec_loop [of "id_value i" "[]"]
    by (simp add: parse_digits_iff)
  moreover have "?ds \<noteq> []" using nz by (simp add: dec_loop_nonempty)
  moreover have "takeWhile (\<lambda>c. c \<noteq> CHR '':'') (kName @ '':'' @ ?ds) = kName"
    and "dropWhile (\<lambda>c. c \<noteq> CHR '':'') (kName @ '':'' @ ?ds) = '':'' @ ?ds"
    using assms(2) by (auto simp: takeWhile_append dropWhile_append)
  ultimately show ?thesis
    using assms(1) by (cases i) (auto simp: parse_id_def id_to_string_def)
qed

theorem parse_id_to_string_witness:
  "parse_id ''WorkerId'' (id_to_string ''WorkerId'' (Id 42 :: WorkerId)) = Some (Id 42 :: WorkerId)"
  by (rule parse_id_to_string) simp_all

end
