(* ===== verification/Fcf_Enum.thy ===== *)
theory Fcf_Enum
  imports Fcf_Ids
begin

text \<open>
  Scoped enumerations (\<open>include/fcf/detail/enum_macro.hpp\<close>).

  \<open>FCF_DEFINE_ENUM\<close> declares an enumeration over \<open>std::uint16_t\<close>, a total name table and a
  strict parser. Here an enumeration is a \<open>datatype\<close> with the source's enumerators, the list
  of its enumerators in declaration order (\<open><Enum>_values\<close>) and its name table
  (\<open><Enum>_str\<close>); the underlying value of an enumerator is its position in the list. The
  locale \<open>enum_table\<close> holds what every such table guarantees; each enumeration of the program
  interprets it.
\<close>

section \<open>Underlying values, names and parsing\<close>

fun enum_index :: "'e list \<Rightarrow> 'e \<Rightarrow> nat" where
  "enum_index [] e = 0"
| "enum_index (x # xs) e = (if x = e then 0 else Suc (enum_index xs e))"

definition enum_decode :: "'e list \<Rightarrow> nat \<Rightarrow> 'e option" where
  "enum_decode vals n = (if n < length vals then Some (vals ! n) else None)"

text \<open>\<open>parse_<Enum>\<close>: try every enumerator in order, compare its name with the text.\<close>

definition enum_parse :: "'e list \<Rightarrow> ('e \<Rightarrow> string) \<Rightarrow> string \<Rightarrow> 'e option" where
  "enum_parse vals to_str s = find (\<lambda>e. to_str e = s) vals"

section \<open>Enumeration sets\<close>

type_synonym 'e EnumSet = "'e list"

fun enum_set_contains :: "('e \<Rightarrow> nat) \<Rightarrow> 'e EnumSet \<Rightarrow> 'e \<Rightarrow> bool" where
  "enum_set_contains key [] v = False"
| "enum_set_contains key (entry # s) v =
     (if key entry = key v then True
      else if key entry > key v then False
      else enum_set_contains key s v)"

fun enum_set_insert :: "('e \<Rightarrow> nat) \<Rightarrow> 'e EnumSet \<Rightarrow> 'e \<Rightarrow> 'e EnumSet \<times> bool" where
  "enum_set_insert key [] v = ([v], True)"
| "enum_set_insert key (entry # s) v =
     (if key entry < key v then (let (s', b) = enum_set_insert key s v in (entry # s', b))
      else if key entry = key v then (entry # s, False)
      else (v # entry # s, True))"

text \<open>\<open>std::sort\<close> by underlying value, then \<open>std::unique\<close>.\<close>

definition enum_set_normalize :: "('e \<Rightarrow> nat) \<Rightarrow> 'e EnumSet \<Rightarrow> 'e EnumSet" where
  "enum_set_normalize key s = remdups_adj (sort_key key s)"

section \<open>The contract of an enumeration\<close>

lemma enum_index_less: "e \<in> set vals \<Longrightarrow> enum_index vals e < length vals"
  by (induction vals) auto

lemma nth_enum_index: "e \<in> set vals \<Longrightarrow> vals ! enum_index vals e = e"
  by (induction vals) auto

locale enum_table =
  fixes vals :: "'e list"
    and to_str :: "'e \<Rightarrow> string"
  assumes set_vals: "set vals = UNIV"
    and distinct_vals: "distinct vals"
    and distinct_names: "distinct (map to_str vals)"
    and fits_u16: "length vals < 65536"
begin

lemma index_less: "enum_index vals e < length vals"
  by (simp add: enum_index_less set_vals)

lemma decode_index: "enum_decode vals (enum_index vals e) = Some e"
  by (simp add: enum_decode_def index_less nth_enum_index set_vals)

lemma decode_sound: "enum_decode vals n = Some e \<Longrightarrow> enum_index vals e = n"
proof -
  assume "enum_decode vals n = Some e"
  then have n: "n < length vals" "vals ! n = e" by (auto simp: enum_decode_def split: if_splits)
  have "vals ! enum_index vals e = e" using set_vals by (simp add: nth_enum_index)
  with n index_less [of e] distinct_vals show ?thesis
    using nth_eq_iff_index_eq by metis
qed

lemma index_inj: "enum_index vals a = enum_index vals b \<longleftrightarrow> a = b"
  by (metis decode_index option.inject)

lemma to_str_inj: "to_str a = to_str b \<longleftrightarrow> a = b"
  using distinct_names set_vals by (auto simp: distinct_map inj_on_def)

lemma parse_to_str: "enum_parse vals to_str (to_str e) = Some e"
proof -
  have "enum_parse vals to_str (to_str e) \<noteq> None"
    using set_vals by (auto simp: enum_parse_def find_None_iff)
  then obtain e' where e': "enum_parse vals to_str (to_str e) = Some e'" by blast
  then have "to_str e' = to_str e" by (auto simp: enum_parse_def find_Some_iff)
  with e' show ?thesis by (simp add: to_str_inj)
qed

lemma parse_sound: "enum_parse vals to_str s = Some e \<Longrightarrow> to_str e = s"
  by (auto simp: enum_parse_def find_Some_iff)

lemma key_wf_insert:
  "sorted_wrt (\<lambda>a b. enum_index vals a < enum_index vals b) s \<Longrightarrow>
   sorted_wrt (\<lambda>a b. enum_index vals a < enum_index vals b)
     (fst (enum_set_insert (enum_index vals) s x))"
proof (induction s)
  case (Cons a s)
  have "set (fst (enum_set_insert (enum_index vals) s x)) = insert x (set s)"
    by (induction s) (auto simp: case_prod_beta Let_def index_inj)
  with Cons show ?case by (auto simp: case_prod_beta Let_def)
qed simp

end

sublocale enum_table < es: sorted_set
  "sorted_wrt (\<lambda>a b. enum_index vals a < enum_index vals b)"
  "enum_set_insert (enum_index vals)" "enum_set_contains (enum_index vals)"
proof (unfold_locales, goal_cases)
  case (1 s x)
  show ?case by (induction s) (auto simp: case_prod_beta Let_def index_inj)
next
  case (2 s x)
  then show ?case by (induction s) (auto simp: case_prod_beta Let_def index_inj)
next
  case (3 s x)
  then show ?case by (induction s) (auto simp: index_inj)
next
  case 4
  show ?case by simp
next
  case (5 s x)
  then show ?case by (rule key_wf_insert)
qed

context enum_table
begin

lemma normalize_set: "set (enum_set_normalize (enum_index vals) s) = set s"
  by (simp add: enum_set_normalize_def)

lemma normalize_sorted:
  "sorted_wrt (\<lambda>a b. enum_index vals a < enum_index vals b)
     (enum_set_normalize (enum_index vals) s)"
proof -
  have "sorted (map (enum_index vals) t) \<Longrightarrow>
    sorted_wrt (\<lambda>a b. enum_index vals a < enum_index vals b) (remdups_adj t)" for t
  proof (induction t rule: remdups_adj.induct)
    case (3 x y xs)
    then show ?case by (force simp: index_inj le_less)
  qed auto
  then show ?thesis by (simp add: enum_set_normalize_def)
qed

end

end
