(* ===== verification/Fcf_Error.thy ===== *)
theory Fcf_Error
  imports Fcf_Enum
begin

text \<open>
  Typed errors and results (\<open>include/fcf/error.hpp\<close>, \<open>include/fcf/result.hpp\<close>,
  \<open>src/error.cpp\<close>). \<open>Result<T>\<close> is \<open>Error + 'a\<close> with \<open>Inl\<close> for the error, \<open>Status\<close> a
  result over \<open>unit\<close>.
\<close>

datatype (plugins only: code size) ErrorCode =
    OK
  | INVALID_ARGUMENT
  | INVALID_ID
  | INVALID_DOMAIN_GRAPH
  | INVALID_DEPENDENCY
  | UNKNOWN_RESOURCE
  | UNKNOWN_DOMAIN
  | UNKNOWN_WORKER
  | UNKNOWN_FAULT
  | UNKNOWN_ACTION
  | UNKNOWN_CONTAINMENT
  | DUPLICATE_ID
  | DUPLICATE_CONFLICT
  | STALE_EPOCH
  | STALE_WORKER
  | STALE_WORKER_BOOT
  | STALE_FAULT_GENERATION
  | STALE_POLICY_GENERATION
  | STALE_TOPOLOGY_GENERATION
  | STALE_RESOURCE_GENERATION
  | STALE_ACTION_GENERATION
  | STALE_CONTAINMENT_GENERATION
  | STALE_EVIDENCE
  | FAULT_NOT_CURRENT
  | FAULT_NOT_ACTIONABLE
  | CONTAINMENT_ALREADY_COMMITTED
  | NO_LEGAL_CONTAINMENT
  | ACTION_INFEASIBLE
  | ACTION_REVALIDATION_FAILED
  | EXECUTOR_UNAVAILABLE
  | PROPAGATION_UNKNOWN
  | DEGRADED_MODE_FORBIDDEN
  | RELEASE_FORBIDDEN
  | REVALIDATION_REQUIRED
  | VERIFICATION_REQUIRED
  | POLICY_INVALID
  | PERSISTENCE_CORRUPT
  | PERSISTENCE_UNSUPPORTED_VERSION
  | PERSISTENCE_IO
  | FRAME_CORRUPT
  | FRAME_TOO_LARGE
  | PROTOCOL_VERSION_UNSUPPORTED
  | BUDGET_EXHAUSTED
  | RESOURCE_EXHAUSTED
  | NOT_FOUND
  | BUSY
  | SHUTTING_DOWN
  | CANCELLED
  | UNSUPPORTED
  | CAPABILITY_ABSENT
  | INTERNAL

definition ErrorCode_values :: "ErrorCode list" where
  "ErrorCode_values = [
     ErrorCode.OK, ErrorCode.INVALID_ARGUMENT, ErrorCode.INVALID_ID,
     ErrorCode.INVALID_DOMAIN_GRAPH, ErrorCode.INVALID_DEPENDENCY, ErrorCode.UNKNOWN_RESOURCE,
     ErrorCode.UNKNOWN_DOMAIN, ErrorCode.UNKNOWN_WORKER, ErrorCode.UNKNOWN_FAULT,
     ErrorCode.UNKNOWN_ACTION, ErrorCode.UNKNOWN_CONTAINMENT, ErrorCode.DUPLICATE_ID,
     ErrorCode.DUPLICATE_CONFLICT, ErrorCode.STALE_EPOCH, ErrorCode.STALE_WORKER,
     ErrorCode.STALE_WORKER_BOOT, ErrorCode.STALE_FAULT_GENERATION, ErrorCode.STALE_POLICY_GENERATION,
     ErrorCode.STALE_TOPOLOGY_GENERATION, ErrorCode.STALE_RESOURCE_GENERATION, ErrorCode.STALE_ACTION_GENERATION,
     ErrorCode.STALE_CONTAINMENT_GENERATION, ErrorCode.STALE_EVIDENCE, ErrorCode.FAULT_NOT_CURRENT,
     ErrorCode.FAULT_NOT_ACTIONABLE, ErrorCode.CONTAINMENT_ALREADY_COMMITTED, ErrorCode.NO_LEGAL_CONTAINMENT,
     ErrorCode.ACTION_INFEASIBLE, ErrorCode.ACTION_REVALIDATION_FAILED, ErrorCode.EXECUTOR_UNAVAILABLE,
     ErrorCode.PROPAGATION_UNKNOWN, ErrorCode.DEGRADED_MODE_FORBIDDEN, ErrorCode.RELEASE_FORBIDDEN,
     ErrorCode.REVALIDATION_REQUIRED, ErrorCode.VERIFICATION_REQUIRED, ErrorCode.POLICY_INVALID,
     ErrorCode.PERSISTENCE_CORRUPT, ErrorCode.PERSISTENCE_UNSUPPORTED_VERSION, ErrorCode.PERSISTENCE_IO,
     ErrorCode.FRAME_CORRUPT, ErrorCode.FRAME_TOO_LARGE, ErrorCode.PROTOCOL_VERSION_UNSUPPORTED,
     ErrorCode.BUDGET_EXHAUSTED, ErrorCode.RESOURCE_EXHAUSTED, ErrorCode.NOT_FOUND,
     ErrorCode.BUSY, ErrorCode.SHUTTING_DOWN, ErrorCode.CANCELLED,
     ErrorCode.UNSUPPORTED, ErrorCode.CAPABILITY_ABSENT, ErrorCode.INTERNAL]"

primrec ErrorCode_str :: "ErrorCode \<Rightarrow> string" where
  "ErrorCode_str ErrorCode.OK = ''OK''"
| "ErrorCode_str ErrorCode.INVALID_ARGUMENT = ''INVALID_ARGUMENT''"
| "ErrorCode_str ErrorCode.INVALID_ID = ''INVALID_ID''"
| "ErrorCode_str ErrorCode.INVALID_DOMAIN_GRAPH = ''INVALID_DOMAIN_GRAPH''"
| "ErrorCode_str ErrorCode.INVALID_DEPENDENCY = ''INVALID_DEPENDENCY''"
| "ErrorCode_str ErrorCode.UNKNOWN_RESOURCE = ''UNKNOWN_RESOURCE''"
| "ErrorCode_str ErrorCode.UNKNOWN_DOMAIN = ''UNKNOWN_DOMAIN''"
| "ErrorCode_str ErrorCode.UNKNOWN_WORKER = ''UNKNOWN_WORKER''"
| "ErrorCode_str ErrorCode.UNKNOWN_FAULT = ''UNKNOWN_FAULT''"
| "ErrorCode_str ErrorCode.UNKNOWN_ACTION = ''UNKNOWN_ACTION''"
| "ErrorCode_str ErrorCode.UNKNOWN_CONTAINMENT = ''UNKNOWN_CONTAINMENT''"
| "ErrorCode_str ErrorCode.DUPLICATE_ID = ''DUPLICATE_ID''"
| "ErrorCode_str ErrorCode.DUPLICATE_CONFLICT = ''DUPLICATE_CONFLICT''"
| "ErrorCode_str ErrorCode.STALE_EPOCH = ''STALE_EPOCH''"
| "ErrorCode_str ErrorCode.STALE_WORKER = ''STALE_WORKER''"
| "ErrorCode_str ErrorCode.STALE_WORKER_BOOT = ''STALE_WORKER_BOOT''"
| "ErrorCode_str ErrorCode.STALE_FAULT_GENERATION = ''STALE_FAULT_GENERATION''"
| "ErrorCode_str ErrorCode.STALE_POLICY_GENERATION = ''STALE_POLICY_GENERATION''"
| "ErrorCode_str ErrorCode.STALE_TOPOLOGY_GENERATION = ''STALE_TOPOLOGY_GENERATION''"
| "ErrorCode_str ErrorCode.STALE_RESOURCE_GENERATION = ''STALE_RESOURCE_GENERATION''"
| "ErrorCode_str ErrorCode.STALE_ACTION_GENERATION = ''STALE_ACTION_GENERATION''"
| "ErrorCode_str ErrorCode.STALE_CONTAINMENT_GENERATION = ''STALE_CONTAINMENT_GENERATION''"
| "ErrorCode_str ErrorCode.STALE_EVIDENCE = ''STALE_EVIDENCE''"
| "ErrorCode_str ErrorCode.FAULT_NOT_CURRENT = ''FAULT_NOT_CURRENT''"
| "ErrorCode_str ErrorCode.FAULT_NOT_ACTIONABLE = ''FAULT_NOT_ACTIONABLE''"
| "ErrorCode_str ErrorCode.CONTAINMENT_ALREADY_COMMITTED = ''CONTAINMENT_ALREADY_COMMITTED''"
| "ErrorCode_str ErrorCode.NO_LEGAL_CONTAINMENT = ''NO_LEGAL_CONTAINMENT''"
| "ErrorCode_str ErrorCode.ACTION_INFEASIBLE = ''ACTION_INFEASIBLE''"
| "ErrorCode_str ErrorCode.ACTION_REVALIDATION_FAILED = ''ACTION_REVALIDATION_FAILED''"
| "ErrorCode_str ErrorCode.EXECUTOR_UNAVAILABLE = ''EXECUTOR_UNAVAILABLE''"
| "ErrorCode_str ErrorCode.PROPAGATION_UNKNOWN = ''PROPAGATION_UNKNOWN''"
| "ErrorCode_str ErrorCode.DEGRADED_MODE_FORBIDDEN = ''DEGRADED_MODE_FORBIDDEN''"
| "ErrorCode_str ErrorCode.RELEASE_FORBIDDEN = ''RELEASE_FORBIDDEN''"
| "ErrorCode_str ErrorCode.REVALIDATION_REQUIRED = ''REVALIDATION_REQUIRED''"
| "ErrorCode_str ErrorCode.VERIFICATION_REQUIRED = ''VERIFICATION_REQUIRED''"
| "ErrorCode_str ErrorCode.POLICY_INVALID = ''POLICY_INVALID''"
| "ErrorCode_str ErrorCode.PERSISTENCE_CORRUPT = ''PERSISTENCE_CORRUPT''"
| "ErrorCode_str ErrorCode.PERSISTENCE_UNSUPPORTED_VERSION = ''PERSISTENCE_UNSUPPORTED_VERSION''"
| "ErrorCode_str ErrorCode.PERSISTENCE_IO = ''PERSISTENCE_IO''"
| "ErrorCode_str ErrorCode.FRAME_CORRUPT = ''FRAME_CORRUPT''"
| "ErrorCode_str ErrorCode.FRAME_TOO_LARGE = ''FRAME_TOO_LARGE''"
| "ErrorCode_str ErrorCode.PROTOCOL_VERSION_UNSUPPORTED = ''PROTOCOL_VERSION_UNSUPPORTED''"
| "ErrorCode_str ErrorCode.BUDGET_EXHAUSTED = ''BUDGET_EXHAUSTED''"
| "ErrorCode_str ErrorCode.RESOURCE_EXHAUSTED = ''RESOURCE_EXHAUSTED''"
| "ErrorCode_str ErrorCode.NOT_FOUND = ''NOT_FOUND''"
| "ErrorCode_str ErrorCode.BUSY = ''BUSY''"
| "ErrorCode_str ErrorCode.SHUTTING_DOWN = ''SHUTTING_DOWN''"
| "ErrorCode_str ErrorCode.CANCELLED = ''CANCELLED''"
| "ErrorCode_str ErrorCode.UNSUPPORTED = ''UNSUPPORTED''"
| "ErrorCode_str ErrorCode.CAPABILITY_ABSENT = ''CAPABILITY_ABSENT''"
| "ErrorCode_str ErrorCode.INTERNAL = ''INTERNAL''"

lemma ErrorCode_set_values: "set ErrorCode_values = UNIV"
proof -
  have "x \<in> set ErrorCode_values" for x by (cases x) (simp_all add: ErrorCode_values_def)
  then show ?thesis by blast
qed

interpretation en_ErrorCode: enum_table ErrorCode_values ErrorCode_str
  by unfold_locales
    (rule ErrorCode_set_values, code_simp, code_simp, simp add: ErrorCode_values_def)

record Error =
  err_code :: ErrorCode
  err_message :: string
  err_stage :: string
  err_context :: string

type_synonym 'a Result = "Error + 'a"
type_synonym Status = "unit Result"

definition make_error :: "ErrorCode \<Rightarrow> string \<Rightarrow> string \<Rightarrow> string \<Rightarrow> Error" where
  "make_error code stage message context =
     \<lparr>err_code = code, err_message = message, err_stage = stage, err_context = context\<rparr>"

abbreviation fail :: "ErrorCode \<Rightarrow> string \<Rightarrow> string \<Rightarrow> string \<Rightarrow> 'a Result" where
  "fail code stage message context \<equiv> Inl (make_error code stage message context)"

abbreviation ok_status :: Status where
  "ok_status \<equiv> Inr ()"

definition is_stale :: "ErrorCode \<Rightarrow> bool" where
  "is_stale code \<longleftrightarrow> code \<in> set [
     ErrorCode.STALE_EPOCH, ErrorCode.STALE_WORKER, ErrorCode.STALE_WORKER_BOOT,
     ErrorCode.STALE_FAULT_GENERATION, ErrorCode.STALE_POLICY_GENERATION,
     ErrorCode.STALE_TOPOLOGY_GENERATION, ErrorCode.STALE_RESOURCE_GENERATION,
     ErrorCode.STALE_ACTION_GENERATION, ErrorCode.STALE_CONTAINMENT_GENERATION,
     ErrorCode.STALE_EVIDENCE]"

definition is_integrity_failure :: "ErrorCode \<Rightarrow> bool" where
  "is_integrity_failure code \<longleftrightarrow> code \<in> set [
     ErrorCode.PERSISTENCE_CORRUPT, ErrorCode.PERSISTENCE_UNSUPPORTED_VERSION,
     ErrorCode.FRAME_CORRUPT, ErrorCode.FRAME_TOO_LARGE,
     ErrorCode.PROTOCOL_VERSION_UNSUPPORTED, ErrorCode.DUPLICATE_CONFLICT]"

definition Error_to_string :: "Error \<Rightarrow> string" where
  "Error_to_string e =
     (if err_stage e = [] then [] else err_stage e @ '':'') @
     ErrorCode_str (err_code e) @
     (if err_context e = [] then [] else '' '' @ err_context e) @
     (if err_message e = [] then [] else '': '' @ err_message e)"

lemma make_error_code [simp]: "err_code (make_error c s m x) = c"
  by (simp add: make_error_def)

end
