(* ===== verification/Fcf_Evidence.thy ===== *)
theory Fcf_Evidence
  imports Fcf_Enum
begin

text \<open>
  Evidence trust and enforcement mechanisms (\<open>include/fcf/evidence.hpp\<close>).
\<close>

datatype EvidenceProvenance =
    WORKER_REPORT
  | COORDINATOR_OBSERVATION
  | OPERATOR
  | TOPOLOGY_IMPORT
  | SYNTHETIC_INJECTION
  | DERIVED
  | UNKNOWN

definition EvidenceProvenance_values :: "EvidenceProvenance list" where
  "EvidenceProvenance_values = [
     EvidenceProvenance.WORKER_REPORT, EvidenceProvenance.COORDINATOR_OBSERVATION, EvidenceProvenance.OPERATOR,
     EvidenceProvenance.TOPOLOGY_IMPORT, EvidenceProvenance.SYNTHETIC_INJECTION, EvidenceProvenance.DERIVED,
     EvidenceProvenance.UNKNOWN]"

primrec EvidenceProvenance_str :: "EvidenceProvenance \<Rightarrow> string" where
  "EvidenceProvenance_str EvidenceProvenance.WORKER_REPORT = ''WORKER_REPORT''"
| "EvidenceProvenance_str EvidenceProvenance.COORDINATOR_OBSERVATION = ''COORDINATOR_OBSERVATION''"
| "EvidenceProvenance_str EvidenceProvenance.OPERATOR = ''OPERATOR''"
| "EvidenceProvenance_str EvidenceProvenance.TOPOLOGY_IMPORT = ''TOPOLOGY_IMPORT''"
| "EvidenceProvenance_str EvidenceProvenance.SYNTHETIC_INJECTION = ''SYNTHETIC_INJECTION''"
| "EvidenceProvenance_str EvidenceProvenance.DERIVED = ''DERIVED''"
| "EvidenceProvenance_str EvidenceProvenance.UNKNOWN = ''UNKNOWN''"

lemma EvidenceProvenance_set_values: "set EvidenceProvenance_values = UNIV"
proof -
  have "x \<in> set EvidenceProvenance_values" for x by (cases x) (simp_all add: EvidenceProvenance_values_def)
  then show ?thesis by blast
qed

interpretation en_EvidenceProvenance: enum_table EvidenceProvenance_values EvidenceProvenance_str
  by unfold_locales
    (rule EvidenceProvenance_set_values, code_simp, code_simp, simp add: EvidenceProvenance_values_def)

datatype EvidenceFreshness =
    FRESH
  | AGING
  | STALE
  | REVALIDATION_REQUIRED
  | UNKNOWN

definition EvidenceFreshness_values :: "EvidenceFreshness list" where
  "EvidenceFreshness_values = [
     EvidenceFreshness.FRESH, EvidenceFreshness.AGING, EvidenceFreshness.STALE,
     EvidenceFreshness.REVALIDATION_REQUIRED, EvidenceFreshness.UNKNOWN]"

primrec EvidenceFreshness_str :: "EvidenceFreshness \<Rightarrow> string" where
  "EvidenceFreshness_str EvidenceFreshness.FRESH = ''FRESH''"
| "EvidenceFreshness_str EvidenceFreshness.AGING = ''AGING''"
| "EvidenceFreshness_str EvidenceFreshness.STALE = ''STALE''"
| "EvidenceFreshness_str EvidenceFreshness.REVALIDATION_REQUIRED = ''REVALIDATION_REQUIRED''"
| "EvidenceFreshness_str EvidenceFreshness.UNKNOWN = ''UNKNOWN''"

lemma EvidenceFreshness_set_values: "set EvidenceFreshness_values = UNIV"
proof -
  have "x \<in> set EvidenceFreshness_values" for x by (cases x) (simp_all add: EvidenceFreshness_values_def)
  then show ?thesis by blast
qed

interpretation en_EvidenceFreshness: enum_table EvidenceFreshness_values EvidenceFreshness_str
  by unfold_locales
    (rule EvidenceFreshness_set_values, code_simp, code_simp, simp add: EvidenceFreshness_values_def)

definition is_proof_of_freshness :: "EvidenceFreshness \<Rightarrow> bool" where
  "is_proof_of_freshness f \<longleftrightarrow> f = EvidenceFreshness.FRESH"

datatype IntegrityStatus =
    VERIFIED
  | UNVERIFIED
  | SUSPECT
  | CORRUPT

definition IntegrityStatus_values :: "IntegrityStatus list" where
  "IntegrityStatus_values = [
     IntegrityStatus.VERIFIED, IntegrityStatus.UNVERIFIED, IntegrityStatus.SUSPECT,
     IntegrityStatus.CORRUPT]"

primrec IntegrityStatus_str :: "IntegrityStatus \<Rightarrow> string" where
  "IntegrityStatus_str IntegrityStatus.VERIFIED = ''VERIFIED''"
| "IntegrityStatus_str IntegrityStatus.UNVERIFIED = ''UNVERIFIED''"
| "IntegrityStatus_str IntegrityStatus.SUSPECT = ''SUSPECT''"
| "IntegrityStatus_str IntegrityStatus.CORRUPT = ''CORRUPT''"

lemma IntegrityStatus_set_values: "set IntegrityStatus_values = UNIV"
proof -
  have "x \<in> set IntegrityStatus_values" for x by (cases x) (simp_all add: IntegrityStatus_values_def)
  then show ?thesis by blast
qed

interpretation en_IntegrityStatus: enum_table IntegrityStatus_values IntegrityStatus_str
  by unfold_locales
    (rule IntegrityStatus_set_values, code_simp, code_simp, simp add: IntegrityStatus_values_def)

datatype ContainmentMechanism =
    NONE
  | LOGICAL_CONTAINMENT
  | PROCESS_CONTAINMENT
  | RESOURCE_CONTAINMENT
  | HARDWARE_ENFORCED_CONTAINMENT
  | SYNTHETIC_CONTAINMENT
  | UNSUPPORTED_CONTAINMENT

definition ContainmentMechanism_values :: "ContainmentMechanism list" where
  "ContainmentMechanism_values = [
     ContainmentMechanism.NONE, ContainmentMechanism.LOGICAL_CONTAINMENT, ContainmentMechanism.PROCESS_CONTAINMENT,
     ContainmentMechanism.RESOURCE_CONTAINMENT, ContainmentMechanism.HARDWARE_ENFORCED_CONTAINMENT, ContainmentMechanism.SYNTHETIC_CONTAINMENT,
     ContainmentMechanism.UNSUPPORTED_CONTAINMENT]"

primrec ContainmentMechanism_str :: "ContainmentMechanism \<Rightarrow> string" where
  "ContainmentMechanism_str ContainmentMechanism.NONE = ''NONE''"
| "ContainmentMechanism_str ContainmentMechanism.LOGICAL_CONTAINMENT = ''LOGICAL_CONTAINMENT''"
| "ContainmentMechanism_str ContainmentMechanism.PROCESS_CONTAINMENT = ''PROCESS_CONTAINMENT''"
| "ContainmentMechanism_str ContainmentMechanism.RESOURCE_CONTAINMENT = ''RESOURCE_CONTAINMENT''"
| "ContainmentMechanism_str ContainmentMechanism.HARDWARE_ENFORCED_CONTAINMENT = ''HARDWARE_ENFORCED_CONTAINMENT''"
| "ContainmentMechanism_str ContainmentMechanism.SYNTHETIC_CONTAINMENT = ''SYNTHETIC_CONTAINMENT''"
| "ContainmentMechanism_str ContainmentMechanism.UNSUPPORTED_CONTAINMENT = ''UNSUPPORTED_CONTAINMENT''"

lemma ContainmentMechanism_set_values: "set ContainmentMechanism_values = UNIV"
proof -
  have "x \<in> set ContainmentMechanism_values" for x by (cases x) (simp_all add: ContainmentMechanism_values_def)
  then show ?thesis by blast
qed

interpretation en_ContainmentMechanism: enum_table ContainmentMechanism_values ContainmentMechanism_str
  by unfold_locales
    (rule ContainmentMechanism_set_values, code_simp, code_simp, simp add: ContainmentMechanism_values_def)

definition is_physically_enforcing :: "ContainmentMechanism \<Rightarrow> bool" where
  "is_physically_enforcing mechanism = (case mechanism of
       ContainmentMechanism.PROCESS_CONTAINMENT \<Rightarrow> True
     | ContainmentMechanism.HARDWARE_ENFORCED_CONTAINMENT \<Rightarrow> True
     | _ \<Rightarrow> False)"

definition mechanism_fails_closed :: "ContainmentMechanism \<Rightarrow> bool" where
  "mechanism_fails_closed mechanism \<longleftrightarrow> mechanism \<noteq> ContainmentMechanism.NONE"

end
