(* ===== verification/Fcf_Actions.thy ===== *)
theory Fcf_Actions
  imports Fcf_Error Fcf_Evidence
begin

text \<open>
  Containment actions, authority envelopes and executor messages
  (\<open>include/fcf/actions.hpp\<close>, \<open>src/actions.cpp\<close>).
\<close>

datatype (plugins only: code size) ContainmentActionKind =
    NO_ACTION_REQUIRED
  | OBSERVE
  | FENCE_PROCESS
  | FENCE_WORKER
  | FENCE_ATTEMPT
  | FENCE_DEVICE
  | FENCE_RESOURCE_SET
  | QUARANTINE_RESOURCE
  | QUARANTINE_DOMAIN
  | DRAIN_DOMAIN
  | DISABLE_ADMISSION
  | REVOKE_AUTHORITY
  | REVOKE_RESERVATION
  | REVOKE_ROUTE
  | REVOKE_REGISTRATION
  | DEGRADE_SERVICE
  | REQUIRE_REVALIDATION
  | ESCALATE_CONTAINMENT
  | FULL_DOMAIN_ISOLATION
  | OUTCOME_UNKNOWN

definition ContainmentActionKind_values :: "ContainmentActionKind list" where
  "ContainmentActionKind_values = [
     ContainmentActionKind.NO_ACTION_REQUIRED, ContainmentActionKind.OBSERVE, ContainmentActionKind.FENCE_PROCESS,
     ContainmentActionKind.FENCE_WORKER, ContainmentActionKind.FENCE_ATTEMPT, ContainmentActionKind.FENCE_DEVICE,
     ContainmentActionKind.FENCE_RESOURCE_SET, ContainmentActionKind.QUARANTINE_RESOURCE, ContainmentActionKind.QUARANTINE_DOMAIN,
     ContainmentActionKind.DRAIN_DOMAIN, ContainmentActionKind.DISABLE_ADMISSION, ContainmentActionKind.REVOKE_AUTHORITY,
     ContainmentActionKind.REVOKE_RESERVATION, ContainmentActionKind.REVOKE_ROUTE, ContainmentActionKind.REVOKE_REGISTRATION,
     ContainmentActionKind.DEGRADE_SERVICE, ContainmentActionKind.REQUIRE_REVALIDATION, ContainmentActionKind.ESCALATE_CONTAINMENT,
     ContainmentActionKind.FULL_DOMAIN_ISOLATION, ContainmentActionKind.OUTCOME_UNKNOWN]"

primrec ContainmentActionKind_str :: "ContainmentActionKind \<Rightarrow> string" where
  "ContainmentActionKind_str ContainmentActionKind.NO_ACTION_REQUIRED = ''NO_ACTION_REQUIRED''"
| "ContainmentActionKind_str ContainmentActionKind.OBSERVE = ''OBSERVE''"
| "ContainmentActionKind_str ContainmentActionKind.FENCE_PROCESS = ''FENCE_PROCESS''"
| "ContainmentActionKind_str ContainmentActionKind.FENCE_WORKER = ''FENCE_WORKER''"
| "ContainmentActionKind_str ContainmentActionKind.FENCE_ATTEMPT = ''FENCE_ATTEMPT''"
| "ContainmentActionKind_str ContainmentActionKind.FENCE_DEVICE = ''FENCE_DEVICE''"
| "ContainmentActionKind_str ContainmentActionKind.FENCE_RESOURCE_SET = ''FENCE_RESOURCE_SET''"
| "ContainmentActionKind_str ContainmentActionKind.QUARANTINE_RESOURCE = ''QUARANTINE_RESOURCE''"
| "ContainmentActionKind_str ContainmentActionKind.QUARANTINE_DOMAIN = ''QUARANTINE_DOMAIN''"
| "ContainmentActionKind_str ContainmentActionKind.DRAIN_DOMAIN = ''DRAIN_DOMAIN''"
| "ContainmentActionKind_str ContainmentActionKind.DISABLE_ADMISSION = ''DISABLE_ADMISSION''"
| "ContainmentActionKind_str ContainmentActionKind.REVOKE_AUTHORITY = ''REVOKE_AUTHORITY''"
| "ContainmentActionKind_str ContainmentActionKind.REVOKE_RESERVATION = ''REVOKE_RESERVATION''"
| "ContainmentActionKind_str ContainmentActionKind.REVOKE_ROUTE = ''REVOKE_ROUTE''"
| "ContainmentActionKind_str ContainmentActionKind.REVOKE_REGISTRATION = ''REVOKE_REGISTRATION''"
| "ContainmentActionKind_str ContainmentActionKind.DEGRADE_SERVICE = ''DEGRADE_SERVICE''"
| "ContainmentActionKind_str ContainmentActionKind.REQUIRE_REVALIDATION = ''REQUIRE_REVALIDATION''"
| "ContainmentActionKind_str ContainmentActionKind.ESCALATE_CONTAINMENT = ''ESCALATE_CONTAINMENT''"
| "ContainmentActionKind_str ContainmentActionKind.FULL_DOMAIN_ISOLATION = ''FULL_DOMAIN_ISOLATION''"
| "ContainmentActionKind_str ContainmentActionKind.OUTCOME_UNKNOWN = ''OUTCOME_UNKNOWN''"

lemma ContainmentActionKind_set_values: "set ContainmentActionKind_values = UNIV"
proof -
  have "x \<in> set ContainmentActionKind_values" for x by (cases x) (simp_all add: ContainmentActionKind_values_def)
  then show ?thesis by blast
qed

interpretation en_ContainmentActionKind: enum_table ContainmentActionKind_values ContainmentActionKind_str
  by unfold_locales
    (rule ContainmentActionKind_set_values, code_simp, code_simp, simp add: ContainmentActionKind_values_def)

definition is_enforcing_action :: "ContainmentActionKind \<Rightarrow> bool" where
  "is_enforcing_action kind \<longleftrightarrow> kind \<notin> set [
     ContainmentActionKind.NO_ACTION_REQUIRED, ContainmentActionKind.OBSERVE,
     ContainmentActionKind.REQUIRE_REVALIDATION, ContainmentActionKind.OUTCOME_UNKNOWN]"

definition is_destructive_action :: "ContainmentActionKind \<Rightarrow> bool" where
  "is_destructive_action kind \<longleftrightarrow> kind \<in> set [
     ContainmentActionKind.FENCE_PROCESS, ContainmentActionKind.FENCE_WORKER,
     ContainmentActionKind.FENCE_DEVICE, ContainmentActionKind.QUARANTINE_RESOURCE,
     ContainmentActionKind.QUARANTINE_DOMAIN, ContainmentActionKind.FULL_DOMAIN_ISOLATION]"

datatype (plugins only: code size) ActionStatus =
    CANDIDATE
  | REJECTED_INFEASIBLE
  | REJECTED_UNSAFE
  | PLANNED
  | AUTHORIZED
  | DISPATCHED
  | ACKNOWLEDGED
  | RESULT_RECORDED
  | VERIFIED_EFFECTIVE
  | VERIFIED_INEFFECTIVE
  | AMBIGUOUS
  | SUPERSEDED
  | CANCELLED

definition ActionStatus_values :: "ActionStatus list" where
  "ActionStatus_values = [
     ActionStatus.CANDIDATE, ActionStatus.REJECTED_INFEASIBLE, ActionStatus.REJECTED_UNSAFE,
     ActionStatus.PLANNED, ActionStatus.AUTHORIZED, ActionStatus.DISPATCHED,
     ActionStatus.ACKNOWLEDGED, ActionStatus.RESULT_RECORDED, ActionStatus.VERIFIED_EFFECTIVE,
     ActionStatus.VERIFIED_INEFFECTIVE, ActionStatus.AMBIGUOUS, ActionStatus.SUPERSEDED,
     ActionStatus.CANCELLED]"

primrec ActionStatus_str :: "ActionStatus \<Rightarrow> string" where
  "ActionStatus_str ActionStatus.CANDIDATE = ''CANDIDATE''"
| "ActionStatus_str ActionStatus.REJECTED_INFEASIBLE = ''REJECTED_INFEASIBLE''"
| "ActionStatus_str ActionStatus.REJECTED_UNSAFE = ''REJECTED_UNSAFE''"
| "ActionStatus_str ActionStatus.PLANNED = ''PLANNED''"
| "ActionStatus_str ActionStatus.AUTHORIZED = ''AUTHORIZED''"
| "ActionStatus_str ActionStatus.DISPATCHED = ''DISPATCHED''"
| "ActionStatus_str ActionStatus.ACKNOWLEDGED = ''ACKNOWLEDGED''"
| "ActionStatus_str ActionStatus.RESULT_RECORDED = ''RESULT_RECORDED''"
| "ActionStatus_str ActionStatus.VERIFIED_EFFECTIVE = ''VERIFIED_EFFECTIVE''"
| "ActionStatus_str ActionStatus.VERIFIED_INEFFECTIVE = ''VERIFIED_INEFFECTIVE''"
| "ActionStatus_str ActionStatus.AMBIGUOUS = ''AMBIGUOUS''"
| "ActionStatus_str ActionStatus.SUPERSEDED = ''SUPERSEDED''"
| "ActionStatus_str ActionStatus.CANCELLED = ''CANCELLED''"

lemma ActionStatus_set_values: "set ActionStatus_values = UNIV"
proof -
  have "x \<in> set ActionStatus_values" for x by (cases x) (simp_all add: ActionStatus_values_def)
  then show ?thesis by blast
qed

interpretation en_ActionStatus: enum_table ActionStatus_values ActionStatus_str
  by unfold_locales
    (rule ActionStatus_set_values, code_simp, code_simp, simp add: ActionStatus_values_def)

record AuthorityEnvelope =
  env_epoch :: CoordinatorEpoch
  env_fault :: FaultId
  env_fault_generation :: FaultGeneration
  env_containment_generation :: ContainmentGeneration
  env_policy_generation :: PolicyGeneration
  env_topology_generation :: TopologyGeneration
  env_action :: ActionId
  env_action_generation :: ActionGeneration
  env_worker :: WorkerId
  env_worker_boot :: WorkerBootId
  env_target :: ResourceId
  env_target_generation :: ResourceGeneration
  env_required_evidence_sequence :: EvidenceSequence
  env_reservation :: ReservationId
  env_lease :: LeaseId
  env_required_resource_generations :: "(ResourceId, ResourceGeneration) omap"
  env_issued_at_ms :: u64

definition AuthorityEnvelope_default :: AuthorityEnvelope where
  "AuthorityEnvelope_default = \<lparr>
     env_epoch = id_invalid,
     env_fault = id_invalid,
     env_fault_generation = id_invalid,
     env_containment_generation = id_invalid,
     env_policy_generation = id_invalid,
     env_topology_generation = id_invalid,
     env_action = id_invalid,
     env_action_generation = id_invalid,
     env_worker = id_invalid,
     env_worker_boot = id_invalid,
     env_target = id_invalid,
     env_target_generation = id_invalid,
     env_required_evidence_sequence = id_invalid,
     env_reservation = id_invalid,
     env_lease = id_invalid,
     env_required_resource_generations = [],
     env_issued_at_ms = 0\<rparr>"

record ContainmentAction =
  act_id :: ActionId
  act_generation :: ActionGeneration
  act_kind :: ContainmentActionKind
  act_target :: ResourceId
  act_target_generation :: ResourceGeneration
  act_domain :: ContainmentDomainId
  act_isolation_domain :: IsolationDomainId
  act_mechanism :: ContainmentMechanism
  act_envelope :: AuthorityEnvelope
  act_status :: ActionStatus
  act_rejection_code :: ErrorCode
  act_rejection_detail :: string
  act_created_at_ms :: u64
  act_dispatched_at_ms :: u64
  act_acknowledged_at_ms :: u64
  act_completed_at_ms :: u64
  act_verification_generation :: VerificationGeneration
  act_executor_token :: string
  act_destructive :: bool

definition ContainmentAction_default :: ContainmentAction where
  "ContainmentAction_default = \<lparr>
     act_id = id_invalid,
     act_generation = id_invalid,
     act_kind = ContainmentActionKind.OUTCOME_UNKNOWN,
     act_target = id_invalid,
     act_target_generation = id_invalid,
     act_domain = id_invalid,
     act_isolation_domain = id_invalid,
     act_mechanism = ContainmentMechanism.NONE,
     act_envelope = AuthorityEnvelope_default,
     act_status = ActionStatus.CANDIDATE,
     act_rejection_code = ErrorCode.OK,
     act_rejection_detail = [],
     act_created_at_ms = 0,
     act_dispatched_at_ms = 0,
     act_acknowledged_at_ms = 0,
     act_completed_at_ms = 0,
     act_verification_generation = id_invalid,
     act_executor_token = [],
     act_destructive = False\<rparr>"

record ActionAcknowledgment =
  ack_action :: ActionId
  ack_action_generation :: ActionGeneration
  ack_epoch :: CoordinatorEpoch
  ack_worker :: WorkerId
  ack_worker_boot :: WorkerBootId
  ack_accepted :: bool
  ack_executor_token :: string
  ack_detail :: string

definition ActionAcknowledgment_default :: ActionAcknowledgment where
  "ActionAcknowledgment_default = \<lparr>
     ack_action = id_invalid,
     ack_action_generation = id_invalid,
     ack_epoch = id_invalid,
     ack_worker = id_invalid,
     ack_worker_boot = id_invalid,
     ack_accepted = False,
     ack_executor_token = [],
     ack_detail = []\<rparr>"

record ActionResult =
  ares_action :: ActionId
  ares_action_generation :: ActionGeneration
  ares_epoch :: CoordinatorEpoch
  ares_worker :: WorkerId
  ares_worker_boot :: WorkerBootId
  ares_success :: bool
  ares_mechanism :: ContainmentMechanism
  ares_detail :: string

definition ActionResult_default :: ActionResult where
  "ActionResult_default = \<lparr>
     ares_action = id_invalid,
     ares_action_generation = id_invalid,
     ares_epoch = id_invalid,
     ares_worker = id_invalid,
     ares_worker_boot = id_invalid,
     ares_success = False,
     ares_mechanism = ContainmentMechanism.NONE,
     ares_detail = []\<rparr>"

definition describe_action :: "ContainmentAction \<Rightarrow> string" where
  "describe_action action =
     id_to_string ''ActionId'' (act_id action) @ '' '' @
     ContainmentActionKind_str (act_kind action) @ '' target='' @
     id_to_string ''ResourceId'' (act_target action) @ '' generation='' @
     id_to_string ''ActionGeneration'' (act_generation action) @ '' status='' @
     ActionStatus_str (act_status action) @ '' mechanism='' @
     ContainmentMechanism_str (act_mechanism action) @
     (if act_rejection_code action \<noteq> ErrorCode.OK then
        '' rejected='' @ ErrorCode_str (act_rejection_code action) @
        (if act_rejection_detail action \<noteq> [] then
           '' ('' @ act_rejection_detail action @ '')'' else [])
      else [])"

definition describe_envelope :: "AuthorityEnvelope \<Rightarrow> string" where
  "describe_envelope envelope =
     ''CoordinatorEpoch '' @ id_to_string ''CoordinatorEpoch'' (env_epoch envelope) @
     ''; FaultGeneration '' @ id_to_string ''FaultGeneration'' (env_fault_generation envelope) @
     ''; ContainmentGeneration '' @
       id_to_string ''ContainmentGeneration'' (env_containment_generation envelope) @
     ''; PolicyGeneration '' @ id_to_string ''PolicyGeneration'' (env_policy_generation envelope) @
     ''; TopologyGeneration '' @
       id_to_string ''TopologyGeneration'' (env_topology_generation envelope) @
     ''; ActionGeneration '' @ id_to_string ''ActionGeneration'' (env_action_generation envelope) @
     ''; TargetGeneration '' @ id_to_string ''ResourceGeneration'' (env_target_generation envelope) @
     (if id_valid (env_worker_boot envelope) then
        ''; WorkerBootId '' @ id_to_string ''WorkerBootId'' (env_worker_boot envelope) else []) @
     (if env_required_resource_generations envelope \<noteq> [] then
        ''; RequiredResourceGenerations '' @
        nat_to_string (length (env_required_resource_generations envelope)) else [])"

end
