(* ===== verification/Fcf_Bytes.thy ===== *)
theory Fcf_Bytes
  imports Fcf_Enum "HOL-Library.State_Monad" "HOL-Library.Monad_Syntax"
begin

text \<open>
  The bounded little-endian writer and reader (\<open>include/fcf/detail/bytes.hpp\<close>,
  \<open>src/detail/bytes.cpp\<close>) and the typed helpers of \<open>src/state_codec.cpp\<close>.

  A writer is its buffer and the latched \<open>ok_\<close> flag; a reader is the unread suffix of its data
  and the flag (\<open>size_ - pos_\<close> is the length of the suffix). Reading is a state transformer over
  the reader; a read that fails latches the flag and yields zero. A reader function with a
  \<open>bool\<close> result and an output argument returns \<open>None\<close> where the code returns false.

  The contract of a codec is the locale \<open>record_codec\<close>: what a writer appends when it stays ok, and that
  the reader gives the value back from these bytes. Every record codec of the program interprets
  it, so round trips of composite codecs are assembled from the fields' interpretations.
\<close>

unbundle bit_operations_syntax

definition kMaxStringBytes :: int where "kMaxStringBytes = 65536"
definition kMaxBlobBytes :: int where "kMaxBlobBytes = 4194304"
definition kMaxCollectionCount :: u32 where "kMaxCollectionCount = 4194304"
definition kMaxDocumentBytes :: int where "kMaxDocumentBytes = 134217728"

section \<open>UTF-8\<close>

definition is_continuation :: "u8 \<Rightarrow> bool" where
  "is_continuation b \<longleftrightarrow> b AND 0xC0 = 0x80"

text \<open>Number of continuation bytes, initial code bits and smallest legal code of a lead byte.\<close>

definition utf8_lead :: "u8 \<Rightarrow> (nat \<times> u32 \<times> u32) option" where
  "utf8_lead c0 =
     (if c0 AND 0xE0 = 0xC0 then Some (1, ucast (c0 AND 0x1F), 0x80)
      else if c0 AND 0xF0 = 0xE0 then Some (2, ucast (c0 AND 0x0F), 0x800)
      else if c0 AND 0xF8 = 0xF0 then Some (3, ucast (c0 AND 0x07), 0x10000)
      else None)"

definition utf8_code :: "u32 \<Rightarrow> u8 list \<Rightarrow> u32" where
  "utf8_code code cs = fold (\<lambda>cc code. push_bit 6 code OR ucast (cc AND 0x3F)) cs code"

function utf8_from :: "u8 list \<Rightarrow> bool" where
  "utf8_from [] = True"
| "utf8_from (c0 # rest) =
     (if c0 < 0x80 then utf8_from rest
      else
        (case utf8_lead c0 of
           None \<Rightarrow> False
         | Some (extra, code, minimum) \<Rightarrow>
             if length rest < extra then False
             else if \<not> list_all is_continuation (take extra rest) then False
             else
               let code = utf8_code code (take extra rest)
               in if code < minimum then False
                  else if code > 0x10FFFF then False
                  else if code \<ge> 0xD800 \<and> code \<le> 0xDFFF then False
                  else utf8_from (drop extra rest)))"
  by pat_completeness auto

termination utf8_from
  by (relation "measure length") auto

definition str_bytes :: "string \<Rightarrow> u8 list" where
  "str_bytes s = map (\<lambda>c. of_nat (of_char c)) s"

definition bytes_str :: "u8 list \<Rightarrow> string" where
  "bytes_str bs = map (\<lambda>b. char_of (unat b)) bs"

definition is_valid_utf8 :: "string \<Rightarrow> bool" where
  "is_valid_utf8 s = utf8_from (str_bytes s)"

lemma of_char_less: "of_char c < (256 :: nat)"
  using nat_of_char_less_256 by simp

lemma bytes_str_bytes [simp]: "bytes_str (str_bytes s) = s"
proof -
  have "char_of (unat (of_nat (of_char c) :: u8)) = c" for c
    by (simp add: unat_of_nat of_char_less)
  then show ?thesis by (simp add: bytes_str_def str_bytes_def map_idI)
qed

lemma str_bytes_str [simp]: "str_bytes (bytes_str bs) = bs"
proof -
  have "unat b mod 256 = unat b" for b :: u8
    using unsigned_less [of b, where 'a = nat] by simp
  then have "of_nat (of_char (char_of (unat b))) = b" for b :: u8
    by simp
  then show ?thesis by (simp add: bytes_str_def str_bytes_def map_idI)
qed

lemma length_str_bytes [simp]: "length (str_bytes s) = length s"
  by (simp add: str_bytes_def)

text \<open>Seven-bit text is valid.\<close>

lemma utf8_from_ascii: "list_all (\<lambda>b. b < 0x80) bs \<Longrightarrow> utf8_from bs"
  by (induction bs) simp_all

section \<open>Writing\<close>

record ByteWriter =
  bw_buffer :: "u8 list"
  bw_ok :: bool

definition ByteWriter_default :: ByteWriter where
  "ByteWriter_default = \<lparr>bw_buffer = [], bw_ok = True\<rparr>"

definition wr_u8 :: "u8 \<Rightarrow> ByteWriter \<Rightarrow> ByteWriter" where
  "wr_u8 v w =
     (if \<not> bw_ok w then w
      else if int (length (bw_buffer w)) + 1 > kMaxDocumentBytes then w\<lparr>bw_ok := False\<rparr>
      else w\<lparr>bw_buffer := bw_buffer w @ [v]\<rparr>)"

definition wr_u16 :: "u16 \<Rightarrow> ByteWriter \<Rightarrow> ByteWriter" where
  "wr_u16 v w = wr_u8 (ucast (drop_bit 8 v AND 0xFF)) (wr_u8 (ucast (v AND 0xFF)) w)"

definition wr_u32 :: "u32 \<Rightarrow> ByteWriter \<Rightarrow> ByteWriter" where
  "wr_u32 v w = wr_u16 (ucast (drop_bit 16 v AND 0xFFFF)) (wr_u16 (ucast (v AND 0xFFFF)) w)"

definition wr_u64 :: "u64 \<Rightarrow> ByteWriter \<Rightarrow> ByteWriter" where
  "wr_u64 v w = wr_u32 (ucast (drop_bit 32 v AND 0xFFFFFFFF)) (wr_u32 (ucast (v AND 0xFFFFFFFF)) w)"

definition wr_boolean :: "bool \<Rightarrow> ByteWriter \<Rightarrow> ByteWriter" where
  "wr_boolean b = wr_u8 (if b then 1 else 0)"

definition wr_raw :: "u8 list \<Rightarrow> ByteWriter \<Rightarrow> ByteWriter" where
  "wr_raw bs w =
     (if \<not> bw_ok w \<or> bs = [] then w
      else if int (length (bw_buffer w)) + int (length bs) > kMaxDocumentBytes then w\<lparr>bw_ok := False\<rparr>
      else w\<lparr>bw_buffer := bw_buffer w @ bs\<rparr>)"

definition wr_blob :: "u8 list \<Rightarrow> ByteWriter \<Rightarrow> ByteWriter" where
  "wr_blob bs w =
     (if int (length bs) > kMaxBlobBytes then w\<lparr>bw_ok := False\<rparr>
      else wr_raw bs (wr_u32 (of_nat (length bs)) w))"

definition wr_str :: "string \<Rightarrow> ByteWriter \<Rightarrow> ByteWriter" where
  "wr_str s w =
     (if int (length s) > kMaxStringBytes then w\<lparr>bw_ok := False\<rparr>
      else if \<not> is_valid_utf8 s then w\<lparr>bw_ok := False\<rparr>
      else wr_raw (str_bytes s) (wr_u32 (of_nat (length s)) w))"

section \<open>Reading\<close>

record ByteReader =
  brd_rest :: "u8 list"
  brd_ok :: bool

definition byte_reader :: "u8 list \<Rightarrow> ByteReader" where
  "byte_reader bs = \<lparr>brd_rest = bs, brd_ok = True\<rparr>"

type_synonym 'a reader = "(ByteReader, 'a) state"

definition rd_ok :: "bool reader" where
  "rd_ok = State (\<lambda>r. (brd_ok r, r))"

definition rd_reject :: "unit reader" where
  "rd_reject = State (\<lambda>r. ((), r\<lparr>brd_ok := False\<rparr>))"

text \<open>The byte \<open>k\<close> of a little-endian value is shifted by \<open>8 * k\<close>.\<close>

fun le_value :: "u8 list \<Rightarrow> 'w::len word" where
  "le_value [] = 0"
| "le_value (b # bs) = ucast b OR push_bit 8 (le_value bs)"

text \<open>Multi-byte reads are atomic: a short read yields zero and latches the failure.\<close>

definition rd_word :: "nat \<Rightarrow> 'w::len word reader" where
  "rd_word n = State (\<lambda>r.
     if \<not> brd_ok r \<or> length (brd_rest r) < n then (0, r\<lparr>brd_ok := False\<rparr>)
     else (le_value (take n (brd_rest r)), r\<lparr>brd_rest := drop n (brd_rest r)\<rparr>))"

abbreviation rd_u8 :: "u8 reader" where "rd_u8 \<equiv> rd_word 1"
abbreviation rd_u16 :: "u16 reader" where "rd_u16 \<equiv> rd_word 2"
abbreviation rd_u32 :: "u32 reader" where "rd_u32 \<equiv> rd_word 4"
abbreviation rd_u64 :: "u64 reader" where "rd_u64 \<equiv> rd_word 8"

definition rd_raw :: "nat \<Rightarrow> u8 list reader" where
  "rd_raw n = State (\<lambda>r.
     if \<not> brd_ok r then ([], r)
     else if n > length (brd_rest r) then ([], r\<lparr>brd_ok := False\<rparr>)
     else (take n (brd_rest r), r\<lparr>brd_rest := drop n (brd_rest r)\<rparr>))"

definition rd_blob :: "u8 list reader" where
  "rd_blob = do {
     len \<leftarrow> rd_u32;
     ok \<leftarrow> rd_ok;
     if \<not> ok then State_Monad.return []
     else if uint len > kMaxBlobBytes then do { rd_reject; State_Monad.return [] }
     else rd_raw (unat len) }"

definition rd_str :: "string reader" where
  "rd_str = do {
     len \<leftarrow> rd_u32;
     ok \<leftarrow> rd_ok;
     if \<not> ok then State_Monad.return []
     else if uint len > kMaxStringBytes then do { rd_reject; State_Monad.return [] }
     else do {
       bytes \<leftarrow> rd_raw (unat len);
       ok \<leftarrow> rd_ok;
       if \<not> ok then State_Monad.return []
       else if \<not> is_valid_utf8 (bytes_str bytes) then do { rd_reject; State_Monad.return [] }
       else State_Monad.return (bytes_str bytes) } }"

definition rd_count :: "u32 \<Rightarrow> u32 reader" where
  "rd_count ceiling = do {
     v \<leftarrow> rd_u32;
     ok \<leftarrow> rd_ok;
     if \<not> ok then State_Monad.return 0
     else if v > ceiling then do { rd_reject; State_Monad.return 0 }
     else State_Monad.return v }"

section \<open>What the primitives append and read back\<close>

definition le_u16 :: "u16 \<Rightarrow> u8 list" where
  "le_u16 v = [ucast (v AND 0xFF), ucast (drop_bit 8 v AND 0xFF)]"

definition le_u32 :: "u32 \<Rightarrow> u8 list" where
  "le_u32 v = le_u16 (ucast (v AND 0xFFFF)) @ le_u16 (ucast (drop_bit 16 v AND 0xFFFF))"

definition le_u64 :: "u64 \<Rightarrow> u8 list" where
  "le_u64 v = le_u32 (ucast (v AND 0xFFFFFFFF)) @ le_u32 (ucast (drop_bit 32 v AND 0xFFFFFFFF))"

lemma le_length [simp]: "length (le_u16 v) = 2" "length (le_u32 v') = 4" "length (le_u64 v'') = 8"
  by (simp_all add: le_u16_def le_u32_def le_u64_def)

lemma byte_masks:
  "(0xFF :: u16) = mask 8" "(0xFFFF :: u32) = mask 16" "(0xFFFFFFFF :: u64) = mask 32"
  by (simp_all add: mask_eq_exp_minus_1)

lemma le_value_append:
  "le_value (xs @ ys) = (le_value xs OR push_bit (8 * length xs) (le_value ys) :: 'w::len word)"
  by (induction xs) (simp_all add: ac_simps add.commute)

lemma le_value_u16: "le_value (le_u16 v) = (ucast v :: 'w::len word)"
  unfolding le_u16_def byte_masks
  by (rule bit_word_eqI) (auto simp: bit_simps dest: bit_imp_le_length)

lemma le_value_u32: "le_value (le_u32 v) = (ucast v :: 'w::len word)"
  unfolding le_u32_def le_value_append le_value_u16 byte_masks
  by (rule bit_word_eqI) (auto simp: bit_simps dest: bit_imp_le_length)

lemma le_value_u64: "le_value (le_u64 v) = (ucast v :: 'w::len word)"
  unfolding le_u64_def le_value_append le_value_u32 byte_masks
  by (rule bit_word_eqI) (auto simp: bit_simps dest: bit_imp_le_length)

section \<open>Typed helpers\<close>

definition wr_id :: "'tag Id \<Rightarrow> ByteWriter \<Rightarrow> ByteWriter" where
  "wr_id i = wr_u64 (id_value i)"

definition rd_id :: "'tag Id reader" where
  "rd_id = do { v \<leftarrow> rd_u64; State_Monad.return (Id v) }"

definition rd_bool :: "bool reader" where
  "rd_bool = do {
     raw \<leftarrow> rd_u8;
     ok \<leftarrow> rd_ok;
     if \<not> ok then State_Monad.return False
     else if raw > 1 then do { rd_reject; State_Monad.return False }
     else State_Monad.return (raw = 1) }"

definition wr_ids :: "'tag Id IdSet \<Rightarrow> ByteWriter \<Rightarrow> ByteWriter" where
  "wr_ids ids w = fold wr_id ids (wr_u32 (of_nat (length ids)) w)"

fun rd_ids_loop :: "nat \<Rightarrow> 'tag Id IdSet \<Rightarrow> 'tag Id IdSet reader" where
  "rd_ids_loop 0 out = State_Monad.return out"
| "rd_ids_loop (Suc n) out = do {
     v \<leftarrow> rd_id;
     ok \<leftarrow> rd_ok;
     if \<not> ok then State_Monad.return []
     else if out \<noteq> [] \<and> \<not> last out < v then do { rd_reject; State_Monad.return [] }
     else rd_ids_loop n (out @ [v]) }"

definition rd_ids :: "u32 \<Rightarrow> 'tag Id IdSet reader" where
  "rd_ids ceiling = do {
     n \<leftarrow> rd_count ceiling;
     rd_ids_loop (unat n) [] }"

text \<open>
  \<open>wr_enum\<close>, \<open>rd_enum_checked\<close> and the enumeration sets take the enumerator list, which stands for
  the enumeration's type; \<open>k<Enum>Max\<close> is the index of its last entry.
\<close>

definition wr_enum :: "'e list \<Rightarrow> 'e \<Rightarrow> ByteWriter \<Rightarrow> ByteWriter" where
  "wr_enum vals e = wr_u16 (of_nat (enum_index vals e))"

definition rd_enum_checked :: "'e list \<Rightarrow> 'e reader" where
  "rd_enum_checked vals = do {
     raw \<leftarrow> rd_u16;
     ok \<leftarrow> rd_ok;
     if \<not> ok then State_Monad.return (vals ! 0)
     else if unat raw > length vals - 1 then do { rd_reject; State_Monad.return (vals ! 0) }
     else State_Monad.return (vals ! unat raw) }"

definition wr_enum_set :: "'e list \<Rightarrow> 'e EnumSet \<Rightarrow> ByteWriter \<Rightarrow> ByteWriter" where
  "wr_enum_set vals es w = fold (wr_enum vals) es (wr_u32 (of_nat (length es)) w)"

fun rd_enum_set_loop :: "'e list \<Rightarrow> nat \<Rightarrow> 'e EnumSet \<Rightarrow> 'e EnumSet reader" where
  "rd_enum_set_loop vals 0 out = State_Monad.return out"
| "rd_enum_set_loop vals (Suc n) out = do {
     raw \<leftarrow> rd_u16;
     ok \<leftarrow> rd_ok;
     if \<not> ok then State_Monad.return []
     else if unat raw > length vals - 1 then do { rd_reject; State_Monad.return [] }
     else if out \<noteq> [] \<and> enum_index vals (last out) \<ge> unat raw then do { rd_reject; State_Monad.return [] }
     else rd_enum_set_loop vals n (out @ [vals ! unat raw]) }"

definition rd_enum_set :: "'e list \<Rightarrow> u32 \<Rightarrow> 'e EnumSet reader" where
  "rd_enum_set vals ceiling = do {
     n \<leftarrow> rd_count ceiling;
     rd_enum_set_loop vals (unat n) [] }"

text \<open>
  The collection loops \<open>for (i = 0; i < count && reader.ok(); ++i)\<close>: read one element, give up where
  the element's reader does, hand it to the container, reject where the container refuses it.
\<close>

fun read_loop :: "nat \<Rightarrow> 'a option reader \<Rightarrow> ('a \<Rightarrow> 'c \<Rightarrow> 'c option) \<Rightarrow> 'c \<Rightarrow> 'c option reader" where
  "read_loop 0 rd put c = State_Monad.return (Some c)"
| "read_loop (Suc n) rd put c = do {
     ok \<leftarrow> rd_ok;
     if \<not> ok then State_Monad.return (Some c)
     else do {
       x \<leftarrow> rd;
       (case x of
          None \<Rightarrow> State_Monad.return None
        | Some x \<Rightarrow>
            (case put x c of
               None \<Rightarrow> do { rd_reject; State_Monad.return None }
             | Some c \<Rightarrow> read_loop n rd put c)) } }"

definition push_back :: "'a \<Rightarrow> 'a list \<Rightarrow> 'a list option" where
  "push_back x xs = Some (xs @ [x])"

text \<open>A sequence of statements on the same writer.\<close>

definition writes :: "(ByteWriter \<Rightarrow> ByteWriter) list \<Rightarrow> ByteWriter \<Rightarrow> ByteWriter" where
  "writes fs w = fold (\<lambda>f. f) fs w"

definition wr_many :: "('a \<Rightarrow> ByteWriter \<Rightarrow> ByteWriter) \<Rightarrow> 'a list \<Rightarrow> ByteWriter \<Rightarrow> ByteWriter" where
  "wr_many wr xs w = fold wr xs (wr_u32 (of_nat (length xs)) w)"

section \<open>Emission\<close>

text \<open>
  \<open>emits f bs A\<close>: whenever the writer is still ok after \<open>f\<close>, it was ok before, \<open>f\<close> appended exactly
  \<open>bs\<close>, and the condition \<open>A\<close> on the value held.
\<close>

definition emits :: "(ByteWriter \<Rightarrow> ByteWriter) \<Rightarrow> u8 list \<Rightarrow> bool \<Rightarrow> bool" where
  "emits f bs A \<longleftrightarrow> (\<forall>w. bw_ok (f w) \<longrightarrow> bw_ok w \<and> bw_buffer (f w) = bw_buffer w @ bs \<and> A)"

lemma emitsD: "emits f bs A \<Longrightarrow> bw_ok (f w) \<Longrightarrow> bw_ok w \<and> bw_buffer (f w) = bw_buffer w @ bs \<and> A"
  by (simp add: emits_def)

lemma emits_comp:
  assumes "emits f bs A" and "emits g cs B"
  shows "emits (\<lambda>w. g (f w)) (bs @ cs) (A \<and> B)"
  unfolding emits_def
proof (intro allI impI)
  fix w assume "bw_ok (g (f w))"
  from emitsD [OF assms(2) this] emitsD [OF assms(1), of w]
  show "bw_ok w \<and> bw_buffer (g (f w)) = bw_buffer w @ bs @ cs \<and> A \<and> B" by simp
qed

lemma emits_compI:
  "emits f bs A \<Longrightarrow> emits g cs B \<Longrightarrow> ds = bs @ cs \<Longrightarrow> emits (\<lambda>w. g (f w)) ds (A \<and> B)"
  by (simp add: emits_comp)

lemma emits_weaken: "emits f bs A \<Longrightarrow> (A \<Longrightarrow> B) \<Longrightarrow> emits f bs B"
  by (auto simp: emits_def)

lemma emits_writes_Nil: "emits (writes []) [] True"
  by (simp add: emits_def writes_def)

lemma emits_writes_Cons:
  assumes "emits f b A" and "emits (writes fs) bs B"
  shows "emits (writes (f # fs)) (b @ bs) (A \<and> B)"
proof -
  have "writes (f # fs) = (\<lambda>w. writes fs (f w))" by (simp add: writes_def fun_eq_iff)
  then show ?thesis using emits_comp [OF assms] by simp
qed

lemma emits_u8: "emits (wr_u8 v) [v] True"
  by (simp add: emits_def wr_u8_def)

lemma emits_u16: "emits (wr_u16 v) (le_u16 v) True"
  unfolding wr_u16_def [abs_def]
  by (rule emits_weaken [OF emits_compI [OF emits_u8 emits_u8]]) (simp_all add: le_u16_def)

lemma emits_u32: "emits (wr_u32 v) (le_u32 v) True"
  unfolding wr_u32_def [abs_def]
  by (rule emits_weaken [OF emits_compI [OF emits_u16 emits_u16]]) (simp_all add: le_u32_def)

lemma emits_u64: "emits (wr_u64 v) (le_u64 v) True"
  unfolding wr_u64_def [abs_def]
  by (rule emits_weaken [OF emits_compI [OF emits_u32 emits_u32]]) (simp_all add: le_u64_def)

lemma emits_raw: "emits (wr_raw bs) bs True"
  by (simp add: emits_def wr_raw_def)

definition enc_bool :: "bool \<Rightarrow> u8 list" where
  "enc_bool b = [if b then 1 else 0]"

lemma emits_boolean: "emits (wr_boolean b) (enc_bool b) True"
  unfolding wr_boolean_def enc_bool_def by (rule emits_u8)

lemma emits_guard:
  "emits f bs A \<Longrightarrow> emits (\<lambda>w. if B then w\<lparr>bw_ok := False\<rparr> else f w) bs (\<not> B \<and> A)"
  by (cases B) (simp_all add: emits_def)

definition str_good :: "string \<Rightarrow> bool" where
  "str_good s \<longleftrightarrow> int (length s) \<le> kMaxStringBytes \<and> is_valid_utf8 s"

definition enc_str :: "string \<Rightarrow> u8 list" where
  "enc_str s = le_u32 (of_nat (length s)) @ str_bytes s"

lemma emits_str: "emits (wr_str s) (enc_str s) (str_good s)"
  unfolding wr_str_def [abs_def] enc_str_def
  by (rule emits_weaken [OF emits_guard [OF emits_guard [OF emits_comp [OF emits_u32 emits_raw]]]])
    (simp add: str_good_def)

definition enc_blob :: "u8 list \<Rightarrow> u8 list" where
  "enc_blob bs = le_u32 (of_nat (length bs)) @ bs"

lemma emits_blob: "emits (wr_blob bs) (enc_blob bs) (int (length bs) \<le> kMaxBlobBytes)"
  unfolding wr_blob_def [abs_def] enc_blob_def
  by (rule emits_weaken [OF emits_guard [OF emits_comp [OF emits_u32 emits_raw]]]) simp

lemma emits_id: "emits (wr_id i) (le_u64 (id_value i)) True"
  unfolding wr_id_def by (rule emits_u64)

lemma emits_enum: "emits (wr_enum vals e) (le_u16 (of_nat (enum_index vals e))) True"
  unfolding wr_enum_def by (rule emits_u16)

lemma emits_fold:
  assumes "\<And>x. emits (wr x) (enc x) (A x)"
  shows "emits (fold wr xs) (concat (map enc xs)) (list_all A xs)"
proof (induction xs)
  case IH: (Cons x xs)
  have "fold wr (x # xs) = (\<lambda>w. fold wr xs (wr x w))" by (simp add: comp_def)
  with emits_comp [OF assms [of x] IH] show ?case by simp
qed (simp add: emits_def)

definition enc_many :: "('a \<Rightarrow> u8 list) \<Rightarrow> 'a list \<Rightarrow> u8 list" where
  "enc_many enc xs = le_u32 (of_nat (length xs)) @ concat (map enc xs)"

lemma emits_many:
  assumes "\<And>x. emits (wr x) (enc x) (A x)"
  shows "emits (wr_many wr xs) (enc_many enc xs) (list_all A xs)"
  unfolding wr_many_def [abs_def]
  by (rule emits_weaken [OF emits_compI [OF emits_u32 emits_fold [of wr enc A, OF assms]]])
    (simp_all add: enc_many_def)

abbreviation enc_id :: "'tag Id \<Rightarrow> u8 list" where
  "enc_id i \<equiv> le_u64 (id_value i)"

abbreviation enc_enum :: "'e list \<Rightarrow> 'e \<Rightarrow> u8 list" where
  "enc_enum vals e \<equiv> le_u16 (of_nat (enum_index vals e))"

lemma emits_ids: "emits (wr_ids ids) (enc_many enc_id ids) True"
proof -
  have "wr_ids ids = wr_many wr_id ids" by (simp add: wr_ids_def wr_many_def fun_eq_iff)
  then show ?thesis
    using emits_weaken [OF emits_many [of wr_id enc_id "\<lambda>_. True" ids, OF emits_id]] by simp
qed

lemma emits_enum_set: "emits (wr_enum_set vals es) (enc_many (enc_enum vals) es) True"
proof -
  have "wr_enum_set vals es = wr_many (wr_enum vals) es"
    by (simp add: wr_enum_set_def wr_many_def fun_eq_iff)
  then show ?thesis
    using emits_weaken [OF emits_many [of "wr_enum vals" "enc_enum vals" "\<lambda>_. True" es, OF emits_enum]]
    by simp
qed

lemmas emits_intros = emits_writes_Cons emits_writes_Nil emits_u16 emits_u32 emits_u64 emits_raw
  emits_boolean emits_str emits_blob emits_id emits_enum emits_ids emits_enum_set emits_many

section \<open>Reading back\<close>

text \<open>\<open>reads rd bs x\<close>: reading from a good reader whose data starts with \<open>bs\<close> yields \<open>x\<close> and consumes \<open>bs\<close>.\<close>

definition reads :: "'a reader \<Rightarrow> u8 list \<Rightarrow> 'a \<Rightarrow> bool" where
  "reads rd bs x \<longleftrightarrow> (\<forall>rest. run_state rd (byte_reader (bs @ rest)) = (x, byte_reader rest))"

lemma readsD: "reads rd bs x \<Longrightarrow> run_state rd (byte_reader (bs @ rest)) = (x, byte_reader rest)"
  by (simp add: reads_def)

lemma reads_return: "reads (State_Monad.return x) [] x"
  by (simp add: reads_def)

lemma reads_ok: "reads rd_ok [] True"
  by (simp add: reads_def rd_ok_def byte_reader_def)

lemma reads_bind: "reads m bs x \<Longrightarrow> reads (f x) cs y \<Longrightarrow> reads (m \<bind> f) (bs @ cs) y"
  by (simp add: reads_def)

lemma reads_bind_Nil: "reads m [] x \<Longrightarrow> reads (f x) cs y \<Longrightarrow> reads (m \<bind> f) cs y"
  using reads_bind [of m "[]" x f cs y] by simp

lemma reads_word:
  assumes "le_value bs = (v :: 'w::len word)" and "length bs = n"
  shows "reads (rd_word n) bs v"
  using assms by (simp add: reads_def rd_word_def byte_reader_def)

lemma reads_u8: "reads rd_u8 [v] v"
  by (rule reads_word) simp_all

lemma reads_u16: "reads rd_u16 (le_u16 v) v"
  by (rule reads_word) (simp_all add: le_value_u16)

lemma reads_u32: "reads rd_u32 (le_u32 v) v"
  by (rule reads_word) (simp_all add: le_value_u32)

lemma reads_u64: "reads rd_u64 (le_u64 v) v"
  by (rule reads_word) (simp_all add: le_value_u64)

lemma reads_id: "reads rd_id (enc_id i) i"
proof -
  have "reads rd_id (enc_id i @ []) (Id (id_value i))"
    unfolding rd_id_def by (rule reads_bind [OF reads_u64 reads_return])
  then show ?thesis by (cases i) simp
qed

lemma reads_bool: "reads rd_bool (enc_bool b) b"
  unfolding rd_bool_def enc_bool_def
  by (cases b) (simp_all add: reads_def rd_word_def rd_ok_def byte_reader_def)

lemma reads_raw: "length bs = n \<Longrightarrow> reads (rd_raw n) bs bs"
  by (simp add: reads_def rd_raw_def byte_reader_def)

lemma unat_of_nat_u32: "n \<le> unat (c :: u32) \<Longrightarrow> unat (of_nat n :: u32) = n"
  using unsigned_less [of c, where 'a = nat] by (simp add: unat_of_nat)

lemma reads_count:
  assumes "n \<le> unat c"
  shows "reads (rd_count c) (le_u32 (of_nat n)) (of_nat n)"
proof -
  have "\<not> of_nat n > c" using assms by (simp add: word_less_nat_alt unat_of_nat_u32)
  then have "reads (rd_count c) (le_u32 (of_nat n) @ [] @ []) (of_nat n)"
    unfolding rd_count_def
    by (intro reads_bind [OF reads_u32] reads_bind [OF reads_ok]) (simp add: reads_return)
  then show ?thesis by simp
qed

lemma reads_str:
  assumes "str_good s"
  shows "reads rd_str (enc_str s) s"
proof -
  have n: "unat (of_nat (length s) :: u32) = length s"
    using assms by (intro unat_of_nat_u32 [where c = 65536]) (simp add: str_good_def kMaxStringBytes_def)
  have "reads rd_str (le_u32 (of_nat (length s)) @ str_bytes s) s"
    unfolding rd_str_def
  proof (rule reads_bind [OF reads_u32], rule reads_bind_Nil [OF reads_ok])
    have "reads (do {
        bytes \<leftarrow> rd_raw (length s);
        ok \<leftarrow> rd_ok;
        if \<not> ok then State_Monad.return []
        else if \<not> is_valid_utf8 (bytes_str bytes) then do { rd_reject; State_Monad.return [] }
        else State_Monad.return (bytes_str bytes) }) (str_bytes s @ []) s"
      using assms by (intro reads_bind [OF reads_raw] reads_bind_Nil [OF reads_ok])
        (simp_all add: reads_return str_good_def)
    with assms show "reads (if \<not> True then State_Monad.return []
       else if uint (of_nat (length s) :: u32) > kMaxStringBytes then do { rd_reject; State_Monad.return [] }
       else do {
         bytes \<leftarrow> rd_raw (unat (of_nat (length s) :: u32));
         ok \<leftarrow> rd_ok;
         if \<not> ok then State_Monad.return []
         else if \<not> is_valid_utf8 (bytes_str bytes) then do { rd_reject; State_Monad.return [] }
         else State_Monad.return (bytes_str bytes) }) (str_bytes s) s"
      by (simp add: n uint_nat str_good_def)
  qed
  then show ?thesis by (simp add: enc_str_def)
qed

lemma reads_blob:
  assumes "int (length bs) \<le> kMaxBlobBytes"
  shows "reads rd_blob (enc_blob bs) bs"
proof -
  have n: "unat (of_nat (length bs) :: u32) = length bs"
    using assms by (intro unat_of_nat_u32 [where c = 4194304]) (simp add: kMaxBlobBytes_def)
  have "reads rd_blob (le_u32 (of_nat (length bs)) @ [] @ bs) bs"
    unfolding rd_blob_def
    using assms n
    by (intro reads_bind [OF reads_u32] reads_bind [OF reads_ok]) (simp add: reads_raw uint_nat)
  then show ?thesis by (simp add: enc_blob_def)
qed

lemma reads_ids_loop:
  "id_set_wf (out @ xs) \<Longrightarrow> reads (rd_ids_loop (length xs) out) (concat (map enc_id xs)) (out @ xs)"
proof (induction xs arbitrary: out)
  case (Cons x xs)
  have "\<not> (out \<noteq> [] \<and> \<not> last out < x)"
    using Cons.prems by (cases out rule: rev_cases) (auto simp: sorted_wrt_append)
  moreover have "reads (rd_ids_loop (length xs) (out @ [x])) (concat (map enc_id xs)) (out @ x # xs)"
    using Cons.IH [of "out @ [x]"] Cons.prems by simp
  ultimately have "reads (rd_ids_loop (Suc (length xs)) out) (enc_id x @ concat (map enc_id xs)) (out @ x # xs)"
    unfolding rd_ids_loop.simps
    by (intro reads_bind [OF reads_id] reads_bind_Nil [OF reads_ok]) auto
  then show ?case by simp
qed (simp add: reads_return)

lemma reads_ids:
  assumes "id_set_wf ids" and "length ids \<le> unat c"
  shows "reads (rd_ids c) (enc_many enc_id ids) ids"
  unfolding rd_ids_def enc_many_def
proof (rule reads_bind [OF reads_count [OF assms(2)]])
  show "reads (rd_ids_loop (unat (of_nat (length ids) :: u32)) []) (concat (map enc_id ids)) ids"
    using reads_ids_loop [of "[]" ids] assms by (simp add: unat_of_nat_u32)
qed

fun put_all :: "('a \<Rightarrow> 'c \<Rightarrow> 'c option) \<Rightarrow> 'a list \<Rightarrow> 'c \<Rightarrow> 'c option" where
  "put_all put [] c = Some c"
| "put_all put (x # xs) c = (case put x c of None \<Rightarrow> None | Some c' \<Rightarrow> put_all put xs c')"

lemma reads_loop:
  "(\<And>x. x \<in> set xs \<Longrightarrow> reads rd (enc x) (Some x)) \<Longrightarrow> put_all put xs c = Some c' \<Longrightarrow>
   reads (read_loop (length xs) rd put c) (concat (map enc xs)) (Some c')"
proof (induction xs arbitrary: c)
  case (Cons x xs)
  then obtain c1 where c1: "put x c = Some c1" "put_all put xs c1 = Some c'"
    by (auto split: option.splits)
  have "reads (read_loop (Suc (length xs)) rd put c) (enc x @ concat (map enc xs)) (Some c')"
    unfolding read_loop.simps
    using Cons.IH [OF Cons.prems(1) c1(2)] Cons.prems(1) [of x] c1(1)
    by (intro reads_bind_Nil [OF reads_ok]) (auto intro: reads_bind)
  then show ?case by simp
qed (simp add: reads_return)

lemma put_all_push_back: "put_all push_back xs ys = Some (ys @ xs)"
  by (induction xs arbitrary: ys) (simp_all add: push_back_def)

text \<open>Insertion into an ordered map that refuses a duplicate key.\<close>

definition put_keyed :: "('a \<Rightarrow> 'k::linorder) \<Rightarrow> 'a \<Rightarrow> ('k, 'a) omap \<Rightarrow> ('k, 'a) omap option" where
  "put_keyed key x m = (if om_find m (key x) \<noteq> None then None else Some (om_emplace (key x) x m))"

lemma om_put_last: "om_wf (m @ [(k, v)]) \<Longrightarrow> om_put k v m = m @ [(k, v)]"
  by (induction m) (auto simp: om_wf_Cons)

lemma put_all_keyed:
  "om_wf (m0 @ m) \<Longrightarrow> list_all (\<lambda>(k, v). key v = k) m \<Longrightarrow>
   put_all (put_keyed key) (map snd m) m0 = Some (m0 @ m)"
proof (induction m arbitrary: m0)
  case (Cons e m)
  obtain k v where e: "e = (k, v)" by (cases e)
  have wf: "om_wf ((m0 @ [(k, v)]) @ m)" using Cons.prems(1) e by simp
  then have wf1: "om_wf (m0 @ [(k, v)])" by (simp add: om_wf_def sorted_wrt_append)
  then have "om_find m0 k = None" by (auto simp: om_find_None_iff om_wf_def sorted_wrt_append)
  with wf1 e Cons.prems(2) have "put_keyed key v m0 = Some (m0 @ [(k, v)])"
    by (simp add: put_keyed_def om_emplace_def om_put_last)
  with Cons.IH [OF wf] Cons.prems(2) e show ?case by simp
qed simp

definition enum_set_good :: "'e list \<Rightarrow> 'e EnumSet \<Rightarrow> bool" where
  "enum_set_good vals es \<longleftrightarrow> sorted_wrt (\<lambda>a b. enum_index vals a < enum_index vals b) es"

definition id_set_good :: "u32 \<Rightarrow> 'tag Id IdSet \<Rightarrow> bool" where
  "id_set_good c ids \<longleftrightarrow> id_set_wf ids \<and> length ids \<le> unat c"

context enum_table
begin

lemma reads_enum: "reads (rd_enum_checked vals) (enc_enum vals e) e"
proof -
  have n: "unat (of_nat (enum_index vals e) :: u16) = enum_index vals e"
    using index_less [of e] fits_u16 by (simp add: unat_of_nat)
  have "reads (rd_enum_checked vals) (enc_enum vals e @ []) (vals ! enum_index vals e)"
    unfolding rd_enum_checked_def
    using index_less [of e] n
    by (intro reads_bind [OF reads_u16] reads_bind_Nil [OF reads_ok]) (auto simp: reads_return)
  then show ?thesis using nth_enum_index [of e vals] set_vals by simp
qed

lemma reads_enum_set_loop:
  "sorted_wrt (\<lambda>a b. enum_index vals a < enum_index vals b) (out @ es) \<Longrightarrow>
   reads (rd_enum_set_loop vals (length es) out) (concat (map (enc_enum vals) es)) (out @ es)"
proof (induction es arbitrary: out)
  case (Cons e es)
  have n: "unat (of_nat (enum_index vals e) :: u16) = enum_index vals e"
    using index_less [of e] fits_u16 by (simp add: unat_of_nat)
  have v: "vals ! enum_index vals e = e" using nth_enum_index [of e vals] set_vals by simp
  have "\<not> (out \<noteq> [] \<and> enum_index vals (last out) \<ge> enum_index vals e)"
    using Cons.prems by (cases out rule: rev_cases) (auto simp: sorted_wrt_append)
  moreover have "reads (rd_enum_set_loop vals (length es) (out @ [e]))
      (concat (map (enc_enum vals) es)) (out @ e # es)"
    using Cons.IH [of "out @ [e]"] Cons.prems by simp
  ultimately have "reads (rd_enum_set_loop vals (Suc (length es)) out)
      (enc_enum vals e @ concat (map (enc_enum vals) es)) (out @ e # es)"
    unfolding rd_enum_set_loop.simps
    using index_less [of e] n v
    by (intro reads_bind [OF reads_u16] reads_bind_Nil [OF reads_ok]) auto
  then show ?case by simp
qed (simp add: reads_return)

lemma reads_enum_set:
  assumes "sorted_wrt (\<lambda>a b. enum_index vals a < enum_index vals b) es" and "length es \<le> unat c"
  shows "reads (rd_enum_set vals c) (enc_many (enc_enum vals) es) es"
  unfolding rd_enum_set_def enc_many_def
proof (rule reads_bind [OF reads_count [OF assms(2)]])
  show "reads (rd_enum_set_loop vals (unat (of_nat (length es) :: u32)) [])
      (concat (map (enc_enum vals) es)) es"
    using reads_enum_set_loop [of "[]" es] assms by (simp add: unat_of_nat_u32)
qed

text \<open>The ceiling of an enumeration set is the number of enumerators, which never cuts a canonical set.\<close>

lemma reads_enum_set_all:
  assumes "enum_set_good vals es"
  shows "reads (rd_enum_set vals (of_nat (length vals))) (enc_many (enc_enum vals) es) es"
proof (rule reads_enum_set)
  show "sorted_wrt (\<lambda>a b. enum_index vals a < enum_index vals b) es"
    using assms by (simp add: enum_set_good_def)
  then have "distinct es"
    by (induction es) auto
  then have "card (set es) = length es" by (rule distinct_card)
  moreover have "card (set es) \<le> card (set vals)"
    by (metis List.finite_set card_mono set_vals subset_UNIV)
  ultimately have "length es \<le> length vals" using card_length le_trans by metis
  then show "length es \<le> unat (of_nat (length vals) :: u32)"
    using fits_u16 by (simp add: unat_of_nat)
qed

end

section \<open>The contract of a record codec\<close>

text \<open>
  \<open>accepts\<close> is what a writer that stayed ok has checked, \<open>canon\<close> what the reader demands beyond it.
\<close>

locale record_codec =
  fixes wr :: "'a \<Rightarrow> ByteWriter \<Rightarrow> ByteWriter"
    and rd :: "'a option reader"
    and enc :: "'a \<Rightarrow> u8 list"
    and accepts :: "'a \<Rightarrow> bool"
    and canon :: "'a \<Rightarrow> bool"
  assumes emits_rec: "emits (wr x) (enc x) (accepts x)"
    and reads_rec: "accepts x \<Longrightarrow> canon x \<Longrightarrow> reads rd (enc x) (Some x)"
begin

text \<open>What was written without an error is read back, up to its last byte.\<close>

lemma roundtrip:
  assumes "bw_ok (wr x ByteWriter_default)" and "canon x"
  shows "run_state rd (byte_reader (bw_buffer (wr x ByteWriter_default))) = (Some x, byte_reader [])"
  using emitsD [OF emits_rec assms(1)] readsD [OF reads_rec [of x], of "[]"] assms(2)
  by (simp add: ByteWriter_default_def)

text \<open>Encodings are prefix-free, so different records have different encodings.\<close>

lemma enc_prefix_free:
  assumes "accepts x" "canon x" "accepts y" "canon y" and "enc x @ s = enc y @ t"
  shows "x = y \<and> s = t"
  using readsD [OF reads_rec [OF assms(1,2)], of s] readsD [OF reads_rec [OF assms(3,4)], of t] assms(5)
  by (simp add: byte_reader_def)

lemma reads_many:
  assumes "list_all accepts xs" and "list_all canon xs" and "put_all put xs c = Some c'"
    and "length xs \<le> unat (ceiling :: u32)"
  shows "run_state (read_loop (unat (of_nat (length xs) :: u32)) rd put c)
      (byte_reader (concat (map enc xs) @ rest)) = (Some c', byte_reader rest)"
  using assms readsD [OF reads_loop [of xs rd enc put c c'], of rest] reads_rec
  by (auto simp: list_all_iff unat_of_nat_u32)

lemma reads_list:
  assumes "list_all accepts xs" and "list_all canon xs" and "length xs \<le> unat kMaxCollectionCount"
  shows "run_state (read_loop (unat (of_nat (length xs) :: u32)) rd push_back [])
      (byte_reader (concat (map enc xs) @ rest)) = (Some xs, byte_reader rest)"
  by (rule reads_many [OF assms(1,2) _ assms(3)]) (simp add: put_all_push_back)

end

lemma put_all_pairs:
  "om_wf (m0 @ m) \<Longrightarrow>
   put_all (\<lambda>(k, v) c. if om_find c k \<noteq> None then None else Some (om_emplace k v c)) m m0 = Some (m0 @ m)"
proof (induction m arbitrary: m0)
  case (Cons e m)
  obtain k v where e: "e = (k, v)" by (cases e)
  have wf: "om_wf ((m0 @ [(k, v)]) @ m)" using Cons.prems(1) e by simp
  then have wf1: "om_wf (m0 @ [(k, v)])" by (simp add: om_wf_def sorted_wrt_append)
  then have "om_find m0 k = None" by (auto simp: om_find_None_iff om_wf_def sorted_wrt_append)
  with Cons.IH [OF wf] e wf1 show ?case by (simp add: om_emplace_def om_put_last)
qed simp

lemma count_reads:
  "length xs \<le> unat c \<Longrightarrow>
   run_state (rd_count c) (byte_reader (enc_many enc xs @ rest)) =
     (of_nat (length xs), byte_reader (concat (map enc xs) @ rest))"
  unfolding enc_many_def append_assoc by (rule reads_count [THEN readsD])

lemma ids_reads:
  "id_set_good c ids \<Longrightarrow> run_state (rd_ids c) (byte_reader (enc_many enc_id ids @ rest)) = (ids, byte_reader rest)"
  unfolding id_set_good_def using reads_ids [THEN readsD] by blast

lemmas str_reads = reads_str [THEN readsD]
lemmas raw_reads = reads_raw [THEN readsD]
lemmas blob_reads = reads_blob [THEN readsD]

lemmas field_reads =
  reads_id [THEN readsD] reads_u16 [THEN readsD] reads_u32 [THEN readsD] reads_u64 [THEN readsD]
  reads_bool [THEN readsD] reads_ok [THEN readsD, simplified]

section \<open>Strings as collection elements\<close>

text \<open>A loop over \<open>push_back(reader.str())\<close> has no early return.\<close>

definition rd_str_item :: "string option reader" where
  "rd_str_item = do { s \<leftarrow> rd_str; State_Monad.return (Some s) }"

interpretation rc_str: record_codec wr_str rd_str_item enc_str str_good "\<lambda>_. True"
proof
  fix s :: string
  show "emits (wr_str s) (enc_str s) (str_good s)" by (rule emits_str)
  assume "str_good s"
  then show "reads rd_str_item (enc_str s) (Some s)"
    by (simp add: reads_def rd_str_item_def str_reads)
qed

text \<open>
  Every text the writer accepts is read back unchanged, and the reader stops right behind it.
\<close>

theorem str_roundtrip:
  assumes "bw_ok (wr_str s ByteWriter_default)"
  shows "run_state rd_str (byte_reader (bw_buffer (wr_str s ByteWriter_default) @ rest)) =
      (s, byte_reader rest) \<and> int (length s) \<le> kMaxStringBytes"
  using emitsD [OF emits_str assms] str_reads [of s rest] by (simp add: ByteWriter_default_def str_good_def)

theorem str_roundtrip_witness:
  "run_state rd_str (byte_reader (bw_buffer (wr_str ''fcf'' ByteWriter_default) @ [7])) =
     (''fcf'', byte_reader [7])"
proof -
  have "bw_ok (wr_str ''fcf'' ByteWriter_default)" by code_simp
  from str_roundtrip [OF this, of "[7]"] show ?thesis by simp
qed

end
