(* ===== verification/Fcf_Explain.thy ===== *)
theory Fcf_Explain
  imports Fcf_Ids "HOL-Library.Char_ord" "HOL-Library.List_Lexorder" "HOL-Library.Product_Lexorder"
begin

text \<open>
  Containment explanations (\<open>include/fcf/explain.hpp\<close>, \<open>src/explain.cpp\<close>): lines that are sorted
  by category rank, category, sort key and text, deduplicated, and rendered.
  The C++ string order is the lexicographic order of the characters' codes, which is the order of
  the library theories \<open>Char_ord\<close> and \<open>List_Lexorder\<close>.

  Printed identities: \<open>to_string\<close> prefixes the decimal value with the name of the identity's domain;
  the abbreviations \<open>str_X\<close> fix that name per domain.
\<close>

abbreviation str_CoordinatorEpoch :: "CoordinatorEpoch \<Rightarrow> string" where
  "str_CoordinatorEpoch \<equiv> id_to_string ''CoordinatorEpoch''"

abbreviation str_WorkerId :: "WorkerId \<Rightarrow> string" where
  "str_WorkerId \<equiv> id_to_string ''WorkerId''"

abbreviation str_WorkerBootId :: "WorkerBootId \<Rightarrow> string" where
  "str_WorkerBootId \<equiv> id_to_string ''WorkerBootId''"

abbreviation str_ResourceId :: "ResourceId \<Rightarrow> string" where
  "str_ResourceId \<equiv> id_to_string ''ResourceId''"

abbreviation str_ResourceGeneration :: "ResourceGeneration \<Rightarrow> string" where
  "str_ResourceGeneration \<equiv> id_to_string ''ResourceGeneration''"

abbreviation str_ContainmentDomainId :: "ContainmentDomainId \<Rightarrow> string" where
  "str_ContainmentDomainId \<equiv> id_to_string ''ContainmentDomainId''"

abbreviation str_IsolationDomainId :: "IsolationDomainId \<Rightarrow> string" where
  "str_IsolationDomainId \<equiv> id_to_string ''IsolationDomainId''"

abbreviation str_FailureDomainId :: "FailureDomainId \<Rightarrow> string" where
  "str_FailureDomainId \<equiv> id_to_string ''FailureDomainId''"

abbreviation str_DependencyId :: "DependencyId \<Rightarrow> string" where
  "str_DependencyId \<equiv> id_to_string ''DependencyId''"

abbreviation str_DependencyGeneration :: "DependencyGeneration \<Rightarrow> string" where
  "str_DependencyGeneration \<equiv> id_to_string ''DependencyGeneration''"

abbreviation str_FaultId :: "FaultId \<Rightarrow> string" where
  "str_FaultId \<equiv> id_to_string ''FaultId''"

abbreviation str_FaultGeneration :: "FaultGeneration \<Rightarrow> string" where
  "str_FaultGeneration \<equiv> id_to_string ''FaultGeneration''"

abbreviation str_TopologyGeneration :: "TopologyGeneration \<Rightarrow> string" where
  "str_TopologyGeneration \<equiv> id_to_string ''TopologyGeneration''"

abbreviation str_PolicyGeneration :: "PolicyGeneration \<Rightarrow> string" where
  "str_PolicyGeneration \<equiv> id_to_string ''PolicyGeneration''"

abbreviation str_ContainmentGeneration :: "ContainmentGeneration \<Rightarrow> string" where
  "str_ContainmentGeneration \<equiv> id_to_string ''ContainmentGeneration''"

abbreviation str_VerificationGeneration :: "VerificationGeneration \<Rightarrow> string" where
  "str_VerificationGeneration \<equiv> id_to_string ''VerificationGeneration''"

abbreviation str_ActionId :: "ActionId \<Rightarrow> string" where
  "str_ActionId \<equiv> id_to_string ''ActionId''"

abbreviation str_DegradedModeId :: "DegradedModeId \<Rightarrow> string" where
  "str_DegradedModeId \<equiv> id_to_string ''DegradedModeId''"

abbreviation str_EvidenceSequence :: "EvidenceSequence \<Rightarrow> string" where
  "str_EvidenceSequence \<equiv> id_to_string ''EvidenceSequence''"

section \<open>Lines and their order\<close>

datatype ExplanationLine =
  ExplanationLine (el_category: string) (el_sort_key: string) (el_text: string)

text \<open>\<open>ContainmentExplanation\<close> has one field, the vector of lines.\<close>

type_synonym ContainmentExplanation = "ExplanationLine list"

definition kCategoryOrder :: "string list" where
  "kCategoryOrder = [''AUTHORITY'', ''FAULT'', ''MANDATORY'', ''PRECAUTIONARY'', ''UNAFFECTED'',
     ''UNKNOWN'', ''DEGRADED'', ''REJECTED'', ''VERIFICATION'']"

fun category_rank_from :: "string list \<Rightarrow> nat \<Rightarrow> string \<Rightarrow> nat" where
  "category_rank_from [] rank category = rank + 1000"
| "category_rank_from (known # ks) rank category =
     (if category = known then rank else category_rank_from ks (rank + 1) category)"

definition explanation_category_rank :: "string \<Rightarrow> nat" where
  "explanation_category_rank category = category_rank_from kCategoryOrder 0 category"

definition explanation_add ::
    "ContainmentExplanation \<Rightarrow> string \<Rightarrow> string \<Rightarrow> string \<Rightarrow> ContainmentExplanation" where
  "explanation_add lines category key body = lines @ [ExplanationLine category key body]"

text \<open>The comparator of \<open>finalize\<close> compares these four components in turn.\<close>

definition line_key :: "ExplanationLine \<Rightarrow> nat \<times> string \<times> string \<times> string" where
  "line_key l = (explanation_category_rank (el_category l), el_category l, el_sort_key l, el_text l)"

text \<open>\<open>std::stable_sort\<close> followed by \<open>erase(unique(...))\<close>.\<close>

definition explanation_finalize :: "ContainmentExplanation \<Rightarrow> ContainmentExplanation" where
  "explanation_finalize lines = remdups_adj (sort_key line_key lines)"

definition newline :: char where
  "newline = CHR 0x0A"

fun render_lines :: "ContainmentExplanation \<Rightarrow> string \<Rightarrow> string \<Rightarrow> string" where
  "render_lines [] current_category out = out"
| "render_lines (line # ls) current_category out =
     (let out' =
        (if el_category line \<noteq> current_category
         then (if out \<noteq> [] then out @ [newline] else out) @ el_category line @ '':'' @ [newline]
         else out)
      in render_lines ls (el_category line) (out' @ ''  '' @ el_text line @ [newline]))"

definition explanation_render :: "ContainmentExplanation \<Rightarrow> string" where
  "explanation_render lines = render_lines lines [] []"

section \<open>Determinism\<close>

lemma line_key_inj: "inj line_key"
  by (rule injI) (auto simp: line_key_def intro: ExplanationLine.expand)

lemma line_key_eq [simp]: "line_key a = line_key b \<longleftrightarrow> a = b"
  using line_key_inj by (auto dest: injD)

lemma map_remdups_adj_inj: "inj f \<Longrightarrow> map f (remdups_adj xs) = remdups_adj (map f xs)"
  by (induction xs rule: remdups_adj.induct) (auto dest: injD)

lemma sorted_remdups_adj_strict: "sorted xs \<Longrightarrow> sorted_wrt (<) (remdups_adj xs)"
  by (induction xs rule: remdups_adj.induct) (auto simp: order.order_iff_strict)

lemma finalize_strictly_sorted: "sorted_wrt (<) (map line_key (explanation_finalize lines))"
  by (simp add: explanation_finalize_def map_remdups_adj_inj line_key_inj sorted_remdups_adj_strict)

lemma set_finalize [simp]: "set (explanation_finalize lines) = set lines"
  by (simp add: explanation_finalize_def)

lemma finalize_cong:
  assumes "set lines = set lines'"
  shows "explanation_finalize lines = explanation_finalize lines'"
proof -
  have "map line_key (explanation_finalize lines) = map line_key (explanation_finalize lines')"
    by (rule strict_sorted_equal) (simp_all add: finalize_strictly_sorted assms)
  then show ?thesis using line_key_inj by (metis inj_map_eq_map)
qed

text \<open>
  The rendered explanation depends only on which lines were added: two explanations
  with the same set of lines, added in any order and any number of times, finalize to the same
  sequence, and finalizing twice changes nothing. This is the header's byte-identity promise.
\<close>

theorem explanation_finalize_canonical:
  assumes "set lines = set lines'"
  shows "explanation_finalize lines = explanation_finalize lines' \<and>
    explanation_finalize (explanation_finalize lines) = explanation_finalize lines' \<and>
    sorted_wrt (<) (map line_key (explanation_finalize lines))"
  using finalize_cong [of lines lines'] finalize_cong [of "explanation_finalize lines" lines'] assms
  by (simp add: finalize_strictly_sorted)

theorem explanation_finalize_canonical_witness:
  "explanation_render (explanation_finalize
     [ExplanationLine ''FAULT'' ''k'' ''b'', ExplanationLine ''AUTHORITY'' ''e'' ''a'',
      ExplanationLine ''FAULT'' ''k'' ''b'']) =
   explanation_render (explanation_finalize
     [ExplanationLine ''AUTHORITY'' ''e'' ''a'', ExplanationLine ''FAULT'' ''k'' ''b''])"
  by (subst explanation_finalize_canonical [THEN conjunct1,
        of _ "[ExplanationLine ''AUTHORITY'' ''e'' ''a'', ExplanationLine ''FAULT'' ''k'' ''b'']"]) auto

end
