(* ===== verification/Fcf_Dependency.thy ===== *)
theory Fcf_Dependency
  imports Fcf_Evidence
begin

text \<open>
  Typed directional dependencies and the propagation graph (\<open>include/fcf/dependency.hpp\<close>,
  \<open>src/dependency.cpp\<close>): the edge record, the propagation vocabulary and the graph with its
  two adjacency indexes. \<open>graph_wf\<close> says that the indexes list exactly the edges of the edge
  map, in ascending order; every operation of the graph keeps it or establishes it.
\<close>

datatype (plugins only: code size) DependencyKind =
    EXECUTION_DEPENDS_ON
  | STATE_OWNED_BY
  | MEMORY_OWNED_BY
  | ROUTE_DEPENDS_ON
  | SERVICE_DEPENDS_ON
  | REPLICA_MEMBER_OF
  | SHARES_FAILURE_DOMAIN_WITH
  | SHARES_AUTHORITY_WITH
  | CONTROLLED_BY
  | REQUIRES_CAPABILITY_FROM
  | RESERVATION_BOUND_TO
  | LEASE_BOUND_TO
  | REGISTRATION_BOUND_TO

definition DependencyKind_values :: "DependencyKind list" where
  "DependencyKind_values = [
     DependencyKind.EXECUTION_DEPENDS_ON, DependencyKind.STATE_OWNED_BY, DependencyKind.MEMORY_OWNED_BY,
     DependencyKind.ROUTE_DEPENDS_ON, DependencyKind.SERVICE_DEPENDS_ON, DependencyKind.REPLICA_MEMBER_OF,
     DependencyKind.SHARES_FAILURE_DOMAIN_WITH, DependencyKind.SHARES_AUTHORITY_WITH, DependencyKind.CONTROLLED_BY,
     DependencyKind.REQUIRES_CAPABILITY_FROM, DependencyKind.RESERVATION_BOUND_TO, DependencyKind.LEASE_BOUND_TO,
     DependencyKind.REGISTRATION_BOUND_TO]"

primrec DependencyKind_str :: "DependencyKind \<Rightarrow> string" where
  "DependencyKind_str DependencyKind.EXECUTION_DEPENDS_ON = ''EXECUTION_DEPENDS_ON''"
| "DependencyKind_str DependencyKind.STATE_OWNED_BY = ''STATE_OWNED_BY''"
| "DependencyKind_str DependencyKind.MEMORY_OWNED_BY = ''MEMORY_OWNED_BY''"
| "DependencyKind_str DependencyKind.ROUTE_DEPENDS_ON = ''ROUTE_DEPENDS_ON''"
| "DependencyKind_str DependencyKind.SERVICE_DEPENDS_ON = ''SERVICE_DEPENDS_ON''"
| "DependencyKind_str DependencyKind.REPLICA_MEMBER_OF = ''REPLICA_MEMBER_OF''"
| "DependencyKind_str DependencyKind.SHARES_FAILURE_DOMAIN_WITH = ''SHARES_FAILURE_DOMAIN_WITH''"
| "DependencyKind_str DependencyKind.SHARES_AUTHORITY_WITH = ''SHARES_AUTHORITY_WITH''"
| "DependencyKind_str DependencyKind.CONTROLLED_BY = ''CONTROLLED_BY''"
| "DependencyKind_str DependencyKind.REQUIRES_CAPABILITY_FROM = ''REQUIRES_CAPABILITY_FROM''"
| "DependencyKind_str DependencyKind.RESERVATION_BOUND_TO = ''RESERVATION_BOUND_TO''"
| "DependencyKind_str DependencyKind.LEASE_BOUND_TO = ''LEASE_BOUND_TO''"
| "DependencyKind_str DependencyKind.REGISTRATION_BOUND_TO = ''REGISTRATION_BOUND_TO''"

lemma DependencyKind_set_values: "set DependencyKind_values = UNIV"
proof -
  have "x \<in> set DependencyKind_values" for x by (cases x) (simp_all add: DependencyKind_values_def)
  then show ?thesis by blast
qed

interpretation en_DependencyKind: enum_table DependencyKind_values DependencyKind_str
  by unfold_locales
    (rule DependencyKind_set_values, code_simp, code_simp, simp add: DependencyKind_values_def)

datatype PropagationDirection =
    FORWARD
  | BIDIRECTIONAL
  | NONE

definition PropagationDirection_values :: "PropagationDirection list" where
  "PropagationDirection_values = [
     PropagationDirection.FORWARD, PropagationDirection.BIDIRECTIONAL, PropagationDirection.NONE]"

primrec PropagationDirection_str :: "PropagationDirection \<Rightarrow> string" where
  "PropagationDirection_str PropagationDirection.FORWARD = ''FORWARD''"
| "PropagationDirection_str PropagationDirection.BIDIRECTIONAL = ''BIDIRECTIONAL''"
| "PropagationDirection_str PropagationDirection.NONE = ''NONE''"

lemma PropagationDirection_set_values: "set PropagationDirection_values = UNIV"
proof -
  have "x \<in> set PropagationDirection_values" for x by (cases x) (simp_all add: PropagationDirection_values_def)
  then show ?thesis by blast
qed

interpretation en_PropagationDirection: enum_table PropagationDirection_values PropagationDirection_str
  by unfold_locales
    (rule PropagationDirection_set_values, code_simp, code_simp, simp add: PropagationDirection_values_def)

record DependencyEdge =
  de_id :: DependencyId
  de_generation :: DependencyGeneration
  de_source :: ResourceId
  de_destination :: ResourceId
  de_kind :: DependencyKind
  de_provenance :: EvidenceProvenance
  de_freshness :: EvidenceFreshness
  de_integrity :: IntegrityStatus
  de_confidence_permille :: u16
  de_conditional :: bool
  de_observed_sequence :: EvidenceSequence
  de_evidence_source :: string

definition DependencyEdge_default :: DependencyEdge where
  "DependencyEdge_default = \<lparr>
     de_id = id_invalid,
     de_generation = id_invalid,
     de_source = id_invalid,
     de_destination = id_invalid,
     de_kind = DependencyKind.SERVICE_DEPENDS_ON,
     de_provenance = EvidenceProvenance.UNKNOWN,
     de_freshness = EvidenceFreshness.UNKNOWN,
     de_integrity = IntegrityStatus.UNVERIFIED,
     de_confidence_permille = 1000,
     de_conditional = False,
     de_observed_sequence = id_invalid,
     de_evidence_source = []\<rparr>"

datatype PropagationOutcome =
    PROPAGATION_IMPOSSIBLE
  | PROPAGATION_BLOCKED
  | PROPAGATION_POSSIBLE
  | PROPAGATION_LIKELY
  | PROPAGATION_CONFIRMED
  | PROPAGATION_UNKNOWN

definition PropagationOutcome_values :: "PropagationOutcome list" where
  "PropagationOutcome_values = [
     PropagationOutcome.PROPAGATION_IMPOSSIBLE, PropagationOutcome.PROPAGATION_BLOCKED, PropagationOutcome.PROPAGATION_POSSIBLE,
     PropagationOutcome.PROPAGATION_LIKELY, PropagationOutcome.PROPAGATION_CONFIRMED, PropagationOutcome.PROPAGATION_UNKNOWN]"

primrec PropagationOutcome_str :: "PropagationOutcome \<Rightarrow> string" where
  "PropagationOutcome_str PropagationOutcome.PROPAGATION_IMPOSSIBLE = ''PROPAGATION_IMPOSSIBLE''"
| "PropagationOutcome_str PropagationOutcome.PROPAGATION_BLOCKED = ''PROPAGATION_BLOCKED''"
| "PropagationOutcome_str PropagationOutcome.PROPAGATION_POSSIBLE = ''PROPAGATION_POSSIBLE''"
| "PropagationOutcome_str PropagationOutcome.PROPAGATION_LIKELY = ''PROPAGATION_LIKELY''"
| "PropagationOutcome_str PropagationOutcome.PROPAGATION_CONFIRMED = ''PROPAGATION_CONFIRMED''"
| "PropagationOutcome_str PropagationOutcome.PROPAGATION_UNKNOWN = ''PROPAGATION_UNKNOWN''"

lemma PropagationOutcome_set_values: "set PropagationOutcome_values = UNIV"
proof -
  have "x \<in> set PropagationOutcome_values" for x by (cases x) (simp_all add: PropagationOutcome_values_def)
  then show ?thesis by blast
qed

interpretation en_PropagationOutcome: enum_table PropagationOutcome_values PropagationOutcome_str
  by unfold_locales
    (rule PropagationOutcome_set_values, code_simp, code_simp, simp add: PropagationOutcome_values_def)

definition permits_continued_operation :: "PropagationOutcome \<Rightarrow> bool" where
  "permits_continued_operation outcome \<longleftrightarrow>
     outcome = PropagationOutcome.PROPAGATION_IMPOSSIBLE \<or>
     outcome = PropagationOutcome.PROPAGATION_BLOCKED"

datatype (plugins only: code size) InclusionReason =
    FAULT_SUBJECT
  | FAULT_SUBJECT_WORKER_INCARNATION
  | SHARED_AUTHORITY
  | STATE_OWNERSHIP_BOUND
  | MEMORY_OWNERSHIP_BOUND
  | SHARED_ISOLATION_DOMAIN
  | SHARED_FAILURE_DOMAIN
  | MANDATORY_CO_ISOLATION_RULE
  | DOMAIN_CO_ISOLATION
  | PROPAGATION_HARD_EDGE
  | PROPAGATION_CONDITIONAL_EDGE
  | ESCALATED_UNCERTAINTY
  | UNKNOWN_EVIDENCE_FAIL_CLOSED
  | ADMINISTRATIVE_OVERRIDE
  | ACTION_REQUIRED_BY_POLICY

definition InclusionReason_values :: "InclusionReason list" where
  "InclusionReason_values = [
     InclusionReason.FAULT_SUBJECT, InclusionReason.FAULT_SUBJECT_WORKER_INCARNATION, InclusionReason.SHARED_AUTHORITY,
     InclusionReason.STATE_OWNERSHIP_BOUND, InclusionReason.MEMORY_OWNERSHIP_BOUND, InclusionReason.SHARED_ISOLATION_DOMAIN,
     InclusionReason.SHARED_FAILURE_DOMAIN, InclusionReason.MANDATORY_CO_ISOLATION_RULE, InclusionReason.DOMAIN_CO_ISOLATION,
     InclusionReason.PROPAGATION_HARD_EDGE, InclusionReason.PROPAGATION_CONDITIONAL_EDGE, InclusionReason.ESCALATED_UNCERTAINTY,
     InclusionReason.UNKNOWN_EVIDENCE_FAIL_CLOSED, InclusionReason.ADMINISTRATIVE_OVERRIDE, InclusionReason.ACTION_REQUIRED_BY_POLICY]"

primrec InclusionReason_str :: "InclusionReason \<Rightarrow> string" where
  "InclusionReason_str InclusionReason.FAULT_SUBJECT = ''FAULT_SUBJECT''"
| "InclusionReason_str InclusionReason.FAULT_SUBJECT_WORKER_INCARNATION = ''FAULT_SUBJECT_WORKER_INCARNATION''"
| "InclusionReason_str InclusionReason.SHARED_AUTHORITY = ''SHARED_AUTHORITY''"
| "InclusionReason_str InclusionReason.STATE_OWNERSHIP_BOUND = ''STATE_OWNERSHIP_BOUND''"
| "InclusionReason_str InclusionReason.MEMORY_OWNERSHIP_BOUND = ''MEMORY_OWNERSHIP_BOUND''"
| "InclusionReason_str InclusionReason.SHARED_ISOLATION_DOMAIN = ''SHARED_ISOLATION_DOMAIN''"
| "InclusionReason_str InclusionReason.SHARED_FAILURE_DOMAIN = ''SHARED_FAILURE_DOMAIN''"
| "InclusionReason_str InclusionReason.MANDATORY_CO_ISOLATION_RULE = ''MANDATORY_CO_ISOLATION_RULE''"
| "InclusionReason_str InclusionReason.DOMAIN_CO_ISOLATION = ''DOMAIN_CO_ISOLATION''"
| "InclusionReason_str InclusionReason.PROPAGATION_HARD_EDGE = ''PROPAGATION_HARD_EDGE''"
| "InclusionReason_str InclusionReason.PROPAGATION_CONDITIONAL_EDGE = ''PROPAGATION_CONDITIONAL_EDGE''"
| "InclusionReason_str InclusionReason.ESCALATED_UNCERTAINTY = ''ESCALATED_UNCERTAINTY''"
| "InclusionReason_str InclusionReason.UNKNOWN_EVIDENCE_FAIL_CLOSED = ''UNKNOWN_EVIDENCE_FAIL_CLOSED''"
| "InclusionReason_str InclusionReason.ADMINISTRATIVE_OVERRIDE = ''ADMINISTRATIVE_OVERRIDE''"
| "InclusionReason_str InclusionReason.ACTION_REQUIRED_BY_POLICY = ''ACTION_REQUIRED_BY_POLICY''"

lemma InclusionReason_set_values: "set InclusionReason_values = UNIV"
proof -
  have "x \<in> set InclusionReason_values" for x by (cases x) (simp_all add: InclusionReason_values_def)
  then show ?thesis by blast
qed

interpretation en_InclusionReason: enum_table InclusionReason_values InclusionReason_str
  by unfold_locales
    (rule InclusionReason_set_values, code_simp, code_simp, simp add: InclusionReason_values_def)

datatype ExclusionReason =
    NO_PROVEN_PROPAGATION_PATH
  | FRESH_INDEPENDENT_AUTHORITY
  | SEPARATE_ISOLATION_DOMAIN
  | SEPARATE_FAILURE_DOMAIN
  | DEPENDENCY_KIND_DOES_NOT_PROPAGATE
  | PROPAGATION_PATH_ALREADY_SEVERED
  | CONDITIONAL_ONLY_INCLUSION
  | DEGRADED_MODE_PERMITTED_INDEPENDENCE

definition ExclusionReason_values :: "ExclusionReason list" where
  "ExclusionReason_values = [
     ExclusionReason.NO_PROVEN_PROPAGATION_PATH, ExclusionReason.FRESH_INDEPENDENT_AUTHORITY, ExclusionReason.SEPARATE_ISOLATION_DOMAIN,
     ExclusionReason.SEPARATE_FAILURE_DOMAIN, ExclusionReason.DEPENDENCY_KIND_DOES_NOT_PROPAGATE, ExclusionReason.PROPAGATION_PATH_ALREADY_SEVERED,
     ExclusionReason.CONDITIONAL_ONLY_INCLUSION, ExclusionReason.DEGRADED_MODE_PERMITTED_INDEPENDENCE]"

primrec ExclusionReason_str :: "ExclusionReason \<Rightarrow> string" where
  "ExclusionReason_str ExclusionReason.NO_PROVEN_PROPAGATION_PATH = ''NO_PROVEN_PROPAGATION_PATH''"
| "ExclusionReason_str ExclusionReason.FRESH_INDEPENDENT_AUTHORITY = ''FRESH_INDEPENDENT_AUTHORITY''"
| "ExclusionReason_str ExclusionReason.SEPARATE_ISOLATION_DOMAIN = ''SEPARATE_ISOLATION_DOMAIN''"
| "ExclusionReason_str ExclusionReason.SEPARATE_FAILURE_DOMAIN = ''SEPARATE_FAILURE_DOMAIN''"
| "ExclusionReason_str ExclusionReason.DEPENDENCY_KIND_DOES_NOT_PROPAGATE = ''DEPENDENCY_KIND_DOES_NOT_PROPAGATE''"
| "ExclusionReason_str ExclusionReason.PROPAGATION_PATH_ALREADY_SEVERED = ''PROPAGATION_PATH_ALREADY_SEVERED''"
| "ExclusionReason_str ExclusionReason.CONDITIONAL_ONLY_INCLUSION = ''CONDITIONAL_ONLY_INCLUSION''"
| "ExclusionReason_str ExclusionReason.DEGRADED_MODE_PERMITTED_INDEPENDENCE = ''DEGRADED_MODE_PERMITTED_INDEPENDENCE''"

lemma ExclusionReason_set_values: "set ExclusionReason_values = UNIV"
proof -
  have "x \<in> set ExclusionReason_values" for x by (cases x) (simp_all add: ExclusionReason_values_def)
  then show ?thesis by blast
qed

interpretation en_ExclusionReason: enum_table ExclusionReason_values ExclusionReason_str
  by unfold_locales
    (rule ExclusionReason_set_values, code_simp, code_simp, simp add: ExclusionReason_values_def)

datatype UnresolvedReason =
    EVIDENCE_STALE
  | EVIDENCE_INVALID
  | EVIDENCE_MISSING
  | TOPOLOGY_UNKNOWN
  | DEPENDENCY_FRESHNESS_UNKNOWN
  | AUTHORITY_STATE_UNKNOWN

definition UnresolvedReason_values :: "UnresolvedReason list" where
  "UnresolvedReason_values = [
     UnresolvedReason.EVIDENCE_STALE, UnresolvedReason.EVIDENCE_INVALID, UnresolvedReason.EVIDENCE_MISSING,
     UnresolvedReason.TOPOLOGY_UNKNOWN, UnresolvedReason.DEPENDENCY_FRESHNESS_UNKNOWN, UnresolvedReason.AUTHORITY_STATE_UNKNOWN]"

primrec UnresolvedReason_str :: "UnresolvedReason \<Rightarrow> string" where
  "UnresolvedReason_str UnresolvedReason.EVIDENCE_STALE = ''EVIDENCE_STALE''"
| "UnresolvedReason_str UnresolvedReason.EVIDENCE_INVALID = ''EVIDENCE_INVALID''"
| "UnresolvedReason_str UnresolvedReason.EVIDENCE_MISSING = ''EVIDENCE_MISSING''"
| "UnresolvedReason_str UnresolvedReason.TOPOLOGY_UNKNOWN = ''TOPOLOGY_UNKNOWN''"
| "UnresolvedReason_str UnresolvedReason.DEPENDENCY_FRESHNESS_UNKNOWN = ''DEPENDENCY_FRESHNESS_UNKNOWN''"
| "UnresolvedReason_str UnresolvedReason.AUTHORITY_STATE_UNKNOWN = ''AUTHORITY_STATE_UNKNOWN''"

lemma UnresolvedReason_set_values: "set UnresolvedReason_values = UNIV"
proof -
  have "x \<in> set UnresolvedReason_values" for x by (cases x) (simp_all add: UnresolvedReason_values_def)
  then show ?thesis by blast
qed

interpretation en_UnresolvedReason: enum_table UnresolvedReason_values UnresolvedReason_str
  by unfold_locales
    (rule UnresolvedReason_set_values, code_simp, code_simp, simp add: UnresolvedReason_values_def)

record PropagationHop =
  hop_from :: ResourceId
  hop_to :: ResourceId
  hop_dependency :: DependencyId
  hop_kind :: DependencyKind
  hop_outcome :: PropagationOutcome
  hop_reason :: InclusionReason

definition PropagationHop_default :: PropagationHop where
  "PropagationHop_default = \<lparr>
     hop_from = id_invalid,
     hop_to = id_invalid,
     hop_dependency = id_invalid,
     hop_kind = DependencyKind.SERVICE_DEPENDS_ON,
     hop_outcome = PropagationOutcome.PROPAGATION_UNKNOWN,
     hop_reason = InclusionReason.PROPAGATION_HARD_EDGE\<rparr>"

section \<open>The dependency graph\<close>

record DependencyGraph =
  dg_edges :: "(DependencyId, DependencyEdge) omap"
  dg_outgoing :: "(ResourceId, DependencyId IdSet) omap"
  dg_incoming :: "(ResourceId, DependencyId IdSet) omap"

definition DependencyGraph_default :: DependencyGraph where
  "DependencyGraph_default = \<lparr>
     dg_edges = [],
     dg_outgoing = [],
     dg_incoming = []\<rparr>"

definition graph_find :: "DependencyGraph \<Rightarrow> DependencyId \<Rightarrow> DependencyEdge option" where
  "graph_find g i = om_find (dg_edges g) i"

definition outgoing_of :: "DependencyGraph \<Rightarrow> ResourceId \<Rightarrow> DependencyId IdSet option" where
  "outgoing_of g r = om_find (dg_outgoing g) r"

definition incoming_of :: "DependencyGraph \<Rightarrow> ResourceId \<Rightarrow> DependencyId IdSet option" where
  "incoming_of g r = om_find (dg_incoming g) r"

text \<open>\<open>id_set_insert(index[r], i)\<close>: \<open>operator[]\<close> starts an absent entry as the empty set.\<close>

definition index_add ::
    "ResourceId \<Rightarrow> DependencyId \<Rightarrow> (ResourceId, DependencyId IdSet) omap \<Rightarrow>
     (ResourceId, DependencyId IdSet) omap" where
  "index_add r i index = om_adjust_default [] r (\<lambda>s. id_set_add s i) index"

text \<open>Erase from one index entry, and the entry itself when it becomes empty.\<close>

definition index_del ::
    "ResourceId \<Rightarrow> DependencyId \<Rightarrow> (ResourceId, DependencyId IdSet) omap \<Rightarrow>
     (ResourceId, DependencyId IdSet) omap" where
  "index_del r i index = (case om_find index r of
       None \<Rightarrow> index
     | Some s \<Rightarrow>
         let s' = id_set_del s i
         in if s' = [] then om_erase r index else om_put r s' index)"

definition graph_insert :: "DependencyEdge \<Rightarrow> DependencyGraph \<Rightarrow> DependencyGraph" where
  "graph_insert edge g = g\<lparr>
     dg_edges := om_put (de_id edge) edge (dg_edges g),
     dg_outgoing := index_add (de_source edge) (de_id edge) (dg_outgoing g),
     dg_incoming := index_add (de_destination edge) (de_id edge) (dg_incoming g)\<rparr>"

definition graph_erase :: "DependencyId \<Rightarrow> DependencyGraph \<Rightarrow> DependencyGraph \<times> bool" where
  "graph_erase i g = (case om_find (dg_edges g) i of
       None \<Rightarrow> (g, False)
     | Some edge \<Rightarrow>
         (g\<lparr>dg_edges := om_erase i (dg_edges g),
            dg_outgoing := index_del (de_source edge) i (dg_outgoing g),
            dg_incoming := index_del (de_destination edge) i (dg_incoming g)\<rparr>, True))"

definition rebuild_indexes :: "DependencyGraph \<Rightarrow> DependencyGraph" where
  "rebuild_indexes g =
     for_each (dg_edges g)
       (\<lambda>(_, edge) g. g\<lparr>
          dg_outgoing := index_add (de_source edge) (de_id edge) (dg_outgoing g),
          dg_incoming := index_add (de_destination edge) (de_id edge) (dg_incoming g)\<rparr>)
       (g\<lparr>dg_outgoing := [], dg_incoming := []\<rparr>)"

definition graph_references :: "DependencyGraph \<Rightarrow> ResourceId \<Rightarrow> bool" where
  "graph_references g r \<longleftrightarrow>
     om_find (dg_outgoing g) r \<noteq> None \<or> om_find (dg_incoming g) r \<noteq> None"

section \<open>The index invariant\<close>

text \<open>
  \<open>index_ok sel look index\<close>: the index lists, for each resource, exactly the identities of the
  edges whose selected endpoint it is; every entry is canonical and no entry is empty.
\<close>

definition index_set :: "(ResourceId, DependencyId IdSet) omap \<Rightarrow> ResourceId \<Rightarrow> DependencyId IdSet" where
  "index_set index r = (case om_find index r of None \<Rightarrow> [] | Some s \<Rightarrow> s)"

definition index_ok ::
    "(DependencyEdge \<Rightarrow> ResourceId) \<Rightarrow> (DependencyId \<Rightarrow> DependencyEdge option) \<Rightarrow>
     (ResourceId, DependencyId IdSet) omap \<Rightarrow> bool" where
  "index_ok sel look index \<longleftrightarrow> om_wf index \<and>
     (\<forall>r. om_find index r \<noteq> Some [] \<and> id_set_wf (index_set index r) \<and>
        set (index_set index r) = {i. \<exists>e. look i = Some e \<and> sel e = r})"

definition graph_wf :: "DependencyGraph \<Rightarrow> bool" where
  "graph_wf g \<longleftrightarrow> om_wf (dg_edges g) \<and>
     (\<forall>i e. om_find (dg_edges g) i = Some e \<longrightarrow> de_id e = i) \<and>
     index_ok de_source (om_find (dg_edges g)) (dg_outgoing g) \<and>
     index_ok de_destination (om_find (dg_edges g)) (dg_incoming g)"

lemma index_set_add:
  "index_set (index_add r i index) r' =
     (if r' = r then id_set_add (index_set index r) i else index_set index r')"
  by (simp add: index_set_def index_add_def)

lemma index_set_del:
  "index_set (index_del r i index) r' =
     (if r' = r then id_set_del (index_set index r) i else index_set index r')"
  by (auto simp: index_set_def index_del_def Let_def split: option.split)

lemma index_ok_empty: "index_ok sel Map.empty []"
  by (simp add: index_ok_def index_set_def)

lemma id_set_add_nonempty [simp]: "id_set_add s x \<noteq> []"
  using set_id_set_add [of s x] by fastforce

lemma index_ok_add:
  assumes "index_ok sel look index" and "\<And>e'. look i = Some e' \<Longrightarrow> sel e' = sel e"
  shows "index_ok sel (look(i \<mapsto> e)) (index_add (sel e) i index)"
proof -
  have "om_find (index_add (sel e) i index) r \<noteq> Some []" for r
    using assms(1) by (simp add: index_add_def index_ok_def)
  moreover have "om_wf (index_add (sel e) i index)"
    using assms(1) by (simp add: index_add_def index_ok_def)
  moreover have "id_set_wf (index_set (index_add (sel e) i index) r)" for r
    using assms(1) by (simp add: index_set_add index_ok_def idset.invar_ins)
  moreover have "set (index_set (index_add (sel e) i index) r) =
      {j. \<exists>e'. (look(i \<mapsto> e)) j = Some e' \<and> sel e' = r}" for r
    using assms by (auto simp: index_set_add index_ok_def)
  ultimately show ?thesis unfolding index_ok_def by blast
qed

lemma index_ok_del:
  assumes "index_ok sel look index" and "look i = Some e"
  shows "index_ok sel (look(i := None)) (index_del (sel e) i index)"
proof -
  have wf: "id_set_wf (index_set index r)" for r
    using assms(1) by (simp add: index_ok_def)
  have "om_find (index_del (sel e) i index) r \<noteq> Some []" for r
    using assms(1) by (auto simp: index_del_def Let_def index_ok_def split: option.split)
  moreover have "om_wf (index_del (sel e) i index)"
    using assms(1) by (simp add: index_del_def Let_def index_ok_def split: option.split)
  moreover have "id_set_wf (index_set (index_del (sel e) i index) r)" for r
    using wf by (simp add: index_set_del id_set_wf_del)
  moreover have "set (index_set (index_del (sel e) i index) r) =
      {j. \<exists>e'. (look(i := None)) j = Some e' \<and> sel e' = r}" for r
    using assms by (auto simp: index_set_del set_id_set_del [OF wf] index_ok_def)
  ultimately show ?thesis unfolding index_ok_def by blast
qed

lemma index_referenced:
  assumes "index_ok sel look index"
  shows "om_find index r \<noteq> None \<longleftrightarrow> (\<exists>j e. look j = Some e \<and> sel e = r)"
proof -
  have "om_find index r \<noteq> None \<longleftrightarrow> index_set index r \<noteq> []"
    using assms by (auto simp: index_ok_def index_set_def split: option.split)
  also have "\<dots> \<longleftrightarrow> set (index_set index r) \<noteq> {}" by simp
  also have "set (index_set index r) = {i. \<exists>e. look i = Some e \<and> sel e = r}"
    using assms by (simp add: index_ok_def)
  finally show ?thesis by simp
qed

text \<open>
  Inserting an edge keeps both adjacency indexes exact, provided the edge identity is new or
  is re-inserted with the same endpoints. (The engine inserts only identities it has checked to
  be new.)
\<close>

theorem graph_insert_wf:
  assumes "graph_wf g"
    and "\<And>old. om_find (dg_edges g) (de_id edge) = Some old \<Longrightarrow>
      de_source old = de_source edge \<and> de_destination old = de_destination edge"
  shows "graph_wf (graph_insert edge g)"
proof -
  have look: "om_find (om_put (de_id edge) edge (dg_edges g)) =
      (om_find (dg_edges g))(de_id edge \<mapsto> edge)"
    by (rule ext) simp
  from assms show ?thesis
    unfolding graph_wf_def graph_insert_def
    by (auto simp: look intro!: index_ok_add)
qed

definition demo_edge :: DependencyEdge where
  "demo_edge = DependencyEdge_default\<lparr>de_id := Id 7, de_source := Id 1, de_destination := Id 2\<rparr>"

lemma graph_wf_default: "graph_wf DependencyGraph_default"
  by (simp add: graph_wf_def DependencyGraph_default_def index_ok_empty [simplified])

lemma graph_wf_demo: "graph_wf (graph_insert demo_edge DependencyGraph_default)"
proof -
  have "index_ok sel (om_find [(Id 7, demo_edge)]) (index_add (sel demo_edge) (Id 7) [])" for sel
    using index_ok_add [OF index_ok_empty, where i = "Id 7" and e = demo_edge and sel = sel] by (simp add: fun_upd_def)
  moreover have "de_id demo_edge = Id 7" by (simp add: demo_edge_def)
  ultimately show ?thesis
    by (auto simp: graph_wf_def graph_insert_def DependencyGraph_default_def om_wf_Cons)
qed

theorem graph_insert_wf_witness:
  "graph_wf (graph_insert demo_edge (graph_insert demo_edge DependencyGraph_default))"
  by (rule graph_insert_wf [OF graph_wf_demo])
    (simp add: DependencyGraph_default_def graph_insert_def)

text \<open>
  Erasing an edge keeps the indexes exact, removes the edge from every lookup and reports
  whether it was present; afterwards a resource with no remaining edge is no longer referenced.
\<close>

theorem graph_erase_wf:
  assumes "graph_wf g"
  shows "graph_wf (fst (graph_erase i g)) \<and>
    graph_find (fst (graph_erase i g)) i = None \<and>
    (snd (graph_erase i g) \<longleftrightarrow> graph_find g i \<noteq> None) \<and>
    (graph_references (fst (graph_erase i g)) r \<longleftrightarrow>
      (\<exists>j e. j \<noteq> i \<and> graph_find g j = Some e \<and> (de_source e = r \<or> de_destination e = r)))"
proof -
  let ?g = "fst (graph_erase i g)"
  have look: "om_find (om_erase i (dg_edges g)) = (om_find (dg_edges g))(i := None)"
    by (rule ext) simp
  have wf: "graph_wf ?g"
    using assms unfolding graph_wf_def graph_erase_def
    by (auto simp: look index_ok_del split: option.split)
  have edges: "om_find (dg_edges ?g) = (om_find (dg_edges g))(i := None)"
    by (rule ext) (auto simp: graph_erase_def split: option.split)
  have "graph_references ?g r \<longleftrightarrow>
      (\<exists>j e. (om_find (dg_edges ?g)) j = Some e \<and> (de_source e = r \<or> de_destination e = r))"
    using wf index_referenced unfolding graph_wf_def graph_references_def by blast
  moreover have "graph_find ?g i = None" by (simp add: graph_find_def edges)
  moreover have "snd (graph_erase i g) \<longleftrightarrow> graph_find g i \<noteq> None"
    by (simp add: graph_erase_def graph_find_def split: option.split)
  ultimately show ?thesis using wf unfolding graph_find_def edges by (auto split: if_splits)
qed

theorem graph_erase_wf_witness:
  "graph_find (fst (graph_erase (Id 7) (graph_insert demo_edge DependencyGraph_default))) (Id 7) = None"
  using graph_erase_wf [OF graph_wf_demo] by blast

lemma map_of_snoc: "k \<notin> fst ` set xs \<Longrightarrow> map_of (xs @ [(k, v)]) = (map_of xs)(k \<mapsto> v)"
  by (induction xs) (auto simp: fun_upd_twist)

definition rebuild_step :: "DependencyId \<times> DependencyEdge \<Rightarrow> DependencyGraph \<Rightarrow> DependencyGraph" where
  "rebuild_step = (\<lambda>(_, edge) g. g\<lparr>
     dg_outgoing := index_add (de_source edge) (de_id edge) (dg_outgoing g),
     dg_incoming := index_add (de_destination edge) (de_id edge) (dg_incoming g)\<rparr>)"

lemma rebuild_fold:
  assumes "distinct (map fst (xs @ ys))" and "\<forall>(k, e) \<in> set ys. de_id e = k"
    and "index_ok de_source (map_of xs) (dg_outgoing g)"
    and "index_ok de_destination (map_of xs) (dg_incoming g)"
  shows "index_ok de_source (map_of (xs @ ys)) (dg_outgoing (fold rebuild_step ys g)) \<and>
    index_ok de_destination (map_of (xs @ ys)) (dg_incoming (fold rebuild_step ys g))"
  using assms
proof (induction ys arbitrary: xs g)
  case (Cons y ys)
  obtain k e where y: "y = (k, e)" by (cases y)
  have id: "de_id e = k" and fresh: "k \<notin> fst ` set xs" using Cons.prems y by auto
  then have none: "map_of xs k = None" by (simp add: om_find_None_iff)
  have "index_ok sel (map_of (xs @ [(k, e)])) (index_add (sel e) k index)"
    if "index_ok sel (map_of xs) index" for sel index
    using index_ok_add [OF that, of k e] none fresh by (simp only: map_of_snoc option.distinct simp_thms)
  then show ?case
    using Cons.IH [of "xs @ [y]" "rebuild_step y g"] Cons.prems y id
    by (simp add: rebuild_step_def)
qed simp

text \<open>
  Rebuilding the indexes from the edge map yields a well-formed graph whatever the indexes
  held before, and changes no edge.
\<close>

theorem rebuild_indexes_wf:
  assumes "om_wf (dg_edges g)" and "\<And>i e. om_find (dg_edges g) i = Some e \<Longrightarrow> de_id e = i"
  shows "graph_wf (rebuild_indexes g) \<and> dg_edges (rebuild_indexes g) = dg_edges g"
proof -
  let ?g = "g\<lparr>dg_outgoing := [], dg_incoming := []\<rparr>"
  have rb: "rebuild_indexes g = fold rebuild_step (dg_edges g) ?g"
    by (simp add: rebuild_indexes_def rebuild_step_def)
  have edges: "dg_edges (rebuild_indexes g) = dg_edges g"
    unfolding rb by (subst fold_preserves) (auto simp: rebuild_step_def)
  have "\<forall>(k, e) \<in> set (dg_edges g). de_id e = k"
    using assms om_in_set_iff by fastforce
  with rebuild_fold [of "[]" "dg_edges g" ?g] om_wf_distinct [OF assms(1)] index_ok_empty edges assms
  show ?thesis by (simp add: graph_wf_def rb del: map_map)
qed

theorem rebuild_indexes_wf_witness:
  "graph_wf (rebuild_indexes (DependencyGraph_default\<lparr>dg_edges := [(Id 7, demo_edge)]\<rparr>))"
  by (rule rebuild_indexes_wf [THEN conjunct1])
    (auto simp: om_wf_Cons demo_edge_def split: if_splits)

end
