(* ===== verification/Fcf_Domain.thy ===== *)
theory Fcf_Domain
  imports Fcf_Dependency
begin

text \<open>
  Containment structure (\<open>include/fcf/domain.hpp\<close>): resources, the three kinds of domains and
  the topology that holds them.
\<close>

datatype (plugins only: code size) ResourceClass =
    WORKER
  | PROCESS
  | ACCELERATOR
  | ACCELERATOR_PARTITION
  | DEVICE
  | HOST
  | RACK_LOCAL_GROUP
  | SERVICE
  | SERVICE_REPLICA_GROUP
  | MEMORY_DEPENDENCY_SET
  | CLUSTER_PARTITION
  | ATTEMPT
  | EXECUTION
  | MEMORY_OWNERSHIP
  | ASSIGNMENT
  | ROUTE
  | REGISTRATION
  | LEASE
  | RESERVATION
  | STATE_STORE
  | CAPABILITY
  | GENERIC

definition ResourceClass_values :: "ResourceClass list" where
  "ResourceClass_values = [
     ResourceClass.WORKER, ResourceClass.PROCESS, ResourceClass.ACCELERATOR,
     ResourceClass.ACCELERATOR_PARTITION, ResourceClass.DEVICE, ResourceClass.HOST,
     ResourceClass.RACK_LOCAL_GROUP, ResourceClass.SERVICE, ResourceClass.SERVICE_REPLICA_GROUP,
     ResourceClass.MEMORY_DEPENDENCY_SET, ResourceClass.CLUSTER_PARTITION, ResourceClass.ATTEMPT,
     ResourceClass.EXECUTION, ResourceClass.MEMORY_OWNERSHIP, ResourceClass.ASSIGNMENT,
     ResourceClass.ROUTE, ResourceClass.REGISTRATION, ResourceClass.LEASE,
     ResourceClass.RESERVATION, ResourceClass.STATE_STORE, ResourceClass.CAPABILITY,
     ResourceClass.GENERIC]"

primrec ResourceClass_str :: "ResourceClass \<Rightarrow> string" where
  "ResourceClass_str ResourceClass.WORKER = ''WORKER''"
| "ResourceClass_str ResourceClass.PROCESS = ''PROCESS''"
| "ResourceClass_str ResourceClass.ACCELERATOR = ''ACCELERATOR''"
| "ResourceClass_str ResourceClass.ACCELERATOR_PARTITION = ''ACCELERATOR_PARTITION''"
| "ResourceClass_str ResourceClass.DEVICE = ''DEVICE''"
| "ResourceClass_str ResourceClass.HOST = ''HOST''"
| "ResourceClass_str ResourceClass.RACK_LOCAL_GROUP = ''RACK_LOCAL_GROUP''"
| "ResourceClass_str ResourceClass.SERVICE = ''SERVICE''"
| "ResourceClass_str ResourceClass.SERVICE_REPLICA_GROUP = ''SERVICE_REPLICA_GROUP''"
| "ResourceClass_str ResourceClass.MEMORY_DEPENDENCY_SET = ''MEMORY_DEPENDENCY_SET''"
| "ResourceClass_str ResourceClass.CLUSTER_PARTITION = ''CLUSTER_PARTITION''"
| "ResourceClass_str ResourceClass.ATTEMPT = ''ATTEMPT''"
| "ResourceClass_str ResourceClass.EXECUTION = ''EXECUTION''"
| "ResourceClass_str ResourceClass.MEMORY_OWNERSHIP = ''MEMORY_OWNERSHIP''"
| "ResourceClass_str ResourceClass.ASSIGNMENT = ''ASSIGNMENT''"
| "ResourceClass_str ResourceClass.ROUTE = ''ROUTE''"
| "ResourceClass_str ResourceClass.REGISTRATION = ''REGISTRATION''"
| "ResourceClass_str ResourceClass.LEASE = ''LEASE''"
| "ResourceClass_str ResourceClass.RESERVATION = ''RESERVATION''"
| "ResourceClass_str ResourceClass.STATE_STORE = ''STATE_STORE''"
| "ResourceClass_str ResourceClass.CAPABILITY = ''CAPABILITY''"
| "ResourceClass_str ResourceClass.GENERIC = ''GENERIC''"

lemma ResourceClass_set_values: "set ResourceClass_values = UNIV"
proof -
  have "x \<in> set ResourceClass_values" for x by (cases x) (simp_all add: ResourceClass_values_def)
  then show ?thesis by blast
qed

interpretation en_ResourceClass: enum_table ResourceClass_values ResourceClass_str
  by unfold_locales
    (rule ResourceClass_set_values, code_simp, code_simp, simp add: ResourceClass_values_def)

datatype ProtectionClass =
    STANDARD
  | PROTECTED
  | CRITICAL

definition ProtectionClass_values :: "ProtectionClass list" where
  "ProtectionClass_values = [
     ProtectionClass.STANDARD, ProtectionClass.PROTECTED, ProtectionClass.CRITICAL]"

primrec ProtectionClass_str :: "ProtectionClass \<Rightarrow> string" where
  "ProtectionClass_str ProtectionClass.STANDARD = ''STANDARD''"
| "ProtectionClass_str ProtectionClass.PROTECTED = ''PROTECTED''"
| "ProtectionClass_str ProtectionClass.CRITICAL = ''CRITICAL''"

lemma ProtectionClass_set_values: "set ProtectionClass_values = UNIV"
proof -
  have "x \<in> set ProtectionClass_values" for x by (cases x) (simp_all add: ProtectionClass_values_def)
  then show ?thesis by blast
qed

interpretation en_ProtectionClass: enum_table ProtectionClass_values ProtectionClass_str
  by unfold_locales
    (rule ProtectionClass_set_values, code_simp, code_simp, simp add: ProtectionClass_values_def)

datatype ResourceOperationalState =
    ACTIVE
  | FENCED
  | QUARANTINED
  | DRAINING
  | DISABLED
  | RELEASED
  | SUPERSEDED
  | UNKNOWN

definition ResourceOperationalState_values :: "ResourceOperationalState list" where
  "ResourceOperationalState_values = [
     ResourceOperationalState.ACTIVE, ResourceOperationalState.FENCED, ResourceOperationalState.QUARANTINED,
     ResourceOperationalState.DRAINING, ResourceOperationalState.DISABLED, ResourceOperationalState.RELEASED,
     ResourceOperationalState.SUPERSEDED, ResourceOperationalState.UNKNOWN]"

primrec ResourceOperationalState_str :: "ResourceOperationalState \<Rightarrow> string" where
  "ResourceOperationalState_str ResourceOperationalState.ACTIVE = ''ACTIVE''"
| "ResourceOperationalState_str ResourceOperationalState.FENCED = ''FENCED''"
| "ResourceOperationalState_str ResourceOperationalState.QUARANTINED = ''QUARANTINED''"
| "ResourceOperationalState_str ResourceOperationalState.DRAINING = ''DRAINING''"
| "ResourceOperationalState_str ResourceOperationalState.DISABLED = ''DISABLED''"
| "ResourceOperationalState_str ResourceOperationalState.RELEASED = ''RELEASED''"
| "ResourceOperationalState_str ResourceOperationalState.SUPERSEDED = ''SUPERSEDED''"
| "ResourceOperationalState_str ResourceOperationalState.UNKNOWN = ''UNKNOWN''"

lemma ResourceOperationalState_set_values: "set ResourceOperationalState_values = UNIV"
proof -
  have "x \<in> set ResourceOperationalState_values" for x by (cases x) (simp_all add: ResourceOperationalState_values_def)
  then show ?thesis by blast
qed

interpretation en_ResourceOperationalState: enum_table ResourceOperationalState_values ResourceOperationalState_str
  by unfold_locales
    (rule ResourceOperationalState_set_values, code_simp, code_simp, simp add: ResourceOperationalState_values_def)

definition is_operable :: "ResourceOperationalState \<Rightarrow> bool" where
  "is_operable s \<longleftrightarrow>
     s = ResourceOperationalState.ACTIVE \<or> s = ResourceOperationalState.DRAINING"

definition is_contained :: "ResourceOperationalState \<Rightarrow> bool" where
  "is_contained s = (case s of
       ResourceOperationalState.FENCED \<Rightarrow> True
     | ResourceOperationalState.QUARANTINED \<Rightarrow> True
     | ResourceOperationalState.DISABLED \<Rightarrow> True
     | _ \<Rightarrow> False)"

datatype (plugins only: code size) FailureDomainKind =
    PROCESS
  | HOST
  | PCIE_ROOT
  | NUMA_DOMAIN
  | POWER_DOMAIN
  | RACK
  | NETWORK_PARTITION
  | SYNTHETIC_CORRELATED_GROUP
  | UNKNOWN

definition FailureDomainKind_values :: "FailureDomainKind list" where
  "FailureDomainKind_values = [
     FailureDomainKind.PROCESS, FailureDomainKind.HOST, FailureDomainKind.PCIE_ROOT,
     FailureDomainKind.NUMA_DOMAIN, FailureDomainKind.POWER_DOMAIN, FailureDomainKind.RACK,
     FailureDomainKind.NETWORK_PARTITION, FailureDomainKind.SYNTHETIC_CORRELATED_GROUP, FailureDomainKind.UNKNOWN]"

primrec FailureDomainKind_str :: "FailureDomainKind \<Rightarrow> string" where
  "FailureDomainKind_str FailureDomainKind.PROCESS = ''PROCESS''"
| "FailureDomainKind_str FailureDomainKind.HOST = ''HOST''"
| "FailureDomainKind_str FailureDomainKind.PCIE_ROOT = ''PCIE_ROOT''"
| "FailureDomainKind_str FailureDomainKind.NUMA_DOMAIN = ''NUMA_DOMAIN''"
| "FailureDomainKind_str FailureDomainKind.POWER_DOMAIN = ''POWER_DOMAIN''"
| "FailureDomainKind_str FailureDomainKind.RACK = ''RACK''"
| "FailureDomainKind_str FailureDomainKind.NETWORK_PARTITION = ''NETWORK_PARTITION''"
| "FailureDomainKind_str FailureDomainKind.SYNTHETIC_CORRELATED_GROUP = ''SYNTHETIC_CORRELATED_GROUP''"
| "FailureDomainKind_str FailureDomainKind.UNKNOWN = ''UNKNOWN''"

lemma FailureDomainKind_set_values: "set FailureDomainKind_values = UNIV"
proof -
  have "x \<in> set FailureDomainKind_values" for x by (cases x) (simp_all add: FailureDomainKind_values_def)
  then show ?thesis by blast
qed

interpretation en_FailureDomainKind: enum_table FailureDomainKind_values FailureDomainKind_str
  by unfold_locales
    (rule FailureDomainKind_set_values, code_simp, code_simp, simp add: FailureDomainKind_values_def)

datatype IsolationClass =
    AUTHORITY
  | HARDWARE
  | STATE
  | TRANSPORT
  | SECURITY
  | SYNTHETIC

definition IsolationClass_values :: "IsolationClass list" where
  "IsolationClass_values = [
     IsolationClass.AUTHORITY, IsolationClass.HARDWARE, IsolationClass.STATE,
     IsolationClass.TRANSPORT, IsolationClass.SECURITY, IsolationClass.SYNTHETIC]"

primrec IsolationClass_str :: "IsolationClass \<Rightarrow> string" where
  "IsolationClass_str IsolationClass.AUTHORITY = ''AUTHORITY''"
| "IsolationClass_str IsolationClass.HARDWARE = ''HARDWARE''"
| "IsolationClass_str IsolationClass.STATE = ''STATE''"
| "IsolationClass_str IsolationClass.TRANSPORT = ''TRANSPORT''"
| "IsolationClass_str IsolationClass.SECURITY = ''SECURITY''"
| "IsolationClass_str IsolationClass.SYNTHETIC = ''SYNTHETIC''"

lemma IsolationClass_set_values: "set IsolationClass_values = UNIV"
proof -
  have "x \<in> set IsolationClass_values" for x by (cases x) (simp_all add: IsolationClass_values_def)
  then show ?thesis by blast
qed

interpretation en_IsolationClass: enum_table IsolationClass_values IsolationClass_str
  by unfold_locales
    (rule IsolationClass_set_values, code_simp, code_simp, simp add: IsolationClass_values_def)

record ResourceRecord =
  rr_id :: ResourceId
  rr_generation :: ResourceGeneration
  rr_name :: string
  rr_resource_class :: ResourceClass
  rr_protection :: ProtectionClass
  rr_state :: ResourceOperationalState
  rr_containment_domain :: ContainmentDomainId
  rr_isolation_domain :: IsolationDomainId
  rr_failure_domain :: FailureDomainId
  rr_owner_worker :: WorkerId
  rr_owner_boot :: WorkerBootId
  rr_node :: NodeId
  rr_host :: HostId
  rr_device :: DeviceId
  rr_accelerator :: AcceleratorId
  rr_service :: ServiceId
  rr_workload :: WorkloadId
  rr_execution :: ExecutionId
  rr_attempt :: AttemptId
  rr_reservation :: ReservationId
  rr_lease :: LeaseId
  rr_freshness :: EvidenceFreshness
  rr_evidence_sequence :: EvidenceSequence
  rr_updated_at_ms :: u64
  rr_quarantined :: bool
  rr_mechanism :: ContainmentMechanism
  rr_containment_generation :: ContainmentGeneration
  rr_release_generation :: ReleaseGeneration

definition ResourceRecord_default :: ResourceRecord where
  "ResourceRecord_default = \<lparr>
     rr_id = id_invalid,
     rr_generation = id_invalid,
     rr_name = [],
     rr_resource_class = ResourceClass.GENERIC,
     rr_protection = ProtectionClass.STANDARD,
     rr_state = ResourceOperationalState.UNKNOWN,
     rr_containment_domain = id_invalid,
     rr_isolation_domain = id_invalid,
     rr_failure_domain = id_invalid,
     rr_owner_worker = id_invalid,
     rr_owner_boot = id_invalid,
     rr_node = id_invalid,
     rr_host = id_invalid,
     rr_device = id_invalid,
     rr_accelerator = id_invalid,
     rr_service = id_invalid,
     rr_workload = id_invalid,
     rr_execution = id_invalid,
     rr_attempt = id_invalid,
     rr_reservation = id_invalid,
     rr_lease = id_invalid,
     rr_freshness = EvidenceFreshness.UNKNOWN,
     rr_evidence_sequence = id_invalid,
     rr_updated_at_ms = 0,
     rr_quarantined = False,
     rr_mechanism = ContainmentMechanism.NONE,
     rr_containment_generation = id_invalid,
     rr_release_generation = id_invalid\<rparr>"

record ContainmentDomain =
  cd_id :: ContainmentDomainId
  cd_generation :: TopologyGeneration
  cd_name :: string
  cd_members :: "ResourceId IdSet"
  cd_protection :: ProtectionClass
  cd_co_isolate_members :: bool

definition ContainmentDomain_default :: ContainmentDomain where
  "ContainmentDomain_default = \<lparr>
     cd_id = id_invalid,
     cd_generation = id_invalid,
     cd_name = [],
     cd_members = [],
     cd_protection = ProtectionClass.STANDARD,
     cd_co_isolate_members = False\<rparr>"

record IsolationDomain =
  idm_id :: IsolationDomainId
  idm_generation :: TopologyGeneration
  idm_name :: string
  idm_members :: "ResourceId IdSet"
  idm_classes :: "IsolationClass EnumSet"
  idm_mechanism :: ContainmentMechanism

definition IsolationDomain_default :: IsolationDomain where
  "IsolationDomain_default = \<lparr>
     idm_id = id_invalid,
     idm_generation = id_invalid,
     idm_name = [],
     idm_members = [],
     idm_classes = [],
     idm_mechanism = ContainmentMechanism.LOGICAL_CONTAINMENT\<rparr>"

record FailureDomain =
  fd_id :: FailureDomainId
  fd_generation :: TopologyGeneration
  fd_name :: string
  fd_kind :: FailureDomainKind
  fd_members :: "ResourceId IdSet"
  fd_provenance :: EvidenceProvenance
  fd_freshness :: EvidenceFreshness

definition FailureDomain_default :: FailureDomain where
  "FailureDomain_default = \<lparr>
     fd_id = id_invalid,
     fd_generation = id_invalid,
     fd_name = [],
     fd_kind = FailureDomainKind.UNKNOWN,
     fd_members = [],
     fd_provenance = EvidenceProvenance.UNKNOWN,
     fd_freshness = EvidenceFreshness.UNKNOWN\<rparr>"

record Topology =
  tp_generation :: TopologyGeneration
  tp_resources :: "(ResourceId, ResourceRecord) omap"
  tp_containment_domains :: "(ContainmentDomainId, ContainmentDomain) omap"
  tp_isolation_domains :: "(IsolationDomainId, IsolationDomain) omap"
  tp_failure_domains :: "(FailureDomainId, FailureDomain) omap"
  tp_dependencies :: DependencyGraph

definition Topology_default :: Topology where
  "Topology_default = \<lparr>
     tp_generation = id_invalid,
     tp_resources = [],
     tp_containment_domains = [],
     tp_isolation_domains = [],
     tp_failure_domains = [],
     tp_dependencies = DependencyGraph_default\<rparr>"

lemma contained_not_operable: "is_contained s \<Longrightarrow> \<not> is_operable s"
  by (auto simp: is_contained_def is_operable_def)

end
