(* ===== verification/Fcf_Fault.thy ===== *)
theory Fcf_Fault
  imports Fcf_Evidence
begin

text \<open>
  Fault taxonomy, evidence and the fault state machine (\<open>include/fcf/fault.hpp\<close>). The lemmas
  at the end are about whole chains of legal transitions, not about single entries of the
  transition table.
\<close>

datatype (plugins only: code size) FaultKind =
    PROCESS_DEATH
  | PROCESS_UNRESPONSIVE
  | WORKER_AUTHORITY_LOST
  | DEVICE_FAILURE
  | DEVICE_UNAVAILABLE
  | DEVICE_RESET
  | MEMORY_INTEGRITY_FAILURE
  | PERSISTENCE_CORRUPTION
  | TRANSPORT_PARTITION
  | TRANSPORT_CORRUPTION
  | CONTROL_PLANE_LOSS
  | COORDINATOR_RESTART
  | STALE_AUTHORITY
  | RESOURCE_EXHAUSTION
  | THERMAL_VIOLATION
  | POWER_VIOLATION
  | TOPOLOGY_INCONSISTENCY
  | DEPENDENCY_FAILURE
  | HEALTH_DEGRADED
  | SECURITY_ISOLATION_REQUEST
  | ADMINISTRATIVE_QUARANTINE
  | UNKNOWN_FAULT

definition FaultKind_values :: "FaultKind list" where
  "FaultKind_values = [
     FaultKind.PROCESS_DEATH, FaultKind.PROCESS_UNRESPONSIVE, FaultKind.WORKER_AUTHORITY_LOST,
     FaultKind.DEVICE_FAILURE, FaultKind.DEVICE_UNAVAILABLE, FaultKind.DEVICE_RESET,
     FaultKind.MEMORY_INTEGRITY_FAILURE, FaultKind.PERSISTENCE_CORRUPTION, FaultKind.TRANSPORT_PARTITION,
     FaultKind.TRANSPORT_CORRUPTION, FaultKind.CONTROL_PLANE_LOSS, FaultKind.COORDINATOR_RESTART,
     FaultKind.STALE_AUTHORITY, FaultKind.RESOURCE_EXHAUSTION, FaultKind.THERMAL_VIOLATION,
     FaultKind.POWER_VIOLATION, FaultKind.TOPOLOGY_INCONSISTENCY, FaultKind.DEPENDENCY_FAILURE,
     FaultKind.HEALTH_DEGRADED, FaultKind.SECURITY_ISOLATION_REQUEST, FaultKind.ADMINISTRATIVE_QUARANTINE,
     FaultKind.UNKNOWN_FAULT]"

primrec FaultKind_str :: "FaultKind \<Rightarrow> string" where
  "FaultKind_str FaultKind.PROCESS_DEATH = ''PROCESS_DEATH''"
| "FaultKind_str FaultKind.PROCESS_UNRESPONSIVE = ''PROCESS_UNRESPONSIVE''"
| "FaultKind_str FaultKind.WORKER_AUTHORITY_LOST = ''WORKER_AUTHORITY_LOST''"
| "FaultKind_str FaultKind.DEVICE_FAILURE = ''DEVICE_FAILURE''"
| "FaultKind_str FaultKind.DEVICE_UNAVAILABLE = ''DEVICE_UNAVAILABLE''"
| "FaultKind_str FaultKind.DEVICE_RESET = ''DEVICE_RESET''"
| "FaultKind_str FaultKind.MEMORY_INTEGRITY_FAILURE = ''MEMORY_INTEGRITY_FAILURE''"
| "FaultKind_str FaultKind.PERSISTENCE_CORRUPTION = ''PERSISTENCE_CORRUPTION''"
| "FaultKind_str FaultKind.TRANSPORT_PARTITION = ''TRANSPORT_PARTITION''"
| "FaultKind_str FaultKind.TRANSPORT_CORRUPTION = ''TRANSPORT_CORRUPTION''"
| "FaultKind_str FaultKind.CONTROL_PLANE_LOSS = ''CONTROL_PLANE_LOSS''"
| "FaultKind_str FaultKind.COORDINATOR_RESTART = ''COORDINATOR_RESTART''"
| "FaultKind_str FaultKind.STALE_AUTHORITY = ''STALE_AUTHORITY''"
| "FaultKind_str FaultKind.RESOURCE_EXHAUSTION = ''RESOURCE_EXHAUSTION''"
| "FaultKind_str FaultKind.THERMAL_VIOLATION = ''THERMAL_VIOLATION''"
| "FaultKind_str FaultKind.POWER_VIOLATION = ''POWER_VIOLATION''"
| "FaultKind_str FaultKind.TOPOLOGY_INCONSISTENCY = ''TOPOLOGY_INCONSISTENCY''"
| "FaultKind_str FaultKind.DEPENDENCY_FAILURE = ''DEPENDENCY_FAILURE''"
| "FaultKind_str FaultKind.HEALTH_DEGRADED = ''HEALTH_DEGRADED''"
| "FaultKind_str FaultKind.SECURITY_ISOLATION_REQUEST = ''SECURITY_ISOLATION_REQUEST''"
| "FaultKind_str FaultKind.ADMINISTRATIVE_QUARANTINE = ''ADMINISTRATIVE_QUARANTINE''"
| "FaultKind_str FaultKind.UNKNOWN_FAULT = ''UNKNOWN_FAULT''"

lemma FaultKind_set_values: "set FaultKind_values = UNIV"
proof -
  have "x \<in> set FaultKind_values" for x by (cases x) (simp_all add: FaultKind_values_def)
  then show ?thesis by blast
qed

interpretation en_FaultKind: enum_table FaultKind_values FaultKind_str
  by unfold_locales
    (rule FaultKind_set_values, code_simp, code_simp, simp add: FaultKind_values_def)

text \<open>Fault kinds key the policy's rule map, ordered by underlying value.\<close>

instantiation FaultKind :: linorder
begin

definition less_eq_FaultKind :: "FaultKind \<Rightarrow> FaultKind \<Rightarrow> bool" where
  "less_eq_FaultKind a b \<longleftrightarrow> enum_index FaultKind_values a \<le> enum_index FaultKind_values b"

definition less_FaultKind :: "FaultKind \<Rightarrow> FaultKind \<Rightarrow> bool" where
  "less_FaultKind a b \<longleftrightarrow> enum_index FaultKind_values a < enum_index FaultKind_values b"

instance
  by standard
    (auto simp: less_eq_FaultKind_def less_FaultKind_def en_FaultKind.index_inj [symmetric])

end

datatype (plugins only: code size) FaultState =
    OBSERVED
  | SUSPECTED
  | CONFIRMED
  | CONTAINMENT_REQUIRED
  | CONTAINMENT_IN_PROGRESS
  | CONTAINED
  | CONTAINMENT_PARTIAL
  | CONTAINMENT_FAILED
  | REVALIDATION_REQUIRED
  | CLEARED
  | SUPERSEDED

definition FaultState_values :: "FaultState list" where
  "FaultState_values = [
     FaultState.OBSERVED, FaultState.SUSPECTED, FaultState.CONFIRMED,
     FaultState.CONTAINMENT_REQUIRED, FaultState.CONTAINMENT_IN_PROGRESS, FaultState.CONTAINED,
     FaultState.CONTAINMENT_PARTIAL, FaultState.CONTAINMENT_FAILED, FaultState.REVALIDATION_REQUIRED,
     FaultState.CLEARED, FaultState.SUPERSEDED]"

primrec FaultState_str :: "FaultState \<Rightarrow> string" where
  "FaultState_str FaultState.OBSERVED = ''OBSERVED''"
| "FaultState_str FaultState.SUSPECTED = ''SUSPECTED''"
| "FaultState_str FaultState.CONFIRMED = ''CONFIRMED''"
| "FaultState_str FaultState.CONTAINMENT_REQUIRED = ''CONTAINMENT_REQUIRED''"
| "FaultState_str FaultState.CONTAINMENT_IN_PROGRESS = ''CONTAINMENT_IN_PROGRESS''"
| "FaultState_str FaultState.CONTAINED = ''CONTAINED''"
| "FaultState_str FaultState.CONTAINMENT_PARTIAL = ''CONTAINMENT_PARTIAL''"
| "FaultState_str FaultState.CONTAINMENT_FAILED = ''CONTAINMENT_FAILED''"
| "FaultState_str FaultState.REVALIDATION_REQUIRED = ''REVALIDATION_REQUIRED''"
| "FaultState_str FaultState.CLEARED = ''CLEARED''"
| "FaultState_str FaultState.SUPERSEDED = ''SUPERSEDED''"

lemma FaultState_set_values: "set FaultState_values = UNIV"
proof -
  have "x \<in> set FaultState_values" for x by (cases x) (simp_all add: FaultState_values_def)
  then show ?thesis by blast
qed

interpretation en_FaultState: enum_table FaultState_values FaultState_str
  by unfold_locales
    (rule FaultState_set_values, code_simp, code_simp, simp add: FaultState_values_def)

definition is_legal_fault_transition :: "FaultState \<Rightarrow> FaultState \<Rightarrow> bool" where
  "is_legal_fault_transition from to =
     (if from = to then True else
      case from of
        FaultState.OBSERVED \<Rightarrow>
          to = FaultState.SUSPECTED \<or> to = FaultState.CONFIRMED \<or>
          to = FaultState.CONTAINMENT_REQUIRED \<or> to = FaultState.SUPERSEDED \<or>
          to = FaultState.CLEARED \<or> to = FaultState.REVALIDATION_REQUIRED
      | FaultState.SUSPECTED \<Rightarrow>
          to = FaultState.CONFIRMED \<or> to = FaultState.CONTAINMENT_REQUIRED \<or>
          to = FaultState.CLEARED \<or> to = FaultState.SUPERSEDED \<or>
          to = FaultState.REVALIDATION_REQUIRED
      | FaultState.CONFIRMED \<Rightarrow>
          to = FaultState.CONTAINMENT_REQUIRED \<or> to = FaultState.CONTAINMENT_IN_PROGRESS \<or>
          to = FaultState.CLEARED \<or> to = FaultState.SUPERSEDED \<or>
          to = FaultState.REVALIDATION_REQUIRED
      | FaultState.CONTAINMENT_REQUIRED \<Rightarrow>
          to = FaultState.CONTAINMENT_IN_PROGRESS \<or> to = FaultState.CONTAINED \<or>
          to = FaultState.CONTAINMENT_PARTIAL \<or> to = FaultState.CONTAINMENT_FAILED \<or>
          to = FaultState.REVALIDATION_REQUIRED \<or> to = FaultState.SUPERSEDED
      | FaultState.CONTAINMENT_IN_PROGRESS \<Rightarrow>
          to = FaultState.CONTAINED \<or> to = FaultState.CONTAINMENT_PARTIAL \<or>
          to = FaultState.CONTAINMENT_FAILED \<or> to = FaultState.REVALIDATION_REQUIRED \<or>
          to = FaultState.SUPERSEDED
      | FaultState.CONTAINED \<Rightarrow>
          to = FaultState.CONTAINMENT_PARTIAL \<or> to = FaultState.CONTAINMENT_FAILED \<or>
          to = FaultState.REVALIDATION_REQUIRED \<or> to = FaultState.CLEARED \<or>
          to = FaultState.SUPERSEDED
      | FaultState.CONTAINMENT_PARTIAL \<Rightarrow>
          to = FaultState.CONTAINED \<or> to = FaultState.CONTAINMENT_FAILED \<or>
          to = FaultState.CONTAINMENT_IN_PROGRESS \<or> to = FaultState.REVALIDATION_REQUIRED \<or>
          to = FaultState.SUPERSEDED
      | FaultState.CONTAINMENT_FAILED \<Rightarrow>
          to = FaultState.CONTAINMENT_IN_PROGRESS \<or> to = FaultState.CONTAINMENT_REQUIRED \<or>
          to = FaultState.REVALIDATION_REQUIRED \<or> to = FaultState.SUPERSEDED
      | FaultState.REVALIDATION_REQUIRED \<Rightarrow>
          to = FaultState.CONFIRMED \<or> to = FaultState.CONTAINMENT_REQUIRED \<or>
          to = FaultState.CONTAINED \<or> to = FaultState.CLEARED \<or>
          to = FaultState.SUPERSEDED
      | FaultState.CLEARED \<Rightarrow> to = FaultState.SUPERSEDED
      | FaultState.SUPERSEDED \<Rightarrow> False)"

definition is_fault_current :: "FaultState \<Rightarrow> bool" where
  "is_fault_current s = (case s of
       FaultState.CLEARED \<Rightarrow> False
     | FaultState.SUPERSEDED \<Rightarrow> False
     | _ \<Rightarrow> True)"

datatype FaultSeverity =
    LOW
  | MEDIUM
  | HIGH
  | CRITICAL

definition FaultSeverity_values :: "FaultSeverity list" where
  "FaultSeverity_values = [
     FaultSeverity.LOW, FaultSeverity.MEDIUM, FaultSeverity.HIGH,
     FaultSeverity.CRITICAL]"

primrec FaultSeverity_str :: "FaultSeverity \<Rightarrow> string" where
  "FaultSeverity_str FaultSeverity.LOW = ''LOW''"
| "FaultSeverity_str FaultSeverity.MEDIUM = ''MEDIUM''"
| "FaultSeverity_str FaultSeverity.HIGH = ''HIGH''"
| "FaultSeverity_str FaultSeverity.CRITICAL = ''CRITICAL''"

lemma FaultSeverity_set_values: "set FaultSeverity_values = UNIV"
proof -
  have "x \<in> set FaultSeverity_values" for x by (cases x) (simp_all add: FaultSeverity_values_def)
  then show ?thesis by blast
qed

interpretation en_FaultSeverity: enum_table FaultSeverity_values FaultSeverity_str
  by unfold_locales
    (rule FaultSeverity_set_values, code_simp, code_simp, simp add: FaultSeverity_values_def)

datatype ReporterKind =
    WORKER
  | COORDINATOR
  | OPERATOR
  | SYNTHETIC_INJECTOR
  | DERIVED

definition ReporterKind_values :: "ReporterKind list" where
  "ReporterKind_values = [
     ReporterKind.WORKER, ReporterKind.COORDINATOR, ReporterKind.OPERATOR,
     ReporterKind.SYNTHETIC_INJECTOR, ReporterKind.DERIVED]"

primrec ReporterKind_str :: "ReporterKind \<Rightarrow> string" where
  "ReporterKind_str ReporterKind.WORKER = ''WORKER''"
| "ReporterKind_str ReporterKind.COORDINATOR = ''COORDINATOR''"
| "ReporterKind_str ReporterKind.OPERATOR = ''OPERATOR''"
| "ReporterKind_str ReporterKind.SYNTHETIC_INJECTOR = ''SYNTHETIC_INJECTOR''"
| "ReporterKind_str ReporterKind.DERIVED = ''DERIVED''"

lemma ReporterKind_set_values: "set ReporterKind_values = UNIV"
proof -
  have "x \<in> set ReporterKind_values" for x by (cases x) (simp_all add: ReporterKind_values_def)
  then show ?thesis by blast
qed

interpretation en_ReporterKind: enum_table ReporterKind_values ReporterKind_str
  by unfold_locales
    (rule ReporterKind_set_values, code_simp, code_simp, simp add: ReporterKind_values_def)

record FaultEvidence =
  fe_id :: FaultId
  fe_generation :: FaultGeneration
  fe_kind :: FaultKind
  fe_subject :: ResourceId
  fe_subject_generation :: ResourceGeneration
  fe_reporter_kind :: ReporterKind
  fe_reporter_worker :: WorkerId
  fe_reporter_boot :: WorkerBootId
  fe_epoch :: CoordinatorEpoch
  fe_provenance :: EvidenceProvenance
  fe_observation_sequence :: EvidenceSequence
  fe_publication_time_ms :: u64
  fe_freshness :: EvidenceFreshness
  fe_integrity :: IntegrityStatus
  fe_confidence_permille :: u16
  fe_details :: string
  fe_digest :: "u8 list"

definition FaultEvidence_default :: FaultEvidence where
  "FaultEvidence_default = \<lparr>
     fe_id = id_invalid,
     fe_generation = id_invalid,
     fe_kind = FaultKind.UNKNOWN_FAULT,
     fe_subject = id_invalid,
     fe_subject_generation = id_invalid,
     fe_reporter_kind = ReporterKind.COORDINATOR,
     fe_reporter_worker = id_invalid,
     fe_reporter_boot = id_invalid,
     fe_epoch = id_invalid,
     fe_provenance = EvidenceProvenance.UNKNOWN,
     fe_observation_sequence = id_invalid,
     fe_publication_time_ms = 0,
     fe_freshness = EvidenceFreshness.UNKNOWN,
     fe_integrity = IntegrityStatus.UNVERIFIED,
     fe_confidence_permille = 1000,
     fe_details = [],
     fe_digest = replicate 32 0\<rparr>"

record FaultRecord =
  fr_evidence :: FaultEvidence
  fr_state :: FaultState
  fr_severity :: FaultSeverity
  fr_containment_generation :: ContainmentGeneration
  fr_first_seen_ms :: u64
  fr_last_updated_ms :: u64
  fr_actionable :: bool
  fr_duplicate_count :: u32
  fr_verification_generation :: VerificationGeneration
  fr_details :: string

definition FaultRecord_default :: FaultRecord where
  "FaultRecord_default = \<lparr>
     fr_evidence = FaultEvidence_default,
     fr_state = FaultState.OBSERVED,
     fr_severity = FaultSeverity.MEDIUM,
     fr_containment_generation = id_invalid,
     fr_first_seen_ms = 0,
     fr_last_updated_ms = 0,
     fr_actionable = True,
     fr_duplicate_count = 0,
     fr_verification_generation = id_invalid,
     fr_details = []\<rparr>"

section \<open>Chains of transitions\<close>

lemma not_current_transition:
  "\<not> is_fault_current a \<Longrightarrow> is_legal_fault_transition a b \<Longrightarrow> \<not> is_fault_current b"
  by (cases a) (auto simp: is_fault_current_def is_legal_fault_transition_def split: if_splits)

lemma superseded_transition:
  "is_legal_fault_transition FaultState.SUPERSEDED b \<Longrightarrow> b = FaultState.SUPERSEDED"
  by (auto simp: is_legal_fault_transition_def split: if_splits)

text \<open>
  A fault that stopped being current never becomes current again along any chain of legal
  transitions; once superseded it stays superseded. In particular no chain leads from
  CLEARED back to CONTAINED.
\<close>

theorem closed_fault_stays_closed:
  assumes "is_legal_fault_transition\<^sup>*\<^sup>* a b" and "\<not> is_fault_current a"
  shows "\<not> is_fault_current b \<and> (a = FaultState.SUPERSEDED \<longrightarrow> b = FaultState.SUPERSEDED)"
  using assms
  by (induction rule: rtranclp_induct) (auto dest: not_current_transition superseded_transition)

theorem closed_fault_stays_closed_witness:
  "\<not> is_fault_current FaultState.SUPERSEDED \<and>
   is_legal_fault_transition FaultState.CLEARED FaultState.SUPERSEDED"
  using closed_fault_stays_closed [of FaultState.CLEARED FaultState.SUPERSEDED,
      OF r_into_rtranclp [of is_legal_fault_transition]]
  by (simp add: is_fault_current_def is_legal_fault_transition_def)

end
