(* ===== verification/Fcf_Policy.thy ===== *)
theory Fcf_Policy
  imports Fcf_Fault Fcf_Actions Fcf_Dependency
begin

text \<open>
  Containment policy (\<open>include/fcf/policy.hpp\<close>, \<open>src/policy.cpp\<close>): the rule records, the rule
  lookup, the default policy with its adjustment table, and the validator.
\<close>

datatype UncertaintyBehavior =
    CONTAIN_PREEMPTIVELY
  | BOUNDED_EXPOSURE
  | OBSERVE_ONLY

definition UncertaintyBehavior_values :: "UncertaintyBehavior list" where
  "UncertaintyBehavior_values = [
     UncertaintyBehavior.CONTAIN_PREEMPTIVELY, UncertaintyBehavior.BOUNDED_EXPOSURE, UncertaintyBehavior.OBSERVE_ONLY]"

primrec UncertaintyBehavior_str :: "UncertaintyBehavior \<Rightarrow> string" where
  "UncertaintyBehavior_str UncertaintyBehavior.CONTAIN_PREEMPTIVELY = ''CONTAIN_PREEMPTIVELY''"
| "UncertaintyBehavior_str UncertaintyBehavior.BOUNDED_EXPOSURE = ''BOUNDED_EXPOSURE''"
| "UncertaintyBehavior_str UncertaintyBehavior.OBSERVE_ONLY = ''OBSERVE_ONLY''"

lemma UncertaintyBehavior_set_values: "set UncertaintyBehavior_values = UNIV"
proof -
  have "x \<in> set UncertaintyBehavior_values" for x by (cases x) (simp_all add: UncertaintyBehavior_values_def)
  then show ?thesis by blast
qed

interpretation en_UncertaintyBehavior: enum_table UncertaintyBehavior_values UncertaintyBehavior_str
  by unfold_locales
    (rule UncertaintyBehavior_set_values, code_simp, code_simp, simp add: UncertaintyBehavior_values_def)

datatype PropagationMode =
    HARD
  | CONDITIONAL
  | NONE

definition PropagationMode_values :: "PropagationMode list" where
  "PropagationMode_values = [
     PropagationMode.HARD, PropagationMode.CONDITIONAL, PropagationMode.NONE]"

primrec PropagationMode_str :: "PropagationMode \<Rightarrow> string" where
  "PropagationMode_str PropagationMode.HARD = ''HARD''"
| "PropagationMode_str PropagationMode.CONDITIONAL = ''CONDITIONAL''"
| "PropagationMode_str PropagationMode.NONE = ''NONE''"

lemma PropagationMode_set_values: "set PropagationMode_values = UNIV"
proof -
  have "x \<in> set PropagationMode_values" for x by (cases x) (simp_all add: PropagationMode_values_def)
  then show ?thesis by blast
qed

interpretation en_PropagationMode: enum_table PropagationMode_values PropagationMode_str
  by unfold_locales
    (rule PropagationMode_set_values, code_simp, code_simp, simp add: PropagationMode_values_def)

datatype RankingPreference =
    SMALLEST_LEGAL_RADIUS
  | PREFER_PROCESS_SCOPE
  | PREFER_DOMAIN_SCOPE

definition RankingPreference_values :: "RankingPreference list" where
  "RankingPreference_values = [
     RankingPreference.SMALLEST_LEGAL_RADIUS, RankingPreference.PREFER_PROCESS_SCOPE, RankingPreference.PREFER_DOMAIN_SCOPE]"

primrec RankingPreference_str :: "RankingPreference \<Rightarrow> string" where
  "RankingPreference_str RankingPreference.SMALLEST_LEGAL_RADIUS = ''SMALLEST_LEGAL_RADIUS''"
| "RankingPreference_str RankingPreference.PREFER_PROCESS_SCOPE = ''PREFER_PROCESS_SCOPE''"
| "RankingPreference_str RankingPreference.PREFER_DOMAIN_SCOPE = ''PREFER_DOMAIN_SCOPE''"

lemma RankingPreference_set_values: "set RankingPreference_values = UNIV"
proof -
  have "x \<in> set RankingPreference_values" for x by (cases x) (simp_all add: RankingPreference_values_def)
  then show ?thesis by blast
qed

interpretation en_RankingPreference: enum_table RankingPreference_values RankingPreference_str
  by unfold_locales
    (rule RankingPreference_set_values, code_simp, code_simp, simp add: RankingPreference_values_def)

record AdministrativeOverride =
  ao_active :: bool
  ao_authority :: string
  ao_policy_generation :: PolicyGeneration
  ao_not_before_ms :: u64
  ao_expires_at_ms :: u64
  ao_forced_outcome :: ContainmentActionKind
  ao_scope :: "ResourceId IdSet"
  ao_ranking_and_authority_only :: bool

definition AdministrativeOverride_default :: AdministrativeOverride where
  "AdministrativeOverride_default = \<lparr>
     ao_active = False,
     ao_authority = [],
     ao_policy_generation = id_invalid,
     ao_not_before_ms = 0,
     ao_expires_at_ms = 0,
     ao_forced_outcome = ContainmentActionKind.OUTCOME_UNKNOWN,
     ao_scope = [],
     ao_ranking_and_authority_only = True\<rparr>"

record FaultRule =
  rule_kind :: FaultKind
  rule_preferred_outcome :: ContainmentActionKind
  rule_escalation_outcome :: ContainmentActionKind
  rule_severity :: FaultSeverity
  rule_mandatory_containment :: bool
  rule_uncertainty :: UncertaintyBehavior
  rule_propagation :: PropagationMode
  rule_likely_confidence_permille :: u16
  rule_max_tolerated_exposure :: u32
  rule_permit_degraded_mode :: bool
  rule_require_fresh_evidence :: bool
  rule_max_evidence_age_ms :: u64
  rule_allow_release :: bool
  rule_min_redundancy :: u32
  rule_action_budget :: u32
  rule_isolate_failure_domain :: bool
  rule_isolate_isolation_domain :: bool
  rule_co_isolate_containment_domain :: bool
  rule_ranking :: RankingPreference
  rule_propagating_kinds :: "DependencyKind EnumSet"
  rule_non_propagating_kinds :: "DependencyKind EnumSet"
  rule_fail_closed_on_unknown_evidence :: bool
  rule_allow_protected_resource_fencing :: bool

definition FaultRule_default :: FaultRule where
  "FaultRule_default = \<lparr>
     rule_kind = FaultKind.UNKNOWN_FAULT,
     rule_preferred_outcome = ContainmentActionKind.ESCALATE_CONTAINMENT,
     rule_escalation_outcome = ContainmentActionKind.FULL_DOMAIN_ISOLATION,
     rule_severity = FaultSeverity.HIGH,
     rule_mandatory_containment = True,
     rule_uncertainty = UncertaintyBehavior.CONTAIN_PREEMPTIVELY,
     rule_propagation = PropagationMode.HARD,
     rule_likely_confidence_permille = 700,
     rule_max_tolerated_exposure = 0,
     rule_permit_degraded_mode = True,
     rule_require_fresh_evidence = True,
     rule_max_evidence_age_ms = 30000,
     rule_allow_release = True,
     rule_min_redundancy = 1,
     rule_action_budget = 1024,
     rule_isolate_failure_domain = True,
     rule_isolate_isolation_domain = True,
     rule_co_isolate_containment_domain = False,
     rule_ranking = RankingPreference.SMALLEST_LEGAL_RADIUS,
     rule_propagating_kinds = [],
     rule_non_propagating_kinds = [],
     rule_fail_closed_on_unknown_evidence = True,
     rule_allow_protected_resource_fencing = False\<rparr>"

record ContainmentPolicy =
  pol_generation :: PolicyGeneration
  pol_name :: string
  pol_rules :: "(FaultKind, FaultRule) omap"
  pol_fallback :: FaultRule
  pol_max_actions_per_containment :: u32
  pol_allow_degraded_mode_by_default :: bool
  pol_default_max_evidence_age_ms :: u64
  pol_admin_override :: AdministrativeOverride

definition ContainmentPolicy_default :: ContainmentPolicy where
  "ContainmentPolicy_default = \<lparr>
     pol_generation = id_invalid,
     pol_name = ''default'',
     pol_rules = [],
     pol_fallback = FaultRule_default,
     pol_max_actions_per_containment = 4096,
     pol_allow_degraded_mode_by_default = True,
     pol_default_max_evidence_age_ms = 30000,
     pol_admin_override = AdministrativeOverride_default\<rparr>"

definition rule_for :: "ContainmentPolicy \<Rightarrow> FaultKind \<Rightarrow> FaultRule" where
  "rule_for policy kind = (case om_find (pol_rules policy) kind of
       None \<Rightarrow> pol_fallback policy
     | Some rule \<Rightarrow> rule)"

abbreviation dependency_key :: "DependencyKind \<Rightarrow> nat" where
  "dependency_key \<equiv> enum_index DependencyKind_values"

definition rule_propagates_over :: "FaultRule \<Rightarrow> DependencyKind \<Rightarrow> bool" where
  "rule_propagates_over rule kind =
     (if enum_set_contains dependency_key (rule_non_propagating_kinds rule) kind then False
      else if enum_set_contains dependency_key (rule_propagating_kinds rule) kind
      then rule_propagation rule \<noteq> PropagationMode.NONE
      else rule_propagation rule = PropagationMode.HARD)"

section \<open>The default policy\<close>

record RuleAdjustment =
  adj_kind :: FaultKind
  adj_preferred :: ContainmentActionKind
  adj_severity :: FaultSeverity
  adj_propagation :: PropagationMode
  adj_uncertainty :: UncertaintyBehavior
  adj_isolate_failure_domain :: bool
  adj_isolate_isolation_domain :: bool
  adj_co_isolate_containment_domain :: bool
  adj_permit_degraded_mode :: bool

abbreviation mk_adjustment where
  "mk_adjustment k p s pr u f i c d \<equiv>
     \<lparr>adj_kind = k, adj_preferred = p, adj_severity = s, adj_propagation = pr,
      adj_uncertainty = u, adj_isolate_failure_domain = f, adj_isolate_isolation_domain = i,
      adj_co_isolate_containment_domain = c, adj_permit_degraded_mode = d\<rparr>"

definition kAdjustments :: "RuleAdjustment list" where
  "kAdjustments = [
     mk_adjustment FaultKind.PROCESS_DEATH ContainmentActionKind.FENCE_WORKER
       FaultSeverity.CRITICAL PropagationMode.HARD
       UncertaintyBehavior.CONTAIN_PREEMPTIVELY True True False True,
     mk_adjustment FaultKind.PROCESS_UNRESPONSIVE ContainmentActionKind.FENCE_PROCESS
       FaultSeverity.HIGH PropagationMode.HARD
       UncertaintyBehavior.CONTAIN_PREEMPTIVELY True True False True,
     mk_adjustment FaultKind.WORKER_AUTHORITY_LOST ContainmentActionKind.REVOKE_AUTHORITY
       FaultSeverity.CRITICAL PropagationMode.HARD
       UncertaintyBehavior.CONTAIN_PREEMPTIVELY True True False True,
     mk_adjustment FaultKind.DEVICE_FAILURE ContainmentActionKind.FENCE_DEVICE
       FaultSeverity.CRITICAL PropagationMode.HARD
       UncertaintyBehavior.CONTAIN_PREEMPTIVELY True True False False,
     mk_adjustment FaultKind.DEVICE_UNAVAILABLE ContainmentActionKind.QUARANTINE_RESOURCE
       FaultSeverity.HIGH PropagationMode.HARD
       UncertaintyBehavior.CONTAIN_PREEMPTIVELY True True False True,
     mk_adjustment FaultKind.DEVICE_RESET ContainmentActionKind.REQUIRE_REVALIDATION
       FaultSeverity.MEDIUM PropagationMode.CONDITIONAL
       UncertaintyBehavior.BOUNDED_EXPOSURE False False False True,
     mk_adjustment FaultKind.MEMORY_INTEGRITY_FAILURE ContainmentActionKind.QUARANTINE_RESOURCE
       FaultSeverity.CRITICAL PropagationMode.HARD
       UncertaintyBehavior.CONTAIN_PREEMPTIVELY True True True False,
     mk_adjustment FaultKind.PERSISTENCE_CORRUPTION ContainmentActionKind.QUARANTINE_DOMAIN
       FaultSeverity.CRITICAL PropagationMode.HARD
       UncertaintyBehavior.CONTAIN_PREEMPTIVELY True True True False,
     mk_adjustment FaultKind.TRANSPORT_PARTITION ContainmentActionKind.QUARANTINE_DOMAIN
       FaultSeverity.HIGH PropagationMode.HARD
       UncertaintyBehavior.CONTAIN_PREEMPTIVELY True True False True,
     mk_adjustment FaultKind.TRANSPORT_CORRUPTION ContainmentActionKind.REVOKE_ROUTE
       FaultSeverity.HIGH PropagationMode.HARD
       UncertaintyBehavior.CONTAIN_PREEMPTIVELY False True False True,
     mk_adjustment FaultKind.CONTROL_PLANE_LOSS ContainmentActionKind.DISABLE_ADMISSION
       FaultSeverity.CRITICAL PropagationMode.HARD
       UncertaintyBehavior.CONTAIN_PREEMPTIVELY True True True True,
     mk_adjustment FaultKind.COORDINATOR_RESTART ContainmentActionKind.REQUIRE_REVALIDATION
       FaultSeverity.HIGH PropagationMode.CONDITIONAL
       UncertaintyBehavior.BOUNDED_EXPOSURE False False False True,
     mk_adjustment FaultKind.STALE_AUTHORITY ContainmentActionKind.REVOKE_AUTHORITY
       FaultSeverity.CRITICAL PropagationMode.HARD
       UncertaintyBehavior.CONTAIN_PREEMPTIVELY False True False True,
     mk_adjustment FaultKind.RESOURCE_EXHAUSTION ContainmentActionKind.DISABLE_ADMISSION
       FaultSeverity.HIGH PropagationMode.CONDITIONAL
       UncertaintyBehavior.BOUNDED_EXPOSURE False False False True,
     mk_adjustment FaultKind.THERMAL_VIOLATION ContainmentActionKind.DRAIN_DOMAIN
       FaultSeverity.HIGH PropagationMode.CONDITIONAL
       UncertaintyBehavior.BOUNDED_EXPOSURE True False False True,
     mk_adjustment FaultKind.POWER_VIOLATION ContainmentActionKind.DRAIN_DOMAIN
       FaultSeverity.CRITICAL PropagationMode.HARD
       UncertaintyBehavior.CONTAIN_PREEMPTIVELY True False False False,
     mk_adjustment FaultKind.TOPOLOGY_INCONSISTENCY ContainmentActionKind.REQUIRE_REVALIDATION
       FaultSeverity.MEDIUM PropagationMode.CONDITIONAL
       UncertaintyBehavior.BOUNDED_EXPOSURE False False False True,
     mk_adjustment FaultKind.DEPENDENCY_FAILURE ContainmentActionKind.QUARANTINE_RESOURCE
       FaultSeverity.HIGH PropagationMode.HARD
       UncertaintyBehavior.CONTAIN_PREEMPTIVELY False True False True,
     mk_adjustment FaultKind.HEALTH_DEGRADED ContainmentActionKind.OBSERVE
       FaultSeverity.LOW PropagationMode.NONE
       UncertaintyBehavior.OBSERVE_ONLY False False False True,
     mk_adjustment FaultKind.SECURITY_ISOLATION_REQUEST ContainmentActionKind.FULL_DOMAIN_ISOLATION
       FaultSeverity.CRITICAL PropagationMode.HARD
       UncertaintyBehavior.CONTAIN_PREEMPTIVELY True True True False,
     mk_adjustment FaultKind.ADMINISTRATIVE_QUARANTINE ContainmentActionKind.QUARANTINE_DOMAIN
       FaultSeverity.HIGH PropagationMode.HARD
       UncertaintyBehavior.CONTAIN_PREEMPTIVELY True True True True,
     mk_adjustment FaultKind.UNKNOWN_FAULT ContainmentActionKind.ESCALATE_CONTAINMENT
       FaultSeverity.CRITICAL PropagationMode.HARD
       UncertaintyBehavior.CONTAIN_PREEMPTIVELY True True False False]"

definition default_base_rule :: FaultRule where
  "default_base_rule = FaultRule_default\<lparr>
     rule_mandatory_containment := True,
     rule_uncertainty := UncertaintyBehavior.CONTAIN_PREEMPTIVELY,
     rule_propagation := PropagationMode.HARD,
     rule_severity := FaultSeverity.HIGH,
     rule_preferred_outcome := ContainmentActionKind.QUARANTINE_RESOURCE,
     rule_escalation_outcome := ContainmentActionKind.FULL_DOMAIN_ISOLATION,
     rule_likely_confidence_permille := 700,
     rule_max_tolerated_exposure := 0,
     rule_permit_degraded_mode := True,
     rule_require_fresh_evidence := True,
     rule_max_evidence_age_ms := 30000,
     rule_allow_release := True,
     rule_min_redundancy := 1,
     rule_action_budget := 4096,
     rule_isolate_failure_domain := True,
     rule_isolate_isolation_domain := True,
     rule_co_isolate_containment_domain := False,
     rule_ranking := RankingPreference.SMALLEST_LEGAL_RADIUS,
     rule_fail_closed_on_unknown_evidence := True,
     rule_allow_protected_resource_fencing := False,
     rule_propagating_kinds := [
       DependencyKind.EXECUTION_DEPENDS_ON, DependencyKind.STATE_OWNED_BY,
       DependencyKind.MEMORY_OWNED_BY, DependencyKind.ROUTE_DEPENDS_ON,
       DependencyKind.SERVICE_DEPENDS_ON, DependencyKind.REPLICA_MEMBER_OF,
       DependencyKind.SHARES_AUTHORITY_WITH, DependencyKind.CONTROLLED_BY,
       DependencyKind.REQUIRES_CAPABILITY_FROM, DependencyKind.RESERVATION_BOUND_TO,
       DependencyKind.LEASE_BOUND_TO, DependencyKind.REGISTRATION_BOUND_TO],
     rule_non_propagating_kinds := [DependencyKind.SHARES_FAILURE_DOMAIN_WITH]\<rparr>"

definition adjusted_rule :: "RuleAdjustment \<Rightarrow> FaultRule" where
  "adjusted_rule a =
     (let rule = default_base_rule\<lparr>
            rule_kind := adj_kind a,
            rule_preferred_outcome := adj_preferred a,
            rule_severity := adj_severity a,
            rule_propagation := adj_propagation a,
            rule_uncertainty := adj_uncertainty a,
            rule_isolate_failure_domain := adj_isolate_failure_domain a,
            rule_isolate_isolation_domain := adj_isolate_isolation_domain a,
            rule_co_isolate_containment_domain := adj_co_isolate_containment_domain a,
            rule_permit_degraded_mode := adj_permit_degraded_mode a\<rparr>;
          rule = (if adj_uncertainty a = UncertaintyBehavior.OBSERVE_ONLY
                  then rule\<lparr>rule_mandatory_containment := False,
                            rule_preferred_outcome := ContainmentActionKind.OBSERVE\<rparr>
                  else rule)
      in if adj_kind a = FaultKind.UNKNOWN_FAULT
         then rule\<lparr>rule_allow_protected_resource_fencing := True\<rparr> else rule)"

definition make_default_policy :: ContainmentPolicy where
  "make_default_policy = ContainmentPolicy_default\<lparr>
     pol_generation := Id 1,
     pol_name := ''fcf-default/v1'',
     pol_rules := for_each kAdjustments (\<lambda>a rules. om_emplace (adj_kind a) (adjusted_rule a) rules) [],
     pol_fallback := default_base_rule\<lparr>
       rule_kind := FaultKind.UNKNOWN_FAULT,
       rule_preferred_outcome := ContainmentActionKind.ESCALATE_CONTAINMENT,
       rule_severity := FaultSeverity.CRITICAL,
       rule_allow_protected_resource_fencing := True\<rparr>,
     pol_max_actions_per_containment := 4096,
     pol_allow_degraded_mode_by_default := True,
     pol_default_max_evidence_age_ms := 30000\<rparr>"

section \<open>Validation\<close>

definition is_canonical :: "DependencyKind EnumSet \<Rightarrow> bool" where
  "is_canonical s \<longleftrightarrow>
     (\<forall>i \<in> set [1..<length s]. dependency_key (s ! (i - 1)) < dependency_key (s ! i))"

text \<open>The first enumerator listed as propagating and as non-propagating.\<close>

definition listed_twice :: "FaultRule \<Rightarrow> DependencyKind option" where
  "listed_twice rule =
     find (\<lambda>kind. enum_set_contains dependency_key (rule_non_propagating_kinds rule) kind)
       (rule_propagating_kinds rule)"

text \<open>The body of the loop over the rules: \<open>None\<close> where the loop goes on.\<close>

definition validate_rule :: "FaultKind \<Rightarrow> FaultRule \<Rightarrow> Error option" where
  "validate_rule key rule =
     (if key \<noteq> rule_kind rule then
        Some (make_error ErrorCode.POLICY_INVALID ''policy.validate''
          ''rule map key does not match the rule's fault kind'' [])
      else if rule_action_budget rule = 0 then
        Some (make_error ErrorCode.POLICY_INVALID ''policy.validate''
          ''action budget must be non-zero'' (FaultKind_str (rule_kind rule)))
      else if rule_min_redundancy rule = 0 then
        Some (make_error ErrorCode.POLICY_INVALID ''policy.validate''
          ''minimum redundancy must be non-zero'' (FaultKind_str (rule_kind rule)))
      else if rule_mandatory_containment rule \<and>
              rule_uncertainty rule = UncertaintyBehavior.OBSERVE_ONLY then
        Some (make_error ErrorCode.POLICY_INVALID ''policy.validate''
          ''a mandatory rule may not run in OBSERVE_ONLY uncertainty mode''
          (FaultKind_str (rule_kind rule)))
      else if \<not> is_canonical (rule_propagating_kinds rule) \<or>
              \<not> is_canonical (rule_non_propagating_kinds rule) then
        Some (make_error ErrorCode.POLICY_INVALID ''policy.validate''
          ''dependency kind lists must be sorted and duplicate-free''
          (FaultKind_str (rule_kind rule)))
      else case listed_twice rule of
        Some kind \<Rightarrow>
          Some (make_error ErrorCode.POLICY_INVALID ''policy.validate''
            ''dependency kind listed as both propagating and non-propagating''
            (DependencyKind_str kind))
      | None \<Rightarrow> None)"

fun validate_rules :: "(FaultKind, FaultRule) omap \<Rightarrow> Error option" where
  "validate_rules [] = None"
| "validate_rules ((key, rule) # rules) = (case validate_rule key rule of
       Some e \<Rightarrow> Some e
     | None \<Rightarrow> validate_rules rules)"

definition validate_policy :: "ContainmentPolicy \<Rightarrow> Status" where
  "validate_policy policy = (case validate_rules (pol_rules policy) of
       Some e \<Rightarrow> Inl e
     | None \<Rightarrow>
         if pol_max_actions_per_containment policy = 0 then
           fail ErrorCode.POLICY_INVALID ''policy.validate''
             ''max_actions_per_containment must be non-zero'' []
         else if ao_active (pol_admin_override policy) \<and>
                 ao_authority (pol_admin_override policy) = [] then
           fail ErrorCode.POLICY_INVALID ''policy.validate''
             ''an active administrative override requires a named authority'' []
         else ok_status)"

section \<open>What a valid policy guarantees\<close>

lemma is_canonical_sorted:
  "is_canonical s \<longleftrightarrow> sorted_wrt (\<lambda>a b. dependency_key a < dependency_key b) s"
proof -
  have "is_canonical s \<longleftrightarrow> (\<forall>i. Suc i < length s \<longrightarrow> dependency_key (s ! i) < dependency_key (s ! Suc i))"
    unfolding is_canonical_def
    by (force simp: less_Suc_eq_0_disj gr0_conv_Suc Suc_le_eq)
  also have "\<dots> \<longleftrightarrow> sorted_wrt (\<lambda>a b. dependency_key a < dependency_key b) s"
    by (rule sorted_wrt_iff_nth_Suc_transp [symmetric]) (auto simp: transp_def)
  finally show ?thesis .
qed

lemma validate_rules_None:
  "validate_rules rules = None \<longleftrightarrow> (\<forall>(key, rule) \<in> set rules. validate_rule key rule = None)"
  by (induction rules rule: validate_rules.induct) (auto split: option.splits)

lemma validate_rule_None:
  assumes "validate_rule key rule = None"
  shows "rule_kind rule = key" "rule_action_budget rule \<noteq> 0" "rule_min_redundancy rule \<noteq> 0"
    and "rule_mandatory_containment rule \<Longrightarrow>
      rule_uncertainty rule \<noteq> UncertaintyBehavior.OBSERVE_ONLY"
    and "is_canonical (rule_propagating_kinds rule)"
    and "is_canonical (rule_non_propagating_kinds rule)"
    and "listed_twice rule = None"
  using assms by (auto simp: validate_rule_def split: if_splits option.splits)

lemma canonical_contains:
  "is_canonical s \<Longrightarrow> enum_set_contains dependency_key s kind \<longleftrightarrow> kind \<in> set s"
  by (simp add: is_canonical_sorted en_DependencyKind.es.mem_iff)

text \<open>
  A policy that passes validation is coherent: each rule is filed under its own fault kind,
  its budgets are positive, a mandatory rule never runs in OBSERVE_ONLY mode, and the two
  dependency-kind lists decide propagation without conflict: a listed propagating kind carries
  propagation exactly when the rule propagates at all, a listed non-propagating kind never does.
\<close>

theorem validate_policy_sound:
  assumes "validate_policy policy = ok_status" and "om_find (pol_rules policy) key = Some rule"
  shows "rule_kind rule = key \<and> rule_action_budget rule \<noteq> 0 \<and> rule_min_redundancy rule \<noteq> 0 \<and>
    \<not> (rule_mandatory_containment rule \<and>
        rule_uncertainty rule = UncertaintyBehavior.OBSERVE_ONLY) \<and>
    (\<forall>kind \<in> set (rule_propagating_kinds rule).
        rule_propagates_over rule kind \<longleftrightarrow> rule_propagation rule \<noteq> PropagationMode.NONE) \<and>
    (\<forall>kind \<in> set (rule_non_propagating_kinds rule). \<not> rule_propagates_over rule kind)"
proof -
  from assms(1) have "validate_rules (pol_rules policy) = None"
    by (auto simp: validate_policy_def split: option.splits)
  with assms(2) have v: "validate_rule key rule = None"
    by (auto simp: validate_rules_None dest: om_find_in_set)
  note r = validate_rule_None [OF v]
  have "kind \<notin> set (rule_non_propagating_kinds rule)"
    if "kind \<in> set (rule_propagating_kinds rule)" for kind
    using r(7) that by (auto simp: listed_twice_def find_None_iff canonical_contains [OF r(6)])
  with r show ?thesis
    by (auto simp: rule_propagates_over_def canonical_contains [OF r(5)] canonical_contains [OF r(6)])
qed

text \<open>
  The built-in default policy passes validation and has a rule of its own for every fault kind
  of the taxonomy, so the fallback is never consulted under it.
\<close>

theorem default_policy_valid:
  "validate_policy make_default_policy = ok_status \<and>
   (\<forall>kind. om_find (pol_rules make_default_policy) kind \<noteq> None \<and>
      rule_kind (rule_for make_default_policy kind) = kind)"
proof -
  have "validate_policy make_default_policy = ok_status" by code_simp
  moreover have "list_all (\<lambda>kind. om_find (pol_rules make_default_policy) kind \<noteq> None \<and>
      rule_kind (rule_for make_default_policy kind) = kind) FaultKind_values"
    by code_simp
  ultimately show ?thesis by (simp add: list_all_iff FaultKind_set_values)
qed

theorem validate_policy_sound_witness:
  "rule_kind (rule_for make_default_policy FaultKind.PROCESS_DEATH) = FaultKind.PROCESS_DEATH \<and>
   \<not> rule_propagates_over (rule_for make_default_policy FaultKind.PROCESS_DEATH)
       DependencyKind.SHARES_FAILURE_DOMAIN_WITH"
proof -
  let ?r = "rule_for make_default_policy FaultKind.PROCESS_DEATH"
  have "om_find (pol_rules make_default_policy) FaultKind.PROCESS_DEATH = Some ?r" by code_simp
  moreover have "validate_policy make_default_policy = ok_status" by code_simp
  moreover have "DependencyKind.SHARES_FAILURE_DOMAIN_WITH \<in> set (rule_non_propagating_kinds ?r)"
    by code_simp
  ultimately show ?thesis using validate_policy_sound by blast
qed

end
