(* ===== verification/Fcf_Records.thy ===== *)
theory Fcf_Records
  imports Fcf_Explain Fcf_Domain Fcf_Fault Fcf_Policy Fcf_Actions
begin

text \<open>
  The decision records of the containment runtime: the computed blast radius
  (\<open>include/fcf/blast_radius.hpp\<close>), verifications (\<open>verification.hpp\<close>), degraded-mode contracts
  and assessments (\<open>degraded.hpp\<close>, \<open>src/degraded.cpp\<close>), committed containments and release
  assessments (\<open>containment.hpp\<close>), plans (\<open>plan.hpp\<close>, \<open>src/plan.cpp\<close>) and audit history
  (\<open>history.hpp\<close>).
\<close>

section \<open>Blast radius\<close>

record ClassifiedResource =
  cr_resource :: ResourceId
  cr_generation :: ResourceGeneration
  cr_inclusion :: InclusionReason
  cr_exclusion :: ExclusionReason
  cr_unresolved :: UnresolvedReason
  cr_has_inclusion :: bool
  cr_has_exclusion :: bool
  cr_has_unresolved :: bool
  cr_detail :: string

definition ClassifiedResource_default :: ClassifiedResource where
  "ClassifiedResource_default = \<lparr>
     cr_resource = id_invalid,
     cr_generation = id_invalid,
     cr_inclusion = InclusionReason.FAULT_SUBJECT,
     cr_exclusion = ExclusionReason.NO_PROVEN_PROPAGATION_PATH,
     cr_unresolved = UnresolvedReason.EVIDENCE_MISSING,
     cr_has_inclusion = False,
     cr_has_exclusion = False,
     cr_has_unresolved = False,
     cr_detail = []\<rparr>"

record BlastRadius =
  br_generation :: ContainmentGeneration
  br_mandatory :: "ResourceId IdSet"
  br_precautionary :: "ResourceId IdSet"
  br_unaffected :: "ResourceId IdSet"
  br_unresolved :: "ResourceId IdSet"
  br_classifications :: "(ResourceId, ClassifiedResource) omap"
  br_propagation :: "PropagationHop list"
  br_edge_outcomes :: "(DependencyId, PropagationOutcome) omap"
  br_legal_actions :: "ContainmentActionKind list"
  br_illegal_actions :: "ContainmentActionKind list"
  br_recommended :: ContainmentActionKind
  br_hard_constraints_satisfied :: bool
  br_uncertainty_escalated :: bool
  br_fail_closed_applied :: bool
  br_budget_exhausted :: bool
  br_policy_generation :: PolicyGeneration
  br_topology_generation :: TopologyGeneration
  br_epoch :: CoordinatorEpoch
  br_fault :: FaultId
  br_fault_generation :: FaultGeneration
  br_explanation :: ContainmentExplanation

definition BlastRadius_default :: BlastRadius where
  "BlastRadius_default = \<lparr>
     br_generation = id_invalid,
     br_mandatory = [],
     br_precautionary = [],
     br_unaffected = [],
     br_unresolved = [],
     br_classifications = [],
     br_propagation = [],
     br_edge_outcomes = [],
     br_legal_actions = [],
     br_illegal_actions = [],
     br_recommended = ContainmentActionKind.NO_ACTION_REQUIRED,
     br_hard_constraints_satisfied = True,
     br_uncertainty_escalated = False,
     br_fail_closed_applied = False,
     br_budget_exhausted = False,
     br_policy_generation = id_invalid,
     br_topology_generation = id_invalid,
     br_epoch = id_invalid,
     br_fault = id_invalid,
     br_fault_generation = id_invalid,
     br_explanation = []\<rparr>"

section \<open>Verification\<close>

datatype (plugins only: code size) VerificationOutcome =
    CONTAINED
  | PARTIALLY_CONTAINED
  | NOT_CONTAINED
  | CONTAINMENT_BREACHED
  | PROPAGATION_BLOCKED
  | PROPAGATION_CONTINUED
  | SECONDARY_FAILURE_CREATED
  | DEGRADED_MODE_VALID
  | DEGRADED_MODE_INVALID
  | OUTCOME_UNKNOWN

definition VerificationOutcome_values :: "VerificationOutcome list" where
  "VerificationOutcome_values = [
     VerificationOutcome.CONTAINED, VerificationOutcome.PARTIALLY_CONTAINED, VerificationOutcome.NOT_CONTAINED,
     VerificationOutcome.CONTAINMENT_BREACHED, VerificationOutcome.PROPAGATION_BLOCKED, VerificationOutcome.PROPAGATION_CONTINUED,
     VerificationOutcome.SECONDARY_FAILURE_CREATED, VerificationOutcome.DEGRADED_MODE_VALID, VerificationOutcome.DEGRADED_MODE_INVALID,
     VerificationOutcome.OUTCOME_UNKNOWN]"

primrec VerificationOutcome_str :: "VerificationOutcome \<Rightarrow> string" where
  "VerificationOutcome_str VerificationOutcome.CONTAINED = ''CONTAINED''"
| "VerificationOutcome_str VerificationOutcome.PARTIALLY_CONTAINED = ''PARTIALLY_CONTAINED''"
| "VerificationOutcome_str VerificationOutcome.NOT_CONTAINED = ''NOT_CONTAINED''"
| "VerificationOutcome_str VerificationOutcome.CONTAINMENT_BREACHED = ''CONTAINMENT_BREACHED''"
| "VerificationOutcome_str VerificationOutcome.PROPAGATION_BLOCKED = ''PROPAGATION_BLOCKED''"
| "VerificationOutcome_str VerificationOutcome.PROPAGATION_CONTINUED = ''PROPAGATION_CONTINUED''"
| "VerificationOutcome_str VerificationOutcome.SECONDARY_FAILURE_CREATED = ''SECONDARY_FAILURE_CREATED''"
| "VerificationOutcome_str VerificationOutcome.DEGRADED_MODE_VALID = ''DEGRADED_MODE_VALID''"
| "VerificationOutcome_str VerificationOutcome.DEGRADED_MODE_INVALID = ''DEGRADED_MODE_INVALID''"
| "VerificationOutcome_str VerificationOutcome.OUTCOME_UNKNOWN = ''OUTCOME_UNKNOWN''"

lemma VerificationOutcome_set_values: "set VerificationOutcome_values = UNIV"
proof -
  have "x \<in> set VerificationOutcome_values" for x by (cases x) (simp_all add: VerificationOutcome_values_def)
  then show ?thesis by blast
qed

interpretation en_VerificationOutcome: enum_table VerificationOutcome_values VerificationOutcome_str
  by unfold_locales
    (rule VerificationOutcome_set_values, code_simp, code_simp, simp add: VerificationOutcome_values_def)

record VerificationFinding =
  vf_check :: string
  vf_passed :: bool
  vf_detail :: string

definition VerificationFinding_default :: VerificationFinding where
  "VerificationFinding_default = \<lparr>
     vf_check = [],
     vf_passed = False,
     vf_detail = []\<rparr>"

record ContainmentVerification =
  cv_generation :: VerificationGeneration
  cv_containment_generation :: ContainmentGeneration
  cv_epoch :: CoordinatorEpoch
  cv_policy_generation :: PolicyGeneration
  cv_topology_generation :: TopologyGeneration
  cv_outcome :: VerificationOutcome
  cv_findings :: "VerificationFinding list"
  cv_proven_contained :: "ResourceId IdSet"
  cv_unproven :: "ResourceId IdSet"
  cv_blast_radius_increased :: bool
  cv_secondary_failure :: bool
  cv_propagation_blocked :: bool
  cv_propagation_continued :: bool
  cv_degraded_mode_valid :: bool
  cv_evidence_sequence :: EvidenceSequence
  cv_verified_at_ms :: u64
  cv_summary :: string

definition ContainmentVerification_default :: ContainmentVerification where
  "ContainmentVerification_default = \<lparr>
     cv_generation = id_invalid,
     cv_containment_generation = id_invalid,
     cv_epoch = id_invalid,
     cv_policy_generation = id_invalid,
     cv_topology_generation = id_invalid,
     cv_outcome = VerificationOutcome.OUTCOME_UNKNOWN,
     cv_findings = [],
     cv_proven_contained = [],
     cv_unproven = [],
     cv_blast_radius_increased = False,
     cv_secondary_failure = False,
     cv_propagation_blocked = False,
     cv_propagation_continued = False,
     cv_degraded_mode_valid = False,
     cv_evidence_sequence = id_invalid,
     cv_verified_at_ms = 0,
     cv_summary = []\<rparr>"

section \<open>Degraded mode\<close>

datatype DegradedModeStatus =
    NORMAL
  | DEGRADED_AUTHORIZED
  | DEGRADED_REVALIDATION_REQUIRED
  | DEGRADED_UNSAFE
  | NO_LEGAL_DEGRADED_MODE

definition DegradedModeStatus_values :: "DegradedModeStatus list" where
  "DegradedModeStatus_values = [
     DegradedModeStatus.NORMAL, DegradedModeStatus.DEGRADED_AUTHORIZED, DegradedModeStatus.DEGRADED_REVALIDATION_REQUIRED,
     DegradedModeStatus.DEGRADED_UNSAFE, DegradedModeStatus.NO_LEGAL_DEGRADED_MODE]"

primrec DegradedModeStatus_str :: "DegradedModeStatus \<Rightarrow> string" where
  "DegradedModeStatus_str DegradedModeStatus.NORMAL = ''NORMAL''"
| "DegradedModeStatus_str DegradedModeStatus.DEGRADED_AUTHORIZED = ''DEGRADED_AUTHORIZED''"
| "DegradedModeStatus_str DegradedModeStatus.DEGRADED_REVALIDATION_REQUIRED = ''DEGRADED_REVALIDATION_REQUIRED''"
| "DegradedModeStatus_str DegradedModeStatus.DEGRADED_UNSAFE = ''DEGRADED_UNSAFE''"
| "DegradedModeStatus_str DegradedModeStatus.NO_LEGAL_DEGRADED_MODE = ''NO_LEGAL_DEGRADED_MODE''"

lemma DegradedModeStatus_set_values: "set DegradedModeStatus_values = UNIV"
proof -
  have "x \<in> set DegradedModeStatus_values" for x by (cases x) (simp_all add: DegradedModeStatus_values_def)
  then show ?thesis by blast
qed

interpretation en_DegradedModeStatus: enum_table DegradedModeStatus_values DegradedModeStatus_str
  by unfold_locales
    (rule DegradedModeStatus_set_values, code_simp, code_simp, simp add: DegradedModeStatus_values_def)

definition claims_full_health :: "DegradedModeStatus \<Rightarrow> bool" where
  "claims_full_health status \<longleftrightarrow> status = DegradedModeStatus.NORMAL"

record DegradedModeContract =
  dmc_id :: DegradedModeId
  dmc_name :: string
  dmc_topology_generation :: TopologyGeneration
  dmc_containment_generation :: ContainmentGeneration
  dmc_permitted_resources :: "ResourceId IdSet"
  dmc_prohibited_resources :: "ResourceId IdSet"
  dmc_reduced_capacity_percent :: u32
  dmc_required_redundancy :: u32
  dmc_disabled_features :: "string list"
  dmc_legal_workload_classes :: "ResourceClass EnumSet"
  dmc_hard_safety_constraints :: "string list"
  dmc_max_evidence_age_ms :: u64
  dmc_expires_at_ms :: u64
  dmc_revalidate_every_ms :: u64
  dmc_exit_preconditions :: "string list"
  dmc_permit_by_default :: bool

definition DegradedModeContract_default :: DegradedModeContract where
  "DegradedModeContract_default = \<lparr>
     dmc_id = id_invalid,
     dmc_name = [],
     dmc_topology_generation = id_invalid,
     dmc_containment_generation = id_invalid,
     dmc_permitted_resources = [],
     dmc_prohibited_resources = [],
     dmc_reduced_capacity_percent = 100,
     dmc_required_redundancy = 1,
     dmc_disabled_features = [],
     dmc_legal_workload_classes = [],
     dmc_hard_safety_constraints = [],
     dmc_max_evidence_age_ms = 30000,
     dmc_expires_at_ms = 0,
     dmc_revalidate_every_ms = 0,
     dmc_exit_preconditions = [],
     dmc_permit_by_default = True\<rparr>"

record DegradedModeAssessment =
  dma_contract :: DegradedModeId
  dma_status :: DegradedModeStatus
  dma_permitted :: "ResourceId IdSet"
  dma_prohibited :: "ResourceId IdSet"
  dma_revalidation_required :: "ResourceId IdSet"
  dma_available_capacity_percent :: u32
  dma_required_redundancy :: u32
  dma_available_redundancy :: u32
  dma_reasons :: "string list"
  dma_topology_generation :: TopologyGeneration
  dma_epoch :: CoordinatorEpoch
  dma_assessed_at_ms :: u64
  dma_authorized :: bool

definition DegradedModeAssessment_default :: DegradedModeAssessment where
  "DegradedModeAssessment_default = \<lparr>
     dma_contract = id_invalid,
     dma_status = DegradedModeStatus.NO_LEGAL_DEGRADED_MODE,
     dma_permitted = [],
     dma_prohibited = [],
     dma_revalidation_required = [],
     dma_available_capacity_percent = 0,
     dma_required_redundancy = 1,
     dma_available_redundancy = 0,
     dma_reasons = [],
     dma_topology_generation = id_invalid,
     dma_epoch = id_invalid,
     dma_assessed_at_ms = 0,
     dma_authorized = False\<rparr>"

text \<open>The two nested loops of \<open>degraded_sets_are_disjoint\<close>.\<close>

definition degraded_sets_are_disjoint :: "DegradedModeAssessment \<Rightarrow> bool" where
  "degraded_sets_are_disjoint a \<longleftrightarrow>
     list_all (\<lambda>permitted. list_all (\<lambda>prohibited. permitted \<noteq> prohibited) (dma_prohibited a))
       (dma_permitted a) \<and>
     list_all (\<lambda>permitted. list_all (\<lambda>blocked. permitted \<noteq> blocked) (dma_revalidation_required a))
       (dma_permitted a)"

lemma degraded_sets_are_disjoint_iff:
  "degraded_sets_are_disjoint a \<longleftrightarrow>
     set (dma_permitted a) \<inter> (set (dma_prohibited a) \<union> set (dma_revalidation_required a)) = {}"
  by (auto simp: degraded_sets_are_disjoint_def list_all_iff)

section \<open>Containments\<close>

datatype ContainmentStatus =
    COMMITTED
  | ENFORCING
  | VERIFIED_CONTAINED
  | PARTIAL
  | FAILED
  | RELEASED
  | SUPERSEDED

definition ContainmentStatus_values :: "ContainmentStatus list" where
  "ContainmentStatus_values = [
     ContainmentStatus.COMMITTED, ContainmentStatus.ENFORCING, ContainmentStatus.VERIFIED_CONTAINED,
     ContainmentStatus.PARTIAL, ContainmentStatus.FAILED, ContainmentStatus.RELEASED,
     ContainmentStatus.SUPERSEDED]"

primrec ContainmentStatus_str :: "ContainmentStatus \<Rightarrow> string" where
  "ContainmentStatus_str ContainmentStatus.COMMITTED = ''COMMITTED''"
| "ContainmentStatus_str ContainmentStatus.ENFORCING = ''ENFORCING''"
| "ContainmentStatus_str ContainmentStatus.VERIFIED_CONTAINED = ''VERIFIED_CONTAINED''"
| "ContainmentStatus_str ContainmentStatus.PARTIAL = ''PARTIAL''"
| "ContainmentStatus_str ContainmentStatus.FAILED = ''FAILED''"
| "ContainmentStatus_str ContainmentStatus.RELEASED = ''RELEASED''"
| "ContainmentStatus_str ContainmentStatus.SUPERSEDED = ''SUPERSEDED''"

lemma ContainmentStatus_set_values: "set ContainmentStatus_values = UNIV"
proof -
  have "x \<in> set ContainmentStatus_values" for x by (cases x) (simp_all add: ContainmentStatus_values_def)
  then show ?thesis by blast
qed

interpretation en_ContainmentStatus: enum_table ContainmentStatus_values ContainmentStatus_str
  by unfold_locales
    (rule ContainmentStatus_set_values, code_simp, code_simp, simp add: ContainmentStatus_values_def)

definition containment_is_live :: "ContainmentStatus \<Rightarrow> bool" where
  "containment_is_live status \<longleftrightarrow>
     status \<noteq> ContainmentStatus.RELEASED \<and> status \<noteq> ContainmentStatus.SUPERSEDED"

record ContainmentRecord =
  con_generation :: ContainmentGeneration
  con_epoch :: CoordinatorEpoch
  con_fault :: FaultId
  con_fault_generation :: FaultGeneration
  con_policy_generation :: PolicyGeneration
  con_topology_generation :: TopologyGeneration
  con_outcome :: ContainmentActionKind
  con_status :: ContainmentStatus
  con_mandatory :: "ResourceId IdSet"
  con_precautionary :: "ResourceId IdSet"
  con_unaffected :: "ResourceId IdSet"
  con_unresolved :: "ResourceId IdSet"
  con_released :: "ResourceId IdSet"
  con_propagation :: "PropagationHop list"
  con_actions :: "ActionId list"
  con_verification_generation :: VerificationGeneration
  con_verification_outcome :: VerificationOutcome
  con_verification :: ContainmentVerification
  con_degraded_contract :: DegradedModeId
  con_degraded_status :: DegradedModeStatus
  con_committed_at_ms :: u64
  con_updated_at_ms :: u64
  con_verified :: bool
  con_released_flag :: bool
  con_explanation :: ContainmentExplanation

definition ContainmentRecord_default :: ContainmentRecord where
  "ContainmentRecord_default = \<lparr>
     con_generation = id_invalid,
     con_epoch = id_invalid,
     con_fault = id_invalid,
     con_fault_generation = id_invalid,
     con_policy_generation = id_invalid,
     con_topology_generation = id_invalid,
     con_outcome = ContainmentActionKind.NO_ACTION_REQUIRED,
     con_status = ContainmentStatus.COMMITTED,
     con_mandatory = [],
     con_precautionary = [],
     con_unaffected = [],
     con_unresolved = [],
     con_released = [],
     con_propagation = [],
     con_actions = [],
     con_verification_generation = id_invalid,
     con_verification_outcome = VerificationOutcome.OUTCOME_UNKNOWN,
     con_verification = ContainmentVerification_default,
     con_degraded_contract = id_invalid,
     con_degraded_status = DegradedModeStatus.NO_LEGAL_DEGRADED_MODE,
     con_committed_at_ms = 0,
     con_updated_at_ms = 0,
     con_verified = False,
     con_released_flag = False,
     con_explanation = []\<rparr>"

datatype ReleaseDecision =
    RELEASE_GRANTED
  | RELEASE_DENIED_EVIDENCE
  | RELEASE_DENIED_AUTHORITY
  | RELEASE_DENIED_PROPAGATION
  | RELEASE_DENIED_UNVERIFIED
  | RELEASE_DENIED_POLICY
  | RELEASE_UNKNOWN

definition ReleaseDecision_values :: "ReleaseDecision list" where
  "ReleaseDecision_values = [
     ReleaseDecision.RELEASE_GRANTED, ReleaseDecision.RELEASE_DENIED_EVIDENCE, ReleaseDecision.RELEASE_DENIED_AUTHORITY,
     ReleaseDecision.RELEASE_DENIED_PROPAGATION, ReleaseDecision.RELEASE_DENIED_UNVERIFIED, ReleaseDecision.RELEASE_DENIED_POLICY,
     ReleaseDecision.RELEASE_UNKNOWN]"

primrec ReleaseDecision_str :: "ReleaseDecision \<Rightarrow> string" where
  "ReleaseDecision_str ReleaseDecision.RELEASE_GRANTED = ''RELEASE_GRANTED''"
| "ReleaseDecision_str ReleaseDecision.RELEASE_DENIED_EVIDENCE = ''RELEASE_DENIED_EVIDENCE''"
| "ReleaseDecision_str ReleaseDecision.RELEASE_DENIED_AUTHORITY = ''RELEASE_DENIED_AUTHORITY''"
| "ReleaseDecision_str ReleaseDecision.RELEASE_DENIED_PROPAGATION = ''RELEASE_DENIED_PROPAGATION''"
| "ReleaseDecision_str ReleaseDecision.RELEASE_DENIED_UNVERIFIED = ''RELEASE_DENIED_UNVERIFIED''"
| "ReleaseDecision_str ReleaseDecision.RELEASE_DENIED_POLICY = ''RELEASE_DENIED_POLICY''"
| "ReleaseDecision_str ReleaseDecision.RELEASE_UNKNOWN = ''RELEASE_UNKNOWN''"

lemma ReleaseDecision_set_values: "set ReleaseDecision_values = UNIV"
proof -
  have "x \<in> set ReleaseDecision_values" for x by (cases x) (simp_all add: ReleaseDecision_values_def)
  then show ?thesis by blast
qed

interpretation en_ReleaseDecision: enum_table ReleaseDecision_values ReleaseDecision_str
  by unfold_locales
    (rule ReleaseDecision_set_values, code_simp, code_simp, simp add: ReleaseDecision_values_def)

record ReleaseAssessment =
  rel_decision :: ReleaseDecision
  rel_generation :: ReleaseGeneration
  rel_containment_generation :: ContainmentGeneration
  rel_resource :: ResourceId
  rel_criteria :: "VerificationFinding list"
  rel_summary :: string
  rel_granted :: bool

definition ReleaseAssessment_default :: ReleaseAssessment where
  "ReleaseAssessment_default = \<lparr>
     rel_decision = ReleaseDecision.RELEASE_UNKNOWN,
     rel_generation = id_invalid,
     rel_containment_generation = id_invalid,
     rel_resource = id_invalid,
     rel_criteria = [],
     rel_summary = [],
     rel_granted = False\<rparr>"

section \<open>Plans\<close>

record ContainmentPlan =
  plan_generation :: ContainmentGeneration
  plan_epoch :: CoordinatorEpoch
  plan_fault :: FaultId
  plan_fault_generation :: FaultGeneration
  plan_policy_generation :: PolicyGeneration
  plan_topology_generation :: TopologyGeneration
  plan_recommended :: ContainmentActionKind
  plan_radius :: BlastRadius
  plan_degraded :: DegradedModeAssessment
  plan_actions :: "ContainmentAction list"
  plan_rejected_actions :: "ActionId list"
  plan_approved :: bool
  plan_dispatched :: bool
  plan_any_acknowledged :: bool
  plan_any_verified :: bool
  plan_created_at_ms :: u64

definition ContainmentPlan_default :: ContainmentPlan where
  "ContainmentPlan_default = \<lparr>
     plan_generation = id_invalid,
     plan_epoch = id_invalid,
     plan_fault = id_invalid,
     plan_fault_generation = id_invalid,
     plan_policy_generation = id_invalid,
     plan_topology_generation = id_invalid,
     plan_recommended = ContainmentActionKind.NO_ACTION_REQUIRED,
     plan_radius = BlastRadius_default,
     plan_degraded = DegradedModeAssessment_default,
     plan_actions = [],
     plan_rejected_actions = [],
     plan_approved = False,
     plan_dispatched = False,
     plan_any_acknowledged = False,
     plan_any_verified = False,
     plan_created_at_ms = 0\<rparr>"

definition authority_summary :: "ContainmentPlan \<Rightarrow> string" where
  "authority_summary p =
     ''CoordinatorEpoch '' @ str_CoordinatorEpoch (plan_epoch p) @
     ''; FaultGeneration '' @ str_FaultGeneration (plan_fault_generation p) @
     ''; ContainmentGeneration '' @ str_ContainmentGeneration (plan_generation p) @
     ''; PolicyGeneration '' @ str_PolicyGeneration (plan_policy_generation p) @
     ''; TopologyGeneration '' @ str_TopologyGeneration (plan_topology_generation p)"

section \<open>History\<close>

datatype (plugins only: code size) HistoryEventType =
    COORDINATOR_STARTED
  | EPOCH_ADVANCED
  | TOPOLOGY_UPDATED
  | DOMAIN_REGISTERED
  | DOMAIN_UPDATED
  | DOMAIN_REMOVED
  | DEPENDENCY_REGISTERED
  | DEPENDENCY_REMOVED
  | RESOURCE_REGISTERED
  | RESOURCE_EVIDENCE_UPDATED
  | WORKER_REGISTERED
  | WORKER_RETIRED
  | WORKER_AUTHORITY_REVOKED
  | FAULT_PUBLISHED
  | FAULT_DUPLICATE_IGNORED
  | FAULT_CONFLICT_REJECTED
  | FAULT_SUPERSEDED
  | FAULT_STATE_CHANGED
  | CONTAINMENT_EVALUATED
  | CONTAINMENT_COMMITTED
  | ACTION_PLANNED
  | ACTION_AUTHORIZED
  | ACTION_DISPATCHED
  | ACTION_ACKNOWLEDGED
  | ACTION_RESULT_RECORDED
  | ACTION_REJECTED
  | ACTION_CANCELLED
  | CONTAINMENT_VERIFIED
  | DEGRADED_AUTHORIZED
  | DEGRADED_REVALIDATED
  | RELEASE_REQUESTED
  | RELEASE_GRANTED
  | RELEASE_REFUSED
  | STALE_MESSAGE_REJECTED
  | RECOVERY_APPLIED
  | PERSISTENCE_FAULT

definition HistoryEventType_values :: "HistoryEventType list" where
  "HistoryEventType_values = [
     HistoryEventType.COORDINATOR_STARTED, HistoryEventType.EPOCH_ADVANCED, HistoryEventType.TOPOLOGY_UPDATED,
     HistoryEventType.DOMAIN_REGISTERED, HistoryEventType.DOMAIN_UPDATED, HistoryEventType.DOMAIN_REMOVED,
     HistoryEventType.DEPENDENCY_REGISTERED, HistoryEventType.DEPENDENCY_REMOVED, HistoryEventType.RESOURCE_REGISTERED,
     HistoryEventType.RESOURCE_EVIDENCE_UPDATED, HistoryEventType.WORKER_REGISTERED, HistoryEventType.WORKER_RETIRED,
     HistoryEventType.WORKER_AUTHORITY_REVOKED, HistoryEventType.FAULT_PUBLISHED, HistoryEventType.FAULT_DUPLICATE_IGNORED,
     HistoryEventType.FAULT_CONFLICT_REJECTED, HistoryEventType.FAULT_SUPERSEDED, HistoryEventType.FAULT_STATE_CHANGED,
     HistoryEventType.CONTAINMENT_EVALUATED, HistoryEventType.CONTAINMENT_COMMITTED, HistoryEventType.ACTION_PLANNED,
     HistoryEventType.ACTION_AUTHORIZED, HistoryEventType.ACTION_DISPATCHED, HistoryEventType.ACTION_ACKNOWLEDGED,
     HistoryEventType.ACTION_RESULT_RECORDED, HistoryEventType.ACTION_REJECTED, HistoryEventType.ACTION_CANCELLED,
     HistoryEventType.CONTAINMENT_VERIFIED, HistoryEventType.DEGRADED_AUTHORIZED, HistoryEventType.DEGRADED_REVALIDATED,
     HistoryEventType.RELEASE_REQUESTED, HistoryEventType.RELEASE_GRANTED, HistoryEventType.RELEASE_REFUSED,
     HistoryEventType.STALE_MESSAGE_REJECTED, HistoryEventType.RECOVERY_APPLIED, HistoryEventType.PERSISTENCE_FAULT]"

primrec HistoryEventType_str :: "HistoryEventType \<Rightarrow> string" where
  "HistoryEventType_str HistoryEventType.COORDINATOR_STARTED = ''COORDINATOR_STARTED''"
| "HistoryEventType_str HistoryEventType.EPOCH_ADVANCED = ''EPOCH_ADVANCED''"
| "HistoryEventType_str HistoryEventType.TOPOLOGY_UPDATED = ''TOPOLOGY_UPDATED''"
| "HistoryEventType_str HistoryEventType.DOMAIN_REGISTERED = ''DOMAIN_REGISTERED''"
| "HistoryEventType_str HistoryEventType.DOMAIN_UPDATED = ''DOMAIN_UPDATED''"
| "HistoryEventType_str HistoryEventType.DOMAIN_REMOVED = ''DOMAIN_REMOVED''"
| "HistoryEventType_str HistoryEventType.DEPENDENCY_REGISTERED = ''DEPENDENCY_REGISTERED''"
| "HistoryEventType_str HistoryEventType.DEPENDENCY_REMOVED = ''DEPENDENCY_REMOVED''"
| "HistoryEventType_str HistoryEventType.RESOURCE_REGISTERED = ''RESOURCE_REGISTERED''"
| "HistoryEventType_str HistoryEventType.RESOURCE_EVIDENCE_UPDATED = ''RESOURCE_EVIDENCE_UPDATED''"
| "HistoryEventType_str HistoryEventType.WORKER_REGISTERED = ''WORKER_REGISTERED''"
| "HistoryEventType_str HistoryEventType.WORKER_RETIRED = ''WORKER_RETIRED''"
| "HistoryEventType_str HistoryEventType.WORKER_AUTHORITY_REVOKED = ''WORKER_AUTHORITY_REVOKED''"
| "HistoryEventType_str HistoryEventType.FAULT_PUBLISHED = ''FAULT_PUBLISHED''"
| "HistoryEventType_str HistoryEventType.FAULT_DUPLICATE_IGNORED = ''FAULT_DUPLICATE_IGNORED''"
| "HistoryEventType_str HistoryEventType.FAULT_CONFLICT_REJECTED = ''FAULT_CONFLICT_REJECTED''"
| "HistoryEventType_str HistoryEventType.FAULT_SUPERSEDED = ''FAULT_SUPERSEDED''"
| "HistoryEventType_str HistoryEventType.FAULT_STATE_CHANGED = ''FAULT_STATE_CHANGED''"
| "HistoryEventType_str HistoryEventType.CONTAINMENT_EVALUATED = ''CONTAINMENT_EVALUATED''"
| "HistoryEventType_str HistoryEventType.CONTAINMENT_COMMITTED = ''CONTAINMENT_COMMITTED''"
| "HistoryEventType_str HistoryEventType.ACTION_PLANNED = ''ACTION_PLANNED''"
| "HistoryEventType_str HistoryEventType.ACTION_AUTHORIZED = ''ACTION_AUTHORIZED''"
| "HistoryEventType_str HistoryEventType.ACTION_DISPATCHED = ''ACTION_DISPATCHED''"
| "HistoryEventType_str HistoryEventType.ACTION_ACKNOWLEDGED = ''ACTION_ACKNOWLEDGED''"
| "HistoryEventType_str HistoryEventType.ACTION_RESULT_RECORDED = ''ACTION_RESULT_RECORDED''"
| "HistoryEventType_str HistoryEventType.ACTION_REJECTED = ''ACTION_REJECTED''"
| "HistoryEventType_str HistoryEventType.ACTION_CANCELLED = ''ACTION_CANCELLED''"
| "HistoryEventType_str HistoryEventType.CONTAINMENT_VERIFIED = ''CONTAINMENT_VERIFIED''"
| "HistoryEventType_str HistoryEventType.DEGRADED_AUTHORIZED = ''DEGRADED_AUTHORIZED''"
| "HistoryEventType_str HistoryEventType.DEGRADED_REVALIDATED = ''DEGRADED_REVALIDATED''"
| "HistoryEventType_str HistoryEventType.RELEASE_REQUESTED = ''RELEASE_REQUESTED''"
| "HistoryEventType_str HistoryEventType.RELEASE_GRANTED = ''RELEASE_GRANTED''"
| "HistoryEventType_str HistoryEventType.RELEASE_REFUSED = ''RELEASE_REFUSED''"
| "HistoryEventType_str HistoryEventType.STALE_MESSAGE_REJECTED = ''STALE_MESSAGE_REJECTED''"
| "HistoryEventType_str HistoryEventType.RECOVERY_APPLIED = ''RECOVERY_APPLIED''"
| "HistoryEventType_str HistoryEventType.PERSISTENCE_FAULT = ''PERSISTENCE_FAULT''"

lemma HistoryEventType_set_values: "set HistoryEventType_values = UNIV"
proof -
  have "x \<in> set HistoryEventType_values" for x by (cases x) (simp_all add: HistoryEventType_values_def)
  then show ?thesis by blast
qed

interpretation en_HistoryEventType: enum_table HistoryEventType_values HistoryEventType_str
  by unfold_locales
    (rule HistoryEventType_set_values, code_simp, code_simp, simp add: HistoryEventType_values_def)

record HistoryEvent =
  he_sequence :: HistorySequence
  he_timestamp_ms :: u64
  he_epoch :: CoordinatorEpoch
  he_type :: HistoryEventType
  he_resource :: ResourceId
  he_fault :: FaultId
  he_action :: ActionId
  he_containment :: ContainmentGeneration
  he_verification :: VerificationGeneration
  he_detail :: string
  he_authority :: string

definition HistoryEvent_default :: HistoryEvent where
  "HistoryEvent_default = \<lparr>
     he_sequence = id_invalid,
     he_timestamp_ms = 0,
     he_epoch = id_invalid,
     he_type = HistoryEventType.COORDINATOR_STARTED,
     he_resource = id_invalid,
     he_fault = id_invalid,
     he_action = id_invalid,
     he_containment = id_invalid,
     he_verification = id_invalid,
     he_detail = [],
     he_authority = []\<rparr>"

end
