(* ===== verification/Fcf_Worker.thy ===== *)
theory Fcf_Worker
  imports Fcf_Evidence
begin

text \<open>
  Worker identities and process incarnations (\<open>include/fcf/worker.hpp\<close>,
  \<open>src/worker_registry.cpp\<close>).
\<close>

text \<open>\<open>WorkerKey\<close> is ordered lexicographically by worker, then boot.\<close>

datatype WorkerKey = WorkerKey (wk_worker: WorkerId) (wk_boot: WorkerBootId)

instantiation WorkerKey :: linorder
begin

definition less_eq_WorkerKey :: "WorkerKey \<Rightarrow> WorkerKey \<Rightarrow> bool" where
  "less_eq_WorkerKey a b \<longleftrightarrow>
     wk_worker a < wk_worker b \<or> wk_worker a = wk_worker b \<and> wk_boot a \<le> wk_boot b"

definition less_WorkerKey :: "WorkerKey \<Rightarrow> WorkerKey \<Rightarrow> bool" where
  "less_WorkerKey a b \<longleftrightarrow>
     wk_worker a < wk_worker b \<or> wk_worker a = wk_worker b \<and> wk_boot a < wk_boot b"

instance
  by standard (auto simp: less_eq_WorkerKey_def less_WorkerKey_def intro: WorkerKey.expand)

end

abbreviation WorkerKey_default :: WorkerKey where
  "WorkerKey_default \<equiv> WorkerKey id_invalid id_invalid"

datatype WorkerState =
    REGISTERED
  | ACTIVE
  | SUSPECT
  | AUTHORITY_REVOKED
  | RETIRED

definition WorkerState_values :: "WorkerState list" where
  "WorkerState_values = [
     WorkerState.REGISTERED, WorkerState.ACTIVE, WorkerState.SUSPECT,
     WorkerState.AUTHORITY_REVOKED, WorkerState.RETIRED]"

primrec WorkerState_str :: "WorkerState \<Rightarrow> string" where
  "WorkerState_str WorkerState.REGISTERED = ''REGISTERED''"
| "WorkerState_str WorkerState.ACTIVE = ''ACTIVE''"
| "WorkerState_str WorkerState.SUSPECT = ''SUSPECT''"
| "WorkerState_str WorkerState.AUTHORITY_REVOKED = ''AUTHORITY_REVOKED''"
| "WorkerState_str WorkerState.RETIRED = ''RETIRED''"

lemma WorkerState_set_values: "set WorkerState_values = UNIV"
proof -
  have "x \<in> set WorkerState_values" for x by (cases x) (simp_all add: WorkerState_values_def)
  then show ?thesis by blast
qed

interpretation en_WorkerState: enum_table WorkerState_values WorkerState_str
  by unfold_locales
    (rule WorkerState_set_values, code_simp, code_simp, simp add: WorkerState_values_def)

definition holds_live_authority :: "WorkerState \<Rightarrow> bool" where
  "holds_live_authority s \<longleftrightarrow> s = WorkerState.REGISTERED \<or> s = WorkerState.ACTIVE"

record WorkerRecord =
  wr_key :: WorkerKey
  wr_incarnation :: WorkerIncarnation
  wr_registered_epoch :: CoordinatorEpoch
  wr_state :: WorkerState
  wr_last_sequence :: EvidenceSequence
  wr_freshness :: EvidenceFreshness
  wr_live_authority :: "ResourceId IdSet"
  wr_registered_at_ms :: u64
  wr_last_seen_ms :: u64
  wr_endpoint :: string
  wr_details :: string

definition WorkerRecord_default :: WorkerRecord where
  "WorkerRecord_default = \<lparr>
     wr_key = WorkerKey_default,
     wr_incarnation = id_invalid,
     wr_registered_epoch = id_invalid,
     wr_state = WorkerState.REGISTERED,
     wr_last_sequence = id_invalid,
     wr_freshness = EvidenceFreshness.UNKNOWN,
     wr_live_authority = [],
     wr_registered_at_ms = 0,
     wr_last_seen_ms = 0,
     wr_endpoint = [],
     wr_details = []\<rparr>"

record WorkerRegistry =
  wreg_incarnations :: "(WorkerKey, WorkerRecord) omap"
  wreg_current_boot :: "(WorkerId, WorkerBootId) omap"
  wreg_current_incarnation :: "(WorkerId, WorkerIncarnation) omap"
  wreg_last_incarnation :: "(WorkerId, WorkerIncarnation) omap"

definition WorkerRegistry_default :: WorkerRegistry where
  "WorkerRegistry_default = \<lparr>
     wreg_incarnations = [],
     wreg_current_boot = [],
     wreg_current_incarnation = [],
     wreg_last_incarnation = []\<rparr>"

definition find_incarnation :: "WorkerRegistry \<Rightarrow> WorkerKey \<Rightarrow> WorkerRecord option" where
  "find_incarnation registry key = om_find (wreg_incarnations registry) key"

definition find_current_incarnation :: "WorkerRegistry \<Rightarrow> WorkerId \<Rightarrow> WorkerRecord option" where
  "find_current_incarnation registry worker =
     (case om_find (wreg_current_boot registry) worker of
        None \<Rightarrow> None
      | Some boot \<Rightarrow> find_incarnation registry (WorkerKey worker boot))"

definition boot_is_current :: "WorkerRegistry \<Rightarrow> WorkerId \<Rightarrow> WorkerBootId \<Rightarrow> bool" where
  "boot_is_current registry worker boot \<longleftrightarrow>
     om_find (wreg_current_boot registry) worker = Some boot"

definition count_live_incarnations :: "WorkerRegistry \<Rightarrow> nat" where
  "count_live_incarnations registry =
     length (filter (\<lambda>(_, w). holds_live_authority (wr_state w)) (wreg_incarnations registry))"

end
