(* ===== verification/Fcf_Codec.thy ===== *)
theory Fcf_Codec
  imports Fcf_Bytes Fcf_Records Fcf_Worker
begin

text \<open>
  The record codecs of the durable state (\<open>src/state_codec.hpp\<close>, \<open>src/state_codec.cpp\<close>). For every
  record: the writer and the reader as the code has them, the bytes the writer appends
  (\<open>enc_*\<close>), what it checks (\<open>accepts_*\<close>), what the reader demands beyond that (\<open>canon_*\<close>), and
  the interpretation of \<open>record_codec\<close> that proves the pair inverse to each other.
\<close>

definition kMaxMembersPerRecord :: u32 where "kMaxMembersPerRecord = 1000000"
definition kMaxRules :: u32 where "kMaxRules = 4096"
definition kMaxEnvelopeTargets :: u32 where "kMaxEnvelopeTargets = 100000"

section \<open>Topology records\<close>

definition write_resource :: "ResourceRecord \<Rightarrow> ByteWriter \<Rightarrow> ByteWriter" where
  "write_resource r = writes [
     wr_id (rr_id r),
     wr_id (rr_generation r),
     wr_str (rr_name r),
     wr_enum ResourceClass_values (rr_resource_class r),
     wr_enum ProtectionClass_values (rr_protection r),
     wr_enum ResourceOperationalState_values (rr_state r),
     wr_id (rr_containment_domain r),
     wr_id (rr_isolation_domain r),
     wr_id (rr_failure_domain r),
     wr_id (rr_owner_worker r),
     wr_id (rr_owner_boot r),
     wr_id (rr_node r),
     wr_id (rr_host r),
     wr_id (rr_device r),
     wr_id (rr_accelerator r),
     wr_id (rr_service r),
     wr_id (rr_workload r),
     wr_id (rr_execution r),
     wr_id (rr_attempt r),
     wr_id (rr_reservation r),
     wr_id (rr_lease r),
     wr_enum EvidenceFreshness_values (rr_freshness r),
     wr_id (rr_evidence_sequence r),
     wr_u64 (rr_updated_at_ms r),
     wr_boolean (rr_quarantined r),
     wr_enum ContainmentMechanism_values (rr_mechanism r),
     wr_id (rr_containment_generation r),
     wr_id (rr_release_generation r)]"

definition read_resource :: "ResourceRecord option reader" where
  "read_resource = do {
     x_id \<leftarrow> rd_id;
     x_generation \<leftarrow> rd_id;
     x_name \<leftarrow> rd_str;
     x_resource_class \<leftarrow> rd_enum_checked ResourceClass_values;
     x_protection \<leftarrow> rd_enum_checked ProtectionClass_values;
     x_state \<leftarrow> rd_enum_checked ResourceOperationalState_values;
     x_containment_domain \<leftarrow> rd_id;
     x_isolation_domain \<leftarrow> rd_id;
     x_failure_domain \<leftarrow> rd_id;
     x_owner_worker \<leftarrow> rd_id;
     x_owner_boot \<leftarrow> rd_id;
     x_node \<leftarrow> rd_id;
     x_host \<leftarrow> rd_id;
     x_device \<leftarrow> rd_id;
     x_accelerator \<leftarrow> rd_id;
     x_service \<leftarrow> rd_id;
     x_workload \<leftarrow> rd_id;
     x_execution \<leftarrow> rd_id;
     x_attempt \<leftarrow> rd_id;
     x_reservation \<leftarrow> rd_id;
     x_lease \<leftarrow> rd_id;
     x_freshness \<leftarrow> rd_enum_checked EvidenceFreshness_values;
     x_evidence_sequence \<leftarrow> rd_id;
     x_updated_at_ms \<leftarrow> rd_u64;
     x_quarantined \<leftarrow> rd_bool;
     x_mechanism \<leftarrow> rd_enum_checked ContainmentMechanism_values;
     x_containment_generation \<leftarrow> rd_id;
     x_release_generation \<leftarrow> rd_id;
     ok \<leftarrow> rd_ok;
     if \<not> ok then State_Monad.return None
     else State_Monad.return (if id_valid x_id then Some \<lparr>rr_id = x_id, rr_generation = x_generation, rr_name = x_name,
        rr_resource_class = x_resource_class, rr_protection = x_protection, rr_state = x_state,
        rr_containment_domain = x_containment_domain, rr_isolation_domain = x_isolation_domain,
        rr_failure_domain = x_failure_domain, rr_owner_worker = x_owner_worker,
        rr_owner_boot = x_owner_boot, rr_node = x_node, rr_host = x_host, rr_device = x_device,
        rr_accelerator = x_accelerator, rr_service = x_service, rr_workload = x_workload,
        rr_execution = x_execution, rr_attempt = x_attempt, rr_reservation = x_reservation,
        rr_lease = x_lease, rr_freshness = x_freshness,
        rr_evidence_sequence = x_evidence_sequence, rr_updated_at_ms = x_updated_at_ms,
        rr_quarantined = x_quarantined, rr_mechanism = x_mechanism,
        rr_containment_generation = x_containment_generation,
        rr_release_generation = x_release_generation\<rparr> else None) }"

definition enc_resource :: "ResourceRecord \<Rightarrow> u8 list" where
  "enc_resource r =
     enc_id (rr_id r) @
     enc_id (rr_generation r) @
     enc_str (rr_name r) @
     enc_enum ResourceClass_values (rr_resource_class r) @
     enc_enum ProtectionClass_values (rr_protection r) @
     enc_enum ResourceOperationalState_values (rr_state r) @
     enc_id (rr_containment_domain r) @
     enc_id (rr_isolation_domain r) @
     enc_id (rr_failure_domain r) @
     enc_id (rr_owner_worker r) @
     enc_id (rr_owner_boot r) @
     enc_id (rr_node r) @
     enc_id (rr_host r) @
     enc_id (rr_device r) @
     enc_id (rr_accelerator r) @
     enc_id (rr_service r) @
     enc_id (rr_workload r) @
     enc_id (rr_execution r) @
     enc_id (rr_attempt r) @
     enc_id (rr_reservation r) @
     enc_id (rr_lease r) @
     enc_enum EvidenceFreshness_values (rr_freshness r) @
     enc_id (rr_evidence_sequence r) @
     le_u64 (rr_updated_at_ms r) @
     enc_bool (rr_quarantined r) @
     enc_enum ContainmentMechanism_values (rr_mechanism r) @
     enc_id (rr_containment_generation r) @
     enc_id (rr_release_generation r) @
     []"

definition accepts_resource :: "ResourceRecord \<Rightarrow> bool" where
  "accepts_resource r \<longleftrightarrow> str_good (rr_name r)"

definition canon_resource :: "ResourceRecord \<Rightarrow> bool" where
  "canon_resource r \<longleftrightarrow> (id_valid (rr_id r))"

interpretation rc_resource: record_codec write_resource read_resource enc_resource accepts_resource canon_resource
proof
  fix x :: ResourceRecord
  show "emits (write_resource x) (enc_resource x) (accepts_resource x)"
    unfolding write_resource_def [abs_def] enc_resource_def
    by (rule emits_weaken, (rule emits_intros)+)
      (simp add: accepts_resource_def)
next
  fix x :: ResourceRecord
  assume "accepts_resource x" and "canon_resource x"
  then show "reads read_resource (enc_resource x) (Some x)"
    by (cases x) (simp add: reads_def read_resource_def enc_resource_def accepts_resource_def canon_resource_def
        field_reads
        enum_table.reads_enum [OF en_ContainmentMechanism.enum_table_axioms, THEN readsD]
        enum_table.reads_enum [OF en_EvidenceFreshness.enum_table_axioms, THEN readsD]
        enum_table.reads_enum [OF en_ProtectionClass.enum_table_axioms, THEN readsD]
        enum_table.reads_enum [OF en_ResourceClass.enum_table_axioms, THEN readsD]
        enum_table.reads_enum [OF en_ResourceOperationalState.enum_table_axioms, THEN readsD]
        str_reads ids_reads)
qed

definition write_containment_domain :: "ContainmentDomain \<Rightarrow> ByteWriter \<Rightarrow> ByteWriter" where
  "write_containment_domain d = writes [
     wr_id (cd_id d),
     wr_id (cd_generation d),
     wr_str (cd_name d),
     wr_ids (cd_members d),
     wr_enum ProtectionClass_values (cd_protection d),
     wr_boolean (cd_co_isolate_members d)]"

definition read_containment_domain :: "ContainmentDomain option reader" where
  "read_containment_domain = do {
     x_id \<leftarrow> rd_id;
     x_generation \<leftarrow> rd_id;
     x_name \<leftarrow> rd_str;
     x_members \<leftarrow> rd_ids kMaxMembersPerRecord;
     x_protection \<leftarrow> rd_enum_checked ProtectionClass_values;
     x_co_isolate_members \<leftarrow> rd_bool;
     ok \<leftarrow> rd_ok;
     if \<not> ok then State_Monad.return None
     else State_Monad.return (if id_valid x_id then Some \<lparr>cd_id = x_id, cd_generation = x_generation, cd_name = x_name,
        cd_members = x_members, cd_protection = x_protection,
        cd_co_isolate_members = x_co_isolate_members\<rparr> else None) }"

definition enc_containment_domain :: "ContainmentDomain \<Rightarrow> u8 list" where
  "enc_containment_domain d =
     enc_id (cd_id d) @
     enc_id (cd_generation d) @
     enc_str (cd_name d) @
     enc_many enc_id (cd_members d) @
     enc_enum ProtectionClass_values (cd_protection d) @
     enc_bool (cd_co_isolate_members d) @
     []"

definition accepts_containment_domain :: "ContainmentDomain \<Rightarrow> bool" where
  "accepts_containment_domain d \<longleftrightarrow> str_good (cd_name d)"

definition canon_containment_domain :: "ContainmentDomain \<Rightarrow> bool" where
  "canon_containment_domain d \<longleftrightarrow> id_set_good kMaxMembersPerRecord (cd_members d) \<and>
     (id_valid (cd_id d))"

interpretation rc_containment_domain: record_codec write_containment_domain read_containment_domain enc_containment_domain accepts_containment_domain canon_containment_domain
proof
  fix x :: ContainmentDomain
  show "emits (write_containment_domain x) (enc_containment_domain x) (accepts_containment_domain x)"
    unfolding write_containment_domain_def [abs_def] enc_containment_domain_def
    by (rule emits_weaken, (rule emits_intros)+)
      (simp add: accepts_containment_domain_def)
next
  fix x :: ContainmentDomain
  assume "accepts_containment_domain x" and "canon_containment_domain x"
  then show "reads read_containment_domain (enc_containment_domain x) (Some x)"
    by (cases x) (simp add: reads_def read_containment_domain_def enc_containment_domain_def accepts_containment_domain_def canon_containment_domain_def
        field_reads
        enum_table.reads_enum [OF en_ProtectionClass.enum_table_axioms, THEN readsD]
        str_reads ids_reads)
qed

definition write_isolation_domain :: "IsolationDomain \<Rightarrow> ByteWriter \<Rightarrow> ByteWriter" where
  "write_isolation_domain d = writes [
     wr_id (idm_id d),
     wr_id (idm_generation d),
     wr_str (idm_name d),
     wr_ids (idm_members d),
     wr_enum_set IsolationClass_values (idm_classes d),
     wr_enum ContainmentMechanism_values (idm_mechanism d)]"

definition read_isolation_domain :: "IsolationDomain option reader" where
  "read_isolation_domain = do {
     x_id \<leftarrow> rd_id;
     x_generation \<leftarrow> rd_id;
     x_name \<leftarrow> rd_str;
     x_members \<leftarrow> rd_ids kMaxMembersPerRecord;
     x_classes \<leftarrow> rd_enum_set IsolationClass_values (of_nat (length IsolationClass_values));
     x_mechanism \<leftarrow> rd_enum_checked ContainmentMechanism_values;
     ok \<leftarrow> rd_ok;
     if \<not> ok then State_Monad.return None
     else State_Monad.return (if id_valid x_id then Some \<lparr>idm_id = x_id, idm_generation = x_generation, idm_name = x_name,
        idm_members = x_members, idm_classes = x_classes, idm_mechanism = x_mechanism\<rparr> else None) }"

definition enc_isolation_domain :: "IsolationDomain \<Rightarrow> u8 list" where
  "enc_isolation_domain d =
     enc_id (idm_id d) @
     enc_id (idm_generation d) @
     enc_str (idm_name d) @
     enc_many enc_id (idm_members d) @
     enc_many (enc_enum IsolationClass_values) (idm_classes d) @
     enc_enum ContainmentMechanism_values (idm_mechanism d) @
     []"

definition accepts_isolation_domain :: "IsolationDomain \<Rightarrow> bool" where
  "accepts_isolation_domain d \<longleftrightarrow> str_good (idm_name d)"

definition canon_isolation_domain :: "IsolationDomain \<Rightarrow> bool" where
  "canon_isolation_domain d \<longleftrightarrow> id_set_good kMaxMembersPerRecord (idm_members d) \<and>
     enum_set_good IsolationClass_values (idm_classes d) \<and>
     (id_valid (idm_id d))"

interpretation rc_isolation_domain: record_codec write_isolation_domain read_isolation_domain enc_isolation_domain accepts_isolation_domain canon_isolation_domain
proof
  fix x :: IsolationDomain
  show "emits (write_isolation_domain x) (enc_isolation_domain x) (accepts_isolation_domain x)"
    unfolding write_isolation_domain_def [abs_def] enc_isolation_domain_def
    by (rule emits_weaken, (rule emits_intros)+)
      (simp add: accepts_isolation_domain_def)
next
  fix x :: IsolationDomain
  assume "accepts_isolation_domain x" and "canon_isolation_domain x"
  then show "reads read_isolation_domain (enc_isolation_domain x) (Some x)"
    by (cases x) (simp add: reads_def read_isolation_domain_def enc_isolation_domain_def accepts_isolation_domain_def canon_isolation_domain_def
        field_reads
        enum_table.reads_enum [OF en_ContainmentMechanism.enum_table_axioms, THEN readsD]
        enum_table.reads_enum_set_all [OF en_IsolationClass.enum_table_axioms, THEN readsD]
        str_reads ids_reads)
qed

definition write_failure_domain :: "FailureDomain \<Rightarrow> ByteWriter \<Rightarrow> ByteWriter" where
  "write_failure_domain d = writes [
     wr_id (fd_id d),
     wr_id (fd_generation d),
     wr_str (fd_name d),
     wr_enum FailureDomainKind_values (fd_kind d),
     wr_ids (fd_members d),
     wr_enum EvidenceProvenance_values (fd_provenance d),
     wr_enum EvidenceFreshness_values (fd_freshness d)]"

definition read_failure_domain :: "FailureDomain option reader" where
  "read_failure_domain = do {
     x_id \<leftarrow> rd_id;
     x_generation \<leftarrow> rd_id;
     x_name \<leftarrow> rd_str;
     x_kind \<leftarrow> rd_enum_checked FailureDomainKind_values;
     x_members \<leftarrow> rd_ids kMaxMembersPerRecord;
     x_provenance \<leftarrow> rd_enum_checked EvidenceProvenance_values;
     x_freshness \<leftarrow> rd_enum_checked EvidenceFreshness_values;
     ok \<leftarrow> rd_ok;
     if \<not> ok then State_Monad.return None
     else State_Monad.return (if id_valid x_id then Some \<lparr>fd_id = x_id, fd_generation = x_generation, fd_name = x_name, fd_kind = x_kind,
        fd_members = x_members, fd_provenance = x_provenance, fd_freshness = x_freshness\<rparr> else None) }"

definition enc_failure_domain :: "FailureDomain \<Rightarrow> u8 list" where
  "enc_failure_domain d =
     enc_id (fd_id d) @
     enc_id (fd_generation d) @
     enc_str (fd_name d) @
     enc_enum FailureDomainKind_values (fd_kind d) @
     enc_many enc_id (fd_members d) @
     enc_enum EvidenceProvenance_values (fd_provenance d) @
     enc_enum EvidenceFreshness_values (fd_freshness d) @
     []"

definition accepts_failure_domain :: "FailureDomain \<Rightarrow> bool" where
  "accepts_failure_domain d \<longleftrightarrow> str_good (fd_name d)"

definition canon_failure_domain :: "FailureDomain \<Rightarrow> bool" where
  "canon_failure_domain d \<longleftrightarrow> id_set_good kMaxMembersPerRecord (fd_members d) \<and>
     (id_valid (fd_id d))"

interpretation rc_failure_domain: record_codec write_failure_domain read_failure_domain enc_failure_domain accepts_failure_domain canon_failure_domain
proof
  fix x :: FailureDomain
  show "emits (write_failure_domain x) (enc_failure_domain x) (accepts_failure_domain x)"
    unfolding write_failure_domain_def [abs_def] enc_failure_domain_def
    by (rule emits_weaken, (rule emits_intros)+)
      (simp add: accepts_failure_domain_def)
next
  fix x :: FailureDomain
  assume "accepts_failure_domain x" and "canon_failure_domain x"
  then show "reads read_failure_domain (enc_failure_domain x) (Some x)"
    by (cases x) (simp add: reads_def read_failure_domain_def enc_failure_domain_def accepts_failure_domain_def canon_failure_domain_def
        field_reads
        enum_table.reads_enum [OF en_EvidenceFreshness.enum_table_axioms, THEN readsD]
        enum_table.reads_enum [OF en_EvidenceProvenance.enum_table_axioms, THEN readsD]
        enum_table.reads_enum [OF en_FailureDomainKind.enum_table_axioms, THEN readsD]
        str_reads ids_reads)
qed

definition write_dependency :: "DependencyEdge \<Rightarrow> ByteWriter \<Rightarrow> ByteWriter" where
  "write_dependency e = writes [
     wr_id (de_id e),
     wr_id (de_generation e),
     wr_id (de_source e),
     wr_id (de_destination e),
     wr_enum DependencyKind_values (de_kind e),
     wr_enum EvidenceProvenance_values (de_provenance e),
     wr_enum EvidenceFreshness_values (de_freshness e),
     wr_enum IntegrityStatus_values (de_integrity e),
     wr_u16 (de_confidence_permille e),
     wr_boolean (de_conditional e),
     wr_id (de_observed_sequence e),
     wr_str (de_evidence_source e)]"

definition read_dependency :: "DependencyEdge option reader" where
  "read_dependency = do {
     x_id \<leftarrow> rd_id;
     x_generation \<leftarrow> rd_id;
     x_source \<leftarrow> rd_id;
     x_destination \<leftarrow> rd_id;
     x_kind \<leftarrow> rd_enum_checked DependencyKind_values;
     x_provenance \<leftarrow> rd_enum_checked EvidenceProvenance_values;
     x_freshness \<leftarrow> rd_enum_checked EvidenceFreshness_values;
     x_integrity \<leftarrow> rd_enum_checked IntegrityStatus_values;
     x_confidence_permille \<leftarrow> rd_u16;
     x_conditional \<leftarrow> rd_bool;
     x_observed_sequence \<leftarrow> rd_id;
     x_evidence_source \<leftarrow> rd_str;
     ok \<leftarrow> rd_ok;
     if \<not> ok then State_Monad.return None
     else if x_confidence_permille > 1000 then do { rd_reject; State_Monad.return None }
     else State_Monad.return (if id_valid x_id \<and> id_valid x_source \<and> id_valid x_destination then Some \<lparr>de_id = x_id, de_generation = x_generation, de_source = x_source,
        de_destination = x_destination, de_kind = x_kind, de_provenance = x_provenance,
        de_freshness = x_freshness, de_integrity = x_integrity,
        de_confidence_permille = x_confidence_permille, de_conditional = x_conditional,
        de_observed_sequence = x_observed_sequence,
        de_evidence_source = x_evidence_source\<rparr> else None) }"

definition enc_dependency :: "DependencyEdge \<Rightarrow> u8 list" where
  "enc_dependency e =
     enc_id (de_id e) @
     enc_id (de_generation e) @
     enc_id (de_source e) @
     enc_id (de_destination e) @
     enc_enum DependencyKind_values (de_kind e) @
     enc_enum EvidenceProvenance_values (de_provenance e) @
     enc_enum EvidenceFreshness_values (de_freshness e) @
     enc_enum IntegrityStatus_values (de_integrity e) @
     le_u16 (de_confidence_permille e) @
     enc_bool (de_conditional e) @
     enc_id (de_observed_sequence e) @
     enc_str (de_evidence_source e) @
     []"

definition accepts_dependency :: "DependencyEdge \<Rightarrow> bool" where
  "accepts_dependency e \<longleftrightarrow> str_good (de_evidence_source e)"

definition canon_dependency :: "DependencyEdge \<Rightarrow> bool" where
  "canon_dependency e \<longleftrightarrow> \<not> (de_confidence_permille e > 1000) \<and>
     (id_valid (de_id e) \<and> id_valid (de_source e) \<and> id_valid (de_destination e))"

interpretation rc_dependency: record_codec write_dependency read_dependency enc_dependency accepts_dependency canon_dependency
proof
  fix x :: DependencyEdge
  show "emits (write_dependency x) (enc_dependency x) (accepts_dependency x)"
    unfolding write_dependency_def [abs_def] enc_dependency_def
    by (rule emits_weaken, (rule emits_intros)+)
      (simp add: accepts_dependency_def)
next
  fix x :: DependencyEdge
  assume "accepts_dependency x" and "canon_dependency x"
  then show "reads read_dependency (enc_dependency x) (Some x)"
    by (cases x) (simp add: reads_def read_dependency_def enc_dependency_def accepts_dependency_def canon_dependency_def
        field_reads
        enum_table.reads_enum [OF en_DependencyKind.enum_table_axioms, THEN readsD]
        enum_table.reads_enum [OF en_EvidenceFreshness.enum_table_axioms, THEN readsD]
        enum_table.reads_enum [OF en_EvidenceProvenance.enum_table_axioms, THEN readsD]
        enum_table.reads_enum [OF en_IntegrityStatus.enum_table_axioms, THEN readsD]
        str_reads ids_reads)
qed

section \<open>Faults and workers\<close>

definition write_fault_evidence :: "FaultEvidence \<Rightarrow> ByteWriter \<Rightarrow> ByteWriter" where
  "write_fault_evidence e = writes [
     wr_id (fe_id e),
     wr_id (fe_generation e),
     wr_enum FaultKind_values (fe_kind e),
     wr_id (fe_subject e),
     wr_id (fe_subject_generation e),
     wr_enum ReporterKind_values (fe_reporter_kind e),
     wr_id (fe_reporter_worker e),
     wr_id (fe_reporter_boot e),
     wr_id (fe_epoch e),
     wr_enum EvidenceProvenance_values (fe_provenance e),
     wr_id (fe_observation_sequence e),
     wr_u64 (fe_publication_time_ms e),
     wr_enum EvidenceFreshness_values (fe_freshness e),
     wr_enum IntegrityStatus_values (fe_integrity e),
     wr_u16 (fe_confidence_permille e),
     wr_str (fe_details e),
     wr_raw (fe_digest e)]"

definition read_fault_evidence :: "FaultEvidence option reader" where
  "read_fault_evidence = do {
     x_id \<leftarrow> rd_id;
     x_generation \<leftarrow> rd_id;
     x_kind \<leftarrow> rd_enum_checked FaultKind_values;
     x_subject \<leftarrow> rd_id;
     x_subject_generation \<leftarrow> rd_id;
     x_reporter_kind \<leftarrow> rd_enum_checked ReporterKind_values;
     x_reporter_worker \<leftarrow> rd_id;
     x_reporter_boot \<leftarrow> rd_id;
     x_epoch \<leftarrow> rd_id;
     x_provenance \<leftarrow> rd_enum_checked EvidenceProvenance_values;
     x_observation_sequence \<leftarrow> rd_id;
     x_publication_time_ms \<leftarrow> rd_u64;
     x_freshness \<leftarrow> rd_enum_checked EvidenceFreshness_values;
     x_integrity \<leftarrow> rd_enum_checked IntegrityStatus_values;
     x_confidence_permille \<leftarrow> rd_u16;
     x_details \<leftarrow> rd_str;
     x_digest \<leftarrow> rd_raw 32;
     ok \<leftarrow> rd_ok;
     if \<not> ok then State_Monad.return None
     else if x_confidence_permille > 1000 then do { rd_reject; State_Monad.return None }
     else State_Monad.return (if id_valid x_id then Some \<lparr>fe_id = x_id, fe_generation = x_generation, fe_kind = x_kind,
        fe_subject = x_subject, fe_subject_generation = x_subject_generation,
        fe_reporter_kind = x_reporter_kind, fe_reporter_worker = x_reporter_worker,
        fe_reporter_boot = x_reporter_boot, fe_epoch = x_epoch, fe_provenance = x_provenance,
        fe_observation_sequence = x_observation_sequence,
        fe_publication_time_ms = x_publication_time_ms, fe_freshness = x_freshness,
        fe_integrity = x_integrity, fe_confidence_permille = x_confidence_permille,
        fe_details = x_details, fe_digest = x_digest\<rparr> else None) }"

definition enc_fault_evidence :: "FaultEvidence \<Rightarrow> u8 list" where
  "enc_fault_evidence e =
     enc_id (fe_id e) @
     enc_id (fe_generation e) @
     enc_enum FaultKind_values (fe_kind e) @
     enc_id (fe_subject e) @
     enc_id (fe_subject_generation e) @
     enc_enum ReporterKind_values (fe_reporter_kind e) @
     enc_id (fe_reporter_worker e) @
     enc_id (fe_reporter_boot e) @
     enc_id (fe_epoch e) @
     enc_enum EvidenceProvenance_values (fe_provenance e) @
     enc_id (fe_observation_sequence e) @
     le_u64 (fe_publication_time_ms e) @
     enc_enum EvidenceFreshness_values (fe_freshness e) @
     enc_enum IntegrityStatus_values (fe_integrity e) @
     le_u16 (fe_confidence_permille e) @
     enc_str (fe_details e) @
     fe_digest e @
     []"

definition accepts_fault_evidence :: "FaultEvidence \<Rightarrow> bool" where
  "accepts_fault_evidence e \<longleftrightarrow> str_good (fe_details e)"

definition canon_fault_evidence :: "FaultEvidence \<Rightarrow> bool" where
  "canon_fault_evidence e \<longleftrightarrow> length (fe_digest e) = 32 \<and>
     \<not> (fe_confidence_permille e > 1000) \<and>
     (id_valid (fe_id e))"

interpretation rc_fault_evidence: record_codec write_fault_evidence read_fault_evidence enc_fault_evidence accepts_fault_evidence canon_fault_evidence
proof
  fix x :: FaultEvidence
  show "emits (write_fault_evidence x) (enc_fault_evidence x) (accepts_fault_evidence x)"
    unfolding write_fault_evidence_def [abs_def] enc_fault_evidence_def
    by (rule emits_weaken, (rule emits_intros)+)
      (simp add: accepts_fault_evidence_def)
next
  fix x :: FaultEvidence
  assume "accepts_fault_evidence x" and "canon_fault_evidence x"
  then show "reads read_fault_evidence (enc_fault_evidence x) (Some x)"
    by (cases x) (simp add: reads_def read_fault_evidence_def enc_fault_evidence_def accepts_fault_evidence_def canon_fault_evidence_def
        field_reads
        enum_table.reads_enum [OF en_EvidenceFreshness.enum_table_axioms, THEN readsD]
        enum_table.reads_enum [OF en_EvidenceProvenance.enum_table_axioms, THEN readsD]
        enum_table.reads_enum [OF en_FaultKind.enum_table_axioms, THEN readsD]
        enum_table.reads_enum [OF en_IntegrityStatus.enum_table_axioms, THEN readsD]
        enum_table.reads_enum [OF en_ReporterKind.enum_table_axioms, THEN readsD]
        str_reads ids_reads raw_reads)
qed

definition write_fault :: "FaultRecord \<Rightarrow> ByteWriter \<Rightarrow> ByteWriter" where
  "write_fault f = writes [
     write_fault_evidence (fr_evidence f),
     wr_enum FaultState_values (fr_state f),
     wr_enum FaultSeverity_values (fr_severity f),
     wr_id (fr_containment_generation f),
     wr_u64 (fr_first_seen_ms f),
     wr_u64 (fr_last_updated_ms f),
     wr_boolean (fr_actionable f),
     wr_u32 (fr_duplicate_count f),
     wr_id (fr_verification_generation f),
     wr_str (fr_details f)]"

definition read_fault :: "FaultRecord option reader" where
  "read_fault = do {
     r_evidence \<leftarrow> read_fault_evidence;
     (case r_evidence of None \<Rightarrow> State_Monad.return None | Some x_evidence \<Rightarrow> do {
       x_state \<leftarrow> rd_enum_checked FaultState_values;
       x_severity \<leftarrow> rd_enum_checked FaultSeverity_values;
       x_containment_generation \<leftarrow> rd_id;
       x_first_seen_ms \<leftarrow> rd_u64;
       x_last_updated_ms \<leftarrow> rd_u64;
       x_actionable \<leftarrow> rd_bool;
       x_duplicate_count \<leftarrow> rd_u32;
       x_verification_generation \<leftarrow> rd_id;
       x_details \<leftarrow> rd_str;
       ok \<leftarrow> rd_ok;
       if \<not> ok then State_Monad.return None
       else State_Monad.return (Some \<lparr>fr_evidence = x_evidence, fr_state = x_state, fr_severity = x_severity,
          fr_containment_generation = x_containment_generation,
          fr_first_seen_ms = x_first_seen_ms, fr_last_updated_ms = x_last_updated_ms,
          fr_actionable = x_actionable, fr_duplicate_count = x_duplicate_count,
          fr_verification_generation = x_verification_generation, fr_details = x_details\<rparr>) }) }"

definition enc_fault :: "FaultRecord \<Rightarrow> u8 list" where
  "enc_fault f =
     enc_fault_evidence (fr_evidence f) @
     enc_enum FaultState_values (fr_state f) @
     enc_enum FaultSeverity_values (fr_severity f) @
     enc_id (fr_containment_generation f) @
     le_u64 (fr_first_seen_ms f) @
     le_u64 (fr_last_updated_ms f) @
     enc_bool (fr_actionable f) @
     le_u32 (fr_duplicate_count f) @
     enc_id (fr_verification_generation f) @
     enc_str (fr_details f) @
     []"

definition accepts_fault :: "FaultRecord \<Rightarrow> bool" where
  "accepts_fault f \<longleftrightarrow> accepts_fault_evidence (fr_evidence f) \<and> str_good (fr_details f)"

definition canon_fault :: "FaultRecord \<Rightarrow> bool" where
  "canon_fault f \<longleftrightarrow> canon_fault_evidence (fr_evidence f)"

interpretation rc_fault: record_codec write_fault read_fault enc_fault accepts_fault canon_fault
proof
  fix x :: FaultRecord
  show "emits (write_fault x) (enc_fault x) (accepts_fault x)"
    unfolding write_fault_def [abs_def] enc_fault_def
    by (rule emits_weaken, (rule emits_intros rc_fault_evidence.emits_rec)+)
      (simp add: accepts_fault_def)
next
  fix x :: FaultRecord
  assume "accepts_fault x" and "canon_fault x"
  then show "reads read_fault (enc_fault x) (Some x)"
    by (cases x) (simp add: reads_def read_fault_def enc_fault_def accepts_fault_def canon_fault_def
        field_reads
        enum_table.reads_enum [OF en_FaultSeverity.enum_table_axioms, THEN readsD]
        enum_table.reads_enum [OF en_FaultState.enum_table_axioms, THEN readsD]
        str_reads ids_reads rc_fault_evidence.reads_rec [THEN readsD])
qed

definition write_worker :: "WorkerRecord \<Rightarrow> ByteWriter \<Rightarrow> ByteWriter" where
  "write_worker w = writes [
     wr_id (wk_worker (wr_key w)),
     wr_id (wk_boot (wr_key w)),
     wr_id (wr_incarnation w),
     wr_id (wr_registered_epoch w),
     wr_enum WorkerState_values (wr_state w),
     wr_id (wr_last_sequence w),
     wr_enum EvidenceFreshness_values (wr_freshness w),
     wr_ids (wr_live_authority w),
     wr_u64 (wr_registered_at_ms w),
     wr_u64 (wr_last_seen_ms w),
     wr_str (wr_endpoint w),
     wr_str (wr_details w)]"

definition read_worker :: "WorkerRecord option reader" where
  "read_worker = do {
     x_key_worker \<leftarrow> rd_id;
     x_key_boot \<leftarrow> rd_id;
     x_incarnation \<leftarrow> rd_id;
     x_registered_epoch \<leftarrow> rd_id;
     x_state \<leftarrow> rd_enum_checked WorkerState_values;
     x_last_sequence \<leftarrow> rd_id;
     x_freshness \<leftarrow> rd_enum_checked EvidenceFreshness_values;
     x_live_authority \<leftarrow> rd_ids kMaxMembersPerRecord;
     x_registered_at_ms \<leftarrow> rd_u64;
     x_last_seen_ms \<leftarrow> rd_u64;
     x_endpoint \<leftarrow> rd_str;
     x_details \<leftarrow> rd_str;
     ok \<leftarrow> rd_ok;
     if \<not> ok then State_Monad.return None
     else State_Monad.return (if id_valid x_key_worker \<and> id_valid x_key_boot then Some \<lparr>wr_key = WorkerKey x_key_worker x_key_boot, wr_incarnation = x_incarnation,
        wr_registered_epoch = x_registered_epoch, wr_state = x_state,
        wr_last_sequence = x_last_sequence, wr_freshness = x_freshness,
        wr_live_authority = x_live_authority, wr_registered_at_ms = x_registered_at_ms,
        wr_last_seen_ms = x_last_seen_ms, wr_endpoint = x_endpoint,
        wr_details = x_details\<rparr> else None) }"

definition enc_worker :: "WorkerRecord \<Rightarrow> u8 list" where
  "enc_worker w =
     enc_id (wk_worker (wr_key w)) @
     enc_id (wk_boot (wr_key w)) @
     enc_id (wr_incarnation w) @
     enc_id (wr_registered_epoch w) @
     enc_enum WorkerState_values (wr_state w) @
     enc_id (wr_last_sequence w) @
     enc_enum EvidenceFreshness_values (wr_freshness w) @
     enc_many enc_id (wr_live_authority w) @
     le_u64 (wr_registered_at_ms w) @
     le_u64 (wr_last_seen_ms w) @
     enc_str (wr_endpoint w) @
     enc_str (wr_details w) @
     []"

definition accepts_worker :: "WorkerRecord \<Rightarrow> bool" where
  "accepts_worker w \<longleftrightarrow> str_good (wr_endpoint w) \<and> str_good (wr_details w)"

definition canon_worker :: "WorkerRecord \<Rightarrow> bool" where
  "canon_worker w \<longleftrightarrow> id_set_good kMaxMembersPerRecord (wr_live_authority w) \<and>
     (id_valid (wk_worker (wr_key w)) \<and> id_valid (wk_boot (wr_key w)))"

interpretation rc_worker: record_codec write_worker read_worker enc_worker accepts_worker canon_worker
proof
  fix x :: WorkerRecord
  show "emits (write_worker x) (enc_worker x) (accepts_worker x)"
    unfolding write_worker_def [abs_def] enc_worker_def
    by (rule emits_weaken, (rule emits_intros)+)
      (simp add: accepts_worker_def)
next
  fix x :: WorkerRecord
  assume "accepts_worker x" and "canon_worker x"
  then show "reads read_worker (enc_worker x) (Some x)"
    by (cases x) (simp add: reads_def read_worker_def enc_worker_def accepts_worker_def canon_worker_def
        field_reads
        enum_table.reads_enum [OF en_EvidenceFreshness.enum_table_axioms, THEN readsD]
        enum_table.reads_enum [OF en_WorkerState.enum_table_axioms, THEN readsD]
        str_reads ids_reads)
qed

section \<open>Policy\<close>

definition write_fault_rule :: "FaultRule \<Rightarrow> ByteWriter \<Rightarrow> ByteWriter" where
  "write_fault_rule r = writes [
     wr_enum FaultKind_values (rule_kind r),
     wr_enum ContainmentActionKind_values (rule_preferred_outcome r),
     wr_enum ContainmentActionKind_values (rule_escalation_outcome r),
     wr_enum FaultSeverity_values (rule_severity r),
     wr_boolean (rule_mandatory_containment r),
     wr_enum UncertaintyBehavior_values (rule_uncertainty r),
     wr_enum PropagationMode_values (rule_propagation r),
     wr_u16 (rule_likely_confidence_permille r),
     wr_u32 (rule_max_tolerated_exposure r),
     wr_boolean (rule_permit_degraded_mode r),
     wr_boolean (rule_require_fresh_evidence r),
     wr_u64 (rule_max_evidence_age_ms r),
     wr_boolean (rule_allow_release r),
     wr_u32 (rule_min_redundancy r),
     wr_u32 (rule_action_budget r),
     wr_boolean (rule_isolate_failure_domain r),
     wr_boolean (rule_isolate_isolation_domain r),
     wr_boolean (rule_co_isolate_containment_domain r),
     wr_enum RankingPreference_values (rule_ranking r),
     wr_enum_set DependencyKind_values (rule_propagating_kinds r),
     wr_enum_set DependencyKind_values (rule_non_propagating_kinds r),
     wr_boolean (rule_fail_closed_on_unknown_evidence r),
     wr_boolean (rule_allow_protected_resource_fencing r)]"

definition read_fault_rule :: "FaultRule option reader" where
  "read_fault_rule = do {
     x_kind \<leftarrow> rd_enum_checked FaultKind_values;
     x_preferred_outcome \<leftarrow> rd_enum_checked ContainmentActionKind_values;
     x_escalation_outcome \<leftarrow> rd_enum_checked ContainmentActionKind_values;
     x_severity \<leftarrow> rd_enum_checked FaultSeverity_values;
     x_mandatory_containment \<leftarrow> rd_bool;
     x_uncertainty \<leftarrow> rd_enum_checked UncertaintyBehavior_values;
     x_propagation \<leftarrow> rd_enum_checked PropagationMode_values;
     x_likely_confidence_permille \<leftarrow> rd_u16;
     x_max_tolerated_exposure \<leftarrow> rd_u32;
     x_permit_degraded_mode \<leftarrow> rd_bool;
     x_require_fresh_evidence \<leftarrow> rd_bool;
     x_max_evidence_age_ms \<leftarrow> rd_u64;
     x_allow_release \<leftarrow> rd_bool;
     x_min_redundancy \<leftarrow> rd_u32;
     x_action_budget \<leftarrow> rd_u32;
     x_isolate_failure_domain \<leftarrow> rd_bool;
     x_isolate_isolation_domain \<leftarrow> rd_bool;
     x_co_isolate_containment_domain \<leftarrow> rd_bool;
     x_ranking \<leftarrow> rd_enum_checked RankingPreference_values;
     x_propagating_kinds \<leftarrow> rd_enum_set DependencyKind_values (of_nat (length DependencyKind_values));
     x_non_propagating_kinds \<leftarrow> rd_enum_set DependencyKind_values (of_nat (length DependencyKind_values));
     x_fail_closed_on_unknown_evidence \<leftarrow> rd_bool;
     x_allow_protected_resource_fencing \<leftarrow> rd_bool;
     ok \<leftarrow> rd_ok;
     if \<not> ok then State_Monad.return None
     else if x_likely_confidence_permille > 1000 \<or> x_min_redundancy = 0 \<or> x_action_budget = 0 then do { rd_reject; State_Monad.return None }
     else State_Monad.return (Some \<lparr>rule_kind = x_kind, rule_preferred_outcome = x_preferred_outcome,
        rule_escalation_outcome = x_escalation_outcome, rule_severity = x_severity,
        rule_mandatory_containment = x_mandatory_containment, rule_uncertainty = x_uncertainty,
        rule_propagation = x_propagation,
        rule_likely_confidence_permille = x_likely_confidence_permille,
        rule_max_tolerated_exposure = x_max_tolerated_exposure,
        rule_permit_degraded_mode = x_permit_degraded_mode,
        rule_require_fresh_evidence = x_require_fresh_evidence,
        rule_max_evidence_age_ms = x_max_evidence_age_ms, rule_allow_release = x_allow_release,
        rule_min_redundancy = x_min_redundancy, rule_action_budget = x_action_budget,
        rule_isolate_failure_domain = x_isolate_failure_domain,
        rule_isolate_isolation_domain = x_isolate_isolation_domain,
        rule_co_isolate_containment_domain = x_co_isolate_containment_domain,
        rule_ranking = x_ranking, rule_propagating_kinds = x_propagating_kinds,
        rule_non_propagating_kinds = x_non_propagating_kinds,
        rule_fail_closed_on_unknown_evidence = x_fail_closed_on_unknown_evidence,
        rule_allow_protected_resource_fencing = x_allow_protected_resource_fencing\<rparr>) }"

definition enc_fault_rule :: "FaultRule \<Rightarrow> u8 list" where
  "enc_fault_rule r =
     enc_enum FaultKind_values (rule_kind r) @
     enc_enum ContainmentActionKind_values (rule_preferred_outcome r) @
     enc_enum ContainmentActionKind_values (rule_escalation_outcome r) @
     enc_enum FaultSeverity_values (rule_severity r) @
     enc_bool (rule_mandatory_containment r) @
     enc_enum UncertaintyBehavior_values (rule_uncertainty r) @
     enc_enum PropagationMode_values (rule_propagation r) @
     le_u16 (rule_likely_confidence_permille r) @
     le_u32 (rule_max_tolerated_exposure r) @
     enc_bool (rule_permit_degraded_mode r) @
     enc_bool (rule_require_fresh_evidence r) @
     le_u64 (rule_max_evidence_age_ms r) @
     enc_bool (rule_allow_release r) @
     le_u32 (rule_min_redundancy r) @
     le_u32 (rule_action_budget r) @
     enc_bool (rule_isolate_failure_domain r) @
     enc_bool (rule_isolate_isolation_domain r) @
     enc_bool (rule_co_isolate_containment_domain r) @
     enc_enum RankingPreference_values (rule_ranking r) @
     enc_many (enc_enum DependencyKind_values) (rule_propagating_kinds r) @
     enc_many (enc_enum DependencyKind_values) (rule_non_propagating_kinds r) @
     enc_bool (rule_fail_closed_on_unknown_evidence r) @
     enc_bool (rule_allow_protected_resource_fencing r) @
     []"

definition accepts_fault_rule :: "FaultRule \<Rightarrow> bool" where
  "accepts_fault_rule r \<longleftrightarrow> True"

definition canon_fault_rule :: "FaultRule \<Rightarrow> bool" where
  "canon_fault_rule r \<longleftrightarrow> enum_set_good DependencyKind_values (rule_propagating_kinds r) \<and>
     enum_set_good DependencyKind_values (rule_non_propagating_kinds r) \<and>
     \<not> (rule_likely_confidence_permille r > 1000 \<or> rule_min_redundancy r = 0 \<or> rule_action_budget r = 0)"

interpretation rc_fault_rule: record_codec write_fault_rule read_fault_rule enc_fault_rule accepts_fault_rule canon_fault_rule
proof
  fix x :: FaultRule
  show "emits (write_fault_rule x) (enc_fault_rule x) (accepts_fault_rule x)"
    unfolding write_fault_rule_def [abs_def] enc_fault_rule_def
    by (rule emits_weaken, (rule emits_intros)+)
      (simp add: accepts_fault_rule_def)
next
  fix x :: FaultRule
  assume "accepts_fault_rule x" and "canon_fault_rule x"
  then show "reads read_fault_rule (enc_fault_rule x) (Some x)"
    by (cases x) (simp add: reads_def read_fault_rule_def enc_fault_rule_def accepts_fault_rule_def canon_fault_rule_def
        field_reads
        enum_table.reads_enum [OF en_ContainmentActionKind.enum_table_axioms, THEN readsD]
        enum_table.reads_enum [OF en_FaultKind.enum_table_axioms, THEN readsD]
        enum_table.reads_enum [OF en_FaultSeverity.enum_table_axioms, THEN readsD]
        enum_table.reads_enum [OF en_PropagationMode.enum_table_axioms, THEN readsD]
        enum_table.reads_enum [OF en_RankingPreference.enum_table_axioms, THEN readsD]
        enum_table.reads_enum [OF en_UncertaintyBehavior.enum_table_axioms, THEN readsD]
        enum_table.reads_enum_set_all [OF en_DependencyKind.enum_table_axioms, THEN readsD]
        str_reads ids_reads)
qed

end
