(* ===== verification/Fcf_Codec_State.thy ===== *)
theory Fcf_Codec_State
  imports Fcf_Codec
begin

text \<open>
  Codecs of actions, containments, verifications, degraded modes, the policy and the journal events
  (\<open>src/state_codec.cpp\<close>), each interpreted as a \<open>record_codec\<close>.
\<close>

section \<open>Actions\<close>

text \<open>One entry of the envelope's required generations.\<close>

definition write_requirement :: "ResourceId \<times> ResourceGeneration \<Rightarrow> ByteWriter \<Rightarrow> ByteWriter" where
  "write_requirement p = writes [wr_id (fst p), wr_id (snd p)]"

definition read_requirement :: "(ResourceId \<times> ResourceGeneration) option reader" where
  "read_requirement = do {
     x_resource \<leftarrow> rd_id;
     x_generation \<leftarrow> rd_id;
     ok \<leftarrow> rd_ok;
     State_Monad.return (if \<not> ok \<or> \<not> (id_valid x_resource) then None else Some (x_resource, x_generation)) }"

definition enc_requirement :: "ResourceId \<times> ResourceGeneration \<Rightarrow> u8 list" where
  "enc_requirement p = enc_id (fst p) @ enc_id (snd p) @ []"

definition accepts_requirement :: "ResourceId \<times> ResourceGeneration \<Rightarrow> bool" where
  "accepts_requirement p \<longleftrightarrow> True"

definition canon_requirement :: "ResourceId \<times> ResourceGeneration \<Rightarrow> bool" where
  "canon_requirement p \<longleftrightarrow> id_valid (fst p)"

interpretation rc_requirement: record_codec write_requirement read_requirement enc_requirement accepts_requirement canon_requirement
proof
  fix x :: "ResourceId \<times> ResourceGeneration"
  show "emits (write_requirement x) (enc_requirement x) (accepts_requirement x)"
    unfolding write_requirement_def [abs_def] enc_requirement_def
    by (rule emits_weaken, (rule emits_intros)+) (simp add: accepts_requirement_def)
next
  fix x :: "ResourceId \<times> ResourceGeneration"
  assume "accepts_requirement x" and "canon_requirement x"
  then show "reads read_requirement (enc_requirement x) (Some x)"
    by (cases x) (simp add: reads_def read_requirement_def enc_requirement_def accepts_requirement_def canon_requirement_def
        field_reads str_reads)
qed

definition write_authority_envelope :: "AuthorityEnvelope \<Rightarrow> ByteWriter \<Rightarrow> ByteWriter" where
  "write_authority_envelope e = writes [
     wr_id (env_epoch e),
     wr_id (env_fault e),
     wr_id (env_fault_generation e),
     wr_id (env_containment_generation e),
     wr_id (env_policy_generation e),
     wr_id (env_topology_generation e),
     wr_id (env_action e),
     wr_id (env_action_generation e),
     wr_id (env_worker e),
     wr_id (env_worker_boot e),
     wr_id (env_target e),
     wr_id (env_target_generation e),
     wr_id (env_required_evidence_sequence e),
     wr_id (env_reservation e),
     wr_id (env_lease e),
     wr_many write_requirement (env_required_resource_generations e),
     wr_u64 (env_issued_at_ms e)]"

definition read_authority_envelope :: "AuthorityEnvelope option reader" where
  "read_authority_envelope = do {
     x_epoch \<leftarrow> rd_id;
     x_fault \<leftarrow> rd_id;
     x_fault_generation \<leftarrow> rd_id;
     x_containment_generation \<leftarrow> rd_id;
     x_policy_generation \<leftarrow> rd_id;
     x_topology_generation \<leftarrow> rd_id;
     x_action \<leftarrow> rd_id;
     x_action_generation \<leftarrow> rd_id;
     x_worker \<leftarrow> rd_id;
     x_worker_boot \<leftarrow> rd_id;
     x_target \<leftarrow> rd_id;
     x_target_generation \<leftarrow> rd_id;
     x_required_evidence_sequence \<leftarrow> rd_id;
     x_reservation \<leftarrow> rd_id;
     x_lease \<leftarrow> rd_id;
     n_required_resource_generations \<leftarrow> rd_count kMaxEnvelopeTargets;
     r_required_resource_generations \<leftarrow> read_loop (unat n_required_resource_generations) read_requirement (\<lambda>(k, v) c. if om_find c k \<noteq> None then None else Some (om_emplace k v c)) [];
     (case r_required_resource_generations of None \<Rightarrow> State_Monad.return None | Some x_required_resource_generations \<Rightarrow> do {
       x_issued_at_ms \<leftarrow> rd_u64;
       ok \<leftarrow> rd_ok;
       if \<not> ok then State_Monad.return None
       else State_Monad.return (Some \<lparr>env_epoch = x_epoch, env_fault = x_fault,
          env_fault_generation = x_fault_generation,
          env_containment_generation = x_containment_generation,
          env_policy_generation = x_policy_generation,
          env_topology_generation = x_topology_generation, env_action = x_action,
          env_action_generation = x_action_generation, env_worker = x_worker,
          env_worker_boot = x_worker_boot, env_target = x_target,
          env_target_generation = x_target_generation,
          env_required_evidence_sequence = x_required_evidence_sequence,
          env_reservation = x_reservation, env_lease = x_lease,
          env_required_resource_generations = x_required_resource_generations,
          env_issued_at_ms = x_issued_at_ms\<rparr>) }) }"

definition enc_authority_envelope :: "AuthorityEnvelope \<Rightarrow> u8 list" where
  "enc_authority_envelope e =
     enc_id (env_epoch e) @
     enc_id (env_fault e) @
     enc_id (env_fault_generation e) @
     enc_id (env_containment_generation e) @
     enc_id (env_policy_generation e) @
     enc_id (env_topology_generation e) @
     enc_id (env_action e) @
     enc_id (env_action_generation e) @
     enc_id (env_worker e) @
     enc_id (env_worker_boot e) @
     enc_id (env_target e) @
     enc_id (env_target_generation e) @
     enc_id (env_required_evidence_sequence e) @
     enc_id (env_reservation e) @
     enc_id (env_lease e) @
     enc_many enc_requirement (env_required_resource_generations e) @
     le_u64 (env_issued_at_ms e) @
     []"

definition accepts_authority_envelope :: "AuthorityEnvelope \<Rightarrow> bool" where
  "accepts_authority_envelope e \<longleftrightarrow> list_all accepts_requirement (env_required_resource_generations e)"

definition canon_authority_envelope :: "AuthorityEnvelope \<Rightarrow> bool" where
  "canon_authority_envelope e \<longleftrightarrow> length (env_required_resource_generations e) \<le> unat kMaxEnvelopeTargets \<and>
     list_all canon_requirement (env_required_resource_generations e) \<and>
     om_wf (env_required_resource_generations e)"

interpretation rc_authority_envelope: record_codec write_authority_envelope read_authority_envelope enc_authority_envelope accepts_authority_envelope canon_authority_envelope
proof
  fix x :: AuthorityEnvelope
  show "emits (write_authority_envelope x) (enc_authority_envelope x) (accepts_authority_envelope x)"
    unfolding write_authority_envelope_def [abs_def] enc_authority_envelope_def
    by (rule emits_weaken, (rule emits_intros emits_many [OF rc_requirement.emits_rec])+)
      (simp add: accepts_authority_envelope_def)
next
  fix x :: AuthorityEnvelope
  assume "accepts_authority_envelope x" and "canon_authority_envelope x"
  then show "reads read_authority_envelope (enc_authority_envelope x) (Some x)"
    by (cases x) (simp add: reads_def read_authority_envelope_def enc_authority_envelope_def accepts_authority_envelope_def canon_authority_envelope_def
        field_reads
        str_reads ids_reads count_reads rc_requirement.reads_many [where ceiling = kMaxEnvelopeTargets] put_all_pairs [of "[]", simplified])
qed

definition write_action :: "ContainmentAction \<Rightarrow> ByteWriter \<Rightarrow> ByteWriter" where
  "write_action a = writes [
     wr_id (act_id a),
     wr_id (act_generation a),
     wr_enum ContainmentActionKind_values (act_kind a),
     wr_id (act_target a),
     wr_id (act_target_generation a),
     wr_id (act_domain a),
     wr_id (act_isolation_domain a),
     wr_enum ContainmentMechanism_values (act_mechanism a),
     write_authority_envelope (act_envelope a),
     wr_enum ActionStatus_values (act_status a),
     wr_enum ErrorCode_values (act_rejection_code a),
     wr_str (act_rejection_detail a),
     wr_u64 (act_created_at_ms a),
     wr_u64 (act_dispatched_at_ms a),
     wr_u64 (act_acknowledged_at_ms a),
     wr_u64 (act_completed_at_ms a),
     wr_id (act_verification_generation a),
     wr_str (act_executor_token a),
     wr_boolean (act_destructive a)]"

definition read_action :: "ContainmentAction option reader" where
  "read_action = do {
     x_id \<leftarrow> rd_id;
     x_generation \<leftarrow> rd_id;
     x_kind \<leftarrow> rd_enum_checked ContainmentActionKind_values;
     x_target \<leftarrow> rd_id;
     x_target_generation \<leftarrow> rd_id;
     x_domain \<leftarrow> rd_id;
     x_isolation_domain \<leftarrow> rd_id;
     x_mechanism \<leftarrow> rd_enum_checked ContainmentMechanism_values;
     r_envelope \<leftarrow> read_authority_envelope;
     (case r_envelope of None \<Rightarrow> State_Monad.return None | Some x_envelope \<Rightarrow> do {
       x_status \<leftarrow> rd_enum_checked ActionStatus_values;
       x_rejection_code \<leftarrow> rd_enum_checked ErrorCode_values;
       x_rejection_detail \<leftarrow> rd_str;
       x_created_at_ms \<leftarrow> rd_u64;
       x_dispatched_at_ms \<leftarrow> rd_u64;
       x_acknowledged_at_ms \<leftarrow> rd_u64;
       x_completed_at_ms \<leftarrow> rd_u64;
       x_verification_generation \<leftarrow> rd_id;
       x_executor_token \<leftarrow> rd_str;
       x_destructive \<leftarrow> rd_bool;
       ok \<leftarrow> rd_ok;
       if \<not> ok then State_Monad.return None
       else State_Monad.return (if id_valid x_id then Some \<lparr>act_id = x_id, act_generation = x_generation, act_kind = x_kind,
          act_target = x_target, act_target_generation = x_target_generation,
          act_domain = x_domain, act_isolation_domain = x_isolation_domain,
          act_mechanism = x_mechanism, act_envelope = x_envelope, act_status = x_status,
          act_rejection_code = x_rejection_code, act_rejection_detail = x_rejection_detail,
          act_created_at_ms = x_created_at_ms, act_dispatched_at_ms = x_dispatched_at_ms,
          act_acknowledged_at_ms = x_acknowledged_at_ms,
          act_completed_at_ms = x_completed_at_ms,
          act_verification_generation = x_verification_generation,
          act_executor_token = x_executor_token, act_destructive = x_destructive\<rparr> else None) }) }"

definition enc_action :: "ContainmentAction \<Rightarrow> u8 list" where
  "enc_action a =
     enc_id (act_id a) @
     enc_id (act_generation a) @
     enc_enum ContainmentActionKind_values (act_kind a) @
     enc_id (act_target a) @
     enc_id (act_target_generation a) @
     enc_id (act_domain a) @
     enc_id (act_isolation_domain a) @
     enc_enum ContainmentMechanism_values (act_mechanism a) @
     enc_authority_envelope (act_envelope a) @
     enc_enum ActionStatus_values (act_status a) @
     enc_enum ErrorCode_values (act_rejection_code a) @
     enc_str (act_rejection_detail a) @
     le_u64 (act_created_at_ms a) @
     le_u64 (act_dispatched_at_ms a) @
     le_u64 (act_acknowledged_at_ms a) @
     le_u64 (act_completed_at_ms a) @
     enc_id (act_verification_generation a) @
     enc_str (act_executor_token a) @
     enc_bool (act_destructive a) @
     []"

definition accepts_action :: "ContainmentAction \<Rightarrow> bool" where
  "accepts_action a \<longleftrightarrow> accepts_authority_envelope (act_envelope a) \<and> str_good (act_rejection_detail a) \<and> str_good (act_executor_token a)"

definition canon_action :: "ContainmentAction \<Rightarrow> bool" where
  "canon_action a \<longleftrightarrow> canon_authority_envelope (act_envelope a) \<and>
     (id_valid (act_id a))"

interpretation rc_action: record_codec write_action read_action enc_action accepts_action canon_action
proof
  fix x :: ContainmentAction
  show "emits (write_action x) (enc_action x) (accepts_action x)"
    unfolding write_action_def [abs_def] enc_action_def
    by (rule emits_weaken, (rule emits_intros rc_authority_envelope.emits_rec)+)
      (simp add: accepts_action_def)
next
  fix x :: ContainmentAction
  assume "accepts_action x" and "canon_action x"
  then show "reads read_action (enc_action x) (Some x)"
    by (cases x) (simp add: reads_def read_action_def enc_action_def accepts_action_def canon_action_def
        field_reads
        enum_table.reads_enum [OF en_ActionStatus.enum_table_axioms, THEN readsD]
        enum_table.reads_enum [OF en_ContainmentActionKind.enum_table_axioms, THEN readsD]
        enum_table.reads_enum [OF en_ContainmentMechanism.enum_table_axioms, THEN readsD]
        enum_table.reads_enum [OF en_ErrorCode.enum_table_axioms, THEN readsD]
        str_reads ids_reads rc_authority_envelope.reads_rec [THEN readsD])
qed

section \<open>Containments, verification and degraded mode\<close>

definition write_propagation_hop :: "PropagationHop \<Rightarrow> ByteWriter \<Rightarrow> ByteWriter" where
  "write_propagation_hop h = writes [
     wr_id (hop_from h),
     wr_id (hop_to h),
     wr_id (hop_dependency h),
     wr_enum DependencyKind_values (hop_kind h),
     wr_enum PropagationOutcome_values (hop_outcome h),
     wr_enum InclusionReason_values (hop_reason h)]"

definition read_propagation_hop :: "PropagationHop option reader" where
  "read_propagation_hop = do {
     x_from \<leftarrow> rd_id;
     x_to \<leftarrow> rd_id;
     x_dependency \<leftarrow> rd_id;
     x_kind \<leftarrow> rd_enum_checked DependencyKind_values;
     x_outcome \<leftarrow> rd_enum_checked PropagationOutcome_values;
     x_reason \<leftarrow> rd_enum_checked InclusionReason_values;
     ok \<leftarrow> rd_ok;
     if \<not> ok then State_Monad.return None
     else State_Monad.return (Some \<lparr>hop_from = x_from, hop_to = x_to, hop_dependency = x_dependency,
        hop_kind = x_kind, hop_outcome = x_outcome, hop_reason = x_reason\<rparr>) }"

definition enc_propagation_hop :: "PropagationHop \<Rightarrow> u8 list" where
  "enc_propagation_hop h =
     enc_id (hop_from h) @
     enc_id (hop_to h) @
     enc_id (hop_dependency h) @
     enc_enum DependencyKind_values (hop_kind h) @
     enc_enum PropagationOutcome_values (hop_outcome h) @
     enc_enum InclusionReason_values (hop_reason h) @
     []"

definition accepts_propagation_hop :: "PropagationHop \<Rightarrow> bool" where
  "accepts_propagation_hop h \<longleftrightarrow> True"

definition canon_propagation_hop :: "PropagationHop \<Rightarrow> bool" where
  "canon_propagation_hop h \<longleftrightarrow> True"

interpretation rc_propagation_hop: record_codec write_propagation_hop read_propagation_hop enc_propagation_hop accepts_propagation_hop canon_propagation_hop
proof
  fix x :: PropagationHop
  show "emits (write_propagation_hop x) (enc_propagation_hop x) (accepts_propagation_hop x)"
    unfolding write_propagation_hop_def [abs_def] enc_propagation_hop_def
    by (rule emits_weaken, (rule emits_intros)+)
      (simp add: accepts_propagation_hop_def)
next
  fix x :: PropagationHop
  assume "accepts_propagation_hop x" and "canon_propagation_hop x"
  then show "reads read_propagation_hop (enc_propagation_hop x) (Some x)"
    by (cases x) (simp add: reads_def read_propagation_hop_def enc_propagation_hop_def accepts_propagation_hop_def canon_propagation_hop_def
        field_reads
        enum_table.reads_enum [OF en_DependencyKind.enum_table_axioms, THEN readsD]
        enum_table.reads_enum [OF en_InclusionReason.enum_table_axioms, THEN readsD]
        enum_table.reads_enum [OF en_PropagationOutcome.enum_table_axioms, THEN readsD]
        str_reads ids_reads)
qed

definition write_explanation_line :: "ExplanationLine \<Rightarrow> ByteWriter \<Rightarrow> ByteWriter" where
  "write_explanation_line l = writes [wr_str (el_category l), wr_str (el_sort_key l), wr_str (el_text l)]"

definition read_explanation_line :: "ExplanationLine option reader" where
  "read_explanation_line = do {
     x_category \<leftarrow> rd_str;
     x_sort_key \<leftarrow> rd_str;
     x_text \<leftarrow> rd_str;
     ok \<leftarrow> rd_ok;
     State_Monad.return (if \<not> ok then None else Some (ExplanationLine x_category x_sort_key x_text)) }"

definition enc_explanation_line :: "ExplanationLine \<Rightarrow> u8 list" where
  "enc_explanation_line l = enc_str (el_category l) @ enc_str (el_sort_key l) @ enc_str (el_text l) @ []"

definition accepts_explanation_line :: "ExplanationLine \<Rightarrow> bool" where
  "accepts_explanation_line l \<longleftrightarrow> str_good (el_category l) \<and> str_good (el_sort_key l) \<and> str_good (el_text l)"

definition canon_explanation_line :: "ExplanationLine \<Rightarrow> bool" where
  "canon_explanation_line l \<longleftrightarrow> True"

interpretation rc_explanation_line: record_codec write_explanation_line read_explanation_line enc_explanation_line accepts_explanation_line canon_explanation_line
proof
  fix x :: "ExplanationLine"
  show "emits (write_explanation_line x) (enc_explanation_line x) (accepts_explanation_line x)"
    unfolding write_explanation_line_def [abs_def] enc_explanation_line_def
    by (rule emits_weaken, (rule emits_intros)+) (simp add: accepts_explanation_line_def)
next
  fix x :: "ExplanationLine"
  assume "accepts_explanation_line x" and "canon_explanation_line x"
  then show "reads read_explanation_line (enc_explanation_line x) (Some x)"
    by (cases x) (simp add: reads_def read_explanation_line_def enc_explanation_line_def accepts_explanation_line_def canon_explanation_line_def
        field_reads str_reads)
qed

definition write_explanation :: "ContainmentExplanation \<Rightarrow> ByteWriter \<Rightarrow> ByteWriter" where
  "write_explanation = wr_many write_explanation_line"

definition read_explanation :: "ContainmentExplanation option reader" where
  "read_explanation = do {
     n \<leftarrow> rd_count kMaxCollectionCount;
     r \<leftarrow> read_loop (unat n) read_explanation_line push_back [];
     (case r of
        None \<Rightarrow> State_Monad.return None
      | Some ls \<Rightarrow> do {
          ok \<leftarrow> rd_ok;
          State_Monad.return (if ok then Some ls else None) }) }"

definition enc_explanation :: "ContainmentExplanation \<Rightarrow> u8 list" where
  "enc_explanation = enc_many enc_explanation_line"

definition accepts_explanation :: "ContainmentExplanation \<Rightarrow> bool" where
  "accepts_explanation ls \<longleftrightarrow> list_all accepts_explanation_line ls"

definition canon_explanation :: "ContainmentExplanation \<Rightarrow> bool" where
  "canon_explanation ls \<longleftrightarrow>
     list_all canon_explanation_line ls \<and> length ls \<le> unat kMaxCollectionCount"

interpretation rc_explanation: record_codec write_explanation read_explanation enc_explanation
  accepts_explanation canon_explanation
proof
  fix x :: ContainmentExplanation
  show "emits (write_explanation x) (enc_explanation x) (accepts_explanation x)"
    unfolding write_explanation_def enc_explanation_def accepts_explanation_def
    by (rule emits_many [OF rc_explanation_line.emits_rec])
next
  fix x :: ContainmentExplanation
  assume "accepts_explanation x" and "canon_explanation x"
  then show "reads read_explanation (enc_explanation x) (Some x)"
    by (simp add: reads_def read_explanation_def enc_explanation_def accepts_explanation_def
        canon_explanation_def field_reads count_reads rc_explanation_line.reads_list)
qed

definition write_finding :: "VerificationFinding \<Rightarrow> ByteWriter \<Rightarrow> ByteWriter" where
  "write_finding f = writes [wr_str (vf_check f), wr_boolean (vf_passed f), wr_str (vf_detail f)]"

definition read_finding :: "VerificationFinding option reader" where
  "read_finding = do {
     x_check \<leftarrow> rd_str;
     x_passed \<leftarrow> rd_bool;
     x_detail \<leftarrow> rd_str;
     ok \<leftarrow> rd_ok;
     State_Monad.return (if \<not> ok then None else Some \<lparr>vf_check = x_check, vf_passed = x_passed, vf_detail = x_detail\<rparr>) }"

definition enc_finding :: "VerificationFinding \<Rightarrow> u8 list" where
  "enc_finding f = enc_str (vf_check f) @ enc_bool (vf_passed f) @ enc_str (vf_detail f) @ []"

definition accepts_finding :: "VerificationFinding \<Rightarrow> bool" where
  "accepts_finding f \<longleftrightarrow> str_good (vf_check f) \<and> str_good (vf_detail f)"

definition canon_finding :: "VerificationFinding \<Rightarrow> bool" where
  "canon_finding f \<longleftrightarrow> True"

interpretation rc_finding: record_codec write_finding read_finding enc_finding accepts_finding canon_finding
proof
  fix x :: "VerificationFinding"
  show "emits (write_finding x) (enc_finding x) (accepts_finding x)"
    unfolding write_finding_def [abs_def] enc_finding_def
    by (rule emits_weaken, (rule emits_intros)+) (simp add: accepts_finding_def)
next
  fix x :: "VerificationFinding"
  assume "accepts_finding x" and "canon_finding x"
  then show "reads read_finding (enc_finding x) (Some x)"
    by (cases x) (simp add: reads_def read_finding_def enc_finding_def accepts_finding_def canon_finding_def
        field_reads str_reads)
qed

definition write_verification :: "ContainmentVerification \<Rightarrow> ByteWriter \<Rightarrow> ByteWriter" where
  "write_verification v = writes [
     wr_id (cv_generation v),
     wr_id (cv_containment_generation v),
     wr_id (cv_epoch v),
     wr_id (cv_policy_generation v),
     wr_id (cv_topology_generation v),
     wr_enum VerificationOutcome_values (cv_outcome v),
     wr_many write_finding (cv_findings v),
     wr_ids (cv_proven_contained v),
     wr_ids (cv_unproven v),
     wr_boolean (cv_blast_radius_increased v),
     wr_boolean (cv_secondary_failure v),
     wr_boolean (cv_propagation_blocked v),
     wr_boolean (cv_propagation_continued v),
     wr_boolean (cv_degraded_mode_valid v),
     wr_id (cv_evidence_sequence v),
     wr_u64 (cv_verified_at_ms v),
     wr_str (cv_summary v)]"

definition read_verification :: "ContainmentVerification option reader" where
  "read_verification = do {
     x_generation \<leftarrow> rd_id;
     x_containment_generation \<leftarrow> rd_id;
     x_epoch \<leftarrow> rd_id;
     x_policy_generation \<leftarrow> rd_id;
     x_topology_generation \<leftarrow> rd_id;
     x_outcome \<leftarrow> rd_enum_checked VerificationOutcome_values;
     n_findings \<leftarrow> rd_count kMaxCollectionCount;
     r_findings \<leftarrow> read_loop (unat n_findings) read_finding push_back [];
     (case r_findings of None \<Rightarrow> State_Monad.return None | Some x_findings \<Rightarrow> do {
       x_proven_contained \<leftarrow> rd_ids kMaxCollectionCount;
       x_unproven \<leftarrow> rd_ids kMaxCollectionCount;
       x_blast_radius_increased \<leftarrow> rd_bool;
       x_secondary_failure \<leftarrow> rd_bool;
       x_propagation_blocked \<leftarrow> rd_bool;
       x_propagation_continued \<leftarrow> rd_bool;
       x_degraded_mode_valid \<leftarrow> rd_bool;
       x_evidence_sequence \<leftarrow> rd_id;
       x_verified_at_ms \<leftarrow> rd_u64;
       x_summary \<leftarrow> rd_str;
       ok \<leftarrow> rd_ok;
       if \<not> ok then State_Monad.return None
       else State_Monad.return (Some \<lparr>cv_generation = x_generation,
          cv_containment_generation = x_containment_generation, cv_epoch = x_epoch,
          cv_policy_generation = x_policy_generation,
          cv_topology_generation = x_topology_generation, cv_outcome = x_outcome,
          cv_findings = x_findings, cv_proven_contained = x_proven_contained,
          cv_unproven = x_unproven, cv_blast_radius_increased = x_blast_radius_increased,
          cv_secondary_failure = x_secondary_failure,
          cv_propagation_blocked = x_propagation_blocked,
          cv_propagation_continued = x_propagation_continued,
          cv_degraded_mode_valid = x_degraded_mode_valid,
          cv_evidence_sequence = x_evidence_sequence, cv_verified_at_ms = x_verified_at_ms,
          cv_summary = x_summary\<rparr>) }) }"

definition enc_verification :: "ContainmentVerification \<Rightarrow> u8 list" where
  "enc_verification v =
     enc_id (cv_generation v) @
     enc_id (cv_containment_generation v) @
     enc_id (cv_epoch v) @
     enc_id (cv_policy_generation v) @
     enc_id (cv_topology_generation v) @
     enc_enum VerificationOutcome_values (cv_outcome v) @
     enc_many enc_finding (cv_findings v) @
     enc_many enc_id (cv_proven_contained v) @
     enc_many enc_id (cv_unproven v) @
     enc_bool (cv_blast_radius_increased v) @
     enc_bool (cv_secondary_failure v) @
     enc_bool (cv_propagation_blocked v) @
     enc_bool (cv_propagation_continued v) @
     enc_bool (cv_degraded_mode_valid v) @
     enc_id (cv_evidence_sequence v) @
     le_u64 (cv_verified_at_ms v) @
     enc_str (cv_summary v) @
     []"

definition accepts_verification :: "ContainmentVerification \<Rightarrow> bool" where
  "accepts_verification v \<longleftrightarrow> list_all accepts_finding (cv_findings v) \<and> str_good (cv_summary v)"

definition canon_verification :: "ContainmentVerification \<Rightarrow> bool" where
  "canon_verification v \<longleftrightarrow> length (cv_findings v) \<le> unat kMaxCollectionCount \<and>
     list_all canon_finding (cv_findings v) \<and>
     id_set_good kMaxCollectionCount (cv_proven_contained v) \<and>
     id_set_good kMaxCollectionCount (cv_unproven v)"

interpretation rc_verification: record_codec write_verification read_verification enc_verification accepts_verification canon_verification
proof
  fix x :: ContainmentVerification
  show "emits (write_verification x) (enc_verification x) (accepts_verification x)"
    unfolding write_verification_def [abs_def] enc_verification_def
    by (rule emits_weaken, (rule emits_intros emits_many [OF rc_finding.emits_rec])+)
      (simp add: accepts_verification_def)
next
  fix x :: ContainmentVerification
  assume "accepts_verification x" and "canon_verification x"
  then show "reads read_verification (enc_verification x) (Some x)"
    by (cases x) (simp add: reads_def read_verification_def enc_verification_def accepts_verification_def canon_verification_def
        field_reads
        enum_table.reads_enum [OF en_VerificationOutcome.enum_table_axioms, THEN readsD]
        str_reads ids_reads count_reads rc_finding.reads_list)
qed

definition write_containment :: "ContainmentRecord \<Rightarrow> ByteWriter \<Rightarrow> ByteWriter" where
  "write_containment c = writes [
     wr_id (con_generation c),
     wr_id (con_epoch c),
     wr_id (con_fault c),
     wr_id (con_fault_generation c),
     wr_id (con_policy_generation c),
     wr_id (con_topology_generation c),
     wr_enum ContainmentActionKind_values (con_outcome c),
     wr_enum ContainmentStatus_values (con_status c),
     wr_ids (con_mandatory c),
     wr_ids (con_precautionary c),
     wr_ids (con_unaffected c),
     wr_ids (con_unresolved c),
     wr_ids (con_released c),
     wr_many write_propagation_hop (con_propagation c),
     wr_ids (con_actions c),
     wr_id (con_verification_generation c),
     wr_enum VerificationOutcome_values (con_verification_outcome c),
     write_verification (con_verification c),
     wr_id (con_degraded_contract c),
     wr_enum DegradedModeStatus_values (con_degraded_status c),
     wr_u64 (con_committed_at_ms c),
     wr_u64 (con_updated_at_ms c),
     wr_boolean (con_verified c),
     wr_boolean (con_released_flag c),
     write_explanation (con_explanation c)]"

definition read_containment :: "ContainmentRecord option reader" where
  "read_containment = do {
     x_generation \<leftarrow> rd_id;
     x_epoch \<leftarrow> rd_id;
     x_fault \<leftarrow> rd_id;
     x_fault_generation \<leftarrow> rd_id;
     x_policy_generation \<leftarrow> rd_id;
     x_topology_generation \<leftarrow> rd_id;
     x_outcome \<leftarrow> rd_enum_checked ContainmentActionKind_values;
     x_status \<leftarrow> rd_enum_checked ContainmentStatus_values;
     x_mandatory \<leftarrow> rd_ids kMaxCollectionCount;
     x_precautionary \<leftarrow> rd_ids kMaxCollectionCount;
     x_unaffected \<leftarrow> rd_ids kMaxCollectionCount;
     x_unresolved \<leftarrow> rd_ids kMaxCollectionCount;
     x_released \<leftarrow> rd_ids kMaxCollectionCount;
     n_propagation \<leftarrow> rd_count kMaxCollectionCount;
     r_propagation \<leftarrow> read_loop (unat n_propagation) read_propagation_hop push_back [];
     (case r_propagation of None \<Rightarrow> State_Monad.return None | Some x_propagation \<Rightarrow> do {
       x_actions \<leftarrow> rd_ids kMaxCollectionCount;
       x_verification_generation \<leftarrow> rd_id;
       x_verification_outcome \<leftarrow> rd_enum_checked VerificationOutcome_values;
       r_verification \<leftarrow> read_verification;
       (case r_verification of None \<Rightarrow> State_Monad.return None | Some x_verification \<Rightarrow> do {
         x_degraded_contract \<leftarrow> rd_id;
         x_degraded_status \<leftarrow> rd_enum_checked DegradedModeStatus_values;
         x_committed_at_ms \<leftarrow> rd_u64;
         x_updated_at_ms \<leftarrow> rd_u64;
         x_verified \<leftarrow> rd_bool;
         x_released_flag \<leftarrow> rd_bool;
         r_explanation \<leftarrow> read_explanation;
         (case r_explanation of None \<Rightarrow> State_Monad.return None | Some x_explanation \<Rightarrow> do {
           ok \<leftarrow> rd_ok;
           if \<not> ok then State_Monad.return None
           else State_Monad.return (if id_valid x_generation then Some \<lparr>con_generation = x_generation, con_epoch = x_epoch, con_fault = x_fault,
              con_fault_generation = x_fault_generation,
              con_policy_generation = x_policy_generation,
              con_topology_generation = x_topology_generation, con_outcome = x_outcome,
              con_status = x_status, con_mandatory = x_mandatory,
              con_precautionary = x_precautionary, con_unaffected = x_unaffected,
              con_unresolved = x_unresolved, con_released = x_released,
              con_propagation = x_propagation, con_actions = x_actions,
              con_verification_generation = x_verification_generation,
              con_verification_outcome = x_verification_outcome,
              con_verification = x_verification, con_degraded_contract = x_degraded_contract,
              con_degraded_status = x_degraded_status, con_committed_at_ms = x_committed_at_ms,
              con_updated_at_ms = x_updated_at_ms, con_verified = x_verified,
              con_released_flag = x_released_flag, con_explanation = x_explanation\<rparr> else None) }) }) }) }"

definition enc_containment :: "ContainmentRecord \<Rightarrow> u8 list" where
  "enc_containment c =
     enc_id (con_generation c) @
     enc_id (con_epoch c) @
     enc_id (con_fault c) @
     enc_id (con_fault_generation c) @
     enc_id (con_policy_generation c) @
     enc_id (con_topology_generation c) @
     enc_enum ContainmentActionKind_values (con_outcome c) @
     enc_enum ContainmentStatus_values (con_status c) @
     enc_many enc_id (con_mandatory c) @
     enc_many enc_id (con_precautionary c) @
     enc_many enc_id (con_unaffected c) @
     enc_many enc_id (con_unresolved c) @
     enc_many enc_id (con_released c) @
     enc_many enc_propagation_hop (con_propagation c) @
     enc_many enc_id (con_actions c) @
     enc_id (con_verification_generation c) @
     enc_enum VerificationOutcome_values (con_verification_outcome c) @
     enc_verification (con_verification c) @
     enc_id (con_degraded_contract c) @
     enc_enum DegradedModeStatus_values (con_degraded_status c) @
     le_u64 (con_committed_at_ms c) @
     le_u64 (con_updated_at_ms c) @
     enc_bool (con_verified c) @
     enc_bool (con_released_flag c) @
     enc_explanation (con_explanation c) @
     []"

definition accepts_containment :: "ContainmentRecord \<Rightarrow> bool" where
  "accepts_containment c \<longleftrightarrow> list_all accepts_propagation_hop (con_propagation c) \<and> accepts_verification (con_verification c) \<and> accepts_explanation (con_explanation c)"

definition canon_containment :: "ContainmentRecord \<Rightarrow> bool" where
  "canon_containment c \<longleftrightarrow> id_set_good kMaxCollectionCount (con_mandatory c) \<and>
     id_set_good kMaxCollectionCount (con_precautionary c) \<and>
     id_set_good kMaxCollectionCount (con_unaffected c) \<and>
     id_set_good kMaxCollectionCount (con_unresolved c) \<and>
     id_set_good kMaxCollectionCount (con_released c) \<and>
     length (con_propagation c) \<le> unat kMaxCollectionCount \<and>
     list_all canon_propagation_hop (con_propagation c) \<and>
     id_set_good kMaxCollectionCount (con_actions c) \<and>
     canon_verification (con_verification c) \<and>
     canon_explanation (con_explanation c) \<and>
     (id_valid (con_generation c))"

interpretation rc_containment: record_codec write_containment read_containment enc_containment accepts_containment canon_containment
proof
  fix x :: ContainmentRecord
  show "emits (write_containment x) (enc_containment x) (accepts_containment x)"
    unfolding write_containment_def [abs_def] enc_containment_def
    by (rule emits_weaken, (rule emits_intros rc_verification.emits_rec rc_explanation.emits_rec emits_many [OF rc_propagation_hop.emits_rec])+)
      (simp add: accepts_containment_def)
next
  fix x :: ContainmentRecord
  assume "accepts_containment x" and "canon_containment x"
  then show "reads read_containment (enc_containment x) (Some x)"
    by (cases x) (simp add: reads_def read_containment_def enc_containment_def accepts_containment_def canon_containment_def
        field_reads
        enum_table.reads_enum [OF en_ContainmentActionKind.enum_table_axioms, THEN readsD]
        enum_table.reads_enum [OF en_ContainmentStatus.enum_table_axioms, THEN readsD]
        enum_table.reads_enum [OF en_DegradedModeStatus.enum_table_axioms, THEN readsD]
        enum_table.reads_enum [OF en_VerificationOutcome.enum_table_axioms, THEN readsD]
        str_reads ids_reads rc_verification.reads_rec [THEN readsD] rc_explanation.reads_rec [THEN readsD] count_reads rc_propagation_hop.reads_list)
qed

definition write_degraded :: "DegradedModeAssessment \<Rightarrow> ByteWriter \<Rightarrow> ByteWriter" where
  "write_degraded a = writes [
     wr_id (dma_contract a),
     wr_enum DegradedModeStatus_values (dma_status a),
     wr_ids (dma_permitted a),
     wr_ids (dma_prohibited a),
     wr_ids (dma_revalidation_required a),
     wr_u32 (dma_available_capacity_percent a),
     wr_u32 (dma_required_redundancy a),
     wr_u32 (dma_available_redundancy a),
     wr_many wr_str (dma_reasons a),
     wr_id (dma_topology_generation a),
     wr_id (dma_epoch a),
     wr_u64 (dma_assessed_at_ms a),
     wr_boolean (dma_authorized a)]"

definition read_degraded :: "DegradedModeAssessment option reader" where
  "read_degraded = do {
     x_contract \<leftarrow> rd_id;
     x_status \<leftarrow> rd_enum_checked DegradedModeStatus_values;
     x_permitted \<leftarrow> rd_ids kMaxCollectionCount;
     x_prohibited \<leftarrow> rd_ids kMaxCollectionCount;
     x_revalidation_required \<leftarrow> rd_ids kMaxCollectionCount;
     x_available_capacity_percent \<leftarrow> rd_u32;
     x_required_redundancy \<leftarrow> rd_u32;
     x_available_redundancy \<leftarrow> rd_u32;
     n_reasons \<leftarrow> rd_count kMaxCollectionCount;
     r_reasons \<leftarrow> read_loop (unat n_reasons) rd_str_item push_back [];
     (case r_reasons of None \<Rightarrow> State_Monad.return None | Some x_reasons \<Rightarrow> do {
       x_topology_generation \<leftarrow> rd_id;
       x_epoch \<leftarrow> rd_id;
       x_assessed_at_ms \<leftarrow> rd_u64;
       x_authorized \<leftarrow> rd_bool;
       ok \<leftarrow> rd_ok;
       if \<not> ok then State_Monad.return None
       else if x_available_capacity_percent > 100 then do { rd_reject; State_Monad.return None }
       else State_Monad.return (Some \<lparr>dma_contract = x_contract, dma_status = x_status,
          dma_permitted = x_permitted, dma_prohibited = x_prohibited,
          dma_revalidation_required = x_revalidation_required,
          dma_available_capacity_percent = x_available_capacity_percent,
          dma_required_redundancy = x_required_redundancy,
          dma_available_redundancy = x_available_redundancy, dma_reasons = x_reasons,
          dma_topology_generation = x_topology_generation, dma_epoch = x_epoch,
          dma_assessed_at_ms = x_assessed_at_ms, dma_authorized = x_authorized\<rparr>) }) }"

definition enc_degraded :: "DegradedModeAssessment \<Rightarrow> u8 list" where
  "enc_degraded a =
     enc_id (dma_contract a) @
     enc_enum DegradedModeStatus_values (dma_status a) @
     enc_many enc_id (dma_permitted a) @
     enc_many enc_id (dma_prohibited a) @
     enc_many enc_id (dma_revalidation_required a) @
     le_u32 (dma_available_capacity_percent a) @
     le_u32 (dma_required_redundancy a) @
     le_u32 (dma_available_redundancy a) @
     enc_many enc_str (dma_reasons a) @
     enc_id (dma_topology_generation a) @
     enc_id (dma_epoch a) @
     le_u64 (dma_assessed_at_ms a) @
     enc_bool (dma_authorized a) @
     []"

definition accepts_degraded :: "DegradedModeAssessment \<Rightarrow> bool" where
  "accepts_degraded a \<longleftrightarrow> list_all str_good (dma_reasons a)"

definition canon_degraded :: "DegradedModeAssessment \<Rightarrow> bool" where
  "canon_degraded a \<longleftrightarrow> id_set_good kMaxCollectionCount (dma_permitted a) \<and>
     id_set_good kMaxCollectionCount (dma_prohibited a) \<and>
     id_set_good kMaxCollectionCount (dma_revalidation_required a) \<and>
     length (dma_reasons a) \<le> unat kMaxCollectionCount \<and>
     \<not> (dma_available_capacity_percent a > 100)"

interpretation rc_degraded: record_codec write_degraded read_degraded enc_degraded accepts_degraded canon_degraded
proof
  fix x :: DegradedModeAssessment
  show "emits (write_degraded x) (enc_degraded x) (accepts_degraded x)"
    unfolding write_degraded_def [abs_def] enc_degraded_def
    by (rule emits_weaken, (rule emits_intros emits_many [OF emits_str])+)
      (simp add: accepts_degraded_def)
next
  fix x :: DegradedModeAssessment
  assume "accepts_degraded x" and "canon_degraded x"
  then show "reads read_degraded (enc_degraded x) (Some x)"
    by (cases x) (simp add: reads_def read_degraded_def enc_degraded_def accepts_degraded_def canon_degraded_def
        field_reads
        enum_table.reads_enum [OF en_DegradedModeStatus.enum_table_axioms, THEN readsD]
        str_reads ids_reads count_reads rc_str.reads_list list.pred_True)
qed

definition write_degraded_contract :: "DegradedModeContract \<Rightarrow> ByteWriter \<Rightarrow> ByteWriter" where
  "write_degraded_contract c = writes [
     wr_id (dmc_id c),
     wr_str (dmc_name c),
     wr_id (dmc_topology_generation c),
     wr_id (dmc_containment_generation c),
     wr_ids (dmc_permitted_resources c),
     wr_ids (dmc_prohibited_resources c),
     wr_u32 (dmc_reduced_capacity_percent c),
     wr_u32 (dmc_required_redundancy c),
     wr_many wr_str (dmc_disabled_features c),
     wr_enum_set ResourceClass_values (dmc_legal_workload_classes c),
     wr_many wr_str (dmc_hard_safety_constraints c),
     wr_u64 (dmc_max_evidence_age_ms c),
     wr_u64 (dmc_expires_at_ms c),
     wr_u64 (dmc_revalidate_every_ms c),
     wr_many wr_str (dmc_exit_preconditions c),
     wr_boolean (dmc_permit_by_default c)]"

definition read_degraded_contract :: "DegradedModeContract option reader" where
  "read_degraded_contract = do {
     x_id \<leftarrow> rd_id;
     x_name \<leftarrow> rd_str;
     x_topology_generation \<leftarrow> rd_id;
     x_containment_generation \<leftarrow> rd_id;
     x_permitted_resources \<leftarrow> rd_ids kMaxCollectionCount;
     x_prohibited_resources \<leftarrow> rd_ids kMaxCollectionCount;
     x_reduced_capacity_percent \<leftarrow> rd_u32;
     x_required_redundancy \<leftarrow> rd_u32;
     n_disabled_features \<leftarrow> rd_count kMaxCollectionCount;
     r_disabled_features \<leftarrow> read_loop (unat n_disabled_features) rd_str_item push_back [];
     (case r_disabled_features of None \<Rightarrow> State_Monad.return None | Some x_disabled_features \<Rightarrow> do {
       x_legal_workload_classes \<leftarrow> rd_enum_set ResourceClass_values (of_nat (length ResourceClass_values));
       n_hard_safety_constraints \<leftarrow> rd_count kMaxCollectionCount;
       r_hard_safety_constraints \<leftarrow> read_loop (unat n_hard_safety_constraints) rd_str_item push_back [];
       (case r_hard_safety_constraints of None \<Rightarrow> State_Monad.return None | Some x_hard_safety_constraints \<Rightarrow> do {
         x_max_evidence_age_ms \<leftarrow> rd_u64;
         x_expires_at_ms \<leftarrow> rd_u64;
         x_revalidate_every_ms \<leftarrow> rd_u64;
         n_exit_preconditions \<leftarrow> rd_count kMaxCollectionCount;
         r_exit_preconditions \<leftarrow> read_loop (unat n_exit_preconditions) rd_str_item push_back [];
         (case r_exit_preconditions of None \<Rightarrow> State_Monad.return None | Some x_exit_preconditions \<Rightarrow> do {
           x_permit_by_default \<leftarrow> rd_bool;
           ok \<leftarrow> rd_ok;
           if \<not> ok then State_Monad.return None
           else if x_reduced_capacity_percent > 100 \<or> x_required_redundancy = 0 then do { rd_reject; State_Monad.return None }
           else State_Monad.return (Some \<lparr>dmc_id = x_id, dmc_name = x_name,
              dmc_topology_generation = x_topology_generation,
              dmc_containment_generation = x_containment_generation,
              dmc_permitted_resources = x_permitted_resources,
              dmc_prohibited_resources = x_prohibited_resources,
              dmc_reduced_capacity_percent = x_reduced_capacity_percent,
              dmc_required_redundancy = x_required_redundancy,
              dmc_disabled_features = x_disabled_features,
              dmc_legal_workload_classes = x_legal_workload_classes,
              dmc_hard_safety_constraints = x_hard_safety_constraints,
              dmc_max_evidence_age_ms = x_max_evidence_age_ms,
              dmc_expires_at_ms = x_expires_at_ms,
              dmc_revalidate_every_ms = x_revalidate_every_ms,
              dmc_exit_preconditions = x_exit_preconditions,
              dmc_permit_by_default = x_permit_by_default\<rparr>) }) }) }) }"

definition enc_degraded_contract :: "DegradedModeContract \<Rightarrow> u8 list" where
  "enc_degraded_contract c =
     enc_id (dmc_id c) @
     enc_str (dmc_name c) @
     enc_id (dmc_topology_generation c) @
     enc_id (dmc_containment_generation c) @
     enc_many enc_id (dmc_permitted_resources c) @
     enc_many enc_id (dmc_prohibited_resources c) @
     le_u32 (dmc_reduced_capacity_percent c) @
     le_u32 (dmc_required_redundancy c) @
     enc_many enc_str (dmc_disabled_features c) @
     enc_many (enc_enum ResourceClass_values) (dmc_legal_workload_classes c) @
     enc_many enc_str (dmc_hard_safety_constraints c) @
     le_u64 (dmc_max_evidence_age_ms c) @
     le_u64 (dmc_expires_at_ms c) @
     le_u64 (dmc_revalidate_every_ms c) @
     enc_many enc_str (dmc_exit_preconditions c) @
     enc_bool (dmc_permit_by_default c) @
     []"

definition accepts_degraded_contract :: "DegradedModeContract \<Rightarrow> bool" where
  "accepts_degraded_contract c \<longleftrightarrow> str_good (dmc_name c) \<and> list_all str_good (dmc_disabled_features c) \<and> list_all str_good (dmc_hard_safety_constraints c) \<and> list_all str_good (dmc_exit_preconditions c)"

definition canon_degraded_contract :: "DegradedModeContract \<Rightarrow> bool" where
  "canon_degraded_contract c \<longleftrightarrow> id_set_good kMaxCollectionCount (dmc_permitted_resources c) \<and>
     id_set_good kMaxCollectionCount (dmc_prohibited_resources c) \<and>
     length (dmc_disabled_features c) \<le> unat kMaxCollectionCount \<and>
     enum_set_good ResourceClass_values (dmc_legal_workload_classes c) \<and>
     length (dmc_hard_safety_constraints c) \<le> unat kMaxCollectionCount \<and>
     length (dmc_exit_preconditions c) \<le> unat kMaxCollectionCount \<and>
     \<not> (dmc_reduced_capacity_percent c > 100 \<or> dmc_required_redundancy c = 0)"

interpretation rc_degraded_contract: record_codec write_degraded_contract read_degraded_contract enc_degraded_contract accepts_degraded_contract canon_degraded_contract
proof
  fix x :: DegradedModeContract
  show "emits (write_degraded_contract x) (enc_degraded_contract x) (accepts_degraded_contract x)"
    unfolding write_degraded_contract_def [abs_def] enc_degraded_contract_def
    by (rule emits_weaken, (rule emits_intros emits_many [OF emits_str])+)
      (simp add: accepts_degraded_contract_def)
next
  fix x :: DegradedModeContract
  assume "accepts_degraded_contract x" and "canon_degraded_contract x"
  then show "reads read_degraded_contract (enc_degraded_contract x) (Some x)"
    by (cases x) (simp add: reads_def read_degraded_contract_def enc_degraded_contract_def accepts_degraded_contract_def canon_degraded_contract_def
        field_reads
        enum_table.reads_enum_set_all [OF en_ResourceClass.enum_table_axioms, THEN readsD]
        str_reads ids_reads count_reads rc_str.reads_list list.pred_True)
qed

definition write_history_event :: "HistoryEvent \<Rightarrow> ByteWriter \<Rightarrow> ByteWriter" where
  "write_history_event h = writes [
     wr_id (he_sequence h),
     wr_u64 (he_timestamp_ms h),
     wr_id (he_epoch h),
     wr_enum HistoryEventType_values (he_type h),
     wr_id (he_resource h),
     wr_id (he_fault h),
     wr_id (he_action h),
     wr_id (he_containment h),
     wr_id (he_verification h),
     wr_str (he_detail h),
     wr_str (he_authority h)]"

definition read_history_event :: "HistoryEvent option reader" where
  "read_history_event = do {
     x_sequence \<leftarrow> rd_id;
     x_timestamp_ms \<leftarrow> rd_u64;
     x_epoch \<leftarrow> rd_id;
     x_type \<leftarrow> rd_enum_checked HistoryEventType_values;
     x_resource \<leftarrow> rd_id;
     x_fault \<leftarrow> rd_id;
     x_action \<leftarrow> rd_id;
     x_containment \<leftarrow> rd_id;
     x_verification \<leftarrow> rd_id;
     x_detail \<leftarrow> rd_str;
     x_authority \<leftarrow> rd_str;
     ok \<leftarrow> rd_ok;
     if \<not> ok then State_Monad.return None
     else State_Monad.return (Some \<lparr>he_sequence = x_sequence, he_timestamp_ms = x_timestamp_ms, he_epoch = x_epoch,
        he_type = x_type, he_resource = x_resource, he_fault = x_fault, he_action = x_action,
        he_containment = x_containment, he_verification = x_verification, he_detail = x_detail,
        he_authority = x_authority\<rparr>) }"

definition enc_history_event :: "HistoryEvent \<Rightarrow> u8 list" where
  "enc_history_event h =
     enc_id (he_sequence h) @
     le_u64 (he_timestamp_ms h) @
     enc_id (he_epoch h) @
     enc_enum HistoryEventType_values (he_type h) @
     enc_id (he_resource h) @
     enc_id (he_fault h) @
     enc_id (he_action h) @
     enc_id (he_containment h) @
     enc_id (he_verification h) @
     enc_str (he_detail h) @
     enc_str (he_authority h) @
     []"

definition accepts_history_event :: "HistoryEvent \<Rightarrow> bool" where
  "accepts_history_event h \<longleftrightarrow> str_good (he_detail h) \<and> str_good (he_authority h)"

definition canon_history_event :: "HistoryEvent \<Rightarrow> bool" where
  "canon_history_event h \<longleftrightarrow> True"

interpretation rc_history_event: record_codec write_history_event read_history_event enc_history_event accepts_history_event canon_history_event
proof
  fix x :: HistoryEvent
  show "emits (write_history_event x) (enc_history_event x) (accepts_history_event x)"
    unfolding write_history_event_def [abs_def] enc_history_event_def
    by (rule emits_weaken, (rule emits_intros)+)
      (simp add: accepts_history_event_def)
next
  fix x :: HistoryEvent
  assume "accepts_history_event x" and "canon_history_event x"
  then show "reads read_history_event (enc_history_event x) (Some x)"
    by (cases x) (simp add: reads_def read_history_event_def enc_history_event_def accepts_history_event_def canon_history_event_def
        field_reads
        enum_table.reads_enum [OF en_HistoryEventType.enum_table_axioms, THEN readsD]
        str_reads ids_reads)
qed

section \<open>The policy document\<close>

definition write_admin_override :: "AdministrativeOverride \<Rightarrow> ByteWriter \<Rightarrow> ByteWriter" where
  "write_admin_override a = writes [
     wr_boolean (ao_active a),
     wr_str (ao_authority a),
     wr_id (ao_policy_generation a),
     wr_u64 (ao_not_before_ms a),
     wr_u64 (ao_expires_at_ms a),
     wr_enum ContainmentActionKind_values (ao_forced_outcome a),
     wr_ids (ao_scope a),
     wr_boolean (ao_ranking_and_authority_only a)]"

definition write_policy :: "ContainmentPolicy \<Rightarrow> ByteWriter \<Rightarrow> ByteWriter" where
  "write_policy p = writes [
     wr_id (pol_generation p),
     wr_str (pol_name p),
     wr_many write_fault_rule (map snd (pol_rules p)),
     write_fault_rule (pol_fallback p),
     wr_u32 (pol_max_actions_per_containment p),
     wr_boolean (pol_allow_degraded_mode_by_default p),
     wr_u64 (pol_default_max_evidence_age_ms p),
     write_admin_override (pol_admin_override p)]"

text \<open>The override's fields are read inline; only the end of \<open>read_policy\<close> looks at the flag.\<close>

definition read_admin_override :: "AdministrativeOverride reader" where
  "read_admin_override = do {
     x_active \<leftarrow> rd_bool;
     x_authority \<leftarrow> rd_str;
     x_policy_generation \<leftarrow> rd_id;
     x_not_before_ms \<leftarrow> rd_u64;
     x_expires_at_ms \<leftarrow> rd_u64;
     x_forced_outcome \<leftarrow> rd_enum_checked ContainmentActionKind_values;
     x_scope \<leftarrow> rd_ids kMaxMembersPerRecord;
     x_ranking_and_authority_only \<leftarrow> rd_bool;
     State_Monad.return \<lparr>ao_active = x_active, ao_authority = x_authority,
       ao_policy_generation = x_policy_generation, ao_not_before_ms = x_not_before_ms,
       ao_expires_at_ms = x_expires_at_ms, ao_forced_outcome = x_forced_outcome,
       ao_scope = x_scope, ao_ranking_and_authority_only = x_ranking_and_authority_only\<rparr> }"

definition read_policy :: "ContainmentPolicy option reader" where
  "read_policy = do {
     x_generation \<leftarrow> rd_id;
     x_name \<leftarrow> rd_str;
     n_rules \<leftarrow> rd_count kMaxRules;
     r_rules \<leftarrow> read_loop (unat n_rules) read_fault_rule (put_keyed rule_kind) [];
     (case r_rules of None \<Rightarrow> State_Monad.return None | Some x_rules \<Rightarrow> do {
       r_fallback \<leftarrow> read_fault_rule;
       (case r_fallback of None \<Rightarrow> State_Monad.return None | Some x_fallback \<Rightarrow> do {
         x_max_actions \<leftarrow> rd_u32;
         x_allow_degraded \<leftarrow> rd_bool;
         x_default_age \<leftarrow> rd_u64;
         x_admin \<leftarrow> read_admin_override;
         ok \<leftarrow> rd_ok;
         if \<not> ok then State_Monad.return None
         else if x_max_actions = 0 then do { rd_reject; State_Monad.return None }
         else State_Monad.return (Some \<lparr>pol_generation = x_generation, pol_name = x_name,
           pol_rules = x_rules, pol_fallback = x_fallback,
           pol_max_actions_per_containment = x_max_actions,
           pol_allow_degraded_mode_by_default = x_allow_degraded,
           pol_default_max_evidence_age_ms = x_default_age,
           pol_admin_override = x_admin\<rparr>) }) }) }"

definition enc_admin_override :: "AdministrativeOverride \<Rightarrow> u8 list" where
  "enc_admin_override a =
     enc_bool (ao_active a) @ enc_str (ao_authority a) @ enc_id (ao_policy_generation a) @
     le_u64 (ao_not_before_ms a) @ le_u64 (ao_expires_at_ms a) @
     enc_enum ContainmentActionKind_values (ao_forced_outcome a) @
     enc_many enc_id (ao_scope a) @ enc_bool (ao_ranking_and_authority_only a) @ []"

lemma emits_admin_override: "emits (write_admin_override a) (enc_admin_override a) (str_good (ao_authority a))"
  unfolding write_admin_override_def enc_admin_override_def
  by (rule emits_weaken, (rule emits_intros)+) simp

lemma reads_admin_override:
  "str_good (ao_authority a) \<Longrightarrow> id_set_good kMaxMembersPerRecord (ao_scope a) \<Longrightarrow>
   reads read_admin_override (enc_admin_override a) a"
  by (cases a) (simp add: reads_def read_admin_override_def enc_admin_override_def field_reads
      enum_table.reads_enum [OF en_ContainmentActionKind.enum_table_axioms, THEN readsD]
      str_reads ids_reads)

definition enc_policy :: "ContainmentPolicy \<Rightarrow> u8 list" where
  "enc_policy p =
     enc_id (pol_generation p) @ enc_str (pol_name p) @
     enc_many enc_fault_rule (map snd (pol_rules p)) @ enc_fault_rule (pol_fallback p) @
     le_u32 (pol_max_actions_per_containment p) @ enc_bool (pol_allow_degraded_mode_by_default p) @
     le_u64 (pol_default_max_evidence_age_ms p) @ enc_admin_override (pol_admin_override p) @ []"

definition accepts_policy :: "ContainmentPolicy \<Rightarrow> bool" where
  "accepts_policy p \<longleftrightarrow> str_good (pol_name p) \<and> str_good (ao_authority (pol_admin_override p))"

definition canon_policy :: "ContainmentPolicy \<Rightarrow> bool" where
  "canon_policy p \<longleftrightarrow>
     om_wf (pol_rules p) \<and> list_all (\<lambda>(k, r). rule_kind r = k) (pol_rules p) \<and>
     list_all canon_fault_rule (map snd (pol_rules p)) \<and> length (pol_rules p) \<le> unat kMaxRules \<and>
     canon_fault_rule (pol_fallback p) \<and> pol_max_actions_per_containment p \<noteq> 0 \<and>
     id_set_good kMaxMembersPerRecord (ao_scope (pol_admin_override p))"

lemma accepts_fault_rule_all [simp]: "accepts_fault_rule r"
  by (simp add: accepts_fault_rule_def)

lemma rules_reads:
  assumes "om_wf m" and "list_all (\<lambda>(k, r). rule_kind r = k) m"
    and "list_all canon_fault_rule (map snd m)" and "length m \<le> unat kMaxRules"
  shows "run_state (read_loop (unat (of_nat (length m) :: u32)) read_fault_rule (put_keyed rule_kind) [])
      (byte_reader (concat (map enc_fault_rule (map snd m)) @ rest)) = (Some m, byte_reader rest)"
  using rc_fault_rule.reads_many [of "map snd m" "put_keyed rule_kind" "[]" m kMaxRules rest]
    put_all_keyed [of "[]" m rule_kind] assms
  by (simp add: list_all_iff)

interpretation rc_policy: record_codec write_policy read_policy enc_policy accepts_policy canon_policy
proof
  fix x :: ContainmentPolicy
  show "emits (write_policy x) (enc_policy x) (accepts_policy x)"
    unfolding write_policy_def [abs_def] enc_policy_def
    by (rule emits_weaken, (rule emits_intros rc_fault_rule.emits_rec emits_admin_override
        emits_many [OF rc_fault_rule.emits_rec])+)
      (simp add: accepts_policy_def)
next
  fix x :: ContainmentPolicy
  assume "accepts_policy x" and "canon_policy x"
  then show "reads read_policy (enc_policy x) (Some x)"
    using count_reads [of "map snd (pol_rules x)" kMaxRules enc_fault_rule]
    by (cases x) (simp add: reads_def read_policy_def enc_policy_def accepts_policy_def canon_policy_def
        field_reads str_reads rules_reads [simplified] reads_admin_override [THEN readsD]
        rc_fault_rule.reads_rec [THEN readsD])
qed

section \<open>Journal events\<close>

datatype (plugins only: code size) DurableEventKind =
    RESOURCE_UPSERT
  | RESOURCE_REMOVE
  | CONTAINMENT_DOMAIN_UPSERT
  | CONTAINMENT_DOMAIN_REMOVE
  | ISOLATION_DOMAIN_UPSERT
  | ISOLATION_DOMAIN_REMOVE
  | FAILURE_DOMAIN_UPSERT
  | FAILURE_DOMAIN_REMOVE
  | DEPENDENCY_UPSERT
  | DEPENDENCY_REMOVE
  | POLICY_SET
  | FAULT_UPSERT
  | CONTAINMENT_UPSERT
  | ACTION_UPSERT
  | WORKER_UPSERT
  | WORKER_CURRENT_BOOT
  | CURRENT_FAULT
  | DEGRADED_UPSERT
  | COUNTERS
  | HISTORY
  | RECOVERY_MARK

definition DurableEventKind_values :: "DurableEventKind list" where
  "DurableEventKind_values = [
     DurableEventKind.RESOURCE_UPSERT, DurableEventKind.RESOURCE_REMOVE, DurableEventKind.CONTAINMENT_DOMAIN_UPSERT,
     DurableEventKind.CONTAINMENT_DOMAIN_REMOVE, DurableEventKind.ISOLATION_DOMAIN_UPSERT, DurableEventKind.ISOLATION_DOMAIN_REMOVE,
     DurableEventKind.FAILURE_DOMAIN_UPSERT, DurableEventKind.FAILURE_DOMAIN_REMOVE, DurableEventKind.DEPENDENCY_UPSERT,
     DurableEventKind.DEPENDENCY_REMOVE, DurableEventKind.POLICY_SET, DurableEventKind.FAULT_UPSERT,
     DurableEventKind.CONTAINMENT_UPSERT, DurableEventKind.ACTION_UPSERT, DurableEventKind.WORKER_UPSERT,
     DurableEventKind.WORKER_CURRENT_BOOT, DurableEventKind.CURRENT_FAULT, DurableEventKind.DEGRADED_UPSERT,
     DurableEventKind.COUNTERS, DurableEventKind.HISTORY, DurableEventKind.RECOVERY_MARK]"

primrec DurableEventKind_str :: "DurableEventKind \<Rightarrow> string" where
  "DurableEventKind_str DurableEventKind.RESOURCE_UPSERT = ''RESOURCE_UPSERT''"
| "DurableEventKind_str DurableEventKind.RESOURCE_REMOVE = ''RESOURCE_REMOVE''"
| "DurableEventKind_str DurableEventKind.CONTAINMENT_DOMAIN_UPSERT = ''CONTAINMENT_DOMAIN_UPSERT''"
| "DurableEventKind_str DurableEventKind.CONTAINMENT_DOMAIN_REMOVE = ''CONTAINMENT_DOMAIN_REMOVE''"
| "DurableEventKind_str DurableEventKind.ISOLATION_DOMAIN_UPSERT = ''ISOLATION_DOMAIN_UPSERT''"
| "DurableEventKind_str DurableEventKind.ISOLATION_DOMAIN_REMOVE = ''ISOLATION_DOMAIN_REMOVE''"
| "DurableEventKind_str DurableEventKind.FAILURE_DOMAIN_UPSERT = ''FAILURE_DOMAIN_UPSERT''"
| "DurableEventKind_str DurableEventKind.FAILURE_DOMAIN_REMOVE = ''FAILURE_DOMAIN_REMOVE''"
| "DurableEventKind_str DurableEventKind.DEPENDENCY_UPSERT = ''DEPENDENCY_UPSERT''"
| "DurableEventKind_str DurableEventKind.DEPENDENCY_REMOVE = ''DEPENDENCY_REMOVE''"
| "DurableEventKind_str DurableEventKind.POLICY_SET = ''POLICY_SET''"
| "DurableEventKind_str DurableEventKind.FAULT_UPSERT = ''FAULT_UPSERT''"
| "DurableEventKind_str DurableEventKind.CONTAINMENT_UPSERT = ''CONTAINMENT_UPSERT''"
| "DurableEventKind_str DurableEventKind.ACTION_UPSERT = ''ACTION_UPSERT''"
| "DurableEventKind_str DurableEventKind.WORKER_UPSERT = ''WORKER_UPSERT''"
| "DurableEventKind_str DurableEventKind.WORKER_CURRENT_BOOT = ''WORKER_CURRENT_BOOT''"
| "DurableEventKind_str DurableEventKind.CURRENT_FAULT = ''CURRENT_FAULT''"
| "DurableEventKind_str DurableEventKind.DEGRADED_UPSERT = ''DEGRADED_UPSERT''"
| "DurableEventKind_str DurableEventKind.COUNTERS = ''COUNTERS''"
| "DurableEventKind_str DurableEventKind.HISTORY = ''HISTORY''"
| "DurableEventKind_str DurableEventKind.RECOVERY_MARK = ''RECOVERY_MARK''"

lemma DurableEventKind_set_values: "set DurableEventKind_values = UNIV"
proof -
  have "x \<in> set DurableEventKind_values" for x by (cases x) (simp_all add: DurableEventKind_values_def)
  then show ?thesis by blast
qed

interpretation en_DurableEventKind: enum_table DurableEventKind_values DurableEventKind_str
  by unfold_locales
    (rule DurableEventKind_set_values, code_simp, code_simp, simp add: DurableEventKind_values_def)

record DurableEvent =
  dev_kind :: DurableEventKind
  dev_has_history :: bool
  dev_history :: HistoryEvent
  dev_payload :: "u8 list"

definition write_durable_event :: "DurableEvent \<Rightarrow> ByteWriter \<Rightarrow> ByteWriter" where
  "write_durable_event e = writes [
     wr_enum DurableEventKind_values (dev_kind e),
     wr_boolean (dev_has_history e),
     (\<lambda>w. if dev_has_history e then write_history_event (dev_history e) w else w),
     wr_blob (dev_payload e)]"

definition read_durable_event :: "DurableEvent option reader" where
  "read_durable_event = do {
     x_kind \<leftarrow> rd_enum_checked DurableEventKind_values;
     x_has_history \<leftarrow> rd_bool;
     r_history \<leftarrow> (if x_has_history then read_history_event
                  else State_Monad.return (Some HistoryEvent_default));
     (case r_history of None \<Rightarrow> State_Monad.return None | Some x_history \<Rightarrow> do {
       x_payload \<leftarrow> rd_blob;
       ok \<leftarrow> rd_ok;
       State_Monad.return (if ok then Some \<lparr>dev_kind = x_kind, dev_has_history = x_has_history,
         dev_history = x_history, dev_payload = x_payload\<rparr> else None) }) }"

text \<open>\<open>decode_durable_event\<close>: a whole journal record, trailing data is refused.\<close>

definition decode_durable_event :: "u8 list \<Rightarrow> DurableEvent option" where
  "decode_durable_event bytes =
     (case run_state read_durable_event (byte_reader bytes) of
        (Some e, r) \<Rightarrow> if brd_ok r \<and> brd_rest r = [] then Some e else None
      | (None, _) \<Rightarrow> None)"

definition enc_durable_event :: "DurableEvent \<Rightarrow> u8 list" where
  "enc_durable_event e =
     enc_enum DurableEventKind_values (dev_kind e) @ enc_bool (dev_has_history e) @
     (if dev_has_history e then enc_history_event (dev_history e) else []) @
     enc_blob (dev_payload e) @ []"

definition accepts_durable_event :: "DurableEvent \<Rightarrow> bool" where
  "accepts_durable_event e \<longleftrightarrow>
     (dev_has_history e \<longrightarrow> accepts_history_event (dev_history e)) \<and>
     int (length (dev_payload e)) \<le> kMaxBlobBytes"

definition canon_durable_event :: "DurableEvent \<Rightarrow> bool" where
  "canon_durable_event e \<longleftrightarrow> (\<not> dev_has_history e \<longrightarrow> dev_history e = HistoryEvent_default)"

lemma canon_history_event_all [simp]: "canon_history_event h"
  by (simp add: canon_history_event_def)

lemma emits_if: "emits f bs A \<Longrightarrow> emits (\<lambda>w. if b then f w else w) (if b then bs else []) (b \<longrightarrow> A)"
  by (cases b) (simp_all add: emits_def)

interpretation rc_durable_event: record_codec write_durable_event read_durable_event enc_durable_event
  accepts_durable_event canon_durable_event
proof
  fix x :: DurableEvent
  show "emits (write_durable_event x) (enc_durable_event x) (accepts_durable_event x)"
    unfolding write_durable_event_def [abs_def] enc_durable_event_def
    by (rule emits_weaken, (rule emits_intros emits_if rc_history_event.emits_rec)+)
      (simp add: accepts_durable_event_def)
next
  fix x :: DurableEvent
  assume "accepts_durable_event x" and "canon_durable_event x"
  then show "reads read_durable_event (enc_durable_event x) (Some x)"
    by (cases x) (simp add: reads_def read_durable_event_def enc_durable_event_def
        accepts_durable_event_def canon_durable_event_def field_reads blob_reads
        enum_table.reads_enum [OF en_DurableEventKind.enum_table_axioms, THEN readsD]
        rc_history_event.reads_rec [THEN readsD])
qed

end
