(* ===== verification/Fcf_Codec_Props.thy ===== *)
theory Fcf_Codec_Props
  imports Fcf_Codec_State
begin

text \<open>
  What the codecs promise the journal and the snapshot: a record that was written without an error
  and satisfies the reader's demands comes back unchanged. The theorems instantiate the contract
  \<open>record_codec\<close> for the records the runtime's guarantees rest on; the last one shows where the
  validator of policies is weaker than their reader.
\<close>

text \<open>
  A journal record round-trips: the event encoded for an append decodes to itself, with
  its history line and payload, and the decoder consumes the whole record.
\<close>

theorem durable_event_roundtrip:
  assumes "bw_ok (write_durable_event e ByteWriter_default)"
    and "\<not> dev_has_history e \<longrightarrow> dev_history e = HistoryEvent_default"
  shows "decode_durable_event (bw_buffer (write_durable_event e ByteWriter_default)) = Some e"
  using rc_durable_event.roundtrip [OF assms(1)] assms(2)
  by (simp add: decode_durable_event_def canon_durable_event_def byte_reader_def)

definition sample_event :: DurableEvent where
  "sample_event = \<lparr>dev_kind = DurableEventKind.RESOURCE_REMOVE, dev_has_history = False,
     dev_history = HistoryEvent_default, dev_payload = [1, 0, 0, 0, 0, 0, 0, 0]\<rparr>"

theorem durable_event_roundtrip_witness:
  "decode_durable_event (bw_buffer (write_durable_event sample_event ByteWriter_default)) = Some sample_event"
proof (rule durable_event_roundtrip)
  show "bw_ok (write_durable_event sample_event ByteWriter_default)" by code_simp
qed (simp add: sample_event_def)

definition sample_containment :: ContainmentRecord where
  "sample_containment = ContainmentRecord_default\<lparr>con_generation := Id 4, con_mandatory := [Id 1, Id 3]\<rparr>"

text \<open>
  A containment record (its five resource sets, the propagation trail, the
  verification and the explanation included) is read back exactly as written, and its encoding is
  prefix-free: whatever follows it in the snapshot cannot change what is read.
\<close>

theorem containment_roundtrip:
  assumes "bw_ok (write_containment c ByteWriter_default)" and "canon_containment c"
  shows "run_state read_containment (byte_reader (bw_buffer (write_containment c ByteWriter_default) @ rest)) =
      (Some c, byte_reader rest)"
proof -
  from emitsD [OF rc_containment.emits_rec assms(1)]
  have "accepts_containment c" "bw_buffer (write_containment c ByteWriter_default) = enc_containment c"
    by (simp_all add: ByteWriter_default_def)
  with readsD [OF rc_containment.reads_rec, of c rest] assms(2) show ?thesis by simp
qed

lemma rules_length: "om_wf (rules :: (FaultKind \<times> FaultRule) list) \<Longrightarrow> length rules \<le> length FaultKind_values"
proof -
  assume "om_wf rules"
  then have "distinct (map fst rules)" by (simp add: om_wf_def strict_sorted_iff)
  then have "length rules = card (set (map fst rules))" by (metis distinct_card length_map)
  also have "\<dots> \<le> card (set FaultKind_values)"
    by (rule card_mono) (simp, simp only: FaultKind_set_values subset_UNIV)
  also have "\<dots> \<le> length FaultKind_values" by (rule card_length)
  finally show ?thesis .
qed

theorem containment_roundtrip_witness:
  "run_state read_containment (byte_reader (bw_buffer (write_containment sample_containment ByteWriter_default) @ [9])) =
     (Some sample_containment, byte_reader [9])"
proof (rule containment_roundtrip)
  show "bw_ok (write_containment sample_containment ByteWriter_default)" by code_simp
  show "canon_containment sample_containment"
    by (simp add: canon_containment_def sample_containment_def ContainmentRecord_default_def id_set_good_def
        kMaxCollectionCount_def canon_verification_def ContainmentVerification_default_def
        canon_explanation_def id_valid_def)
qed

text \<open>
  A validated policy whose fallback rule meets the same demands as its other rules, and
  whose confidences are at most 1000 permille, survives a write and a read.
\<close>

theorem policy_roundtrip:
  assumes "validate_policy p = ok_status" and "om_wf (pol_rules p)"
    and "\<forall>(k, r) \<in> set (pol_rules p). rule_likely_confidence_permille r \<le> 1000"
    and "canon_fault_rule (pol_fallback p)"
    and "id_set_good kMaxMembersPerRecord (ao_scope (pol_admin_override p))"
    and "bw_ok (write_policy p ByteWriter_default)"
  shows "run_state read_policy (byte_reader (bw_buffer (write_policy p ByteWriter_default))) =
      (Some p, byte_reader [])"
proof (rule rc_policy.roundtrip [OF assms(6)])
  have v: "validate_rules (pol_rules p) = None" and m: "pol_max_actions_per_containment p \<noteq> 0"
    using assms(1) by (auto simp: validate_policy_def split: option.splits if_splits)
  have r: "rule_kind r = k \<and> canon_fault_rule r" if "(k, r) \<in> set (pol_rules p)" for k r
  proof -
    have "validate_rule k r = None" using v that by (auto simp: validate_rules_None)
    note c = validate_rule_None [OF this]
    have "enum_set_good DependencyKind_values s" if "is_canonical s" for s
      using that by (simp add: enum_set_good_def is_canonical_sorted)
    with c that assms(3) show ?thesis by (auto simp: canon_fault_rule_def not_less)
  qed
  have "length (pol_rules p) \<le> unat kMaxRules"
    using rules_length [OF assms(2)] by (simp add: kMaxRules_def FaultKind_values_def)
  with r m assms(2,4,5) show "canon_policy p"
    by (auto simp: canon_policy_def list_all_iff)
qed

definition sample_policy :: ContainmentPolicy where
  "sample_policy = ContainmentPolicy_default\<lparr>pol_rules :=
     [(FaultKind.PROCESS_DEATH, FaultRule_default\<lparr>rule_kind := FaultKind.PROCESS_DEATH\<rparr>)]\<rparr>"

theorem policy_roundtrip_witness:
  "run_state read_policy (byte_reader (bw_buffer (write_policy sample_policy ByteWriter_default))) =
     (Some sample_policy, byte_reader [])"
proof (rule policy_roundtrip)
  show "bw_ok (write_policy sample_policy ByteWriter_default)" by code_simp
  show "validate_policy sample_policy = ok_status" by code_simp
  show "om_wf (pol_rules sample_policy)" by (simp add: sample_policy_def om_wf_def)
  show "\<forall>(k, r) \<in> set (pol_rules sample_policy). rule_likely_confidence_permille r \<le> 1000" by code_simp
  show "canon_fault_rule (pol_fallback sample_policy)" by code_simp
  show "id_set_good kMaxMembersPerRecord (ao_scope (pol_admin_override sample_policy))"
    by (simp add: sample_policy_def ContainmentPolicy_default_def AdministrativeOverride_default_def
        id_set_good_def)
qed

definition unreadable_policy :: ContainmentPolicy where
  "unreadable_policy = ContainmentPolicy_default\<lparr>pol_fallback := FaultRule_default\<lparr>rule_action_budget := 0\<rparr>\<rparr>"

text \<open>
  The validator accepts, and the writer writes, a policy that the reader refuses:
  the fallback rule is never validated, so a zero action budget in it makes the snapshot unreadable.
\<close>

theorem accepted_policy_unreadable:
  "validate_policy unreadable_policy = ok_status \<and>
   bw_ok (write_policy unreadable_policy ByteWriter_default) \<and>
   fst (run_state read_policy (byte_reader (bw_buffer (write_policy unreadable_policy ByteWriter_default)))) = None"
proof (intro conjI)
  show "validate_policy unreadable_policy = ok_status" by code_simp
  show "bw_ok (write_policy unreadable_policy ByteWriter_default)" by code_simp
  show "fst (run_state read_policy (byte_reader (bw_buffer (write_policy unreadable_policy ByteWriter_default)))) = None"
    by code_simp
qed

end
