(* ===== verification/Fcf_Sha256.thy ===== *)
theory Fcf_Sha256
  imports Fcf_Bytes
begin

text \<open>
  SHA-256 (\<open>include/fcf/detail/sha256.hpp\<close>, \<open>src/detail/sha256.cpp\<close>), as a streaming hash with a
  64-byte buffer, and its equivalence with the one-shot definition: pad the whole message, cut it
  into blocks, compress them in order. \<open>sha_buffer\<close> holds the first \<open>buffered_\<close> bytes of the array
  \<open>buffer_\<close>; the bytes behind them are always overwritten before they are read.
\<close>

section \<open>Compression\<close>

text \<open>The round constants of the source, written in decimal.\<close>

definition kK :: "u32 list" where
  "kK = [
    1116352408, 1899447441, 3049323471, 3921009573, 961987163, 1508970993,
    2453635748, 2870763221, 3624381080, 310598401, 607225278, 1426881987,
    1925078388, 2162078206, 2614888103, 3248222580, 3835390401, 4022224774,
    264347078, 604807628, 770255983, 1249150122, 1555081692, 1996064986,
    2554220882, 2821834349, 2952996808, 3210313671, 3336571891, 3584528711,
    113926993, 338241895, 666307205, 773529912, 1294757372, 1396182291,
    1695183700, 1986661051, 2177026350, 2456956037, 2730485921, 2820302411,
    3259730800, 3345764771, 3516065817, 3600352804, 4094571909, 275423344,
    430227734, 506948616, 659060556, 883997877, 958139571, 1322822218,
    1537002063, 1747873779, 1955562222, 2024104815, 2227730452, 2361852424,
    2428436474, 2756734187, 3204031479, 3329325298]"

definition rotr :: "u32 \<Rightarrow> nat \<Rightarrow> u32" where
  "rotr v bits = drop_bit bits v OR push_bit (32 - bits) v"

fun block_words :: "u8 list \<Rightarrow> u32 list" where
  "block_words (a # b # c # d # rest) =
     (push_bit 24 (ucast a) OR push_bit 16 (ucast b) OR push_bit 8 (ucast c) OR ucast d) # block_words rest"
| "block_words _ = []"

definition schedule_step :: "u32 list \<Rightarrow> u32 list" where
  "schedule_step w =
     (let i = length w;
          s0 = rotr (w ! (i - 15)) 7 XOR rotr (w ! (i - 15)) 18 XOR drop_bit 3 (w ! (i - 15));
          s1 = rotr (w ! (i - 2)) 17 XOR rotr (w ! (i - 2)) 19 XOR drop_bit 10 (w ! (i - 2))
      in w @ [w ! (i - 16) + s0 + w ! (i - 7) + s1])"

definition message_schedule :: "u8 list \<Rightarrow> u32 list" where
  "message_schedule block = (schedule_step ^^ 48) (block_words block)"

datatype Sha256State = Sha256State u32 u32 u32 u32 u32 u32 u32 u32

fun sha_round :: "u32 \<times> u32 \<Rightarrow> Sha256State \<Rightarrow> Sha256State" where
  "sha_round (k, w) (Sha256State a b c d e f g h) =
     (let s1 = rotr e 6 XOR rotr e 11 XOR rotr e 25;
          ch = (e AND f) XOR (NOT e AND g);
          temp1 = h + s1 + ch + k + w;
          s0 = rotr a 2 XOR rotr a 13 XOR rotr a 22;
          maj = (a AND b) XOR (a AND c) XOR (b AND c);
          temp2 = s0 + maj
      in Sha256State (temp1 + temp2) a b c (d + temp1) e f g)"

fun sha_add :: "Sha256State \<Rightarrow> Sha256State \<Rightarrow> Sha256State" where
  "sha_add (Sha256State a b c d e f g h) (Sha256State a' b' c' d' e' f' g' h') =
     Sha256State (a + a') (b + b') (c + c') (d + d') (e + e') (f + f') (g + g') (h + h')"

definition sha_compress :: "u8 list \<Rightarrow> Sha256State \<Rightarrow> Sha256State" where
  "sha_compress block st = sha_add st (fold sha_round (zip kK (message_schedule block)) st)"

section \<open>Streaming\<close>

record Sha256 =
  sha_state :: Sha256State
  sha_bit_length :: u64
  sha_buffer :: "u8 list"

definition sha_init_state :: Sha256State where
  "sha_init_state = Sha256State 0x6a09e667 0xbb67ae85 0x3c6ef372 0xa54ff53a
     0x510e527f 0x9b05688c 0x1f83d9ab 0x5be0cd19"

definition sha_init :: Sha256 where
  "sha_init = \<lparr>sha_state = sha_init_state, sha_bit_length = 0, sha_buffer = []\<rparr>"

definition sha_flush :: "Sha256 \<Rightarrow> Sha256" where
  "sha_flush s = s\<lparr>sha_state := sha_compress (sha_buffer s) (sha_state s), sha_buffer := []\<rparr>"

text \<open>First loop of \<open>update\<close>: top up a partly filled buffer; returns the bytes left.\<close>

definition sha_top_up :: "u8 list \<Rightarrow> Sha256 \<Rightarrow> u8 list \<times> Sha256" where
  "sha_top_up bytes s =
     (if sha_buffer s \<noteq> [] then
        (let n = 64 - length (sha_buffer s);
             s = s\<lparr>sha_buffer := sha_buffer s @ take n bytes\<rparr>
         in (drop n bytes, if length (sha_buffer s) = 64 then sha_flush s else s))
      else (bytes, s))"

text \<open>Second loop: whole blocks straight from the input.\<close>

function sha_blocks :: "u8 list \<Rightarrow> Sha256State \<Rightarrow> u8 list \<times> Sha256State" where
  "sha_blocks bytes st =
     (if length bytes \<ge> 64 then sha_blocks (drop 64 bytes) (sha_compress (take 64 bytes) st)
      else (bytes, st))"
  by pat_completeness auto

termination sha_blocks
  by (relation "measure (\<lambda>(bytes, st). length bytes)") auto

declare sha_blocks.simps [simp del]

text \<open>Third loop: buffer the rest, with the source's (unreachable) guard.\<close>

definition sha_push :: "u8 \<Rightarrow> Sha256 \<Rightarrow> Sha256" where
  "sha_push b s =
     (let s = (if length (sha_buffer s) \<ge> 64 then sha_flush s else s)
      in s\<lparr>sha_buffer := sha_buffer s @ [b]\<rparr>)"

definition sha_update :: "u8 list \<Rightarrow> Sha256 \<Rightarrow> Sha256" where
  "sha_update bytes s =
     (let s = s\<lparr>sha_bit_length := sha_bit_length s + of_nat (length bytes) * 8\<rparr>;
          (rest, s) = sha_top_up bytes s;
          (rest, st) = sha_blocks rest (sha_state s)
      in fold sha_push rest (s\<lparr>sha_state := st\<rparr>))"

definition pad_left :: "Sha256 \<Rightarrow> nat" where
  "pad_left s =
     (let n = length (sha_buffer s)
      in if n \<le> 56 then 56 - n else if n < 64 then 120 - n else 200)"

lemma sha_update_zero_length:
  "length (sha_buffer (sha_update [b] s)) =
     (let n = length (sha_buffer s) in if n < 63 then Suc n else if n = 63 then 0 else 1)"
  by (auto simp: sha_update_def sha_top_up_def sha_flush_def sha_push_def Let_def sha_blocks.simps
      split: prod.splits)

function sha_pad_zeros :: "Sha256 \<Rightarrow> Sha256" where
  "sha_pad_zeros s = (if length (sha_buffer s) \<noteq> 56 then sha_pad_zeros (sha_update [0] s) else s)"
  by pat_completeness auto

termination sha_pad_zeros
  by (relation "measure pad_left") (auto simp: pad_left_def sha_update_zero_length Let_def)

declare sha_pad_zeros.simps [simp del]

definition be_u64 :: "u64 \<Rightarrow> u8 list" where
  "be_u64 v = map (\<lambda>i. ucast (drop_bit (56 - i * 8) v AND 0xFF)) [0, 1, 2, 3, 4, 5, 6, 7]"

definition be_u32 :: "u32 \<Rightarrow> u8 list" where
  "be_u32 v = map (\<lambda>i. ucast (drop_bit i v AND 0xFF)) [24, 16, 8, 0]"

fun sha_digest :: "Sha256State \<Rightarrow> u8 list" where
  "sha_digest (Sha256State a b c d e f g h) = concat (map be_u32 [a, b, c, d, e, f, g, h])"

definition sha_finish :: "Sha256 \<Rightarrow> u8 list" where
  "sha_finish s0 =
     (let bit_length = sha_bit_length s0;
          s = sha_pad_zeros (sha_update [0x80] s0);
          s = sha_flush (s\<lparr>sha_buffer := sha_buffer s @ be_u64 bit_length\<rparr>)
      in sha_digest (sha_state s))"

definition sha256_compute :: "u8 list \<Rightarrow> u8 list" where
  "sha256_compute bytes = sha_finish (sha_update bytes sha_init)"

definition hex_digit :: "u8 \<Rightarrow> char" where
  "hex_digit v = ''0123456789abcdef'' ! unat v"

definition to_hex :: "u8 list \<Rightarrow> string" where
  "to_hex digest = concat (map (\<lambda>b. [hex_digit (drop_bit 4 b AND 0x0F), hex_digit (b AND 0x0F)]) digest)"

section \<open>Equivalence with the one-shot definition\<close>

definition sha_ok :: "Sha256 \<Rightarrow> bool" where
  "sha_ok s \<longleftrightarrow> length (sha_buffer s) < 64"

lemma sha_push_fold:
  "length (sha_buffer s) + length bs \<le> 64 \<Longrightarrow>
   fold sha_push bs s = s\<lparr>sha_buffer := sha_buffer s @ bs\<rparr>"
  by (induction bs arbitrary: s) (simp_all add: sha_push_def)

lemma sha_blocks_rest: "length (fst (sha_blocks bs st)) < 64"
  by (induction bs st rule: sha_blocks.induct) (subst sha_blocks.simps, simp)

lemma sha_blocks_append:
  "sha_blocks (bs @ cs) st = (case sha_blocks bs st of (r, st') \<Rightarrow> sha_blocks (r @ cs) st')"
proof (induction bs st rule: sha_blocks.induct)
  case (1 bs st)
  show ?case
  proof (cases "length bs \<ge> 64")
    case True
    then have "sha_blocks (bs @ cs) st = sha_blocks (drop 64 bs @ cs) (sha_compress (take 64 bs) st)"
      by (subst sha_blocks.simps) simp
    with 1 True show ?thesis by (subst (2) sha_blocks.simps) simp
  next
    case False
    then show ?thesis by (subst (2) sha_blocks.simps) simp
  qed
qed

text \<open>One call of \<open>update\<close> processes the buffered bytes followed by the new ones.\<close>

lemma sha_update_blocks:
  assumes "sha_ok s"
  shows "sha_update bs s = s\<lparr>sha_bit_length := sha_bit_length s + of_nat (length bs) * 8,
      sha_state := snd (sha_blocks (sha_buffer s @ bs) (sha_state s)),
      sha_buffer := fst (sha_blocks (sha_buffer s @ bs) (sha_state s))\<rparr>"
proof (cases "sha_buffer s = []")
  case True
  then show ?thesis
    using sha_blocks_rest [of bs "sha_state s"] assms
    by (simp add: sha_update_def sha_top_up_def Let_def sha_push_fold case_prod_beta)
next
  case False
  let ?n = "64 - length (sha_buffer s)"
  show ?thesis
  proof (cases "length bs < ?n")
    case True
    then have n: "\<not> 64 \<le> length (sha_buffer s @ bs)" using assms by (simp add: sha_ok_def)
    then have b: "sha_blocks (sha_buffer s @ bs) (sha_state s) = (sha_buffer s @ bs, sha_state s)"
      by (subst sha_blocks.simps) (simp only: if_False)
    from n False True show ?thesis
      unfolding b by (simp add: sha_update_def sha_top_up_def Let_def sha_blocks.simps)
  next
    case full: False
    then have "take 64 (sha_buffer s @ bs) = sha_buffer s @ take ?n bs"
      "drop 64 (sha_buffer s @ bs) = drop ?n bs" "length (sha_buffer s @ bs) \<ge> 64"
      using assms by (simp_all add: sha_ok_def)
    then have b: "sha_blocks (sha_buffer s @ bs) (sha_state s) =
        sha_blocks (drop ?n bs) (sha_compress (sha_buffer s @ take ?n bs) (sha_state s))"
      by (subst sha_blocks.simps) simp
    have l: "length (sha_buffer s @ take ?n bs) = 64" using full assms by (simp add: sha_ok_def)
    show ?thesis
      using False l sha_blocks_rest [of "drop ?n bs" "sha_compress (sha_buffer s @ take ?n bs) (sha_state s)"]
      unfolding b
      by (simp add: sha_update_def sha_top_up_def sha_flush_def Let_def sha_push_fold case_prod_beta)
  qed
qed

lemma sha_update_ok: "sha_ok s \<Longrightarrow> sha_ok (sha_update bs s)"
  by (simp add: sha_update_blocks sha_blocks_rest) (simp add: sha_ok_def sha_blocks_rest)

lemma sha_init_ok [simp]: "sha_ok sha_init"
  by (simp add: sha_ok_def sha_init_def)

lemma sha_update_concat:
  assumes "sha_ok s"
  shows "sha_update ys (sha_update xs s) = sha_update (xs @ ys) s"
proof -
  have "sha_blocks (sha_buffer s @ xs @ ys) (sha_state s) =
      (case sha_blocks (sha_buffer s @ xs) (sha_state s) of (r, st) \<Rightarrow> sha_blocks (r @ ys) st)"
    using sha_blocks_append [of "sha_buffer s @ xs" ys] by simp
  with assms sha_update_ok [OF assms, of xs] show ?thesis
    by (simp add: sha_update_blocks case_prod_beta algebra_simps)
qed

text \<open>
  Feeding a message in pieces is feeding it at once.
\<close>

theorem sha_update_append:
  assumes "sha_ok s"
  shows "sha_update ys (sha_update xs s) = sha_update (xs @ ys) s \<and> sha_ok (sha_update xs s)"
  using assms by (simp add: sha_update_concat sha_update_ok)

text \<open>The padding of the standard: one set bit, zeros up to 56 modulo 64, the length in bits.\<close>

definition sha_padded :: "u8 list \<Rightarrow> u8 list" where
  "sha_padded m = m @ [0x80] @ replicate ((119 - length m mod 64) mod 64) 0 @ be_u64 (of_nat (length m) * 8)"

definition sha256_spec :: "u8 list \<Rightarrow> u8 list" where
  "sha256_spec m = sha_digest (snd (sha_blocks (sha_padded m) sha_init_state))"

lemma sha_blocks_length: "length (fst (sha_blocks bs st)) = length bs mod 64"
  by (induction bs st rule: sha_blocks.induct) (subst sha_blocks.simps, simp add: mod_if)

lemma sha_update_nil: "sha_ok s \<Longrightarrow> sha_update [] s = s"
  by (simp add: sha_update_blocks sha_ok_def sha_blocks.simps)

lemma sha_pad_zeros_update:
  "sha_ok s \<Longrightarrow> sha_pad_zeros s = sha_update (replicate (pad_left s) 0) s"
proof (induction s rule: sha_pad_zeros.induct)
  case (1 s)
  show ?case
  proof (cases "length (sha_buffer s) = 56")
    case True
    then show ?thesis using 1 by (subst sha_pad_zeros.simps) (simp add: pad_left_def sha_update_nil)
  next
    case False
    then have p: "pad_left s = Suc (pad_left (sha_update [0] s))"
      using 1 by (auto simp: pad_left_def sha_update_zero_length sha_ok_def Let_def)
    have "sha_pad_zeros s = sha_pad_zeros (sha_update [0] s)"
      using False by (subst sha_pad_zeros.simps) simp
    also have "\<dots> = sha_update (replicate (pad_left (sha_update [0] s)) 0) (sha_update [0] s)"
      using 1 False sha_update_ok by simp
    finally show ?thesis using 1 p by (simp add: sha_update_concat)
  qed
qed

lemma pad_zeros_eq: "(119 - n mod 64) mod 64 = (if n mod 64 \<le> 55 then 55 - n mod 64 else 119 - n mod (64::nat))"
proof (cases "n mod 64 \<le> 55")
  case True
  then have "119 - n mod 64 = 64 + (55 - n mod 64)" by simp
  then have "(119 - n mod 64) mod 64 = (55 - n mod 64) mod 64" by (simp only: mod_add_self1)
  with True show ?thesis by simp
next
  case False
  then have "119 - n mod 64 < 64" by simp
  with False show ?thesis by simp
qed

lemma pad_left_mod:
  assumes "length (sha_buffer s) = Suc n mod 64"
  shows "pad_left s = (119 - n mod 64) mod 64"
proof -
  have "n mod 64 < 64" by simp
  with assms show ?thesis unfolding pad_zeros_eq
    by (auto simp: pad_left_def Let_def mod_Suc)
qed

lemma padded_length: "(n + (1 + (119 - n mod 64) mod 64)) mod 64 = (56 :: nat)"
proof -
  have "n mod 64 < 64" by simp
  then have "n mod 64 + (1 + (119 - n mod 64) mod 64) = 56 \<or> n mod 64 + (1 + (119 - n mod 64) mod 64) = 64 + 56"
    unfolding pad_zeros_eq by auto
  then have "(n mod 64 + (1 + (119 - n mod 64) mod 64)) mod 64 = 56"
    by (elim disjE) (simp_all only:, simp_all)
  then show ?thesis by (simp only: mod_add_left_eq)
qed

lemma be_u64_length [simp]: "length (be_u64 v) = 8" by (simp add: be_u64_def)

text \<open>
  C39. The streaming implementation computes the one-shot hash: the digest of a message is
  that of the padded message cut into 64-byte blocks.
\<close>

theorem sha256_compute_spec: "sha256_compute m = sha256_spec m"
proof -
  let ?z = "replicate ((119 - length m mod 64) mod 64) 0"
  let ?m = "m @ [0x80] @ ?z"
  let ?b = "sha_blocks ?m sha_init_state"
  have l80: "length (sha_buffer (sha_update (m @ [0x80]) sha_init)) = Suc (length m) mod 64"
    by (simp add: sha_update_blocks sha_blocks_length) (simp add: sha_init_def)
  have "sha_pad_zeros (sha_update [0x80] (sha_update m sha_init)) = sha_update ?m sha_init"
    using pad_left_mod [OF l80] by (simp add: sha_update_concat sha_pad_zeros_update sha_update_ok)
  then have c: "sha256_compute m = sha_digest (sha_compress (fst ?b @ be_u64 (of_nat (length m) * 8)) (snd ?b))"
    by (simp add: sha256_compute_def sha_finish_def Let_def sha_flush_def sha_update_blocks)
       (simp add: sha_init_def)
  have "length ?m = length m + (1 + (119 - length m mod 64) mod 64)" by simp
  then have "length (fst ?b) = 56" by (simp only: sha_blocks_length padded_length)
  then have "sha_blocks (fst ?b @ be_u64 (of_nat (length m) * 8)) (snd ?b) =
      ([], sha_compress (fst ?b @ be_u64 (of_nat (length m) * 8)) (snd ?b))"
    by (simp add: sha_blocks.simps)
  then have "snd (sha_blocks (sha_padded m) sha_init_state) =
      sha_compress (fst ?b @ be_u64 (of_nat (length m) * 8)) (snd ?b)"
    using sha_blocks_append [of ?m "be_u64 (of_nat (length m) * 8)" sha_init_state]
    by (simp add: sha_padded_def case_prod_beta)
  with c show ?thesis by (simp add: sha256_spec_def)
qed

theorem sha_update_append_witness:
  "sha_update [3] (sha_update [1, 2] sha_init) = sha_update [1, 2, 3] sha_init"
  using sha_update_append [of sha_init "[3]" "[1, 2]"] by simp

lemma sha256_length [simp]: "length (sha256_compute m) = 32"
proof -
  have "length (sha_digest st) = 32" for st by (cases st) (simp add: be_u32_def)
  then show ?thesis by (simp add: sha256_compute_def sha_finish_def Let_def)
qed

end
