(* ===== verification/Fcf_Digest.thy ===== *)
theory Fcf_Digest
  imports Fcf_Sha256 Fcf_Fault
begin

text \<open>
  The digest of a fault observation (\<open>src/fault.cpp\<close>), the key under which the runtime recognises
  a republished fault. The message hashed is an injective encoding of everything in the evidence
  but its identity and the digest itself, so two observations that share a digest are the same
  observation, or a collision of SHA-256, or both could not be written at all.
\<close>

definition evidence_message :: "FaultEvidence \<Rightarrow> ByteWriter" where
  "evidence_message e = writes
     [wr_u64 (id_value (fe_generation e)),
      wr_str (FaultKind_str (fe_kind e)),
      wr_u64 (id_value (fe_subject e)),
      wr_u64 (id_value (fe_subject_generation e)),
      wr_str (ReporterKind_str (fe_reporter_kind e)),
      wr_u64 (id_value (fe_reporter_worker e)),
      wr_u64 (id_value (fe_reporter_boot e)),
      wr_u64 (id_value (fe_epoch e)),
      wr_str (EvidenceProvenance_str (fe_provenance e)),
      wr_u64 (id_value (fe_observation_sequence e)),
      wr_u64 (fe_publication_time_ms e),
      wr_str (EvidenceFreshness_str (fe_freshness e)),
      wr_str (IntegrityStatus_str (fe_integrity e)),
      wr_u16 (fe_confidence_permille e),
      wr_str (fe_details e)] ByteWriter_default"

definition compute_evidence_digest :: "FaultEvidence \<Rightarrow> u8 list" where
  "compute_evidence_digest e =
     (let writer = evidence_message e
      in if \<not> bw_ok writer then replicate 32 0 else sha256_compute (bw_buffer writer))"

definition evidence_digest_hex :: "FaultRecord \<Rightarrow> string" where
  "evidence_digest_hex r = to_hex (fe_digest (fr_evidence r))"

section \<open>Injectivity of the message\<close>

lemma le_u64_inj: "le_u64 a = le_u64 b \<longleftrightarrow> a = b"
  by (metis le_value_u64 ucast_id)

lemma le_u16_inj: "le_u16 a = le_u16 b \<longleftrightarrow> a = b"
  by (metis le_value_u16 ucast_id)

lemma le_prefix_free:
  "le_u64 a @ s = le_u64 b @ t \<longleftrightarrow> a = b \<and> s = t"
  "le_u16 c @ s = le_u16 d @ t \<longleftrightarrow> c = d \<and> s = t"
  by (simp_all add: append_eq_append_conv le_u64_inj le_u16_inj)

lemma id_val_eq: "id_value i = id_value j \<longleftrightarrow> i = j"
  by (cases i; cases j) simp

lemma str_prefix_free:
  "str_good a \<Longrightarrow> str_good b \<Longrightarrow> enc_str a @ s = enc_str b @ t \<longleftrightarrow> a = b \<and> s = t"
  using rc_str.enc_prefix_free [of a b s t] by auto

lemma str_inj: "str_good a \<Longrightarrow> str_good b \<Longrightarrow> enc_str a = enc_str b \<longleftrightarrow> a = b"
  using str_prefix_free [of a b "[]" "[]"] by simp

lemma evidence_message_bytes:
  assumes "bw_ok (evidence_message e)"
  shows "bw_buffer (evidence_message e) =
      le_u64 (id_value (fe_generation e)) @ enc_str (FaultKind_str (fe_kind e)) @
      le_u64 (id_value (fe_subject e)) @ le_u64 (id_value (fe_subject_generation e)) @
      enc_str (ReporterKind_str (fe_reporter_kind e)) @ le_u64 (id_value (fe_reporter_worker e)) @
      le_u64 (id_value (fe_reporter_boot e)) @ le_u64 (id_value (fe_epoch e)) @
      enc_str (EvidenceProvenance_str (fe_provenance e)) @ le_u64 (id_value (fe_observation_sequence e)) @
      le_u64 (fe_publication_time_ms e) @ enc_str (EvidenceFreshness_str (fe_freshness e)) @
      enc_str (IntegrityStatus_str (fe_integrity e)) @ le_u16 (fe_confidence_permille e) @
      enc_str (fe_details e) @ [] \<and>
    str_good (FaultKind_str (fe_kind e)) \<and> str_good (ReporterKind_str (fe_reporter_kind e)) \<and>
    str_good (EvidenceProvenance_str (fe_provenance e)) \<and> str_good (EvidenceFreshness_str (fe_freshness e)) \<and>
    str_good (IntegrityStatus_str (fe_integrity e)) \<and> str_good (fe_details e)"
  using emitsD [OF emits_writes_Cons [OF emits_u64 emits_writes_Cons [OF emits_str
      emits_writes_Cons [OF emits_u64 emits_writes_Cons [OF emits_u64 emits_writes_Cons [OF emits_str
      emits_writes_Cons [OF emits_u64 emits_writes_Cons [OF emits_u64 emits_writes_Cons [OF emits_u64
      emits_writes_Cons [OF emits_str emits_writes_Cons [OF emits_u64 emits_writes_Cons [OF emits_u64
      emits_writes_Cons [OF emits_str emits_writes_Cons [OF emits_str emits_writes_Cons [OF emits_u16
      emits_writes_Cons [OF emits_str emits_writes_Nil]]]]]]]]]]]]]]],
      OF assms [unfolded evidence_message_def]]
  unfolding evidence_message_def [symmetric] by (simp add: ByteWriter_default_def)

lemma evidence_message_inj:
  assumes "bw_ok (evidence_message a)" and "bw_ok (evidence_message b)"
    and "bw_buffer (evidence_message a) = bw_buffer (evidence_message b)"
  shows "b\<lparr>fe_id := fe_id a, fe_digest := fe_digest a\<rparr> = a"
proof -
  note A = evidence_message_bytes [OF assms(1)] and B = evidence_message_bytes [OF assms(2)]
  from A B assms(3) show ?thesis
    by (cases a, cases b)
      (simp add: le_prefix_free str_prefix_free str_inj en_FaultKind.to_str_inj en_ReporterKind.to_str_inj
        en_EvidenceProvenance.to_str_inj en_EvidenceFreshness.to_str_inj en_IntegrityStatus.to_str_inj
        id_val_eq)
qed

text \<open>
  C40. A digest identifies the observation up to collisions of the hash. The digest ignores
  the identity the evidence was published under and a digest it may already carry; and when two
  writable observations have the same digest, they agree in every other field, or two different
  messages with the same SHA-256 value have been found.
\<close>

theorem evidence_digest_identifies:
  assumes "bw_ok (evidence_message a)" and "bw_ok (evidence_message b)"
  shows "compute_evidence_digest a = compute_evidence_digest b \<longleftrightarrow>
      b\<lparr>fe_id := fe_id a, fe_digest := fe_digest a\<rparr> = a \<or>
      (bw_buffer (evidence_message a) \<noteq> bw_buffer (evidence_message b) \<and>
       sha256_compute (bw_buffer (evidence_message a)) = sha256_compute (bw_buffer (evidence_message b)))"
proof -
  have same: "evidence_message a = evidence_message b"
    if "b\<lparr>fe_id := fe_id a, fe_digest := fe_digest a\<rparr> = a"
  proof -
    have "evidence_message (b\<lparr>fe_id := fe_id a, fe_digest := fe_digest a\<rparr>) = evidence_message b"
      by (simp add: evidence_message_def)
    with that show ?thesis by simp
  qed
  have d: "compute_evidence_digest a = sha256_compute (bw_buffer (evidence_message a))"
    "compute_evidence_digest b = sha256_compute (bw_buffer (evidence_message b))"
    using assms by (simp_all add: compute_evidence_digest_def)
  show ?thesis unfolding d using same evidence_message_inj [OF assms] by metis
qed

lemma evidence_message_default_ok: "bw_ok (evidence_message FaultEvidence_default)"
  by code_simp

theorem evidence_digest_identifies_witness:
  "compute_evidence_digest (FaultEvidence_default\<lparr>fe_id := Id 7\<rparr>) = compute_evidence_digest FaultEvidence_default"
proof -
  have m: "evidence_message (FaultEvidence_default\<lparr>fe_id := Id 7\<rparr>) = evidence_message FaultEvidence_default"
    by (simp add: evidence_message_def)
  have "bw_ok (evidence_message (FaultEvidence_default\<lparr>fe_id := Id 7\<rparr>))"
    unfolding m by (rule evidence_message_default_ok)
  from evidence_digest_identifies [OF this evidence_message_default_ok]
  show ?thesis by simp
qed

end
