(* ===== verification/Fcf_Blast_Radius.thy ===== *)
theory Fcf_Blast_Radius
  imports Fcf_Records Fcf_Worker
begin

text \<open>
  The deterministic blast-radius computation (\<open>src/blast_radius.cpp\<close>,
  \<open>src/blast_radius_internal.hpp\<close>): which resources a fault makes mandatory to contain, which are
  precautionary, which are proven unaffected and which stay unresolved.

  The function is modelled phase by phase, in the order of the code. \<open>std::set\<close> is a canonical
  identity set, \<open>insert(x).second\<close> is the test that \<open>x\<close> was not a member. The one access of the
  code that can throw (\<open>resources.at(current)\<close> in the traversal) makes the traversal return
  \<open>None\<close>; every other value is \<open>Some\<close>.
\<close>

section \<open>Inputs and helpers\<close>

record BlastRadiusInput =
  bri_topology :: "Topology option"
  bri_policy :: "ContainmentPolicy option"
  bri_fault :: "FaultRecord option"
  bri_workers :: "WorkerRegistry option"
  bri_epoch :: CoordinatorEpoch
  bri_generation :: ContainmentGeneration

definition resource_is_contained :: "ResourceRecord \<Rightarrow> bool" where
  "resource_is_contained r \<longleftrightarrow> is_contained (rr_state r) \<or> rr_quarantined r"

definition resource_is_operable :: "ResourceRecord \<Rightarrow> bool" where
  "resource_is_operable r \<longleftrightarrow> is_operable (rr_state r) \<and> \<not> rr_quarantined r"

definition resource_label :: "Topology \<Rightarrow> ResourceId \<Rightarrow> string" where
  "resource_label tp i =
     (case om_find (tp_resources tp) i of
        None \<Rightarrow> str_ResourceId i
      | Some r \<Rightarrow>
          str_ResourceId i @ (if rr_name r \<noteq> [] then '' ('' @ rr_name r @ '')'' else []))"

type_synonym Accumulator = "(ResourceId, ClassifiedResource) omap"

definition acc_include ::
    "ResourceId \<Rightarrow> ResourceGeneration \<Rightarrow> InclusionReason \<Rightarrow> string \<Rightarrow> Accumulator \<Rightarrow> Accumulator" where
  "acc_include i gen reason detail acc =
     om_adjust_default ClassifiedResource_default i
       (\<lambda>entry.
          let entry = entry\<lparr>cr_resource := i, cr_generation := gen\<rparr>
          in if \<not> cr_has_inclusion entry
             then entry\<lparr>cr_has_inclusion := True, cr_inclusion := reason, cr_detail := detail\<rparr>
             else entry) acc"

definition acc_exclude ::
    "ResourceId \<Rightarrow> ResourceGeneration \<Rightarrow> ExclusionReason \<Rightarrow> string \<Rightarrow> Accumulator \<Rightarrow> Accumulator" where
  "acc_exclude i gen reason detail acc =
     om_adjust_default ClassifiedResource_default i
       (\<lambda>entry.
          let entry = entry\<lparr>cr_resource := i, cr_generation := gen\<rparr>
          in if cr_has_inclusion entry then entry
             else if \<not> cr_has_exclusion entry
             then entry\<lparr>cr_has_exclusion := True, cr_exclusion := reason, cr_detail := detail\<rparr>
             else entry) acc"

definition acc_mark_unresolved ::
    "ResourceId \<Rightarrow> ResourceGeneration \<Rightarrow> UnresolvedReason \<Rightarrow> string \<Rightarrow> Accumulator \<Rightarrow> Accumulator" where
  "acc_mark_unresolved i gen reason detail acc =
     om_adjust_default ClassifiedResource_default i
       (\<lambda>entry.
          let entry = entry\<lparr>cr_resource := i, cr_generation := gen\<rparr>
          in if cr_has_inclusion entry \<or> cr_has_exclusion entry then entry
             else if \<not> cr_has_unresolved entry
             then entry\<lparr>cr_has_unresolved := True, cr_unresolved := reason, cr_detail := detail\<rparr>
             else entry) acc"

definition add_action :: "ContainmentActionKind list \<Rightarrow> ContainmentActionKind \<Rightarrow> ContainmentActionKind list" where
  "add_action xs kind = (if kind \<in> set xs then xs else xs @ [kind])"

text \<open>\<open>classify_propagation\<close> ignores its input argument, as the code says.\<close>

definition classify_propagation ::
    "FaultRule \<Rightarrow> DependencyEdge \<Rightarrow> bool \<Rightarrow> bool \<Rightarrow> PropagationOutcome" where
  "classify_propagation rule edge destination_contained destination_already_mandatory =
     (let evidence_sufficient = (de_freshness edge = EvidenceFreshness.FRESH \<and>
                                 de_integrity edge = IntegrityStatus.VERIFIED);
          conditional = (de_conditional edge \<or> rule_propagation rule = PropagationMode.CONDITIONAL);
          confident = (de_confidence_permille edge \<ge> rule_likely_confidence_permille rule)
      in if de_source edge = de_destination edge then PropagationOutcome.PROPAGATION_IMPOSSIBLE
         else if \<not> rule_propagates_over rule (de_kind edge)
         then PropagationOutcome.PROPAGATION_IMPOSSIBLE
         else if destination_contained then PropagationOutcome.PROPAGATION_BLOCKED
         else if \<not> evidence_sufficient then PropagationOutcome.PROPAGATION_UNKNOWN
         else if rule_propagation rule = PropagationMode.NONE
         then PropagationOutcome.PROPAGATION_IMPOSSIBLE
         else if conditional
         then (if confident then PropagationOutcome.PROPAGATION_LIKELY
               else PropagationOutcome.PROPAGATION_POSSIBLE)
         else if destination_already_mandatory then PropagationOutcome.PROPAGATION_CONFIRMED
         else if confident then PropagationOutcome.PROPAGATION_LIKELY
         else PropagationOutcome.PROPAGATION_POSSIBLE)"

section \<open>Structural co-membership\<close>

text \<open>The loop all three domain cases share: include every member that is a known resource.\<close>

definition include_members ::
    "Topology \<Rightarrow> ResourceId IdSet \<Rightarrow> InclusionReason \<Rightarrow> string \<Rightarrow> Accumulator \<Rightarrow> Accumulator" where
  "include_members tp members reason detail acc =
     for_each members
       (\<lambda>member a.
          case om_find (tp_resources tp) member of
            None \<Rightarrow> a
          | Some r \<Rightarrow> acc_include member (rr_generation r) reason detail a) acc"

definition authority_fault_kinds :: "FaultKind list" where
  "authority_fault_kinds =
     [FaultKind.PROCESS_DEATH, FaultKind.PROCESS_UNRESPONSIVE, FaultKind.WORKER_AUTHORITY_LOST,
      FaultKind.STALE_AUTHORITY]"

definition include_shared_authority ::
    "Topology \<Rightarrow> FaultKind \<Rightarrow> ResourceRecord \<Rightarrow> Accumulator \<Rightarrow> Accumulator" where
  "include_shared_authority tp kind subject acc =
     (if kind \<notin> set authority_fault_kinds then acc
      else if id_valid (rr_owner_boot subject) then
        for_each (tp_resources tp)
          (\<lambda>(_, candidate) a.
             if rr_owner_boot candidate = rr_owner_boot subject
             then acc_include (rr_id candidate) (rr_generation candidate)
                    InclusionReason.SHARED_AUTHORITY
                    (''live authority bound to '' @ str_WorkerBootId (rr_owner_boot candidate)) a
             else a) acc
      else if id_valid (rr_owner_worker subject) then
        for_each (tp_resources tp)
          (\<lambda>(_, candidate) a.
             if rr_owner_worker candidate = rr_owner_worker subject
             then acc_include (rr_id candidate) (rr_generation candidate)
                    InclusionReason.SHARED_AUTHORITY
                    (''authority derived from '' @ str_WorkerId (rr_owner_worker candidate)) a
             else a) acc
      else acc)"

definition include_isolation_domain ::
    "Topology \<Rightarrow> FaultRule \<Rightarrow> ResourceRecord \<Rightarrow> Accumulator \<Rightarrow> Accumulator" where
  "include_isolation_domain tp rule subject acc =
     (if rule_isolate_isolation_domain rule \<and> id_valid (rr_isolation_domain subject) then
        (case om_find (tp_isolation_domains tp) (rr_isolation_domain subject) of
           None \<Rightarrow> acc
         | Some d \<Rightarrow>
             include_members tp (idm_members d) InclusionReason.SHARED_ISOLATION_DOMAIN
               (''inseparable in isolation domain '' @
                str_IsolationDomainId (rr_isolation_domain subject)) acc)
      else acc)"

definition include_failure_domain ::
    "Topology \<Rightarrow> FaultRule \<Rightarrow> ResourceRecord \<Rightarrow> Accumulator \<Rightarrow> Accumulator" where
  "include_failure_domain tp rule subject acc =
     (if rule_isolate_failure_domain rule \<and> id_valid (rr_failure_domain subject) then
        (case om_find (tp_failure_domains tp) (rr_failure_domain subject) of
           None \<Rightarrow> acc
         | Some d \<Rightarrow>
             include_members tp (fd_members d) InclusionReason.SHARED_FAILURE_DOMAIN
               (''correlated failure domain '' @
                str_FailureDomainId (rr_failure_domain subject)) acc)
      else acc)"

definition include_containment_domain ::
    "Topology \<Rightarrow> FaultRule \<Rightarrow> ResourceRecord \<Rightarrow> Accumulator \<Rightarrow> Accumulator" where
  "include_containment_domain tp rule subject acc =
     (if rule_co_isolate_containment_domain rule \<and> id_valid (rr_containment_domain subject) then
        (case om_find (tp_containment_domains tp) (rr_containment_domain subject) of
           None \<Rightarrow> acc
         | Some d \<Rightarrow>
             if cd_co_isolate_members d
             then include_members tp (cd_members d) InclusionReason.DOMAIN_CO_ISOLATION
                    (''containment domain '' @
                     str_ContainmentDomainId (rr_containment_domain subject) @
                     '' refuses separation'') acc
             else acc)
      else acc)"

definition structural_inclusions ::
    "Topology \<Rightarrow> FaultRule \<Rightarrow> FaultKind \<Rightarrow> ResourceRecord \<Rightarrow> Accumulator" where
  "structural_inclusions tp rule kind subject =
     include_containment_domain tp rule subject
       (include_failure_domain tp rule subject
         (include_isolation_domain tp rule subject
           (include_shared_authority tp kind subject
             (acc_include (rr_id subject) (rr_generation subject) InclusionReason.FAULT_SUBJECT
               (''subject of '' @ FaultKind_str kind) []))))"

section \<open>The propagation fixpoint\<close>

text \<open>The local variables of the traversal, and the result under construction.\<close>

record Work =
  w_acc :: Accumulator
  w_mandatory :: "ResourceId IdSet"
  w_visited :: "ResourceId IdSet"
  w_frontier :: "ResourceId list"
  w_precautionary :: "ResourceId list"
  w_radius :: BlastRadius

definition set_outcome :: "DependencyId \<Rightarrow> PropagationOutcome \<Rightarrow> Work \<Rightarrow> Work" where
  "set_outcome e outcome w =
     w\<lparr>w_radius := (w_radius w)\<lparr>br_edge_outcomes := om_put e outcome (br_edge_outcomes (w_radius w))\<rparr>\<rparr>"

definition push_hop :: "PropagationHop \<Rightarrow> Work \<Rightarrow> Work" where
  "push_hop hop w =
     w\<lparr>w_radius := (w_radius w)\<lparr>br_propagation := br_propagation (w_radius w) @ [hop]\<rparr>\<rparr>"

definition add_precautionary :: "ResourceId \<Rightarrow> Work \<Rightarrow> Work" where
  "add_precautionary i w =
     (if i \<in> set (w_precautionary w) then w else w\<lparr>w_precautionary := w_precautionary w @ [i]\<rparr>)"

text \<open>The hard-edge branch: \<open>mandatory_set.insert(d).second\<close> guards the push to the frontier.\<close>

definition follow_hard_edge ::
    "ResourceId \<Rightarrow> DependencyEdge \<Rightarrow> ResourceRecord \<Rightarrow> PropagationHop \<Rightarrow> Work \<Rightarrow> Work" where
  "follow_hard_edge current edge destination hop w =
     (let w = push_hop (hop\<lparr>hop_reason := InclusionReason.PROPAGATION_HARD_EDGE\<rparr>) w;
          d = rr_id destination;
          w = (if d \<in> set (w_mandatory w) then w
               else w\<lparr>w_mandatory := id_set_add (w_mandatory w) d,
                      w_frontier := sort (w_frontier w @ [d])\<rparr>)
      in w\<lparr>w_acc := acc_include d (rr_generation destination) InclusionReason.PROPAGATION_HARD_EDGE
             (''propagation from '' @ str_ResourceId current @ '' over '' @
              DependencyKind_str (de_kind edge)) (w_acc w)\<rparr>)"

definition follow_conditional_edge :: "ResourceRecord \<Rightarrow> PropagationHop \<Rightarrow> Work \<Rightarrow> Work" where
  "follow_conditional_edge destination hop w =
     push_hop (hop\<lparr>hop_reason := InclusionReason.PROPAGATION_CONDITIONAL_EDGE\<rparr>)
       (add_precautionary (rr_id destination) w)"

definition follow_unknown_edge ::
    "DependencyId \<Rightarrow> DependencyEdge \<Rightarrow> ResourceRecord \<Rightarrow> PropagationHop \<Rightarrow> Work \<Rightarrow> Work" where
  "follow_unknown_edge edge_id edge destination hop w =
     (let w = push_hop (hop\<lparr>hop_reason := InclusionReason.PROPAGATION_HARD_EDGE\<rparr>) w
      in w\<lparr>w_acc := acc_mark_unresolved (rr_id destination) (rr_generation destination)
             UnresolvedReason.DEPENDENCY_FRESHNESS_UNKNOWN
             (''dependency '' @ str_DependencyId edge_id @ '' freshness '' @
              EvidenceFreshness_str (de_freshness edge)) (w_acc w)\<rparr>)"

definition visit_known_destination ::
    "FaultRule \<Rightarrow> ResourceId \<Rightarrow> DependencyId \<Rightarrow> DependencyEdge \<Rightarrow> ResourceRecord \<Rightarrow> Work \<Rightarrow> Work" where
  "visit_known_destination rule current edge_id edge destination w =
     (let outcome = classify_propagation rule edge (resource_is_contained destination)
                      (rr_id destination \<in> set (w_mandatory w));
          w = set_outcome edge_id outcome w;
          hop = PropagationHop_default\<lparr>hop_from := current, hop_to := rr_id destination,
                  hop_dependency := edge_id, hop_kind := de_kind edge, hop_outcome := outcome\<rparr>
      in if outcome \<in> set [PropagationOutcome.PROPAGATION_CONFIRMED,
                          PropagationOutcome.PROPAGATION_LIKELY,
                          PropagationOutcome.PROPAGATION_POSSIBLE]
         then (if de_conditional edge \<or> rule_propagation rule = PropagationMode.CONDITIONAL
               then follow_conditional_edge destination hop w
               else follow_hard_edge current edge destination hop w)
         else if outcome = PropagationOutcome.PROPAGATION_UNKNOWN
         then follow_unknown_edge edge_id edge destination hop w
         else w)"

definition visit_edge ::
    "Topology \<Rightarrow> FaultRule \<Rightarrow> ResourceId \<Rightarrow> DependencyId \<Rightarrow> Work \<Rightarrow> Work option" where
  "visit_edge tp rule current edge_id w =
     (case graph_find (tp_dependencies tp) edge_id of
        None \<Rightarrow> Some w
      | Some edge \<Rightarrow>
          (case om_find (tp_resources tp) (de_destination edge) of
             None \<Rightarrow>
               (case om_find (tp_resources tp) current of
                  None \<Rightarrow> None
                | Some r \<Rightarrow>
                    let w = set_outcome edge_id PropagationOutcome.PROPAGATION_UNKNOWN w
                    in Some (w\<lparr>w_acc := acc_mark_unresolved current (rr_generation r)
                              UnresolvedReason.TOPOLOGY_UNKNOWN
                              (''dependency '' @ str_DependencyId edge_id @
                               '' targets an unknown resource'') (w_acc w)\<rparr>))
           | Some destination \<Rightarrow>
               Some (visit_known_destination rule current edge_id edge destination w)))"

fun visit_edges ::
    "Topology \<Rightarrow> FaultRule \<Rightarrow> ResourceId \<Rightarrow> DependencyId list \<Rightarrow> Work \<Rightarrow> Work option" where
  "visit_edges tp rule current [] w = Some w"
| "visit_edges tp rule current (e # es) w =
     (case visit_edge tp rule current e w of
        None \<Rightarrow> None
      | Some w' \<Rightarrow> visit_edges tp rule current es w')"

text \<open>
  The \<open>while\<close> loop. Each iteration takes one resource off the frontier; a resource is only pushed
  when it enters the mandatory set, so the length of the frontier plus the number of resources
  that are not mandatory yet decreases.
\<close>

definition resource_ids :: "Topology \<Rightarrow> ResourceId set" where
  "resource_ids tp = rr_id ` snd ` set (tp_resources tp)"

definition work_measure :: "Topology \<Rightarrow> Work \<Rightarrow> nat" where
  "work_measure tp w = length (w_frontier w) + card (resource_ids tp - set (w_mandatory w))"

lemma finite_resource_ids [simp]: "finite (resource_ids tp)"
  by (simp add: resource_ids_def)

lemmas work_step_defs = set_outcome_def push_hop_def add_precautionary_def follow_hard_edge_def
  follow_conditional_edge_def follow_unknown_edge_def visit_known_destination_def Let_def

lemma om_find_resource_id: "om_find (tp_resources tp) k = Some r \<Longrightarrow> rr_id r \<in> resource_ids tp"
  by (force simp: resource_ids_def dest: om_find_in_set)

lemma visit_known_destination_measure:
  assumes "rr_id destination \<in> resource_ids tp"
  shows "work_measure tp (visit_known_destination rule current e edge destination w) \<le> work_measure tp w"
proof -
  let ?d = "rr_id destination" and ?I = "resource_ids tp" and ?M = "set (w_mandatory w)"
  have "Suc (card (?I - insert ?d ?M)) = card (?I - ?M)" if "?d \<notin> ?M"
    using assms that card_Suc_Diff1 [of "?I - ?M" ?d] by (subst Diff_insert) simp
  then show ?thesis by (auto simp: work_step_defs work_measure_def)
qed

lemma visit_edge_measure:
  assumes "visit_edge tp rule current e w = Some w'"
  shows "work_measure tp w' \<le> work_measure tp w"
proof (cases "graph_find (tp_dependencies tp) e")
  case None
  with assms show ?thesis by (simp add: visit_edge_def)
next
  case (Some edge)
  show ?thesis
  proof (cases "om_find (tp_resources tp) (de_destination edge)")
    case None
    with Some assms show ?thesis
      by (auto simp: visit_edge_def Let_def work_measure_def set_outcome_def split: option.splits)
  next
    case (Some destination)
    with assms \<open>graph_find _ _ = Some edge\<close>
    have "w' = visit_known_destination rule current e edge destination w"
      by (simp add: visit_edge_def)
    with Some show ?thesis by (simp add: visit_known_destination_measure om_find_resource_id)
  qed
qed

lemma visit_edges_measure:
  "visit_edges tp rule current es w = Some w' \<Longrightarrow> work_measure tp w' \<le> work_measure tp w"
proof (induction es arbitrary: w)
  case (Cons e es)
  then obtain w1 where "visit_edge tp rule current e w = Some w1"
    and "visit_edges tp rule current es w1 = Some w'"
    by (auto split: option.splits)
  with Cons.IH [of w1] visit_edge_measure [of tp rule current e w w1] show ?case by simp
qed simp

function propagate :: "Topology \<Rightarrow> FaultRule \<Rightarrow> Work \<Rightarrow> Work option" where
  "propagate tp rule w =
     (case w_frontier w of
        [] \<Rightarrow> Some w
      | current # rest \<Rightarrow>
          (let w1 = w\<lparr>w_frontier := rest\<rparr>
           in if current \<in> set (w_visited w1) then propagate tp rule w1
              else
                (let w2 = w1\<lparr>w_visited := id_set_add (w_visited w1) current\<rparr>
                 in (case outgoing_of (tp_dependencies tp) current of
                       None \<Rightarrow> propagate tp rule w2
                     | Some edges \<Rightarrow>
                         (case visit_edges tp rule current edges w2 of
                            None \<Rightarrow> None
                          | Some w3 \<Rightarrow> propagate tp rule w3)))))"
  by pat_completeness auto

termination propagate
proof (relation "measure (\<lambda>(tp, _, w). work_measure tp w)")
  fix tp :: Topology and rule :: FaultRule and w w1 w2 w3 :: Work and current rest edges
  assume "w_frontier w = current # rest" and "w1 = w\<lparr>w_frontier := rest\<rparr>"
    and "w2 = w1\<lparr>w_visited := id_set_add (w_visited w1) current\<rparr>"
    and "visit_edges tp rule current edges w2 = Some w3"
  then show "((tp, rule, w3), tp, rule, w) \<in> measure (\<lambda>(tp, _, w). work_measure tp w)"
    using visit_edges_measure [of tp rule current edges w2 w3] by (simp add: work_measure_def)
qed (auto simp: work_measure_def)

declare propagate.simps [simp del]

section \<open>Unresolved evidence and fail-closed escalation\<close>

definition note_unresolved_member ::
    "Topology \<Rightarrow> ResourceId IdSet \<Rightarrow> ResourceId IdSet \<Rightarrow> UnresolvedReason \<Rightarrow> string \<Rightarrow>
     Accumulator \<Rightarrow> Accumulator" where
  "note_unresolved_member tp mandatory members reason detail acc =
     for_each members
       (\<lambda>member a.
          case om_find (tp_resources tp) member of
            None \<Rightarrow> a
          | Some r \<Rightarrow>
              if member \<in> set mandatory then a
              else if rr_freshness r \<noteq> EvidenceFreshness.FRESH
              then acc_mark_unresolved member (rr_generation r) reason detail a
              else a) acc"

definition note_unresolved_groups :: "Topology \<Rightarrow> ResourceRecord \<Rightarrow> Work \<Rightarrow> Work" where
  "note_unresolved_groups tp subject w =
     (let acc1 =
        (if id_valid (rr_isolation_domain subject) then
           (case om_find (tp_isolation_domains tp) (rr_isolation_domain subject) of
              None \<Rightarrow> w_acc w
            | Some d \<Rightarrow>
                note_unresolved_member tp (w_mandatory w) (idm_members d)
                  UnresolvedReason.EVIDENCE_STALE
                  ''isolation domain member without fresh evidence'' (w_acc w))
         else acc_mark_unresolved (rr_id subject) (rr_generation subject)
                UnresolvedReason.TOPOLOGY_UNKNOWN ''subject has no isolation domain'' (w_acc w));
          acc2 =
        (if id_valid (rr_failure_domain subject) then
           (case om_find (tp_failure_domains tp) (rr_failure_domain subject) of
              None \<Rightarrow> acc1
            | Some d \<Rightarrow>
                note_unresolved_member tp (w_mandatory w) (fd_members d)
                  UnresolvedReason.EVIDENCE_MISSING
                  ''correlated failure domain member without fresh evidence'' acc1)
         else acc1)
      in w\<lparr>w_acc := acc2\<rparr>)"

definition unresolved_ids :: "Accumulator \<Rightarrow> ResourceId list" where
  "unresolved_ids acc = map fst (filter (\<lambda>e. cr_has_unresolved (snd e)) acc)"

definition contain_unresolved :: "Topology \<Rightarrow> ResourceId \<Rightarrow> Work \<Rightarrow> Work" where
  "contain_unresolved tp i w =
     (case om_find (tp_resources tp) i of
        None \<Rightarrow> w
      | Some r \<Rightarrow>
          let acc = acc_include i (rr_generation r) InclusionReason.UNKNOWN_EVIDENCE_FAIL_CLOSED
                      ''unresolved evidence cannot be proven safe'' (w_acc w);
              acc = om_adjust_default ClassifiedResource_default i
                      (\<lambda>c. c\<lparr>cr_has_unresolved := False\<rparr>) acc
          in w\<lparr>w_acc := acc, w_mandatory := id_set_add (w_mandatory w) i\<rparr>)"

definition expose_unresolved :: "Topology \<Rightarrow> ResourceId \<Rightarrow> Work \<Rightarrow> Work" where
  "expose_unresolved tp i w =
     (case om_find (tp_resources tp) i of
        None \<Rightarrow> w
      | Some r \<Rightarrow>
          let w = add_precautionary i w
          in w\<lparr>w_acc := om_adjust_default ClassifiedResource_default i
                 (\<lambda>c. c\<lparr>cr_has_unresolved := False,
                        cr_detail := ''bounded exposure under unresolved evidence''\<rparr>) (w_acc w)\<rparr>)"

definition escalate_unresolved :: "Topology \<Rightarrow> FaultRule \<Rightarrow> Work \<Rightarrow> Work" where
  "escalate_unresolved tp rule w =
     (let ids = unresolved_ids (w_acc w)
      in if ids \<noteq> [] \<and> rule_fail_closed_on_unknown_evidence rule then
           (if rule_uncertainty rule = UncertaintyBehavior.CONTAIN_PREEMPTIVELY then
              for_each ids (contain_unresolved tp)
                (w\<lparr>w_radius := (w_radius w)\<lparr>br_uncertainty_escalated := True,
                                            br_fail_closed_applied := True\<rparr>\<rparr>)
            else if rule_uncertainty rule = UncertaintyBehavior.BOUNDED_EXPOSURE then
              for_each ids (expose_unresolved tp)
                (w\<lparr>w_radius := (w_radius w)\<lparr>br_uncertainty_escalated := True\<rparr>\<rparr>)
            else w)
         else w)"

section \<open>Exposure and budget\<close>

definition isolation_members :: "Topology \<Rightarrow> ResourceRecord \<Rightarrow> ResourceId list" where
  "isolation_members tp subject =
     (if id_valid (rr_isolation_domain subject) then
        (case om_find (tp_isolation_domains tp) (rr_isolation_domain subject) of
           None \<Rightarrow> []
         | Some d \<Rightarrow> idm_members d)
      else [])"

definition widen_member :: "Topology \<Rightarrow> ResourceId \<Rightarrow> Work \<Rightarrow> Work" where
  "widen_member tp member w =
     (case om_find (tp_resources tp) member of
        None \<Rightarrow> w
      | Some r \<Rightarrow>
          if member \<in> set (w_mandatory w) then w
          else w\<lparr>w_mandatory := id_set_add (w_mandatory w) member,
                 w_acc := acc_include member (rr_generation r)
                   InclusionReason.MANDATORY_CO_ISOLATION_RULE
                   ''exposure inside the correlated group exceeds the tolerated maximum''
                   (w_acc w)\<rparr>)"

text \<open>The flag is set to false, the set is widened, and the flag is set back to true.\<close>

definition enforce_exposure :: "Topology \<Rightarrow> FaultRule \<Rightarrow> ResourceRecord \<Rightarrow> Work \<Rightarrow> Work" where
  "enforce_exposure tp rule subject w =
     (let members = isolation_members tp subject;
          active = length (filter (\<lambda>m. m \<notin> set (w_mandatory w)) members)
      in if active > unat (rule_max_tolerated_exposure rule) then
           let w = for_each members (widen_member tp) w
           in w\<lparr>w_radius := (w_radius w)\<lparr>br_hard_constraints_satisfied := True,
                                          br_fail_closed_applied := True\<rparr>\<rparr>
         else w)"

definition enforce_budget :: "FaultRule \<Rightarrow> Work \<Rightarrow> Work" where
  "enforce_budget rule w =
     (if length (w_mandatory w) > unat (rule_action_budget rule)
      then w\<lparr>w_radius := (w_radius w)\<lparr>br_budget_exhausted := True,
                                       br_hard_constraints_satisfied := False\<rparr>\<rparr>
      else w)"

section \<open>The unaffected set and the buckets\<close>

definition unaffected_detail :: "ResourceRecord \<Rightarrow> ResourceRecord \<Rightarrow> string" where
  "unaffected_detail subject candidate =
     ''no propagation path from the contained set'' @
     (if id_valid (rr_isolation_domain candidate) \<and>
         rr_isolation_domain candidate \<noteq> rr_isolation_domain subject
      then ''; separate isolation domain '' @ str_IsolationDomainId (rr_isolation_domain candidate)
      else []) @
     (if id_valid (rr_failure_domain candidate) \<and>
         rr_failure_domain candidate \<noteq> rr_failure_domain subject
      then ''; separate failure domain '' @ str_FailureDomainId (rr_failure_domain candidate)
      else []) @
     (if id_valid (rr_owner_boot candidate) \<and> rr_owner_boot candidate \<noteq> rr_owner_boot subject
      then ''; independent fresh authority '' @ str_WorkerBootId (rr_owner_boot candidate)
      else [])"

text \<open>\<open>acc.classifications[candidate.id]\<close> creates the entry it looks at.\<close>

definition classify_candidate :: "ResourceRecord \<Rightarrow> ResourceRecord \<Rightarrow> Work \<Rightarrow> Work" where
  "classify_candidate subject candidate w =
     (let i = rr_id candidate
      in if i \<in> set (w_mandatory w) then w
         else if i \<in> set (w_precautionary w) then w
         else
           let acc = om_adjust_default ClassifiedResource_default i (\<lambda>c. c) (w_acc w)
           in if map_option cr_has_unresolved (om_find acc i) = Some True
              then w\<lparr>w_acc := acc\<rparr>
              else if rr_freshness candidate \<noteq> EvidenceFreshness.FRESH
              then w\<lparr>w_acc := acc_mark_unresolved i (rr_generation candidate)
                        UnresolvedReason.EVIDENCE_STALE
                        (''resource evidence is '' @ EvidenceFreshness_str (rr_freshness candidate))
                        acc\<rparr>
              else w\<lparr>w_acc := acc_exclude i (rr_generation candidate)
                        ExclusionReason.NO_PROVEN_PROPAGATION_PATH
                        (unaffected_detail subject candidate) acc\<rparr>)"

definition classify_candidates :: "Topology \<Rightarrow> ResourceRecord \<Rightarrow> Work \<Rightarrow> Work" where
  "classify_candidates tp subject w =
     for_each (tp_resources tp) (\<lambda>(_, candidate). classify_candidate subject candidate) w"

definition bucket_classified ::
    "ResourceId list \<Rightarrow> ResourceId \<times> ClassifiedResource \<Rightarrow> BlastRadius \<Rightarrow> BlastRadius" where
  "bucket_classified precautionary e radius =
     (let i = fst e; c = snd e
      in if cr_has_inclusion c then radius\<lparr>br_mandatory := br_mandatory radius @ [i]\<rparr>
         else if i \<in> set precautionary then radius
         else if cr_has_unresolved c then radius\<lparr>br_unresolved := br_unresolved radius @ [i]\<rparr>
         else radius\<lparr>br_unaffected := br_unaffected radius @ [i]\<rparr>)"

definition bucket_precautionary :: "ResourceId \<Rightarrow> Work \<Rightarrow> Work" where
  "bucket_precautionary i w =
     (if i \<in> set (w_mandatory w) then w
      else w\<lparr>w_radius := (w_radius w)\<lparr>br_precautionary := br_precautionary (w_radius w) @ [i]\<rparr>,
             w_acc := om_adjust_default ClassifiedResource_default i
               (\<lambda>c.
                  let c = c\<lparr>cr_has_unresolved := False\<rparr>
                  in if \<not> cr_has_inclusion c
                     then c\<lparr>cr_has_exclusion := True,
                            cr_exclusion := ExclusionReason.CONDITIONAL_ONLY_INCLUSION,
                            cr_detail := ''conditional propagation path only''\<rparr>
                     else c) (w_acc w)\<rparr>)"

definition fill_buckets :: "Work \<Rightarrow> Work" where
  "fill_buckets w =
     (let precautionary = remdups_adj (sort (w_precautionary w));
          w = w\<lparr>w_precautionary := precautionary,
                w_radius := for_each (w_acc w) (bucket_classified precautionary) (w_radius w)\<rparr>;
          w = for_each precautionary bucket_precautionary w
      in w\<lparr>w_radius := (w_radius w)\<lparr>br_classifications := w_acc w\<rparr>\<rparr>)"

section \<open>Legal actions\<close>

definition protected_members :: "Topology \<Rightarrow> FaultRule \<Rightarrow> ResourceId list \<Rightarrow> ResourceId list" where
  "protected_members tp rule ids =
     filter (\<lambda>i. case om_find (tp_resources tp) i of
                    None \<Rightarrow> False
                  | Some r \<Rightarrow> rr_protection r \<noteq> ProtectionClass.STANDARD \<and>
                              \<not> rule_allow_protected_resource_fencing rule) ids"

definition note_protected :: "Topology \<Rightarrow> FaultRule \<Rightarrow> Work \<Rightarrow> Work \<times> bool" where
  "note_protected tp rule w =
     (let ids = protected_members tp rule (br_mandatory (w_radius w))
      in (w\<lparr>w_acc := for_each ids
               (\<lambda>i a. case om_find (tp_resources tp) i of
                         None \<Rightarrow> a
                       | Some r \<Rightarrow> acc_include i (rr_generation r)
                                    InclusionReason.ACTION_REQUIRED_BY_POLICY
                                    ''protected resource: containment requires escalation authority''
                                    a) (w_acc w)\<rparr>,
          ids \<noteq> []))"

definition known_records :: "Topology \<Rightarrow> ResourceId list \<Rightarrow> ResourceRecord list" where
  "known_records tp ids = List.map_filter (om_find (tp_resources tp)) ids"

definition is_worker_bound :: "ResourceRecord \<Rightarrow> bool" where
  "is_worker_bound r \<longleftrightarrow>
     id_valid (rr_owner_boot r) \<and>
     rr_resource_class r \<in> set [ResourceClass.WORKER, ResourceClass.PROCESS, ResourceClass.EXECUTION]"

definition is_device_class :: "ResourceRecord \<Rightarrow> bool" where
  "is_device_class r \<longleftrightarrow> rr_resource_class r \<in> set [ResourceClass.DEVICE, ResourceClass.ACCELERATOR]"

text \<open>Runs of equal containment domains are counted, as the code compares with the last one only.\<close>

fun count_domain_runs :: "ResourceRecord list \<Rightarrow> ContainmentDomainId \<Rightarrow> nat" where
  "count_domain_runs [] last_domain = 0"
| "count_domain_runs (r # rs) last_domain =
     (if id_valid (rr_containment_domain r) \<and> rr_containment_domain r \<noteq> last_domain
      then Suc (count_domain_runs rs (rr_containment_domain r))
      else count_domain_runs rs last_domain)"

definition legal_action_list ::
    "FaultRule \<Rightarrow> ResourceRecord list \<Rightarrow> bool \<Rightarrow> ContainmentActionKind list \<Rightarrow> ContainmentActionKind list" where
  "legal_action_list rule records any_unresolved legal =
     fold (\<lambda>k xs. add_action xs k)
       ([ContainmentActionKind.QUARANTINE_RESOURCE, ContainmentActionKind.FENCE_RESOURCE_SET,
         ContainmentActionKind.REVOKE_AUTHORITY, ContainmentActionKind.DISABLE_ADMISSION,
         ContainmentActionKind.REQUIRE_REVALIDATION] @
        (if list_ex is_worker_bound records
         then [ContainmentActionKind.FENCE_WORKER, ContainmentActionKind.FENCE_PROCESS] else []) @
        (if list_ex (\<lambda>r. rr_resource_class r = ResourceClass.ATTEMPT) records
         then [ContainmentActionKind.FENCE_ATTEMPT] else []) @
        (if list_ex is_device_class records then [ContainmentActionKind.FENCE_DEVICE] else []) @
        (if any_unresolved \<and> rule_uncertainty rule \<noteq> UncertaintyBehavior.OBSERVE_ONLY
         then [ContainmentActionKind.ESCALATE_CONTAINMENT] else []))
       legal"

definition select_enforcing ::
    "Topology \<Rightarrow> FaultRule \<Rightarrow> bool \<Rightarrow> bool \<Rightarrow> BlastRadius \<Rightarrow> BlastRadius" where
  "select_enforcing tp rule any_unresolved protected_blocked radius =
     (let records = known_records tp (br_mandatory radius);
          legal = legal_action_list rule records any_unresolved (br_legal_actions radius);
          preferred = rule_preferred_outcome rule;
          radius = radius\<lparr>br_legal_actions := legal,
                     br_recommended := (if preferred \<in> set legal then preferred
                                        else ContainmentActionKind.QUARANTINE_RESOURCE)\<rparr>
      in if protected_blocked then
           radius\<lparr>br_hard_constraints_satisfied := False,
                  br_recommended := ContainmentActionKind.ESCALATE_CONTAINMENT,
                  br_legal_actions :=
                    add_action (add_action legal ContainmentActionKind.ESCALATE_CONTAINMENT)
                      ContainmentActionKind.FULL_DOMAIN_ISOLATION,
                  br_illegal_actions :=
                    add_action (add_action (add_action (br_illegal_actions radius)
                      ContainmentActionKind.FENCE_PROCESS) ContainmentActionKind.FENCE_WORKER)
                      ContainmentActionKind.FENCE_DEVICE\<rparr>
         else if count_domain_runs records id_invalid > 1 then
           radius\<lparr>br_illegal_actions :=
                    add_action (br_illegal_actions radius) ContainmentActionKind.FULL_DOMAIN_ISOLATION\<rparr>
         else radius)"

definition select_actions :: "Topology \<Rightarrow> FaultRule \<Rightarrow> Work \<Rightarrow> Work" where
  "select_actions tp rule w0 =
     (let any_mandatory = (br_mandatory (w_radius w0) \<noteq> []);
          any_precautionary = (br_precautionary (w_radius w0) \<noteq> []);
          any_unresolved = (br_unresolved (w_radius w0) \<noteq> []);
          (w, protected_blocked) = note_protected tp rule w0;
          radius = w_radius w;
          radius =
            (if \<not> any_mandatory \<and> \<not> any_precautionary \<and> \<not> any_unresolved then
               radius\<lparr>br_recommended := ContainmentActionKind.NO_ACTION_REQUIRED,
                      br_legal_actions :=
                        add_action (add_action (br_legal_actions radius)
                          ContainmentActionKind.NO_ACTION_REQUIRED) ContainmentActionKind.OBSERVE\<rparr>
             else if \<not> any_mandatory \<and> rule_uncertainty rule = UncertaintyBehavior.OBSERVE_ONLY then
               radius\<lparr>br_recommended := ContainmentActionKind.OBSERVE,
                      br_legal_actions :=
                        add_action (br_legal_actions radius) ContainmentActionKind.OBSERVE\<rparr>
             else select_enforcing tp rule any_unresolved protected_blocked radius);
          radius =
            (if br_budget_exhausted radius then
               radius\<lparr>br_illegal_actions :=
                        add_action (br_illegal_actions radius)
                          ContainmentActionKind.FULL_DOMAIN_ISOLATION\<rparr>
             else radius)
      in w\<lparr>w_radius := radius\<rparr>)"

section \<open>Explanation\<close>

definition with_detail :: "string \<Rightarrow> string" where
  "with_detail d = (if d = [] then [] else '' -- '' @ d)"

definition acc_at :: "Accumulator \<Rightarrow> ResourceId \<Rightarrow> ClassifiedResource" where
  "acc_at acc i = (case om_find acc i of None \<Rightarrow> ClassifiedResource_default | Some c \<Rightarrow> c)"

definition authority_lines :: "BlastRadius \<Rightarrow> ExplanationLine list" where
  "authority_lines radius =
     [ExplanationLine ''AUTHORITY'' ''epoch''
        (''CoordinatorEpoch '' @ str_CoordinatorEpoch (br_epoch radius)),
      ExplanationLine ''AUTHORITY'' ''fault_generation''
        (''FaultGeneration '' @ str_FaultGeneration (br_fault_generation radius)),
      ExplanationLine ''AUTHORITY'' ''policy_generation''
        (''PolicyGeneration '' @ str_PolicyGeneration (br_policy_generation radius)),
      ExplanationLine ''AUTHORITY'' ''topology_generation''
        (''TopologyGeneration '' @ str_TopologyGeneration (br_topology_generation radius)),
      ExplanationLine ''AUTHORITY'' ''containment_generation''
        (''ContainmentGeneration '' @ str_ContainmentGeneration (br_generation radius))]"

definition fault_lines :: "Topology \<Rightarrow> FaultRule \<Rightarrow> FaultRecord \<Rightarrow> ExplanationLine list" where
  "fault_lines tp rule fault =
     [ExplanationLine ''FAULT'' ''kind''
        (FaultKind_str (fe_kind (fr_evidence fault)) @ '' on '' @
         resource_label tp (fe_subject (fr_evidence fault))),
      ExplanationLine ''FAULT'' ''state'' (''fault state '' @ FaultState_str (fr_state fault)),
      ExplanationLine ''FAULT'' ''severity'' (''severity '' @ FaultSeverity_str (rule_severity rule)),
      ExplanationLine ''FAULT'' ''uncertainty''
        (''uncertainty behaviour '' @ UncertaintyBehavior_str (rule_uncertainty rule))]"

definition bucket_lines :: "Topology \<Rightarrow> Accumulator \<Rightarrow> BlastRadius \<Rightarrow> ExplanationLine list" where
  "bucket_lines tp acc radius =
     map (\<lambda>i. ExplanationLine ''MANDATORY'' (str_ResourceId i)
            (resource_label tp i @ '' -- '' @ InclusionReason_str (cr_inclusion (acc_at acc i)) @
             with_detail (cr_detail (acc_at acc i)))) (br_mandatory radius) @
     map (\<lambda>i. ExplanationLine ''PRECAUTIONARY'' (str_ResourceId i)
            (resource_label tp i @ '' -- conditional propagation'')) (br_precautionary radius) @
     map (\<lambda>i. ExplanationLine ''UNAFFECTED'' (str_ResourceId i)
            (resource_label tp i @ '' -- '' @ ExclusionReason_str (cr_exclusion (acc_at acc i)) @
             with_detail (cr_detail (acc_at acc i)))) (br_unaffected radius) @
     map (\<lambda>i. ExplanationLine ''UNKNOWN'' (str_ResourceId i)
            (resource_label tp i @ '' -- '' @ UnresolvedReason_str (cr_unresolved (acc_at acc i)) @
             with_detail (cr_detail (acc_at acc i)))) (br_unresolved radius) @
     map (\<lambda>k. ExplanationLine ''REJECTED'' (ContainmentActionKind_str k)
            (ContainmentActionKind_str k @
             '' -- broader than the computed radius or blocked by protected resource policy''))
       (br_illegal_actions radius)"

definition explain_radius :: "Topology \<Rightarrow> FaultRule \<Rightarrow> FaultRecord \<Rightarrow> Work \<Rightarrow> BlastRadius" where
  "explain_radius tp rule fault w =
     (let radius = w_radius w
      in radius\<lparr>br_explanation := explanation_finalize
           (br_explanation radius @ authority_lines radius @ fault_lines tp rule fault @
            bucket_lines tp (w_acc w) radius @
            [ExplanationLine ''VERIFICATION'' ''status''
               ''no post-action evidence yet; ACKNOWLEDGED is not CONTAINED''])\<rparr>)"

section \<open>The computation\<close>

definition initial_radius :: "BlastRadiusInput \<Rightarrow> Topology \<Rightarrow> ContainmentPolicy \<Rightarrow> FaultRecord \<Rightarrow> BlastRadius" where
  "initial_radius input tp policy fault =
     BlastRadius_default\<lparr>br_generation := bri_generation input,
       br_policy_generation := pol_generation policy,
       br_topology_generation := tp_generation tp,
       br_epoch := bri_epoch input,
       br_fault := fe_id (fr_evidence fault),
       br_fault_generation := fe_generation (fr_evidence fault)\<rparr>"

definition initial_mandatory :: "Accumulator \<Rightarrow> ResourceId IdSet" where
  "initial_mandatory acc =
     fold (\<lambda>e s. if cr_has_inclusion (snd e) then id_set_add s (fst e) else s) acc []"

definition initial_work ::
    "BlastRadiusInput \<Rightarrow> Topology \<Rightarrow> ContainmentPolicy \<Rightarrow> FaultRecord \<Rightarrow> FaultRule \<Rightarrow> ResourceRecord \<Rightarrow> Work" where
  "initial_work input tp policy fault rule subject =
     (let acc = structural_inclusions tp rule (fe_kind (fr_evidence fault)) subject;
          mandatory = initial_mandatory acc
      in \<lparr>w_acc = acc, w_mandatory = mandatory, w_visited = [], w_frontier = mandatory,
          w_precautionary = [], w_radius = initial_radius input tp policy fault\<rparr>)"

text \<open>Everything after the traversal.\<close>

definition settle ::
    "Topology \<Rightarrow> FaultRule \<Rightarrow> ResourceRecord \<Rightarrow> Work \<Rightarrow> Work" where
  "settle tp rule subject w =
     fill_buckets (classify_candidates tp subject (enforce_budget rule
       (enforce_exposure tp rule subject (escalate_unresolved tp rule
         (note_unresolved_groups tp subject w)))))"

definition compute_blast_radius :: "BlastRadiusInput \<Rightarrow> BlastRadius Result option" where
  "compute_blast_radius input =
     (case (bri_topology input, bri_policy input, bri_fault input) of
        (Some tp, Some policy, Some fault) \<Rightarrow>
          (case om_find (tp_resources tp) (fe_subject (fr_evidence fault)) of
             None \<Rightarrow> Some (fail ErrorCode.UNKNOWN_RESOURCE ''blast_radius.compute''
                            ''the fault subject is not present in the current topology''
                            (str_ResourceId (fe_subject (fr_evidence fault))))
           | Some subject \<Rightarrow>
               let rule = rule_for policy (fe_kind (fr_evidence fault))
               in (case propagate tp rule (initial_work input tp policy fault rule subject) of
                     None \<Rightarrow> None
                   | Some w \<Rightarrow>
                       Some (Inr (explain_radius tp rule fault
                         (select_actions tp rule (settle tp rule subject w))))))
      | _ \<Rightarrow> Some (fail ErrorCode.INVALID_ARGUMENT ''blast_radius.compute''
                    ''topology, policy and fault are all required'' []))"

definition render_blast_radius :: "BlastRadius \<Rightarrow> string" where
  "render_blast_radius radius =
     ''containment generation '' @ str_ContainmentGeneration (br_generation radius) @ [newline] @
     ''recommended outcome: '' @ ContainmentActionKind_str (br_recommended radius) @ [newline] @
     ''mandatory '' @ nat_to_string (length (br_mandatory radius)) @
     '', precautionary '' @ nat_to_string (length (br_precautionary radius)) @
     '', unaffected '' @ nat_to_string (length (br_unaffected radius)) @
     '', unresolved '' @ nat_to_string (length (br_unresolved radius)) @ [newline] @
     explanation_render (br_explanation radius)"

end
