(* ===== verification/Fcf_Radius_Props.thy ===== *)
theory Fcf_Radius_Props
  imports Fcf_Blast_Radius
begin

text \<open>
  What the blast-radius computation guarantees. The traversal computes exactly the set of
  resources reachable over hard edges (a refinement of a least-fixpoint specification by a sorted
  worklist), the computation never throws on a topology whose records carry their own key, and the
  four buckets partition the topology.
\<close>

section \<open>Topologies and the accumulator invariant\<close>

abbreviation known :: "Topology \<Rightarrow> ResourceId set" where
  "known tp \<equiv> fst ` set (tp_resources tp)"

text \<open>The record stored under a key carries that key, and the map is in key order.\<close>

definition resources_keyed :: "Topology \<Rightarrow> bool" where
  "resources_keyed tp \<longleftrightarrow>
     om_wf (tp_resources tp) \<and> list_all (\<lambda>(k, r). rr_id r = k) (tp_resources tp)"

definition fresh_at :: "Topology \<Rightarrow> ResourceId \<Rightarrow> bool" where
  "fresh_at tp i \<longleftrightarrow>
     map_option rr_freshness (om_find (tp_resources tp) i) = Some EvidenceFreshness.FRESH"

lemma keyed_wf: "resources_keyed tp \<Longrightarrow> om_wf (tp_resources tp)"
  by (simp add: resources_keyed_def)

lemma keyed_id: "resources_keyed tp \<Longrightarrow> om_find (tp_resources tp) k = Some r \<Longrightarrow> rr_id r = k"
  by (drule om_find_in_set) (auto simp: resources_keyed_def list_all_iff)

lemma keyed_in_set: "resources_keyed tp \<Longrightarrow> (k, r) \<in> set (tp_resources tp) \<Longrightarrow>
    rr_id r = k \<and> om_find (tp_resources tp) k = Some r"
  using om_in_set_iff [OF keyed_wf, of tp k r] keyed_id [of tp k r] by simp

lemma known_iff: "i \<in> known tp \<longleftrightarrow> (\<exists>r. om_find (tp_resources tp) i = Some r)"
  using om_find_None_iff [of "tp_resources tp" i] by (auto simp del: om_find_None_iff)

definition included :: "Accumulator \<Rightarrow> ResourceId \<Rightarrow> bool" where
  "included acc i \<longleftrightarrow> map_option cr_has_inclusion (om_find acc i) = Some True"

text \<open>
  The accumulator \<open>acc\<close> agrees with the mandatory set \<open>M\<close> and the precautionary set \<open>P\<close>: it
  includes exactly \<open>M\<close>, and any other entry is precautionary, unresolved, or excluded on the
  strength of fresh evidence.
\<close>

definition acc_inv ::
    "Topology \<Rightarrow> Accumulator \<Rightarrow> ResourceId set \<Rightarrow> ResourceId set \<Rightarrow> bool" where
  "acc_inv tp acc M P \<longleftrightarrow>
     om_wf acc \<and> fst ` set acc \<subseteq> known tp \<and> P \<subseteq> known tp \<and>
     (\<forall>i. included acc i \<longleftrightarrow> i \<in> M) \<and>
     (\<forall>i c. om_find acc i = Some c \<longrightarrow>
        i \<in> M \<or> i \<in> P \<or> cr_has_unresolved c \<or> cr_has_exclusion c \<and> fresh_at tp i)"

lemma acc_inv_Nil [simp]: "P \<subseteq> known tp \<Longrightarrow> acc_inv tp [] {} P"
  by (simp add: acc_inv_def included_def)

lemma acc_inv_M_known: "acc_inv tp acc M P \<Longrightarrow> M \<subseteq> known tp"
  by (auto simp: acc_inv_def included_def dest!: om_find_dom subsetD)

text \<open>All accumulator updates put one entry; this is the only induction-free core they need.\<close>

lemma acc_inv_put:
  assumes "acc_inv tp acc M P" and "i \<in> known tp"
    and "\<And>j. j \<noteq> i \<Longrightarrow> j \<in> M' \<longleftrightarrow> j \<in> M" and "cr_has_inclusion c \<longleftrightarrow> i \<in> M'"
    and "i \<in> M' \<or> i \<in> P \<or> cr_has_unresolved c \<or> cr_has_exclusion c \<and> fresh_at tp i"
  shows "acc_inv tp (om_put i c acc) M' P"
  unfolding acc_inv_def included_def
proof (intro conjI allI impI)
  fix j
  show "map_option cr_has_inclusion (om_find (om_put i c acc) j) = Some True \<longleftrightarrow> j \<in> M'"
    using assms by (cases "j = i") (auto simp: acc_inv_def included_def)
next
  fix j c' assume "om_find (om_put i c acc) j = Some c'"
  then show "j \<in> M' \<or> j \<in> P \<or> cr_has_unresolved c' \<or> cr_has_exclusion c' \<and> fresh_at tp j"
    using assms by (cases "j = i") (auto simp: acc_inv_def)
qed (use assms in \<open>auto simp: acc_inv_def\<close>)

lemma acc_inv_at: "acc_inv tp acc M P \<Longrightarrow> cr_has_inclusion (acc_at acc i) \<longleftrightarrow> i \<in> M"
  by (auto simp: acc_inv_def included_def acc_at_def ClassifiedResource_default_def
      split: option.splits dest: spec [of _ i])

lemma acc_inv_entry:
  "acc_inv tp acc M P \<Longrightarrow> i \<notin> M \<Longrightarrow> i \<notin> P \<Longrightarrow> om_find acc i = Some c \<Longrightarrow>
   cr_has_unresolved c \<or> cr_has_exclusion c \<and> fresh_at tp i"
  by (auto simp: acc_inv_def)

lemma acc_at_exclusion:
  "acc_inv tp acc M P \<Longrightarrow> i \<notin> M \<Longrightarrow> i \<notin> P \<Longrightarrow> cr_has_exclusion (acc_at acc i) \<Longrightarrow>
   cr_has_unresolved (acc_at acc i) \<or> fresh_at tp i"
  by (auto simp: acc_at_def ClassifiedResource_default_def split: option.splits dest: acc_inv_entry)

lemma adjust_default_at: "om_adjust_default ClassifiedResource_default i f acc = om_put i (f (acc_at acc i)) acc"
  by (simp add: om_adjust_default_def acc_at_def)

lemmas acc_step_defs = acc_include_def acc_exclude_def acc_mark_unresolved_def adjust_default_at Let_def

lemma acc_inv_include:
  "acc_inv tp acc M P \<Longrightarrow> i \<in> known tp \<Longrightarrow>
   acc_inv tp (acc_include i g reason d acc) (insert i M) P"
  unfolding acc_step_defs by (erule acc_inv_put) (auto simp: acc_inv_at)

lemma acc_inv_include_again:
  "acc_inv tp acc M P \<Longrightarrow> i \<in> M \<Longrightarrow> acc_inv tp (acc_include i g reason d acc) M P"
  using acc_inv_include [of tp acc M P i g reason d] acc_inv_M_known [of tp acc M P]
  by (auto simp: insert_absorb)

lemma acc_inv_mark_unresolved:
  "acc_inv tp acc M P \<Longrightarrow> i \<in> known tp \<Longrightarrow>
   acc_inv tp (acc_mark_unresolved i g reason d acc) M P"
  unfolding acc_step_defs
  by (rule acc_inv_put, assumption+) (auto simp: acc_inv_at dest: acc_at_exclusion)

lemma acc_inv_exclude:
  "acc_inv tp acc M P \<Longrightarrow> i \<in> known tp \<Longrightarrow> fresh_at tp i \<Longrightarrow>
   acc_inv tp (acc_exclude i g reason d acc) M P"
  unfolding acc_step_defs
  by (rule acc_inv_put, assumption+) (auto simp: acc_inv_at)

lemma acc_inv_precautionary: "acc_inv tp acc M P \<Longrightarrow> i \<in> known tp \<Longrightarrow> acc_inv tp acc M (insert i P)"
  by (auto simp: acc_inv_def)

text \<open>An update of a mandatory or precautionary entry that keeps the inclusion flag.\<close>

lemma acc_inv_adjust:
  assumes "acc_inv tp acc M P" and "i \<in> known tp" and "i \<in> M \<or> i \<in> P"
    and "\<And>c. cr_has_inclusion (f c) = cr_has_inclusion c"
  shows "acc_inv tp (om_adjust_default ClassifiedResource_default i f acc) M P"
  unfolding adjust_default_at using assms by (intro acc_inv_put) (auto simp: acc_inv_at)

section \<open>The traversal computes reachability\<close>

text \<open>
  The specification. A hard edge is a registered outgoing edge of a propagating kind, between two
  different known resources, with fresh and verified evidence, unconditional under a hard rule,
  whose destination is not contained yet.
\<close>

definition propagates_hard :: "FaultRule \<Rightarrow> DependencyEdge \<Rightarrow> ResourceRecord \<Rightarrow> bool" where
  "propagates_hard rule edge destination \<longleftrightarrow>
     de_source edge \<noteq> de_destination edge \<and> rule_propagates_over rule (de_kind edge) \<and>
     \<not> resource_is_contained destination \<and> de_freshness edge = EvidenceFreshness.FRESH \<and>
     de_integrity edge = IntegrityStatus.VERIFIED \<and>
     rule_propagation rule = PropagationMode.HARD \<and> \<not> de_conditional edge"

definition hard_target :: "Topology \<Rightarrow> FaultRule \<Rightarrow> DependencyId \<Rightarrow> ResourceId \<Rightarrow> bool" where
  "hard_target tp rule e j \<longleftrightarrow>
     (\<exists>edge destination. graph_find (tp_dependencies tp) e = Some edge \<and>
        om_find (tp_resources tp) (de_destination edge) = Some destination \<and>
        propagates_hard rule edge destination \<and> j = rr_id destination)"

definition hard_step :: "Topology \<Rightarrow> FaultRule \<Rightarrow> ResourceId \<Rightarrow> ResourceId \<Rightarrow> bool" where
  "hard_step tp rule i j \<longleftrightarrow>
     (\<exists>es e. outgoing_of (tp_dependencies tp) i = Some es \<and> e \<in> set es \<and> hard_target tp rule e j)"

lemma classify_hard:
  "classify_propagation rule edge (resource_is_contained destination) b
     \<in> set [PropagationOutcome.PROPAGATION_CONFIRMED, PropagationOutcome.PROPAGATION_LIKELY,
            PropagationOutcome.PROPAGATION_POSSIBLE] \<and>
   \<not> (de_conditional edge \<or> rule_propagation rule = PropagationMode.CONDITIONAL) \<longleftrightarrow>
   propagates_hard rule edge destination"
  by (cases "rule_propagation rule")
    (auto simp: classify_propagation_def propagates_hard_def Let_def)

lemma follow_sets:
  "w_mandatory (follow_conditional_edge d hop w) = w_mandatory w"
  "w_mandatory (follow_unknown_edge e edge d hop w) = w_mandatory w"
  "w_mandatory (set_outcome e outcome w) = w_mandatory w"
  "w_frontier (follow_conditional_edge d hop w) = w_frontier w"
  "w_frontier (follow_unknown_edge e edge d hop w) = w_frontier w"
  "w_frontier (set_outcome e outcome w) = w_frontier w"
  "w_visited (follow_conditional_edge d hop w) = w_visited w"
  "w_visited (follow_unknown_edge e edge d hop w) = w_visited w"
  "w_visited (set_outcome e outcome w) = w_visited w"
  "w_visited (follow_hard_edge i edge d hop w) = w_visited w"
  "set (w_mandatory (follow_hard_edge i edge d hop w)) = insert (rr_id d) (set (w_mandatory w))"
  "set (w_frontier (follow_hard_edge i edge d hop w)) =
     set (w_frontier w) \<union> ({rr_id d} - set (w_mandatory w))"
  by (auto simp: follow_conditional_edge_def follow_unknown_edge_def follow_hard_edge_def
      set_outcome_def push_hop_def add_precautionary_def Let_def)

lemma visit_known_destination_sets:
  defines "D \<equiv> \<lambda>rule edge destination.
             if propagates_hard rule edge destination then {rr_id destination} else {}"
  shows "set (w_mandatory (visit_known_destination rule current e edge destination w)) =
      set (w_mandatory w) \<union> D rule edge destination \<and>
    set (w_frontier (visit_known_destination rule current e edge destination w)) =
      set (w_frontier w) \<union> (D rule edge destination - set (w_mandatory w)) \<and>
    w_visited (visit_known_destination rule current e edge destination w) = w_visited w"
  using classify_hard [of rule edge destination "rr_id destination \<in> set (w_mandatory w)"]
  unfolding D_def visit_known_destination_def Let_def
  by (auto simp: follow_sets simp del: list.set)

text \<open>One edge adds its hard target, if it has one, to the mandatory set and the frontier.\<close>

lemma visit_edge_sets:
  assumes "visit_edge tp rule current e w = Some w'"
  shows "set (w_mandatory w') = set (w_mandatory w) \<union> {j. hard_target tp rule e j} \<and>
    set (w_frontier w') = set (w_frontier w) \<union> ({j. hard_target tp rule e j} - set (w_mandatory w)) \<and>
    w_visited w' = w_visited w"
proof (cases "graph_find (tp_dependencies tp) e")
  case None
  with assms show ?thesis by (simp add: visit_edge_def hard_target_def)
next
  case edge: (Some edge)
  show ?thesis
  proof (cases "om_find (tp_resources tp) (de_destination edge)")
    case None
    with edge assms show ?thesis
      by (auto simp: visit_edge_def Let_def follow_sets hard_target_def split: option.splits)
  next
    case (Some destination)
    with assms edge have "w' = visit_known_destination rule current e edge destination w"
      by (simp add: visit_edge_def)
    moreover from Some edge have "{j. hard_target tp rule e j} =
        (if propagates_hard rule edge destination then {rr_id destination} else {})"
      by (auto simp: hard_target_def)
    ultimately show ?thesis using visit_known_destination_sets by simp
  qed
qed

lemma visit_edges_sets:
  "visit_edges tp rule current es w = Some w' \<Longrightarrow>
    set (w_mandatory w') = set (w_mandatory w) \<union> {j. \<exists>e \<in> set es. hard_target tp rule e j} \<and>
    set (w_frontier w') =
      set (w_frontier w) \<union> ({j. \<exists>e \<in> set es. hard_target tp rule e j} - set (w_mandatory w)) \<and>
    w_visited w' = w_visited w"
proof (induction es arbitrary: w)
  case (Cons e es)
  then obtain w1 where "visit_edge tp rule current e w = Some w1"
    and "visit_edges tp rule current es w1 = Some w'"
    by (auto split: option.splits)
  with Cons.IH [of w1] visit_edge_sets [of tp rule current e w w1] show ?case by auto
qed simp

text \<open>
  The loop invariant: visited and pending resources together are the mandatory set, a visited
  resource's hard targets are mandatory, and everything mandatory is reachable from the start.
\<close>

definition closure_inv :: "Topology \<Rightarrow> FaultRule \<Rightarrow> ResourceId set \<Rightarrow> Work \<Rightarrow> bool" where
  "closure_inv tp rule M0 w \<longleftrightarrow>
     set (w_visited w) \<union> set (w_frontier w) = set (w_mandatory w) \<and>
     (\<forall>i \<in> set (w_visited w). \<forall>j. hard_step tp rule i j \<longrightarrow> j \<in> set (w_mandatory w)) \<and>
     M0 \<subseteq> set (w_mandatory w) \<and>
     set (w_mandatory w) \<subseteq> {j. \<exists>i \<in> M0. (hard_step tp rule)\<^sup>*\<^sup>* i j}"

text \<open>Partial-correctness rule of the loop; it always ends with an empty frontier.\<close>

lemma propagate_invariant:
  assumes "propagate tp rule w = Some w'" and "I w"
    and seen: "\<And>w current rest. I w \<Longrightarrow> w_frontier w = current # rest \<Longrightarrow>
        current \<in> set (w_visited w) \<Longrightarrow> I (w\<lparr>w_frontier := rest\<rparr>)"
    and leaf: "\<And>w current rest. I w \<Longrightarrow> w_frontier w = current # rest \<Longrightarrow>
        outgoing_of (tp_dependencies tp) current = None \<Longrightarrow>
        I (w\<lparr>w_frontier := rest, w_visited := id_set_add (w_visited w) current\<rparr>)"
    and expand: "\<And>w current rest es w3. I w \<Longrightarrow> w_frontier w = current # rest \<Longrightarrow>
        outgoing_of (tp_dependencies tp) current = Some es \<Longrightarrow>
        visit_edges tp rule current es
          (w\<lparr>w_frontier := rest, w_visited := id_set_add (w_visited w) current\<rparr>) = Some w3 \<Longrightarrow> I w3"
  shows "I w' \<and> w_frontier w' = []"
  using assms
proof (induction tp rule w rule: propagate.induct)
  case (1 tp rule w)
  note seen = "1.prems"(3) and leaf = "1.prems"(4) and expand = "1.prems"(5)
  show ?case
  proof (cases "w_frontier w")
    case Nil
    with "1.prems"(1,2) show ?thesis by (subst (asm) propagate.simps) simp
  next
    case (Cons current rest)
    let ?w1 = "w\<lparr>w_frontier := rest\<rparr>"
    let ?w2 = "?w1\<lparr>w_visited := id_set_add (w_visited ?w1) current\<rparr>"
    show ?thesis
    proof (cases "current \<in> set (w_visited w)")
      case True
      with Cons "1.prems"(1) have "propagate tp rule ?w1 = Some w'"
        by (subst (asm) propagate.simps) simp
      with "1.IH"(1) [OF Cons refl] True seen [OF "1.prems"(2) Cons True] show ?thesis
        using seen leaf expand by simp
    next
      case False
      show ?thesis
      proof (cases "outgoing_of (tp_dependencies tp) current")
        case None
        with Cons False "1.prems"(1) have "propagate tp rule ?w2 = Some w'"
          by (subst (asm) propagate.simps) simp
        with "1.IH"(2) [OF Cons refl _ refl None] False leaf [OF "1.prems"(2) Cons None] show ?thesis
          using seen leaf expand by simp
      next
        case (Some es)
        with Cons False "1.prems"(1) obtain w3 where w3: "visit_edges tp rule current es ?w2 = Some w3"
          and "propagate tp rule w3 = Some w'"
          by (subst (asm) propagate.simps) (auto split: option.splits)
        with "1.IH"(3) [OF Cons refl _ refl Some w3] False expand [OF "1.prems"(2) Cons Some] show ?thesis
          using seen leaf expand by simp
      qed
    qed
  qed
qed

lemma hard_step_outgoing:
  "outgoing_of (tp_dependencies tp) i = Some es \<Longrightarrow>
   hard_step tp rule i j \<longleftrightarrow> (\<exists>e \<in> set es. hard_target tp rule e j)"
  by (auto simp: hard_step_def)

lemma closure_inv_expand:
  assumes inv: "closure_inv tp rule M0 w" and front: "w_frontier w = current # rest"
    and es: "outgoing_of (tp_dependencies tp) current = Some es"
    and visit: "visit_edges tp rule current es
          (w\<lparr>w_frontier := rest, w_visited := id_set_add (w_visited w) current\<rparr>) = Some w3"
  shows "closure_inv tp rule M0 w3"
proof -
  let ?T = "{j. hard_step tp rule current j}"
  have sets: "set (w_mandatory w3) = set (w_mandatory w) \<union> ?T"
    "set (w_frontier w3) = set rest \<union> (?T - set (w_mandatory w))"
    "set (w_visited w3) = insert current (set (w_visited w))"
    using visit_edges_sets [OF visit] by (simp_all add: hard_step_outgoing [OF es])
  obtain i where "i \<in> M0" "(hard_step tp rule)\<^sup>*\<^sup>* i current"
    using inv front by (force simp: closure_inv_def)
  then have "?T \<subseteq> {j. \<exists>i \<in> M0. (hard_step tp rule)\<^sup>*\<^sup>* i j}"
    by (auto intro: rtranclp.rtrancl_into_rtrancl)
  with inv front show ?thesis unfolding closure_inv_def sets by auto
qed

lemma propagate_closure:
  assumes "propagate tp rule w = Some w'" and "closure_inv tp rule M0 w"
  shows "set (w_mandatory w') = {j. \<exists>i \<in> M0. (hard_step tp rule)\<^sup>*\<^sup>* i j}"
proof -
  have "closure_inv tp rule M0 w' \<and> w_frontier w' = []"
    using assms
  proof (rule propagate_invariant, goal_cases)
    case (1 w current rest)
    then show ?case by (auto simp: closure_inv_def)
  next
    case (2 w current rest)
    then show ?case by (auto simp: closure_inv_def hard_step_def)
  next
    case (3 w current rest es w3)
    then show ?case by (rule closure_inv_expand)
  qed
  then have inv: "closure_inv tp rule M0 w'" and "set (w_visited w') = set (w_mandatory w')"
    by (auto simp: closure_inv_def)
  have "j \<in> set (w_mandatory w')" if "(hard_step tp rule)\<^sup>*\<^sup>* i j" "i \<in> M0" for i j
    using that
  proof (induction rule: rtranclp_induct)
    case base
    with inv show ?case by (auto simp: closure_inv_def)
  next
    case (step y z)
    with inv \<open>set (w_visited w') = _\<close> show ?case by (auto simp: closure_inv_def)
  qed
  with inv show ?thesis by (auto simp: closure_inv_def)
qed

section \<open>The invariant of the working state\<close>

definition buckets_empty :: "BlastRadius \<Rightarrow> bool" where
  "buckets_empty r \<longleftrightarrow>
     br_mandatory r = [] \<and> br_precautionary r = [] \<and> br_unaffected r = [] \<and> br_unresolved r = [] \<and>
     br_legal_actions r = [] \<and> br_illegal_actions r = []"

definition work_inv :: "Topology \<Rightarrow> Work \<Rightarrow> bool" where
  "work_inv tp w \<longleftrightarrow>
     acc_inv tp (w_acc w) (set (w_mandatory w)) (set (w_precautionary w)) \<and>
     id_set_wf (w_mandatory w) \<and> set (w_frontier w) \<subseteq> known tp \<and> buckets_empty (w_radius w)"

lemma known_find: "om_find (tp_resources tp) i = Some r \<Longrightarrow> i \<in> known tp"
  by (auto simp: known_iff)

lemma work_inv_known:
  assumes "work_inv tp w"
  shows "set (w_mandatory w) \<subseteq> known tp" and "set (w_precautionary w) \<subseteq> known tp"
    and "fst ` set (w_acc w) \<subseteq> known tp"
  using assms acc_inv_M_known [of tp "w_acc w"] unfolding work_inv_def acc_inv_def by blast+

lemma work_inv_acc_cong:
  "work_inv tp w \<Longrightarrow> acc_inv tp acc (set (w_mandatory w)) (set (w_precautionary w)) \<Longrightarrow>
   work_inv tp (w\<lparr>w_acc := acc\<rparr>)"
  by (simp add: work_inv_def)

lemma work_inv_visited [simp]: "work_inv tp (w\<lparr>w_visited := v\<rparr>) = work_inv tp w"
  by (simp add: work_inv_def)

lemma work_inv_frontier: "work_inv tp w \<Longrightarrow> set f \<subseteq> known tp \<Longrightarrow> work_inv tp (w\<lparr>w_frontier := f\<rparr>)"
  by (simp add: work_inv_def)

lemma work_inv_set_outcome [simp]: "work_inv tp (set_outcome e outcome w) = work_inv tp w"
  by (simp add: work_inv_def set_outcome_def buckets_empty_def)

lemma work_inv_push_hop [simp]: "work_inv tp (push_hop hop w) = work_inv tp w"
  by (simp add: work_inv_def push_hop_def buckets_empty_def)

lemma work_inv_add_precautionary:
  "work_inv tp w \<Longrightarrow> i \<in> known tp \<Longrightarrow> work_inv tp (add_precautionary i w)"
  by (auto simp: work_inv_def add_precautionary_def intro: acc_inv_precautionary)

lemma work_inv_mandatory:
  assumes "work_inv tp w" and "i \<in> known tp"
  shows "work_inv tp (w\<lparr>w_mandatory := id_set_add (w_mandatory w) i,
                       w_acc := acc_include i g reason d (w_acc w)\<rparr>)"
  using assms by (simp add: work_inv_def acc_inv_include id_set_wf_add)

lemma work_inv_mark_unresolved:
  "work_inv tp w \<Longrightarrow> i \<in> known tp \<Longrightarrow>
   work_inv tp (w\<lparr>w_acc := acc_mark_unresolved i g reason d (w_acc w)\<rparr>)"
  by (rule work_inv_acc_cong) (auto simp: work_inv_def intro: acc_inv_mark_unresolved)

lemma work_inv_follow_hard:
  assumes "work_inv tp w" and "rr_id destination \<in> known tp"
  shows "work_inv tp (follow_hard_edge current edge destination hop w)"
proof -
  let ?d = "rr_id destination" and ?w = "push_hop (hop\<lparr>hop_reason := InclusionReason.PROPAGATION_HARD_EDGE\<rparr>) w"
  have w: "work_inv tp ?w" using assms by simp
  show ?thesis
  proof (cases "?d \<in> set (w_mandatory ?w)")
    case True
    with w show ?thesis
      by (auto simp: follow_hard_edge_def Let_def work_inv_def
          intro: acc_inv_include_again simp del: work_inv_push_hop)
  next
    case False
    with w assms(2) show ?thesis
      by (auto simp: follow_hard_edge_def Let_def work_inv_def id_set_wf_add
          intro: acc_inv_include simp del: work_inv_push_hop)
  qed
qed

lemma work_inv_visit_edge:
  assumes keyed: "resources_keyed tp" and inv: "work_inv tp w"
    and visit: "visit_edge tp rule current e w = Some w'"
  shows "work_inv tp w'"
proof (cases "graph_find (tp_dependencies tp) e")
  case None
  with inv visit show ?thesis by (simp add: visit_edge_def)
next
  case edge: (Some edge)
  show ?thesis
  proof (cases "om_find (tp_resources tp) (de_destination edge)")
    case None
    then show ?thesis using edge inv visit
      by (auto simp: visit_edge_def Let_def split: option.splits
          intro!: work_inv_mark_unresolved known_find)
  next
    case (Some destination)
    then have d: "rr_id destination \<in> known tp" using keyed_id [OF keyed] known_find by metis
    from Some visit edge have "w' = visit_known_destination rule current e edge destination w"
      by (simp add: visit_edge_def)
    with d inv show ?thesis
      unfolding visit_known_destination_def Let_def follow_conditional_edge_def follow_unknown_edge_def
      by (auto intro!: work_inv_follow_hard work_inv_mark_unresolved work_inv_add_precautionary)
  qed
qed

lemma visit_edge_defined:
  "current \<in> known tp \<Longrightarrow> \<exists>w'. visit_edge tp rule current e w = Some w'"
  by (auto simp: visit_edge_def known_iff Let_def split: option.splits)

lemma visit_edges_total:
  "resources_keyed tp \<Longrightarrow> current \<in> known tp \<Longrightarrow> work_inv tp w \<Longrightarrow>
   \<exists>w'. visit_edges tp rule current es w = Some w' \<and> work_inv tp w'"
proof (induction es arbitrary: w)
  case (Cons e es)
  obtain w1 where "visit_edge tp rule current e w = Some w1"
    using visit_edge_defined Cons.prems(2) by blast
  moreover from this Cons.prems have "work_inv tp w1" using work_inv_visit_edge by blast
  ultimately show ?case using Cons by simp
qed simp

lemma propagate_total:
  "resources_keyed tp \<Longrightarrow> work_inv tp w \<Longrightarrow> \<exists>w'. propagate tp rule w = Some w' \<and> work_inv tp w'"
proof (induction tp rule w rule: propagate.induct)
  case (1 tp rule w)
  show ?case
  proof (cases "w_frontier w")
    case Nil
    with "1.prems" show ?thesis by (subst propagate.simps) simp
  next
    case (Cons current rest)
    let ?w1 = "w\<lparr>w_frontier := rest\<rparr>"
    let ?w2 = "?w1\<lparr>w_visited := id_set_add (w_visited ?w1) current\<rparr>"
    have k: "current \<in> known tp" and "work_inv tp ?w1" and "work_inv tp ?w2"
      using "1.prems"(2) Cons by (auto simp: work_inv_def)
    then obtain w3 where w3: "visit_edges tp rule current es ?w2 = Some (w3 es)" "work_inv tp (w3 es)" for es
      using visit_edges_total [OF "1.prems"(1) k] by metis
    show ?thesis
      using "1.IH"(1) [OF Cons refl] "1.IH"(2) [OF Cons refl _ refl] "1.IH"(3) [OF Cons refl _ refl]
        \<open>work_inv tp ?w1\<close> \<open>work_inv tp ?w2\<close> w3 "1.prems"(1) Cons
      by (subst propagate.simps) (auto simp: Let_def split: option.splits)
  qed
qed

section \<open>Structural inclusions\<close>

text \<open>Before the traversal every entry is an inclusion, so the mandatory set is the key set.\<close>

definition seed_inv :: "Topology \<Rightarrow> Accumulator \<Rightarrow> bool" where
  "seed_inv tp acc \<longleftrightarrow> acc_inv tp acc (fst ` set acc) {}"

lemma acc_include_keys [simp]:
  "fst ` set (acc_include i g reason d acc) = insert i (fst ` set acc)"
  by (simp add: acc_include_def om_adjust_default_def)

lemma seed_inv_include: "seed_inv tp acc \<Longrightarrow> i \<in> known tp \<Longrightarrow> seed_inv tp (acc_include i g reason d acc)"
  by (simp add: seed_inv_def acc_inv_include)

lemma seed_inv_members: "seed_inv tp acc \<Longrightarrow> seed_inv tp (include_members tp members reason d acc)"
  unfolding include_members_def
  by (rule fold_invariant_list [of "seed_inv tp"])
    (auto split: option.splits intro: seed_inv_include known_find)

lemma seed_inv_shared_authority:
  assumes "resources_keyed tp" and "seed_inv tp acc"
  shows "seed_inv tp (include_shared_authority tp kind subject acc)"
proof -
  have k: "rr_id r \<in> known tp" if "(k, r) \<in> set (tp_resources tp)" for k r
    using keyed_in_set [OF assms(1) that] that by force
  show ?thesis
    unfolding include_shared_authority_def using assms(2)
    by (auto intro!: fold_invariant_list [of "seed_inv tp"] seed_inv_include k)
qed

lemma include_members_keys:
  "fst ` set (include_members tp members reason d acc) = fst ` set acc \<union> (set members \<inter> known tp)"
  unfolding include_members_def
  by (induction members arbitrary: acc)
    (auto split: option.split simp: known_iff simp del: om_find_None_iff)

lemma seed_inv_structural:
  assumes keyed: "resources_keyed tp" and subject: "om_find (tp_resources tp) i = Some subject"
  shows "seed_inv tp (structural_inclusions tp rule kind subject)"
proof -
  have "rr_id subject \<in> known tp" using keyed_id [OF keyed subject] subject known_find by simp
  then have "seed_inv tp (acc_include (rr_id subject) g reason d [])" for g reason d
    by (intro seed_inv_include) (simp_all add: seed_inv_def)
  then show ?thesis
    unfolding structural_inclusions_def include_containment_domain_def include_failure_domain_def
      include_isolation_domain_def
    by (auto split: option.split intro!: seed_inv_members seed_inv_shared_authority keyed)
qed

lemma initial_mandatory_fold:
  "set (fold (\<lambda>e s. if cr_has_inclusion (snd e) then id_set_add s (fst e) else s) acc s) =
     set s \<union> {i. \<exists>c. (i, c) \<in> set acc \<and> cr_has_inclusion c}"
  by (induction acc arbitrary: s) auto

lemma initial_mandatory_wf: "id_set_wf (initial_mandatory acc)"
  unfolding initial_mandatory_def
  by (rule fold_invariant_list [of id_set_wf]) (auto intro: id_set_wf_add)

lemma set_initial_mandatory:
  assumes "seed_inv tp acc"
  shows "set (initial_mandatory acc) = fst ` set acc"
proof -
  have "om_wf acc" and inc: "\<And>i. included acc i \<longleftrightarrow> i \<in> fst ` set acc"
    using assms by (auto simp: seed_inv_def acc_inv_def)
  then have "(\<exists>c. (i, c) \<in> set acc \<and> cr_has_inclusion c) \<longleftrightarrow> i \<in> fst ` set acc" for i
    using inc [of i] by (auto simp: om_in_set_iff included_def)
  then show ?thesis by (simp add: initial_mandatory_def initial_mandatory_fold)
qed

lemma initial_work_inv:
  assumes "resources_keyed tp" and "om_find (tp_resources tp) i = Some subject"
  shows "work_inv tp (initial_work input tp policy fault rule subject)"
proof -
  let ?acc = "structural_inclusions tp rule (fe_kind (fr_evidence fault)) subject"
  have seed: "seed_inv tp ?acc" using assms by (rule seed_inv_structural)
  then have "fst ` set ?acc \<subseteq> known tp" by (simp add: seed_inv_def acc_inv_def)
  with seed show ?thesis
    by (simp add: work_inv_def initial_work_def Let_def initial_mandatory_wf
        set_initial_mandatory [OF seed] seed_inv_def buckets_empty_def initial_radius_def
        BlastRadius_default_def)
qed

lemma initial_work_closure:
  "closure_inv tp rule (set (w_mandatory (initial_work input tp policy fault rule subject)))
     (initial_work input tp policy fault rule subject)"
  by (auto simp: closure_inv_def initial_work_def Let_def)

section \<open>The phases after the traversal\<close>

lemma acc_inv_note_unresolved_member:
  "acc_inv tp acc M P \<Longrightarrow> acc_inv tp (note_unresolved_member tp mandatory members reason d acc) M P"
  unfolding note_unresolved_member_def
  by (rule fold_invariant_list [of "\<lambda>a. acc_inv tp a M P"])
    (auto split: option.splits intro: acc_inv_mark_unresolved known_find)

lemma work_inv_note_unresolved_groups:
  assumes "resources_keyed tp" and "om_find (tp_resources tp) i = Some subject" and "work_inv tp w"
  shows "work_inv tp (note_unresolved_groups tp subject w)"
proof -
  have "rr_id subject \<in> known tp" using keyed_id [OF assms(1,2)] assms(2) known_find by simp
  with assms(3) show ?thesis
    unfolding note_unresolved_groups_def Let_def
    by (intro work_inv_acc_cong)
      (auto simp: work_inv_def split: option.split
        intro!: acc_inv_note_unresolved_member acc_inv_mark_unresolved)
qed

lemma work_inv_flags [simp]:
  "work_inv tp (w\<lparr>w_radius := (w_radius w)\<lparr>br_uncertainty_escalated := a\<rparr>\<rparr>) = work_inv tp w"
  "work_inv tp (w\<lparr>w_radius := (w_radius w)\<lparr>br_uncertainty_escalated := a, br_fail_closed_applied := b\<rparr>\<rparr>) =
     work_inv tp w"
  "work_inv tp (w\<lparr>w_radius := (w_radius w)\<lparr>br_hard_constraints_satisfied := a, br_fail_closed_applied := b\<rparr>\<rparr>) =
     work_inv tp w"
  "work_inv tp (w\<lparr>w_radius := (w_radius w)\<lparr>br_budget_exhausted := a, br_hard_constraints_satisfied := b\<rparr>\<rparr>) =
     work_inv tp w"
  by (simp_all add: work_inv_def buckets_empty_def)

lemma work_inv_contain_unresolved: "work_inv tp w \<Longrightarrow> work_inv tp (contain_unresolved tp i w)"
  by (auto simp: contain_unresolved_def Let_def work_inv_def split: option.split
      intro!: acc_inv_adjust acc_inv_include id_set_wf_add known_find)

lemma work_inv_expose_unresolved:
  assumes "work_inv tp w"
  shows "work_inv tp (expose_unresolved tp i w)"
proof (cases "om_find (tp_resources tp) i")
  case (Some r)
  then have "i \<in> known tp" by (rule known_find)
  with assms have "work_inv tp (add_precautionary i w)" by (rule work_inv_add_precautionary)
  moreover have "i \<in> set (w_precautionary (add_precautionary i w))"
    by (simp add: add_precautionary_def)
  ultimately show ?thesis using Some \<open>i \<in> known tp\<close>
    by (auto simp: expose_unresolved_def Let_def work_inv_def intro!: acc_inv_adjust)
qed (use assms in \<open>simp add: expose_unresolved_def\<close>)

lemma work_inv_escalate: "work_inv tp w \<Longrightarrow> work_inv tp (escalate_unresolved tp rule w)"
  unfolding escalate_unresolved_def Let_def
  by (auto intro!: fold_invariant_list [of "work_inv tp"] work_inv_contain_unresolved
      work_inv_expose_unresolved)

lemma work_inv_widen: "work_inv tp w \<Longrightarrow> work_inv tp (widen_member tp i w)"
  by (auto simp: widen_member_def split: option.split intro!: work_inv_mandatory known_find)

lemma work_inv_exposure: "work_inv tp w \<Longrightarrow> work_inv tp (enforce_exposure tp rule subject w)"
  unfolding enforce_exposure_def Let_def
  by (auto intro!: fold_invariant_list [of "work_inv tp"] work_inv_widen)

lemma work_inv_budget: "work_inv tp w \<Longrightarrow> work_inv tp (enforce_budget rule w)"
  by (simp add: enforce_budget_def)

text \<open>Mandatory membership only grows after the traversal.\<close>

lemma mandatory_mono_escalate: "set (w_mandatory w) \<subseteq> set (w_mandatory (escalate_unresolved tp rule w))"
proof -
  have "set (w_mandatory w) \<subseteq> set (w_mandatory (fold (contain_unresolved tp) ids w'))"
    if "w_mandatory w' = w_mandatory w" for ids w'
    by (rule fold_invariant_list [of "\<lambda>x. set (w_mandatory w) \<subseteq> set (w_mandatory x)"])
      (auto simp: that contain_unresolved_def Let_def split: option.split)
  moreover have "set (w_mandatory w) \<subseteq> set (w_mandatory (fold (expose_unresolved tp) ids w'))"
    if "w_mandatory w' = w_mandatory w" for ids w'
    by (rule fold_invariant_list [of "\<lambda>x. set (w_mandatory w) \<subseteq> set (w_mandatory x)"])
      (auto simp: that expose_unresolved_def add_precautionary_def Let_def split: option.split)
  ultimately show ?thesis by (simp add: escalate_unresolved_def Let_def)
qed

lemma mandatory_widen:
  "set (w_mandatory (fold (widen_member tp) members w)) = set (w_mandatory w) \<union> (set members \<inter> known tp)"
  by (induction members arbitrary: w)
    (auto simp: widen_member_def known_iff split: option.split)

lemma mandatory_mono_exposure: "set (w_mandatory w) \<subseteq> set (w_mandatory (enforce_exposure tp rule subject w))"
  by (simp add: enforce_exposure_def Let_def mandatory_widen)

lemma mandatory_budget [simp]: "w_mandatory (enforce_budget rule w) = w_mandatory w"
  by (simp add: enforce_budget_def)

lemma mandatory_note [simp]: "w_mandatory (note_unresolved_groups tp subject w) = w_mandatory w"
  by (simp add: note_unresolved_groups_def Let_def)

section \<open>Classification of the remaining resources\<close>

text \<open>A resource is settled when it is mandatory, precautionary or has an entry.\<close>

definition settled :: "Work \<Rightarrow> ResourceId \<Rightarrow> bool" where
  "settled w i \<longleftrightarrow>
     i \<in> set (w_mandatory w) \<or> i \<in> set (w_precautionary w) \<or> i \<in> fst ` set (w_acc w)"

lemma acc_keys [simp]:
  "fst ` set (acc_exclude i g x d acc) = insert i (fst ` set acc)"
  "fst ` set (acc_mark_unresolved i g y d acc) = insert i (fst ` set acc)"
  "fst ` set (om_adjust_default v i f acc) = insert i (fst ` set acc)"
  by (simp_all add: acc_exclude_def acc_mark_unresolved_def om_adjust_default_def)

lemma classify_candidate_fields [simp]:
  "w_mandatory (classify_candidate subject r w) = w_mandatory w"
  "w_precautionary (classify_candidate subject r w) = w_precautionary w"
  "w_radius (classify_candidate subject r w) = w_radius w"
  "w_frontier (classify_candidate subject r w) = w_frontier w"
  by (simp_all add: classify_candidate_def Let_def)

lemma classify_candidate_settled:
  "settled (classify_candidate subject r w) (rr_id r)"
  "settled w i \<Longrightarrow> settled (classify_candidate subject r w) i"
  by (auto simp: settled_def classify_candidate_def Let_def)

lemma om_put_put [simp]: "om_put k x (om_put k y m) = om_put k x m"
  by (induction m) auto

lemma touch_then_step:
  "acc_mark_unresolved i g y d (om_adjust_default ClassifiedResource_default i (\<lambda>c. c) acc) =
     acc_mark_unresolved i g y d acc"
  "acc_exclude i g x d (om_adjust_default ClassifiedResource_default i (\<lambda>c. c) acc) =
     acc_exclude i g x d acc"
  by (simp_all add: acc_step_defs acc_at_def)

lemma acc_inv_touch:
  assumes "acc_inv tp acc M P" and "i \<in> known tp" and "i \<notin> M"
    and "map_option cr_has_unresolved
       (om_find (om_adjust_default ClassifiedResource_default i (\<lambda>c. c) acc) i) = Some True"
  shows "acc_inv tp (om_adjust_default ClassifiedResource_default i (\<lambda>c. c) acc) M P"
  using assms unfolding adjust_default_at by (intro acc_inv_put) (auto simp: acc_inv_at)

lemma work_inv_classify_candidate:
  assumes "work_inv tp w" and "om_find (tp_resources tp) (rr_id r) = Some r"
  shows "work_inv tp (classify_candidate subject r w)"
proof -
  have k: "rr_id r \<in> known tp" using assms(2) by (rule known_find)
  have f: "fresh_at tp (rr_id r)" if "rr_freshness r = EvidenceFreshness.FRESH"
    using that assms(2) by (simp add: fresh_at_def)
  show ?thesis
    using assms(1) k f unfolding classify_candidate_def Let_def touch_then_step
    by (auto simp: work_inv_def intro: acc_inv_touch acc_inv_mark_unresolved acc_inv_exclude)
qed

lemma classify_candidates_inv:
  assumes keyed: "resources_keyed tp" and "work_inv tp w"
  shows "work_inv tp (classify_candidates tp subject w)"
  unfolding classify_candidates_def
  using assms(2) keyed_in_set [OF keyed]
  by (intro fold_invariant_list [of "work_inv tp"]) (auto intro!: work_inv_classify_candidate)

lemma classify_candidates_fields [simp]:
  "w_mandatory (classify_candidates tp subject w) = w_mandatory w"
  "w_precautionary (classify_candidates tp subject w) = w_precautionary w"
  "w_radius (classify_candidates tp subject w) = w_radius w"
  unfolding classify_candidates_def
  by (rule fold_preserves; clarsimp)+

lemma classify_candidates_settled:
  assumes keyed: "resources_keyed tp" and "i \<in> known tp"
  shows "settled (classify_candidates tp subject w) i"
proof -
  have "settled (fold (\<lambda>(_, candidate). classify_candidate subject candidate) xs w) i"
    if "settled w i \<or> i \<in> rr_id ` snd ` set xs" for xs w
    using that
  proof (induction xs arbitrary: w)
    case (Cons a xs)
    then have "settled (classify_candidate subject (snd a) w) i \<or> i \<in> rr_id ` snd ` set xs"
      by (auto intro: classify_candidate_settled)
    with Cons.IH show ?case by (simp add: case_prod_beta)
  qed simp
  moreover have "i \<in> rr_id ` snd ` set (tp_resources tp)"
    using assms(2) keyed_in_set [OF keyed] by force
  ultimately show ?thesis unfolding classify_candidates_def by blast
qed

section \<open>Buckets\<close>

lemma bucket_fold:
  "fold (bucket_classified p) acc r =
     r\<lparr>br_mandatory := br_mandatory r @ map fst (filter (\<lambda>(i, c). cr_has_inclusion c) acc),
       br_unresolved := br_unresolved r @
         map fst (filter (\<lambda>(i, c). \<not> cr_has_inclusion c \<and> i \<notin> set p \<and> cr_has_unresolved c) acc),
       br_unaffected := br_unaffected r @
         map fst (filter (\<lambda>(i, c). \<not> cr_has_inclusion c \<and> i \<notin> set p \<and> \<not> cr_has_unresolved c) acc)\<rparr>"
  by (induction acc arbitrary: r) (auto simp: bucket_classified_def Let_def split: prod.splits)

lemma precautionary_fold:
  "w_mandatory (fold bucket_precautionary ids w) = w_mandatory w \<and>
   br_mandatory (w_radius (fold bucket_precautionary ids w)) = br_mandatory (w_radius w) \<and>
   br_unresolved (w_radius (fold bucket_precautionary ids w)) = br_unresolved (w_radius w) \<and>
   br_unaffected (w_radius (fold bucket_precautionary ids w)) = br_unaffected (w_radius w) \<and>
   br_precautionary (w_radius (fold bucket_precautionary ids w)) =
     br_precautionary (w_radius w) @ filter (\<lambda>i. i \<notin> set (w_mandatory w)) ids"
  by (induction ids arbitrary: w) (simp_all add: bucket_precautionary_def)

text \<open>The four buckets, read off the settled working state.\<close>

lemma fill_buckets_sets:
  assumes inv: "work_inv tp w"
  defines "r \<equiv> w_radius (fill_buckets w)"
  shows "set (br_mandatory r) = set (w_mandatory w)"
    and "set (br_precautionary r) = set (w_precautionary w) - set (w_mandatory w)"
    and "set (br_unresolved r) = {i. \<exists>c. om_find (w_acc w) i = Some c \<and> i \<notin> set (w_mandatory w) \<and>
           i \<notin> set (w_precautionary w) \<and> cr_has_unresolved c}"
    and "set (br_unaffected r) = {i. \<exists>c. om_find (w_acc w) i = Some c \<and> i \<notin> set (w_mandatory w) \<and>
           i \<notin> set (w_precautionary w) \<and> \<not> cr_has_unresolved c}"
proof -
  have wf: "om_wf (w_acc w)" and e: "buckets_empty (w_radius w)"
    and inc: "\<And>i. included (w_acc w) i \<longleftrightarrow> i \<in> set (w_mandatory w)"
    using inv by (auto simp: work_inv_def acc_inv_def)
  have m: "cr_has_inclusion c \<longleftrightarrow> i \<in> set (w_mandatory w)" if "om_find (w_acc w) i = Some c" for i c
    using inc [of i] that by (simp add: included_def)
  have "(\<exists>c. om_find (w_acc w) i = Some c \<and> cr_has_inclusion c) \<longleftrightarrow> i \<in> set (w_mandatory w)" for i
    using inc [of i] by (simp add: included_def)
  then show "set (br_mandatory r) = set (w_mandatory w)"
    using e by (force simp: r_def fill_buckets_def Let_def precautionary_fold bucket_fold
        buckets_empty_def om_in_set_iff [OF wf])
  show "set (br_precautionary r) = set (w_precautionary w) - set (w_mandatory w)"
    using e by (auto simp: r_def fill_buckets_def Let_def precautionary_fold bucket_fold buckets_empty_def)
  show "set (br_unresolved r) = {i. \<exists>c. om_find (w_acc w) i = Some c \<and> i \<notin> set (w_mandatory w) \<and>
           i \<notin> set (w_precautionary w) \<and> cr_has_unresolved c}"
    using e m by (force simp: r_def fill_buckets_def Let_def precautionary_fold bucket_fold
        buckets_empty_def om_in_set_iff [OF wf])
  show "set (br_unaffected r) = {i. \<exists>c. om_find (w_acc w) i = Some c \<and> i \<notin> set (w_mandatory w) \<and>
           i \<notin> set (w_precautionary w) \<and> \<not> cr_has_unresolved c}"
    using e m by (force simp: r_def fill_buckets_def Let_def precautionary_fold bucket_fold
        buckets_empty_def om_in_set_iff [OF wf])
qed

lemma fill_buckets_sorted:
  assumes "work_inv tp w"
  shows "id_set_wf (br_mandatory (w_radius (fill_buckets w))) \<and>
    id_set_wf (br_precautionary (w_radius (fill_buckets w))) \<and>
    id_set_wf (br_unaffected (w_radius (fill_buckets w))) \<and>
    id_set_wf (br_unresolved (w_radius (fill_buckets w)))"
proof -
  have "om_wf (w_acc w)" and e: "buckets_empty (w_radius w)"
    using assms by (auto simp: work_inv_def acc_inv_def)
  then have "id_set_wf (map fst (filter f (w_acc w)))" for f
    by (simp add: om_wf_def sorted_wrt_map sorted_wrt_filter)
  moreover have "id_set_wf (remdups_adj (sort xs))" for xs :: "ResourceId list"
    by (simp add: sorted_remdups_adj_strict)
  ultimately show ?thesis using e
    by (simp add: fill_buckets_def Let_def precautionary_fold bucket_fold buckets_empty_def
        sorted_wrt_filter)
qed

lemma select_actions_buckets [simp]:
  "br_mandatory (w_radius (select_actions tp rule w)) = br_mandatory (w_radius w)"
  "br_precautionary (w_radius (select_actions tp rule w)) = br_precautionary (w_radius w)"
  "br_unaffected (w_radius (select_actions tp rule w)) = br_unaffected (w_radius w)"
  "br_unresolved (w_radius (select_actions tp rule w)) = br_unresolved (w_radius w)"
  by (simp_all add: select_actions_def select_enforcing_def note_protected_def Let_def)

lemma explain_radius_fields [simp]:
  "br_mandatory (explain_radius tp rule fault w) = br_mandatory (w_radius w)"
  "br_precautionary (explain_radius tp rule fault w) = br_precautionary (w_radius w)"
  "br_unaffected (explain_radius tp rule fault w) = br_unaffected (w_radius w)"
  "br_unresolved (explain_radius tp rule fault w) = br_unresolved (w_radius w)"
  "br_legal_actions (explain_radius tp rule fault w) = br_legal_actions (w_radius w)"
  "br_illegal_actions (explain_radius tp rule fault w) = br_illegal_actions (w_radius w)"
  "br_recommended (explain_radius tp rule fault w) = br_recommended (w_radius w)"
  by (simp_all add: explain_radius_def Let_def)

section \<open>The shape of a computed radius\<close>

text \<open>What the computation was run on, and the working state just before the buckets.\<close>

definition radius_run ::
    "BlastRadiusInput \<Rightarrow> Topology \<Rightarrow> FaultRule \<Rightarrow> FaultRecord \<Rightarrow> ResourceRecord \<Rightarrow> Work \<Rightarrow> Work \<Rightarrow> bool" where
  "radius_run input tp rule fault subject w w' \<longleftrightarrow>
     bri_topology input = Some tp \<and> bri_fault input = Some fault \<and>
     om_find (tp_resources tp) (fe_subject (fr_evidence fault)) = Some subject \<and>
     (\<exists>policy. bri_policy input = Some policy \<and> rule = rule_for policy (fe_kind (fr_evidence fault)) \<and>
        propagate tp rule (initial_work input tp policy fault rule subject) = Some w) \<and>
     w' = classify_candidates tp subject (enforce_budget rule (enforce_exposure tp rule subject
            (escalate_unresolved tp rule (note_unresolved_groups tp subject w))))"

lemma compute_SomeE:
  assumes "compute_blast_radius input = Some (Inr radius)"
  obtains tp rule fault subject w w' where "radius_run input tp rule fault subject w w'"
    and "radius = explain_radius tp rule fault (select_actions tp rule (fill_buckets w'))"
  using assms
  by (auto simp: compute_blast_radius_def radius_run_def settle_def Let_def split: option.splits)

lemma radius_run_inv:
  assumes run: "radius_run input tp rule fault subject w w'" and keyed: "resources_keyed tp"
  shows "work_inv tp w \<and> work_inv tp w' \<and> set (w_mandatory w) \<subseteq> set (w_mandatory w') \<and>
    (\<forall>i \<in> known tp. settled w' i)"
proof -
  let ?e = "escalate_unresolved tp rule (note_unresolved_groups tp subject w)"
  obtain policy where subject: "om_find (tp_resources tp) (fe_subject (fr_evidence fault)) = Some subject"
    and p: "propagate tp rule (initial_work input tp policy fault rule subject) = Some w"
    and w': "w' = classify_candidates tp subject (enforce_budget rule (enforce_exposure tp rule subject ?e))"
    using run by (auto simp: radius_run_def)
  have w: "work_inv tp w"
    using propagate_total [OF keyed initial_work_inv [OF keyed subject]] p by (metis option.inject)
  then have "work_inv tp w'" unfolding w'
    by (intro classify_candidates_inv work_inv_budget work_inv_exposure work_inv_escalate
        work_inv_note_unresolved_groups [OF keyed subject] keyed)
  moreover have "set (w_mandatory w) \<subseteq> set (w_mandatory w')"
    using mandatory_mono_escalate [of "note_unresolved_groups tp subject w" tp rule]
      mandatory_mono_exposure [of ?e tp rule subject] unfolding w' by auto
  ultimately show ?thesis using w classify_candidates_settled [OF keyed] unfolding w' by blast
qed

lemma input_topology_unique:
  "radius_run input tp rule fault subject w w' \<Longrightarrow> bri_topology input = Some tp' \<Longrightarrow> tp' = tp"
  by (simp add: radius_run_def)

text \<open>
  The four buckets of a computed blast radius partition the topology: they are
  canonical identity sets, pairwise disjoint, and together hold exactly the known resources.
  A resource is only called unaffected on the strength of fresh evidence.
\<close>

theorem blast_radius_partition:
  assumes "compute_blast_radius input = Some (Inr radius)" and "bri_topology input = Some tp"
    and "resources_keyed tp"
  shows "set (br_mandatory radius) \<union> set (br_precautionary radius) \<union> set (br_unaffected radius) \<union>
      set (br_unresolved radius) = known tp \<and>
    set (br_mandatory radius) \<inter> set (br_precautionary radius) = {} \<and>
    set (br_mandatory radius) \<inter> (set (br_unaffected radius) \<union> set (br_unresolved radius)) = {} \<and>
    set (br_precautionary radius) \<inter> (set (br_unaffected radius) \<union> set (br_unresolved radius)) = {} \<and>
    set (br_unaffected radius) \<inter> set (br_unresolved radius) = {} \<and>
    list_all id_set_wf [br_mandatory radius, br_precautionary radius, br_unaffected radius,
      br_unresolved radius] \<and>
    list_all (fresh_at tp) (br_unaffected radius)"
proof -
  obtain rule fault subject w w' where run: "radius_run input tp rule fault subject w w'"
    and r: "radius = explain_radius tp rule fault (select_actions tp rule (fill_buckets w'))"
    using assms(1,2) by (metis compute_SomeE input_topology_unique)
  have inv: "work_inv tp w'" and st: "\<And>i. i \<in> known tp \<Longrightarrow> settled w' i"
    using radius_run_inv [OF run assms(3)] by auto
  note sets = fill_buckets_sets [OF inv]
  have "set (w_mandatory w') \<subseteq> known tp" "set (w_precautionary w') \<subseteq> known tp"
    "fst ` set (w_acc w') \<subseteq> known tp"
    using work_inv_known [OF inv] by simp_all
  then have kn: "known tp = set (w_mandatory w') \<union> set (w_precautionary w') \<union> fst ` set (w_acc w')"
    using st unfolding settled_def by blast
  have keys: "i \<in> fst ` set (w_acc w') \<longleftrightarrow> (\<exists>c. om_find (w_acc w') i = Some c)" for i
    using om_find_None_iff [of "w_acc w'" i] by auto
  let ?r = "w_radius (fill_buckets w')"
  have rest: "set (br_unaffected ?r) \<union> set (br_unresolved ?r) =
      fst ` set (w_acc w') - set (w_mandatory w') - set (w_precautionary w')"
    "set (br_unaffected ?r) \<inter> set (br_unresolved ?r) = {}"
    unfolding sets using keys by (blast, auto)
  have "fresh_at tp i" if "i \<in> set (br_unaffected ?r)" for i
    using that acc_inv_entry [of tp "w_acc w'"] inv unfolding sets work_inv_def by blast
  then have "list_all (fresh_at tp) (br_unaffected ?r)" by (simp add: list_all_iff)
  moreover have "set (br_mandatory ?r) \<union> set (br_precautionary ?r) \<union> set (br_unaffected ?r) \<union>
      set (br_unresolved ?r) = known tp"
    using rest(1) unfolding sets(1,2) kn by blast
  moreover have "set (br_mandatory ?r) \<inter> set (br_precautionary ?r) = {}"
    "set (br_mandatory ?r) \<inter> (set (br_unaffected ?r) \<union> set (br_unresolved ?r)) = {}"
    "set (br_precautionary ?r) \<inter> (set (br_unaffected ?r) \<union> set (br_unresolved ?r)) = {}"
    using rest(1) unfolding sets(1,2) by blast+
  ultimately show ?thesis
    unfolding r explain_radius_fields select_actions_buckets list.pred_inject
    using fill_buckets_sorted [OF inv] rest(2) by (elim conjE) (intro conjI; (assumption | simp))
qed

text \<open>
  C32. The computation never throws on a keyed topology: when topology, policy and fault are
  given it answers, with a radius if the fault's subject is known and with UNKNOWN_RESOURCE if not.
\<close>

theorem compute_blast_radius_total:
  assumes "bri_topology input = Some tp" and "bri_policy input = Some policy"
    and "bri_fault input = Some fault" and "resources_keyed tp"
  shows "(if fe_subject (fr_evidence fault) \<in> known tp
     then \<exists>radius. compute_blast_radius input = Some (Inr radius)
     else \<exists>e. compute_blast_radius input = Some (Inl e) \<and> err_code e = ErrorCode.UNKNOWN_RESOURCE)"
proof (cases "om_find (tp_resources tp) (fe_subject (fr_evidence fault))")
  case None
  with assms show ?thesis by (simp add: compute_blast_radius_def known_iff)
next
  case (Some subject)
  let ?rule = "rule_for policy (fe_kind (fr_evidence fault))"
  obtain w where "propagate tp ?rule (initial_work input tp policy fault ?rule subject) = Some w"
    using propagate_total [OF assms(4) initial_work_inv [OF assms(4) Some]] by blast
  with assms Some show ?thesis by (simp add: compute_blast_radius_def known_iff Let_def)
qed

text \<open>
  C30. The worklist traversal is exact: its mandatory set is the set of resources reachable
  over hard edges from the structurally included ones, and the result's mandatory bucket contains it.
\<close>

theorem blast_radius_reachability:
  assumes "compute_blast_radius input = Some (Inr radius)" and "bri_topology input = Some tp"
    and "bri_policy input = Some policy" and "bri_fault input = Some fault"
    and "om_find (tp_resources tp) (fe_subject (fr_evidence fault)) = Some subject"
    and "rule = rule_for policy (fe_kind (fr_evidence fault))" and "resources_keyed tp"
  shows "\<exists>w. propagate tp rule (initial_work input tp policy fault rule subject) = Some w \<and>
    set (w_mandatory w) =
      {j. \<exists>i \<in> set (initial_mandatory (structural_inclusions tp rule (fe_kind (fr_evidence fault)) subject)).
           (hard_step tp rule)\<^sup>*\<^sup>* i j} \<and>
    set (w_mandatory w) \<subseteq> set (br_mandatory radius)"
proof -
  obtain tp' rule' fault' subject' w w' where run: "radius_run input tp' rule' fault' subject' w w'"
    and r: "radius = explain_radius tp' rule' fault' (select_actions tp' rule' (fill_buckets w'))"
    using assms(1) by (rule compute_SomeE)
  with assms have p: "propagate tp rule (initial_work input tp policy fault rule subject) = Some w"
    and same: "tp' = tp" "rule' = rule" "subject' = subject"
    by (auto simp: radius_run_def)
  have inv: "work_inv tp w'" "set (w_mandatory w) \<subseteq> set (w_mandatory w')"
    using radius_run_inv [OF run [unfolded same] assms(7)] by auto
  have "set (w_mandatory (initial_work input tp policy fault rule subject)) =
      set (initial_mandatory (structural_inclusions tp rule (fe_kind (fr_evidence fault)) subject))"
    by (simp add: initial_work_def Let_def)
  with propagate_closure [OF p initial_work_closure] p inv fill_buckets_sets(1) [OF inv(1)] show ?thesis
    by (simp add: r same)
qed

lemma isolation_exposure:
  "length (filter (\<lambda>m. m \<in> known tp \<and>
       m \<notin> set (w_mandatory (enforce_exposure tp rule subject w))) (isolation_members tp subject))
     \<le> unat (rule_max_tolerated_exposure rule)"
proof (cases "length (filter (\<lambda>m. m \<notin> set (w_mandatory w)) (isolation_members tp subject))
     > unat (rule_max_tolerated_exposure rule)")
  case True
  then have "filter (\<lambda>m. m \<in> known tp \<and>
       m \<notin> set (w_mandatory (enforce_exposure tp rule subject w))) (isolation_members tp subject) = []"
    by (auto simp: enforce_exposure_def Let_def mandatory_widen filter_empty_conv)
  then show ?thesis by (simp only: list.size)
next
  case False
  then have same: "enforce_exposure tp rule subject w = w" by (simp add: enforce_exposure_def Let_def)
  have "length (filter (\<lambda>m. m \<in> known tp \<and> m \<notin> set (w_mandatory w)) xs)
      \<le> length (filter (\<lambda>m. m \<notin> set (w_mandatory w)) xs)" for xs
    by (induction xs) auto
  from this [of "isolation_members tp subject"] False show ?thesis unfolding same by linarith
qed

text \<open>
  C31. Bounded exposure: of the subject's isolation domain, at most
  \<open>max_tolerated_exposure\<close> known members stay outside the mandatory set.
\<close>

theorem blast_radius_exposure_bounded:
  assumes "compute_blast_radius input = Some (Inr radius)" and "bri_topology input = Some tp"
    and "bri_policy input = Some policy" and "bri_fault input = Some fault"
    and "om_find (tp_resources tp) (fe_subject (fr_evidence fault)) = Some subject"
    and "resources_keyed tp"
  shows "length (filter (\<lambda>m. m \<in> known tp \<and> m \<notin> set (br_mandatory radius)) (isolation_members tp subject))
    \<le> unat (rule_max_tolerated_exposure (rule_for policy (fe_kind (fr_evidence fault))))"
proof -
  let ?rule = "rule_for policy (fe_kind (fr_evidence fault))"
  obtain tp' rule' fault' subject' w w' where run: "radius_run input tp' rule' fault' subject' w w'"
    and r: "radius = explain_radius tp' rule' fault' (select_actions tp' rule' (fill_buckets w'))"
    using assms(1) by (rule compute_SomeE)
  with assms have same: "tp' = tp" "rule' = ?rule" "subject' = subject"
    by (auto simp: radius_run_def)
  have "work_inv tp w'" using radius_run_inv [OF run [unfolded same] assms(6)] by auto
  then have "set (br_mandatory radius) = set (w_mandatory w')"
    using fill_buckets_sets(1) by (simp add: r same)
  also have "\<dots> = set (w_mandatory (enforce_exposure tp ?rule subject
      (escalate_unresolved tp ?rule (note_unresolved_groups tp subject w))))"
    using run unfolding same by (simp add: radius_run_def)
  finally show ?thesis by (simp only: isolation_exposure)
qed

text \<open>Everything included structurally stays in the mandatory bucket.\<close>

lemma seeds_mandatory:
  assumes run: "radius_run input tp rule fault subject w w'" and keyed: "resources_keyed tp"
    and r: "radius = explain_radius tp rule fault (select_actions tp rule (fill_buckets w'))"
  shows "fst ` set (structural_inclusions tp rule (fe_kind (fr_evidence fault)) subject)
    \<subseteq> set (br_mandatory radius)"
proof -
  let ?acc = "structural_inclusions tp rule (fe_kind (fr_evidence fault)) subject"
  obtain policy where subject: "om_find (tp_resources tp) (fe_subject (fr_evidence fault)) = Some subject"
    and p: "propagate tp rule (initial_work input tp policy fault rule subject) = Some w"
    using run by (auto simp: radius_run_def)
  have "fst ` set ?acc = set (w_mandatory (initial_work input tp policy fault rule subject))"
    using set_initial_mandatory [OF seed_inv_structural [OF keyed subject]]
    by (simp add: initial_work_def Let_def)
  also have "\<dots> \<subseteq> set (w_mandatory w)"
    unfolding propagate_closure [OF p initial_work_closure] by auto
  also have "\<dots> \<subseteq> set (w_mandatory w')" using radius_run_inv [OF run keyed] by blast
  also have "\<dots> = set (br_mandatory radius)"
    using fill_buckets_sets(1) [of tp w'] radius_run_inv [OF run keyed] by (simp add: r)
  finally show ?thesis .
qed

lemma fold_keys_grow:
  "(\<And>x a. fst ` set a \<subseteq> fst ` set (f x a)) \<Longrightarrow> fst ` set a \<subseteq> fst ` set (fold f xs (a :: Accumulator))"
  by (rule fold_invariant_list [of "\<lambda>b. fst ` set a \<subseteq> fst ` set b"]) (blast intro: subset_trans)+

lemma shared_authority_keys:
  "fst ` set acc \<subseteq> fst ` set (include_shared_authority tp kind subject acc)"
  unfolding include_shared_authority_def
  by (simp only: split: if_split)
    (intro conjI impI subset_refl fold_keys_grow; clarsimp split: prod.split simp: subset_insertI)

lemma shared_authority_boot:
  assumes "kind \<in> set authority_fault_kinds" and "id_valid (rr_owner_boot subject)"
    and "(k, r) \<in> set (tp_resources tp)" and "rr_owner_boot r = rr_owner_boot subject"
  shows "rr_id r \<in> fst ` set (include_shared_authority tp kind subject acc)"
proof -
  let ?f = "\<lambda>(_, candidate) a. if rr_owner_boot candidate = rr_owner_boot subject
             then acc_include (rr_id candidate) (rr_generation candidate)
                    InclusionReason.SHARED_AUTHORITY
                    (''live authority bound to '' @ str_WorkerBootId (rr_owner_boot candidate)) a
             else a"
  have grow: "fst ` set a \<subseteq> fst ` set (?f x a)" for x and a :: Accumulator
    by (cases x) (simp add: subset_insertI)
  have "rr_id r \<in> fst ` set (fold ?f xs a)" if "(k, r) \<in> set xs" for xs a
    using that
  proof (induction xs arbitrary: a)
    case (Cons x xs)
    show ?case
    proof (cases "x = (k, r)")
      case True
      then have "rr_id r \<in> fst ` set (?f x a)" using assms(4) by simp
      then show ?thesis using fold_keys_grow [of ?f, OF grow, of "?f x a" xs] by auto
    qed (use Cons in auto)
  qed simp
  from this [OF assms(3)] show ?thesis using assms(1,2) by (simp add: include_shared_authority_def)
qed

lemma isolation_domain_keys:
  assumes "rule_isolate_isolation_domain rule"
  shows "set (isolation_members tp subject) \<inter> known tp \<subseteq> fst ` set (include_isolation_domain tp rule subject acc)"
proof (cases "id_valid (rr_isolation_domain subject)")
  case True
  show ?thesis
  proof (cases "om_find (tp_isolation_domains tp) (rr_isolation_domain subject)")
    case None
    then have "isolation_members tp subject = []" by (simp add: isolation_members_def)
    then show ?thesis by simp
  next
    case (Some d)
    with True have "isolation_members tp subject = idm_members d" by (simp add: isolation_members_def)
    with True Some assms show ?thesis by (simp add: include_isolation_domain_def include_members_keys)
  qed
next
  case False
  then have "isolation_members tp subject = []" by (simp add: isolation_members_def)
  then show ?thesis by simp
qed

text \<open>The keys every phase of the structural inclusions contributes.\<close>

lemma structural_keys:
  shows "rr_id subject \<in> fst ` set (structural_inclusions tp rule kind subject)"
    and "rule_isolate_isolation_domain rule \<Longrightarrow>
      set (isolation_members tp subject) \<inter> known tp \<subseteq> fst ` set (structural_inclusions tp rule kind subject)"
    and "rule_isolate_failure_domain rule \<Longrightarrow> id_valid (rr_failure_domain subject) \<Longrightarrow>
      om_find (tp_failure_domains tp) (rr_failure_domain subject) = Some d \<Longrightarrow>
      set (fd_members d) \<inter> known tp \<subseteq> fst ` set (structural_inclusions tp rule kind subject)"
    and "kind \<in> set authority_fault_kinds \<Longrightarrow> id_valid (rr_owner_boot subject) \<Longrightarrow>
      (k, r) \<in> set (tp_resources tp) \<Longrightarrow> rr_owner_boot r = rr_owner_boot subject \<Longrightarrow>
      rr_id r \<in> fst ` set (structural_inclusions tp rule kind subject)"
proof -
  let ?a0 = "acc_include (rr_id subject) (rr_generation subject) InclusionReason.FAULT_SUBJECT
               (''subject of '' @ FaultKind_str kind) []"
  let ?a1 = "include_shared_authority tp kind subject ?a0"
  let ?a2 = "include_isolation_domain tp rule subject ?a1"
  let ?a3 = "include_failure_domain tp rule subject ?a2"
  let ?S = "structural_inclusions tp rule kind subject"
  have "fst ` set ?a1 \<subseteq> fst ` set ?a2" "fst ` set ?a2 \<subseteq> fst ` set ?a3" "fst ` set ?a3 \<subseteq> fst ` set ?S"
    by (auto simp: include_isolation_domain_def include_failure_domain_def structural_inclusions_def
        include_containment_domain_def include_members_keys split: option.split)
  moreover have "rr_id subject \<in> fst ` set ?a1"
    using shared_authority_keys [of ?a0 tp kind subject] by auto
  ultimately show "rr_id subject \<in> fst ` set ?S"
    and "kind \<in> set authority_fault_kinds \<Longrightarrow> id_valid (rr_owner_boot subject) \<Longrightarrow>
      (k, r) \<in> set (tp_resources tp) \<Longrightarrow> rr_owner_boot r = rr_owner_boot subject \<Longrightarrow>
      rr_id r \<in> fst ` set ?S"
    using shared_authority_boot [of kind subject k r tp ?a0] by (blast, meson subsetD)
  show "set (isolation_members tp subject) \<inter> known tp \<subseteq> fst ` set ?S" if "rule_isolate_isolation_domain rule"
  proof -
    have "set (isolation_members tp subject) \<inter> known tp \<subseteq> fst ` set ?a2"
      using that by (rule isolation_domain_keys)
    then show ?thesis using \<open>fst ` set ?a2 \<subseteq> _\<close> \<open>fst ` set ?a3 \<subseteq> _\<close> by blast
  qed
  show "set (fd_members d) \<inter> known tp \<subseteq> fst ` set ?S"
    if "rule_isolate_failure_domain rule" "id_valid (rr_failure_domain subject)"
      "om_find (tp_failure_domains tp) (rr_failure_domain subject) = Some d"
  proof -
    have "set (fd_members d) \<inter> known tp \<subseteq> fst ` set ?a3"
      using that by (auto simp: include_failure_domain_def include_members_keys)
    then show ?thesis using \<open>fst ` set ?a3 \<subseteq> _\<close> by blast
  qed
qed

text \<open>
  Structural isolation: the mandatory set holds the fault's subject; every known
  member of its isolation domain and of its failure domain when the rule isolates them; and, for
  a fault that ends a worker's authority, every resource bound to the same worker boot.
\<close>

theorem blast_radius_structural:
  assumes "compute_blast_radius input = Some (Inr radius)" and "bri_topology input = Some tp"
    and "bri_policy input = Some policy" and "bri_fault input = Some fault"
    and "om_find (tp_resources tp) (fe_subject (fr_evidence fault)) = Some subject"
    and "rule = rule_for policy (fe_kind (fr_evidence fault))" and "resources_keyed tp"
  shows "fe_subject (fr_evidence fault) \<in> set (br_mandatory radius) \<and>
    (rule_isolate_isolation_domain rule \<longrightarrow>
       set (isolation_members tp subject) \<inter> known tp \<subseteq> set (br_mandatory radius)) \<and>
    (rule_isolate_failure_domain rule \<and> id_valid (rr_failure_domain subject) \<longrightarrow>
       (\<forall>d. om_find (tp_failure_domains tp) (rr_failure_domain subject) = Some d \<longrightarrow>
          set (fd_members d) \<inter> known tp \<subseteq> set (br_mandatory radius))) \<and>
    (fe_kind (fr_evidence fault) \<in> set authority_fault_kinds \<and> id_valid (rr_owner_boot subject) \<longrightarrow>
       (\<forall>i r. om_find (tp_resources tp) i = Some r \<and> rr_owner_boot r = rr_owner_boot subject \<longrightarrow>
          i \<in> set (br_mandatory radius)))"
proof -
  obtain tp' rule' fault' subject' w w' where run: "radius_run input tp' rule' fault' subject' w w'"
    and r: "radius = explain_radius tp' rule' fault' (select_actions tp' rule' (fill_buckets w'))"
    using assms(1) by (rule compute_SomeE)
  with assms have same: "tp' = tp" "rule' = rule" "fault' = fault" "subject' = subject"
    by (auto simp: radius_run_def)
  let ?S = "fst ` set (structural_inclusions tp rule (fe_kind (fr_evidence fault)) subject)"
  have S: "?S \<subseteq> set (br_mandatory radius)"
    using seeds_mandatory [OF run [unfolded same] assms(7) r [unfolded same]] .
  note keys = structural_keys [where subject = subject and tp = tp and rule = rule
      and kind = "fe_kind (fr_evidence fault)"]
  have "fe_subject (fr_evidence fault) \<in> ?S"
    using keys(1) keyed_id [OF assms(7,5)] by simp
  moreover have "i \<in> ?S" if "fe_kind (fr_evidence fault) \<in> set authority_fault_kinds"
      "id_valid (rr_owner_boot subject)" "om_find (tp_resources tp) i = Some r"
      "rr_owner_boot r = rr_owner_boot subject" for i r
    using keys(4) [OF that(1,2) om_find_in_set [OF that(3)] that(4)] keyed_id [OF assms(7) that(3)] by simp
  ultimately show ?thesis using S keys(2,3) by (meson subset_trans subsetD)
qed

end
