(* ===== verification/Fcf_Radius_Closed.thy ===== *)
theory Fcf_Radius_Closed
  imports Fcf_Radius_Props
begin

text \<open>
  The fail-closed guarantee of the blast radius, the legality of the recommended action, a concrete
  topology on which the properties of this component are evaluated, and two limits of the
  computation.
\<close>

section \<open>Fail-closed escalation\<close>

text \<open>Before the final classification no entry is an exclusion.\<close>

definition no_exclusions :: "Accumulator \<Rightarrow> bool" where
  "no_exclusions acc \<longleftrightarrow> (\<forall>i c. om_find acc i = Some c \<longrightarrow> \<not> cr_has_exclusion c)"

lemma no_exclusions_steps:
  assumes "no_exclusions acc"
  shows "no_exclusions (acc_include i g reason d acc)"
    and "no_exclusions (acc_mark_unresolved i g reason' d acc)"
  using assms
  by (auto simp: no_exclusions_def acc_include_def acc_mark_unresolved_def om_adjust_default_def
      ClassifiedResource_default_def Let_def split: option.splits if_splits)

lemma no_exclusions_members:
  "no_exclusions acc \<Longrightarrow> no_exclusions (include_members tp members reason d acc)"
  unfolding include_members_def
  by (rule fold_invariant_list [of no_exclusions]) (auto split: option.splits intro: no_exclusions_steps)

lemma no_exclusions_structural: "no_exclusions (structural_inclusions tp rule kind subject)"
proof -
  have "no_exclusions ([] :: Accumulator)" by (simp add: no_exclusions_def)
  moreover have "no_exclusions (include_shared_authority tp kind subject acc)" if "no_exclusions acc" for acc
    unfolding include_shared_authority_def using that
    by (auto intro!: fold_invariant_list [of no_exclusions] no_exclusions_steps)
  ultimately show ?thesis
    unfolding structural_inclusions_def include_containment_domain_def include_failure_domain_def
      include_isolation_domain_def
    by (auto split: option.split intro!: no_exclusions_members no_exclusions_steps)
qed

lemma no_exclusions_visit_edge:
  assumes "visit_edge tp rule current e w = Some w'" and "no_exclusions (w_acc w)"
  shows "no_exclusions (w_acc w')"
proof -
  have "no_exclusions (w_acc (visit_known_destination rule current e edge destination w))" for edge destination
    using assms(2)
    by (auto simp: visit_known_destination_def follow_hard_edge_def follow_conditional_edge_def
        follow_unknown_edge_def push_hop_def set_outcome_def add_precautionary_def Let_def
        intro!: no_exclusions_steps)
  with assms show ?thesis
    by (auto simp: visit_edge_def set_outcome_def Let_def split: option.splits intro!: no_exclusions_steps)
qed

lemma no_exclusions_visit_edges:
  "visit_edges tp rule current es w = Some w' \<Longrightarrow> no_exclusions (w_acc w) \<Longrightarrow> no_exclusions (w_acc w')"
  by (induction es arbitrary: w) (auto split: option.splits dest: no_exclusions_visit_edge)

lemma no_exclusions_propagate:
  assumes "propagate tp rule w = Some w'" and "no_exclusions (w_acc w)"
  shows "no_exclusions (w_acc w')"
proof -
  have "no_exclusions (w_acc w') \<and> w_frontier w' = []"
    using assms
  proof (rule propagate_invariant [where I = "\<lambda>w. no_exclusions (w_acc w)"], goal_cases)
    case (3 w current rest es w3)
    then show ?case using no_exclusions_visit_edges by fastforce
  qed simp_all
  then show ?thesis ..
qed

text \<open>Marking: afterwards the resource is included or unresolved.\<close>

definition flagged :: "Accumulator \<Rightarrow> ResourceId \<Rightarrow> bool" where
  "flagged acc i \<longleftrightarrow> (\<exists>c. om_find acc i = Some c \<and> (cr_has_inclusion c \<or> cr_has_unresolved c))"

lemma flagged_mark:
  "no_exclusions acc \<Longrightarrow> flagged (acc_mark_unresolved i g reason d acc) i"
  "flagged acc j \<Longrightarrow> flagged (acc_mark_unresolved i g reason d acc) j"
  by (auto simp: flagged_def no_exclusions_def acc_mark_unresolved_def om_adjust_default_def
      ClassifiedResource_default_def Let_def split: option.splits if_splits)

lemma fold_flags:
  assumes "\<And>x a. N a \<Longrightarrow> N (f x a)" and "\<And>x a j. F a j \<Longrightarrow> F (f x a) j"
    and "\<And>x a. N a \<Longrightarrow> Q x \<Longrightarrow> F (f x a) x" and "N a"
  shows "N (fold f xs a) \<and> (\<forall>j. F a j \<longrightarrow> F (fold f xs a) j) \<and> (\<forall>x \<in> set xs. Q x \<longrightarrow> F (fold f xs a) x)"
  using assms(4)
proof (induction xs arbitrary: a)
  case (Cons x xs)
  have "N (f x a)" using assms(1) Cons.prems by blast
  from Cons.IH [OF this] assms(2,3) Cons.prems show ?case by auto
qed simp

definition stale_outside :: "Topology \<Rightarrow> ResourceId IdSet \<Rightarrow> ResourceId \<Rightarrow> bool" where
  "stale_outside tp M i \<longleftrightarrow> i \<notin> set M \<and> i \<in> known tp \<and> \<not> fresh_at tp i"

lemma note_unresolved_member_flags:
  assumes "no_exclusions acc"
  shows "no_exclusions (note_unresolved_member tp M members reason d acc) \<and>
    (\<forall>j. flagged acc j \<longrightarrow> flagged (note_unresolved_member tp M members reason d acc) j) \<and>
    (\<forall>i \<in> set members. stale_outside tp M i \<longrightarrow>
       flagged (note_unresolved_member tp M members reason d acc) i)"
  unfolding note_unresolved_member_def
proof (rule fold_flags)
  fix x a assume "no_exclusions a" and "stale_outside tp M x"
  then show "flagged (case om_find (tp_resources tp) x of None \<Rightarrow> a
      | Some r \<Rightarrow> if x \<in> set M then a
          else if rr_freshness r \<noteq> EvidenceFreshness.FRESH
          then acc_mark_unresolved x (rr_generation r) reason d a else a) x"
    by (auto simp: stale_outside_def fresh_at_def known_iff flagged_mark)
qed (use assms in \<open>auto split: option.split intro: no_exclusions_steps flagged_mark\<close>)

lemma isolation_membersE:
  assumes "i \<in> set (isolation_members tp subject)"
  obtains d where "id_valid (rr_isolation_domain subject)"
    and "om_find (tp_isolation_domains tp) (rr_isolation_domain subject) = Some d"
    and "i \<in> set (idm_members d)"
proof (cases "id_valid (rr_isolation_domain subject)")
  case True
  show ?thesis
  proof (cases "om_find (tp_isolation_domains tp) (rr_isolation_domain subject)")
    case None
    with assms True show ?thesis by (simp add: isolation_members_def)
  next
    case (Some d)
    with assms True that show ?thesis by (simp add: isolation_members_def)
  qed
qed (use assms in \<open>simp add: isolation_members_def\<close>)

lemma note_unresolved_groups_flags:
  assumes "no_exclusions (w_acc w)"
    and "i \<in> set (isolation_members tp subject) \<or>
      id_valid (rr_failure_domain subject) \<and>
      (\<exists>d. om_find (tp_failure_domains tp) (rr_failure_domain subject) = Some d \<and> i \<in> set (fd_members d))"
    and "stale_outside tp (w_mandatory w) i"
  shows "flagged (w_acc (note_unresolved_groups tp subject w)) i"
proof -
  let ?N = "\<lambda>ms reason d acc. note_unresolved_member tp (w_mandatory w) ms reason d acc"
  define acc1 where "acc1 = (if id_valid (rr_isolation_domain subject) then
           (case om_find (tp_isolation_domains tp) (rr_isolation_domain subject) of
              None \<Rightarrow> w_acc w
            | Some d \<Rightarrow> ?N (idm_members d) UnresolvedReason.EVIDENCE_STALE
                  ''isolation domain member without fresh evidence'' (w_acc w))
         else acc_mark_unresolved (rr_id subject) (rr_generation subject)
                UnresolvedReason.TOPOLOGY_UNKNOWN ''subject has no isolation domain'' (w_acc w))"
  have 1: "no_exclusions acc1"
    using assms(1) note_unresolved_member_flags no_exclusions_steps(2)
    by (auto simp: acc1_def split: option.split)
  have 2: "flagged acc1 i" if mem: "i \<in> set (isolation_members tp subject)"
  proof -
    obtain d where "id_valid (rr_isolation_domain subject)"
      "om_find (tp_isolation_domains tp) (rr_isolation_domain subject) = Some d" "i \<in> set (idm_members d)"
      using mem by (rule isolation_membersE)
    then show ?thesis using assms(3) note_unresolved_member_flags [OF assms(1)]
      by (simp add: acc1_def)
  qed
  show ?thesis
  proof (cases "id_valid (rr_failure_domain subject)")
    case False
    with 2 assms(2) show ?thesis
      by (auto simp: note_unresolved_groups_def Let_def acc1_def [symmetric])
  next
    case True
    then show ?thesis
      using 1 2 assms(2,3) note_unresolved_member_flags [OF 1]
      by (auto simp: note_unresolved_groups_def Let_def acc1_def [symmetric] split: option.splits)
  qed
qed

lemma contain_unresolved_all:
  "set (w_mandatory (fold (contain_unresolved tp) ids w)) = set (w_mandatory w) \<union> (set ids \<inter> known tp)"
  by (induction ids arbitrary: w)
    (auto simp: contain_unresolved_def known_iff Let_def split: option.split)

lemma escalate_flagged:
  assumes "work_inv tp w" and "flagged (w_acc w) i"
    and "rule_fail_closed_on_unknown_evidence rule"
    and "rule_uncertainty rule = UncertaintyBehavior.CONTAIN_PREEMPTIVELY"
  shows "i \<in> set (w_mandatory (escalate_unresolved tp rule w))"
proof -
  obtain c where c: "om_find (w_acc w) i = Some c" "cr_has_inclusion c \<or> cr_has_unresolved c"
    using assms(2) by (auto simp: flagged_def)
  have k: "i \<in> known tp" using work_inv_known(3) [OF assms(1)] om_find_dom [OF c(1)] by blast
  show ?thesis
  proof (cases "cr_has_inclusion c")
    case True
    with c assms(1) have "i \<in> set (w_mandatory w)"
      by (auto simp: work_inv_def acc_inv_def included_def)
    then show ?thesis using mandatory_mono_escalate by blast
  next
    case False
    with c have "i \<in> set (unresolved_ids (w_acc w))"
      by (force simp: unresolved_ids_def dest: om_find_in_set)
    moreover from this have "unresolved_ids (w_acc w) \<noteq> []" by auto
    ultimately show ?thesis using assms(3,4) k
      by (simp add: escalate_unresolved_def Let_def contain_unresolved_all)
  qed
qed

text \<open>
  C29. Fail closed: under a rule that contains preemptively and whose flag
  \<open>fail_closed_on_unknown_evidence\<close> is set, every known member of the subject's isolation domain or
  failure domain whose evidence is not fresh is mandatory, also when the rule does not isolate the
  domain as a whole. Both conditions are needed: \<open>validate_policy\<close> accepts a rule that contains
  preemptively with the flag off, and then nothing is escalated.
\<close>

theorem blast_radius_fail_closed:
  assumes "compute_blast_radius input = Some (Inr radius)" and "bri_topology input = Some tp"
    and "bri_policy input = Some policy" and "bri_fault input = Some fault"
    and "om_find (tp_resources tp) (fe_subject (fr_evidence fault)) = Some subject"
    and "rule = rule_for policy (fe_kind (fr_evidence fault))" and "resources_keyed tp"
    and "rule_fail_closed_on_unknown_evidence rule"
    and "rule_uncertainty rule = UncertaintyBehavior.CONTAIN_PREEMPTIVELY"
    and "i \<in> set (isolation_members tp subject) \<or>
      id_valid (rr_failure_domain subject) \<and>
      (\<exists>d. om_find (tp_failure_domains tp) (rr_failure_domain subject) = Some d \<and> i \<in> set (fd_members d))"
    and "i \<in> known tp" and "\<not> fresh_at tp i"
  shows "i \<in> set (br_mandatory radius)"
proof -
  obtain tp' rule' fault' subject' w w' where run: "radius_run input tp' rule' fault' subject' w w'"
    and r: "radius = explain_radius tp' rule' fault' (select_actions tp' rule' (fill_buckets w'))"
    using assms(1) by (rule compute_SomeE)
  with assms have same: "tp' = tp" "rule' = rule" "subject' = subject"
    and p: "propagate tp rule (initial_work input tp policy fault rule subject) = Some w"
    by (auto simp: radius_run_def)
  note inv = radius_run_inv [OF run [unfolded same] assms(7)]
  let ?n = "note_unresolved_groups tp subject w"
  let ?e = "escalate_unresolved tp rule ?n"
  have w': "set (w_mandatory w') = set (w_mandatory (enforce_exposure tp rule subject ?e))"
    using run unfolding same by (simp add: radius_run_def)
  have m: "set (br_mandatory radius) = set (w_mandatory w')"
    using fill_buckets_sets(1) [of tp w'] inv by (simp add: r same)
  have "no_exclusions (w_acc w)"
    by (rule no_exclusions_propagate [OF p])
      (simp add: initial_work_def Let_def no_exclusions_structural)
  show ?thesis
  proof (cases "i \<in> set (w_mandatory w)")
    case True
    then show ?thesis using inv m by blast
  next
    case False
    then have "flagged (w_acc ?n) i"
      using note_unresolved_groups_flags [OF \<open>no_exclusions (w_acc w)\<close> assms(10)] assms(11,12)
      by (simp add: stale_outside_def)
    then have "i \<in> set (w_mandatory ?e)"
      using escalate_flagged [of tp ?n i rule] assms(8,9) inv
        work_inv_note_unresolved_groups [OF assms(7,5)] by blast
    then show ?thesis using mandatory_mono_exposure m w' by blast
  qed
qed

section \<open>Recommended action\<close>

lemma add_action_set [simp]: "set (add_action xs k) = insert k (set xs)"
  by (auto simp: add_action_def)

lemma set_fold_add_action: "set (fold (\<lambda>k xs. add_action xs k) ks xs) = set ks \<union> set xs"
  by (induction ks arbitrary: xs) auto

lemma recommended_enforcing:
  "br_recommended (select_enforcing tp rule u b radius) \<in> set (br_legal_actions (select_enforcing tp rule u b radius))"
  by (simp add: select_enforcing_def Let_def legal_action_list_def set_fold_add_action)

text \<open>The recommended outcome is one of the legal actions of the same radius.\<close>

theorem recommended_action_legal:
  assumes "compute_blast_radius input = Some (Inr radius)"
  shows "br_recommended radius \<in> set (br_legal_actions radius)"
proof -
  obtain tp rule fault w where "radius = explain_radius tp rule fault (select_actions tp rule w)"
    using assms by (rule compute_SomeE)
  moreover have "br_recommended (w_radius (select_actions tp rule w)) \<in>
      set (br_legal_actions (w_radius (select_actions tp rule w)))"
    using recommended_enforcing by (simp add: select_actions_def note_protected_def Let_def)
  ultimately show ?thesis by simp
qed

section \<open>A concrete topology\<close>

text \<open>
  Resource 1 fails. Edge 10 from 1 to 2 is fresh, verified and unconditional; edge 11 from 1 to 3
  is stale; edge 12 from 3 to 4 is fresh. Resource 5 is unconnected. Resource 6 shares the isolation
  domain of resource 1 and has stale evidence.
\<close>

definition demo_resource :: "u64 \<Rightarrow> ResourceRecord" where
  "demo_resource n = ResourceRecord_default\<lparr>rr_id := Id n, rr_generation := Id 1,
     rr_state := ResourceOperationalState.ACTIVE, rr_freshness := EvidenceFreshness.FRESH\<rparr>"

definition demo_dependency :: "u64 \<Rightarrow> u64 \<Rightarrow> u64 \<Rightarrow> EvidenceFreshness \<Rightarrow> DependencyEdge" where
  "demo_dependency e i j freshness = DependencyEdge_default\<lparr>de_id := Id e, de_generation := Id 1,
     de_source := Id i, de_destination := Id j, de_kind := DependencyKind.SERVICE_DEPENDS_ON,
     de_freshness := freshness, de_integrity := IntegrityStatus.VERIFIED,
     de_confidence_permille := 1000\<rparr>"

definition demo_topology :: Topology where
  "demo_topology = Topology_default\<lparr>
     tp_resources :=
       (Id 1, (demo_resource 1)\<lparr>rr_isolation_domain := Id 20\<rparr>) #
       map (\<lambda>n. (Id n, demo_resource n)) [2, 3, 4, 5] @
       [(Id 6, (demo_resource 6)\<lparr>rr_isolation_domain := Id 20, rr_freshness := EvidenceFreshness.STALE\<rparr>)],
     tp_isolation_domains :=
       [(Id 20, IsolationDomain_default\<lparr>idm_id := Id 20, idm_members := [Id 1, Id 6]\<rparr>)],
     tp_dependencies := fold graph_insert
       [demo_dependency 10 1 2 EvidenceFreshness.FRESH, demo_dependency 11 1 3 EvidenceFreshness.STALE,
        demo_dependency 12 3 4 EvidenceFreshness.FRESH] DependencyGraph_default\<rparr>"

definition demo_fault :: FaultRecord where
  "demo_fault = FaultRecord_default\<lparr>fr_evidence := FaultEvidence_default\<lparr>fe_id := Id 7,
     fe_generation := Id 1, fe_kind := FaultKind.DEVICE_FAILURE, fe_subject := Id 1\<rparr>\<rparr>"

definition demo_input :: BlastRadiusInput where
  "demo_input = \<lparr>bri_topology = Some demo_topology, bri_policy = Some make_default_policy,
     bri_fault = Some demo_fault, bri_workers = None, bri_epoch = Id 1, bri_generation = Id 1\<rparr>"

lemma demo_keyed: "resources_keyed demo_topology"
  by code_simp

lemma demo_buckets:
  "map_option (map_sum (\<lambda>_. ()) (\<lambda>r. (br_mandatory r, br_precautionary r, br_unaffected r, br_unresolved r)))
     (compute_blast_radius demo_input) = Some (Inr ([Id 1, Id 2, Id 3, Id 6], [], [Id 4, Id 5], []))"
  by code_simp

lemma demo_radius: "\<exists>radius. compute_blast_radius demo_input = Some (Inr radius) \<and>
    br_mandatory radius = [Id 1, Id 2, Id 3, Id 6] \<and> br_unaffected radius = [Id 4, Id 5]"
proof -
  obtain a where a: "compute_blast_radius demo_input = Some a"
    using demo_buckets by (cases "compute_blast_radius demo_input") auto
  show ?thesis
  proof (cases a)
    case (Inl e)
    with a demo_buckets show ?thesis by simp
  next
    case (Inr r)
    with a demo_buckets show ?thesis by simp
  qed
qed

lemma demo_input_fields [simp]:
  "bri_topology demo_input = Some demo_topology" "bri_policy demo_input = Some make_default_policy"
  "bri_fault demo_input = Some demo_fault"
  by (simp_all add: demo_input_def)

definition demo_subject :: ResourceRecord where
  "demo_subject = (demo_resource 1)\<lparr>rr_isolation_domain := Id 20\<rparr>"

abbreviation demo_rule :: FaultRule where
  "demo_rule \<equiv> rule_for make_default_policy (fe_kind (fr_evidence demo_fault))"

lemma demo_subject_find:
  "om_find (tp_resources demo_topology) (fe_subject (fr_evidence demo_fault)) = Some demo_subject"
  by code_simp

theorem compute_blast_radius_total_witness:
  "\<exists>radius. compute_blast_radius demo_input = Some (Inr radius)"
proof -
  have "fe_subject (fr_evidence demo_fault) \<in> known demo_topology" by code_simp
  with compute_blast_radius_total [of demo_input demo_topology make_default_policy demo_fault]
  show ?thesis by (simp add: demo_keyed)
qed

theorem blast_radius_partition_witness:
  "\<exists>radius. compute_blast_radius demo_input = Some (Inr radius) \<and>
     set (br_mandatory radius) \<union> set (br_precautionary radius) \<union> set (br_unaffected radius) \<union>
       set (br_unresolved radius) = known demo_topology \<and>
     br_unaffected radius = [Id 4, Id 5] \<and> list_all (fresh_at demo_topology) (br_unaffected radius)"
proof -
  obtain radius where r: "compute_blast_radius demo_input = Some (Inr radius)"
    "br_unaffected radius = [Id 4, Id 5]" using demo_radius by blast
  from blast_radius_partition [OF r(1) demo_input_fields(1) demo_keyed] r show ?thesis by blast
qed

theorem blast_radius_reachability_witness:
  "\<exists>w. propagate demo_topology demo_rule
         (initial_work demo_input demo_topology make_default_policy demo_fault demo_rule demo_subject) = Some w \<and>
     set (w_mandatory w) \<subseteq> set [Id 1, Id 2, Id 3, Id 6]"
proof -
  obtain radius where r: "compute_blast_radius demo_input = Some (Inr radius)"
    "br_mandatory radius = [Id 1, Id 2, Id 3, Id 6]" using demo_radius by blast
  from blast_radius_reachability [OF r(1) demo_input_fields demo_subject_find refl demo_keyed] r(2)
  show ?thesis by auto
qed

theorem blast_radius_exposure_bounded_witness:
  "\<exists>radius. compute_blast_radius demo_input = Some (Inr radius) \<and>
     length (filter (\<lambda>m. m \<in> known demo_topology \<and> m \<notin> set (br_mandatory radius))
       (isolation_members demo_topology demo_subject)) \<le> unat (rule_max_tolerated_exposure demo_rule)"
proof -
  obtain radius where r: "compute_blast_radius demo_input = Some (Inr radius)" using demo_radius by blast
  from blast_radius_exposure_bounded [OF r demo_input_fields demo_subject_find demo_keyed] r
  show ?thesis by blast
qed

theorem blast_radius_structural_witness:
  "\<exists>radius. compute_blast_radius demo_input = Some (Inr radius) \<and> Id 1 \<in> set (br_mandatory radius) \<and>
     set (isolation_members demo_topology demo_subject) \<inter> known demo_topology \<subseteq> set (br_mandatory radius)"
proof -
  obtain radius where r: "compute_blast_radius demo_input = Some (Inr radius)" using demo_radius by blast
  have "rule_isolate_isolation_domain demo_rule" by code_simp
  with blast_radius_structural [OF r demo_input_fields demo_subject_find refl demo_keyed] r
  show ?thesis by (auto simp: demo_fault_def)
qed

theorem blast_radius_fail_closed_witness:
  "\<exists>radius. compute_blast_radius demo_input = Some (Inr radius) \<and> Id 6 \<in> set (br_mandatory radius)"
proof -
  obtain radius where r: "compute_blast_radius demo_input = Some (Inr radius)" using demo_radius by blast
  have "rule_fail_closed_on_unknown_evidence demo_rule"
    and "rule_uncertainty demo_rule = UncertaintyBehavior.CONTAIN_PREEMPTIVELY"
    and "Id 6 \<in> set (isolation_members demo_topology demo_subject)"
    and "Id 6 \<in> known demo_topology" and "\<not> fresh_at demo_topology (Id 6)"
    by code_simp+
  with blast_radius_fail_closed [OF r demo_input_fields demo_subject_find refl demo_keyed] r
  show ?thesis by blast
qed

theorem recommended_action_legal_witness:
  "\<exists>radius. compute_blast_radius demo_input = Some (Inr radius) \<and>
     br_recommended radius \<in> set (br_legal_actions radius)"
proof -
  obtain radius where r: "compute_blast_radius demo_input = Some (Inr radius)" using demo_radius by blast
  from recommended_action_legal [OF r] r show ?thesis by blast
qed

section \<open>Two limits of the computation\<close>

text \<open>
  Fail-closed escalation runs after the propagation fixpoint and is not propagated:
  in the topology above resource 3 becomes mandatory because the evidence of edge 11 is stale, and
  resource 4, to which 3 has a fresh hard edge, is still reported unaffected, with the recorded
  reason \<open>no propagation path from the contained set\<close>.
\<close>

theorem escalated_resources_do_not_propagate:
  "\<exists>radius. compute_blast_radius demo_input = Some (Inr radius) \<and>
     Id 3 \<in> set (br_mandatory radius) \<and> hard_step demo_topology demo_rule (Id 3) (Id 4) \<and>
     Id 4 \<in> set (br_unaffected radius)"
proof -
  have "outgoing_of (tp_dependencies demo_topology) (Id 3) = Some [Id 12]"
    and "graph_find (tp_dependencies demo_topology) (Id 12) =
      Some (demo_dependency 12 3 4 EvidenceFreshness.FRESH)"
    and "om_find (tp_resources demo_topology) (Id 4) = Some (demo_resource 4)"
    and "propagates_hard demo_rule (demo_dependency 12 3 4 EvidenceFreshness.FRESH) (demo_resource 4)"
    by code_simp+
  then have "hard_step demo_topology demo_rule (Id 3) (Id 4)"
    by (auto simp: hard_step_def hard_target_def demo_dependency_def demo_resource_def)
  with demo_radius show ?thesis by auto
qed

text \<open>
  A protected worker process whose device fails: the rule may not fence protected resources.
\<close>

definition protected_input :: BlastRadiusInput where
  "protected_input = demo_input\<lparr>bri_topology := Some (Topology_default\<lparr>tp_resources :=
     [(Id 1, (demo_resource 1)\<lparr>rr_protection := ProtectionClass.PROTECTED,
        rr_resource_class := ResourceClass.WORKER, rr_owner_boot := Id 9\<rparr>)]\<rparr>)\<rparr>"

text \<open>
  For a protected resource the computation lists the fencing actions as illegal without
  removing them from the legal list: both lists hold the same action.
\<close>

theorem protected_fencing_listed_both_ways:
  "\<exists>radius. compute_blast_radius protected_input = Some (Inr radius) \<and>
     ContainmentActionKind.FENCE_WORKER \<in> set (br_legal_actions radius) \<inter> set (br_illegal_actions radius)"
proof -
  have "map_option (map_sum (\<lambda>_. ())
      (\<lambda>r. ContainmentActionKind.FENCE_WORKER \<in> set (br_legal_actions r) \<inter> set (br_illegal_actions r)))
      (compute_blast_radius protected_input) = Some (Inr True)"
    by code_simp
  then show ?thesis by (cases "compute_blast_radius protected_input") (auto simp: map_sum_def split: sum.splits)
qed

end
