(* ===== verification/Fcf_Runtime.thy ===== *)
theory Fcf_Runtime
  imports Fcf_Codec_Props Fcf_Digest Fcf_Radius_Closed
begin

text \<open>
  The state of the containment runtime (\<open>include/fcf/engine.hpp\<close>, \<open>Engine::Impl\<close> of
  \<open>src/engine.cpp\<close>) and the machinery every operation shares: the clock, the identity counters,
  the audit history, and the staging and flushing of journal records.

  An operation of the class runs under one exclusive lock and is modelled as a function from
  \<open>Impl\<close> to a result and the new \<open>Impl\<close>. The operation-local vector \<open>pending\<close> of staged journal
  records is the field \<open>im_pending\<close>: it is empty between operations, grows while the lock is held,
  and \<open>complete\<close> is the common tail of the operations, which flushes it after a success and drops
  it when the operation returns an error. The clock and the durable store are outside the
  runtime: \<open>cfg_clock\<close> gives the value of each successive reading, and \<open>ds_refuses\<close> says which
  append fails and with which error. \<open>max_actions\<close>, \<open>max_containments\<close> and the three per-request
  limits of the configuration are carried as the code carries them: no operation reads them.
\<close>

section \<open>State\<close>

record RuntimeSnapshot =
  rs_epoch :: CoordinatorEpoch
  rs_topology_generation :: TopologyGeneration
  rs_policy_generation :: PolicyGeneration
  rs_containment_generation :: ContainmentGeneration
  rs_verification_generation :: VerificationGeneration
  rs_release_generation :: ReleaseGeneration
  rs_history_sequence :: HistorySequence
  rs_now_ms :: u64
  rs_topology :: Topology
  rs_policy :: ContainmentPolicy
  rs_faults :: "(FaultId, FaultRecord) omap"
  rs_workers :: WorkerRegistry
  rs_containments :: "(ContainmentGeneration, ContainmentRecord) omap"
  rs_actions :: "(ActionId, ContainmentAction) omap"
  rs_degraded_modes :: "(DegradedModeId, DegradedModeAssessment) omap"
  rs_degraded_contracts :: "(DegradedModeId, DegradedModeContract) omap"
  rs_history :: "HistoryEvent list"
  rs_history_total :: u64

definition RuntimeSnapshot_default :: RuntimeSnapshot where
  "RuntimeSnapshot_default = \<lparr>
     rs_epoch = id_invalid,
     rs_topology_generation = id_invalid,
     rs_policy_generation = id_invalid,
     rs_containment_generation = id_invalid,
     rs_verification_generation = id_invalid,
     rs_release_generation = id_invalid,
     rs_history_sequence = id_invalid,
     rs_now_ms = 0,
     rs_topology = Topology_default,
     rs_policy = ContainmentPolicy_default,
     rs_faults = [],
     rs_workers = WorkerRegistry_default,
     rs_containments = [],
     rs_actions = [],
     rs_degraded_modes = [],
     rs_degraded_contracts = [],
     rs_history = [],
     rs_history_total = 0\<rparr>"

record Config =
  cfg_initial_epoch :: CoordinatorEpoch
  cfg_clock :: "nat \<Rightarrow> u64"
  cfg_max_history_in_memory :: int
  cfg_max_resources :: int
  cfg_max_dependencies :: int
  cfg_max_faults :: int
  cfg_max_actions :: int
  cfg_max_containments :: int
  cfg_max_workers :: int
  cfg_max_traversal_nodes :: u32
  cfg_max_resources_per_request :: u32
  cfg_max_dependencies_per_request :: u32

definition Config_default :: "(nat \<Rightarrow> u64) \<Rightarrow> Config" where
  "Config_default clock = \<lparr>
     cfg_initial_epoch = Id 1,
     cfg_clock = clock,
     cfg_max_history_in_memory = 100000,
     cfg_max_resources = 200000,
     cfg_max_dependencies = 1000000,
     cfg_max_faults = 1000000,
     cfg_max_actions = 1000000,
     cfg_max_containments = 200000,
     cfg_max_workers = 100000,
     cfg_max_traversal_nodes = 1000000,
     cfg_max_resources_per_request = 100000,
     cfg_max_dependencies_per_request = 500000\<rparr>"

text \<open>The durable store as the runtime sees it: the records that crossed the durability boundary.\<close>

type_synonym PendingWrite = "u64 \<times> u8 list"

record DurableStore =
  ds_journal :: "PendingWrite list"
  ds_refuses :: "PendingWrite list \<Rightarrow> PendingWrite \<Rightarrow> Error option"

definition append_record :: "PendingWrite \<Rightarrow> DurableStore \<Rightarrow> DurableStore Result" where
  "append_record write ds =
     (case ds_refuses ds (ds_journal ds) write of
        Some e \<Rightarrow> Inl e
      | None \<Rightarrow> Inr (ds\<lparr>ds_journal := ds_journal ds @ [write]\<rparr>))"

record Impl =
  im_config :: Config
  im_state :: RuntimeSnapshot
  im_store :: "DurableStore option"
  im_pending :: "PendingWrite list"
  im_durable_sequence :: u64
  im_durability_healthy :: bool
  im_shutting_down :: bool
  im_digest_by_fault :: "(FaultId, u8 list) omap"
  im_fault_by_digest :: "(u8 list, FaultId) omap"
  im_releases :: "(ResourceId, ReleaseAssessment) omap"
  im_authority_loss_faults :: "(WorkerKey, FaultId) omap"
  im_next_fault :: u64
  im_next_action :: u64
  im_next_degraded :: u64
  im_ticks :: nat

section \<open>Clock and counters\<close>

definition now :: "Impl \<Rightarrow> u64 \<times> Impl" where
  "now s = (cfg_clock (im_config s) (im_ticks s), s\<lparr>im_ticks := Suc (im_ticks s)\<rparr>)"

definition allocate_fault_id :: "Impl \<Rightarrow> FaultId \<times> Impl" where
  "allocate_fault_id s = (Id (im_next_fault s), s\<lparr>im_next_fault := im_next_fault s + 1\<rparr>)"

definition allocate_action_id :: "Impl \<Rightarrow> ActionId \<times> Impl" where
  "allocate_action_id s = (Id (im_next_action s), s\<lparr>im_next_action := im_next_action s + 1\<rparr>)"

definition allocate_degraded_id :: "Impl \<Rightarrow> DegradedModeId \<times> Impl" where
  "allocate_degraded_id s = (Id (im_next_degraded s), s\<lparr>im_next_degraded := im_next_degraded s + 1\<rparr>)"

record Counters =
  ctr_epoch :: CoordinatorEpoch
  ctr_topology_generation :: TopologyGeneration
  ctr_policy_generation :: PolicyGeneration
  ctr_containment_generation :: ContainmentGeneration
  ctr_verification_generation :: VerificationGeneration
  ctr_release_generation :: ReleaseGeneration
  ctr_history_sequence :: HistorySequence
  ctr_next_fault_id :: u64
  ctr_next_action_id :: u64
  ctr_next_degraded_id :: u64

definition write_counters :: "Counters \<Rightarrow> ByteWriter \<Rightarrow> ByteWriter" where
  "write_counters c = writes [
     wr_id (ctr_epoch c),
     wr_id (ctr_topology_generation c),
     wr_id (ctr_policy_generation c),
     wr_id (ctr_containment_generation c),
     wr_id (ctr_verification_generation c),
     wr_id (ctr_release_generation c),
     wr_id (ctr_history_sequence c),
     wr_u64 (ctr_next_fault_id c),
     wr_u64 (ctr_next_action_id c),
     wr_u64 (ctr_next_degraded_id c)]"

definition read_counters :: "Counters option reader" where
  "read_counters = do {
     x_epoch \<leftarrow> rd_id;
     x_topology_generation \<leftarrow> rd_id;
     x_policy_generation \<leftarrow> rd_id;
     x_containment_generation \<leftarrow> rd_id;
     x_verification_generation \<leftarrow> rd_id;
     x_release_generation \<leftarrow> rd_id;
     x_history_sequence \<leftarrow> rd_id;
     x_next_fault_id \<leftarrow> rd_u64;
     x_next_action_id \<leftarrow> rd_u64;
     x_next_degraded_id \<leftarrow> rd_u64;
     ok \<leftarrow> rd_ok;
     State_Monad.return (if ok then Some \<lparr>ctr_epoch = x_epoch,
       ctr_topology_generation = x_topology_generation, ctr_policy_generation = x_policy_generation,
       ctr_containment_generation = x_containment_generation,
       ctr_verification_generation = x_verification_generation,
       ctr_release_generation = x_release_generation, ctr_history_sequence = x_history_sequence,
       ctr_next_fault_id = x_next_fault_id, ctr_next_action_id = x_next_action_id,
       ctr_next_degraded_id = x_next_degraded_id\<rparr> else None) }"

text \<open>The release generation of the record keeps its default: \<open>counters\<close> never sets it.\<close>

definition counters :: "Impl \<Rightarrow> Counters" where
  "counters s = \<lparr>
     ctr_epoch = rs_epoch (im_state s),
     ctr_topology_generation = rs_topology_generation (im_state s),
     ctr_policy_generation = rs_policy_generation (im_state s),
     ctr_containment_generation = rs_containment_generation (im_state s),
     ctr_verification_generation = rs_verification_generation (im_state s),
     ctr_release_generation = id_invalid,
     ctr_history_sequence = rs_history_sequence (im_state s),
     ctr_next_fault_id = im_next_fault s,
     ctr_next_action_id = im_next_action s,
     ctr_next_degraded_id = im_next_degraded s\<rparr>"

definition apply_counters :: "Counters \<Rightarrow> Impl \<Rightarrow> Impl" where
  "apply_counters c s = s\<lparr>
     im_state := (im_state s)\<lparr>rs_epoch := ctr_epoch c,
       rs_topology_generation := ctr_topology_generation c,
       rs_policy_generation := ctr_policy_generation c,
       rs_containment_generation := ctr_containment_generation c,
       rs_verification_generation := ctr_verification_generation c,
       rs_history_sequence := ctr_history_sequence c\<rparr>,
     im_next_fault := ctr_next_fault_id c,
     im_next_action := ctr_next_action_id c,
     im_next_degraded := ctr_next_degraded_id c\<rparr>"

section \<open>State update shorthands\<close>

abbreviation upd_state :: "(RuntimeSnapshot \<Rightarrow> RuntimeSnapshot) \<Rightarrow> Impl \<Rightarrow> Impl" where
  "upd_state f s \<equiv> s\<lparr>im_state := f (im_state s)\<rparr>"

abbreviation upd_topology :: "(Topology \<Rightarrow> Topology) \<Rightarrow> Impl \<Rightarrow> Impl" where
  "upd_topology f \<equiv> upd_state (rs_topology_update f)"

abbreviation upd_resources ::
    "((ResourceId, ResourceRecord) omap \<Rightarrow> (ResourceId, ResourceRecord) omap) \<Rightarrow> Impl \<Rightarrow> Impl" where
  "upd_resources f \<equiv> upd_topology (tp_resources_update f)"

abbreviation upd_workers :: "(WorkerRegistry \<Rightarrow> WorkerRegistry) \<Rightarrow> Impl \<Rightarrow> Impl" where
  "upd_workers f \<equiv> upd_state (rs_workers_update f)"

abbreviation resources :: "Impl \<Rightarrow> (ResourceId, ResourceRecord) omap" where
  "resources s \<equiv> tp_resources (rs_topology (im_state s))"

abbreviation faults :: "Impl \<Rightarrow> (FaultId, FaultRecord) omap" where
  "faults s \<equiv> rs_faults (im_state s)"

abbreviation containments :: "Impl \<Rightarrow> (ContainmentGeneration, ContainmentRecord) omap" where
  "containments s \<equiv> rs_containments (im_state s)"

abbreviation actions :: "Impl \<Rightarrow> (ActionId, ContainmentAction) omap" where
  "actions s \<equiv> rs_actions (im_state s)"

abbreviation incarnations :: "Impl \<Rightarrow> (WorkerKey, WorkerRecord) omap" where
  "incarnations s \<equiv> wreg_incarnations (rs_workers (im_state s))"

text \<open>\<open>state.topology_generation = next_generation(state.topology_generation)\<close>.\<close>

abbreviation bump_topology :: "Impl \<Rightarrow> Impl" where
  "bump_topology \<equiv> upd_state (rs_topology_generation_update next_generation)"

section \<open>History\<close>

text \<open>The default arguments of \<open>add_history\<close> are the fields of the default event.\<close>

definition hist :: "HistoryEventType \<Rightarrow> string \<Rightarrow> string \<Rightarrow> HistoryEvent" where
  "hist type detail authority =
     HistoryEvent_default\<lparr>he_type := type, he_detail := detail, he_authority := authority\<rparr>"

definition trim_history :: "int \<Rightarrow> HistoryEvent list \<Rightarrow> HistoryEvent list" where
  "trim_history cap events =
     (if cap > 0 \<and> int (length events) > cap + cap div 4
      then drop (nat (int (length events) - cap)) events else events)"

definition add_history :: "HistoryEvent \<Rightarrow> Impl \<Rightarrow> HistoryEvent \<times> Impl" where
  "add_history e s =
     (let sequence = next_generation (rs_history_sequence (im_state s));
          (t, s) = now s;
          event = e\<lparr>he_sequence := sequence, he_timestamp_ms := t, he_epoch := rs_epoch (im_state s)\<rparr>
      in (event, upd_state (\<lambda>st. st\<lparr>rs_history_sequence := sequence,
            rs_history := trim_history (cfg_max_history_in_memory (im_config s)) (rs_history st @ [event]),
            rs_history_total := rs_history_total st + 1\<rparr>) s))"

section \<open>Staging and flushing\<close>

definition encode_event ::
    "DurableEventKind \<Rightarrow> HistoryEvent option \<Rightarrow> (ByteWriter \<Rightarrow> ByteWriter) \<Rightarrow> u8 list option" where
  "encode_event kind history body =
     (let writer = body ByteWriter_default
      in if \<not> bw_ok writer then None
         else let record_writer = write_durable_event
                \<lparr>dev_kind = kind, dev_has_history = history \<noteq> None,
                 dev_history = (case history of None \<Rightarrow> HistoryEvent_default | Some h \<Rightarrow> h),
                 dev_payload = bw_buffer writer\<rparr> ByteWriter_default
              in if \<not> bw_ok record_writer then None else Some (bw_buffer record_writer))"

definition stage ::
    "DurableEventKind \<Rightarrow> HistoryEvent option \<Rightarrow> (ByteWriter \<Rightarrow> ByteWriter) \<Rightarrow> Impl \<Rightarrow> Impl" where
  "stage kind history body s =
     (case encode_event kind history body of
        None \<Rightarrow> s
      | Some bytes \<Rightarrow>
          s\<lparr>im_durable_sequence := im_durable_sequence s + 1,
            im_pending := im_pending s @ [(im_durable_sequence s + 1, bytes)]\<rparr>)"

text \<open>\<open>add_history\<close> followed by staging a record that carries the new event.\<close>

definition record_event :: "HistoryEvent \<Rightarrow> DurableEventKind \<Rightarrow> (ByteWriter \<Rightarrow> ByteWriter) \<Rightarrow> Impl \<Rightarrow> Impl" where
  "record_event e kind body s = (case add_history e s of (event, s) \<Rightarrow> stage kind (Some event) body s)"

definition stage_counters :: "Impl \<Rightarrow> Impl" where
  "stage_counters s = stage DurableEventKind.COUNTERS None (write_counters (counters s)) s"

fun flush_records :: "PendingWrite list \<Rightarrow> DurableStore \<Rightarrow> Impl \<Rightarrow> Status \<times> Impl" where
  "flush_records [] ds s = (ok_status, s\<lparr>im_store := Some ds\<rparr>)"
| "flush_records (write # pending) ds s =
     (case append_record write ds of
        Inr ds' \<Rightarrow> flush_records pending ds' s
      | Inl e \<Rightarrow>
          (Inl e, snd (add_history (hist HistoryEventType.PERSISTENCE_FAULT (Error_to_string e) [])
             (s\<lparr>im_store := Some ds, im_durability_healthy := False\<rparr>))))"

definition flush :: "Impl \<Rightarrow> Status \<times> Impl" where
  "flush s =
     (case im_store s of
        None \<Rightarrow> (ok_status, s\<lparr>im_pending := []\<rparr>)
      | Some ds \<Rightarrow> flush_records (im_pending s) ds (s\<lparr>im_pending := []\<rparr>))"

text \<open>
  The tail of an operation: an error returned under the lock drops what was staged, a success is
  flushed and reported only if every record was appended.
\<close>

fun complete :: "'a Result \<times> Impl \<Rightarrow> 'a Result \<times> Impl" where
  "complete (Inl e, s) = (Inl e, s\<lparr>im_pending := []\<rparr>)"
| "complete (Inr r, s) =
     (case flush s of (Inl e, s') \<Rightarrow> (Inl e, s') | (Inr _, s') \<Rightarrow> (Inr r, s'))"

definition rebuild_digest_index :: "Impl \<Rightarrow> Impl" where
  "rebuild_digest_index s =
     for_each (faults s) (\<lambda>(i, f) s. s\<lparr>
         im_digest_by_fault := om_put i (fe_digest (fr_evidence f)) (im_digest_by_fault s),
         im_fault_by_digest := om_put (fe_digest (fr_evidence f)) i (im_fault_by_digest s)\<rparr>)
       (s\<lparr>im_digest_by_fault := [], im_fault_by_digest := []\<rparr>)"

definition has_live_containment_for :: "RuntimeSnapshot \<Rightarrow> ResourceId \<Rightarrow> bool" where
  "has_live_containment_for st resource \<longleftrightarrow>
     list_ex (\<lambda>(_, c). containment_is_live (con_status c) \<and>
        id_set_contains (con_mandatory c) resource \<and> \<not> id_set_contains (con_released c) resource)
       (rs_containments st)"

section \<open>Frame equations\<close>

text \<open>
  \<open>core\<close> is the state without its audit trail. Recording history, staging and flushing leave the
  core alone, so what an operation does to it is decided before its journal is written.
\<close>

definition core :: "RuntimeSnapshot \<Rightarrow> RuntimeSnapshot" where
  "core st = st\<lparr>rs_history_sequence := id_invalid, rs_history := [], rs_history_total := 0\<rparr>"

lemma core_fields:
  assumes "core a = core b"
  shows "rs_epoch a = rs_epoch b"
    and "rs_topology_generation a = rs_topology_generation b"
    and "rs_policy_generation a = rs_policy_generation b"
    and "rs_containment_generation a = rs_containment_generation b"
    and "rs_verification_generation a = rs_verification_generation b"
    and "rs_release_generation a = rs_release_generation b"
    and "rs_now_ms a = rs_now_ms b"
    and "rs_topology a = rs_topology b"
    and "rs_policy a = rs_policy b"
    and "rs_faults a = rs_faults b"
    and "rs_workers a = rs_workers b"
    and "rs_containments a = rs_containments b"
    and "rs_actions a = rs_actions b"
    and "rs_degraded_modes a = rs_degraded_modes b"
    and "rs_degraded_contracts a = rs_degraded_contracts b"
  using assms by (cases a; cases b; simp add: core_def)+

text \<open>Everything of \<open>Impl\<close> but the journal machinery and the clock.\<close>

definition frame :: "Impl \<Rightarrow> Impl" where
  "frame s = s\<lparr>im_state := core (im_state s), im_store := None, im_pending := [],
     im_durable_sequence := 0, im_durability_healthy := True, im_ticks := 0\<rparr>"

lemma frame_fields:
  assumes "frame a = frame b"
  shows "core (im_state a) = core (im_state b)"
    and "im_config a = im_config b"
    and "im_shutting_down a = im_shutting_down b"
    and "im_digest_by_fault a = im_digest_by_fault b"
    and "im_fault_by_digest a = im_fault_by_digest b"
    and "im_releases a = im_releases b"
    and "im_authority_loss_faults a = im_authority_loss_faults b"
    and "im_next_fault a = im_next_fault b"
    and "im_next_action a = im_next_action b"
    and "im_next_degraded a = im_next_degraded b"
  using assms by (cases a; cases b; simp add: frame_def)+

lemma frame_now [simp, fcf_frame]: "frame (snd (now s)) = frame s"
  by (simp add: now_def frame_def)

lemma frame_history [simp, fcf_frame]: "frame (snd (add_history e s)) = frame s"
  by (simp add: add_history_def now_def frame_def core_def Let_def)

lemma frame_stage [simp, fcf_frame]: "frame (stage kind history body s) = frame s"
  by (simp add: stage_def frame_def split: option.split)

lemma frame_stage_counters [simp, fcf_frame]: "frame (stage_counters s) = frame s"
  by (simp add: stage_counters_def)

lemma frame_record_event [simp, fcf_frame]: "frame (record_event e kind body s) = frame s"
proof -
  have "frame (snd (add_history e s)) = frame s" by simp
  then show ?thesis by (simp add: record_event_def case_prod_beta)
qed

lemma frame_store [simp]: "frame (s\<lparr>im_store := ds\<rparr>) = frame s"
  and frame_pending [simp]: "frame (s\<lparr>im_pending := ws\<rparr>) = frame s"
  and frame_healthy [simp]: "frame (s\<lparr>im_durability_healthy := b\<rparr>) = frame s"
  by (simp_all add: frame_def)

lemma frame_flush_records: "frame (snd (flush_records ws ds s)) = frame s"
  by (induction ws ds s rule: flush_records.induct) (auto split: sum.split)

lemma frame_flush [simp, fcf_frame]: "frame (snd (flush s)) = frame s"
  by (simp add: flush_def frame_flush_records split: option.split)

lemma frame_complete [simp, fcf_frame]: "frame (snd (complete p)) = frame (snd p)"
proof (cases p rule: complete.cases)
  case (2 r s)
  obtain r' s' where f: "flush s = (r', s')" by (cases "flush s")
  with frame_flush [of s] have "frame s' = frame s" by simp
  with 2 f show ?thesis by (cases r') simp_all
qed simp

text \<open>The result of a completed operation is the one computed under the lock, or a store error.\<close>

lemma complete_Inr: "complete p = (Inr r, s') \<Longrightarrow> fst p = Inr r"
  by (cases p rule: complete.cases) (auto split: prod.splits sum.splits)

lemma complete_Inl: "fst p = Inl e \<Longrightarrow> fst (complete p) = Inl e"
  by (cases p rule: complete.cases) auto

section \<open>Durability before acknowledgement\<close>

lemma flush_records_ok:
  "flush_records ws ds s = (ok_status, s') \<Longrightarrow> \<exists>ds'. im_store s' = Some ds' \<and> ds_journal ds' = ds_journal ds @ ws"
proof (induction ws ds s rule: flush_records.induct)
  case (2 w ws ds s)
  then show ?case by (auto simp: append_record_def split: sum.splits option.splits)
qed auto

lemma flush_records_prefix:
  "\<exists>ds' k. im_store (snd (flush_records ws ds s)) = Some ds' \<and> ds_journal ds' = ds_journal ds @ take k ws"
proof (induction ws ds s rule: flush_records.induct)
  case (1 ds s)
  then show ?case by simp
next
  case (2 w ws ds s)
  show ?case
  proof (cases "append_record w ds")
    case (Inl e)
    then have "im_store (snd (flush_records (w # ws) ds s)) = Some ds \<and> ds_journal ds = ds_journal ds @ take 0 (w # ws)"
      by (simp add: add_history_def now_def Let_def)
    then show ?thesis by blast
  next
    case (Inr ds')
    with 2 obtain ds'' k where "im_store (snd (flush_records ws ds' s)) = Some ds''"
      "ds_journal ds'' = ds_journal ds' @ take k ws" by blast
    moreover have "ds_journal ds' = ds_journal ds @ [w]"
      using Inr by (auto simp: append_record_def split: option.splits)
    ultimately have "im_store (snd (flush_records (w # ws) ds s)) = Some ds'' \<and>
        ds_journal ds'' = ds_journal ds @ take (Suc k) (w # ws)" using Inr by simp
    then show ?thesis by blast
  qed
qed

end
