(* ===== verification/Fcf_Engine_Topology.thy ===== *)
theory Fcf_Engine_Topology
  imports Fcf_Runtime
begin

text \<open>
  Lifecycle and topology operations of the runtime (\<open>src/engine.cpp\<close>): construction, store
  attachment, epoch advance, and the registration, update and removal of domains, resources and
  dependencies, policy changes and resource evidence. \<open>X_locked\<close> is the part of \<open>X\<close> that runs
  under the lock, \<open>X\<close> completes it by the flush.
\<close>

section \<open>Lifecycle\<close>

definition Engine_construct :: "Config \<Rightarrow> Impl" where
  "Engine_construct config =
     (let policy = make_default_policy;
          st = RuntimeSnapshot_default\<lparr>
            rs_epoch := (if id_valid (cfg_initial_epoch config) then cfg_initial_epoch config else Id 1),
            rs_policy := policy,
            rs_policy_generation := pol_generation policy,
            rs_topology_generation := Id 1\<rparr>;
          s = \<lparr>im_config = config, im_state = st, im_store = None, im_pending = [],
               im_durable_sequence = 0, im_durability_healthy = True, im_shutting_down = False,
               im_digest_by_fault = [], im_fault_by_digest = [], im_releases = [],
               im_authority_loss_faults = [], im_next_fault = 1, im_next_action = 1,
               im_next_degraded = 1, im_ticks = 0\<rparr>;
          (t, s) = now s;
          s = upd_state (rs_now_ms_update (\<lambda>_. t)) s
      in snd (add_history (hist HistoryEventType.COORDINATOR_STARTED
           (''runtime constructed at epoch '' @ str_CoordinatorEpoch (rs_epoch (im_state s))) []) s))"

definition recovery_incomplete :: "Impl \<Rightarrow> bool" where
  "recovery_incomplete s \<longleftrightarrow> list_ex (\<lambda>(_, r). rr_freshness r \<noteq> EvidenceFreshness.FRESH) (resources s)"

text \<open>A store is identified with its contents: the guard compares the attached store's identity.\<close>

definition attach_store :: "DurableStore option \<Rightarrow> bool \<Rightarrow> Impl \<Rightarrow> Status \<times> Impl" where
  "attach_store store same s =
     (case store of
        None \<Rightarrow> (ok_status, s\<lparr>im_store := None\<rparr>)
      | Some ds \<Rightarrow>
          if im_store s \<noteq> None \<and> \<not> same then
            (fail ErrorCode.BUSY ''persist.attach''
               ''a different durable store is already attached to this runtime'' [], s)
          else (ok_status, if same then s else s\<lparr>im_store := Some ds\<rparr>))"

text \<open>The effect of \<open>shutdown\<close> before the snapshot is persisted.\<close>

definition request_shutdown :: "Impl \<Rightarrow> Impl" where
  "request_shutdown s =
     (if im_shutting_down s then s
      else snd (add_history (hist HistoryEventType.RECOVERY_APPLIED ''shutdown requested'' [])
             (s\<lparr>im_shutting_down := True\<rparr>)))"

definition suspect_worker :: "WorkerRecord \<Rightarrow> WorkerRecord" where
  "suspect_worker w =
     (if holds_live_authority (wr_state w)
      then w\<lparr>wr_state := WorkerState.SUSPECT, wr_freshness := EvidenceFreshness.REVALIDATION_REQUIRED\<rparr>
      else w)"

definition interrupt_action :: "ContainmentAction \<Rightarrow> ContainmentAction" where
  "interrupt_action a =
     (if act_status a = ActionStatus.DISPATCHED \<or> act_status a = ActionStatus.ACKNOWLEDGED \<or>
         act_status a = ActionStatus.AUTHORIZED
      then a\<lparr>act_status := ActionStatus.AMBIGUOUS,
             act_rejection_code := ErrorCode.REVALIDATION_REQUIRED,
             act_rejection_detail := ''coordinator epoch advanced before completion''\<rparr>
      else a)"

definition advance_epoch :: "u64 \<Rightarrow> RuntimeSnapshot \<Rightarrow> RuntimeSnapshot" where
  "advance_epoch now_ms st = st\<lparr>
     rs_epoch := next_generation (rs_epoch st),
     rs_now_ms := now_ms,
     rs_workers := wreg_incarnations_update (om_map suspect_worker) (rs_workers st),
     rs_topology := tp_resources_update
       (om_map (rr_freshness_update (\<lambda>_. EvidenceFreshness.REVALIDATION_REQUIRED))) (rs_topology st),
     rs_actions := om_map interrupt_action (rs_actions st)\<rparr>"

definition begin_epoch_locked :: "u64 \<Rightarrow> string \<Rightarrow> Impl \<Rightarrow> CoordinatorEpoch Result \<times> Impl" where
  "begin_epoch_locked now_ms reason s =
     (let s = upd_state (advance_epoch now_ms) s;
          epoch = rs_epoch (im_state s);
          s = record_event (hist HistoryEventType.EPOCH_ADVANCED
            (''epoch advanced to '' @ str_CoordinatorEpoch epoch @ '': '' @ reason)
            (''CoordinatorEpoch '' @ str_CoordinatorEpoch epoch))
            DurableEventKind.HISTORY (\<lambda>w. w) s;
          s = stage_counters s
      in (Inr epoch, s))"

definition begin_epoch :: "u64 \<Rightarrow> string \<Rightarrow> Impl \<Rightarrow> CoordinatorEpoch Result \<times> Impl" where
  "begin_epoch now_ms reason s = complete (begin_epoch_locked now_ms reason s)"

section \<open>Containment domains\<close>

text \<open>
  The membership loop of \<open>register_domain\<close>: it stops at the first member that already belongs to
  another domain, leaving the members before it changed.
\<close>

fun claim_members ::
    "ContainmentDomainId \<Rightarrow> ResourceId list \<Rightarrow> (ResourceId, ResourceRecord) omap \<Rightarrow>
     ResourceId option \<times> (ResourceId, ResourceRecord) omap" where
  "claim_members d [] rs = (None, rs)"
| "claim_members d (member # ms) rs =
     (case om_find rs member of
        None \<Rightarrow> claim_members d ms rs
      | Some r \<Rightarrow>
          if id_valid (rr_containment_domain r) \<and> rr_containment_domain r \<noteq> d then (Some member, rs)
          else claim_members d ms (om_put member (r\<lparr>rr_containment_domain := d\<rparr>) rs))"

definition stage_resource :: "ResourceRecord \<Rightarrow> Impl \<Rightarrow> Impl" where
  "stage_resource r = stage DurableEventKind.RESOURCE_UPSERT None (write_resource r)"

definition stage_known_resource :: "ResourceId \<Rightarrow> Impl \<Rightarrow> Impl" where
  "stage_known_resource member s =
     (case om_find (resources s) member of None \<Rightarrow> s | Some r \<Rightarrow> stage_resource r s)"

definition topology_authority :: "Impl \<Rightarrow> string" where
  "topology_authority s = ''TopologyGeneration '' @ str_TopologyGeneration (rs_topology_generation (im_state s))"

definition register_domain_locked :: "ContainmentDomain \<Rightarrow> Impl \<Rightarrow> ContainmentDomain Result \<times> Impl" where
  "register_domain_locked domain s =
     (if \<not> id_valid (cd_id domain) then
        (fail ErrorCode.INVALID_ID ''domain.register'' ''domain identity is invalid'' [], s)
      else if om_find (tp_containment_domains (rs_topology (im_state s))) (cd_id domain) \<noteq> None then
        (fail ErrorCode.DUPLICATE_ID ''domain.register'' ''containment domain already exists''
           (str_ContainmentDomainId (cd_id domain)), s)
      else
        let domain = domain\<lparr>cd_generation := next_generation (rs_topology_generation (im_state s))\<rparr>;
            s = upd_state (rs_topology_generation_update (\<lambda>_. cd_generation domain)) s;
            (conflict, rs) = claim_members (cd_id domain) (cd_members domain) (resources s);
            s = upd_resources (\<lambda>_. rs) s
        in (case conflict of
              Some member \<Rightarrow>
                (fail ErrorCode.INVALID_DOMAIN_GRAPH ''domain.register''
                   ''resource already belongs to another containment domain'' (str_ResourceId member), s)
            | None \<Rightarrow>
                let s = upd_topology (tp_containment_domains_update (om_emplace (cd_id domain) domain)) s;
                    s = for_each (cd_members domain) stage_known_resource s;
                    s = record_event (hist HistoryEventType.DOMAIN_REGISTERED
                      (''containment domain '' @ str_ContainmentDomainId (cd_id domain) @ '' '' @ cd_name domain)
                      (topology_authority s))
            DurableEventKind.CONTAINMENT_DOMAIN_UPSERT (write_containment_domain domain) s
                in (Inr domain, stage_counters s)))"

definition register_domain :: "ContainmentDomain \<Rightarrow> Impl \<Rightarrow> ContainmentDomain Result \<times> Impl" where
  "register_domain domain s = complete (register_domain_locked domain s)"

definition leave_domain :: "ContainmentDomainId \<Rightarrow> ResourceRecord \<Rightarrow> ResourceRecord" where
  "leave_domain d r = (if rr_containment_domain r = d then r\<lparr>rr_containment_domain := id_invalid\<rparr> else r)"

definition update_domain_locked :: "ContainmentDomain \<Rightarrow> TopologyGeneration \<Rightarrow> Impl \<Rightarrow> Status \<times> Impl" where
  "update_domain_locked domain expected s =
     (case om_find (tp_containment_domains (rs_topology (im_state s))) (cd_id domain) of
        None \<Rightarrow> (fail ErrorCode.UNKNOWN_DOMAIN ''domain.update'' ''containment domain not found''
                  (str_ContainmentDomainId (cd_id domain)), s)
      | Some previous \<Rightarrow>
          if \<not> id_valid expected \<or> cd_generation previous \<noteq> expected then
            (fail ErrorCode.STALE_TOPOLOGY_GENERATION ''domain.update'' ''domain generation has advanced''
               (str_TopologyGeneration (cd_generation previous)), s)
          else
            (case find (\<lambda>member. om_find (resources s) member = None) (cd_members domain) of
               Some member \<Rightarrow>
                 (fail ErrorCode.INVALID_DOMAIN_GRAPH ''domain.update''
                    ''domain references a resource that is not registered'' (str_ResourceId member), s)
             | None \<Rightarrow>
                 let domain = domain\<lparr>cd_generation := next_generation (rs_topology_generation (im_state s))\<rparr>;
                     s = upd_state (rs_topology_generation_update (\<lambda>_. cd_generation domain)) s;
                     s = upd_topology (tp_containment_domains_update (om_put (cd_id domain) domain)) s;
                     s = upd_resources (for_each (cd_members domain) (\<lambda>member.
                           om_adjust_default ResourceRecord_default member
                             (rr_containment_domain_update (\<lambda>_. cd_id domain)))) s;
                     s = upd_resources (for_each (cd_members previous) (\<lambda>member rs.
                           if id_set_contains (cd_members domain) member then rs
                           else om_adjust_default ResourceRecord_default member (leave_domain (cd_id domain)) rs)) s;
                     s = record_event (hist HistoryEventType.DOMAIN_UPDATED
                       (''containment domain '' @ str_ContainmentDomainId (cd_id domain) @ '' updated'')
                       (topology_authority s))
            DurableEventKind.CONTAINMENT_DOMAIN_UPSERT (write_containment_domain domain) s
                 in (ok_status, stage_counters s)))"

definition update_domain :: "ContainmentDomain \<Rightarrow> TopologyGeneration \<Rightarrow> Impl \<Rightarrow> Status \<times> Impl" where
  "update_domain domain expected s = complete (update_domain_locked domain expected s)"

definition remove_domain_locked :: "ContainmentDomainId \<Rightarrow> TopologyGeneration \<Rightarrow> Impl \<Rightarrow> Status \<times> Impl" where
  "remove_domain_locked i expected s =
     (case om_find (tp_containment_domains (rs_topology (im_state s))) i of
        None \<Rightarrow> (fail ErrorCode.UNKNOWN_DOMAIN ''domain.remove'' ''containment domain not found''
                  (str_ContainmentDomainId i), s)
      | Some domain \<Rightarrow>
          if \<not> id_valid expected \<or> cd_generation domain \<noteq> expected then
            (fail ErrorCode.STALE_TOPOLOGY_GENERATION ''domain.remove'' ''domain generation has advanced''
               (str_TopologyGeneration (cd_generation domain)), s)
          else
            let s = upd_topology (tp_containment_domains_update (om_erase i)) s;
                s = bump_topology s;
                s = upd_resources (for_each (cd_members domain) (\<lambda>member.
                      om_adjust_default ResourceRecord_default member (leave_domain i))) s;
                s = record_event (hist HistoryEventType.DOMAIN_REMOVED
                  (''containment domain '' @ str_ContainmentDomainId i @ '' removed'') (topology_authority s))
            DurableEventKind.CONTAINMENT_DOMAIN_REMOVE (wr_id i) s
            in (ok_status, stage_counters s))"

definition remove_domain :: "ContainmentDomainId \<Rightarrow> TopologyGeneration \<Rightarrow> Impl \<Rightarrow> Status \<times> Impl" where
  "remove_domain i expected s = complete (remove_domain_locked i expected s)"

section \<open>Isolation and failure domains\<close>

definition register_isolation_domain_locked :: "IsolationDomain \<Rightarrow> Impl \<Rightarrow> IsolationDomain Result \<times> Impl" where
  "register_isolation_domain_locked domain s =
     (if \<not> id_valid (idm_id domain) then
        (fail ErrorCode.INVALID_ID ''isolation_domain.register'' ''identity is invalid'' [], s)
      else if om_find (tp_isolation_domains (rs_topology (im_state s))) (idm_id domain) \<noteq> None then
        (fail ErrorCode.DUPLICATE_ID ''isolation_domain.register'' ''already exists''
           (str_IsolationDomainId (idm_id domain)), s)
      else
        let domain = domain\<lparr>idm_generation := next_generation (rs_topology_generation (im_state s)),
              idm_classes := enum_set_normalize (enum_index IsolationClass_values) (idm_classes domain)\<rparr>;
            s = upd_state (rs_topology_generation_update (\<lambda>_. idm_generation domain)) s;
            s = upd_resources (for_each (idm_members domain) (\<lambda>member.
                  om_adjust member (rr_isolation_domain_update (\<lambda>_. idm_id domain)))) s;
            s = upd_topology (tp_isolation_domains_update (om_emplace (idm_id domain) domain)) s;
            s = record_event (hist HistoryEventType.DOMAIN_REGISTERED
              (''isolation domain '' @ str_IsolationDomainId (idm_id domain) @ '' '' @ idm_name domain)
              (topology_authority s))
            DurableEventKind.ISOLATION_DOMAIN_UPSERT (write_isolation_domain domain) s
        in (Inr domain, stage_counters s))"

definition register_isolation_domain :: "IsolationDomain \<Rightarrow> Impl \<Rightarrow> IsolationDomain Result \<times> Impl" where
  "register_isolation_domain domain s = complete (register_isolation_domain_locked domain s)"

definition remove_isolation_domain_locked :: "IsolationDomainId \<Rightarrow> TopologyGeneration \<Rightarrow> Impl \<Rightarrow> Status \<times> Impl" where
  "remove_isolation_domain_locked i expected s =
     (case om_find (tp_isolation_domains (rs_topology (im_state s))) i of
        None \<Rightarrow> (fail ErrorCode.UNKNOWN_DOMAIN ''isolation_domain.remove'' ''not found'' (str_IsolationDomainId i), s)
      | Some domain \<Rightarrow>
          if \<not> id_valid expected \<or> idm_generation domain \<noteq> expected then
            (fail ErrorCode.STALE_TOPOLOGY_GENERATION ''isolation_domain.remove'' ''generation has advanced''
               (str_TopologyGeneration (idm_generation domain)), s)
          else
            let s = upd_topology (tp_isolation_domains_update (om_erase i)) s;
                s = bump_topology s;
                s = upd_resources (for_each (idm_members domain) (\<lambda>member.
                      om_adjust_default ResourceRecord_default member (\<lambda>r.
                        if rr_isolation_domain r = i then r\<lparr>rr_isolation_domain := id_invalid\<rparr> else r))) s;
                s = record_event (hist HistoryEventType.DOMAIN_REMOVED
                  (''isolation domain '' @ str_IsolationDomainId i @ '' removed'') (topology_authority s))
            DurableEventKind.ISOLATION_DOMAIN_REMOVE (wr_id i) s
            in (ok_status, stage_counters s))"

definition remove_isolation_domain :: "IsolationDomainId \<Rightarrow> TopologyGeneration \<Rightarrow> Impl \<Rightarrow> Status \<times> Impl" where
  "remove_isolation_domain i expected s = complete (remove_isolation_domain_locked i expected s)"

definition register_failure_domain_locked :: "FailureDomain \<Rightarrow> Impl \<Rightarrow> FailureDomain Result \<times> Impl" where
  "register_failure_domain_locked domain s =
     (if \<not> id_valid (fd_id domain) then
        (fail ErrorCode.INVALID_ID ''failure_domain.register'' ''identity is invalid'' [], s)
      else if om_find (tp_failure_domains (rs_topology (im_state s))) (fd_id domain) \<noteq> None then
        (fail ErrorCode.DUPLICATE_ID ''failure_domain.register'' ''already exists''
           (str_FailureDomainId (fd_id domain)), s)
      else
        let domain = domain\<lparr>fd_generation := next_generation (rs_topology_generation (im_state s))\<rparr>;
            s = upd_state (rs_topology_generation_update (\<lambda>_. fd_generation domain)) s;
            s = upd_resources (for_each (fd_members domain) (\<lambda>member.
                  om_adjust member (rr_failure_domain_update (\<lambda>_. fd_id domain)))) s;
            s = upd_topology (tp_failure_domains_update (om_emplace (fd_id domain) domain)) s;
            s = record_event (hist HistoryEventType.DOMAIN_REGISTERED
              (''failure domain '' @ str_FailureDomainId (fd_id domain) @ '' '' @ fd_name domain)
              (topology_authority s))
            DurableEventKind.FAILURE_DOMAIN_UPSERT (write_failure_domain domain) s
        in (Inr domain, stage_counters s))"

definition register_failure_domain :: "FailureDomain \<Rightarrow> Impl \<Rightarrow> FailureDomain Result \<times> Impl" where
  "register_failure_domain domain s = complete (register_failure_domain_locked domain s)"

definition remove_failure_domain_locked :: "FailureDomainId \<Rightarrow> TopologyGeneration \<Rightarrow> Impl \<Rightarrow> Status \<times> Impl" where
  "remove_failure_domain_locked i expected s =
     (case om_find (tp_failure_domains (rs_topology (im_state s))) i of
        None \<Rightarrow> (fail ErrorCode.UNKNOWN_DOMAIN ''failure_domain.remove'' ''not found'' (str_FailureDomainId i), s)
      | Some domain \<Rightarrow>
          if \<not> id_valid expected \<or> fd_generation domain \<noteq> expected then
            (fail ErrorCode.STALE_TOPOLOGY_GENERATION ''failure_domain.remove'' ''generation has advanced''
               (str_TopologyGeneration (fd_generation domain)), s)
          else
            let s = upd_topology (tp_failure_domains_update (om_erase i)) s;
                s = bump_topology s;
                s = upd_resources (for_each (fd_members domain) (\<lambda>member.
                      om_adjust_default ResourceRecord_default member (\<lambda>r.
                        if rr_failure_domain r = i then r\<lparr>rr_failure_domain := id_invalid\<rparr> else r))) s;
                s = record_event (hist HistoryEventType.DOMAIN_REMOVED
                  (''failure domain '' @ str_FailureDomainId i @ '' removed'') (topology_authority s))
            DurableEventKind.FAILURE_DOMAIN_REMOVE (wr_id i) s
            in (ok_status, stage_counters s))"

definition remove_failure_domain :: "FailureDomainId \<Rightarrow> TopologyGeneration \<Rightarrow> Impl \<Rightarrow> Status \<times> Impl" where
  "remove_failure_domain i expected s = complete (remove_failure_domain_locked i expected s)"

end
