(* ===== verification/Fcf_Engine_Resources.thy ===== *)
theory Fcf_Engine_Resources
  imports Fcf_Engine_Topology
begin

text \<open>
  Resources, dependencies, policy and evidence (\<open>src/engine.cpp\<close>).
\<close>

section \<open>Resources\<close>

definition resource_event :: "HistoryEventType \<Rightarrow> string \<Rightarrow> ResourceId \<Rightarrow> Impl \<Rightarrow> HistoryEvent" where
  "resource_event type detail i s = (hist type detail (topology_authority s))\<lparr>he_resource := i\<rparr>"

text \<open>
  The three domain references of a new resource are checked in order: the domain must exist if one
  is named.
\<close>

definition unknown_domain_reference :: "Topology \<Rightarrow> ResourceRecord \<Rightarrow> (string \<times> string) option" where
  "unknown_domain_reference tp r =
     (if id_valid (rr_containment_domain r) \<and>
         om_find (tp_containment_domains tp) (rr_containment_domain r) = None
      then Some (''unknown containment domain'', str_ContainmentDomainId (rr_containment_domain r))
      else if id_valid (rr_isolation_domain r) \<and>
         om_find (tp_isolation_domains tp) (rr_isolation_domain r) = None
      then Some (''unknown isolation domain'', str_IsolationDomainId (rr_isolation_domain r))
      else if id_valid (rr_failure_domain r) \<and>
         om_find (tp_failure_domains tp) (rr_failure_domain r) = None
      then Some (''unknown failure domain'', str_FailureDomainId (rr_failure_domain r))
      else None)"

definition grant_authority :: "ResourceRecord \<Rightarrow> Impl \<Rightarrow> Impl" where
  "grant_authority r s =
     (if id_valid (rr_owner_boot r)
      then upd_workers (wreg_incarnations_update
             (om_adjust (WorkerKey (rr_owner_worker r) (rr_owner_boot r))
                (wr_live_authority_update (\<lambda>a. id_set_add a (rr_id r))))) s
      else s)"

definition join_domains :: "ResourceRecord \<Rightarrow> Topology \<Rightarrow> Topology" where
  "join_domains r tp =
     (let tp = (if id_valid (rr_containment_domain r)
                then tp_containment_domains_update (om_adjust_default ContainmentDomain_default
                       (rr_containment_domain r) (cd_members_update (\<lambda>m. id_set_add m (rr_id r)))) tp
                else tp);
          tp = (if id_valid (rr_isolation_domain r)
                then tp_isolation_domains_update (om_adjust_default IsolationDomain_default
                       (rr_isolation_domain r) (idm_members_update (\<lambda>m. id_set_add m (rr_id r)))) tp
                else tp)
      in if id_valid (rr_failure_domain r)
         then tp_failure_domains_update (om_adjust_default FailureDomain_default
                (rr_failure_domain r) (fd_members_update (\<lambda>m. id_set_add m (rr_id r)))) tp
         else tp)"

definition register_resource_locked :: "ResourceRecord \<Rightarrow> Impl \<Rightarrow> ResourceRecord Result \<times> Impl" where
  "register_resource_locked r s =
     (if \<not> id_valid (rr_id r) then
        (fail ErrorCode.INVALID_ID ''resource.register'' ''resource identity is invalid'' [], s)
      else if int (length (resources s)) \<ge> cfg_max_resources (im_config s) then
        (fail ErrorCode.RESOURCE_EXHAUSTED ''resource.register'' ''resource ceiling reached'' [], s)
      else if om_find (resources s) (rr_id r) \<noteq> None then
        (fail ErrorCode.DUPLICATE_ID ''resource.register'' ''resource already registered''
           (str_ResourceId (rr_id r)), s)
      else
        (case unknown_domain_reference (rs_topology (im_state s)) r of
           Some (message, context) \<Rightarrow>
             (fail ErrorCode.INVALID_DOMAIN_GRAPH ''resource.register'' message context, s)
         | None \<Rightarrow>
             let s = bump_topology s;
                 (t, s) = now s;
                 r = r\<lparr>rr_generation := next_generation (rr_generation r), rr_updated_at_ms := t\<rparr>;
                 s = grant_authority r s;
                 s = upd_topology (join_domains r) s;
                 s = upd_resources (om_emplace (rr_id r) r) s;
                 s = record_event (resource_event HistoryEventType.RESOURCE_REGISTERED
              (''resource '' @ str_ResourceId (rr_id r) @ '' '' @ rr_name r) (rr_id r) s)
            DurableEventKind.RESOURCE_UPSERT (write_resource r) s
             in (Inr r, stage_counters s)))"

definition register_resource :: "ResourceRecord \<Rightarrow> Impl \<Rightarrow> ResourceRecord Result \<times> Impl" where
  "register_resource r s = complete (register_resource_locked r s)"

text \<open>The generic lambda \<open>move_membership\<close>; \<open>upd\<close> updates the member set of a domain.\<close>

definition move_membership ::
    "((ResourceId IdSet \<Rightarrow> ResourceId IdSet) \<Rightarrow> 'd \<Rightarrow> 'd) \<Rightarrow> ResourceId \<Rightarrow>
     'tag Id \<Rightarrow> 'tag Id \<Rightarrow> ('tag Id, 'd) omap \<Rightarrow> ('tag Id, 'd) omap" where
  "move_membership upd i old_id new_id domains =
     (let domains = (if id_valid old_id \<and> old_id \<noteq> new_id
                     then om_adjust old_id (upd (\<lambda>m. id_set_del m i)) domains else domains)
      in if id_valid new_id then om_adjust new_id (upd (\<lambda>m. id_set_add m i)) domains else domains)"

definition move_domains :: "ResourceRecord \<Rightarrow> ResourceRecord \<Rightarrow> Topology \<Rightarrow> Topology" where
  "move_domains previous r tp =
     (let tp = tp_containment_domains_update (move_membership cd_members_update (rr_id r)
                 (rr_containment_domain previous) (rr_containment_domain r)) tp;
          tp = tp_isolation_domains_update (move_membership idm_members_update (rr_id r)
                 (rr_isolation_domain previous) (rr_isolation_domain r)) tp
      in tp_failure_domains_update (move_membership fd_members_update (rr_id r)
           (rr_failure_domain previous) (rr_failure_domain r)) tp)"

definition update_resource_locked ::
    "ResourceRecord \<Rightarrow> ResourceGeneration \<Rightarrow> Impl \<Rightarrow> ResourceRecord Result \<times> Impl" where
  "update_resource_locked r expected s =
     (case om_find (resources s) (rr_id r) of
        None \<Rightarrow> (fail ErrorCode.UNKNOWN_RESOURCE ''resource.update'' ''resource not found''
                  (str_ResourceId (rr_id r)), s)
      | Some previous \<Rightarrow>
          if \<not> id_valid expected \<or> rr_generation previous \<noteq> expected then
            (fail ErrorCode.STALE_RESOURCE_GENERATION ''resource.update''
               ''resource generation has advanced'' (str_ResourceGeneration (rr_generation previous)), s)
          else
            let s = bump_topology s;
                (t, s) = now s;
                r = r\<lparr>rr_generation := next_generation (rr_generation r), rr_updated_at_ms := t\<rparr>;
                s = upd_topology (move_domains previous r) s;
                s = upd_resources (om_put (rr_id r) r) s;
                s = record_event (resource_event HistoryEventType.TOPOLOGY_UPDATED
              (''resource '' @ str_ResourceId (rr_id r) @ '' updated'') (rr_id r) s)
            DurableEventKind.RESOURCE_UPSERT (write_resource r) s
            in (Inr r, stage_counters s))"

definition update_resource ::
    "ResourceRecord \<Rightarrow> ResourceGeneration \<Rightarrow> Impl \<Rightarrow> ResourceRecord Result \<times> Impl" where
  "update_resource r expected s = complete (update_resource_locked r expected s)"

definition leave_domains :: "ResourceRecord \<Rightarrow> ResourceId \<Rightarrow> Topology \<Rightarrow> Topology" where
  "leave_domains removed i tp =
     (let tp = (if id_valid (rr_containment_domain removed)
                then tp_containment_domains_update (om_adjust (rr_containment_domain removed)
                       (cd_members_update (\<lambda>m. id_set_del m i))) tp else tp);
          tp = (if id_valid (rr_isolation_domain removed)
                then tp_isolation_domains_update (om_adjust (rr_isolation_domain removed)
                       (idm_members_update (\<lambda>m. id_set_del m i))) tp else tp)
      in if id_valid (rr_failure_domain removed)
         then tp_failure_domains_update (om_adjust (rr_failure_domain removed)
                (fd_members_update (\<lambda>m. id_set_del m i))) tp else tp)"

definition edges_of :: "ResourceId \<Rightarrow> DependencyGraph \<Rightarrow> DependencyId list" where
  "edges_of i g = map fst (filter (\<lambda>(_, e). de_source e = i \<or> de_destination e = i) (dg_edges g))"

definition live_member :: "RuntimeSnapshot \<Rightarrow> ResourceId \<Rightarrow> bool" where
  "live_member st i \<longleftrightarrow>
     list_ex (\<lambda>(_, c). containment_is_live (con_status c) \<and> id_set_contains (con_mandatory c) i)
       (rs_containments st)"

definition remove_resource_locked :: "ResourceId \<Rightarrow> ResourceGeneration \<Rightarrow> Impl \<Rightarrow> Status \<times> Impl" where
  "remove_resource_locked i expected s =
     (case om_find (resources s) i of
        None \<Rightarrow> (fail ErrorCode.UNKNOWN_RESOURCE ''resource.remove'' ''resource not found'' (str_ResourceId i), s)
      | Some removed \<Rightarrow>
          if \<not> id_valid expected \<or> rr_generation removed \<noteq> expected then
            (fail ErrorCode.STALE_RESOURCE_GENERATION ''resource.remove''
               ''resource generation has advanced'' (str_ResourceGeneration (rr_generation removed)), s)
          else if live_member (im_state s) i then
            (fail ErrorCode.REVALIDATION_REQUIRED ''resource.remove''
               ''resource is a member of a live containment'' (str_ResourceId i), s)
          else
            let s = upd_topology (tp_dependencies_update rebuild_indexes) s;
                to_remove = edges_of i (tp_dependencies (rs_topology (im_state s)));
                s = upd_topology (tp_dependencies_update
                      (for_each to_remove (\<lambda>d g. fst (graph_erase d g)))) s;
                s = upd_topology (leave_domains removed i) s;
                s = upd_resources (om_erase i) s;
                s = bump_topology s;
                s = record_event (resource_event HistoryEventType.TOPOLOGY_UPDATED
              (''resource '' @ str_ResourceId i @ '' removed'') i s)
            DurableEventKind.RESOURCE_REMOVE (wr_id i) s;
                s = for_each to_remove (\<lambda>d. stage DurableEventKind.DEPENDENCY_REMOVE None (wr_id d)) s
            in (ok_status, stage_counters s))"

definition remove_resource :: "ResourceId \<Rightarrow> ResourceGeneration \<Rightarrow> Impl \<Rightarrow> Status \<times> Impl" where
  "remove_resource i expected s = complete (remove_resource_locked i expected s)"

section \<open>Dependencies\<close>

definition register_dependency_locked :: "DependencyEdge \<Rightarrow> Impl \<Rightarrow> DependencyEdge Result \<times> Impl" where
  "register_dependency_locked edge s =
     (let g = tp_dependencies (rs_topology (im_state s)) in
      if \<not> id_valid (de_id edge) then
        (fail ErrorCode.INVALID_ID ''dependency.register'' ''identity is invalid'' [], s)
      else if int (length (dg_edges g)) \<ge> cfg_max_dependencies (im_config s) then
        (fail ErrorCode.RESOURCE_EXHAUSTED ''dependency.register'' ''dependency ceiling reached'' [], s)
      else if de_source edge = de_destination edge then
        (fail ErrorCode.INVALID_DEPENDENCY ''dependency.register'' ''self dependency''
           (str_ResourceId (de_source edge)), s)
      else if om_find (resources s) (de_source edge) = None \<or>
              om_find (resources s) (de_destination edge) = None then
        (fail ErrorCode.INVALID_DEPENDENCY ''dependency.register''
           ''dependency endpoints must both be registered resources'' [], s)
      else if om_find (dg_edges g) (de_id edge) \<noteq> None then
        (fail ErrorCode.DUPLICATE_ID ''dependency.register'' ''dependency already exists''
           (str_DependencyId (de_id edge)), s)
      else if de_confidence_permille edge > 1000 then
        (fail ErrorCode.INVALID_ARGUMENT ''dependency.register''
           ''confidence must be at most 1000 permille'' [], s)
      else
        let s = bump_topology s;
            edge = edge\<lparr>de_generation := next_generation (de_generation edge)\<rparr>;
            s = upd_topology (tp_dependencies_update (graph_insert edge)) s;
            s = record_event (hist HistoryEventType.DEPENDENCY_REGISTERED
              (''dependency '' @ str_DependencyId (de_id edge) @ '' '' @ DependencyKind_str (de_kind edge) @
               '' '' @ str_ResourceId (de_source edge) @ '' -> '' @ str_ResourceId (de_destination edge))
              (topology_authority s))
            DurableEventKind.DEPENDENCY_UPSERT (write_dependency edge) s
        in (Inr edge, stage_counters s))"

definition register_dependency :: "DependencyEdge \<Rightarrow> Impl \<Rightarrow> DependencyEdge Result \<times> Impl" where
  "register_dependency edge s = complete (register_dependency_locked edge s)"

definition remove_dependency_locked :: "DependencyId \<Rightarrow> DependencyGeneration \<Rightarrow> Impl \<Rightarrow> Status \<times> Impl" where
  "remove_dependency_locked i expected s =
     (case graph_find (tp_dependencies (rs_topology (im_state s))) i of
        None \<Rightarrow> (fail ErrorCode.INVALID_DEPENDENCY ''dependency.remove'' ''dependency not found''
                  (str_DependencyId i), s)
      | Some edge \<Rightarrow>
          if \<not> id_valid expected \<or> de_generation edge \<noteq> expected then
            (fail ErrorCode.STALE_TOPOLOGY_GENERATION ''dependency.remove''
               ''dependency generation has advanced'' (str_DependencyGeneration (de_generation edge)), s)
          else
            let s = upd_topology (tp_dependencies_update (\<lambda>g. fst (graph_erase i g))) s;
                s = bump_topology s;
                s = record_event (hist HistoryEventType.DEPENDENCY_REMOVED
                  (''dependency '' @ str_DependencyId i @ '' removed'') (topology_authority s))
            DurableEventKind.DEPENDENCY_REMOVE (wr_id i) s
            in (ok_status, stage_counters s))"

definition remove_dependency :: "DependencyId \<Rightarrow> DependencyGeneration \<Rightarrow> Impl \<Rightarrow> Status \<times> Impl" where
  "remove_dependency i expected s = complete (remove_dependency_locked i expected s)"

section \<open>Policy and evidence\<close>

definition set_policy_locked :: "ContainmentPolicy \<Rightarrow> Impl \<Rightarrow> Status \<times> Impl" where
  "set_policy_locked policy s =
     (case validate_policy policy of
        Inl e \<Rightarrow> (Inl e, s)
      | Inr _ \<Rightarrow>
          let policy = policy\<lparr>pol_generation := next_generation (rs_policy_generation (im_state s))\<rparr>;
              s = upd_state (rs_policy_generation_update (\<lambda>_. pol_generation policy)) s;
              s = upd_state (rs_policy_update (\<lambda>_. policy)) s;
              s = record_event (hist HistoryEventType.TOPOLOGY_UPDATED
                (''policy updated to '' @ pol_name policy)
                (''PolicyGeneration '' @ str_PolicyGeneration (rs_policy_generation (im_state s))))
            DurableEventKind.POLICY_SET (write_policy policy) s
          in (ok_status, stage_counters s))"

definition set_policy :: "ContainmentPolicy \<Rightarrow> Impl \<Rightarrow> Status \<times> Impl" where
  "set_policy policy s = complete (set_policy_locked policy s)"

text \<open>The record after new evidence: trust changes, authority does not.\<close>

definition apply_evidence ::
    "EvidenceFreshness \<Rightarrow> EvidenceSequence \<Rightarrow> ContainmentMechanism \<Rightarrow> ResourceRecord \<Rightarrow> ResourceRecord" where
  "apply_evidence freshness sequence mechanism r =
     (let r = r\<lparr>rr_freshness := freshness,
                rr_evidence_sequence := (if id_valid sequence then sequence
                                         else next_generation (rr_evidence_sequence r))\<rparr>;
          r = (if mechanism \<noteq> ContainmentMechanism.NONE then r\<lparr>rr_mechanism := mechanism\<rparr> else r)
      in if \<not> rr_quarantined r \<and> rr_state r = ResourceOperationalState.UNKNOWN \<and>
            freshness = EvidenceFreshness.FRESH
         then r\<lparr>rr_state := ResourceOperationalState.ACTIVE\<rparr> else r)"

definition publish_resource_evidence_locked ::
    "ResourceId \<Rightarrow> ResourceGeneration \<Rightarrow> EvidenceFreshness \<Rightarrow> EvidenceSequence \<Rightarrow>
     ContainmentMechanism \<Rightarrow> string \<Rightarrow> Impl \<Rightarrow> ResourceRecord Result \<times> Impl" where
  "publish_resource_evidence_locked i expected freshness sequence mechanism source s =
     (case om_find (resources s) i of
        None \<Rightarrow> (fail ErrorCode.UNKNOWN_RESOURCE ''evidence.publish'' ''resource not found'' (str_ResourceId i), s)
      | Some r \<Rightarrow>
          if id_valid expected \<and> rr_generation r \<noteq> expected then
            (fail ErrorCode.STALE_RESOURCE_GENERATION ''evidence.publish''
               ''resource generation has advanced'' (str_ResourceGeneration (rr_generation r)), s)
          else if id_valid sequence \<and> id_valid (rr_evidence_sequence r) \<and> sequence < rr_evidence_sequence r then
            (fail ErrorCode.STALE_EVIDENCE ''evidence.publish''
               ''evidence sequence is older than the current one''
               (str_EvidenceSequence sequence @ '' < '' @ str_EvidenceSequence (rr_evidence_sequence r)), s)
          else
            let s = bump_topology s;
                (t, s) = now s;
                r = (apply_evidence freshness sequence mechanism r)
                      \<lparr>rr_generation := next_generation (rr_generation r), rr_updated_at_ms := t\<rparr>;
                s = upd_resources (om_put i r) s;
                s = record_event ((hist HistoryEventType.RESOURCE_EVIDENCE_UPDATED
                  (''evidence for '' @ str_ResourceId i @ '' is '' @ EvidenceFreshness_str freshness @
                   (if source = [] then [] else '' from '' @ source))
                  (''ResourceGeneration '' @ str_ResourceGeneration (rr_generation r)))\<lparr>he_resource := i\<rparr>)
            DurableEventKind.RESOURCE_UPSERT (write_resource r) s
            in (Inr r, stage_counters s))"

definition publish_resource_evidence ::
    "ResourceId \<Rightarrow> ResourceGeneration \<Rightarrow> EvidenceFreshness \<Rightarrow> EvidenceSequence \<Rightarrow>
     ContainmentMechanism \<Rightarrow> string \<Rightarrow> Impl \<Rightarrow> ResourceRecord Result \<times> Impl" where
  "publish_resource_evidence i expected freshness sequence mechanism source s =
     complete (publish_resource_evidence_locked i expected freshness sequence mechanism source s)"

end
