(* ===== verification/Fcf_Engine_Faults.thy ===== *)
theory Fcf_Engine_Faults
  imports Fcf_Engine_Resources
begin

text \<open>
  Worker incarnations and fault publication (\<open>src/engine.cpp\<close>).
\<close>

abbreviation str_WorkerIncarnation :: "WorkerIncarnation \<Rightarrow> string" where
  "str_WorkerIncarnation \<equiv> id_to_string ''WorkerIncarnation''"

section \<open>Registration\<close>

text \<open>A known boot: re-admission after an epoch change, or the stored record as it is.\<close>

definition reattach_worker :: "WorkerKey \<Rightarrow> WorkerRecord \<Rightarrow> Impl \<Rightarrow> WorkerRecord Result \<times> Impl" where
  "reattach_worker key existing s =
     (if wr_state existing = WorkerState.SUSPECT \<and> wr_registered_epoch existing \<noteq> rs_epoch (im_state s) then
        let (t, s) = now s;
            boot = wk_boot key;
            reopened = existing\<lparr>wr_state := WorkerState.ACTIVE,
              wr_registered_epoch := rs_epoch (im_state s), wr_last_seen_ms := t\<rparr>;
            s = upd_workers (wreg_incarnations_update (om_put key reopened)) s;
            s = record_event (hist HistoryEventType.WORKER_REGISTERED
              (''incarnation '' @ str_WorkerBootId boot @ '' reattached at epoch '' @
               str_CoordinatorEpoch (rs_epoch (im_state s)) @ ''; evidence revalidation still required'')
              (''CoordinatorEpoch '' @ str_CoordinatorEpoch (rs_epoch (im_state s)) @ ''; WorkerBootId '' @
               str_WorkerBootId boot))
            DurableEventKind.WORKER_UPSERT (write_worker reopened) s
        in (Inr reopened, stage_counters s)
      else (Inr existing, s))"

definition require_revalidation :: "ResourceId \<Rightarrow> (ResourceId, ResourceRecord) omap \<Rightarrow> (ResourceId, ResourceRecord) omap" where
  "require_revalidation i = om_adjust i (rr_freshness_update (\<lambda>_. EvidenceFreshness.REVALIDATION_REQUIRED))"

text \<open>A fresh boot revokes the incarnation that was current before it.\<close>

definition revoke_previous :: "WorkerId \<Rightarrow> WorkerBootId \<Rightarrow> Impl \<Rightarrow> Impl" where
  "revoke_previous worker boot s =
     (case om_find (wreg_current_boot (rs_workers (im_state s))) worker of
        None \<Rightarrow> s
      | Some current \<Rightarrow>
          if current = boot then s
          else
            (case om_find (incarnations s) (WorkerKey worker current) of
               None \<Rightarrow> s
             | Some w \<Rightarrow>
                 let revoked = w\<lparr>wr_state := WorkerState.AUTHORITY_REVOKED,
                       wr_freshness := EvidenceFreshness.REVALIDATION_REQUIRED\<rparr>;
                     s = upd_workers (wreg_incarnations_update (om_put (WorkerKey worker current) revoked)) s;
                     s = upd_resources (for_each (wr_live_authority revoked) require_revalidation) s;
                     s = record_event (hist HistoryEventType.WORKER_AUTHORITY_REVOKED
                       (''previous incarnation '' @ str_WorkerBootId current @ '' revoked by fresh boot '' @
                        str_WorkerBootId boot) (''WorkerBootId '' @ str_WorkerBootId current))
            DurableEventKind.WORKER_UPSERT (write_worker revoked) s
      in s))"

definition owned_resources :: "WorkerId \<Rightarrow> WorkerBootId \<Rightarrow> (ResourceId, ResourceRecord) omap \<Rightarrow> ResourceId IdSet" where
  "owned_resources worker boot rs =
     for_each rs (\<lambda>(i, r) ids. if rr_owner_boot r = boot \<and> rr_owner_worker r = worker
                               then id_set_add ids i else ids) []"

definition admit_worker :: "WorkerKey \<Rightarrow> string \<Rightarrow> EvidenceSequence \<Rightarrow> Impl \<Rightarrow> WorkerRecord Result \<times> Impl" where
  "admit_worker key endpoint sequence s =
     (let worker = wk_worker key; boot = wk_boot key;
          s = revoke_previous worker boot s;
          previous = om_find (wreg_last_incarnation (rs_workers (im_state s))) worker;
          incarnation = next_generation (case previous of None \<Rightarrow> id_invalid | Some i \<Rightarrow> i);
          s = upd_workers (wreg_last_incarnation_update (om_put worker incarnation)) s;
          (t, s) = now s;
          w = WorkerRecord_default\<lparr>wr_key := key, wr_incarnation := incarnation,
                wr_registered_epoch := rs_epoch (im_state s), wr_state := WorkerState.ACTIVE,
                wr_last_sequence := sequence, wr_freshness := EvidenceFreshness.REVALIDATION_REQUIRED,
                wr_registered_at_ms := t, wr_last_seen_ms := t, wr_endpoint := endpoint,
                wr_live_authority := owned_resources worker boot (resources s)\<rparr>;
          s = upd_workers (wreg_incarnations_update (om_put key w)) s;
          s = upd_workers (wreg_current_boot_update (om_put worker boot)) s;
          s = record_event (hist HistoryEventType.WORKER_REGISTERED
            (''worker '' @ str_WorkerId worker @ '' registered as boot '' @ str_WorkerBootId boot @
             '' incarnation '' @ str_WorkerIncarnation incarnation)
            (''CoordinatorEpoch '' @ str_CoordinatorEpoch (rs_epoch (im_state s)) @ ''; WorkerBootId '' @
             str_WorkerBootId boot))
            DurableEventKind.WORKER_UPSERT (write_worker w) s;
          s = stage DurableEventKind.WORKER_CURRENT_BOOT None (writes [wr_id worker, wr_id boot]) s
      in (Inr w, stage_counters s))"

definition register_worker_locked ::
    "WorkerId \<Rightarrow> WorkerBootId \<Rightarrow> string \<Rightarrow> EvidenceSequence \<Rightarrow> Impl \<Rightarrow> WorkerRecord Result \<times> Impl" where
  "register_worker_locked worker boot endpoint sequence s =
     (let key = WorkerKey worker boot in
      if \<not> id_valid worker \<or> \<not> id_valid boot then
        (fail ErrorCode.INVALID_ID ''worker.register''
           ''worker identity and boot identity are both required'' [], s)
      else if int (length (incarnations s)) \<ge> cfg_max_workers (im_config s) then
        (fail ErrorCode.RESOURCE_EXHAUSTED ''worker.register'' ''worker ceiling reached'' [], s)
      else
        (case om_find (incarnations s) key of
           None \<Rightarrow> admit_worker key endpoint sequence s
         | Some existing \<Rightarrow>
             if \<not> id_valid (wr_registered_epoch existing) then
               admit_worker key endpoint sequence
                 (upd_workers (wreg_incarnations_update (om_erase key)) s)
             else if wr_endpoint existing \<noteq> endpoint then
               (fail ErrorCode.DUPLICATE_CONFLICT ''worker.register''
                  ''the same boot identity registered with conflicting details'' (str_WorkerBootId boot), s)
             else reattach_worker key existing s))"

definition register_worker ::
    "WorkerId \<Rightarrow> WorkerBootId \<Rightarrow> string \<Rightarrow> EvidenceSequence \<Rightarrow> Impl \<Rightarrow> WorkerRecord Result \<times> Impl" where
  "register_worker worker boot endpoint sequence s =
     complete (register_worker_locked worker boot endpoint sequence s)"

definition retire_worker_locked :: "WorkerId \<Rightarrow> WorkerBootId \<Rightarrow> string \<Rightarrow> Impl \<Rightarrow> Status \<times> Impl" where
  "retire_worker_locked worker boot reason s =
     (case om_find (incarnations s) (WorkerKey worker boot) of
        None \<Rightarrow> (fail ErrorCode.UNKNOWN_WORKER ''worker.retire'' ''worker incarnation not found''
                  (str_WorkerBootId boot), s)
      | Some w \<Rightarrow>
          if wr_state w = WorkerState.RETIRED then (ok_status, s)
          else
            let retired = w\<lparr>wr_state := WorkerState.RETIRED,
                  wr_freshness := EvidenceFreshness.REVALIDATION_REQUIRED, wr_live_authority := []\<rparr>;
                s = upd_workers (wreg_incarnations_update (om_put (WorkerKey worker boot) retired)) s;
                s = record_event (hist HistoryEventType.WORKER_RETIRED
                  (''worker boot '' @ str_WorkerBootId boot @ '' retired: '' @ reason)
                  (''WorkerBootId '' @ str_WorkerBootId boot))
            DurableEventKind.WORKER_UPSERT (write_worker retired) s
            in (ok_status, stage_counters s))"

definition retire_worker :: "WorkerId \<Rightarrow> WorkerBootId \<Rightarrow> string \<Rightarrow> Impl \<Rightarrow> Status \<times> Impl" where
  "retire_worker worker boot reason s = complete (retire_worker_locked worker boot reason s)"

definition query_worker :: "WorkerId \<Rightarrow> WorkerBootId \<Rightarrow> Impl \<Rightarrow> WorkerRecord Result" where
  "query_worker worker boot s =
     (case om_find (incarnations s) (WorkerKey worker boot) of
        None \<Rightarrow> fail ErrorCode.UNKNOWN_WORKER ''worker.query'' ''worker incarnation not found''
                  (str_WorkerBootId boot)
      | Some w \<Rightarrow> Inr w)"

section \<open>Faults\<close>

definition stage_fault :: "FaultRecord \<Rightarrow> Impl \<Rightarrow> Impl" where
  "stage_fault f = stage DurableEventKind.FAULT_UPSERT None (write_fault f)"

text \<open>Missing identity, generation and epoch are filled in; an identity is allocated for good.\<close>

definition normalize_evidence :: "FaultEvidence \<Rightarrow> Impl \<Rightarrow> FaultEvidence \<times> Impl" where
  "normalize_evidence e s =
     (let (e, s) = (if \<not> id_valid (fe_id e)
                    then (let (i, s) = allocate_fault_id s in (e\<lparr>fe_id := i\<rparr>, s)) else (e, s));
          e = (if \<not> id_valid (fe_generation e) then e\<lparr>fe_generation := Id 1\<rparr> else e);
          e = (if \<not> id_valid (fe_epoch e) then e\<lparr>fe_epoch := rs_epoch (im_state s)\<rparr> else e)
      in (e, s))"

definition count_duplicate :: "FaultId \<Rightarrow> Impl \<Rightarrow> FaultRecord \<times> Impl" where
  "count_duplicate i s =
     (let existing = (case om_find (faults s) i of None \<Rightarrow> FaultRecord_default | Some f \<Rightarrow> f);
          (t, s) = now s;
          f = existing\<lparr>fr_duplicate_count := fr_duplicate_count existing + 1, fr_last_updated_ms := t\<rparr>
      in (f, upd_state (rs_faults_update (om_put i f)) s))"

definition reporter_is_stale :: "FaultEvidence \<Rightarrow> Impl \<Rightarrow> bool" where
  "reporter_is_stale e s \<longleftrightarrow>
     fe_reporter_kind e = ReporterKind.WORKER \<and> id_valid (fe_reporter_boot e) \<and>
     (case om_find (incarnations s) (WorkerKey (fe_reporter_worker e) (fe_reporter_boot e)) of
        None \<Rightarrow> True | Some w \<Rightarrow> \<not> holds_live_authority (wr_state w))"

definition new_fault :: "FaultRule \<Rightarrow> FaultEvidence \<Rightarrow> u64 \<Rightarrow> FaultRecord" where
  "new_fault rule e t = FaultRecord_default\<lparr>
     fr_evidence := e,
     fr_state := (if rule_mandatory_containment rule then FaultState.CONTAINMENT_REQUIRED
                  else FaultState.OBSERVED),
     fr_severity := rule_severity rule,
     fr_actionable := True,
     fr_first_seen_ms := t,
     fr_last_updated_ms := t\<rparr>"

definition admit_fault :: "FaultEvidence \<Rightarrow> Impl \<Rightarrow> FaultRecord Result \<times> Impl" where
  "admit_fault e s =
     (let rule = rule_for (rs_policy (im_state s)) (fe_kind e);
          (t, s) = now s;
          f = new_fault rule e t;
          i = fe_id e;
          s = upd_state (rs_faults_update (om_emplace i f)) s;
          s = s\<lparr>im_digest_by_fault := om_put i (fe_digest e) (im_digest_by_fault s),
                im_fault_by_digest := om_put (fe_digest e) i (im_fault_by_digest s)\<rparr>;
          s = record_event ((hist HistoryEventType.FAULT_PUBLISHED
            (FaultKind_str (fe_kind e) @ '' on '' @ str_ResourceId (fe_subject e) @ '' (state '' @
             FaultState_str (fr_state f) @ '')'')
            (''FaultGeneration '' @ str_FaultGeneration (fe_generation e) @ ''; CoordinatorEpoch '' @
             str_CoordinatorEpoch (fe_epoch e)))\<lparr>he_resource := fe_subject e, he_fault := i\<rparr>)
            DurableEventKind.FAULT_UPSERT (write_fault f) s;
          s = stage DurableEventKind.CURRENT_FAULT None (wr_id i) s
      in (Inr f, stage_counters s))"

text \<open>The result also carries \<open>*was_duplicate\<close>.\<close>

definition publish_fault_locked :: "FaultEvidence \<Rightarrow> Impl \<Rightarrow> (FaultRecord \<times> bool) Result \<times> Impl" where
  "publish_fault_locked evidence s =
     (if \<not> id_valid (fe_subject evidence) then
        (fail ErrorCode.INVALID_ID ''fault.publish'' ''fault subject is invalid'' [], s)
      else if int (length (faults s)) \<ge> cfg_max_faults (im_config s) then
        (fail ErrorCode.RESOURCE_EXHAUSTED ''fault.publish'' ''fault ceiling reached'' [], s)
      else
        let (e, s) = normalize_evidence evidence s in
        if fe_epoch e \<noteq> rs_epoch (im_state s) then
          (fail ErrorCode.STALE_EPOCH ''fault.publish'' ''observation epoch is not current''
             (str_CoordinatorEpoch (fe_epoch e) @ '' != '' @ str_CoordinatorEpoch (rs_epoch (im_state s))), s)
        else
          let e = e\<lparr>fe_digest := compute_evidence_digest e\<rparr> in
          (case om_find (im_fault_by_digest s) (fe_digest e) of
             Some i \<Rightarrow>
               let (f, s) = count_duplicate i s;
                   s = record_event ((hist HistoryEventType.FAULT_DUPLICATE_IGNORED
                     (''identical duplicate observation ignored for fault '' @ str_FaultId (fe_id (fr_evidence f))) [])
                     \<lparr>he_resource := fe_subject (fr_evidence f), he_fault := fe_id (fr_evidence f)\<rparr>)
            DurableEventKind.FAULT_UPSERT (write_fault f) s
      in (Inr (f, True), s)
           | None \<Rightarrow>
               if om_find (faults s) (fe_id e) \<noteq> None then
                 (fail ErrorCode.DUPLICATE_CONFLICT ''fault.publish''
                    ''a different observation already uses this fault identity'' (str_FaultId (fe_id e)), s)
               else if om_find (resources s) (fe_subject e) = None then
                 (fail ErrorCode.UNKNOWN_RESOURCE ''fault.publish''
                    ''fault subject is not a registered resource'' (str_ResourceId (fe_subject e)), s)
               else if reporter_is_stale e s then
                 (fail ErrorCode.STALE_WORKER_BOOT ''fault.publish''
                    ''reporter incarnation holds no live authority'' (str_WorkerBootId (fe_reporter_boot e)), s)
               else (case admit_fault e s of (r, s) \<Rightarrow> (map_sum id (\<lambda>f. (f, False)) r, s))))"

definition publish_fault :: "FaultEvidence \<Rightarrow> Impl \<Rightarrow> (FaultRecord \<times> bool) Result \<times> Impl" where
  "publish_fault evidence s = complete (publish_fault_locked evidence s)"

definition supersede_fault_locked ::
    "FaultId \<Rightarrow> FaultGeneration \<Rightarrow> string \<Rightarrow> Impl \<Rightarrow> FaultRecord Result \<times> Impl" where
  "supersede_fault_locked i expected reason s =
     (case om_find (faults s) i of
        None \<Rightarrow> (fail ErrorCode.UNKNOWN_FAULT ''fault.supersede'' ''fault not found'' (str_FaultId i), s)
      | Some f \<Rightarrow>
          if \<not> id_valid expected \<or> fe_generation (fr_evidence f) \<noteq> expected then
            (fail ErrorCode.STALE_FAULT_GENERATION ''fault.supersede'' ''fault generation has advanced''
               (str_FaultGeneration (fe_generation (fr_evidence f))), s)
          else if \<not> is_fault_current (fr_state f) \<or>
                  \<not> is_legal_fault_transition (fr_state f) FaultState.SUPERSEDED then
            (fail ErrorCode.FAULT_NOT_CURRENT ''fault.supersede'' ''fault state cannot be superseded''
               (FaultState_str (fr_state f)), s)
          else
            let (t, s) = now s;
                f = f\<lparr>fr_state := FaultState.SUPERSEDED, fr_actionable := False, fr_details := reason,
                      fr_last_updated_ms := t,
                      fr_evidence := fe_generation_update next_generation (fr_evidence f)\<rparr>;
                s = upd_state (rs_faults_update (om_put i f)) s;
                s = record_event ((hist HistoryEventType.FAULT_SUPERSEDED
                  (''fault '' @ str_FaultId i @ '' superseded: '' @ fr_details f)
                  (''FaultGeneration '' @ str_FaultGeneration (fe_generation (fr_evidence f))))
                  \<lparr>he_resource := fe_subject (fr_evidence f), he_fault := i\<rparr>)
            DurableEventKind.FAULT_UPSERT (write_fault f) s
            in (Inr f, stage_counters s))"

definition supersede_fault ::
    "FaultId \<Rightarrow> FaultGeneration \<Rightarrow> string \<Rightarrow> Impl \<Rightarrow> FaultRecord Result \<times> Impl" where
  "supersede_fault i expected reason s = complete (supersede_fault_locked i expected reason s)"

definition query_fault :: "FaultId \<Rightarrow> Impl \<Rightarrow> FaultRecord Result" where
  "query_fault i s =
     (case om_find (faults s) i of
        None \<Rightarrow> fail ErrorCode.UNKNOWN_FAULT ''fault.query'' ''fault not found'' (str_FaultId i)
      | Some f \<Rightarrow> Inr f)"

section \<open>Blast radius queries\<close>

definition radius_input :: "FaultRecord \<Rightarrow> ContainmentGeneration \<Rightarrow> RuntimeSnapshot \<Rightarrow> BlastRadiusInput" where
  "radius_input f generation st = \<lparr>bri_topology = Some (rs_topology st), bri_policy = Some (rs_policy st),
     bri_fault = Some f, bri_workers = Some (rs_workers st), bri_epoch = rs_epoch st,
     bri_generation = generation\<rparr>"

text \<open>The outer option is the exception \<open>compute_blast_radius\<close> may throw.\<close>

definition evaluate_containment :: "FaultId \<Rightarrow> FaultGeneration \<Rightarrow> Impl \<Rightarrow> BlastRadius Result option" where
  "evaluate_containment i expected s =
     (case om_find (faults s) i of
        None \<Rightarrow> Some (fail ErrorCode.UNKNOWN_FAULT ''containment.evaluate'' ''fault not found'' (str_FaultId i))
      | Some f \<Rightarrow>
          if id_valid expected \<and> fe_generation (fr_evidence f) \<noteq> expected then
            Some (fail ErrorCode.STALE_FAULT_GENERATION ''containment.evaluate''
              ''fault generation has advanced'' (str_FaultGeneration (fe_generation (fr_evidence f))))
          else compute_blast_radius (radius_input f
                 (next_generation (rs_containment_generation (im_state s))) (im_state s)))"

definition query_blast_radius :: "FaultId \<Rightarrow> Impl \<Rightarrow> BlastRadius Result option" where
  "query_blast_radius i s = evaluate_containment i id_invalid s"

definition explain_containment :: "ContainmentGeneration \<Rightarrow> Impl \<Rightarrow> ContainmentExplanation Result" where
  "explain_containment generation s =
     (case om_find (containments s) generation of
        None \<Rightarrow> fail ErrorCode.UNKNOWN_CONTAINMENT ''containment.explain'' ''containment not found''
                  (str_ContainmentGeneration generation)
      | Some c \<Rightarrow> Inr (con_explanation c))"

definition explain_fault :: "FaultId \<Rightarrow> Impl \<Rightarrow> ContainmentExplanation Result option" where
  "explain_fault i s = map_option (map_sum id br_explanation) (query_blast_radius i s)"

end
