(* ===== verification/Fcf_Engine_Containment.thy ===== *)
theory Fcf_Engine_Containment
  imports Fcf_Engine_Faults
begin

text \<open>
  Degraded-mode assessment and the authorization of a containment (\<open>src/engine.cpp\<close>): committing
  the blast radius, fencing every mandatory resource, draining the precautionary ones and planning
  one action per fenced resource within the budget.
\<close>

section \<open>Degraded-mode assessment\<close>

definition prohibit :: "ResourceId \<Rightarrow> DegradedModeAssessment \<Rightarrow> DegradedModeAssessment" where
  "prohibit i = dma_prohibited_update (\<lambda>p. id_set_add p i)"

definition prohibit_containment :: "ContainmentRecord \<Rightarrow> DegradedModeAssessment \<Rightarrow> DegradedModeAssessment" where
  "prohibit_containment c a =
     (let a = for_each (con_mandatory c) (\<lambda>i a. if id_set_contains (con_released c) i then a else prohibit i a) a
      in for_each (con_precautionary c) prohibit a)"

definition counts_as_redundancy :: "ResourceClass \<Rightarrow> bool" where
  "counts_as_redundancy c \<longleftrightarrow> c = ResourceClass.WORKER \<or> c = ResourceClass.SERVICE \<or>
     c = ResourceClass.SERVICE_REPLICA_GROUP"

definition classify_degraded :: "ResourceRecord \<Rightarrow> DegradedModeAssessment \<Rightarrow> DegradedModeAssessment" where
  "classify_degraded r a =
     (let contained = resource_is_contained r;
          a = (if contained \<or> id_set_contains (dma_prohibited a) (rr_id r) then prohibit (rr_id r) a else a)
      in if rr_freshness r \<noteq> EvidenceFreshness.FRESH then
           a\<lparr>dma_revalidation_required := id_set_add (dma_revalidation_required a) (rr_id r)\<rparr>
         else if contained then a
         else if \<not> is_operable (rr_state r) then a
         else let a = a\<lparr>dma_permitted := id_set_add (dma_permitted a) (rr_id r)\<rparr>
              in if counts_as_redundancy (rr_resource_class r)
                 then a\<lparr>dma_available_redundancy := dma_available_redundancy a + 1\<rparr> else a)"

definition capacity_percent :: "nat \<Rightarrow> nat \<Rightarrow> u32" where
  "capacity_percent permitted n = (if n = 0 then 0 else of_nat (permitted * 100 div n))"

definition degraded_base ::
    "RuntimeSnapshot \<Rightarrow> DegradedModeContract option \<Rightarrow> DegradedModeId \<Rightarrow> u64 \<Rightarrow> DegradedModeAssessment" where
  "degraded_base st contract i now_ms =
     DegradedModeAssessment_default\<lparr>dma_contract := i, dma_epoch := rs_epoch st,
       dma_topology_generation := rs_topology_generation st, dma_assessed_at_ms := now_ms,
       dma_required_redundancy := (case contract of
          None \<Rightarrow> dma_required_redundancy DegradedModeAssessment_default
        | Some c \<Rightarrow> dmc_required_redundancy c)\<rparr>"

definition live_containments :: "RuntimeSnapshot \<Rightarrow> ContainmentRecord list" where
  "live_containments st = filter (\<lambda>c. containment_is_live (con_status c)) (map snd (rs_containments st))"

text \<open>The sets of the assessment, before a status is chosen.\<close>

definition degraded_sets ::
    "RuntimeSnapshot \<Rightarrow> DegradedModeContract option \<Rightarrow> DegradedModeAssessment \<Rightarrow> DegradedModeAssessment" where
  "degraded_sets st contract a =
     (let a = for_each (live_containments st) prohibit_containment a;
          a = (case contract of None \<Rightarrow> a | Some c \<Rightarrow> for_each (dmc_prohibited_resources c) prohibit a);
          a = for_each (map snd (tp_resources (rs_topology st))) classify_degraded a;
          a = a\<lparr>dma_available_capacity_percent := capacity_percent (length (dma_permitted a))
                  (length (tp_resources (rs_topology st)))\<rparr>
      in (case contract of
            None \<Rightarrow> a
          | Some c \<Rightarrow>
              if dma_available_capacity_percent a > dmc_reduced_capacity_percent c
              then a\<lparr>dma_available_capacity_percent := dmc_reduced_capacity_percent c\<rparr> else a))"

definition add_reason :: "string \<Rightarrow> DegradedModeAssessment \<Rightarrow> DegradedModeAssessment" where
  "add_reason text = dma_reasons_update (\<lambda>rs. rs @ [text])"

definition str_u32 :: "u32 \<Rightarrow> string" where
  "str_u32 v = nat_to_string (unat v)"

definition assess_degraded_mode ::
    "RuntimeSnapshot \<Rightarrow> DegradedModeContract option \<Rightarrow> DegradedModeId \<Rightarrow> u64 \<Rightarrow> DegradedModeAssessment" where
  "assess_degraded_mode st contract i now_ms =
     (let a = degraded_sets st contract (degraded_base st contract i now_ms) in
      if \<not> degraded_sets_are_disjoint a then
        add_reason ''permitted and prohibited sets overlap''
          (a\<lparr>dma_status := DegradedModeStatus.DEGRADED_UNSAFE\<rparr>)
      else if live_containments st = [] \<and> dma_revalidation_required a = [] then
        add_reason ''no live containment and no outstanding revalidation''
          (a\<lparr>dma_status := DegradedModeStatus.NORMAL, dma_authorized := True\<rparr>)
      else if dma_permitted a = [] then
        add_reason ''no resource is both permitted and currently proven''
          (a\<lparr>dma_status := (if dma_revalidation_required a = [] then DegradedModeStatus.NO_LEGAL_DEGRADED_MODE
                           else DegradedModeStatus.DEGRADED_REVALIDATION_REQUIRED)\<rparr>)
      else if dma_available_redundancy a < dma_required_redundancy a then
        add_reason (''available redundancy '' @ str_u32 (dma_available_redundancy a) @
            '' is below the required '' @ str_u32 (dma_required_redundancy a))
          (a\<lparr>dma_status := DegradedModeStatus.NO_LEGAL_DEGRADED_MODE\<rparr>)
      else if dma_revalidation_required a \<noteq> [] then
        add_reason (nat_to_string (length (dma_revalidation_required a)) @
            '' resource(s) require revalidation before rejoining degraded operation'')
          (a\<lparr>dma_status := DegradedModeStatus.DEGRADED_REVALIDATION_REQUIRED, dma_authorized := True\<rparr>)
      else
        add_reason ''degraded operation authorised within the contract envelope''
          (a\<lparr>dma_status := DegradedModeStatus.DEGRADED_AUTHORIZED, dma_authorized := True\<rparr>))"

section \<open>Fencing\<close>

definition default_mechanism_for :: "ResourceRecord \<Rightarrow> ContainmentMechanism" where
  "default_mechanism_for r =
     (if rr_resource_class r = ResourceClass.WORKER \<or> rr_resource_class r = ResourceClass.PROCESS \<or>
         rr_resource_class r = ResourceClass.EXECUTION \<or> rr_resource_class r = ResourceClass.ATTEMPT
      then ContainmentMechanism.LOGICAL_CONTAINMENT else ContainmentMechanism.RESOURCE_CONTAINMENT)"

definition outcome_quarantines :: "ContainmentActionKind \<Rightarrow> bool" where
  "outcome_quarantines kind \<longleftrightarrow> kind = ContainmentActionKind.QUARANTINE_DOMAIN \<or>
     kind = ContainmentActionKind.FULL_DOMAIN_ISOLATION \<or> kind = ContainmentActionKind.QUARANTINE_RESOURCE"

definition fence_mechanism :: "ResourceRecord \<Rightarrow> Impl \<Rightarrow> ContainmentMechanism" where
  "fence_mechanism r s =
     (if id_valid (rr_owner_boot r) then
        (case om_find (incarnations s) (WorkerKey (rr_owner_worker r) (rr_owner_boot r)) of
           None \<Rightarrow> default_mechanism_for r
         | Some w \<Rightarrow> if \<not> holds_live_authority (wr_state w) then ContainmentMechanism.PROCESS_CONTAINMENT
                     else default_mechanism_for r)
      else default_mechanism_for r)"

definition fence_record ::
    "ContainmentMechanism \<Rightarrow> ContainmentGeneration \<Rightarrow> bool \<Rightarrow> u64 \<Rightarrow> ResourceRecord \<Rightarrow> ResourceRecord" where
  "fence_record mechanism generation quarantine now_ms r = r\<lparr>
     rr_state := (if quarantine then ResourceOperationalState.QUARANTINED else ResourceOperationalState.FENCED),
     rr_quarantined := True,
     rr_mechanism := mechanism,
     rr_containment_generation := generation,
     rr_generation := next_generation (rr_generation r),
     rr_updated_at_ms := now_ms\<rparr>"

definition fence_resource :: "ContainmentGeneration \<Rightarrow> bool \<Rightarrow> u64 \<Rightarrow> ResourceId \<Rightarrow> Impl \<Rightarrow> Impl" where
  "fence_resource generation quarantine now_ms i s =
     (case om_find (resources s) i of
        None \<Rightarrow> s
      | Some r \<Rightarrow>
          let fenced = fence_record (fence_mechanism r s) generation quarantine now_ms r;
              s = bump_topology s;
              s = upd_resources (om_put i fenced) s
          in stage_resource fenced s)"

definition drain_record :: "u64 \<Rightarrow> ResourceRecord \<Rightarrow> ResourceRecord" where
  "drain_record now_ms r = r\<lparr>rr_state := ResourceOperationalState.DRAINING,
     rr_generation := next_generation (rr_generation r), rr_updated_at_ms := now_ms\<rparr>"

definition drain_resource :: "u64 \<Rightarrow> ResourceId \<Rightarrow> Impl \<Rightarrow> Impl" where
  "drain_resource now_ms i s =
     (case om_find (resources s) i of
        None \<Rightarrow> s
      | Some r \<Rightarrow>
          if is_operable (rr_state r) then
            let drained = drain_record now_ms r;
                s = bump_topology s;
                s = upd_resources (om_put i drained) s
            in stage_resource drained s
          else s)"

section \<open>Action planning\<close>

fun action_for_resource :: "ContainmentActionKind \<Rightarrow> ResourceRecord \<Rightarrow> ContainmentActionKind" where
  "action_for_resource ContainmentActionKind.FENCE_WORKER r =
     (if id_valid (rr_owner_boot r) then ContainmentActionKind.FENCE_WORKER
      else ContainmentActionKind.QUARANTINE_RESOURCE)"
| "action_for_resource ContainmentActionKind.FENCE_PROCESS r =
     (if id_valid (rr_owner_boot r) then ContainmentActionKind.FENCE_PROCESS
      else ContainmentActionKind.QUARANTINE_RESOURCE)"
| "action_for_resource ContainmentActionKind.FENCE_ATTEMPT r =
     (if rr_resource_class r = ResourceClass.ATTEMPT then ContainmentActionKind.FENCE_ATTEMPT
      else ContainmentActionKind.QUARANTINE_RESOURCE)"
| "action_for_resource ContainmentActionKind.FENCE_DEVICE r =
     (if rr_resource_class r = ResourceClass.DEVICE \<or> rr_resource_class r = ResourceClass.ACCELERATOR
      then ContainmentActionKind.FENCE_DEVICE else ContainmentActionKind.QUARANTINE_RESOURCE)"
| "action_for_resource ContainmentActionKind.REVOKE_AUTHORITY r =
     (if id_valid (rr_owner_boot r) then ContainmentActionKind.REVOKE_AUTHORITY
      else ContainmentActionKind.QUARANTINE_RESOURCE)"
| "action_for_resource ContainmentActionKind.QUARANTINE_DOMAIN r = ContainmentActionKind.QUARANTINE_DOMAIN"
| "action_for_resource ContainmentActionKind.DRAIN_DOMAIN r = ContainmentActionKind.DRAIN_DOMAIN"
| "action_for_resource ContainmentActionKind.DISABLE_ADMISSION r = ContainmentActionKind.DISABLE_ADMISSION"
| "action_for_resource ContainmentActionKind.REQUIRE_REVALIDATION r = ContainmentActionKind.REQUIRE_REVALIDATION"
| "action_for_resource ContainmentActionKind.FULL_DOMAIN_ISOLATION r = ContainmentActionKind.FULL_DOMAIN_ISOLATION"
| "action_for_resource _ r = ContainmentActionKind.QUARANTINE_RESOURCE"

definition required_generations :: "ResourceRecord \<Rightarrow> Topology \<Rightarrow> (ResourceId, ResourceGeneration) omap" where
  "required_generations r tp =
     (if id_valid (rr_containment_domain r) then
        (case om_find (tp_containment_domains tp) (rr_containment_domain r) of
           None \<Rightarrow> []
         | Some domain \<Rightarrow>
             for_each (cd_members domain) (\<lambda>member m.
               (case om_find (tp_resources tp) member of
                  None \<Rightarrow> m
                | Some mr \<Rightarrow> om_put member (rr_generation mr) m)) [])
      else [])"

definition plan_envelope ::
    "ContainmentRecord \<Rightarrow> FaultRecord \<Rightarrow> ResourceId \<Rightarrow> ResourceRecord \<Rightarrow> ActionId \<Rightarrow> u64 \<Rightarrow>
     RuntimeSnapshot \<Rightarrow> AuthorityEnvelope" where
  "plan_envelope record f i r a now_ms st = \<lparr>
     env_epoch = rs_epoch st,
     env_fault = con_fault record,
     env_fault_generation = fe_generation (fr_evidence f),
     env_containment_generation = con_generation record,
     env_policy_generation = rs_policy_generation st,
     env_topology_generation = rs_topology_generation st,
     env_action = a,
     env_action_generation = Id 1,
     env_worker = rr_owner_worker r,
     env_worker_boot = rr_owner_boot r,
     env_target = i,
     env_target_generation = rr_generation r,
     env_required_evidence_sequence = rr_evidence_sequence r,
     env_reservation = rr_reservation r,
     env_lease = rr_lease r,
     env_required_resource_generations = required_generations r (rs_topology st),
     env_issued_at_ms = now_ms\<rparr>"

definition planned_action ::
    "ContainmentRecord \<Rightarrow> FaultRecord \<Rightarrow> ResourceId \<Rightarrow> ResourceRecord \<Rightarrow> ActionId \<Rightarrow> u64 \<Rightarrow>
     RuntimeSnapshot \<Rightarrow> ContainmentAction" where
  "planned_action record f i r a now_ms st = ContainmentAction_default\<lparr>
     act_id := a,
     act_generation := Id 1,
     act_kind := action_for_resource (con_outcome record) r,
     act_target := i,
     act_target_generation := rr_generation r,
     act_domain := rr_containment_domain r,
     act_isolation_domain := rr_isolation_domain r,
     act_mechanism := rr_mechanism r,
     act_status := ActionStatus.PLANNED,
     act_destructive := is_destructive_action (action_for_resource (con_outcome record) r),
     act_created_at_ms := now_ms,
     act_envelope := plan_envelope record f i r a now_ms st\<rparr>"

text \<open>The loop stops at the budget; a resource that is not registered is skipped.\<close>

fun plan_actions ::
    "nat \<Rightarrow> FaultRecord \<Rightarrow> u64 \<Rightarrow> ResourceId list \<Rightarrow> ContainmentRecord \<Rightarrow> Impl \<Rightarrow> ContainmentRecord \<times> Impl" where
  "plan_actions budget f now_ms [] record s = (record, s)"
| "plan_actions budget f now_ms (i # ids) record s =
     (if length (con_actions record) \<ge> budget then (record, s)
      else (case om_find (resources s) i of
              None \<Rightarrow> plan_actions budget f now_ms ids record s
            | Some r \<Rightarrow>
                let (a, s) = allocate_action_id s;
                    action = planned_action record f i r a now_ms (im_state s);
                    s = upd_state (rs_actions_update (om_emplace a action)) s;
                    record = record\<lparr>con_actions := con_actions record @ [a]\<rparr>;
                    s = stage DurableEventKind.ACTION_UPSERT None (write_action action) s
                in plan_actions budget f now_ms ids record s))"

section \<open>Authorization\<close>

text \<open>The checks on the fault, in the order of the code.\<close>

definition authorization_refusal :: "FaultId \<Rightarrow> FaultGeneration \<Rightarrow> RuntimeSnapshot \<Rightarrow> Error + FaultRecord" where
  "authorization_refusal i expected st =
     (case om_find (rs_faults st) i of
        None \<Rightarrow> fail ErrorCode.UNKNOWN_FAULT ''containment.authorize'' ''fault not found'' (str_FaultId i)
      | Some f \<Rightarrow>
          if id_valid expected \<and> fe_generation (fr_evidence f) \<noteq> expected then
            fail ErrorCode.STALE_FAULT_GENERATION ''containment.authorize'' ''fault generation has advanced''
              (str_FaultGeneration (fe_generation (fr_evidence f)))
          else if \<not> is_fault_current (fr_state f) then
            fail ErrorCode.FAULT_NOT_CURRENT ''containment.authorize'' ''fault is no longer current''
              (FaultState_str (fr_state f))
          else if \<not> fr_actionable f then
            fail ErrorCode.FAULT_NOT_ACTIONABLE ''containment.authorize'' ''fault is not actionable'' []
          else if id_valid (fr_containment_generation f) \<and>
                  (case om_find (rs_containments st) (fr_containment_generation f) of
                     None \<Rightarrow> False | Some c \<Rightarrow> containment_is_live (con_status c)) then
            fail ErrorCode.CONTAINMENT_ALREADY_COMMITTED ''containment.authorize''
              ''a live containment already exists for this fault''
              (str_ContainmentGeneration (fr_containment_generation f))
          else Inr f)"

definition new_containment :: "FaultId \<Rightarrow> FaultRecord \<Rightarrow> BlastRadius \<Rightarrow> u64 \<Rightarrow> RuntimeSnapshot \<Rightarrow> ContainmentRecord" where
  "new_containment i f radius now_ms st = ContainmentRecord_default\<lparr>
     con_generation := br_generation radius,
     con_epoch := rs_epoch st,
     con_fault := i,
     con_fault_generation := fe_generation (fr_evidence f),
     con_policy_generation := rs_policy_generation st,
     con_topology_generation := rs_topology_generation st,
     con_outcome := br_recommended radius,
     con_status := ContainmentStatus.COMMITTED,
     con_mandatory := br_mandatory radius,
     con_precautionary := br_precautionary radius,
     con_unaffected := br_unaffected radius,
     con_unresolved := br_unresolved radius,
     con_propagation := br_propagation radius,
     con_committed_at_ms := now_ms,
     con_updated_at_ms := now_ms,
     con_explanation := br_explanation radius\<rparr>"

definition action_budget :: "FaultRule \<Rightarrow> ContainmentPolicy \<Rightarrow> nat" where
  "action_budget rule policy =
     (if pol_max_actions_per_containment policy < rule_action_budget rule
      then unat (pol_max_actions_per_containment policy) else unat (rule_action_budget rule))"

text \<open>What follows the last check: fence, drain, plan, commit.\<close>

definition commit_containment :: "FaultId \<Rightarrow> FaultRecord \<Rightarrow> BlastRadius \<Rightarrow> Impl \<Rightarrow> ContainmentRecord Result \<times> Impl" where
  "commit_containment i f radius s =
     (let rule = rule_for (rs_policy (im_state s)) (fe_kind (fr_evidence f));
          (now_ms, s) = now s;
          record = new_containment i f radius now_ms (im_state s);
          f = f\<lparr>fr_state := FaultState.CONTAINMENT_IN_PROGRESS,
                fr_containment_generation := con_generation record, fr_last_updated_ms := now_ms\<rparr>;
          s = upd_state (rs_faults_update (om_put i f)) s;
          s = for_each (br_mandatory radius)
                (fence_resource (con_generation record) (outcome_quarantines (con_outcome record)) now_ms) s;
          s = for_each (br_precautionary radius) (drain_resource now_ms) s;
          (record, s) = plan_actions (action_budget rule (rs_policy (im_state s))) f now_ms
                          (br_mandatory radius) record s;
          record = record\<lparr>con_degraded_status :=
            dma_status (assess_degraded_mode (im_state s) None id_invalid now_ms)\<rparr>;
          s = upd_state (rs_containment_generation_update (\<lambda>_. con_generation record)) s;
          s = upd_state (rs_containments_update (om_emplace (con_generation record) record)) s;
          s = record_event ((hist HistoryEventType.CONTAINMENT_COMMITTED
            (''containment '' @ str_ContainmentGeneration (con_generation record) @
             '' committed for fault '' @ str_FaultId i @
             '': mandatory='' @ nat_to_string (length (con_mandatory record)) @
             '' precautionary='' @ nat_to_string (length (con_precautionary record)) @
             '' unaffected='' @ nat_to_string (length (con_unaffected record)) @
             '' unresolved='' @ nat_to_string (length (con_unresolved record)))
            (''CoordinatorEpoch '' @ str_CoordinatorEpoch (con_epoch record) @ ''; ContainmentGeneration '' @
             str_ContainmentGeneration (con_generation record)))
            \<lparr>he_resource := fe_subject (fr_evidence f), he_fault := i,
             he_containment := con_generation record\<rparr>)
            DurableEventKind.CONTAINMENT_UPSERT (write_containment record) s;
          s = stage_fault f s
      in (Inr record, stage_counters s))"

definition authorize_containment_locked ::
    "FaultId \<Rightarrow> FaultGeneration \<Rightarrow> Impl \<Rightarrow> (ContainmentRecord Result \<times> Impl) option" where
  "authorize_containment_locked i expected s =
     (case authorization_refusal i expected (im_state s) of
        Inl e \<Rightarrow> Some (Inl e, s)
      | Inr f \<Rightarrow>
          (case compute_blast_radius (radius_input f
                  (next_generation (rs_containment_generation (im_state s))) (im_state s)) of
             None \<Rightarrow> None
           | Some (Inl e) \<Rightarrow> Some (Inl e, s)
           | Some (Inr radius) \<Rightarrow>
               if br_budget_exhausted radius then
                 Some (fail ErrorCode.NO_LEGAL_CONTAINMENT ''containment.authorize''
                   ''the computed radius exceeds the configured action budget''
                   (nat_to_string (length (br_mandatory radius))), s)
               else if \<not> is_legal_fault_transition (fr_state f) FaultState.CONTAINMENT_IN_PROGRESS then
                 Some (fail ErrorCode.FAULT_NOT_ACTIONABLE ''containment.authorize''
                   ''illegal fault state transition'' (FaultState_str (fr_state f)), s)
               else Some (commit_containment i f radius s)))"

text \<open>The outer option is the exception of the blast radius computation; nothing was changed then.\<close>

definition authorize_containment ::
    "FaultId \<Rightarrow> FaultGeneration \<Rightarrow> Impl \<Rightarrow> (ContainmentRecord Result \<times> Impl) option" where
  "authorize_containment i expected s = map_option complete (authorize_containment_locked i expected s)"

definition query_containment :: "ContainmentGeneration \<Rightarrow> Impl \<Rightarrow> ContainmentRecord Result" where
  "query_containment generation s =
     (case om_find (containments s) generation of
        None \<Rightarrow> fail ErrorCode.UNKNOWN_CONTAINMENT ''containment.query'' ''containment not found''
                  (str_ContainmentGeneration generation)
      | Some c \<Rightarrow> Inr c)"

definition list_containments :: "Impl \<Rightarrow> ContainmentRecord list" where
  "list_containments s = map snd (containments s)"

definition query_action :: "ActionId \<Rightarrow> Impl \<Rightarrow> ContainmentAction Result" where
  "query_action i s =
     (case om_find (actions s) i of
        None \<Rightarrow> fail ErrorCode.UNKNOWN_ACTION ''action.query'' ''action not found'' (str_ActionId i)
      | Some a \<Rightarrow> Inr a)"

end
