(* ===== verification/Fcf_Engine_Dispatch.thy ===== *)
theory Fcf_Engine_Dispatch
  imports Fcf_Engine_Containment
begin

text \<open>
  Dispatching the planned actions of a containment and recording what the executors report
  (\<open>src/engine.cpp\<close>). The executor is outside the runtime: a function from the action to a token or
  an error. It is called between the two locked parts of \<open>dispatch_containment\<close>.
\<close>

section \<open>Revalidation\<close>

definition revalidate_required ::
    "(ResourceId, ResourceRecord) omap \<Rightarrow> (ResourceId, ResourceGeneration) omap \<Rightarrow> ErrorCode" where
  "revalidate_required rs required =
     (case find (\<lambda>(i, g). case om_find rs i of None \<Rightarrow> True | Some r \<Rightarrow> rr_generation r \<noteq> g) required of
        None \<Rightarrow> ErrorCode.OK
      | Some (i, _) \<Rightarrow> if om_find rs i = None then ErrorCode.UNKNOWN_RESOURCE
                       else ErrorCode.STALE_RESOURCE_GENERATION)"

definition revalidate_action :: "RuntimeSnapshot \<Rightarrow> ContainmentRecord \<Rightarrow> ContainmentAction \<Rightarrow> ErrorCode" where
  "revalidate_action st record action =
     (let envelope = act_envelope action in
      if env_epoch envelope \<noteq> rs_epoch st then ErrorCode.STALE_EPOCH
      else if env_action_generation envelope \<noteq> act_generation action then ErrorCode.STALE_ACTION_GENERATION
      else if env_containment_generation envelope \<noteq> con_generation record then
        ErrorCode.STALE_CONTAINMENT_GENERATION
      else if env_policy_generation envelope \<noteq> rs_policy_generation st then ErrorCode.STALE_POLICY_GENERATION
      else if id_valid (env_topology_generation envelope) \<and>
              env_topology_generation envelope \<noteq> rs_topology_generation st then
        ErrorCode.STALE_TOPOLOGY_GENERATION
      else
        (case om_find (tp_resources (rs_topology st)) (act_target action) of
           None \<Rightarrow> ErrorCode.UNKNOWN_RESOURCE
         | Some r \<Rightarrow>
             if env_target_generation envelope \<noteq> rr_generation r then ErrorCode.STALE_RESOURCE_GENERATION
             else if id_valid (env_worker_boot envelope) \<and> rr_owner_boot r \<noteq> env_worker_boot envelope then
               ErrorCode.STALE_WORKER_BOOT
             else
               (case om_find (rs_faults st) (con_fault record) of
                  None \<Rightarrow> ErrorCode.UNKNOWN_FAULT
                | Some f \<Rightarrow>
                    if fe_generation (fr_evidence f) \<noteq> env_fault_generation envelope then
                      ErrorCode.STALE_FAULT_GENERATION
                    else if \<not> is_fault_current (fr_state f) then ErrorCode.FAULT_NOT_CURRENT
                    else revalidate_required (tp_resources (rs_topology st))
                           (env_required_resource_generations envelope))))"

section \<open>Dispatch\<close>

record DispatchSummary =
  dsp_containment_generation :: ContainmentGeneration
  dsp_dispatched :: "ActionId list"
  dsp_refused :: "ActionId list"
  dsp_refusals :: "string list"
  dsp_budget_remaining :: nat

abbreviation str_ActionGeneration :: "ActionGeneration \<Rightarrow> string" where
  "str_ActionGeneration \<equiv> id_to_string ''ActionGeneration''"

definition superseded :: "ErrorCode \<Rightarrow> ContainmentAction \<Rightarrow> ContainmentAction" where
  "superseded refusal a = a\<lparr>act_status := ActionStatus.SUPERSEDED, act_rejection_code := refusal,
     act_rejection_detail := ''revalidation refused immediately before dispatch''\<rparr>"

text \<open>The summary and the audit record of a refusal; \<open>action\<close> is the superseded one.\<close>

definition refuse_action ::
    "ErrorCode \<Rightarrow> ContainmentRecord \<Rightarrow> ContainmentAction \<Rightarrow> DispatchSummary \<Rightarrow> Impl \<Rightarrow> DispatchSummary \<times> Impl" where
  "refuse_action refusal record action summary s =
     (let i = act_id action;
          summary = summary\<lparr>dsp_refused := dsp_refused summary @ [i],
            dsp_refusals := dsp_refusals summary @ [str_ActionId i @ '': '' @ ErrorCode_str refusal]\<rparr>;
          s = record_event ((hist HistoryEventType.ACTION_REJECTED
            (''action '' @ str_ActionId i @ '' refused: '' @ ErrorCode_str refusal)
            (''ActionGeneration '' @ str_ActionGeneration (act_generation action)))
            \<lparr>he_resource := act_target action, he_fault := con_fault record, he_action := i,
             he_containment := con_generation record\<rparr>)
            DurableEventKind.ACTION_UPSERT (write_action action) s
      in (summary, s))"

definition authorize_action :: "ContainmentRecord \<Rightarrow> ContainmentAction \<Rightarrow> Impl \<Rightarrow> Impl" where
  "authorize_action record action s =
     (let i = act_id action;
          s = record_event ((hist HistoryEventType.ACTION_AUTHORIZED
            (''action '' @ str_ActionId i @ '' '' @ ContainmentActionKind_str (act_kind action) @
             '' authorised for '' @ str_ResourceId (act_target action))
            (''CoordinatorEpoch '' @ str_CoordinatorEpoch (env_epoch (act_envelope action)) @
             ''; ActionGeneration '' @ str_ActionGeneration (act_generation action)))
            \<lparr>he_resource := act_target action, he_fault := con_fault record, he_action := i,
             he_containment := con_generation record\<rparr>)
            DurableEventKind.ACTION_UPSERT (write_action action) s
      in s)"

definition authorized :: "u64 \<Rightarrow> ContainmentAction \<Rightarrow> ContainmentAction" where
  "authorized now_ms a = a\<lparr>act_status := ActionStatus.AUTHORIZED,
     act_envelope := (act_envelope a)\<lparr>env_issued_at_ms := now_ms\<rparr>\<rparr>"

text \<open>The first locked loop: each action that is still planned is revalidated, then authorised or refused.\<close>

fun authorize_actions ::
    "u64 \<Rightarrow> ContainmentRecord \<Rightarrow> ActionId list \<Rightarrow> DispatchSummary \<Rightarrow> ContainmentAction list \<Rightarrow> Impl \<Rightarrow>
     DispatchSummary \<times> ContainmentAction list \<times> Impl" where
  "authorize_actions now_ms record [] summary to_dispatch s = (summary, to_dispatch, s)"
| "authorize_actions now_ms record (i # ids) summary to_dispatch s =
     (case om_find (actions s) i of
        None \<Rightarrow> authorize_actions now_ms record ids summary to_dispatch s
      | Some action \<Rightarrow>
          if act_status action \<noteq> ActionStatus.PLANNED \<and> act_status action \<noteq> ActionStatus.AUTHORIZED then
            authorize_actions now_ms record ids summary to_dispatch s
          else
            let refusal = revalidate_action (im_state s) record action in
            if refusal \<noteq> ErrorCode.OK then
              let action = superseded refusal action;
                  s = upd_state (rs_actions_update (om_put i action)) s;
                  (summary, s) = refuse_action refusal record action summary s
              in authorize_actions now_ms record ids summary to_dispatch s
            else
              let action = authorized now_ms action;
                  s = upd_state (rs_actions_update (om_put i action)) s;
                  s = authorize_action record action s
              in authorize_actions now_ms record ids summary (to_dispatch @ [action]) s)"

definition dispatch_begin_locked ::
    "ContainmentGeneration \<Rightarrow> bool \<Rightarrow> Impl \<Rightarrow> (DispatchSummary \<times> ContainmentAction list) Result \<times> Impl" where
  "dispatch_begin_locked generation has_executor s =
     (if im_shutting_down s then
        (fail ErrorCode.SHUTTING_DOWN ''containment.dispatch''
           ''the runtime is shutting down and will not dispatch new actions'' [], s)
      else
        (case om_find (containments s) generation of
           None \<Rightarrow> (fail ErrorCode.UNKNOWN_CONTAINMENT ''containment.dispatch'' ''containment not found''
                     (str_ContainmentGeneration generation), s)
         | Some record \<Rightarrow>
             if \<not> containment_is_live (con_status record) then
               (fail ErrorCode.STALE_CONTAINMENT_GENERATION ''containment.dispatch''
                  ''containment is no longer live'' (ContainmentStatus_str (con_status record)), s)
             else if \<not> has_executor then
               (fail ErrorCode.EXECUTOR_UNAVAILABLE ''containment.dispatch'' ''no executor is attached'' [], s)
             else
               let (now_ms, s) = now s;
                   summary = \<lparr>dsp_containment_generation = generation, dsp_dispatched = [],
                     dsp_refused = [], dsp_refusals = [], dsp_budget_remaining = 0\<rparr>;
                   (summary, to_dispatch, s) =
                     authorize_actions now_ms record (con_actions record) summary [] s
               in (Inr (summary, to_dispatch), stage_counters s)))"

text \<open>The second locked loop records what the executor answered.\<close>

definition record_attempt ::
    "u64 \<Rightarrow> ContainmentAction \<times> string Result \<Rightarrow> DispatchSummary \<times> Impl \<Rightarrow> DispatchSummary \<times> Impl" where
  "record_attempt now_ms attempt p =
     (case (attempt, p) of ((attempted, outcome), (summary, s)) \<Rightarrow>
       (case om_find (actions s) (act_id attempted) of
          None \<Rightarrow> (summary, s)
        | Some action \<Rightarrow>
            if act_status action \<noteq> ActionStatus.AUTHORIZED then (summary, s)
            else
              (let i = act_id action;
                   (action, summary, type, detail) =
                     (case outcome of
                        Inr token \<Rightarrow>
                          (action\<lparr>act_status := ActionStatus.DISPATCHED, act_executor_token := token,
                                  act_dispatched_at_ms := now_ms\<rparr>,
                           summary\<lparr>dsp_dispatched := dsp_dispatched summary @ [i]\<rparr>,
                           HistoryEventType.ACTION_DISPATCHED,
                           ''action '' @ str_ActionId i @ '' dispatched to the executor'')
                      | Inl e \<Rightarrow>
                          (action\<lparr>act_status := ActionStatus.REJECTED_INFEASIBLE,
                                  act_rejection_code := err_code e,
                                  act_rejection_detail := Error_to_string e\<rparr>,
                           summary\<lparr>dsp_refused := dsp_refused summary @ [i],
                                   dsp_refusals := dsp_refusals summary @ [str_ActionId i @ '': '' @ Error_to_string e]\<rparr>,
                           HistoryEventType.ACTION_REJECTED,
                           ''action '' @ str_ActionId i @ '' not accepted by the executor''));
                   s = upd_state (rs_actions_update (om_put (act_id attempted) action)) s;
                   s = record_event ((hist type detail
                     (''ActionGeneration '' @ str_ActionGeneration (act_generation action)))
                     \<lparr>he_resource := act_target action, he_action := i\<rparr>)
            DurableEventKind.ACTION_UPSERT (write_action action) s
      in (summary, s))))"

definition dispatch_record_locked ::
    "(ContainmentAction \<times> string Result) list \<Rightarrow> DispatchSummary \<Rightarrow> Impl \<Rightarrow> DispatchSummary Result \<times> Impl" where
  "dispatch_record_locked attempts summary s =
     (let (now_ms, s) = now s;
          (summary, s) = for_each attempts (record_attempt now_ms) (summary, s)
      in (Inr (summary\<lparr>dsp_budget_remaining := 0\<rparr>), stage_counters s))"

text \<open>
  The first flush does not stop the dispatch: its error is returned only after the executor has
  been called and its answers were recorded.
\<close>

definition dispatch_containment ::
    "ContainmentGeneration \<Rightarrow> (ContainmentAction \<Rightarrow> string Result) option \<Rightarrow> Impl \<Rightarrow> DispatchSummary Result \<times> Impl" where
  "dispatch_containment generation executor s =
     (case dispatch_begin_locked generation (executor \<noteq> None) s of
        (Inl e, s) \<Rightarrow> (Inl e, s\<lparr>im_pending := []\<rparr>)
      | (Inr (summary, to_dispatch), s) \<Rightarrow>
          (let (status, s) = flush s;
               attempts = map (\<lambda>a. (a, the executor a)) to_dispatch;
               (result, s) = complete (dispatch_record_locked attempts summary s)
           in (case status of Inl e \<Rightarrow> (Inl e, s) | Inr _ \<Rightarrow> (result, s))))"

section \<open>Acknowledgements and results\<close>

text \<open>The reporting incarnation, when one is named, must hold live authority.\<close>

definition reporter_refusal :: "string \<Rightarrow> string \<Rightarrow> WorkerId \<Rightarrow> WorkerBootId \<Rightarrow> Impl \<Rightarrow> Error option" where
  "reporter_refusal stage_name message worker boot s =
     (if \<not> id_valid boot then None
      else (case om_find (incarnations s) (WorkerKey worker boot) of
              None \<Rightarrow> Some (make_error ErrorCode.STALE_WORKER_BOOT stage_name ''unknown worker incarnation''
                        (str_WorkerBootId boot))
            | Some w \<Rightarrow>
                if \<not> holds_live_authority (wr_state w) then
                  Some (make_error ErrorCode.STALE_WORKER_BOOT stage_name message (str_WorkerBootId boot))
                else None))"

definition record_action_ack_locked :: "ActionAcknowledgment \<Rightarrow> Impl \<Rightarrow> Status \<times> Impl" where
  "record_action_ack_locked ack s =
     (case om_find (actions s) (ack_action ack) of
        None \<Rightarrow> (fail ErrorCode.UNKNOWN_ACTION ''action.ack'' ''action not found'' (str_ActionId (ack_action ack)), s)
      | Some action \<Rightarrow>
          if ack_epoch ack \<noteq> rs_epoch (im_state s) then
            (fail ErrorCode.STALE_EPOCH ''action.ack'' ''acknowledgment epoch is not current''
               (str_CoordinatorEpoch (ack_epoch ack) @ '' != '' @ str_CoordinatorEpoch (rs_epoch (im_state s))), s)
          else if ack_action_generation ack \<noteq> act_generation action then
            (fail ErrorCode.STALE_ACTION_GENERATION ''action.ack'' ''action generation has advanced''
               (str_ActionGeneration (act_generation action)), s)
          else
            (case reporter_refusal ''action.ack'' ''the acknowledging incarnation holds no live authority''
                    (ack_worker ack) (ack_worker_boot ack) s of
               Some e \<Rightarrow> (Inl e, s)
             | None \<Rightarrow>
                 if act_status action \<in> {ActionStatus.ACKNOWLEDGED, ActionStatus.RESULT_RECORDED,
                      ActionStatus.VERIFIED_EFFECTIVE, ActionStatus.VERIFIED_INEFFECTIVE} then (ok_status, s)
                 else if act_status action \<noteq> ActionStatus.DISPATCHED then
                   (fail ErrorCode.ACTION_REVALIDATION_FAILED ''action.ack''
                      ''only a dispatched action may be acknowledged'' (ActionStatus_str (act_status action)), s)
                 else
                   let (t, s) = now s;
                       action = action\<lparr>act_status := ActionStatus.ACKNOWLEDGED,
                         act_acknowledged_at_ms := t, act_executor_token := ack_executor_token ack\<rparr>;
                       s = upd_state (rs_actions_update (om_put (ack_action ack) action)) s;
                       s = record_event ((hist HistoryEventType.ACTION_ACKNOWLEDGED
                         (''action '' @ str_ActionId (act_id action) @ '' acknowledged (not yet contained): '' @
                          ack_detail ack)
                         (''ActionGeneration '' @ str_ActionGeneration (act_generation action)))
                         \<lparr>he_resource := act_target action, he_action := act_id action\<rparr>)
            DurableEventKind.ACTION_UPSERT (write_action action) s
                   in (ok_status, stage_counters s)))"

definition record_action_ack :: "ActionAcknowledgment \<Rightarrow> Impl \<Rightarrow> Status \<times> Impl" where
  "record_action_ack ack s = complete (record_action_ack_locked ack s)"

text \<open>The claimed mechanism is recorded on the target; its containment state is not touched.\<close>

definition record_claim :: "ActionResult \<Rightarrow> ResourceId \<Rightarrow> Impl \<Rightarrow> Impl" where
  "record_claim result target s =
     (case om_find (resources s) target of
        None \<Rightarrow> s
      | Some r \<Rightarrow>
          if ares_success result then
            let r = (if ares_mechanism result \<noteq> ContainmentMechanism.NONE
                     then r\<lparr>rr_mechanism := ares_mechanism result\<rparr> else r);
                s = bump_topology s;
                r = r\<lparr>rr_generation := next_generation (rr_generation r)\<rparr>;
                s = upd_resources (om_put target r) s
            in stage_resource r s
          else s)"

definition record_action_result_locked :: "ActionResult \<Rightarrow> Impl \<Rightarrow> Status \<times> Impl" where
  "record_action_result_locked result s =
     (case om_find (actions s) (ares_action result) of
        None \<Rightarrow> (fail ErrorCode.UNKNOWN_ACTION ''action.result'' ''action not found''
                  (str_ActionId (ares_action result)), s)
      | Some action \<Rightarrow>
          if ares_epoch result \<noteq> rs_epoch (im_state s) then
            (fail ErrorCode.STALE_EPOCH ''action.result'' ''result epoch is not current''
               (str_CoordinatorEpoch (ares_epoch result) @ '' != '' @ str_CoordinatorEpoch (rs_epoch (im_state s))), s)
          else if ares_action_generation result \<noteq> act_generation action then
            (fail ErrorCode.STALE_ACTION_GENERATION ''action.result'' ''action generation has advanced''
               (str_ActionGeneration (act_generation action)), s)
          else
            (case reporter_refusal ''action.result'' ''the reporting incarnation holds no live authority''
                    (ares_worker result) (ares_worker_boot result) s of
               Some e \<Rightarrow> (Inl e, s)
             | None \<Rightarrow>
                 if act_status action \<in> {ActionStatus.RESULT_RECORDED, ActionStatus.VERIFIED_EFFECTIVE,
                      ActionStatus.VERIFIED_INEFFECTIVE} then (ok_status, s)
                 else if act_status action \<noteq> ActionStatus.ACKNOWLEDGED \<and>
                         act_status action \<noteq> ActionStatus.DISPATCHED then
                   (fail ErrorCode.ACTION_REVALIDATION_FAILED ''action.result''
                      ''only a dispatched or acknowledged action may report a result''
                      (ActionStatus_str (act_status action)), s)
                 else
                   let (t, s) = now s;
                       action = action\<lparr>act_status := ActionStatus.RESULT_RECORDED, act_completed_at_ms := t,
                         act_mechanism := (if ares_mechanism result \<noteq> ContainmentMechanism.NONE
                                           then ares_mechanism result else act_mechanism action)\<rparr>;
                       s = upd_state (rs_actions_update (om_put (ares_action result) action)) s;
                       s = record_claim result (act_target action) s;
                       s = record_event ((hist HistoryEventType.ACTION_RESULT_RECORDED
                         (''action '' @ str_ActionId (act_id action) @
                          (if ares_success result then '' reported success'' else '' reported failure'') @
                          '': '' @ ares_detail result)
                         (''ActionGeneration '' @ str_ActionGeneration (act_generation action)))
                         \<lparr>he_resource := act_target action, he_action := act_id action\<rparr>)
            DurableEventKind.ACTION_UPSERT (write_action action) s
                   in (ok_status, stage_counters s)))"

definition record_action_result :: "ActionResult \<Rightarrow> Impl \<Rightarrow> Status \<times> Impl" where
  "record_action_result result s = complete (record_action_result_locked result s)"

end
