(* ===== verification/Fcf_Engine_Verify.thy ===== *)
theory Fcf_Engine_Verify
  imports Fcf_Engine_Dispatch
begin

text \<open>
  Verification of a containment and degraded-mode authorization (\<open>src/engine.cpp\<close>).
\<close>

section \<open>Verification\<close>

definition resource_proven :: "RuntimeSnapshot \<Rightarrow> ResourceId \<Rightarrow> bool" where
  "resource_proven st i =
     (case om_find (tp_resources (rs_topology st)) i of
        None \<Rightarrow> False | Some r \<Rightarrow> is_contained (rr_state r) \<and> rr_quarantined r)"

text \<open>A contained resource whose owning incarnation still holds live authority.\<close>

definition authority_live :: "RuntimeSnapshot \<Rightarrow> ResourceId \<Rightarrow> bool" where
  "authority_live st i =
     (case om_find (tp_resources (rs_topology st)) i of
        None \<Rightarrow> False
      | Some r \<Rightarrow> id_valid (rr_owner_boot r) \<and>
          (case om_find (wreg_incarnations (rs_workers st)) (WorkerKey (rr_owner_worker r) (rr_owner_boot r)) of
             None \<Rightarrow> False | Some w \<Rightarrow> holds_live_authority (wr_state w)))"

definition hop_live :: "RuntimeSnapshot \<Rightarrow> FaultKind \<Rightarrow> PropagationHop \<Rightarrow> bool" where
  "hop_live st kind hop =
     (hop_outcome hop \<noteq> PropagationOutcome.PROPAGATION_IMPOSSIBLE \<and>
      hop_outcome hop \<noteq> PropagationOutcome.PROPAGATION_BLOCKED \<and>
      (case om_find (tp_resources (rs_topology st)) (hop_to hop) of
         None \<Rightarrow> False
       | Some destination \<Rightarrow> \<not> resource_is_contained destination \<and>
           (case graph_find (tp_dependencies (rs_topology st)) (hop_dependency hop) of
              None \<Rightarrow> False
            | Some edge \<Rightarrow> de_freshness edge = EvidenceFreshness.FRESH \<and>
                rule_propagates_over (rule_for (rs_policy st) kind) (de_kind edge))))"

definition operable_now :: "RuntimeSnapshot \<Rightarrow> ResourceId \<Rightarrow> bool" where
  "operable_now st i =
     (case om_find (tp_resources (rs_topology st)) i of None \<Rightarrow> False | Some r \<Rightarrow> is_operable (rr_state r))"

definition secondary_fault :: "ContainmentRecord \<Rightarrow> FaultId \<times> FaultRecord \<Rightarrow> bool" where
  "secondary_fault record = (\<lambda>(i, f). i \<noteq> con_fault record \<and> is_fault_current (fr_state f) \<and>
     id_set_contains (con_mandatory record) (fe_subject (fr_evidence f)) \<and>
     fr_first_seen_ms f \<ge> con_committed_at_ms record)"

definition action_evidenced :: "RuntimeSnapshot \<Rightarrow> ActionId \<Rightarrow> bool" where
  "action_evidenced st i =
     (case om_find (rs_actions st) i of
        None \<Rightarrow> False
      | Some a \<Rightarrow> act_status a \<in> {ActionStatus.RESULT_RECORDED, ActionStatus.VERIFIED_EFFECTIVE,
                     ActionStatus.VERIFIED_INEFFECTIVE})"

definition count :: "('a \<Rightarrow> bool) \<Rightarrow> 'a list \<Rightarrow> nat" where
  "count P xs = length (filter P xs)"

text \<open>The facts the verification collects, in the order the code computes them.\<close>

record VerifyFacts =
  vfx_envelope_current :: bool
  vfx_contained :: nat
  vfx_authority_revoked :: bool
  vfx_propagation_continued :: bool
  vfx_degraded_mode_valid :: bool
  vfx_active_unaffected :: nat
  vfx_blast_radius_increased :: bool
  vfx_secondary_failure :: bool
  vfx_evidenced :: nat

definition contained_fault_kind :: "RuntimeSnapshot \<Rightarrow> ContainmentRecord \<Rightarrow> FaultKind" where
  "contained_fault_kind st record =
     (case om_find (rs_faults st) (con_fault record) of
        None \<Rightarrow> FaultKind.UNKNOWN_FAULT | Some f \<Rightarrow> fe_kind (fr_evidence f))"

text \<open>\<open>None\<close> is the exception the recomputation of the radius may throw.\<close>

definition radius_increased :: "RuntimeSnapshot \<Rightarrow> ContainmentRecord \<Rightarrow> bool option" where
  "radius_increased st record =
     (case om_find (rs_faults st) (con_fault record) of
        None \<Rightarrow> Some False
      | Some f \<Rightarrow>
          (case compute_blast_radius (radius_input f (con_generation record) st) of
             None \<Rightarrow> None
           | Some (Inl e) \<Rightarrow> Some False
           | Some (Inr radius) \<Rightarrow> Some (length (br_mandatory radius) > length (con_mandatory record))))"

definition verify_facts :: "RuntimeSnapshot \<Rightarrow> ContainmentRecord \<Rightarrow> u64 \<Rightarrow> VerifyFacts option" where
  "verify_facts st record now_ms =
     (let assessment = assess_degraded_mode st None id_invalid now_ms in
      (case radius_increased st record of
         None \<Rightarrow> None
       | Some increased \<Rightarrow> Some \<lparr>
           vfx_envelope_current = (con_epoch record = rs_epoch st \<and>
             con_policy_generation record = rs_policy_generation st),
           vfx_contained = count (resource_proven st) (con_mandatory record),
           vfx_authority_revoked = (\<not> list_ex (authority_live st) (con_mandatory record)),
           vfx_propagation_continued =
             list_ex (hop_live st (contained_fault_kind st record)) (con_propagation record),
           vfx_degraded_mode_valid = (degraded_sets_are_disjoint assessment \<and>
             \<not> list_ex (\<lambda>i. id_set_contains (dma_permitted assessment) i) (con_mandatory record)),
           vfx_active_unaffected = count (operable_now st) (con_unaffected record),
           vfx_blast_radius_increased = increased,
           vfx_secondary_failure = list_ex (secondary_fault record) (rs_faults st),
           vfx_evidenced = count (action_evidenced st) (con_actions record)\<rparr>))"

definition of_total :: "nat \<Rightarrow> nat \<Rightarrow> string \<Rightarrow> string" where
  "of_total n m text = nat_to_string n @ '' of '' @ nat_to_string m @ text"

definition all_actions_evidenced :: "ContainmentRecord \<Rightarrow> VerifyFacts \<Rightarrow> bool" where
  "all_actions_evidenced record x \<longleftrightarrow> con_actions record = [] \<or> vfx_evidenced x = length (con_actions record)"

definition verify_findings :: "RuntimeSnapshot \<Rightarrow> ContainmentRecord \<Rightarrow> VerifyFacts \<Rightarrow> VerificationFinding list" where
  "verify_findings st record x = map (\<lambda>(c, p, d). \<lparr>vf_check = c, vf_passed = p, vf_detail = d\<rparr>) [
     (''authority_envelope_current'', vfx_envelope_current x,
      ''containment committed at epoch '' @ str_CoordinatorEpoch (con_epoch record) @ '' policy '' @
      str_PolicyGeneration (con_policy_generation record) @ ''; current epoch '' @
      str_CoordinatorEpoch (rs_epoch st) @ '' policy '' @ str_PolicyGeneration (rs_policy_generation st)),
     (''mandatory_resources_contained'', vfx_contained x = length (con_mandatory record),
      of_total (vfx_contained x) (length (con_mandatory record)) '' mandatory resources are fenced and quarantined''),
     (''failed_authority_cannot_authorise_new_work'', vfx_authority_revoked x,
      ''no contained resource is bound to an incarnation that still holds live authority''),
     (''propagation_paths_severed'', \<not> vfx_propagation_continued x,
      (if vfx_propagation_continued x then ''a recorded propagation path is still live''
       else ''every recorded propagation path is severed or blocked'')),
     (''degraded_mode_excludes_quarantined'', vfx_degraded_mode_valid x,
      ''permitted and prohibited degraded-mode sets are disjoint and exclude contained resources''),
     (''unaffected_resources_remain_operational'', con_unaffected record = [] \<or> vfx_active_unaffected x > 0,
      of_total (vfx_active_unaffected x) (length (con_unaffected record))
        '' explicitly unaffected resources remain operable''),
     (''blast_radius_did_not_increase'', \<not> vfx_blast_radius_increased x,
      (if vfx_blast_radius_increased x then ''the recomputed radius is larger than the committed one''
       else ''the recomputed radius is not larger'')),
     (''no_secondary_failure_inside_the_radius'', \<not> vfx_secondary_failure x,
      (if vfx_secondary_failure x then ''a new current fault appeared inside the contained set''
       else ''no new current fault appeared inside the contained set'')),
     (''actions_have_post_action_evidence'', all_actions_evidenced record x,
      of_total (vfx_evidenced x) (length (con_actions record)) '' actions have a recorded result'')]"

text \<open>The outcome and its summary.\<close>

definition verify_outcome :: "ContainmentRecord \<Rightarrow> VerifyFacts \<Rightarrow> VerificationOutcome \<times> string" where
  "verify_outcome record x =
     (if \<not> vfx_envelope_current x then
        (VerificationOutcome.OUTCOME_UNKNOWN, ''the containment was committed under a superseded authority envelope'')
      else if vfx_secondary_failure x then
        (VerificationOutcome.SECONDARY_FAILURE_CREATED, ''a secondary failure appeared inside the contained set'')
      else if \<not> vfx_degraded_mode_valid x then
        (VerificationOutcome.DEGRADED_MODE_INVALID, ''the degraded-mode envelope is not valid for this containment'')
      else if vfx_propagation_continued x then
        (VerificationOutcome.CONTAINMENT_BREACHED, ''a recorded propagation path is still live'')
      else if \<not> all_actions_evidenced record x then
        (VerificationOutcome.OUTCOME_UNKNOWN, ''actions are dispatched without fresh post-action evidence'')
      else if vfx_contained x = length (con_mandatory record) then
        (VerificationOutcome.CONTAINED, ''every mandatory resource is fenced, quarantined and evidenced'')
      else if vfx_contained x = 0 then
        (VerificationOutcome.NOT_CONTAINED, ''no mandatory resource is currently fenced'')
      else (VerificationOutcome.PARTIALLY_CONTAINED, ''only part of the mandatory set is currently fenced''))"

definition build_verification ::
    "RuntimeSnapshot \<Rightarrow> ContainmentGeneration \<Rightarrow> ContainmentRecord \<Rightarrow> u64 \<Rightarrow> VerifyFacts \<Rightarrow> ContainmentVerification" where
  "build_verification st generation record now_ms x = ContainmentVerification_default\<lparr>
     cv_generation := next_generation (rs_verification_generation st),
     cv_containment_generation := generation,
     cv_epoch := rs_epoch st,
     cv_policy_generation := rs_policy_generation st,
     cv_topology_generation := rs_topology_generation st,
     cv_verified_at_ms := now_ms,
     cv_evidence_sequence := (if tp_resources (rs_topology st) = [] then id_invalid
       else rr_evidence_sequence (snd (List.last (tp_resources (rs_topology st))))),
     cv_findings := verify_findings st record x,
     cv_proven_contained := filter (resource_proven st) (con_mandatory record),
     cv_unproven := filter (\<lambda>i. \<not> resource_proven st i) (con_mandatory record),
     cv_propagation_continued := vfx_propagation_continued x,
     cv_propagation_blocked := \<not> vfx_propagation_continued x,
     cv_degraded_mode_valid := vfx_degraded_mode_valid x,
     cv_blast_radius_increased := vfx_blast_radius_increased x,
     cv_secondary_failure := vfx_secondary_failure x,
     cv_outcome := fst (verify_outcome record x),
     cv_summary := snd (verify_outcome record x)\<rparr>"

fun verified_status :: "VerificationOutcome \<Rightarrow> ContainmentStatus" where
  "verified_status VerificationOutcome.CONTAINED = ContainmentStatus.VERIFIED_CONTAINED"
| "verified_status VerificationOutcome.PARTIALLY_CONTAINED = ContainmentStatus.PARTIAL"
| "verified_status VerificationOutcome.NOT_CONTAINED = ContainmentStatus.FAILED"
| "verified_status VerificationOutcome.CONTAINMENT_BREACHED = ContainmentStatus.FAILED"
| "verified_status VerificationOutcome.SECONDARY_FAILURE_CREATED = ContainmentStatus.FAILED"
| "verified_status _ = ContainmentStatus.ENFORCING"

definition verified_fault_state :: "VerificationOutcome \<Rightarrow> FaultState" where
  "verified_fault_state outcome =
     (if outcome = VerificationOutcome.OUTCOME_UNKNOWN then FaultState.REVALIDATION_REQUIRED
      else case outcome of
        VerificationOutcome.PARTIALLY_CONTAINED \<Rightarrow> FaultState.CONTAINMENT_PARTIAL
      | VerificationOutcome.NOT_CONTAINED \<Rightarrow> FaultState.CONTAINMENT_FAILED
      | VerificationOutcome.CONTAINMENT_BREACHED \<Rightarrow> FaultState.CONTAINMENT_FAILED
      | VerificationOutcome.SECONDARY_FAILURE_CREATED \<Rightarrow> FaultState.CONTAINMENT_FAILED
      | _ \<Rightarrow> FaultState.CONTAINED)"

definition settle_fault :: "FaultId \<Rightarrow> ContainmentVerification \<Rightarrow> u64 \<Rightarrow> Impl \<Rightarrow> Impl" where
  "settle_fault i v now_ms s =
     (case om_find (faults s) i of
        None \<Rightarrow> s
      | Some f \<Rightarrow>
          let target = verified_fault_state (cv_outcome v) in
          if is_legal_fault_transition (fr_state f) target then
            let f = f\<lparr>fr_state := target, fr_verification_generation := cv_generation v,
                      fr_last_updated_ms := now_ms\<rparr>;
                s = upd_state (rs_faults_update (om_put i f)) s
            in stage_fault f s
          else s)"

definition settle_record :: "ContainmentVerification \<Rightarrow> u64 \<Rightarrow> ContainmentRecord \<Rightarrow> ContainmentRecord" where
  "settle_record v now_ms record = record\<lparr>con_verified := True, con_verification := v,
     con_verification_generation := cv_generation v, con_verification_outcome := cv_outcome v,
     con_updated_at_ms := now_ms, con_status := verified_status (cv_outcome v)\<rparr>"

definition commit_verification ::
    "ContainmentGeneration \<Rightarrow> ContainmentRecord \<Rightarrow> ContainmentVerification \<Rightarrow> u64 \<Rightarrow> Impl \<Rightarrow>
     ContainmentVerification Result \<times> Impl" where
  "commit_verification generation record v now_ms s =
     (let record = settle_record v now_ms record;
          s = upd_state (rs_containments_update (om_put generation record)) s;
          s = upd_state (rs_verification_generation_update (\<lambda>_. cv_generation v)) s;
          s = settle_fault (con_fault record) v now_ms s;
          s = record_event ((hist HistoryEventType.CONTAINMENT_VERIFIED
            (''containment '' @ str_ContainmentGeneration generation @ '' verification outcome '' @
             VerificationOutcome_str (cv_outcome v) @ '': '' @ cv_summary v)
            (''VerificationGeneration '' @ str_VerificationGeneration (cv_generation v)))
            \<lparr>he_resource := (case con_mandatory record of [] \<Rightarrow> id_invalid | i # _ \<Rightarrow> i),
             he_fault := con_fault record, he_containment := generation,
             he_verification := cv_generation v\<rparr>)
            DurableEventKind.CONTAINMENT_UPSERT (write_containment record) s
      in (Inr v, stage_counters s))"

definition verify_containment_locked ::
    "ContainmentGeneration \<Rightarrow> Impl \<Rightarrow> (ContainmentVerification Result \<times> Impl) option" where
  "verify_containment_locked generation s =
     (case om_find (containments s) generation of
        None \<Rightarrow> Some (fail ErrorCode.UNKNOWN_CONTAINMENT ''containment.verify'' ''containment not found''
                  (str_ContainmentGeneration generation), s)
      | Some record \<Rightarrow>
          if \<not> containment_is_live (con_status record) then
            Some (fail ErrorCode.STALE_CONTAINMENT_GENERATION ''containment.verify''
              ''containment is no longer live'' (ContainmentStatus_str (con_status record)), s)
          else
            let (now_ms, s) = now s in
            (case verify_facts (im_state s) record now_ms of
               None \<Rightarrow> None
             | Some x \<Rightarrow>
                 Some (commit_verification generation record
                   (build_verification (im_state s) generation record now_ms x) now_ms s)))"

definition verify_containment ::
    "ContainmentGeneration \<Rightarrow> Impl \<Rightarrow> (ContainmentVerification Result \<times> Impl) option" where
  "verify_containment generation s = map_option complete (verify_containment_locked generation s)"

definition query_verification :: "ContainmentGeneration \<Rightarrow> Impl \<Rightarrow> ContainmentVerification Result" where
  "query_verification generation s =
     (case om_find (containments s) generation of
        None \<Rightarrow> fail ErrorCode.UNKNOWN_CONTAINMENT ''containment.verification'' ''containment not found''
                  (str_ContainmentGeneration generation)
      | Some c \<Rightarrow> if \<not> con_verified c then
                    fail ErrorCode.VERIFICATION_REQUIRED ''containment.verification''
                      ''containment has never been verified'' []
                  else Inr (con_verification c))"

section \<open>Degraded mode\<close>

definition contract_allows ::
    "DegradedModeContract \<Rightarrow> (ResourceId, ResourceRecord) omap \<Rightarrow> ResourceId \<Rightarrow> bool" where
  "contract_allows c rs i =
     ((dmc_permitted_resources c = [] \<or> id_set_contains (dmc_permitted_resources c) i) \<and>
      (dmc_legal_workload_classes c = [] \<or>
       (case om_find rs i of
          None \<Rightarrow> True
        | Some r \<Rightarrow> enum_set_contains (enum_index ResourceClass_values) (dmc_legal_workload_classes c)
                     (rr_resource_class r))))"

text \<open>The loop over the permitted set: what the contract forbids moves to the prohibited set.\<close>

definition filter_permitted ::
    "DegradedModeContract \<Rightarrow> (ResourceId, ResourceRecord) omap \<Rightarrow> DegradedModeAssessment \<Rightarrow> DegradedModeAssessment" where
  "filter_permitted c rs a =
     (let permitted = dma_permitted a;
          a = for_each permitted (\<lambda>i a. if contract_allows c rs i then a else prohibit i a) a
      in a\<lparr>dma_permitted := filter (contract_allows c rs) permitted\<rparr>)"

definition contract_capacity :: "DegradedModeContract \<Rightarrow> nat \<Rightarrow> DegradedModeAssessment \<Rightarrow> DegradedModeAssessment" where
  "contract_capacity c n a =
     (let percent = capacity_percent (length (dma_permitted a)) n
      in a\<lparr>dma_available_capacity_percent :=
             (if percent > dmc_reduced_capacity_percent c then dmc_reduced_capacity_percent c else percent),
           dma_required_redundancy := dmc_required_redundancy c\<rparr>)"

definition apply_contract ::
    "DegradedModeContract \<Rightarrow> (ResourceId, ResourceRecord) omap \<Rightarrow> DegradedModeAssessment \<Rightarrow> DegradedModeAssessment" where
  "apply_contract c rs a =
     (let a = filter_permitted c rs a;
          a = for_each (dmc_prohibited_resources c) (\<lambda>i a. prohibit i
                (a\<lparr>dma_permitted := id_set_del (dma_permitted a) i,
                   dma_revalidation_required := id_set_del (dma_revalidation_required a) i\<rparr>)) a;
          a = contract_capacity c (length rs) a
      in if \<not> degraded_sets_are_disjoint a then
           add_reason ''contract restrictions produced overlapping sets''
             (a\<lparr>dma_status := DegradedModeStatus.DEGRADED_UNSAFE, dma_authorized := False\<rparr>)
         else if dma_status a = DegradedModeStatus.DEGRADED_AUTHORIZED \<and>
                 dma_available_redundancy a < dmc_required_redundancy c then
           add_reason ''the contract requires redundancy that is not available''
             (a\<lparr>dma_status := DegradedModeStatus.NO_LEGAL_DEGRADED_MODE, dma_authorized := False\<rparr>)
         else a)"

definition store_degraded :: "DegradedModeContract \<Rightarrow> DegradedModeAssessment \<Rightarrow> DegradedModeId \<Rightarrow> Impl \<Rightarrow> Impl" where
  "store_degraded c a i =
     upd_state (\<lambda>st. st\<lparr>rs_degraded_contracts := om_put i c (rs_degraded_contracts st),
                        rs_degraded_modes := om_put i a (rs_degraded_modes st)\<rparr>)"

definition authorize_degraded_mode_locked ::
    "DegradedModeContract \<Rightarrow> Impl \<Rightarrow> DegradedModeAssessment Result \<times> Impl" where
  "authorize_degraded_mode_locked contract s =
     (case find (\<lambda>i. id_set_contains (dmc_permitted_resources contract) i) (dmc_prohibited_resources contract) of
        Some i \<Rightarrow> (fail ErrorCode.DEGRADED_MODE_FORBIDDEN ''degraded.authorize''
          ''the contract lists a resource as both permitted and prohibited'' (str_ResourceId i), s)
      | None \<Rightarrow>
      (case find (\<lambda>i. om_find (resources s) i = None) (dmc_prohibited_resources contract) of
         Some i \<Rightarrow> (fail ErrorCode.UNKNOWN_RESOURCE ''degraded.authorize''
           ''contract references an unknown prohibited resource'' (str_ResourceId i), s)
       | None \<Rightarrow>
      (case find (\<lambda>i. om_find (resources s) i = None) (dmc_permitted_resources contract) of
         Some i \<Rightarrow> (fail ErrorCode.UNKNOWN_RESOURCE ''degraded.authorize''
           ''contract references an unknown permitted resource'' (str_ResourceId i), s)
       | None \<Rightarrow>
           let (i, s) = (if \<not> id_valid (dmc_id contract) then allocate_degraded_id s
                         else (dmc_id contract, s));
               contract = contract\<lparr>dmc_id := i,
                 dmc_topology_generation := rs_topology_generation (im_state s),
                 dmc_containment_generation := rs_containment_generation (im_state s)\<rparr>;
               (now_ms, s) = now s;
               a = apply_contract contract (resources s)
                     (assess_degraded_mode (im_state s) (Some contract) i now_ms);
               s = store_degraded contract a i s;
               s = record_event (hist HistoryEventType.DEGRADED_AUTHORIZED
                 (''degraded mode '' @ str_DegradedModeId i @ '' assessed '' @
                  DegradedModeStatus_str (dma_status a) @
                  '': permitted='' @ nat_to_string (length (dma_permitted a)) @
                  '' prohibited='' @ nat_to_string (length (dma_prohibited a)) @
                  '' revalidation='' @ nat_to_string (length (dma_revalidation_required a)))
                 (''CoordinatorEpoch '' @ str_CoordinatorEpoch (rs_epoch (im_state s)) @
                  ''; ContainmentGeneration '' @
                  str_ContainmentGeneration (rs_containment_generation (im_state s))))
            DurableEventKind.DEGRADED_UPSERT (writes [write_degraded_contract contract, write_degraded a]) s
           in (Inr a, stage_counters s))))"

definition authorize_degraded_mode :: "DegradedModeContract \<Rightarrow> Impl \<Rightarrow> DegradedModeAssessment Result \<times> Impl" where
  "authorize_degraded_mode contract s = complete (authorize_degraded_mode_locked contract s)"

text \<open>Revalidation leaves the revalidation set alone and has no redundancy check of its own.\<close>

definition reapply_contract ::
    "DegradedModeContract \<Rightarrow> (ResourceId, ResourceRecord) omap \<Rightarrow> DegradedModeAssessment \<Rightarrow> DegradedModeAssessment" where
  "reapply_contract c rs a =
     (let a = filter_permitted c rs a;
          a = for_each (dmc_prohibited_resources c) (\<lambda>i a. prohibit i
                (a\<lparr>dma_permitted := id_set_del (dma_permitted a) i\<rparr>)) a;
          a = contract_capacity c (length rs) a
      in if \<not> degraded_sets_are_disjoint a then
           a\<lparr>dma_status := DegradedModeStatus.DEGRADED_UNSAFE, dma_authorized := False\<rparr> else a)"

definition revalidate_degraded_mode_locked :: "DegradedModeId \<Rightarrow> Impl \<Rightarrow> DegradedModeAssessment Result \<times> Impl" where
  "revalidate_degraded_mode_locked i s =
     (case om_find (rs_degraded_contracts (im_state s)) i of
        None \<Rightarrow> (fail ErrorCode.NOT_FOUND ''degraded.revalidate'' ''degraded mode not found''
                  (str_DegradedModeId i), s)
      | Some contract \<Rightarrow>
          let (now_ms, s) = now s;
              a = (reapply_contract contract (resources s)
                    (assess_degraded_mode (im_state s) (Some contract) i now_ms))
                  \<lparr>dma_topology_generation := rs_topology_generation (im_state s),
                   dma_epoch := rs_epoch (im_state s)\<rparr>;
              s = store_degraded contract a i s;
              s = record_event (hist HistoryEventType.DEGRADED_REVALIDATED
                (''degraded mode '' @ str_DegradedModeId i @ '' revalidated as '' @
                 DegradedModeStatus_str (dma_status a)) (topology_authority s))
            DurableEventKind.DEGRADED_UPSERT (writes [write_degraded_contract contract, write_degraded a]) s
          in (Inr a, stage_counters s))"

definition revalidate_degraded_mode :: "DegradedModeId \<Rightarrow> Impl \<Rightarrow> DegradedModeAssessment Result \<times> Impl" where
  "revalidate_degraded_mode i s = complete (revalidate_degraded_mode_locked i s)"

definition query_degraded_mode :: "DegradedModeId \<Rightarrow> Impl \<Rightarrow> DegradedModeAssessment Result" where
  "query_degraded_mode i s =
     (case om_find (rs_degraded_modes (im_state s)) i of
        None \<Rightarrow> fail ErrorCode.NOT_FOUND ''degraded.query'' ''degraded mode not found'' (str_DegradedModeId i)
      | Some a \<Rightarrow> Inr a)"

end
