(* ===== verification/Fcf_Engine_Release.thy ===== *)
theory Fcf_Engine_Release
  imports Fcf_Engine_Verify
begin

text \<open>
  Release, status queries and the loss of a worker's authority (\<open>src/engine.cpp\<close>).
\<close>

section \<open>Release\<close>

record ReleaseRequest =
  rlr_resource :: ResourceId
  rlr_expected_generation :: ResourceGeneration
  rlr_containment_generation :: ContainmentGeneration
  rlr_epoch :: CoordinatorEpoch
  rlr_requester_worker :: WorkerId
  rlr_requester_boot :: WorkerBootId
  rlr_evidence_sequence :: EvidenceSequence
  rlr_authority :: string

definition ReleaseRequest_default :: ReleaseRequest where
  "ReleaseRequest_default = \<lparr>
     rlr_resource = id_invalid,
     rlr_expected_generation = id_invalid,
     rlr_containment_generation = id_invalid,
     rlr_epoch = id_invalid,
     rlr_requester_worker = id_invalid,
     rlr_requester_boot = id_invalid,
     rlr_evidence_sequence = id_invalid,
     rlr_authority = []\<rparr>"

definition covers :: "ContainmentRecord \<Rightarrow> ResourceId \<Rightarrow> bool" where
  "covers c i \<longleftrightarrow> containment_is_live (con_status c) \<and>
     (id_set_contains (con_mandatory c) i \<or> id_set_contains (con_precautionary c) i)"

definition find_release_containment :: "RuntimeSnapshot \<Rightarrow> ReleaseRequest \<Rightarrow> ContainmentRecord option" where
  "find_release_containment st request =
     (if id_valid (rlr_containment_generation request)
      then om_find (rs_containments st) (rlr_containment_generation request)
      else map_option snd (find (\<lambda>(_, c). covers c (rlr_resource request)) (rs_containments st)))"

definition criterion :: "string \<Rightarrow> bool \<Rightarrow> string \<Rightarrow> ReleaseAssessment \<Rightarrow> ReleaseAssessment" where
  "criterion check passed detail a =
     a\<lparr>rel_criteria := rel_criteria a @ [\<lparr>vf_check = check, vf_passed = passed, vf_detail = detail\<rparr>]\<rparr>"

definition deny :: "ReleaseDecision \<Rightarrow> string \<Rightarrow> ReleaseAssessment \<Rightarrow> ReleaseAssessment" where
  "deny decision summary a = a\<lparr>rel_decision := decision, rel_summary := summary\<rparr>"

definition requester_live :: "RuntimeSnapshot \<Rightarrow> ReleaseRequest \<Rightarrow> bool" where
  "requester_live st request =
     (case om_find (wreg_incarnations (rs_workers st))
             (WorkerKey (rlr_requester_worker request) (rlr_requester_boot request)) of
        None \<Rightarrow> False | Some w \<Rightarrow> holds_live_authority (wr_state w))"

definition release_rule :: "RuntimeSnapshot \<Rightarrow> ContainmentRecord \<Rightarrow> FaultRule" where
  "release_rule st c =
     (case om_find (rs_faults st) (con_fault c) of
        None \<Rightarrow> pol_fallback (rs_policy st)
      | Some f \<Rightarrow> rule_for (rs_policy st) (fe_kind (fr_evidence f)))"

definition other_containment :: "RuntimeSnapshot \<Rightarrow> ContainmentRecord \<Rightarrow> ResourceId \<Rightarrow> bool" where
  "other_containment st c i \<longleftrightarrow>
     list_ex (\<lambda>(g, c'). g \<noteq> con_generation c \<and> containment_is_live (con_status c') \<and>
        id_set_contains (con_mandatory c') i \<and> \<not> id_set_contains (con_released c') i)
       (rs_containments st)"

definition evidence_is_fresh :: "ReleaseRequest \<Rightarrow> ResourceRecord \<Rightarrow> bool" where
  "evidence_is_fresh request r \<longleftrightarrow> rr_freshness r = EvidenceFreshness.FRESH \<and>
     (\<not> id_valid (rlr_evidence_sequence request) \<or> rr_evidence_sequence r \<ge> rlr_evidence_sequence request)"

text \<open>The last four criteria: policy, other containments, effectiveness, propagation.\<close>

definition assess_effect :: "RuntimeSnapshot \<Rightarrow> ReleaseRequest \<Rightarrow> ContainmentRecord \<Rightarrow> ReleaseAssessment \<Rightarrow> ReleaseAssessment" where
  "assess_effect st request c a =
     (let permits = rule_allow_release (release_rule st c);
          a = criterion ''policy_permits_release'' permits
                (if permits then ''policy permits release for this fault kind''
                 else ''policy forbids release for this fault kind'') a
      in if \<not> permits then deny ReleaseDecision.RELEASE_DENIED_POLICY ''policy forbids release'' a else
      let other = other_containment st c (rlr_resource request);
          a = criterion ''no_other_live_containment'' (\<not> other)
                (if other then ''another live containment still requires this resource fenced''
                 else ''no other live containment covers this resource'') a
      in if other then deny ReleaseDecision.RELEASE_DENIED_PROPAGATION
                         ''another live containment still requires this resource'' a else
      let outcome = cv_outcome (con_verification c);
          effective = (outcome = VerificationOutcome.CONTAINED);
          a = criterion ''containment_proven_effective'' effective
                (''verification outcome is '' @ VerificationOutcome_str outcome) a
      in if \<not> effective then deny ReleaseDecision.RELEASE_DENIED_UNVERIFIED
                               ''release requires a containment that was verified as CONTAINED'' a else
      let blocked = cv_propagation_blocked (con_verification c);
          a = criterion ''no_unresolved_propagation'' blocked
                (if blocked then ''every recorded propagation path is severed''
                 else ''a propagation path is still live or unproven'') a
      in if \<not> blocked then deny ReleaseDecision.RELEASE_DENIED_PROPAGATION
                             ''unresolved propagation prevents release'' a
         else a\<lparr>rel_decision := ReleaseDecision.RELEASE_GRANTED, rel_granted := True,
                rel_summary := ''release criteria satisfied''\<rparr>)"

text \<open>The criteria on authority and evidence that come first.\<close>

definition assess_authority ::
    "RuntimeSnapshot \<Rightarrow> ReleaseRequest \<Rightarrow> ResourceRecord \<Rightarrow> ContainmentRecord \<Rightarrow> ReleaseAssessment \<Rightarrow> ReleaseAssessment" where
  "assess_authority st request r c a =
     (let current = (\<not> id_valid (rlr_expected_generation request) \<or>
                     rr_generation r = rlr_expected_generation request);
          a = criterion ''resource_generation_current'' current
                (''request expected '' @ str_ResourceGeneration (rlr_expected_generation request) @
                 '', current '' @ str_ResourceGeneration (rr_generation r)) a
      in if \<not> current then deny ReleaseDecision.RELEASE_DENIED_EVIDENCE
                             ''the request targets a superseded resource generation'' a else
      let named = id_valid (rlr_requester_boot request);
          live = (\<not> named \<or> requester_live st request);
          a = criterion ''requester_authority_live'' live
                (if \<not> named then ''coordinator-authorised release''
                 else if live then ''the requesting incarnation holds live authority''
                 else ''the requesting incarnation holds no live authority'') a
      in if \<not> live then deny ReleaseDecision.RELEASE_DENIED_AUTHORITY
                          ''a stale worker incarnation requested release'' a else
      let explicit = (rlr_authority request \<noteq> []);
          a = criterion ''explicit_release_authority'' explicit
                (if explicit then ''release authority: '' @ rlr_authority request
                 else ''no release authority supplied'') a
      in if \<not> explicit then deny ReleaseDecision.RELEASE_DENIED_AUTHORITY
                              ''release requires an explicit authority'' a else
      let a = criterion ''containment_verified'' (con_verified c)
                (if con_verified c then ''the containment has been verified''
                 else ''release before verification is refused'') a
      in if \<not> con_verified c then deny ReleaseDecision.RELEASE_DENIED_UNVERIFIED
                                    ''containment has not been verified'' a else
      let fresh = evidence_is_fresh request r;
          a = criterion ''fresh_evidence'' fresh
                (''evidence freshness '' @ EvidenceFreshness_str (rr_freshness r) @ '', sequence '' @
                 str_EvidenceSequence (rr_evidence_sequence r)) a
      in if \<not> fresh then deny ReleaseDecision.RELEASE_DENIED_EVIDENCE
                           ''release requires fresh current evidence'' a
         else assess_effect st request c a)"

definition assess_release :: "RuntimeSnapshot \<Rightarrow> ReleaseRequest \<Rightarrow> ReleaseAssessment" where
  "assess_release st request =
     (let resource = om_find (tp_resources (rs_topology st)) (rlr_resource request);
          containment = find_release_containment st request;
          a = ReleaseAssessment_default\<lparr>rel_resource := rlr_resource request,
                rel_containment_generation := rlr_containment_generation request\<rparr>;
          a = criterion ''resource_exists'' (resource \<noteq> None)
                (if resource \<noteq> None then ''resource is present in the current topology''
                 else ''unknown resource'') a;
          a = criterion ''containment_exists'' (containment \<noteq> None)
                (if containment \<noteq> None then ''a containment covers this resource''
                 else ''no containment covers this resource'') a
      in (case (resource, containment) of
            (Some r, Some c) \<Rightarrow>
              assess_authority st request r c (a\<lparr>rel_containment_generation := con_generation c\<rparr>)
          | _ \<Rightarrow> deny ReleaseDecision.RELEASE_DENIED_POLICY ''release criteria cannot be evaluated'' a))"

text \<open>The assessment ignores its time argument; the clock is read all the same.\<close>

definition request_release :: "ReleaseRequest \<Rightarrow> Impl \<Rightarrow> ReleaseAssessment Result \<times> Impl" where
  "request_release request s = (let (_, s) = now s in (Inr (assess_release (im_state s) request), s))"

definition released_resource :: "ReleaseGeneration \<Rightarrow> u64 \<Rightarrow> ResourceRecord \<Rightarrow> ResourceRecord" where
  "released_resource g t r = r\<lparr>rr_state := ResourceOperationalState.ACTIVE, rr_quarantined := False,
     rr_mechanism := ContainmentMechanism.NONE, rr_release_generation := g,
     rr_generation := next_generation (rr_generation r), rr_updated_at_ms := t\<rparr>"

text \<open>The resource leaves the containment; the containment ends with its last mandatory resource.\<close>

definition release_from :: "ResourceId \<Rightarrow> u64 \<Rightarrow> ContainmentRecord \<Rightarrow> ContainmentRecord" where
  "release_from i t c =
     (let c = c\<lparr>con_released := id_set_add (con_released c) i,
                con_mandatory := id_set_del (con_mandatory c) i,
                con_precautionary := id_set_del (con_precautionary c) i,
                con_updated_at_ms := t\<rparr>
      in if con_mandatory c = []
         then c\<lparr>con_status := ContainmentStatus.RELEASED, con_released_flag := True\<rparr> else c)"

definition clear_fault :: "FaultId \<Rightarrow> Impl \<Rightarrow> Impl" where
  "clear_fault i s =
     (case om_find (faults s) i of
        None \<Rightarrow> s
      | Some f \<Rightarrow>
          if is_legal_fault_transition (fr_state f) FaultState.CLEARED then
            let (t, s) = now s;
                f = f\<lparr>fr_state := FaultState.CLEARED, fr_last_updated_ms := t\<rparr>;
                s = upd_state (rs_faults_update (om_put i f)) s
            in stage_fault f s
          else s)"

definition close_containment :: "ContainmentGeneration \<Rightarrow> ResourceId \<Rightarrow> Impl \<Rightarrow> ContainmentRecord option \<times> Impl" where
  "close_containment generation i s =
     (case om_find (containments s) generation of
        None \<Rightarrow> (None, s)
      | Some c \<Rightarrow>
          let (t, s) = now s;
              c = release_from i t c;
              s = upd_state (rs_containments_update (om_put generation c)) s;
              s = (if con_mandatory c = [] then clear_fault (con_fault c) s else s)
          in (Some c, s))"

abbreviation str_ReleaseGeneration :: "ReleaseGeneration \<Rightarrow> string" where
  "str_ReleaseGeneration \<equiv> id_to_string ''ReleaseGeneration''"

definition refuse_release :: "ReleaseAssessment \<Rightarrow> ReleaseRequest \<Rightarrow> Impl \<Rightarrow> ReleaseAssessment Result \<times> Impl" where
  "refuse_release a request s =
     (let s = record_event ((hist HistoryEventType.RELEASE_REFUSED
            (''release refused for '' @ str_ResourceId (rlr_resource request) @ '': '' @ rel_summary a)
            (''CoordinatorEpoch '' @ str_CoordinatorEpoch (rs_epoch (im_state s))))
            \<lparr>he_resource := rlr_resource request, he_containment := rel_containment_generation a\<rparr>)
            DurableEventKind.HISTORY (\<lambda>w. w) s
      in (Inr a, stage_counters s))"

definition authorize_release_locked :: "ReleaseRequest \<Rightarrow> Impl \<Rightarrow> ReleaseAssessment Result \<times> Impl" where
  "authorize_release_locked request s =
     (let (_, s) = now s;
          a = assess_release (im_state s) request;
          g = next_generation (rs_release_generation (im_state s));
          a = a\<lparr>rel_generation := g\<rparr>;
          i = rlr_resource request;
          s = s\<lparr>im_releases := om_put i a (im_releases s)\<rparr>
      in if \<not> rel_granted a then refuse_release a request s
         else (case om_find (resources s) i of
            None \<Rightarrow> (fail ErrorCode.UNKNOWN_RESOURCE ''release.authorize'' ''resource not found''
                      (str_ResourceId i), s)
          | Some r \<Rightarrow>
              let s = bump_topology s;
                  (t, s) = now s;
                  r = released_resource g t r;
                  s = upd_resources (om_put i r) s;
                  s = upd_state (rs_release_generation_update (\<lambda>_. g)) s;
                  (closed, s) = close_containment (rel_containment_generation a) i s;
                  s = record_event ((hist HistoryEventType.RELEASE_GRANTED
                    (''release granted for '' @ str_ResourceId i @ '': '' @ rel_summary a)
                    (''ReleaseGeneration '' @ str_ReleaseGeneration g))
                    \<lparr>he_resource := i, he_containment := rel_containment_generation a\<rparr>)
            DurableEventKind.RESOURCE_UPSERT (write_resource r) s;
                  s = (case closed of None \<Rightarrow> s
                       | Some c \<Rightarrow> stage DurableEventKind.CONTAINMENT_UPSERT None (write_containment c) s)
              in (Inr a, stage_counters s)))"

definition authorize_release :: "ReleaseRequest \<Rightarrow> Impl \<Rightarrow> ReleaseAssessment Result \<times> Impl" where
  "authorize_release request s = complete (authorize_release_locked request s)"

definition query_release :: "ResourceId \<Rightarrow> Impl \<Rightarrow> ReleaseAssessment Result" where
  "query_release i s =
     (case om_find (im_releases s) i of
        None \<Rightarrow> fail ErrorCode.NOT_FOUND ''release.query'' ''no release assessment recorded'' (str_ResourceId i)
      | Some a \<Rightarrow> Inr a)"

section \<open>Status queries\<close>

record ResourceStatusView =
  rsv_resource :: ResourceRecord
  rsv_contained :: bool
  rsv_quarantined :: bool
  rsv_operable :: bool
  rsv_release_permitted :: bool
  rsv_containment_generation :: ContainmentGeneration
  rsv_reasons :: "string list"

definition query_resource_status :: "ResourceId \<Rightarrow> Impl \<Rightarrow> ResourceStatusView Result" where
  "query_resource_status i s =
     (case om_find (resources s) i of
        None \<Rightarrow> fail ErrorCode.UNKNOWN_RESOURCE ''resource.status'' ''resource not found'' (str_ResourceId i)
      | Some r \<Rightarrow> Inr \<lparr>
          rsv_resource = r,
          rsv_contained = is_contained (rr_state r),
          rsv_quarantined = rr_quarantined r,
          rsv_operable = (is_operable (rr_state r) \<and> \<not> rr_quarantined r),
          rsv_release_permitted = (rr_freshness r = EvidenceFreshness.FRESH \<and>
            \<not> has_live_containment_for (im_state s) i),
          rsv_containment_generation = rr_containment_generation r,
          rsv_reasons = [
            ''state '' @ ResourceOperationalState_str (rr_state r),
            ''freshness '' @ EvidenceFreshness_str (rr_freshness r),
            ''mechanism '' @ ContainmentMechanism_str (rr_mechanism r)] @
            (if rr_quarantined r
             then [''quarantined: no new authorised work may be dispatched until release is granted''] else [])\<rparr>)"

record DomainStatusView =
  dsv_domain :: ContainmentDomain
  dsv_active_members :: nat
  dsv_contained_members :: nat
  dsv_unresolved_members :: nat
  dsv_reasons :: "string list"

definition member_contained :: "Impl \<Rightarrow> ResourceId \<Rightarrow> bool" where
  "member_contained s i =
     (case om_find (resources s) i of None \<Rightarrow> False | Some r \<Rightarrow> is_contained (rr_state r) \<or> rr_quarantined r)"

definition member_active :: "Impl \<Rightarrow> ResourceId \<Rightarrow> bool" where
  "member_active s i =
     (case om_find (resources s) i of
        None \<Rightarrow> False
      | Some r \<Rightarrow> \<not> (is_contained (rr_state r) \<or> rr_quarantined r) \<and> is_operable (rr_state r))"

definition query_domain_status :: "ContainmentDomainId \<Rightarrow> Impl \<Rightarrow> DomainStatusView Result" where
  "query_domain_status d s =
     (case om_find (tp_containment_domains (rs_topology (im_state s))) d of
        None \<Rightarrow> fail ErrorCode.UNKNOWN_DOMAIN ''domain.status'' ''containment domain not found''
                  (str_ContainmentDomainId d)
      | Some domain \<Rightarrow> Inr \<lparr>
          dsv_domain = domain,
          dsv_active_members = count (member_active s) (cd_members domain),
          dsv_contained_members = count (member_contained s) (cd_members domain),
          dsv_unresolved_members = count (\<lambda>i. \<not> member_active s i \<and> \<not> member_contained s i) (cd_members domain),
          dsv_reasons = (if cd_co_isolate_members domain
            then [''members may not be separated by a containment decision''] else [])\<rparr>)"

text \<open>\<open>history\<close>: the audit trail from a sequence number on, at most \<open>limit\<close> entries when not zero.\<close>

definition query_history :: "u64 \<Rightarrow> nat \<Rightarrow> Impl \<Rightarrow> HistoryEvent list" where
  "query_history from_sequence limit s =
     (let events = filter (\<lambda>e. \<not> id_value (he_sequence e) < from_sequence) (rs_history (im_state s))
      in if limit = 0 then events else take limit events)"

record SystemStatus =
  sst_epoch :: CoordinatorEpoch
  sst_topology_generation :: TopologyGeneration
  sst_policy_generation :: PolicyGeneration
  sst_containment_generation :: ContainmentGeneration
  sst_verification_generation :: VerificationGeneration
  sst_history_sequence :: HistorySequence
  sst_resource_count :: nat
  sst_dependency_count :: nat
  sst_fault_count :: nat
  sst_current_fault_count :: nat
  sst_live_containment_count :: nat
  sst_quarantined_resource_count :: nat
  sst_worker_incarnation_count :: nat
  sst_live_worker_count :: nat
  sst_live_authority_count :: nat
  sst_unresolved_resource_count :: nat
  sst_degraded_status :: DegradedModeStatus
  sst_durability_healthy :: bool
  sst_recovery_incomplete :: bool
  sst_notes :: "string list"

definition query_system_status :: "Impl \<Rightarrow> SystemStatus" where
  "query_system_status s =
     (let st = im_state s;
          rs = map snd (resources s);
          live_workers = filter (\<lambda>w. holds_live_authority (wr_state w)) (map snd (incarnations s));
          current = count (\<lambda>(_, f). is_fault_current (fr_state f)) (faults s);
          unresolved = count (\<lambda>r. rr_freshness r \<noteq> EvidenceFreshness.FRESH) rs;
          a = assess_degraded_mode st None id_invalid 0
      in \<lparr>sst_epoch = rs_epoch st,
          sst_topology_generation = rs_topology_generation st,
          sst_policy_generation = rs_policy_generation st,
          sst_containment_generation = rs_containment_generation st,
          sst_verification_generation = rs_verification_generation st,
          sst_history_sequence = rs_history_sequence st,
          sst_resource_count = length rs,
          sst_dependency_count = length (dg_edges (tp_dependencies (rs_topology st))),
          sst_fault_count = length (faults s),
          sst_current_fault_count = current,
          sst_live_containment_count = length (live_containments st),
          sst_quarantined_resource_count = count (\<lambda>r. rr_quarantined r \<or> is_contained (rr_state r)) rs,
          sst_worker_incarnation_count = length (incarnations s),
          sst_live_worker_count = length live_workers,
          sst_live_authority_count = sum_list (map (\<lambda>w. length (wr_live_authority w)) live_workers),
          sst_unresolved_resource_count = unresolved,
          sst_degraded_status = dma_status a,
          sst_durability_healthy = im_durability_healthy s,
          sst_recovery_incomplete = (unresolved > 0),
          sst_notes =
            (if dma_status a = DegradedModeStatus.DEGRADED_REVALIDATION_REQUIRED
             then [''revalidation required for '' @ nat_to_string (length (dma_revalidation_required a)) @
                   '' resource(s)''] else []) @
            (if containments s = [] \<and> current = 0
             then [''no containment is currently active''] else [])\<rparr>)"

section \<open>Loss of a worker's authority\<close>

text \<open>The last bound resource of class \<open>WORKER\<close>, or else the first bound resource.\<close>

definition loss_subject :: "WorkerBootId \<Rightarrow> (ResourceId, ResourceRecord) omap \<Rightarrow> ResourceId" where
  "loss_subject boot rs =
     for_each rs (\<lambda>(i, r) subject.
       if rr_owner_boot r \<noteq> boot then subject
       else if \<not> id_valid subject \<or> rr_resource_class r = ResourceClass.WORKER then i else subject) id_invalid"

definition lost_resource :: "u64 \<Rightarrow> ResourceRecord \<Rightarrow> ResourceRecord" where
  "lost_resource now_ms r = r\<lparr>rr_state := ResourceOperationalState.FENCED, rr_quarantined := True,
     rr_mechanism := ContainmentMechanism.PROCESS_CONTAINMENT,
     rr_freshness := EvidenceFreshness.REVALIDATION_REQUIRED,
     rr_generation := next_generation (rr_generation r), rr_updated_at_ms := now_ms\<rparr>"

definition lose_resource :: "u64 \<Rightarrow> ResourceId \<Rightarrow> Impl \<Rightarrow> Impl" where
  "lose_resource now_ms i s =
     (let r = lost_resource now_ms (case om_find (resources s) i of None \<Rightarrow> ResourceRecord_default | Some r \<Rightarrow> r);
          s = bump_topology s;
          s = upd_resources (om_put i r) s
      in stage_resource r s)"

definition repeat_observation :: "WorkerKey \<Rightarrow> Impl \<Rightarrow> ContainmentRecord option" where
  "repeat_observation key s =
     (case om_find (im_authority_loss_faults s) key of
        None \<Rightarrow> None
      | Some i \<Rightarrow>
          (case om_find (faults s) i of
             None \<Rightarrow> None
           | Some f \<Rightarrow> if id_valid (fr_containment_generation f)
                       then om_find (containments s) (fr_containment_generation f) else None))"

text \<open>
  The locked part: either an answer (an error or the containment of a repeated observation), or
  the subject and its generation. The error for an incarnation without resources is returned
  after the worker record was changed and staged; the staged record is dropped with it.
\<close>

definition lose_authority_locked ::
    "WorkerId \<Rightarrow> WorkerBootId \<Rightarrow> string \<Rightarrow> u64 \<Rightarrow> Impl \<Rightarrow>
     (ContainmentRecord Result + ResourceId \<times> ResourceGeneration) \<times> Impl" where
  "lose_authority_locked worker boot detail observation_time_ms s =
     (let key = WorkerKey worker boot in
      (case om_find (incarnations s) key of
         None \<Rightarrow> (Inl (fail ErrorCode.UNKNOWN_WORKER ''worker.authority_lost'' ''worker incarnation not found''
                   (str_WorkerBootId boot)), s)
       | Some w \<Rightarrow>
           if om_find (wreg_current_boot (rs_workers (im_state s))) worker \<noteq> Some boot then
             (Inl (fail ErrorCode.STALE_WORKER_BOOT ''worker.authority_lost''
                ''a newer incarnation is already current'' (str_WorkerBootId boot)), s)
           else
             (case repeat_observation key s of
                Some c \<Rightarrow> (Inl (Inr c), s)
              | None \<Rightarrow>
                  let w = (if wr_state w \<noteq> WorkerState.AUTHORITY_REVOKED
                           then w\<lparr>wr_state := WorkerState.AUTHORITY_REVOKED,
                                  wr_last_seen_ms := observation_time_ms\<rparr> else w);
                      w = w\<lparr>wr_freshness := EvidenceFreshness.REVALIDATION_REQUIRED\<rparr>;
                      s = upd_workers (wreg_incarnations_update (om_put key w)) s;
                      s = record_event (hist HistoryEventType.WORKER_AUTHORITY_REVOKED
                        (''authority revoked for boot '' @ str_WorkerBootId boot @ '': '' @ detail)
                        (''WorkerBootId '' @ str_WorkerBootId boot))
                        DurableEventKind.WORKER_UPSERT (write_worker w) s;
                      subject = loss_subject boot (resources s)
                  in if \<not> id_valid subject then
                       (Inl (fail ErrorCode.UNKNOWN_RESOURCE ''worker.authority_lost''
                          (''no resource is bound to this worker incarnation, so the blast radius '' @
                           ''cannot be scoped; register the worker's resources before registering '' @
                           ''the worker'') (str_WorkerBootId boot)), s)
                     else
                       let (now_ms, s) = now s;
                           bound = map fst (filter (\<lambda>(_, r). rr_owner_boot r = boot) (resources s));
                           s = for_each bound (lose_resource now_ms) s;
                           generation = (case om_find (resources s) subject of
                                           None \<Rightarrow> id_invalid | Some r \<Rightarrow> rr_generation r)
                       in (Inr (subject, generation), stage_counters s))))"

definition authority_loss_evidence ::
    "FaultKind \<Rightarrow> ResourceId \<Rightarrow> ResourceGeneration \<Rightarrow> string \<Rightarrow> u64 \<Rightarrow> CoordinatorEpoch \<Rightarrow> FaultEvidence" where
  "authority_loss_evidence kind subject generation detail t epoch = FaultEvidence_default\<lparr>
     fe_kind := kind,
     fe_subject := subject,
     fe_subject_generation := generation,
     fe_reporter_kind := ReporterKind.COORDINATOR,
     fe_epoch := epoch,
     fe_provenance := EvidenceProvenance.COORDINATOR_OBSERVATION,
     fe_observation_sequence := Id t,
     fe_publication_time_ms := t,
     fe_freshness := EvidenceFreshness.FRESH,
     fe_integrity := IntegrityStatus.VERIFIED,
     fe_confidence_permille := 1000,
     fe_details := detail\<rparr>"

definition worker_authority_lost ::
    "WorkerId \<Rightarrow> WorkerBootId \<Rightarrow> FaultKind \<Rightarrow> string \<Rightarrow> u64 \<Rightarrow> Impl \<Rightarrow> (ContainmentRecord Result \<times> Impl) option" where
  "worker_authority_lost worker boot kind detail observation_time_ms s =
     (case lose_authority_locked worker boot detail observation_time_ms s of
        (Inl answer, s) \<Rightarrow> Some (answer, s\<lparr>im_pending := []\<rparr>)
      | (Inr (subject, generation), s) \<Rightarrow>
          (case flush s of
             (Inl e, s) \<Rightarrow> Some (Inl e, s)
           | (Inr _, s) \<Rightarrow>
               (case publish_fault (authority_loss_evidence kind subject generation detail
                        observation_time_ms (rs_epoch (im_state s))) s of
                  (Inl e, s) \<Rightarrow> Some (Inl e, s)
                | (Inr (f, _), s) \<Rightarrow>
                    let i = fe_id (fr_evidence f);
                        s = s\<lparr>im_authority_loss_faults :=
                              om_put (WorkerKey worker boot) i (im_authority_loss_faults s)\<rparr>
                    in authorize_containment i (fe_generation (fr_evidence f)) s)))"

end
