(* ===== verification/Fcf_Engine_Frame.thy ===== *)
theory Fcf_Engine_Frame
  imports Fcf_Engine_Release
begin

text \<open>
  What the journal machinery leaves alone, field by field, and what it does to the staged records.
\<close>

section \<open>Fields outside the journal\<close>

lemma frame_simps:
  assumes "frame a = frame b"
  shows "rs_epoch (im_state a) = rs_epoch (im_state b)"
    and "rs_topology_generation (im_state a) = rs_topology_generation (im_state b)"
    and "rs_policy_generation (im_state a) = rs_policy_generation (im_state b)"
    and "rs_containment_generation (im_state a) = rs_containment_generation (im_state b)"
    and "rs_verification_generation (im_state a) = rs_verification_generation (im_state b)"
    and "rs_release_generation (im_state a) = rs_release_generation (im_state b)"
    and "rs_topology (im_state a) = rs_topology (im_state b)"
    and "rs_policy (im_state a) = rs_policy (im_state b)"
    and "rs_faults (im_state a) = rs_faults (im_state b)"
    and "rs_workers (im_state a) = rs_workers (im_state b)"
    and "rs_containments (im_state a) = rs_containments (im_state b)"
    and "rs_actions (im_state a) = rs_actions (im_state b)"
    and "rs_degraded_modes (im_state a) = rs_degraded_modes (im_state b)"
    and "rs_degraded_contracts (im_state a) = rs_degraded_contracts (im_state b)"
    and "im_config a = im_config b"
    and "im_shutting_down a = im_shutting_down b"
    and "im_digest_by_fault a = im_digest_by_fault b"
    and "im_fault_by_digest a = im_fault_by_digest b"
    and "im_releases a = im_releases b"
    and "im_authority_loss_faults a = im_authority_loss_faults b"
    and "im_next_fault a = im_next_fault b"
    and "im_next_action a = im_next_action b"
    and "im_next_degraded a = im_next_degraded b"
  using core_fields [OF frame_fields(1) [OF assms]] frame_fields(2-) [OF assms] by simp_all

lemmas record_event_fields [simp] = frame_simps [OF frame_record_event]
lemmas stage_fields [simp] = frame_simps [OF frame_stage]
lemmas stage_counters_fields [simp] = frame_simps [OF frame_stage_counters]
lemmas flush_fields [simp] = frame_simps [OF frame_flush]
lemmas complete_fields [simp] = frame_simps [OF frame_complete]

lemma snd_prod_fields: "p = (a, s) \<Longrightarrow> frame (snd p) = frame s0 \<Longrightarrow> frame s = frame s0"
  by simp

text \<open>
  The texts of errors and audit events are long: these congruence rules keep the simplifier out
  of them.
\<close>

lemma opaque_text [cong]:
  "s = s' \<Longrightarrow> record_event e k b s = record_event e k b s'"
  "s = s' \<Longrightarrow> stage k h b s = stage k h b s'"
  "fail c st m x = fail c st m x"
  by simp_all

section \<open>Staged records\<close>

text \<open>Consecutive sequence numbers after \<open>q\<close>.\<close>

fun number :: "u64 \<Rightarrow> u8 list list \<Rightarrow> PendingWrite list" where
  "number q [] = []"
| "number q (b # bs) = (q + 1, b) # number (q + 1) bs"

lemma number_append: "number q (bs @ cs) = number q bs @ number (q + of_nat (length bs)) cs"
  by (induction bs arbitrary: q) (simp_all add: algebra_simps)

lemma number_records [simp]: "map snd (number q bs) = bs" "length (number q bs) = length bs"
  by (induction bs arbitrary: q) simp_all

text \<open>
  \<open>staged s s'\<close>: between \<open>s\<close> and \<open>s'\<close> records were staged under consecutive sequence numbers, and
  neither the store nor its health changed.
\<close>

definition staged :: "Impl \<Rightarrow> Impl \<Rightarrow> bool" where
  "staged s s' \<longleftrightarrow> im_store s' = im_store s \<and> im_durability_healthy s' = im_durability_healthy s \<and>
     (\<exists>bs. im_pending s' = im_pending s @ number (im_durable_sequence s) bs \<and>
           im_durable_sequence s' = im_durable_sequence s + of_nat (length bs))"

definition journal :: "Impl \<Rightarrow> DurableStore option \<times> bool \<times> PendingWrite list \<times> u64" where
  "journal s = (im_store s, im_durability_healthy s, im_pending s, im_durable_sequence s)"

lemma staged_same: "journal s' = journal s \<Longrightarrow> staged s s'"
  unfolding staged_def journal_def by (auto intro: exI [of _ "[]"])

lemma staged_refl [simp, intro!]: "staged s s"
  by (simp add: staged_same)

lemma staged_trans [trans]: "staged a b \<Longrightarrow> staged b c \<Longrightarrow> staged a c"
proof -
  assume "staged a b" "staged b c"
  then obtain bs cs where "im_pending b = im_pending a @ number (im_durable_sequence a) bs"
    "im_durable_sequence b = im_durable_sequence a + of_nat (length bs)"
    "im_pending c = im_pending b @ number (im_durable_sequence b) cs"
    "im_durable_sequence c = im_durable_sequence b + of_nat (length cs)"
    unfolding staged_def by blast
  with \<open>staged a b\<close> \<open>staged b c\<close> show ?thesis
    unfolding staged_def by (auto simp: number_append algebra_simps intro!: exI [of _ "bs @ cs"])
qed

lemma staged_stage: "staged s (stage kind h body s)"
proof (cases "encode_event kind h body")
  case None
  then show ?thesis by (simp add: stage_def)
next
  case (Some bytes)
  then show ?thesis unfolding staged_def by (auto simp: stage_def intro: exI [of _ "[bytes]"])
qed

lemma journal_history [simp]: "journal (snd (add_history e s)) = journal s"
  by (simp add: add_history_def now_def journal_def Let_def)

lemma staged_record_event: "staged s (record_event e kind body s)"
  unfolding record_event_def
  by (cases "add_history e s") (metis case_prod_conv journal_history snd_conv staged_same staged_stage staged_trans)

lemma staged_stage_counters: "staged s (stage_counters s)"
  by (simp add: stage_counters_def staged_stage)

text \<open>The same facts as rules that peel the last change off a state.\<close>

lemma staged_peel [intro!]:
  "staged s0 s \<Longrightarrow> staged s0 (stage kind h body s)"
  "staged s0 s \<Longrightarrow> staged s0 (record_event e kind body s)"
  "staged s0 s \<Longrightarrow> staged s0 (stage_counters s)"
  "staged s0 s \<Longrightarrow> staged s0 (im_state_update f0 s)"
  "staged s0 s \<Longrightarrow> staged s0 (im_ticks_update f1 s)"
  "staged s0 s \<Longrightarrow> staged s0 (im_releases_update f2 s)"
  "staged s0 s \<Longrightarrow> staged s0 (im_next_fault_update f3 s)"
  "staged s0 s \<Longrightarrow> staged s0 (im_next_action_update f4 s)"
  "staged s0 s \<Longrightarrow> staged s0 (im_next_degraded_update f5 s)"
  "staged s0 s \<Longrightarrow> staged s0 (im_authority_loss_faults_update f6 s)"
  "staged s0 s \<Longrightarrow> staged s0 (im_digest_by_fault_update f7 s)"
  "staged s0 s \<Longrightarrow> staged s0 (im_fault_by_digest_update f8 s)"
  by (erule staged_trans, simp add: staged_stage staged_record_event staged_stage_counters staged_same journal_def)+

lemma staged_fold:
  assumes "\<And>x s. staged s (f x s)"
  shows "staged s0 s \<Longrightarrow> staged s0 (fold f xs s)"
  by (induction xs arbitrary: s) (auto intro: staged_trans [OF _ assms])

end
