(* ===== verification/Fcf_Engine_Staging.thy ===== *)
theory Fcf_Engine_Staging
  imports Fcf_Engine_Frame
begin

text \<open>
  Every locked section only stages records: it appends them to the pending list under consecutive
  sequence numbers and leaves the store to the flush that follows.
\<close>

named_theorems staging \<open>what each locked section does to the staged records\<close>

lemmas section_splits = option.split prod.split sum.split if_split

lemma staged_snd_now [intro!]: "staged s0 s \<Longrightarrow> staged s0 (snd (now s))"
  by (auto simp: now_def)

section \<open>Topology\<close>

lemma staged_begin_epoch [staging]: "staged s (snd (begin_epoch_locked t reason s))"
  by (auto simp: begin_epoch_locked_def Let_def)

lemma staged_register_domain [staging]: "staged s (snd (register_domain_locked d s))"
proof -
  have "staged x (stage_known_resource m x)" for m x
    by (auto simp: stage_known_resource_def stage_resource_def split: option.split)
  then show ?thesis
    by (auto simp: register_domain_locked_def Let_def split: option.split prod.split
        intro!: staged_peel intro: staged_fold)
qed

lemma staged_domains [staging]:
  "staged s (snd (update_domain_locked d expected s))"
  "staged s (snd (remove_domain_locked i expected s))"
  by (auto simp: update_domain_locked_def remove_domain_locked_def Let_def split: option.split)

lemma staged_isolation_domains [staging]:
  "staged s (snd (register_isolation_domain_locked d s))"
  "staged s (snd (remove_isolation_domain_locked i expected s))"
  by (auto simp: register_isolation_domain_locked_def remove_isolation_domain_locked_def Let_def split: option.split)

lemma staged_failure_domains [staging]:
  "staged s (snd (register_failure_domain_locked d' s))"
  "staged s (snd (remove_failure_domain_locked i' expected s))"
  by (auto simp: register_failure_domain_locked_def remove_failure_domain_locked_def Let_def split: option.split)

section \<open>Resources, dependencies, policy\<close>

lemma staged_grant_authority: "staged s0 s \<Longrightarrow> staged s0 (grant_authority r s)"
  by (auto simp: grant_authority_def)

lemma staged_register_resource [staging]: "staged s (snd (register_resource_locked r s))"
  by (auto simp: register_resource_locked_def now_def Let_def split: option.split
      intro!: staged_peel staged_grant_authority)

lemma staged_update_resource [staging]: "staged s (snd (update_resource_locked r expected s))"
  by (auto simp: update_resource_locked_def now_def Let_def split: option.split)

lemma staged_remove_resource [staging]: "staged s (snd (remove_resource_locked i expected s))"
  by (auto simp: remove_resource_locked_def Let_def split: option.split intro!: staged_peel staged_fold)

lemma staged_dependencies [staging]:
  "staged s (snd (register_dependency_locked e s))"
  "staged s (snd (remove_dependency_locked d expected s))"
  by (auto simp: register_dependency_locked_def remove_dependency_locked_def Let_def split: option.split)

lemma staged_set_policy [staging]: "staged s (snd (set_policy_locked policy s))"
  by (auto simp: set_policy_locked_def Let_def split: sum.split)

lemma staged_publish_resource_evidence [staging]:
  "staged s (snd (publish_resource_evidence_locked i expected freshness sequence mechanism source s))"
  by (auto simp: publish_resource_evidence_locked_def now_def Let_def split: option.split)

section \<open>Workers and faults\<close>

lemma staged_reattach_worker: "staged s (snd (reattach_worker key w s))"
  by (auto simp: reattach_worker_def now_def Let_def)

lemma staged_revoke_previous: "staged s0 s \<Longrightarrow> staged s0 (revoke_previous worker boot s)"
  by (auto simp: revoke_previous_def Let_def split: option.split)

lemma staged_admit_worker: "staged s0 s \<Longrightarrow> staged s0 (snd (admit_worker key endpoint sequence s))"
  by (auto simp: admit_worker_def now_def Let_def intro!: staged_peel staged_revoke_previous)

lemma staged_register_worker [staging]:
  "staged s (snd (register_worker_locked worker boot endpoint sequence s))"
  by (auto simp: register_worker_locked_def Let_def split: option.split
      intro!: staged_admit_worker staged_reattach_worker)

lemma staged_retire_worker [staging]: "staged s (snd (retire_worker_locked worker boot reason s))"
  by (auto simp: retire_worker_locked_def Let_def split: option.split)

lemma staged_normalize: "staged s0 s \<Longrightarrow> staged s0 (snd (normalize_evidence e s))"
  by (auto simp: normalize_evidence_def allocate_fault_id_def Let_def)

lemma staged_admit_fault: "staged s0 s \<Longrightarrow> staged s0 (snd (admit_fault e s))"
  by (auto simp: admit_fault_def now_def Let_def)

lemma staged_count_duplicate: "staged s0 s \<Longrightarrow> staged s0 (snd (count_duplicate i s))"
  by (auto simp: count_duplicate_def now_def Let_def)

lemma staged_publish_fault [staging]: "staged s (snd (publish_fault_locked evidence s))"
proof -
  obtain e s1 where n: "normalize_evidence evidence s = (e, s1)" by (cases "normalize_evidence evidence s")
  have s1: "staged s s1" using staged_normalize [of s s evidence] n by simp
  have dup: "staged s (record_event h k b (snd (count_duplicate i s1)))" for h k b i
    using s1 by (intro staged_peel staged_count_duplicate)
  have new: "staged s (snd (admit_fault e' s1))" for e' using s1 by (rule staged_admit_fault)
  show ?thesis
    using s1 dup new
    by (auto simp: publish_fault_locked_def n Let_def case_prod_beta split: option.split)
qed

lemma staged_supersede_fault [staging]: "staged s (snd (supersede_fault_locked i expected reason s))"
  by (auto simp: supersede_fault_locked_def now_def Let_def split: option.split)

section \<open>Containment\<close>

lemma staged_fence_resource: "staged s (fence_resource g q t i s)"
  by (auto simp: fence_resource_def stage_resource_def Let_def split: option.split)

lemma staged_drain_resource: "staged s (drain_resource t i s)"
  by (auto simp: drain_resource_def stage_resource_def Let_def split: option.split)

lemma staged_plan_actions: "staged s (snd (plan_actions budget f t ids c s))"
proof (induction budget f t ids c s rule: plan_actions.induct)
  case (2 budget f now_ms i ids c s)
  show ?case
  proof (cases "budget \<le> length (con_actions c)")
    case False
    then show ?thesis
      using 2 by (auto simp: allocate_action_id_def Let_def split: option.split
          intro!: staged_trans [OF _ 2(2)])
  qed simp
qed simp

lemma staged_commit_containment: "staged s (snd (commit_containment i f radius s))"
proof -
  have plan: "staged s0 x \<Longrightarrow> staged s0 (snd (plan_actions budget f' t ids c x))" for s0 x budget f' t ids c
    by (rule staged_trans [OF _ staged_plan_actions])
  show ?thesis
    by (auto simp: commit_containment_def stage_fault_def now_def Let_def case_prod_beta
        intro!: staged_peel plan intro: staged_fold [OF staged_fence_resource] staged_fold [OF staged_drain_resource])
qed

lemma staged_authorize_containment [staging]:
  "authorize_containment_locked i expected s = Some (r, s') \<Longrightarrow> staged s s'"
  using staged_commit_containment [of s]
  by (auto simp: authorize_containment_locked_def split: sum.splits option.splits if_splits)
    (metis snd_conv)

section \<open>Dispatch and verification\<close>

lemma staged_authorize_actions: "staged s (snd (snd (authorize_actions t c ids summary todo s)))"
proof (induction t c ids summary todo s rule: authorize_actions.induct)
  case (2 t c i ids summary todo s)
  show ?case
  proof (cases "om_find (actions s) i")
    case None
    with 2(1) show ?thesis by simp
  next
    case (Some a)
    note IH = 2(2) [OF Some] 2(3) [OF Some] 2(4) [OF Some]
    show ?thesis
      using IH by (auto simp: Some refuse_action_def authorize_action_def Let_def
          intro!: staged_trans [OF _ IH(2)] staged_trans [OF _ IH(3)])
  qed
qed simp

lemma staged_dispatch_begin [staging]: "staged s (snd (dispatch_begin_locked g b s))"
proof -
  have "staged s (snd (snd (authorize_actions t c ids summary todo (s\<lparr>im_ticks := n\<rparr>))))"
    for t c ids summary todo n
    by (rule staged_trans [OF _ staged_authorize_actions]) auto
  then show ?thesis
    by (auto simp: dispatch_begin_locked_def now_def Let_def case_prod_beta split: option.split)
qed

lemma staged_record_attempt: "staged s0 (snd p) \<Longrightarrow> staged s0 (snd (record_attempt t attempt p))"
  by (auto simp: record_attempt_def Let_def split: option.split sum.split prod.split)

lemma staged_dispatch_record [staging]: "staged s (snd (dispatch_record_locked attempts summary s))"
proof -
  have "staged s (snd (fold (record_attempt t) attempts (summary, s\<lparr>im_ticks := n\<rparr>)))" for t n
    by (rule fold_invariant_list) (auto intro: staged_record_attempt)
  then show ?thesis
    by (auto simp: dispatch_record_locked_def now_def Let_def case_prod_beta)
qed

lemma staged_ack [staging]: "staged s (snd (record_action_ack_locked ack s))"
  by (auto simp: record_action_ack_locked_def now_def Let_def split: option.split)

lemma staged_result [staging]: "staged s (snd (record_action_result_locked result s))"
proof -
  have claim: "staged s0 x \<Longrightarrow> staged s0 (record_claim result i x)" for s0 x i
    by (auto simp: record_claim_def stage_resource_def Let_def split: option.split)
  show ?thesis
    by (auto simp: record_action_result_locked_def now_def Let_def split: option.split intro!: claim)
qed

lemma staged_settle_fault: "staged s0 s \<Longrightarrow> staged s0 (settle_fault i v t s)"
  by (auto simp: settle_fault_def stage_fault_def Let_def split: option.split)

lemma staged_verify_containment [staging]:
  "verify_containment_locked g s = Some (r, s') \<Longrightarrow> staged s s'"
  by (auto simp: verify_containment_locked_def commit_verification_def now_def Let_def
      split: option.splits if_splits intro!: staged_peel staged_settle_fault)

lemma staged_degraded [staging]:
  "staged s (snd (authorize_degraded_mode_locked c s))"
  "staged s (snd (revalidate_degraded_mode_locked i s))"
  by (auto simp: authorize_degraded_mode_locked_def revalidate_degraded_mode_locked_def store_degraded_def
      allocate_degraded_id_def now_def Let_def split: option.split)

section \<open>Release and loss of authority\<close>

lemma staged_close_containment: "staged s0 s \<Longrightarrow> staged s0 (snd (close_containment g i s))"
  by (auto simp: close_containment_def clear_fault_def stage_fault_def now_def Let_def split: option.split)

lemma staged_authorize_release [staging]: "staged s (snd (authorize_release_locked request s))"
proof -
  have "staged s0 x \<Longrightarrow> staged s0 (case c of None \<Rightarrow> x | Some c \<Rightarrow> stage k h (b c) x)" for s0 x c k h b
    by (auto split: option.split)
  then show ?thesis
    by (auto simp: authorize_release_locked_def refuse_release_def now_def Let_def case_prod_beta
        split: option.split intro!: staged_peel staged_close_containment)
qed

lemma staged_lose_authority [staging]: "staged s (snd (lose_authority_locked worker boot detail t s))"
proof -
  have "staged x (lose_resource t' i x)" for t' i x
    by (auto simp: lose_resource_def stage_resource_def Let_def)
  then show ?thesis
    by (auto simp: lose_authority_locked_def now_def Let_def split: option.split
        intro!: staged_peel intro: staged_fold)
qed

end
