(* ===== verification/Fcf_Engine_Steps.thy ===== *)
theory Fcf_Engine_Steps
  imports Fcf_Engine_Staging
begin

text \<open>
  The runtime as a transition system. A \<open>Request\<close> is one locked section of a public method of
  \<open>Engine\<close> with its arguments: most methods have one, \<open>dispatch_containment\<close> has two with the
  executor's answers in between, and \<open>worker_authority_lost\<close> runs a section of its own, then
  \<open>publish_fault\<close>, a map update and \<open>authorize_containment\<close>. Concurrent callers interleave at the
  boundaries of these sections, so an invariant of the sections is an invariant of every schedule.
\<close>

section \<open>Requests\<close>

datatype Request =
    BeginEpoch u64 string
  | RegisterDomain ContainmentDomain
  | UpdateDomain ContainmentDomain TopologyGeneration
  | RemoveDomain ContainmentDomainId TopologyGeneration
  | RegisterIsolationDomain IsolationDomain
  | RemoveIsolationDomain IsolationDomainId TopologyGeneration
  | RegisterFailureDomain FailureDomain
  | RemoveFailureDomain FailureDomainId TopologyGeneration
  | RegisterResource ResourceRecord
  | UpdateResource ResourceRecord ResourceGeneration
  | RemoveResource ResourceId ResourceGeneration
  | RegisterDependency DependencyEdge
  | RemoveDependency DependencyId DependencyGeneration
  | SetPolicy ContainmentPolicy
  | PublishEvidence ResourceId ResourceGeneration EvidenceFreshness EvidenceSequence ContainmentMechanism string
  | RegisterWorker WorkerId WorkerBootId string EvidenceSequence
  | RetireWorker WorkerId WorkerBootId string
  | LoseAuthority WorkerId WorkerBootId string u64
  | NoteAuthorityLoss WorkerKey FaultId
  | PublishFault FaultEvidence
  | SupersedeFault FaultId FaultGeneration string
  | AuthorizeContainment FaultId FaultGeneration
  | DispatchBegin ContainmentGeneration bool
  | DispatchRecord "(ContainmentAction \<times> string Result) list" DispatchSummary
  | RecordAck ActionAcknowledgment
  | RecordResult ActionResult
  | VerifyContainment ContainmentGeneration
  | AuthorizeDegraded DegradedModeContract
  | RevalidateDegraded DegradedModeId
  | RequestRelease ReleaseRequest
  | AuthorizeRelease ReleaseRequest
  | Shutdown

definition answer :: "'a Result \<times> Impl \<Rightarrow> (Status \<times> Impl) option" where
  "answer p = Some (map_sum id (\<lambda>_. ()) (fst p), snd p)"

definition loss_answer :: "(ContainmentRecord Result + ResourceId \<times> ResourceGeneration) \<times> Impl \<Rightarrow> (Status \<times> Impl) option" where
  "loss_answer p = Some ((case fst p of Inl r \<Rightarrow> map_sum id (\<lambda>_. ()) r | Inr _ \<Rightarrow> ok_status), snd p)"

text \<open>\<open>None\<close> is an exception of the blast radius computation.\<close>

fun locked :: "Request \<Rightarrow> Impl \<Rightarrow> (Status \<times> Impl) option" where
  "locked (BeginEpoch t reason) s = answer (begin_epoch_locked t reason s)"
| "locked (RegisterDomain d) s = answer (register_domain_locked d s)"
| "locked (UpdateDomain d g) s = answer (update_domain_locked d g s)"
| "locked (RemoveDomain i g) s = answer (remove_domain_locked i g s)"
| "locked (RegisterIsolationDomain d) s = answer (register_isolation_domain_locked d s)"
| "locked (RemoveIsolationDomain i g) s = answer (remove_isolation_domain_locked i g s)"
| "locked (RegisterFailureDomain d) s = answer (register_failure_domain_locked d s)"
| "locked (RemoveFailureDomain i g) s = answer (remove_failure_domain_locked i g s)"
| "locked (RegisterResource r) s = answer (register_resource_locked r s)"
| "locked (UpdateResource r g) s = answer (update_resource_locked r g s)"
| "locked (RemoveResource i g) s = answer (remove_resource_locked i g s)"
| "locked (RegisterDependency e) s = answer (register_dependency_locked e s)"
| "locked (RemoveDependency i g) s = answer (remove_dependency_locked i g s)"
| "locked (SetPolicy p) s = answer (set_policy_locked p s)"
| "locked (PublishEvidence i g f q m src) s = answer (publish_resource_evidence_locked i g f q m src s)"
| "locked (RegisterWorker w b e q) s = answer (register_worker_locked w b e q s)"
| "locked (RetireWorker w b reason) s = answer (retire_worker_locked w b reason s)"
| "locked (LoseAuthority w b detail t) s = loss_answer (lose_authority_locked w b detail t s)"
| "locked (NoteAuthorityLoss key i) s =
     Some (ok_status, s\<lparr>im_authority_loss_faults := om_put key i (im_authority_loss_faults s)\<rparr>)"
| "locked (PublishFault e) s = answer (publish_fault_locked e s)"
| "locked (SupersedeFault i g reason) s = answer (supersede_fault_locked i g reason s)"
| "locked (AuthorizeContainment i g) s = Option.bind (authorize_containment_locked i g s) answer"
| "locked (DispatchBegin g b) s = answer (dispatch_begin_locked g b s)"
| "locked (DispatchRecord attempts summary) s = answer (dispatch_record_locked attempts summary s)"
| "locked (RecordAck ack) s = answer (record_action_ack_locked ack s)"
| "locked (RecordResult r) s = answer (record_action_result_locked r s)"
| "locked (VerifyContainment g) s = Option.bind (verify_containment_locked g s) answer"
| "locked (AuthorizeDegraded c) s = answer (authorize_degraded_mode_locked c s)"
| "locked (RevalidateDegraded i) s = answer (revalidate_degraded_mode_locked i s)"
| "locked (RequestRelease r) s = answer (request_release r s)"
| "locked (AuthorizeRelease r) s = answer (authorize_release_locked r s)"
| "locked Shutdown s = Some (ok_status, request_shutdown s)"

lemma locked_answer:
  "answer p = Some (r, s') \<Longrightarrow> snd p = s'"
  "loss_answer p' = Some (r, s') \<Longrightarrow> snd p' = s'"
  by (auto simp: answer_def loss_answer_def)

text \<open>A relation between the states before and after holds of \<open>locked\<close> if it holds of the sections.\<close>

lemma locked_cases:
  assumes run: "locked q s = Some (r, s')"
    and "\<And>t reason. P (snd (begin_epoch_locked t reason s))"
    and "\<And>d. P (snd (register_domain_locked d s))"
    and "\<And>d g. P (snd (update_domain_locked d g s))"
    and "\<And>i g. P (snd (remove_domain_locked i g s))"
    and "\<And>d. P (snd (register_isolation_domain_locked d s))"
    and "\<And>i g. P (snd (remove_isolation_domain_locked i g s))"
    and "\<And>d. P (snd (register_failure_domain_locked d s))"
    and "\<And>i g. P (snd (remove_failure_domain_locked i g s))"
    and "\<And>x. q = RegisterResource x \<Longrightarrow> P (snd (register_resource_locked x s))"
    and "\<And>x g. q = UpdateResource x g \<Longrightarrow> P (snd (update_resource_locked x g s))"
    and "\<And>i g. q = RemoveResource i g \<Longrightarrow> P (snd (remove_resource_locked i g s))"
    and "\<And>e. P (snd (register_dependency_locked e s))"
    and "\<And>i g. P (snd (remove_dependency_locked i g s))"
    and "\<And>p. P (snd (set_policy_locked p s))"
    and "\<And>i g f k m src. P (snd (publish_resource_evidence_locked i g f k m src s))"
    and "\<And>w b e k. P (snd (register_worker_locked w b e k s))"
    and "\<And>w b reason. P (snd (retire_worker_locked w b reason s))"
    and "\<And>w b detail t. P (snd (lose_authority_locked w b detail t s))"
    and "\<And>key i. P (s\<lparr>im_authority_loss_faults := om_put key i (im_authority_loss_faults s)\<rparr>)"
    and "\<And>e. P (snd (publish_fault_locked e s))"
    and "\<And>i g reason. P (snd (supersede_fault_locked i g reason s))"
    and "\<And>i g x s''. authorize_containment_locked i g s = Some (x, s'') \<Longrightarrow> P s''"
    and "\<And>g b. P (snd (dispatch_begin_locked g b s))"
    and "\<And>attempts summary. P (snd (dispatch_record_locked attempts summary s))"
    and "\<And>ack. P (snd (record_action_ack_locked ack s))"
    and "\<And>x. P (snd (record_action_result_locked x s))"
    and "\<And>g x s''. verify_containment_locked g s = Some (x, s'') \<Longrightarrow> P s''"
    and "\<And>c. P (snd (authorize_degraded_mode_locked c s))"
    and "\<And>i. P (snd (revalidate_degraded_mode_locked i s))"
    and "\<And>x. P (snd (request_release x s))"
    and "\<And>x. q = AuthorizeRelease x \<Longrightarrow> P (snd (authorize_release_locked x s))"
    and "P (request_shutdown s)"
  shows "P s'"
proof (cases q)
  case (AuthorizeContainment i g)
  with run obtain x where "authorize_containment_locked i g s = Some (x, s')"
    by (auto simp: answer_def bind_eq_Some_conv)
  then show ?thesis by (rule assms)
next
  case (VerifyContainment g)
  with run obtain x where "verify_containment_locked g s = Some (x, s')"
    by (auto simp: answer_def bind_eq_Some_conv)
  then show ?thesis by (rule assms)
next
  case Shutdown
  with run assms show ?thesis by simp
next
  case (NoteAuthorityLoss key i)
  with run assms show ?thesis by auto
qed (insert run, simp only: locked.simps, drule locked_answer, erule subst, rule assms; (assumption | rule refl)?)+

lemma staged_locked:
  assumes "locked q s = Some (r, s')"
  shows "staged s s'"
  using assms
proof (rule locked_cases)
  show "staged s (snd (request_release x s))" for x
    by (auto simp: request_release_def now_def)
  show "staged s (request_shutdown s)"
    by (auto simp: request_shutdown_def journal_def [symmetric] intro: staged_same
        simp: staged_def add_history_def now_def Let_def intro!: exI [of _ "[]"])
qed (auto intro: staging)

section \<open>Durability before acknowledgement\<close>

lemma flush_records_state:
  "flush_records ws ds s = (ok_status, s') \<Longrightarrow> \<exists>ds'. s' = s\<lparr>im_store := Some ds'\<rparr>"
  by (induction ws ds s rule: flush_records.induct) (auto split: sum.splits)

lemma complete_success:
  assumes "complete (x, s) = (Inr r, s')" and "im_store s = Some ds"
  shows "\<exists>ds'. s' = s\<lparr>im_pending := [], im_store := Some ds'\<rparr> \<and>
     ds_journal ds' = ds_journal ds @ im_pending s \<and> x = Inr r"
proof -
  obtain y where x: "x = Inr y" using assms by (cases x) auto
  obtain st t where f: "flush s = (st, t)" by (cases "flush s")
  with assms x have st: "st = ok_status" and y: "y = r" and t: "t = s'" by (auto split: sum.splits)
  from f assms(2) st t have "flush_records (im_pending s) ds (s\<lparr>im_pending := []\<rparr>) = (ok_status, s')"
    by (simp add: flush_def)
  from flush_records_ok [OF this] flush_records_state [OF this] show ?thesis using x y by auto
qed

lemma complete_append_only:
  assumes "im_store s = Some ds"
  shows "\<exists>ds' ws. im_store (snd (complete (x, s))) = Some ds' \<and> ds_journal ds' = ds_journal ds @ ws"
proof (cases x)
  case (Inl e)
  with assms show ?thesis by simp
next
  case (Inr y)
  have "im_store (snd (complete (Inr y, s))) = im_store (snd (flush s))"
    by (cases "flush s") (auto split: sum.split)
  with flush_records_prefix [of "im_pending s" ds "s\<lparr>im_pending := []\<rparr>"] assms Inr show ?thesis
    by (auto simp: flush_def)
qed

text \<open>
  The contract between a locked section and the flush: whatever only stages its records gets, from
  \<open>complete\<close>, that a success is durable and that the journal is append-only.
\<close>

locale locked_section =
  fixes run :: "Impl \<Rightarrow> ('a Result \<times> Impl) option"
  assumes stages: "run s = Some (r, s') \<Longrightarrow> staged s s'"
begin

lemma success_is_durable:
  assumes run: "run s = Some (x, t)" and success: "complete (x, t) = (Inr r, s')"
    and store: "im_store s = Some ds" and idle: "im_pending s = []"
  shows "x = Inr r \<and> im_state s' = im_state t \<and> im_pending s' = [] \<and>
     (\<exists>ds' bs. im_pending t = number (im_durable_sequence s) bs \<and> im_store s' = Some ds' \<and>
        ds_journal ds' = ds_journal ds @ im_pending t \<and>
        im_durable_sequence s' = im_durable_sequence s + of_nat (length bs))"
proof -
  have st: "staged s t" using run by (rule stages)
  with store have "im_store t = Some ds" by (simp add: staged_def)
  from complete_success [OF success this] st show ?thesis
    by (auto simp: staged_def idle)
qed

lemma append_only:
  assumes "run s = Some p" and "im_store s = Some ds"
  shows "\<exists>ds' ws. im_store (snd (complete p)) = Some ds' \<and> ds_journal ds' = ds_journal ds @ ws"
proof -
  obtain x t where p: "p = (x, t)" by (cases p)
  with assms have "im_store t = Some ds" by (metis stages staged_def)
  from complete_append_only [OF this] p show ?thesis by simp
qed

text \<open>A refusal drops whatever was staged.\<close>

lemma refusal_writes_nothing:
  assumes "run s = Some (Inl e, t)"
  shows "im_store (snd (complete (Inl e, t))) = im_store s \<and> im_pending (snd (complete (Inl e, t))) = []"
  using stages [OF assms] by (simp add: staged_def)

lemma effect_of_section: "run s = Some p \<Longrightarrow> frame (snd (complete p)) = frame (snd p)"
  by simp

end

interpretation request: locked_section "locked q" for q
  by unfold_locales (rule staged_locked)

definition serve :: "Request \<Rightarrow> Impl \<Rightarrow> (Status \<times> Impl) option" where
  "serve q s = map_option complete (locked q s)"

text \<open>
  C3. A request that is reported successful has crossed the durability boundary: with a store
  attached and no record staged before, its section itself succeeded, leaving the state \<open>t\<close>, and the
  journal has grown by exactly the records that are staged in \<open>t\<close>, payload by payload; their sequence
  numbers continue the counter without a gap, the counter stands at the last of them, and nothing is
  left staged. (An event that does not encode is never staged.)
\<close>

theorem served_success_is_durable:
  assumes "serve q s = Some (ok_status, s')" and "im_store s = Some ds" and "im_pending s = []"
  shows "\<exists>t ds' bs. locked q s = Some (ok_status, t) \<and> im_state s' = im_state t \<and>
     im_pending t = number (im_durable_sequence s) bs \<and> im_store s' = Some ds' \<and>
     ds_journal ds' = ds_journal ds @ im_pending t \<and>
     im_durable_sequence s' = im_durable_sequence s + of_nat (length bs) \<and> im_pending s' = []"
proof -
  from assms(1) obtain x t where l: "locked q s = Some (x, t)" and c: "complete (x, t) = (ok_status, s')"
    by (auto simp: serve_def)
  from request.success_is_durable [OF l c assms(2,3)] l show ?thesis by blast
qed

end
