(* ===== verification/Fcf_Engine_Follow.thy ===== *)
theory Fcf_Engine_Follow
  imports Fcf_Engine_Steps
begin

text \<open>
  What every locked section does to the fault records, to the worker registry and to the
  quarantine flags, and the properties of every interleaving that follow.
\<close>

named_theorems untouched \<open>sections that leave a component alone\<close>

section \<open>Components a section does not touch\<close>

lemma fold_field:
  assumes "\<And>x s. g (f x s) = g s"
  shows "g (fold f xs s) = g s"
  by (induction xs arbitrary: s) (simp_all add: assms)

lemma now_fields: "now s = (t, s') \<Longrightarrow> im_state s' = im_state s"
  by (auto simp: now_def)

lemma begin_epoch_untouched [untouched]:
  "rs_faults (im_state (snd (begin_epoch_locked t reason s))) = rs_faults (im_state s)"
  by (simp add: begin_epoch_locked_def advance_epoch_def Let_def)

lemma domain_sections_untouched [untouched]:
  "rs_faults (im_state (snd (update_domain_locked d g s))) = rs_faults (im_state s)"
  "rs_workers (im_state (snd (update_domain_locked d g s))) = rs_workers (im_state s)"
  "rs_faults (im_state (snd (remove_domain_locked i g s))) = rs_faults (im_state s)"
  "rs_workers (im_state (snd (remove_domain_locked i g s))) = rs_workers (im_state s)"
  by (simp_all add: update_domain_locked_def remove_domain_locked_def Let_def split: option.split)

lemma stage_known_fields [simp]:
  "rs_faults (im_state (fold stage_known_resource ms s)) = rs_faults (im_state s)"
  "rs_workers (im_state (fold stage_known_resource ms s)) = rs_workers (im_state s)"
  "rs_topology (im_state (fold stage_known_resource ms s)) = rs_topology (im_state s)"
  by (induction ms arbitrary: s)
    (simp_all add: stage_known_resource_def stage_resource_def split: option.split)

lemma register_domain_untouched [untouched]:
  "rs_faults (im_state (snd (register_domain_locked d s))) = rs_faults (im_state s)"
  "rs_workers (im_state (snd (register_domain_locked d s))) = rs_workers (im_state s)"
  by (simp_all add: register_domain_locked_def Let_def split: option.split prod.split)

lemma isolation_sections_untouched [untouched]:
  "rs_faults (im_state (snd (register_isolation_domain_locked d s))) = rs_faults (im_state s)"
  "rs_workers (im_state (snd (register_isolation_domain_locked d s))) = rs_workers (im_state s)"
  "rs_faults (im_state (snd (remove_isolation_domain_locked i g s))) = rs_faults (im_state s)"
  "rs_workers (im_state (snd (remove_isolation_domain_locked i g s))) = rs_workers (im_state s)"
  by (simp_all add: register_isolation_domain_locked_def remove_isolation_domain_locked_def Let_def
      split: option.split)

lemma failure_sections_untouched [untouched]:
  "rs_faults (im_state (snd (register_failure_domain_locked d s))) = rs_faults (im_state s)"
  "rs_workers (im_state (snd (register_failure_domain_locked d s))) = rs_workers (im_state s)"
  "rs_faults (im_state (snd (remove_failure_domain_locked i g s))) = rs_faults (im_state s)"
  "rs_workers (im_state (snd (remove_failure_domain_locked i g s))) = rs_workers (im_state s)"
  by (simp_all add: register_failure_domain_locked_def remove_failure_domain_locked_def Let_def
      split: option.split)

lemma grant_authority_fields [simp]:
  "rs_faults (im_state (grant_authority r s)) = rs_faults (im_state s)"
  "rs_topology (im_state (grant_authority r s)) = rs_topology (im_state s)"
  by (simp_all add: grant_authority_def)

lemma resource_sections_untouched [untouched]:
  "rs_faults (im_state (snd (register_resource_locked r s))) = rs_faults (im_state s)"
  "rs_faults (im_state (snd (update_resource_locked r g s))) = rs_faults (im_state s)"
  "rs_workers (im_state (snd (update_resource_locked r g s))) = rs_workers (im_state s)"
  by (simp_all add: register_resource_locked_def update_resource_locked_def now_def Let_def
      split: option.split)

lemma stage_removed_fields [simp]:
  "rs_faults (im_state (fold (\<lambda>d. stage k h (b d)) ds s)) = rs_faults (im_state s)"
  "rs_workers (im_state (fold (\<lambda>d. stage k h (b d)) ds s)) = rs_workers (im_state s)"
  "rs_topology (im_state (fold (\<lambda>d. stage k h (b d)) ds s)) = rs_topology (im_state s)"
  by (induction ds arbitrary: s) simp_all

lemma remove_resource_untouched [untouched]:
  "rs_faults (im_state (snd (remove_resource_locked i g s))) = rs_faults (im_state s)"
  "rs_workers (im_state (snd (remove_resource_locked i g s))) = rs_workers (im_state s)"
  by (simp_all add: remove_resource_locked_def Let_def split: option.split)

lemma dependency_sections_untouched [untouched]:
  "rs_faults (im_state (snd (register_dependency_locked e s))) = rs_faults (im_state s)"
  "rs_workers (im_state (snd (register_dependency_locked e s))) = rs_workers (im_state s)"
  "tp_resources (rs_topology (im_state (snd (register_dependency_locked e s)))) = resources s"
  "rs_faults (im_state (snd (remove_dependency_locked i g s))) = rs_faults (im_state s)"
  "rs_workers (im_state (snd (remove_dependency_locked i g s))) = rs_workers (im_state s)"
  "tp_resources (rs_topology (im_state (snd (remove_dependency_locked i g s)))) = resources s"
  by (simp_all add: register_dependency_locked_def remove_dependency_locked_def Let_def split: option.split)

lemma set_policy_untouched [untouched]:
  "rs_faults (im_state (snd (set_policy_locked p s))) = rs_faults (im_state s)"
  "rs_workers (im_state (snd (set_policy_locked p s))) = rs_workers (im_state s)"
  "rs_topology (im_state (snd (set_policy_locked p s))) = rs_topology (im_state s)"
  by (simp_all add: set_policy_locked_def Let_def split: sum.split)

lemma publish_evidence_untouched [untouched]:
  "rs_faults (im_state (snd (publish_resource_evidence_locked i g f k m src s))) = rs_faults (im_state s)"
  "rs_workers (im_state (snd (publish_resource_evidence_locked i g f k m src s))) = rs_workers (im_state s)"
  by (simp_all add: publish_resource_evidence_locked_def now_def Let_def split: option.split)

lemma revoke_previous_faults [simp]: "rs_faults (im_state (revoke_previous w b s)) = rs_faults (im_state s)"
  by (simp add: revoke_previous_def Let_def split: option.split)

lemma worker_sections_untouched [untouched]:
  "rs_faults (im_state (snd (register_worker_locked w b e k s))) = rs_faults (im_state s)"
  "rs_faults (im_state (snd (retire_worker_locked w b reason s))) = rs_faults (im_state s)"
  "rs_topology (im_state (snd (retire_worker_locked w b reason s))) = rs_topology (im_state s)"
  by (simp_all add: register_worker_locked_def admit_worker_def reattach_worker_def retire_worker_locked_def
      now_def Let_def split: option.split)

lemma normalize_fields: "normalize_evidence e s = (e', s') \<Longrightarrow> im_state s' = im_state s"
  by (auto simp: normalize_evidence_def allocate_fault_id_def Let_def split: if_splits)

lemma publish_fault_untouched [untouched]:
  "rs_workers (im_state (snd (publish_fault_locked e s))) = rs_workers (im_state s)"
  "rs_topology (im_state (snd (publish_fault_locked e s))) = rs_topology (im_state s)"
  by (auto simp: publish_fault_locked_def admit_fault_def count_duplicate_def now_def Let_def dest: normalize_fields
      split: option.split prod.split)

lemma supersede_fault_untouched [untouched]:
  "rs_workers (im_state (snd (supersede_fault_locked i g reason s))) = rs_workers (im_state s)"
  "rs_topology (im_state (snd (supersede_fault_locked i g reason s))) = rs_topology (im_state s)"
  by (simp_all add: supersede_fault_locked_def now_def Let_def split: option.split)

lemma plan_actions_fields [simp]:
  "rs_faults (im_state (snd (plan_actions budget f t ids c s))) = rs_faults (im_state s)"
  "rs_workers (im_state (snd (plan_actions budget f t ids c s))) = rs_workers (im_state s)"
  "rs_topology (im_state (snd (plan_actions budget f t ids c s))) = rs_topology (im_state s)"
  by (induction budget f t ids c s rule: plan_actions.induct)
    (simp_all add: allocate_action_id_def Let_def split: option.split)

lemma fence_resource_fields [simp]:
  "rs_faults (im_state (fence_resource g q t i s)) = rs_faults (im_state s)"
  "rs_workers (im_state (fence_resource g q t i s)) = rs_workers (im_state s)"
  by (simp_all add: fence_resource_def stage_resource_def Let_def split: option.split)

lemma drain_resource_fields [simp]:
  "rs_faults (im_state (drain_resource t i s)) = rs_faults (im_state s)"
  "rs_workers (im_state (drain_resource t i s)) = rs_workers (im_state s)"
  by (simp_all add: drain_resource_def stage_resource_def Let_def split: option.split)

lemma fence_fold_fields [simp]:
  "rs_faults (im_state (fold (fence_resource g q t) ids s)) = rs_faults (im_state s)"
  "rs_workers (im_state (fold (fence_resource g q t) ids s)) = rs_workers (im_state s)"
  "rs_faults (im_state (fold (drain_resource t) ids s)) = rs_faults (im_state s)"
  "rs_workers (im_state (fold (drain_resource t) ids s)) = rs_workers (im_state s)"
  by (induction ids arbitrary: s) simp_all

lemma refuse_action_fields [simp]:
  "rs_faults (im_state (snd (refuse_action e c a sm s))) = rs_faults (im_state s)"
  "rs_workers (im_state (snd (refuse_action e c a sm s))) = rs_workers (im_state s)"
  "rs_topology (im_state (snd (refuse_action e c a sm s))) = rs_topology (im_state s)"
  by (simp_all add: refuse_action_def Let_def)

lemma authorize_action_fields [simp]:
  "rs_faults (im_state (authorize_action c a s)) = rs_faults (im_state s)"
  "rs_workers (im_state (authorize_action c a s)) = rs_workers (im_state s)"
  "rs_topology (im_state (authorize_action c a s)) = rs_topology (im_state s)"
  by (simp_all add: authorize_action_def Let_def)

text \<open>What a later action sees: the state after the first one was refused or authorised.\<close>

lemma authorize_actions_Cons:
  "snd (snd (authorize_actions t c (i # ids) sm todo s)) =
     (case om_find (actions s) i of
        None \<Rightarrow> snd (snd (authorize_actions t c ids sm todo s))
      | Some a \<Rightarrow>
          if act_status a \<noteq> ActionStatus.PLANNED \<and> act_status a \<noteq> ActionStatus.AUTHORIZED then
            snd (snd (authorize_actions t c ids sm todo s))
          else (let e = revalidate_action (im_state s) c a in
            if e \<noteq> ErrorCode.OK then
              (let p = refuse_action e c (superseded e a) sm
                         (upd_state (rs_actions_update (om_put i (superseded e a))) s)
               in snd (snd (authorize_actions t c ids (fst p) todo (snd p))))
            else snd (snd (authorize_actions t c ids sm (todo @ [authorized t a])
                   (authorize_action c (authorized t a)
                     (upd_state (rs_actions_update (om_put i (authorized t a))) s))))))"
  by (simp add: Let_def case_prod_beta split: option.split)

lemma authorize_actions_fields [simp]:
  "rs_faults (im_state (snd (snd (authorize_actions t c ids sm todo s)))) = rs_faults (im_state s)"
  "rs_workers (im_state (snd (snd (authorize_actions t c ids sm todo s)))) = rs_workers (im_state s)"
  "rs_topology (im_state (snd (snd (authorize_actions t c ids sm todo s)))) = rs_topology (im_state s)"
proof (induction ids arbitrary: sm todo s)
  case (Cons i ids)
  { case 1 show ?case by (simp only: authorize_actions_Cons Let_def) (simp add: Cons split: option.split)
  next case 2 show ?case by (simp only: authorize_actions_Cons Let_def) (simp add: Cons split: option.split)
  next case 3 show ?case by (simp only: authorize_actions_Cons Let_def) (simp add: Cons split: option.split) }
qed simp_all

declare authorize_actions.simps [simp del]

lemma dispatch_begin_state:
  "snd (dispatch_begin_locked g b s) = s \<or> (\<exists>t c sm. snd (dispatch_begin_locked g b s) =
      stage_counters (snd (snd (authorize_actions t c (con_actions c) sm [] (snd (now s))))))"
proof (cases "im_shutting_down s")
  case False
  show ?thesis
    by (cases "om_find (containments s) g"; cases "now s")
      (auto simp: dispatch_begin_locked_def Let_def case_prod_beta)
qed (simp add: dispatch_begin_locked_def)

lemma dispatch_begin_untouched [untouched]:
  "rs_faults (im_state (snd (dispatch_begin_locked g b s))) = rs_faults (im_state s)"
  "rs_workers (im_state (snd (dispatch_begin_locked g b s))) = rs_workers (im_state s)"
  "rs_topology (im_state (snd (dispatch_begin_locked g b s))) = rs_topology (im_state s)"
  by (rule disjE [OF dispatch_begin_state [of g b s]], simp, force simp: now_def)+

lemma record_attempt_fields [simp]:
  "rs_faults (im_state (snd (record_attempt t a p))) = rs_faults (im_state (snd p))"
  "rs_workers (im_state (snd (record_attempt t a p))) = rs_workers (im_state (snd p))"
  "rs_topology (im_state (snd (record_attempt t a p))) = rs_topology (im_state (snd p))"
  by (simp_all add: record_attempt_def Let_def case_prod_beta split: option.split sum.split)

lemma record_attempts_fields [simp]:
  "rs_faults (im_state (snd (fold (record_attempt t) as p))) = rs_faults (im_state (snd p))"
  "rs_workers (im_state (snd (fold (record_attempt t) as p))) = rs_workers (im_state (snd p))"
  "rs_topology (im_state (snd (fold (record_attempt t) as p))) = rs_topology (im_state (snd p))"
  by (induction as arbitrary: p) simp_all

lemma dispatch_record_state:
  "snd (dispatch_record_locked as sm s) =
     stage_counters (snd (fold (record_attempt (fst (now s))) as (sm, snd (now s))))"
  by (cases "now s") (simp add: dispatch_record_locked_def Let_def case_prod_beta)

lemma dispatch_record_untouched [untouched]:
  "rs_faults (im_state (snd (dispatch_record_locked as sm s))) = rs_faults (im_state s)"
  "rs_workers (im_state (snd (dispatch_record_locked as sm s))) = rs_workers (im_state s)"
  "rs_topology (im_state (snd (dispatch_record_locked as sm s))) = rs_topology (im_state s)"
  by (simp_all add: dispatch_record_state now_def)

lemma ack_untouched [untouched]:
  "rs_faults (im_state (snd (record_action_ack_locked ack s))) = rs_faults (im_state s)"
  "rs_workers (im_state (snd (record_action_ack_locked ack s))) = rs_workers (im_state s)"
  "rs_topology (im_state (snd (record_action_ack_locked ack s))) = rs_topology (im_state s)"
  by (simp_all add: record_action_ack_locked_def now_def Let_def split: option.split)

lemma record_claim_fields [simp]:
  "rs_faults (im_state (record_claim x i s)) = rs_faults (im_state s)"
  "rs_workers (im_state (record_claim x i s)) = rs_workers (im_state s)"
  by (simp_all add: record_claim_def stage_resource_def Let_def split: option.split)

lemma result_untouched [untouched]:
  "rs_faults (im_state (snd (record_action_result_locked x s))) = rs_faults (im_state s)"
  "rs_workers (im_state (snd (record_action_result_locked x s))) = rs_workers (im_state s)"
  by (simp_all add: record_action_result_locked_def now_def Let_def split: option.split)

lemma degraded_untouched [untouched]:
  "rs_faults (im_state (snd (authorize_degraded_mode_locked c s))) = rs_faults (im_state s)"
  "rs_workers (im_state (snd (authorize_degraded_mode_locked c s))) = rs_workers (im_state s)"
  "rs_topology (im_state (snd (authorize_degraded_mode_locked c s))) = rs_topology (im_state s)"
  "rs_faults (im_state (snd (revalidate_degraded_mode_locked i s))) = rs_faults (im_state s)"
  "rs_workers (im_state (snd (revalidate_degraded_mode_locked i s))) = rs_workers (im_state s)"
  "rs_topology (im_state (snd (revalidate_degraded_mode_locked i s))) = rs_topology (im_state s)"
  by (cases "id_valid (dmc_id c)"; simp add: authorize_degraded_mode_locked_def revalidate_degraded_mode_locked_def
      allocate_degraded_id_def store_degraded_def now_def Let_def split: option.split)+

lemma request_release_untouched [untouched]: "im_state (snd (request_release x s)) = im_state s"
  by (simp add: request_release_def now_def)

lemma request_shutdown_untouched [untouched]:
  "rs_faults (im_state (request_shutdown s)) = rs_faults (im_state s)"
  "rs_workers (im_state (request_shutdown s)) = rs_workers (im_state s)"
  "rs_topology (im_state (request_shutdown s)) = rs_topology (im_state s)"
  by (simp_all add: request_shutdown_def add_history_def now_def Let_def)

lemma clear_fault_fields [simp]:
  "rs_workers (im_state (clear_fault i s)) = rs_workers (im_state s)"
  "rs_topology (im_state (clear_fault i s)) = rs_topology (im_state s)"
  by (simp_all add: clear_fault_def stage_fault_def now_def Let_def split: option.split)

lemma close_containment_fields [simp]:
  "rs_workers (im_state (snd (close_containment g i s))) = rs_workers (im_state s)"
  "rs_topology (im_state (snd (close_containment g i s))) = rs_topology (im_state s)"
  by (simp_all add: close_containment_def now_def Let_def split: option.split)

lemma stage_closed_fields [simp]:
  "rs_faults (im_state (case c of None \<Rightarrow> s | Some c \<Rightarrow> stage k h (b c) s)) = rs_faults (im_state s)"
  "rs_workers (im_state (case c of None \<Rightarrow> s | Some c \<Rightarrow> stage k h (b c) s)) = rs_workers (im_state s)"
  "rs_topology (im_state (case c of None \<Rightarrow> s | Some c \<Rightarrow> stage k h (b c) s)) = rs_topology (im_state s)"
  by (simp_all split: option.split)

lemma authorize_release_untouched [untouched]:
  "rs_workers (im_state (snd (authorize_release_locked x s))) = rs_workers (im_state s)"
  by (simp add: authorize_release_locked_def refuse_release_def now_def Let_def case_prod_beta
      split: option.split)

lemma lose_resource_fields [simp]:
  "rs_faults (im_state (lose_resource t i s)) = rs_faults (im_state s)"
  "rs_workers (im_state (lose_resource t i s)) = rs_workers (im_state s)"
  by (simp_all add: lose_resource_def stage_resource_def Let_def)

lemma lose_resources_fields [simp]:
  "rs_faults (im_state (fold (lose_resource t) ids s)) = rs_faults (im_state s)"
  "rs_workers (im_state (fold (lose_resource t) ids s)) = rs_workers (im_state s)"
  by (induction ids arbitrary: s) simp_all

lemma lose_authority_untouched [untouched]:
  "rs_faults (im_state (snd (lose_authority_locked w b detail t s))) = rs_faults (im_state s)"
  by (simp add: lose_authority_locked_def now_def Let_def split: option.split)

end
