(* ===== verification/Fcf_Engine_Invariants.thy ===== *)
theory Fcf_Engine_Invariants
  imports Fcf_Engine_Follow
begin

text \<open>
  Invariants of every interleaving: the fault lifecycle is refined by the runtime, a dead worker
  incarnation never regains authority, and no two incarnations of a worker hold authority at once.
\<close>

section \<open>Interleavings\<close>

text \<open>
  A step is one locked section, one of the three things that happen between sections (a caller
  flushes what is staged after a success, drops it after an error, or the clock is read), or the
  attachment of a store.
\<close>

inductive background :: "Impl \<Rightarrow> Impl \<Rightarrow> bool" where
  flushed: "background s (snd (flush s))"
| dropped: "background s (s\<lparr>im_pending := []\<rparr>)"
| clock: "background s (snd (now s))"

lemma background_frame: "background s s' \<Longrightarrow> frame s' = frame s"
proof (induction rule: background.induct)
  case (flushed s)
  show ?case by (rule frame_flush)
qed (simp_all add: frame_def now_def)

lemma background_complete: "background s (snd (complete (x, s)))"
proof (cases x)
  case (Inl e)
  then show ?thesis by (simp add: background.dropped)
next
  case (Inr y)
  then have "snd (complete (x, s)) = snd (flush s)" by (cases "flush s") (auto split: sum.split)
  then show ?thesis by (simp add: background.flushed)
qed

inductive step :: "Impl \<Rightarrow> Impl \<Rightarrow> bool" where
  call: "locked q s = Some (r, s') \<Longrightarrow> step s s'"
| between: "background s s' \<Longrightarrow> step s s'"
| attached: "step s (snd (attach_store store same s))"

lemma attach_frame: "frame (snd (attach_store store same s)) = frame s"
  by (simp add: attach_store_def frame_def split: option.split)

inductive reachable :: "Impl \<Rightarrow> bool" where
  constructed: "reachable (Engine_construct config)"
| stepped: "reachable s \<Longrightarrow> step s s' \<Longrightarrow> reachable s'"

inductive_cases stepE: "step s s'"

lemma served_steps: "serve q s = Some (r, s') \<Longrightarrow> step\<^sup>*\<^sup>* s s'"
proof -
  assume "serve q s = Some (r, s')"
  then obtain x t where l: "locked q s = Some (x, t)" and c: "complete (x, t) = (r, s')"
    by (auto simp: serve_def)
  have "background t s'" using background_complete [of t x] c by simp
  with step.call [OF l] step.between show ?thesis
    by (meson rtranclp.rtrancl_refl rtranclp.rtrancl_into_rtrancl)
qed

lemma step_preserves:
  assumes sections: "\<And>q s r s'. locked q s = Some (r, s') \<Longrightarrow> R s s'"
    and frames: "\<And>s s'. frame s' = frame s \<Longrightarrow> R s s'"
    and refl: "\<And>s. R s s" and trans: "\<And>a b c. R a b \<Longrightarrow> R b c \<Longrightarrow> R a c"
  shows "step\<^sup>*\<^sup>* s s' \<Longrightarrow> R s s'"
proof (induction rule: rtranclp_induct)
  case (step t u)
  from step(2) have "R t u" by (cases rule: step.cases) (auto intro: sections frames background_frame attach_frame)
  with step(3) show ?case by (rule trans)
qed (rule refl)

section \<open>Faults follow their lifecycle\<close>

definition faults_follow :: "Impl \<Rightarrow> Impl \<Rightarrow> bool" where
  "faults_follow s s' \<longleftrightarrow> (\<forall>i f. om_find (faults s) i = Some f \<longrightarrow>
     (\<exists>f'. om_find (faults s') i = Some f' \<and> is_legal_fault_transition\<^sup>*\<^sup>* (fr_state f) (fr_state f')))"

lemma faults_follow_same: "rs_faults (im_state s') = rs_faults (im_state s) \<Longrightarrow> faults_follow s s'"
  by (auto simp: faults_follow_def)

lemma faults_follow_trans [trans]: "faults_follow a b \<Longrightarrow> faults_follow b c \<Longrightarrow> faults_follow a c"
  unfolding faults_follow_def by (meson rtranclp_trans)

lemma faults_follow_put:
  assumes "rs_faults (im_state s') = om_put i f' (faults s)"
    and "\<And>f. om_find (faults s) i = Some f \<Longrightarrow> is_legal_fault_transition (fr_state f) (fr_state f')"
  shows "faults_follow s s'"
  using assms by (auto simp: faults_follow_def)

lemma faults_follow_emplace:
  assumes "rs_faults (im_state s') = om_emplace i f' (faults s)"
  shows "faults_follow s s'"
  using assms by (auto simp: faults_follow_def)

lemma legal_same [simp]: "is_legal_fault_transition a a"
  by (simp add: is_legal_fault_transition_def)

lemma publish_fault_follows: "faults_follow s (snd (publish_fault_locked e s))"
proof -
  obtain e1 s1 where n: "normalize_evidence e s = (e1, s1)" by (cases "normalize_evidence e s")
  have s1: "im_state s1 = im_state s" by (rule normalize_fields [OF n])
  have dup: "faults_follow s (record_event h k b (snd (count_duplicate i s1)))" for h k b i
    by (rule faults_follow_put [where i = i], simp add: count_duplicate_def now_def Let_def s1, simp)
  have new: "faults_follow s (snd (admit_fault e' s1))" for e'
    by (rule faults_follow_emplace) (simp add: admit_fault_def now_def Let_def s1)
  show ?thesis
    using dup new
    by (auto simp: publish_fault_locked_def n Let_def case_prod_beta faults_follow_same s1
        split: option.split)
qed

lemma supersede_fault_follows: "faults_follow s (snd (supersede_fault_locked i g reason s))"
proof (cases "om_find (faults s) i")
  case (Some f)
  show ?thesis
  proof (cases "rs_faults (im_state (snd (supersede_fault_locked i g reason s))) = faults s")
    case False
    then have legal: "is_legal_fault_transition (fr_state f) FaultState.SUPERSEDED"
      by (auto simp: supersede_fault_locked_def Some split: if_splits)
    have "\<exists>f'. rs_faults (im_state (snd (supersede_fault_locked i g reason s))) = om_put i f' (faults s) \<and>
        fr_state f' = FaultState.SUPERSEDED"
      using False
      by (auto simp: supersede_fault_locked_def Some now_def Let_def)
    with legal show ?thesis by (metis Some faults_follow_put option.inject)
  qed (rule faults_follow_same)
qed (simp add: supersede_fault_locked_def faults_follow_same)

lemma authorization_refusal_Inr:
  assumes "authorization_refusal i g st = Inr f"
  shows "om_find (rs_faults st) i = Some f" and "is_fault_current (fr_state f)" and "fr_actionable f"
  using assms by (auto simp: authorization_refusal_def split: option.splits if_splits)

lemma commit_containment_faults:
  "\<exists>f'. rs_faults (im_state (snd (commit_containment i f radius s))) = om_put i f' (faults s) \<and>
     fr_state f' = FaultState.CONTAINMENT_IN_PROGRESS"
  by (auto simp: commit_containment_def stage_fault_def now_def Let_def case_prod_beta)

lemma authorize_containment_cases:
  assumes "authorize_containment_locked i g s = Some (x, s')"
  obtains "s' = s" and "x \<noteq> Inr (projr x)"
  | f radius where "authorization_refusal i g (im_state s) = Inr f"
    and "compute_blast_radius (radius_input f
           (next_generation (rs_containment_generation (im_state s))) (im_state s)) = Some (Inr radius)"
    and "\<not> br_budget_exhausted radius"
    and "is_legal_fault_transition (fr_state f) FaultState.CONTAINMENT_IN_PROGRESS"
    and "(x, s') = commit_containment i f radius s"
  using assms by (auto simp: authorize_containment_locked_def split: sum.splits option.splits if_splits)

lemma authorize_containment_follows:
  assumes "authorize_containment_locked i g s = Some (x, s')"
  shows "faults_follow s s'"
  using assms
proof (cases rule: authorize_containment_cases)
  case (2 f radius)
  have "s' = snd (commit_containment i f radius s)" using 2(5) by (metis snd_conv)
  then obtain f' where "rs_faults (im_state s') = om_put i f' (faults s)"
    "fr_state f' = FaultState.CONTAINMENT_IN_PROGRESS"
    using commit_containment_faults [of i f radius s] by metis
  with authorization_refusal_Inr(1) [OF 2(1)] 2(4) show ?thesis
    by (auto intro: faults_follow_put)
qed (simp add: faults_follow_same)

lemma settle_fault_follows: "faults_follow s (settle_fault i v t s)"
proof (cases "om_find (faults s) i")
  case (Some f)
  show ?thesis
  proof (cases "is_legal_fault_transition (fr_state f) (verified_fault_state (cv_outcome v))")
    case True
    then show ?thesis
      by (intro faults_follow_put [where i = i], simp add: settle_fault_def stage_fault_def Some Let_def,
          simp add: Some)
  qed (simp add: settle_fault_def Some faults_follow_same)
qed (simp add: settle_fault_def faults_follow_same)

lemma verify_containment_follows:
  assumes "verify_containment_locked g s = Some (x, s')"
  shows "faults_follow s s'"
proof -
  consider "s' = s" | i v t t' where "rs_faults (im_state s') = rs_faults (im_state (settle_fault i v t t'))"
      "rs_faults (im_state t') = faults s"
    using assms
    by (auto simp: verify_containment_locked_def commit_verification_def now_def Let_def
        split: option.splits if_splits)
  then show ?thesis
  proof cases
    case (2 i v t t')
    have "faults_follow s t'" using 2(2) by (rule faults_follow_same)
    also have "faults_follow t' (settle_fault i v t t')" by (rule settle_fault_follows)
    also have "faults_follow (settle_fault i v t t') s'" using 2(1) by (rule faults_follow_same)
    finally show ?thesis .
  qed (simp add: faults_follow_same)
qed

lemma clear_fault_follows: "faults_follow s (clear_fault i s)"
proof (cases "om_find (faults s) i")
  case (Some f)
  show ?thesis
  proof (cases "is_legal_fault_transition (fr_state f) FaultState.CLEARED")
    case True
    then show ?thesis
      by (intro faults_follow_put [where i = i], simp add: clear_fault_def stage_fault_def Some now_def Let_def,
          simp add: Some)
  qed (simp add: clear_fault_def Some faults_follow_same)
qed (simp add: clear_fault_def faults_follow_same)

lemma close_containment_follows: "faults_follow s (snd (close_containment g i s))"
proof (cases "om_find (containments s) g")
  case (Some c)
  let ?c = "release_from i (fst (now s)) c"
  let ?t = "upd_state (rs_containments_update (om_put g ?c)) (snd (now s))"
  have "faults_follow s ?t" by (rule faults_follow_same) (simp add: now_def)
  also have "faults_follow ?t (clear_fault (con_fault ?c) ?t)" by (rule clear_fault_follows)
  finally have "faults_follow s (clear_fault (con_fault ?c) ?t)" .
  moreover have "faults_follow s ?t" by fact
  ultimately show ?thesis
    by (cases "now s") (simp add: close_containment_def Some Let_def)
qed (simp add: close_containment_def faults_follow_same)

lemma criterion_granted [simp]: "rel_granted (criterion n p d a) = rel_granted a"
  and deny_granted [simp]: "rel_granted (deny k t a) = rel_granted a"
  by (simp_all add: criterion_def deny_def)

lemma ReleaseAssessment_default_granted [simp]: "\<not> rel_granted ReleaseAssessment_default"
  by (simp add: ReleaseAssessment_default_def)

lemma assess_release_grants_known:
  assumes "rel_granted (assess_release st x)"
  shows "om_find (tp_resources (rs_topology st)) (rlr_resource x) \<noteq> None"
proof
  assume "om_find (tp_resources (rs_topology st)) (rlr_resource x) = None"
  with assms show False by (simp add: assess_release_def Let_def)
qed

lemma release_refused_state:
  assumes "\<not> rel_granted (assess_release (im_state s) x)"
  shows "frame (snd (authorize_release_locked x s)) =
    frame (s\<lparr>im_releases := om_put (rlr_resource x) ((assess_release (im_state s) x)
      \<lparr>rel_generation := next_generation (rs_release_generation (im_state s))\<rparr>) (im_releases s)\<rparr>)"
proof -
  have "frame (s\<lparr>im_ticks := n, im_releases := m\<rparr>) = frame (s\<lparr>im_releases := m\<rparr>)" for n m
    by (simp add: frame_def)
  with assms show ?thesis
    by (simp add: authorize_release_locked_def refuse_release_def now_def Let_def)
qed

lemma frame_stage_closed [simp]:
  "frame (case c of None \<Rightarrow> s | Some c \<Rightarrow> stage k h (b c) s) = frame s"
  by (simp split: option.split)

lemma release_granted_state:
  assumes g: "rel_granted (assess_release (im_state s) x)"
    and r: "om_find (resources s) (rlr_resource x) = Some r"
  shows "\<exists>t. frame (snd (authorize_release_locked x s)) =
      frame (snd (close_containment (rel_containment_generation (assess_release (im_state s) x)) (rlr_resource x) t)) \<and>
      (\<exists>tm. im_state t = (im_state s)\<lparr>
        rs_topology := tp_resources_update (om_put (rlr_resource x) (released_resource
          (next_generation (rs_release_generation (im_state s))) tm r)) (rs_topology (im_state s)),
        rs_topology_generation := next_generation (rs_topology_generation (im_state s)),
        rs_release_generation := next_generation (rs_release_generation (im_state s))\<rparr>)"
  by (simp add: authorize_release_locked_def g r now_def Let_def case_prod_beta, rule exI, rule conjI, rule refl,
      rule exI [of _ "cfg_clock (im_config s) (Suc (im_ticks s))"], cases "im_state s", simp)

lemma authorize_release_follows: "faults_follow s (snd (authorize_release_locked x s))"
proof (cases "rel_granted (assess_release (im_state s) x)")
  case False
  from frame_simps(9) [OF release_refused_state [OF this]] show ?thesis
    by (simp add: faults_follow_same)
next
  case True
  then obtain r where "om_find (resources s) (rlr_resource x) = Some r"
    using assess_release_grants_known by blast
  from release_granted_state [OF True this] obtain t g
    where f: "frame (snd (authorize_release_locked x s)) = frame (snd (close_containment g (rlr_resource x) t))"
      and t: "rs_faults (im_state t) = faults s" by auto
  have "faults_follow s t" using t by (rule faults_follow_same)
  also note close_containment_follows [of t g "rlr_resource x"]
  also have "faults_follow (snd (close_containment g (rlr_resource x) t)) (snd (authorize_release_locked x s))"
    using frame_simps(9) [OF f] by (simp add: faults_follow_same)
  finally show ?thesis .
qed

lemma locked_faults_follow: "locked q s = Some (r, s') \<Longrightarrow> faults_follow s s'"
  by (erule locked_cases)
    (auto simp: untouched intro: faults_follow_same publish_fault_follows supersede_fault_follows
      authorize_containment_follows verify_containment_follows authorize_release_follows)

lemma steps_faults_follow: "step\<^sup>*\<^sup>* s s' \<Longrightarrow> faults_follow s s'"
  by (erule step_preserves [rotated -1])
    (auto intro: locked_faults_follow faults_follow_trans faults_follow_same frame_simps)

lemma closed_path:
  "is_legal_fault_transition\<^sup>*\<^sup>* a b \<Longrightarrow> \<not> is_fault_current a \<Longrightarrow> \<not> is_fault_current b"
  by (induction rule: rtranclp_induct) (auto dest: not_current_transition)

lemma superseded_path:
  "is_legal_fault_transition\<^sup>*\<^sup>* a b \<Longrightarrow> a = FaultState.SUPERSEDED \<Longrightarrow> b = FaultState.SUPERSEDED"
  by (induction rule: rtranclp_induct) (auto dest: superseded_transition)

text \<open>
  C27. The runtime refines the fault lifecycle. Whatever sections run, in whatever order and
  with flushes interleaved, a recorded fault is never lost, its state moves only along chains of
  legal transitions, and a fault that is no longer current never becomes current again; a
  superseded fault stays superseded.
\<close>

theorem fault_lifecycle_refined:
  assumes "step\<^sup>*\<^sup>* s s'" and "om_find (faults s) i = Some f"
  shows "\<exists>f'. om_find (faults s') i = Some f' \<and>
     is_legal_fault_transition\<^sup>*\<^sup>* (fr_state f) (fr_state f') \<and>
     (\<not> is_fault_current (fr_state f) \<longrightarrow> \<not> is_fault_current (fr_state f')) \<and>
     (fr_state f = FaultState.SUPERSEDED \<longrightarrow> fr_state f' = FaultState.SUPERSEDED)"
proof -
  from steps_faults_follow [OF assms(1)] assms(2) obtain f' where
    f': "om_find (faults s') i = Some f'" "is_legal_fault_transition\<^sup>*\<^sup>* (fr_state f) (fr_state f')"
    unfolding faults_follow_def by blast
  with closed_path [OF f'(2)] superseded_path [OF f'(2)] show ?thesis by blast
qed

section \<open>Worker incarnations\<close>

text \<open>An incarnation that was registered and then revoked or retired.\<close>

definition dead :: "WorkerRecord \<Rightarrow> bool" where
  "dead w \<longleftrightarrow> id_valid (wr_registered_epoch w) \<and>
     (wr_state w = WorkerState.AUTHORITY_REVOKED \<or> wr_state w = WorkerState.RETIRED)"

definition dead_stay_dead :: "Impl \<Rightarrow> Impl \<Rightarrow> bool" where
  "dead_stay_dead s s' \<longleftrightarrow> (\<forall>k w. om_find (incarnations s) k = Some w \<longrightarrow> dead w \<longrightarrow>
     (\<exists>w'. om_find (incarnations s') k = Some w' \<and> dead w'))"

text \<open>Only the current boot of a worker may be registered, active or suspect.\<close>

definition sole_authority :: "Impl \<Rightarrow> bool" where
  "sole_authority s \<longleftrightarrow> (\<forall>k w. om_find (incarnations s) k = Some w \<longrightarrow>
     wr_state w \<noteq> WorkerState.AUTHORITY_REVOKED \<longrightarrow> wr_state w \<noteq> WorkerState.RETIRED \<longrightarrow>
     om_find (wreg_current_boot (rs_workers (im_state s))) (wk_worker k) = Some (wk_boot k))"

definition workers_follow :: "Impl \<Rightarrow> Impl \<Rightarrow> bool" where
  "workers_follow s s' \<longleftrightarrow> dead_stay_dead s s' \<and> (sole_authority s \<longrightarrow> sole_authority s')"

lemma workers_follow_same: "rs_workers (im_state s') = rs_workers (im_state s) \<Longrightarrow> workers_follow s s'"
  by (auto simp: workers_follow_def dead_stay_dead_def sole_authority_def)

lemma workers_follow_trans [trans]: "workers_follow a b \<Longrightarrow> workers_follow b c \<Longrightarrow> workers_follow a c"
  unfolding workers_follow_def dead_stay_dead_def by blast

text \<open>One incarnation is replaced; it may not be revived, and it stays current if it is alive.\<close>

lemma workers_follow_put:
  assumes "wreg_incarnations (rs_workers (im_state s')) = om_put k w' (incarnations s)"
    and "wreg_current_boot (rs_workers (im_state s')) = wreg_current_boot (rs_workers (im_state s))"
    and "om_find (incarnations s) k = Some w"
    and "wr_registered_epoch w' = wr_registered_epoch w"
    and "wr_state w' = wr_state w \<or> wr_state w' = WorkerState.AUTHORITY_REVOKED \<or> wr_state w' = WorkerState.RETIRED"
  shows "workers_follow s s'"
  using assms by (auto simp: workers_follow_def dead_stay_dead_def sole_authority_def dead_def)

lemma begin_epoch_workers: "workers_follow s (snd (begin_epoch_locked t reason s))"
proof -
  have "wr_registered_epoch (suspect_worker w) = wr_registered_epoch w" for w
    by (simp add: suspect_worker_def)
  moreover have "wr_state (suspect_worker w) \<in> {WorkerState.AUTHORITY_REVOKED, WorkerState.RETIRED} \<longleftrightarrow>
      wr_state w \<in> {WorkerState.AUTHORITY_REVOKED, WorkerState.RETIRED}" for w
    by (auto simp: suspect_worker_def holds_live_authority_def)
  ultimately show ?thesis
    by (auto simp: workers_follow_def dead_stay_dead_def sole_authority_def dead_def begin_epoch_locked_def
        advance_epoch_def Let_def)
qed

lemma grant_authority_workers: "workers_follow s (grant_authority r s)"
proof -
  have "workers_follow s (upd_workers (wreg_incarnations_update (om_adjust k (wr_live_authority_update f))) s)" for k f
  proof (cases "om_find (incarnations s) k")
    case (Some w)
    show ?thesis
      by (rule workers_follow_put [where k = k and w = w and w' = "wr_live_authority_update f w"])
        (simp_all add: Some om_adjust_def)
  qed (simp add: workers_follow_same om_adjust_def)
  then show ?thesis by (simp add: grant_authority_def workers_follow_same)
qed

lemma register_resource_workers: "workers_follow s (snd (register_resource_locked r s))"
proof -
  have "rs_workers (im_state (snd (register_resource_locked r s))) = rs_workers (im_state s) \<or>
      (\<exists>t r'. rs_workers (im_state (snd (register_resource_locked r s))) = rs_workers (im_state (grant_authority r' t)) \<and>
        rs_workers (im_state t) = rs_workers (im_state s))"
    by (auto simp: register_resource_locked_def now_def Let_def split: option.split intro!: exI)
  then show ?thesis
    using workers_follow_same grant_authority_workers workers_follow_trans by metis
qed

lemma retire_worker_workers: "workers_follow s (snd (retire_worker_locked w b reason s))"
proof (cases "om_find (incarnations s) (WorkerKey w b)")
  case (Some x)
  show ?thesis
  proof (cases "wr_state x = WorkerState.RETIRED")
    case False
    show ?thesis
      by (rule workers_follow_put [where k = "WorkerKey w b" and w = x,
            where w' = "x\<lparr>wr_state := WorkerState.RETIRED, wr_freshness := EvidenceFreshness.REVALIDATION_REQUIRED,
              wr_live_authority := []\<rparr>"])
        (simp_all add: retire_worker_locked_def Some False Let_def)
  qed (simp add: retire_worker_locked_def Some workers_follow_same)
qed (simp add: retire_worker_locked_def workers_follow_same)

lemma lose_authority_workers: "workers_follow s (snd (lose_authority_locked w b detail t s))"
proof (cases "om_find (incarnations s) (WorkerKey w b)")
  case (Some x)
  let ?s' = "snd (lose_authority_locked w b detail t s)"
  have "rs_workers (im_state ?s') = rs_workers (im_state s) \<or>
      (\<exists>x'. wreg_incarnations (rs_workers (im_state ?s')) = om_put (WorkerKey w b) x' (incarnations s) \<and>
        wreg_current_boot (rs_workers (im_state ?s')) = wreg_current_boot (rs_workers (im_state s)) \<and>
        wr_registered_epoch x' = wr_registered_epoch x \<and> wr_state x' = WorkerState.AUTHORITY_REVOKED)"
    by (auto simp: lose_authority_locked_def Some now_def Let_def split: option.split)
  then show ?thesis
    by (metis workers_follow_same workers_follow_put Some)
qed (simp add: lose_authority_locked_def workers_follow_same)

lemma revoke_previous_workers: "workers_follow s (revoke_previous worker boot s)"
proof (cases "om_find (wreg_current_boot (rs_workers (im_state s))) worker")
  case (Some current)
  show ?thesis
  proof (cases "om_find (incarnations s) (WorkerKey worker current)")
    case (Some w)
    note found = \<open>om_find (wreg_current_boot (rs_workers (im_state s))) worker = Some current\<close> Some
    show ?thesis
    proof (cases "current = boot")
      case False
      show ?thesis
        by (rule workers_follow_put [where k = "WorkerKey worker current" and w = w and
              w' = "w\<lparr>wr_state := WorkerState.AUTHORITY_REVOKED,
                wr_freshness := EvidenceFreshness.REVALIDATION_REQUIRED\<rparr>"])
          (simp_all add: revoke_previous_def found False Let_def)
    qed (simp add: revoke_previous_def found workers_follow_same)
  qed (simp add: revoke_previous_def Some workers_follow_same)
qed (simp add: revoke_previous_def workers_follow_same)

lemma revoke_previous_revokes:
  assumes "sole_authority s" and "om_find (incarnations (revoke_previous worker boot s)) k = Some w"
    and "wk_worker k = worker" and "wk_boot k \<noteq> boot"
  shows "wr_state w = WorkerState.AUTHORITY_REVOKED \<or> wr_state w = WorkerState.RETIRED"
proof (rule ccontr)
  assume alive: "\<not> ?thesis"
  have "workers_follow s (revoke_previous worker boot s)" by (rule revoke_previous_workers)
  with assms(1) have "sole_authority (revoke_previous worker boot s)" by (simp add: workers_follow_def)
  with assms(2) alive have "om_find (wreg_current_boot (rs_workers (im_state (revoke_previous worker boot s))))
      (wk_worker k) = Some (wk_boot k)" unfolding sole_authority_def by blast
  moreover have "wreg_current_boot (rs_workers (im_state (revoke_previous worker boot s))) =
      wreg_current_boot (rs_workers (im_state s))"
    by (simp add: revoke_previous_def Let_def split: option.split)
  ultimately have "om_find (wreg_current_boot (rs_workers (im_state s))) worker = Some (wk_boot k)"
    using assms(3) by simp
  moreover have "WorkerKey worker (wk_boot k) = k" using assms(3) by (cases k) simp
  ultimately have "wr_state w = WorkerState.AUTHORITY_REVOKED"
    using assms(2,4) by (auto simp: revoke_previous_def Let_def split: option.splits)
  with alive show False by simp
qed

lemma admit_worker_registry:
  "\<exists>w. wreg_incarnations (rs_workers (im_state (snd (admit_worker key endpoint sequence s)))) =
      om_put key w (incarnations (revoke_previous (wk_worker key) (wk_boot key) s)) \<and>
    wreg_current_boot (rs_workers (im_state (snd (admit_worker key endpoint sequence s)))) =
      om_put (wk_worker key) (wk_boot key)
        (wreg_current_boot (rs_workers (im_state (revoke_previous (wk_worker key) (wk_boot key) s)))) \<and>
    wr_state w = WorkerState.ACTIVE"
  by (simp add: admit_worker_def now_def Let_def, rule exI, rule conjI, rule refl, simp)

lemma admit_worker_workers:
  assumes new: "\<And>w. om_find (incarnations s) key = Some w \<Longrightarrow> \<not> dead w"
  shows "workers_follow s (snd (admit_worker key endpoint sequence s))"
proof -
  let ?r = "revoke_previous (wk_worker key) (wk_boot key) s"
  let ?s' = "snd (admit_worker key endpoint sequence s)"
  obtain w where inc: "wreg_incarnations (rs_workers (im_state ?s')) = om_put key w (incarnations ?r)"
    and cur: "wreg_current_boot (rs_workers (im_state ?s')) =
      om_put (wk_worker key) (wk_boot key) (wreg_current_boot (rs_workers (im_state ?r)))"
    using admit_worker_registry [of key endpoint sequence s] by blast
  have follow: "workers_follow s ?r" by (rule revoke_previous_workers)
  have "dead_stay_dead s ?s'"
    using follow new by (auto simp: workers_follow_def dead_stay_dead_def inc)
  moreover have "sole_authority ?s'" if s: "sole_authority s"
    unfolding sole_authority_def
  proof (intro allI impI)
    fix k x
    assume k: "om_find (incarnations ?s') k = Some x"
      and alive: "wr_state x \<noteq> WorkerState.AUTHORITY_REVOKED" "wr_state x \<noteq> WorkerState.RETIRED"
    show "om_find (wreg_current_boot (rs_workers (im_state ?s'))) (wk_worker k) = Some (wk_boot k)"
    proof (cases "wk_worker k = wk_worker key")
      case True
      have "wk_boot k = wk_boot key"
      proof (rule ccontr)
        assume ne: "wk_boot k \<noteq> wk_boot key"
        with k inc have "om_find (incarnations ?r) k = Some x" by (auto split: if_splits)
        from revoke_previous_revokes [OF s this True ne] alive show False by simp
      qed
      with True show ?thesis by (simp add: cur)
    next
      case False
      from follow s have "sole_authority ?r" by (simp add: workers_follow_def)
      moreover from k inc False have "om_find (incarnations ?r) k = Some x" by (auto split: if_splits)
      ultimately have "om_find (wreg_current_boot (rs_workers (im_state ?r))) (wk_worker k) = Some (wk_boot k)"
        using alive unfolding sole_authority_def by blast
      with False show ?thesis by (simp add: cur)
    qed
  qed
  ultimately show ?thesis by (simp add: workers_follow_def)
qed

lemma reattach_worker_workers:
  assumes "om_find (incarnations s) key = Some x"
  shows "workers_follow s (snd (reattach_worker key x s))"
proof (cases "wr_state x = WorkerState.SUSPECT \<and> wr_registered_epoch x \<noteq> rs_epoch (im_state s)")
  case True
  then have "\<not> dead x" by (simp add: dead_def)
  with True assms show ?thesis
    by (auto simp: workers_follow_def dead_stay_dead_def sole_authority_def reattach_worker_def now_def Let_def)
qed (auto simp: reattach_worker_def workers_follow_same)

lemma erase_unregistered_workers:
  assumes "om_find (incarnations s) key = Some x" and "\<not> id_valid (wr_registered_epoch x)"
  shows "workers_follow s (upd_workers (wreg_incarnations_update (om_erase key)) s)"
  using assms by (auto simp: workers_follow_def dead_stay_dead_def sole_authority_def dead_def)

lemma register_worker_workers: "workers_follow s (snd (register_worker_locked w b e k s))"
proof (cases "om_find (incarnations s) (WorkerKey w b)")
  case None
  have "workers_follow s (snd (admit_worker (WorkerKey w b) e k s))"
    by (rule admit_worker_workers) (simp add: None)
  with None show ?thesis by (simp add: register_worker_locked_def workers_follow_same Let_def)
next
  case (Some x)
  let ?t = "upd_workers (wreg_incarnations_update (om_erase (WorkerKey w b))) s"
  have "workers_follow s (snd (admit_worker (WorkerKey w b) e k ?t))" if "\<not> id_valid (wr_registered_epoch x)"
    by (rule workers_follow_trans [OF erase_unregistered_workers [OF Some that] admit_worker_workers]) simp
  with Some reattach_worker_workers [OF Some] show ?thesis
    by (simp add: register_worker_locked_def workers_follow_same Let_def)
qed

lemma locked_workers_follow: "locked q s = Some (r, s') \<Longrightarrow> workers_follow s s'"
proof (erule locked_cases)
  show "workers_follow s s''" if "authorize_containment_locked i g s = Some (x, s'')" for i g x s''
    using that by (cases rule: authorize_containment_cases)
      (auto simp: commit_containment_def stage_fault_def now_def Let_def case_prod_beta intro!: workers_follow_same)
  show "workers_follow s s''" if "verify_containment_locked g s = Some (x, s'')" for g x s''
    using that by (auto simp: verify_containment_locked_def commit_verification_def settle_fault_def stage_fault_def
        now_def Let_def split: option.splits if_splits intro!: workers_follow_same)
qed (auto simp: untouched begin_epoch_workers register_resource_workers register_worker_workers
    retire_worker_workers lose_authority_workers intro: workers_follow_same)

lemma steps_workers_follow: "step\<^sup>*\<^sup>* s s' \<Longrightarrow> workers_follow s s'"
  by (erule step_preserves [rotated -1])
    (auto intro: locked_workers_follow workers_follow_trans workers_follow_same frame_simps)

lemma reachable_steps: "reachable s \<Longrightarrow> \<exists>config. step\<^sup>*\<^sup>* (Engine_construct config) s"
  by (induction rule: reachable.induct) (auto intro: rtranclp.rtrancl_into_rtrancl)

lemma constructed_sole_authority: "sole_authority (Engine_construct config)"
  by (simp add: sole_authority_def Engine_construct_def add_history_def now_def RuntimeSnapshot_default_def
      WorkerRegistry_default_def Let_def)

lemma reachable_sole_authority: "reachable s \<Longrightarrow> sole_authority s"
  using reachable_steps [of s] constructed_sole_authority steps_workers_follow
  by (auto simp: workers_follow_def)

text \<open>
  C4. No split brain. In every state reached from the construction of a runtime, under any
  interleaving of sections, flushes, clock readings and attachments, at most one incarnation of a
  worker is neither revoked nor retired, and its boot is the worker's current one: of two incarnations
  that are registered, active or suspect, whether they hold live authority or wait to regain it, both
  are the same. The states a recovery rebuilds from a store are not among them: a crash that
  loses the record of the current boot but keeps the record of the incarnation, which precedes it,
  breaks this.
\<close>

theorem no_split_brain:
  assumes "reachable s"
    and "om_find (incarnations s) (WorkerKey w b) = Some x"
    and "wr_state x \<notin> {WorkerState.AUTHORITY_REVOKED, WorkerState.RETIRED}"
    and "om_find (incarnations s) (WorkerKey w b') = Some x'"
    and "wr_state x' \<notin> {WorkerState.AUTHORITY_REVOKED, WorkerState.RETIRED}"
  shows "b = b' \<and> boot_is_current (rs_workers (im_state s)) w b"
proof -
  from reachable_sole_authority [OF assms(1)] assms(2-5)
  have "om_find (wreg_current_boot (rs_workers (im_state s))) w = Some b"
    "om_find (wreg_current_boot (rs_workers (im_state s))) w = Some b'"
    unfolding sole_authority_def by fastforce+
  then show ?thesis by (simp add: boot_is_current_def)
qed

text \<open>
  C28. Fencing of incarnations is final: once a registered incarnation has been revoked or
  retired, no later section, a registration under the same boot included, gives it authority again.
\<close>

theorem dead_incarnation_stays_dead:
  assumes "step\<^sup>*\<^sup>* s s'" and "om_find (incarnations s) k = Some w" and "dead w"
  shows "\<exists>w'. om_find (incarnations s') k = Some w' \<and> \<not> holds_live_authority (wr_state w')"
proof -
  from steps_workers_follow [OF assms(1)] assms(2,3) obtain w' where
    "om_find (incarnations s') k = Some w'" "dead w'"
    unfolding workers_follow_def dead_stay_dead_def by blast
  then show ?thesis by (auto simp: dead_def holds_live_authority_def)
qed

end
