(* ===== verification/Fcf_Engine_Commit.thy ===== *)
theory Fcf_Engine_Commit
  imports Fcf_Engine_Invariants
begin

text \<open>
  What committing a containment establishes: the fences, the fault, the planned actions and the
  resources that are left alone; and that an immediate dispatch refuses none of the actions.
\<close>

section \<open>The generation of a computed radius\<close>

definition generated :: "ContainmentGeneration \<Rightarrow> Work \<Rightarrow> bool" where
  "generated g w \<longleftrightarrow> br_generation (w_radius w) = g"

lemma generated_visit_edge:
  assumes "visit_edge tp rule current e w = Some w'"
  shows "br_generation (w_radius w') = br_generation (w_radius w)"
proof -
  have "br_generation (w_radius (visit_known_destination rule current e edge destination w)) =
      br_generation (w_radius w)" for edge destination
    by (simp add: visit_known_destination_def follow_hard_edge_def follow_conditional_edge_def
        follow_unknown_edge_def push_hop_def set_outcome_def add_precautionary_def Let_def)
  with assms show ?thesis
    by (auto simp: visit_edge_def set_outcome_def Let_def split: option.splits)
qed

lemma generated_visit_edges:
  "visit_edges tp rule current es w = Some w' \<Longrightarrow> br_generation (w_radius w') = br_generation (w_radius w)"
  by (induction es arbitrary: w) (auto split: option.splits dest: generated_visit_edge)

lemma generated_propagate:
  assumes "propagate tp rule w = Some w'"
  shows "br_generation (w_radius w') = br_generation (w_radius w)"
proof -
  have "generated (br_generation (w_radius w)) w' \<and> w_frontier w' = []"
    using assms
  proof (rule propagate_invariant [where I = "generated (br_generation (w_radius w))"], goal_cases)
    case (4 w1 current rest es w3)
    then show ?case using generated_visit_edges [OF 4(4)] by (simp add: generated_def)
  qed (simp_all add: generated_def)
  then show ?thesis by (simp add: generated_def)
qed

lemma fold_radius:
  assumes "\<And>x w. br_generation (w_radius (f x w)) = br_generation (w_radius w)"
  shows "br_generation (w_radius (fold f xs w)) = br_generation (w_radius w)"
  by (induction xs arbitrary: w) (simp_all add: assms)

lemma generated_phases:
  "br_generation (w_radius (note_unresolved_groups tp subject w)) = br_generation (w_radius w)"
  "br_generation (w_radius (escalate_unresolved tp rule w)) = br_generation (w_radius w)"
  "br_generation (w_radius (enforce_exposure tp rule subject w)) = br_generation (w_radius w)"
  "br_generation (w_radius (enforce_budget rule w)) = br_generation (w_radius w)"
  "br_generation (w_radius (classify_candidates tp subject w)) = br_generation (w_radius w)"
proof -
  have steps: "br_generation (w_radius (contain_unresolved tp i w)) = br_generation (w_radius w)"
    "br_generation (w_radius (expose_unresolved tp i w)) = br_generation (w_radius w)"
    "br_generation (w_radius (widen_member tp i w)) = br_generation (w_radius w)"
    "br_generation (w_radius (classify_candidate subject r w)) = br_generation (w_radius w)" for i w r
    by (simp_all add: contain_unresolved_def expose_unresolved_def widen_member_def classify_candidate_def
        add_precautionary_def Let_def split: option.split)
  show "br_generation (w_radius (note_unresolved_groups tp subject w)) = br_generation (w_radius w)"
    by (simp add: note_unresolved_groups_def Let_def split: option.split)
  show "br_generation (w_radius (escalate_unresolved tp rule w)) = br_generation (w_radius w)"
    by (simp add: escalate_unresolved_def Let_def fold_radius steps)
  show "br_generation (w_radius (enforce_exposure tp rule subject w)) = br_generation (w_radius w)"
    by (simp add: enforce_exposure_def Let_def fold_radius steps)
  show "br_generation (w_radius (enforce_budget rule w)) = br_generation (w_radius w)"
    by (simp add: enforce_budget_def)
  show "br_generation (w_radius (classify_candidates tp subject w)) = br_generation (w_radius w)"
    by (simp add: classify_candidates_def fold_radius steps case_prod_beta)
qed

lemma generated_buckets: "br_generation (w_radius (fill_buckets w)) = br_generation (w_radius w)"
proof -
  have "br_generation (fold (bucket_classified p) es r) = br_generation r" for p es r
    by (induction es arbitrary: r) (simp_all add: bucket_classified_def Let_def)
  moreover have "br_generation (w_radius (bucket_precautionary i w)) = br_generation (w_radius w)" for i w
    by (simp add: bucket_precautionary_def)
  ultimately show ?thesis by (simp add: fill_buckets_def Let_def fold_radius)
qed

lemma generated_settle: "br_generation (w_radius (settle tp rule subject w)) = br_generation (w_radius w)"
  by (simp add: settle_def generated_phases generated_buckets)

lemma compute_generation:
  assumes "compute_blast_radius input = Some (Inr radius)"
  shows "br_generation radius = bri_generation input"
proof -
  have "br_generation (w_radius (select_actions tp rule w)) = br_generation (w_radius w)" for tp rule w
    by (simp add: select_actions_def select_enforcing_def note_protected_def Let_def)
  moreover have "br_generation (explain_radius tp rule fault w) = br_generation (w_radius w)" for tp rule fault w
    by (simp add: explain_radius_def Let_def)
  ultimately show ?thesis
    using assms
    by (auto simp: compute_blast_radius_def generated_settle initial_work_def initial_radius_def Let_def
        split: option.splits dest!: generated_propagate)
qed

section \<open>Fencing\<close>

definition fenced_by :: "ContainmentGeneration \<Rightarrow> ResourceRecord \<Rightarrow> bool" where
  "fenced_by g r \<longleftrightarrow> rr_quarantined r \<and> is_contained (rr_state r) \<and> rr_containment_generation r = g"

lemma fence_resource_find:
  "om_find (resources (fence_resource g q t i s)) j =
     (if j = i then map_option (\<lambda>r. fence_record (fence_mechanism r s) g q t r) (om_find (resources s) i)
      else om_find (resources s) j)"
  by (simp add: fence_resource_def stage_resource_def Let_def split: option.split)

lemma fence_fold_other:
  "j \<notin> set ids \<Longrightarrow> om_find (resources (fold (fence_resource g q t) ids s)) j = om_find (resources s) j"
  by (induction ids arbitrary: s) (simp_all add: fence_resource_find)

lemma fence_record_fenced: "fenced_by g (fence_record m g q t r)"
  by (simp add: fenced_by_def fence_record_def is_contained_def)

lemma fence_fold_stays:
  "om_find (resources s) j = Some r \<Longrightarrow> fenced_by g r \<Longrightarrow>
     \<exists>r'. om_find (resources (fold (fence_resource g q t) ids s)) j = Some r' \<and> fenced_by g r'"
proof (induction ids arbitrary: s r)
  case (Cons i ids)
  then show ?case
    by (cases "j = i") (auto simp: fence_resource_find fence_record_fenced)
qed simp

lemma fence_fold_member:
  "j \<in> set ids \<Longrightarrow> om_find (resources s) j = Some r \<Longrightarrow>
     \<exists>r'. om_find (resources (fold (fence_resource g q t) ids s)) j = Some r' \<and> fenced_by g r'"
proof (induction ids arbitrary: s r)
  case (Cons i ids)
  show ?case
  proof (cases "j = i")
    case True
    have "om_find (resources (fence_resource g q t i s)) j = Some (fence_record (fence_mechanism r s) g q t r)"
      using Cons.prems(2) True by (simp add: fence_resource_find)
    from fence_fold_stays [OF this fence_record_fenced] show ?thesis by simp
  next
    case False
    with Cons show ?thesis by (simp add: fence_resource_find)
  qed
qed simp

lemma drain_resource_find:
  "om_find (resources (drain_resource t i s)) j =
     (if j = i then map_option (\<lambda>r. if is_operable (rr_state r) then drain_record t r else r) (om_find (resources s) i)
      else om_find (resources s) j)"
  by (simp add: drain_resource_def stage_resource_def Let_def split: option.split)

lemma drain_fold_other:
  "j \<notin> set ids \<Longrightarrow> om_find (resources (fold (drain_resource t) ids s)) j = om_find (resources s) j"
  by (induction ids arbitrary: s) (simp_all add: drain_resource_find)

lemma drain_fold_fenced:
  "om_find (resources s) j = Some r \<Longrightarrow> fenced_by g r \<Longrightarrow>
     om_find (resources (fold (drain_resource t) ids s)) j = Some r"
proof (induction ids arbitrary: s)
  case (Cons i ids)
  have "\<not> is_operable (rr_state r)"
    using Cons.prems by (auto simp: fenced_by_def is_contained_def is_operable_def)
  with Cons show ?case by (cases "j = i") (simp_all add: drain_resource_find)
qed simp

lemma drain_fold_member:
  "j \<in> set ids \<Longrightarrow> om_find (resources s) j = Some r \<Longrightarrow>
     \<exists>r'. om_find (resources (fold (drain_resource t) ids s)) j = Some r' \<and> rr_state r' \<noteq> ResourceOperationalState.ACTIVE"
proof (induction ids arbitrary: s r)
  case (Cons i ids)
  have keep: "om_find (resources s) j = Some r \<Longrightarrow> rr_state r \<noteq> ResourceOperationalState.ACTIVE \<Longrightarrow>
      \<exists>r'. om_find (resources (fold (drain_resource t) ids s)) j = Some r' \<and> rr_state r' \<noteq> ResourceOperationalState.ACTIVE"
    for s r ids
  proof (induction ids arbitrary: s r)
    case (Cons i ids)
    let ?r = "if j = i \<and> is_operable (rr_state r) then drain_record t r else r"
    have "om_find (resources (drain_resource t i s)) j = Some ?r" "rr_state ?r \<noteq> ResourceOperationalState.ACTIVE"
      using Cons.prems by (auto simp: drain_resource_find drain_record_def)
    from Cons.IH [OF this] show ?case by simp
  qed simp
  show ?case
  proof (cases "j = i")
    case True
    let ?r = "if is_operable (rr_state r) then drain_record t r else r"
    have "om_find (resources (drain_resource t i s)) j = Some ?r" "rr_state ?r \<noteq> ResourceOperationalState.ACTIVE"
      using Cons.prems(2) True by (auto simp: drain_resource_find drain_record_def is_operable_def)
    from keep [OF this] show ?thesis by simp
  next
    case False
    with Cons show ?thesis by (simp add: drain_resource_find)
  qed
qed simp

section \<open>Planning\<close>

text \<open>The next \<open>n\<close> action identities are unused, and drawing them does not wrap around.\<close>

definition actions_fresh :: "nat \<Rightarrow> Impl \<Rightarrow> bool" where
  "actions_fresh n s \<longleftrightarrow> unat (im_next_action s) + n < 2 ^ 64 \<and>
     (\<forall>k \<in> fst ` set (actions s). id_value k < im_next_action s)"

definition drawn_ids :: "u64 \<Rightarrow> nat \<Rightarrow> ActionId list" where
  "drawn_ids v n = map (\<lambda>k. Id (v + of_nat k)) [0..<n]"

lemma drawn_ids_Suc: "drawn_ids v (Suc n) = Id v # drawn_ids (v + 1) n"
proof -
  have "[0..<Suc n] = 0 # map Suc [0..<n]" by (simp add: upt_conv_Cons map_Suc_upt del: upt_Suc)
  then show ?thesis by (simp add: drawn_ids_def algebra_simps del: upt_Suc)
qed

lemma planned_action_state:
  assumes "rs_epoch st' = rs_epoch st" and "rs_policy_generation st' = rs_policy_generation st"
    and "rs_topology_generation st' = rs_topology_generation st" and "rs_topology st' = rs_topology st"
  shows "planned_action c f i r a t st' = planned_action c f i r a t st"
  using assms by (simp add: planned_action_def plan_envelope_def)

lemma planned_action_actions [simp]:
  "planned_action (c\<lparr>con_actions := as\<rparr>) f i r a t st = planned_action c f i r a t st"
  by (simp add: planned_action_def plan_envelope_def)

lemma actions_fresh_step:
  assumes "actions_fresh (Suc n) s" and "im_next_action s' = im_next_action s + 1"
    and "fst ` set (actions s') \<subseteq> insert (Id (im_next_action s)) (fst ` set (actions s))"
  shows "actions_fresh n s'"
proof -
  have "im_next_action s \<noteq> - 1" using assms(1) by (auto simp: actions_fresh_def)
  then have u: "unat (im_next_action s + 1) = Suc (unat (im_next_action s))" by (rule unat_plus_one)
  then have "id_value k < im_next_action s + 1" if "k \<in> fst ` set (actions s')" for k
    using that assms(1,3) by (force simp: actions_fresh_def word_less_nat_alt)
  then show ?thesis using assms(1,2) u by (simp add: actions_fresh_def)
qed

lemma fresh_action_absent: "actions_fresh n s \<Longrightarrow> om_find (actions s) (Id (im_next_action s)) = None"
  unfolding om_find_None_iff actions_fresh_def by (metis Id.sel less_irrefl)

lemma drawn_ids_distinct:
  assumes "unat v + n < 2 ^ 64"
  shows "distinct (drawn_ids v n)"
proof -
  have "inj_on (\<lambda>k. Id (v + of_nat k) :: ActionId) {0..<n}"
  proof (rule inj_onI)
    fix j k assume "j \<in> {0..<n}" "k \<in> {0..<n}" "Id (v + of_nat j) = (Id (v + of_nat k) :: ActionId)"
    then have "(of_nat j :: u64) = of_nat k" and "j < 2 ^ 64" "k < 2 ^ 64" using assms by simp_all
    then show "j = k" by (simp add: word_of_nat_eq_iff take_bit_nat_eq_self)
  qed
  then show ?thesis by (simp add: drawn_ids_def distinct_map)
qed

text \<open>The resources that get an action: the registered ones, in order, until the budget is spent.\<close>

definition plan_targets :: "nat \<Rightarrow> ResourceId list \<Rightarrow> ContainmentRecord \<Rightarrow> Impl \<Rightarrow> ResourceId list" where
  "plan_targets budget ids c s =
     take (budget - length (con_actions c)) (filter (\<lambda>i. om_find (resources s) i \<noteq> None) ids)"

lemma plan_targets_length: "length (plan_targets budget ids c s) \<le> length ids"
  unfolding plan_targets_def length_take by (rule min.coboundedI1) (rule length_filter_le)

definition is_planned ::
    "ContainmentRecord \<Rightarrow> FaultRecord \<Rightarrow> u64 \<Rightarrow> RuntimeSnapshot \<Rightarrow> (ActionId, ContainmentAction) omap \<Rightarrow>
     ResourceId \<Rightarrow> ActionId \<Rightarrow> bool" where
  "is_planned c f t st m i a \<longleftrightarrow> (\<exists>r. om_find (tp_resources (rs_topology st)) i = Some r \<and>
     om_find m a = Some (planned_action c f i r a t st))"

lemma plan_actions_spec:
  assumes "actions_fresh (length ids) s"
  shows "fst (plan_actions budget f t ids c s) = c\<lparr>con_actions := con_actions c @
      drawn_ids (im_next_action s) (length (plan_targets budget ids c s))\<rparr> \<and>
    (\<forall>k. k \<notin> set (drawn_ids (im_next_action s) (length (plan_targets budget ids c s))) \<longrightarrow>
      om_find (actions (snd (plan_actions budget f t ids c s))) k = om_find (actions s) k) \<and>
    list_all2 (is_planned c f t (im_state s) (actions (snd (plan_actions budget f t ids c s))))
      (plan_targets budget ids c s) (drawn_ids (im_next_action s) (length (plan_targets budget ids c s)))"
  using assms
proof (induction ids arbitrary: c s)
  case Nil
  then show ?case by (simp add: plan_targets_def drawn_ids_def)
next
  case (Cons i ids)
  show ?case
  proof (cases "budget \<le> length (con_actions c)")
    case True
    then show ?thesis by (simp add: plan_targets_def drawn_ids_def)
  next
    case False
    show ?thesis
    proof (cases "om_find (resources s) i")
      case None
      from Cons.prems have "actions_fresh (length ids) s" by (simp add: actions_fresh_def)
      from Cons.IH [OF this] None False show ?thesis by (simp add: plan_targets_def)
    next
      case (Some r)
      let ?v = "im_next_action s"
      let ?action = "planned_action c f i r (Id ?v) t (im_state (s\<lparr>im_next_action := ?v + 1\<rparr>))"
      let ?s = "stage DurableEventKind.ACTION_UPSERT None (write_action ?action)
        (upd_state (rs_actions_update (om_emplace (Id ?v) ?action)) (s\<lparr>im_next_action := ?v + 1\<rparr>))"
      let ?c = "c\<lparr>con_actions := con_actions c @ [Id ?v]\<rparr>"
      have step: "plan_actions budget f t (i # ids) c s = plan_actions budget f t ids ?c ?s"
        using False Some by (simp add: allocate_action_id_def Let_def)
      have absent: "om_find (actions s) (Id ?v) = None"
        using fresh_action_absent [OF Cons.prems] .
      have "fst ` set (actions ?s) \<subseteq> insert (Id ?v) (fst ` set (actions s))"
        by (auto simp: om_emplace_def absent om_put_absent_set)
      then have fresh: "actions_fresh (length ids) ?s"
        by (intro actions_fresh_step [of "length ids" s]) (use Cons.prems in simp_all)
      let ?P = "plan_targets budget ids ?c ?s"
      have targets: "plan_targets budget (i # ids) c s = i # ?P"
        using False Some by (simp add: plan_targets_def Suc_diff_Suc [symmetric])
      have next_id: "im_next_action ?s = ?v + 1" by simp
      note all_three = Cons.IH [OF fresh, of ?c, unfolded next_id]
      note IH = conjunct1 [OF all_three] conjunct1 [OF conjunct2 [OF all_three]] conjunct2 [OF conjunct2 [OF all_three]]
      have "length ?P \<le> length ids" by (rule plan_targets_length)
      then have "unat ?v + Suc (length ?P) < 2 ^ 64" using Cons.prems by (simp add: actions_fresh_def)
      then have "Id ?v \<notin> set (drawn_ids (?v + 1) (length ?P))"
        using drawn_ids_distinct [of ?v "Suc (length ?P)"] by (simp add: drawn_ids_Suc)
      then have first: "om_find (actions (snd (plan_actions budget f t ids ?c ?s))) (Id ?v) = Some ?action"
        using IH(2) absent by simp
      have top: "rs_topology (im_state ?s) = rs_topology (im_state s)" by simp
      have plan: "planned_action c f j x a t (im_state ?s) = planned_action c f j x a t (im_state s)" for j x a
        by (rule planned_action_state) simp_all
      have same: "is_planned ?c f t (im_state ?s) = is_planned c f t (im_state s)"
        by (intro ext) (simp only: is_planned_def top plan planned_action_actions)
      have "is_planned c f t (im_state s) (actions (snd (plan_actions budget f t ids ?c ?s))) i (Id ?v)"
        using first Some by (simp add: is_planned_def)
      with IH(3) have all: "list_all2 (is_planned c f t (im_state s) (actions (snd (plan_actions budget f t ids ?c ?s))))
          (i # ?P) (Id ?v # drawn_ids (?v + 1) (length ?P))"
        by (simp only: same list.rel_inject)
      have others: "om_find (actions (snd (plan_actions budget f t ids ?c ?s))) k = om_find (actions s) k"
        if "k \<notin> set (Id ?v # drawn_ids (?v + 1) (length ?P))" for k
      proof -
        from that IH(2) have "om_find (actions (snd (plan_actions budget f t ids ?c ?s))) k = om_find (actions ?s) k"
          by auto
        also have "\<dots> = om_find (actions s) k" using that by simp
        finally show ?thesis .
      qed
      have ids: "drawn_ids ?v (length (i # ?P)) = Id ?v # drawn_ids (?v + 1) (length ?P)"
        by (simp only: list.size drawn_ids_Suc add_Suc_right add_0_right)
      have "?c\<lparr>con_actions := con_actions ?c @ drawn_ids (?v + 1) (length ?P)\<rparr> =
          c\<lparr>con_actions := con_actions c @ (Id ?v # drawn_ids (?v + 1) (length ?P))\<rparr>"
        by simp
      note result = trans [OF IH(1) this]
      show ?thesis unfolding step targets ids
        by (intro conjI allI impI) (rule result, erule others, rule all)
    qed
  qed
qed

section \<open>The commit\<close>

lemma fence_drain_kept:
  "rs_epoch (im_state (fence_resource g q t i s)) = rs_epoch (im_state s)"
  "rs_policy (im_state (fence_resource g q t i s)) = rs_policy (im_state s)"
  "rs_policy_generation (im_state (fence_resource g q t i s)) = rs_policy_generation (im_state s)"
  "rs_containments (im_state (fence_resource g q t i s)) = rs_containments (im_state s)"
  "rs_actions (im_state (fence_resource g q t i s)) = rs_actions (im_state s)"
  "im_next_action (fence_resource g q t i s) = im_next_action s"
  "rs_epoch (im_state (drain_resource t i s)) = rs_epoch (im_state s)"
  "rs_policy (im_state (drain_resource t i s)) = rs_policy (im_state s)"
  "rs_policy_generation (im_state (drain_resource t i s)) = rs_policy_generation (im_state s)"
  "rs_containments (im_state (drain_resource t i s)) = rs_containments (im_state s)"
  "rs_actions (im_state (drain_resource t i s)) = rs_actions (im_state s)"
  "im_next_action (drain_resource t i s) = im_next_action s"
  by (simp_all add: fence_resource_def drain_resource_def stage_resource_def Let_def split: option.split)

lemma fence_drain_fold_kept [simp]:
  "rs_epoch (im_state (fold (fence_resource g q t) ids s)) = rs_epoch (im_state s)"
  "rs_policy (im_state (fold (fence_resource g q t) ids s)) = rs_policy (im_state s)"
  "rs_policy_generation (im_state (fold (fence_resource g q t) ids s)) = rs_policy_generation (im_state s)"
  "rs_containments (im_state (fold (fence_resource g q t) ids s)) = rs_containments (im_state s)"
  "rs_actions (im_state (fold (fence_resource g q t) ids s)) = rs_actions (im_state s)"
  "im_next_action (fold (fence_resource g q t) ids s) = im_next_action s"
  "rs_epoch (im_state (fold (drain_resource t) ids s)) = rs_epoch (im_state s)"
  "rs_policy (im_state (fold (drain_resource t) ids s)) = rs_policy (im_state s)"
  "rs_policy_generation (im_state (fold (drain_resource t) ids s)) = rs_policy_generation (im_state s)"
  "rs_containments (im_state (fold (drain_resource t) ids s)) = rs_containments (im_state s)"
  "rs_actions (im_state (fold (drain_resource t) ids s)) = rs_actions (im_state s)"
  "im_next_action (fold (drain_resource t) ids s) = im_next_action s"
  by (induction ids arbitrary: s) (simp_all add: fence_drain_kept)

lemma plan_actions_kept [simp]:
  "rs_epoch (im_state (snd (plan_actions budget f t ids c s))) = rs_epoch (im_state s)"
  "rs_policy (im_state (snd (plan_actions budget f t ids c s))) = rs_policy (im_state s)"
  "rs_policy_generation (im_state (snd (plan_actions budget f t ids c s))) = rs_policy_generation (im_state s)"
  "rs_topology_generation (im_state (snd (plan_actions budget f t ids c s))) = rs_topology_generation (im_state s)"
  "rs_containments (im_state (snd (plan_actions budget f t ids c s))) = rs_containments (im_state s)"
  by (induction budget f t ids c s rule: plan_actions.induct)
    (simp_all add: allocate_action_id_def Let_def split: option.split)

definition committing :: "FaultId \<Rightarrow> FaultRecord \<Rightarrow> BlastRadius \<Rightarrow> u64 \<Rightarrow> FaultRecord" where
  "committing i f radius t = f\<lparr>fr_state := FaultState.CONTAINMENT_IN_PROGRESS,
     fr_containment_generation := br_generation radius, fr_last_updated_ms := t\<rparr>"

definition fenced_state :: "FaultId \<Rightarrow> FaultRecord \<Rightarrow> BlastRadius \<Rightarrow> Impl \<Rightarrow> Impl" where
  "fenced_state i f radius s =
     fold (drain_resource (fst (now s))) (br_precautionary radius)
       (fold (fence_resource (br_generation radius) (outcome_quarantines (br_recommended radius)) (fst (now s)))
         (br_mandatory radius)
         (upd_state (rs_faults_update (om_put i (committing i f radius (fst (now s))))) (snd (now s))))"

definition planned_state :: "FaultId \<Rightarrow> FaultRecord \<Rightarrow> BlastRadius \<Rightarrow> Impl \<Rightarrow> ContainmentRecord \<times> Impl" where
  "planned_state i f radius s =
     plan_actions (action_budget (rule_for (rs_policy (im_state s)) (fe_kind (fr_evidence f)))
         (rs_policy (im_state (fenced_state i f radius s))))
       (committing i f radius (fst (now s))) (fst (now s)) (br_mandatory radius)
       (new_containment i f radius (fst (now s)) (im_state s)) (fenced_state i f radius s)"

lemma new_containment_fields [simp]:
  "con_generation (new_containment i f radius t st) = br_generation radius"
  "con_outcome (new_containment i f radius t st) = br_recommended radius"
  "con_mandatory (new_containment i f radius t st) = br_mandatory radius"
  "con_precautionary (new_containment i f radius t st) = br_precautionary radius"
  "con_fault (new_containment i f radius t st) = i"
  "con_status (new_containment i f radius t st) = ContainmentStatus.COMMITTED"
  "con_actions (new_containment i f radius t st) = []"
  by (simp_all add: new_containment_def ContainmentRecord_default_def)

lemma now_state [simp]: "im_state (snd (now s)) = im_state s" "im_next_action (snd (now s)) = im_next_action s"
  by (simp_all add: now_def)

definition committed :: "FaultId \<Rightarrow> FaultRecord \<Rightarrow> BlastRadius \<Rightarrow> Impl \<Rightarrow> ContainmentRecord" where
  "committed i f radius s = (fst (planned_state i f radius s))\<lparr>con_degraded_status :=
     dma_status (assess_degraded_mode (im_state (snd (planned_state i f radius s))) None id_invalid (fst (now s)))\<rparr>"

lemma commit_containment_state:
  "fst (commit_containment i f radius s) = Inr (committed i f radius s)"
  "containments (snd (commit_containment i f radius s)) =
     om_emplace (con_generation (fst (planned_state i f radius s))) (committed i f radius s) (containments s)"
  "resources (snd (commit_containment i f radius s)) = resources (fenced_state i f radius s)"
  "actions (snd (commit_containment i f radius s)) = actions (snd (planned_state i f radius s))"
  "faults (snd (commit_containment i f radius s)) = om_put i (committing i f radius (fst (now s))) (faults s)"
proof -
  note parts = commit_containment_def committed_def planned_state_def fenced_state_def committing_def Let_def case_prod_beta
  have gen: "con_generation (new_containment i f radius t st) = br_generation radius" for t st by simp
  show "fst (commit_containment i f radius s) = Inr (committed i f radius s)"
    by (simp add: parts)
  show "containments (snd (commit_containment i f radius s)) =
      om_emplace (con_generation (fst (planned_state i f radius s))) (committed i f radius s) (containments s)"
    by (simp add: parts stage_fault_def)
  show "resources (snd (commit_containment i f radius s)) = resources (fenced_state i f radius s)"
    by (simp add: parts stage_fault_def)
  show "actions (snd (commit_containment i f radius s)) = actions (snd (planned_state i f radius s))"
    by (simp add: parts stage_fault_def)
  show "faults (snd (commit_containment i f radius s)) = om_put i (committing i f radius (fst (now s))) (faults s)"
    by (simp add: parts stage_fault_def)
qed

lemma plan_actions_step:
  obtains "plan_actions b f t (i # ids) c s = (c, s)"
  | "plan_actions b f t (i # ids) c s = plan_actions b f t ids c s"
  | s' where "length (con_actions c) < b"
    and "plan_actions b f t (i # ids) c s =
      plan_actions b f t ids (c\<lparr>con_actions := con_actions c @ [Id (im_next_action s)]\<rparr>) s'"
proof (cases "b \<le> length (con_actions c) \<or> om_find (resources s) i = None")
  case True
  then show ?thesis by (rule disjE) (rule that(1), simp, cases "b \<le> length (con_actions c)", rule that(1), simp, rule that(2), simp)
next
  case False
  then obtain r where "om_find (resources s) i = Some r" by blast
  with False that(3) show ?thesis by (force simp: allocate_action_id_def Let_def)
qed

lemma plan_actions_record [simp]:
  "con_generation (fst (plan_actions b f t ids c s)) = con_generation c"
  "con_mandatory (fst (plan_actions b f t ids c s)) = con_mandatory c"
  "con_precautionary (fst (plan_actions b f t ids c s)) = con_precautionary c"
  "con_fault (fst (plan_actions b f t ids c s)) = con_fault c"
  "con_status (fst (plan_actions b f t ids c s)) = con_status c"
  "con_outcome (fst (plan_actions b f t ids c s)) = con_outcome c"
proof (induction ids arbitrary: c s)
  case (Cons i ids)
  { case 1 show ?case by (rule plan_actions_step [of b f t i ids c s]) (simp_all add: Cons)
  next case 2 show ?case by (rule plan_actions_step [of b f t i ids c s]) (simp_all add: Cons)
  next case 3 show ?case by (rule plan_actions_step [of b f t i ids c s]) (simp_all add: Cons)
  next case 4 show ?case by (rule plan_actions_step [of b f t i ids c s]) (simp_all add: Cons)
  next case 5 show ?case by (rule plan_actions_step [of b f t i ids c s]) (simp_all add: Cons)
  next case 6 show ?case by (rule plan_actions_step [of b f t i ids c s]) (simp_all add: Cons) }
qed simp_all

lemma plan_actions_budget:
  "length (con_actions (fst (plan_actions b f t ids c s))) \<le> max b (length (con_actions c))"
proof (induction ids arbitrary: c s)
  case (Cons i ids)
  show ?case
  proof (rule plan_actions_step [of b f t i ids c s], goal_cases)
    case (3 s')
    then show ?case
      using Cons [of "c\<lparr>con_actions := con_actions c @ [Id (im_next_action s)]\<rparr>" s'] by simp
  qed (simp_all add: Cons)
qed simp

lemma committed_fields [simp]:
  "con_generation (committed i f radius s) = br_generation radius"
  "con_mandatory (committed i f radius s) = br_mandatory radius"
  "con_precautionary (committed i f radius s) = br_precautionary radius"
  "con_fault (committed i f radius s) = i"
  "con_status (committed i f radius s) = ContainmentStatus.COMMITTED"
  "con_outcome (committed i f radius s) = br_recommended radius"
  by (simp_all add: committed_def planned_state_def)

lemma fenced_state_other:
  "j \<notin> set (br_mandatory radius) \<Longrightarrow> j \<notin> set (br_precautionary radius) \<Longrightarrow>
     om_find (resources (fenced_state i f radius s)) j = om_find (resources s) j"
  by (simp add: fenced_state_def fence_fold_other drain_fold_other)

lemma fenced_state_mandatory:
  assumes "j \<in> set (br_mandatory radius)" and "om_find (resources s) j = Some r"
  shows "\<exists>r'. om_find (resources (fenced_state i f radius s)) j = Some r' \<and> fenced_by (br_generation radius) r'"
proof -
  let ?s = "upd_state (rs_faults_update (om_put i (committing i f radius (fst (now s))))) (snd (now s))"
  have "om_find (resources ?s) j = Some r" using assms(2) by simp
  from fence_fold_member [OF assms(1) this] show ?thesis
    unfolding fenced_state_def using drain_fold_fenced by blast
qed

lemma fenced_state_precautionary:
  assumes "j \<in> set (br_precautionary radius)" and "om_find (resources s) j = Some r"
  shows "\<exists>r'. om_find (resources (fenced_state i f radius s)) j = Some r' \<and>
     rr_state r' \<noteq> ResourceOperationalState.ACTIVE"
proof -
  have keys: "om_find (resources (fold (fence_resource g q t) ids s)) j \<noteq> None" if "om_find (resources s) j \<noteq> None" for g q t ids s
    using that
  proof (induction ids arbitrary: s)
    case (Cons a ids)
    have "om_find (resources (fence_resource g q t a s)) j \<noteq> None"
      using Cons.prems by (auto simp: fence_resource_find)
    then show ?case by (simp only: fold_simps) (rule Cons.IH)
  qed simp
  let ?s = "upd_state (rs_faults_update (om_put i (committing i f radius (fst (now s))))) (snd (now s))"
  have "om_find (resources ?s) j \<noteq> None" using assms(2) by simp
  from keys [OF this] show ?thesis
    unfolding fenced_state_def using drain_fold_member [OF assms(1)] by blast
qed

lemma authorize_containment_success:
  assumes "authorize_containment i g s = Some (Inr c, s')"
  obtains f radius where "om_find (faults s) i = Some f" and "is_fault_current (fr_state f)"
    and "compute_blast_radius (radius_input f (br_generation radius) (im_state s)) = Some (Inr radius)"
    and "br_generation radius = next_generation (rs_containment_generation (im_state s))"
    and "\<not> br_budget_exhausted radius" and "c = committed i f radius s"
    and "frame s' = frame (snd (commit_containment i f radius s))"
    and "(Inr c, s') = complete (commit_containment i f radius s)"
proof -
  obtain x t where locked: "authorize_containment_locked i g s = Some (x, t)" and completes: "complete (x, t) = (Inr c, s')"
    using assms by (auto simp: authorize_containment_def)
  then have x: "x = Inr c" by (cases x) (auto split: prod.splits sum.splits)
  show thesis
    using locked
  proof (cases rule: authorize_containment_cases)
    case (2 f radius)
    note gen = compute_generation [OF 2(2)]
    have "c = committed i f radius s" using 2(5) x commit_containment_state(1) [of i f radius s] by (metis fst_conv sum.inject(2))
    moreover have "frame s' = frame (snd (commit_containment i f radius s))"
      using frame_complete [of "(x, t)"] 2(5) completes by (metis snd_conv)
    ultimately show ?thesis
      using that [of f radius] 2 gen authorization_refusal_Inr [OF 2(1)] completes
      by (simp add: radius_input_def)
  qed (use x in simp)
qed

text \<open>
  C1. A committed containment holds at once: authorizing it succeeds only with the scope of a
  blast radius computed, within its budget, on the state the fault was current in; every registered
  mandatory resource is then quarantined under the new containment generation, no registered
  precautionary resource is left active, the fault is being contained, and no other resource is
  touched.
\<close>

theorem committed_containment_fences:
  assumes "authorize_containment i g s = Some (Inr c, s')"
  shows "con_generation c = next_generation (rs_containment_generation (im_state s)) \<and>
    (\<exists>f radius. om_find (faults s) i = Some f \<and>
       compute_blast_radius (radius_input f (con_generation c) (im_state s)) = Some (Inr radius) \<and>
       \<not> br_budget_exhausted radius \<and> con_mandatory c = br_mandatory radius \<and>
       con_precautionary c = br_precautionary radius) \<and>
    (\<exists>f. om_find (faults s') i = Some f \<and> fr_state f = FaultState.CONTAINMENT_IN_PROGRESS \<and>
       fr_containment_generation f = con_generation c) \<and>
    (\<forall>j r. j \<in> set (con_mandatory c) \<longrightarrow> om_find (resources s) j = Some r \<longrightarrow>
       (\<exists>r'. om_find (resources s') j = Some r' \<and> fenced_by (con_generation c) r')) \<and>
    (\<forall>j r. j \<in> set (con_precautionary c) \<longrightarrow> om_find (resources s) j = Some r \<longrightarrow>
       (\<exists>r'. om_find (resources s') j = Some r' \<and> rr_state r' \<noteq> ResourceOperationalState.ACTIVE)) \<and>
    (\<forall>j. j \<notin> set (con_mandatory c) \<longrightarrow> j \<notin> set (con_precautionary c) \<longrightarrow>
       om_find (resources s') j = om_find (resources s) j)"
proof -
  from assms obtain f radius where f: "om_find (faults s) i = Some f"
    and radius: "compute_blast_radius (radius_input f (br_generation radius) (im_state s)) = Some (Inr radius)"
    and gen: "br_generation radius = next_generation (rs_containment_generation (im_state s))"
    and budget: "\<not> br_budget_exhausted radius" and c: "c = committed i f radius s"
    and frame: "frame s' = frame (snd (commit_containment i f radius s))"
    by (rule authorize_containment_success)
  have faults: "om_find (faults s') i = Some (committing i f radius (fst (now s)))"
    by (simp add: frame_simps [OF frame] commit_containment_state)
  have resources: "resources s' = resources (fenced_state i f radius s)"
    by (simp add: frame_simps [OF frame] commit_containment_state)
  show ?thesis
    unfolding resources c committed_fields gen [symmetric]
  proof (intro conjI allI impI refl)
    show "\<exists>f radius'. om_find (faults s) i = Some f \<and>
        compute_blast_radius (radius_input f (br_generation radius) (im_state s)) = Some (Inr radius') \<and>
        \<not> br_budget_exhausted radius' \<and> br_mandatory radius = br_mandatory radius' \<and>
        br_precautionary radius = br_precautionary radius'"
      using f radius budget by blast
    show "\<exists>f. om_find (faults s') i = Some f \<and> fr_state f = FaultState.CONTAINMENT_IN_PROGRESS \<and>
        fr_containment_generation f = br_generation radius"
      using faults by (simp add: committing_def)
  qed (simp_all add: fenced_state_mandatory fenced_state_precautionary fenced_state_other)
qed

text \<open>The resources the plan of a containment covers.\<close>

definition planned_targets :: "ContainmentRecord \<Rightarrow> FaultKind \<Rightarrow> Impl \<Rightarrow> ResourceId list" where
  "planned_targets c kind s =
     take (action_budget (rule_for (rs_policy (im_state s)) kind) (rs_policy (im_state s)))
       (filter (\<lambda>j. om_find (resources s) j \<noteq> None) (con_mandatory c))"

lemma registered_kept:
  "om_find (resources (fenced_state i f radius s)) j = None \<longleftrightarrow> om_find (resources s) j = None"
proof -
  have "om_find (resources (fold (fence_resource g q t) ids s)) j = None \<longleftrightarrow> om_find (resources s) j = None" for g q t ids s
    by (induction ids arbitrary: s) (simp_all add: fence_resource_find)
  moreover have "om_find (resources (fold (drain_resource t) ids s)) j = None \<longleftrightarrow> om_find (resources s) j = None" for t ids s
    by (induction ids arbitrary: s) (simp_all add: drain_resource_find)
  ultimately show ?thesis by (simp add: fenced_state_def)
qed

lemma fenced_state_kept [simp]:
  "rs_epoch (im_state (fenced_state i f radius s)) = rs_epoch (im_state s)"
  "rs_policy (im_state (fenced_state i f radius s)) = rs_policy (im_state s)"
  "rs_policy_generation (im_state (fenced_state i f radius s)) = rs_policy_generation (im_state s)"
  "rs_containments (im_state (fenced_state i f radius s)) = rs_containments (im_state s)"
  "rs_actions (im_state (fenced_state i f radius s)) = rs_actions (im_state s)"
  "im_next_action (fenced_state i f radius s) = im_next_action s"
  "rs_faults (im_state (fenced_state i f radius s)) = om_put i (committing i f radius (fst (now s))) (rs_faults (im_state s))"
  by (simp_all add: fenced_state_def)

lemma planned_state_spec:
  fixes i f radius s
  defines "targets \<equiv> planned_targets (committed i f radius s) (fe_kind (fr_evidence f)) s"
  defines "acts \<equiv> actions (snd (planned_state i f radius s))"
  assumes "actions_fresh (length (br_mandatory radius)) s"
  shows "con_actions (committed i f radius s) = drawn_ids (im_next_action s) (length targets) \<and>
    (\<forall>k. k \<notin> set (con_actions (committed i f radius s)) \<longrightarrow> om_find acts k = om_find (actions s) k) \<and>
    list_all2 (is_planned (new_containment i f radius (fst (now s)) (im_state s)) (committing i f radius (fst (now s)))
      (fst (now s)) (im_state (fenced_state i f radius s)) acts) targets (con_actions (committed i f radius s))"
proof -
  have "actions_fresh (length (br_mandatory radius)) (fenced_state i f radius s)"
    using assms(3) by (simp add: actions_fresh_def)
  note spec = plan_actions_spec [OF this]
  have targets: "plan_targets (action_budget (rule_for (rs_policy (im_state s)) (fe_kind (fr_evidence f)))
        (rs_policy (im_state s))) (br_mandatory radius) (new_containment i f radius (fst (now s)) (im_state s))
        (fenced_state i f radius s) = targets"
    by (simp add: targets_def planned_targets_def plan_targets_def registered_kept)
  have acts: "con_actions (committed i f radius s) = drawn_ids (im_next_action s) (length targets)"
    using conjunct1 [OF spec [of "action_budget (rule_for (rs_policy (im_state s)) (fe_kind (fr_evidence f)))
        (rs_policy (im_state s))" "committing i f radius (fst (now s))" "fst (now s)"
        "new_containment i f radius (fst (now s)) (im_state s)"]]
    by (simp add: committed_def planned_state_def targets)
  show ?thesis
    unfolding acts
    using conjunct2 [OF spec [of "action_budget (rule_for (rs_policy (im_state s)) (fe_kind (fr_evidence f)))
        (rs_policy (im_state s))" "committing i f radius (fst (now s))" "fst (now s)"
        "new_containment i f radius (fst (now s)) (im_state s)"]]
    by (simp add: planned_state_def targets acts_def)
qed

lemma planned_action_fields [simp]:
  "act_id (planned_action c f i r a t st) = a"
  "act_target (planned_action c f i r a t st) = i"
  "act_status (planned_action c f i r a t st) = ActionStatus.PLANNED"
  "act_target_generation (planned_action c f i r a t st) = rr_generation r"
  "act_kind (planned_action c f i r a t st) = action_for_resource (con_outcome c) r"
  "act_generation (planned_action c f i r a t st) = Id 1"
  "act_envelope (planned_action c f i r a t st) = plan_envelope c f i r a t st"
  by (simp_all add: planned_action_def ContainmentAction_default_def)

text \<open>
  C26. What authorization plans: the containment is stored under its fresh generation; its actions
  are fresh consecutive identities, one for each registered mandatory resource in order until the
  action budget of the rule and of the policy is spent; each is stored as planned, for that resource
  at the generation fencing gave it, under the current epoch, with the kind the outcome selects for
  the resource; and no other action is changed.
\<close>

theorem committed_containment_plan:
  assumes "authorize_containment i g s = Some (Inr c, s')"
    and "actions_fresh (length (con_mandatory c)) s"
    and "om_find (containments s) (con_generation c) = None"
  shows "om_find (containments s') (con_generation c) = Some c \<and>
    (\<exists>f. om_find (faults s) i = Some f \<and>
       con_actions c = drawn_ids (im_next_action s) (length (planned_targets c (fe_kind (fr_evidence f)) s)) \<and>
       list_all2 (\<lambda>j a. \<exists>r act. om_find (resources s') j = Some r \<and> om_find (actions s') a = Some act \<and>
           act_id act = a \<and> act_target act = j \<and> act_status act = ActionStatus.PLANNED \<and>
           act_target_generation act = rr_generation r \<and>
           act_kind act = action_for_resource (con_outcome c) r \<and>
           env_epoch (act_envelope act) = rs_epoch (im_state s))
         (planned_targets c (fe_kind (fr_evidence f)) s) (con_actions c)) \<and>
    (\<forall>a. a \<notin> set (con_actions c) \<longrightarrow> om_find (actions s') a = om_find (actions s) a)"
proof -
  from assms(1) obtain f radius where f: "om_find (faults s) i = Some f" and c: "c = committed i f radius s"
    and frame: "frame s' = frame (snd (commit_containment i f radius s))"
    by (rule authorize_containment_success)
  have "actions_fresh (length (br_mandatory radius)) s" using assms(2) c by simp
  note spec = planned_state_spec [OF this, of i f]
  have stored: "om_find (containments s') (con_generation c) = Some c"
    using assms(3) c by (simp add: frame_simps [OF frame] commit_containment_state planned_state_def om_emplace_def)
  have resources: "resources s' = resources (fenced_state i f radius s)"
    by (simp add: frame_simps [OF frame] commit_containment_state)
  have acts: "actions s' = actions (snd (planned_state i f radius s))"
    by (simp add: frame_simps [OF frame] commit_containment_state)
  have "list_all2 (\<lambda>j a. \<exists>r act. om_find (resources s') j = Some r \<and> om_find (actions s') a = Some act \<and>
      act_id act = a \<and> act_target act = j \<and> act_status act = ActionStatus.PLANNED \<and>
      act_target_generation act = rr_generation r \<and>
      act_kind act = action_for_resource (con_outcome c) r \<and>
      env_epoch (act_envelope act) = rs_epoch (im_state s))
    (planned_targets c (fe_kind (fr_evidence f)) s) (con_actions c)"
    using conjunct2 [OF conjunct2 [OF spec]] unfolding c resources acts
    by (rule list_all2_mono) (auto simp: is_planned_def plan_envelope_def)
  then show ?thesis
    using stored f spec unfolding acts by (auto simp: c)
qed

end
