(* ===== verification/Fcf_Engine_Dispatched.thy ===== *)
theory Fcf_Engine_Dispatched
  imports Fcf_Engine_Commit
begin

text \<open>
  Authorizing a containment and dispatching it compose: what was planned passes the revalidation
  immediately before dispatch, so every planned action reaches the executor.
\<close>

section \<open>A planned action revalidates\<close>

lemma set_om_put_subset: "set (om_put k v m) \<subseteq> insert (k, v) (set m)"
  by (induction k v m rule: om_put.induct) auto

lemma required_generations_current:
  assumes "(k, g) \<in> set (required_generations r tp)"
  shows "\<exists>m. om_find (tp_resources tp) k = Some m \<and> rr_generation m = g"
proof -
  have "\<forall>(k, g) \<in> set (fold (\<lambda>member m. case om_find (tp_resources tp) member of
          None \<Rightarrow> m | Some mr \<Rightarrow> om_put member (rr_generation mr) m) ms m0).
      \<exists>m. om_find (tp_resources tp) k = Some m \<and> rr_generation m = g"
    if "\<forall>(k, g) \<in> set m0. \<exists>m. om_find (tp_resources tp) k = Some m \<and> rr_generation m = g" for ms m0
    using that
  proof (induction ms arbitrary: m0)
    case (Cons x ms)
    have "\<forall>(k, g) \<in> set (case om_find (tp_resources tp) x of None \<Rightarrow> m0 | Some mr \<Rightarrow> om_put x (rr_generation mr) m0).
        \<exists>m. om_find (tp_resources tp) k = Some m \<and> rr_generation m = g"
      using Cons.prems set_om_put_subset [of x _ m0] by (fastforce split: option.splits)
    from Cons.IH [OF this] show ?case by (simp only: fold_simps)
  qed simp
  note current = this [of "[]"]
  from assms obtain ms where "(k, g) \<in> set (fold (\<lambda>member m. case om_find (tp_resources tp) member of
      None \<Rightarrow> m | Some mr \<Rightarrow> om_put member (rr_generation mr) m) ms [])"
    by (cases "om_find (tp_containment_domains tp) (rr_containment_domain r)";
        cases "id_valid (rr_containment_domain r)") (auto simp: required_generations_def)
  with current [of ms] show ?thesis by auto
qed

lemma revalidate_required_current:
  assumes "\<And>k g. (k, g) \<in> set required \<Longrightarrow> \<exists>m. om_find rs k = Some m \<and> rr_generation m = g"
  shows "revalidate_required rs required = ErrorCode.OK"
proof -
  have "find (\<lambda>(i, g). case om_find rs i of None \<Rightarrow> True | Some r \<Rightarrow> rr_generation r \<noteq> g) required = None"
    using assms by (fastforce simp: find_None_iff)
  then show ?thesis by (simp add: revalidate_required_def)
qed

lemma planned_action_revalidates:
  assumes "rs_epoch st' = rs_epoch st" and "rs_policy_generation st' = rs_policy_generation st"
    and "rs_topology_generation st' = rs_topology_generation st" and "rs_topology st' = rs_topology st"
    and "con_generation c' = con_generation c" and "con_fault c' = con_fault c"
    and "om_find (rs_faults st') (con_fault c) = Some f" and "is_fault_current (fr_state f)"
    and "om_find (tp_resources (rs_topology st)) j = Some r"
  shows "revalidate_action st' c' (planned_action c f j r a t st) = ErrorCode.OK"
  using assms
  by (simp add: revalidate_action_def plan_envelope_def Let_def)
    (blast intro: revalidate_required_current required_generations_current)

lemma revalidate_action_state:
  assumes "rs_epoch st' = rs_epoch st" and "rs_policy_generation st' = rs_policy_generation st"
    and "rs_topology_generation st' = rs_topology_generation st" and "rs_topology st' = rs_topology st"
    and "rs_faults st' = rs_faults st"
  shows "revalidate_action st' c a = revalidate_action st c a"
  unfolding revalidate_action_def assms ..

section \<open>The two loops of a dispatch\<close>

definition current_view :: "RuntimeSnapshot \<Rightarrow> CoordinatorEpoch \<times> PolicyGeneration \<times> TopologyGeneration \<times> Topology \<times>
    (FaultId, FaultRecord) omap" where
  "current_view st = (rs_epoch st, rs_policy_generation st, rs_topology_generation st, rs_topology st, rs_faults st)"

lemma revalidate_action_view:
  "current_view st' = current_view st \<Longrightarrow> revalidate_action st' c a = revalidate_action st c a"
  by (rule revalidate_action_state) (simp_all add: current_view_def)

lemma store_kept [simp]:
  "im_store (stage k h b s) = im_store s"
  "im_store (record_event e k b s) = im_store s"
  "im_store (stage_counters s) = im_store s"
proof -
  show stage: "im_store (stage k h b s) = im_store s" for k h b s by (simp add: stage_def split: option.split)
  show "im_store (record_event e k b s) = im_store s"
    by (simp add: record_event_def stage add_history_def now_def Let_def)
  show "im_store (stage_counters s) = im_store s" by (simp add: stage_counters_def stage)
qed

lemma authorize_actions_planned:
  assumes "distinct ids"
    and "\<And>i. i \<in> set ids \<Longrightarrow> \<exists>a. om_find (actions s) i = Some a \<and> act_id a = i \<and>
      act_status a = ActionStatus.PLANNED \<and> revalidate_action (im_state s) c a = ErrorCode.OK"
  shows "\<exists>s'. authorize_actions t c ids sm todo s =
      (sm, todo @ map (\<lambda>i. authorized t (the (om_find (actions s) i))) ids, s') \<and>
    current_view (im_state s') = current_view (im_state s) \<and> im_store s' = im_store s \<and>
    im_shutting_down s' = im_shutting_down s \<and>
    (\<forall>i. om_find (actions s') i = (if i \<in> set ids then map_option (authorized t) (om_find (actions s) i)
                               else om_find (actions s) i))"
  using assms
proof (induction ids arbitrary: todo s)
  case Nil
  then show ?case by (simp add: authorize_actions.simps)
next
  case (Cons i ids)
  obtain a where a: "om_find (actions s) i = Some a" "act_status a = ActionStatus.PLANNED"
    "revalidate_action (im_state s) c a = ErrorCode.OK"
    using Cons.prems(2) [of i] by auto
  define s1 where "s1 = authorize_action c (authorized t a) (upd_state (rs_actions_update (om_put i (authorized t a))) s)"
  have acts: "actions s1 = om_put i (authorized t a) (actions s)"
    and view: "current_view (im_state s1) = current_view (im_state s)"
    and store: "im_store s1 = im_store s" "im_shutting_down s1 = im_shutting_down s"
    by (simp_all add: s1_def authorize_action_def current_view_def Let_def)
  have step: "authorize_actions t c (i # ids) sm todo s = authorize_actions t c ids sm (todo @ [authorized t a]) s1"
    by (simp add: authorize_actions.simps a s1_def Let_def)
  have "\<exists>a. om_find (actions s1) k = Some a \<and> act_id a = k \<and>
      act_status a = ActionStatus.PLANNED \<and> revalidate_action (im_state s1) c a = ErrorCode.OK" if "k \<in> set ids" for k
    using that Cons.prems by (auto simp: acts revalidate_action_view [OF view])
  from Cons.IH [OF _ this, of "todo @ [authorized t a]"] Cons.prems(1)
  obtain s' where s': "authorize_actions t c ids sm (todo @ [authorized t a]) s1 =
      (sm, (todo @ [authorized t a]) @ map (\<lambda>i. authorized t (the (om_find (actions s1) i))) ids, s')"
    "current_view (im_state s') = current_view (im_state s1)" "im_store s' = im_store s1"
    "im_shutting_down s' = im_shutting_down s1"
    "\<forall>k. om_find (actions s') k = (if k \<in> set ids then map_option (authorized t) (om_find (actions s1) k)
                               else om_find (actions s1) k)"
    by auto
  have "map (\<lambda>i. authorized t (the (om_find (actions s1) i))) ids = map (\<lambda>i. authorized t (the (om_find (actions s) i))) ids"
    using Cons.prems(1) by (auto simp: acts)
  then show ?case
    using s' view store Cons.prems(1) a by (auto simp: step acts)
qed

text \<open>What recording an accepted attempt makes of the action.\<close>

definition dispatched :: "u64 \<Rightarrow> string \<Rightarrow> ContainmentAction \<Rightarrow> ContainmentAction" where
  "dispatched t token a = a\<lparr>act_status := ActionStatus.DISPATCHED, act_executor_token := token,
     act_dispatched_at_ms := t\<rparr>"

lemma record_attempts_accepted:
  assumes "distinct (map act_id as)"
    and "\<And>a. a \<in> set as \<Longrightarrow> om_find (actions s) (act_id a) = Some a \<and> act_status a = ActionStatus.AUTHORIZED"
  shows "\<exists>s'. fold (record_attempt t) (map (\<lambda>a. (a, Inr (token a))) as) (sm, s) =
      (sm\<lparr>dsp_dispatched := dsp_dispatched sm @ map act_id as\<rparr>, s') \<and> im_store s' = im_store s \<and>
    (\<forall>a \<in> set as. om_find (actions s') (act_id a) = Some (dispatched t (token a) a)) \<and>
    (\<forall>i. i \<notin> act_id ` set as \<longrightarrow> om_find (actions s') i = om_find (actions s) i)"
  using assms
proof (induction as arbitrary: sm s)
  case Nil
  then show ?case by simp
next
  case (Cons a as)
  have a: "om_find (actions s) (act_id a) = Some a" "act_status a = ActionStatus.AUTHORIZED"
    using Cons.prems(2) [of a] by simp_all
  let ?sm = "sm\<lparr>dsp_dispatched := dsp_dispatched sm @ [act_id a]\<rparr>"
  obtain s1 where step: "record_attempt t (a, Inr (token a)) (sm, s) = (?sm, s1)"
    and acts: "actions s1 = om_put (act_id a) (dispatched t (token a) a) (actions s)"
    and store: "im_store s1 = im_store s"
    by (simp add: record_attempt_def a Let_def dispatched_def)
  have "om_find (actions s1) (act_id b) = Some b \<and> act_status b = ActionStatus.AUTHORIZED" if "b \<in> set as" for b
    using that Cons.prems by (auto simp: acts rev_image_eqI)
  from Cons.IH [OF _ this, of ?sm] Cons.prems(1) obtain s' where s':
    "fold (record_attempt t) (map (\<lambda>a. (a, Inr (token a))) as) (?sm, s1) =
      (?sm\<lparr>dsp_dispatched := dsp_dispatched ?sm @ map act_id as\<rparr>, s')" "im_store s' = im_store s1"
    "\<forall>a \<in> set as. om_find (actions s') (act_id a) = Some (dispatched t (token a) a)"
    "\<forall>i. i \<notin> act_id ` set as \<longrightarrow> om_find (actions s') i = om_find (actions s1) i"
    by auto
  then show ?case
    using Cons.prems(1) by (auto simp: step acts store rev_image_eqI)
qed

section \<open>A store that accepts\<close>

definition accepting :: "Impl \<Rightarrow> bool" where
  "accepting s \<longleftrightarrow> (case im_store s of None \<Rightarrow> True | Some ds \<Rightarrow> ds_refuses ds = (\<lambda>_ _. None))"

lemma flush_records_accepting:
  "ds_refuses ds = (\<lambda>_ _. None) \<Longrightarrow>
     \<exists>ds'. flush_records ws ds s = (ok_status, s\<lparr>im_store := Some ds'\<rparr>) \<and> ds_refuses ds' = (\<lambda>_ _. None)"
  by (induction ws ds s rule: flush_records.induct) (auto simp: append_record_def)

lemma flush_accepting:
  assumes "accepting s"
  shows "fst (flush s) = ok_status" and "accepting (snd (flush s))"
proof -
  have "fst (flush s) = ok_status \<and> accepting (snd (flush s))"
  proof (cases "im_store s")
    case (Some ds)
    then have "ds_refuses ds = (\<lambda>_ _. None)" using assms by (simp add: accepting_def)
    from flush_records_accepting [OF this, of "im_pending s" "s\<lparr>im_pending := []\<rparr>"] Some
    show ?thesis by (auto simp: flush_def accepting_def)
  qed (simp add: flush_def accepting_def)
  then show "fst (flush s) = ok_status" "accepting (snd (flush s))" by simp_all
qed

lemma complete_accepting:
  assumes "accepting s"
  shows "complete (Inr r, s) = (Inr r, snd (flush s))"
  using flush_accepting [OF assms] by (cases "flush s") simp

section \<open>Authorize, then dispatch\<close>

lemma commit_containment_view:
  "current_view (im_state (snd (commit_containment i f radius s))) =
     current_view (im_state (fenced_state i f radius s))"
proof -
  note parts = commit_containment_def stage_fault_def Let_def case_prod_beta
  have "rs_topology_generation (im_state (snd (commit_containment i f radius s))) =
      rs_topology_generation (im_state (fenced_state i f radius s))"
    by (simp add: parts fenced_state_def committing_def)
  moreover have "rs_topology (im_state (snd (commit_containment i f radius s))) =
      rs_topology (im_state (fenced_state i f radius s))"
    by (simp add: parts fenced_state_def committing_def)
  moreover have "rs_epoch (im_state (snd (commit_containment i f radius s))) = rs_epoch (im_state s)"
    by (simp add: parts)
  moreover have "rs_policy_generation (im_state (snd (commit_containment i f radius s))) =
      rs_policy_generation (im_state s)"
    by (simp add: parts)
  ultimately show ?thesis
    by (simp add: current_view_def commit_containment_state)
qed

lemma dispatch_begin_accepts:
  assumes "\<not> im_shutting_down s" and "om_find (containments s) g = Some c" and "containment_is_live (con_status c)"
    and "authorize_actions (fst (now s)) c (con_actions c)
      \<lparr>dsp_containment_generation = g, dsp_dispatched = [], dsp_refused = [], dsp_refusals = [],
       dsp_budget_remaining = 0\<rparr> [] (snd (now s)) = (sm, todo, s1)"
  shows "dispatch_begin_locked g True s = (Inr (sm, todo), stage_counters s1)"
  using assms by (simp add: dispatch_begin_locked_def Let_def case_prod_beta)

lemma dispatch_record_accepted:
  assumes "distinct (map act_id as)"
    and "\<And>a. a \<in> set as \<Longrightarrow> om_find (actions s) (act_id a) = Some a \<and> act_status a = ActionStatus.AUTHORIZED"
  shows "\<exists>s'. dispatch_record_locked (map (\<lambda>a. (a, Inr (token a))) as) sm s =
      (Inr (sm\<lparr>dsp_dispatched := dsp_dispatched sm @ map act_id as, dsp_budget_remaining := 0\<rparr>), s') \<and>
    im_store s' = im_store s \<and>
    (\<forall>a \<in> set as. \<exists>t. om_find (actions s') (act_id a) = Some (dispatched t (token a) a))"
proof -
  have "im_store (snd (now s)) = im_store s" by (simp add: now_def)
  moreover have "actions (snd (now s)) = actions s" by simp
  ultimately show ?thesis
    using record_attempts_accepted [of as "snd (now s)" "fst (now s)" token sm] assms
    by (fastforce simp: dispatch_record_locked_def Let_def case_prod_beta)
qed

lemma frame_view:
  assumes "frame s' = frame s"
  shows "current_view (im_state s') = current_view (im_state s)"
  unfolding current_view_def by (simp only: frame_simps [OF assms])

lemma committed_actions_ready:
  assumes "authorize_containment i g s = Some (Inr c, s')"
    and "actions_fresh (length (con_mandatory c)) s"
  shows "distinct (con_actions c)"
    and "a \<in> set (con_actions c) \<Longrightarrow> \<exists>act. om_find (actions s') a = Some act \<and> act_id act = a \<and>
      act_status act = ActionStatus.PLANNED \<and> revalidate_action (im_state s') c act = ErrorCode.OK"
proof -
  from assms(1) obtain f radius where c: "c = committed i f radius s"
    and frame: "frame s' = frame (snd (commit_containment i f radius s))"
    by (rule authorize_containment_success)
  have "actions_fresh (length (br_mandatory radius)) s" using assms(2) c by simp
  note spec = planned_state_spec [OF this, of i f]
  have "length (planned_targets c (fe_kind (fr_evidence f)) s) \<le> length (con_mandatory c)"
    unfolding planned_targets_def length_take by (rule min.coboundedI1) (rule length_filter_le)
  with assms(2) have "unat (im_next_action s) + length (planned_targets c (fe_kind (fr_evidence f)) s) < 2 ^ 64"
    by (simp add: actions_fresh_def)
  with conjunct1 [OF spec] show "distinct (con_actions c)"
    by (simp only: c drawn_ids_distinct)
  let ?st = "im_state (fenced_state i f radius s)"
  have view: "current_view (im_state s') = current_view ?st"
    using frame_view [OF frame] by (simp only: commit_containment_view)
  have acts: "actions s' = actions (snd (planned_state i f radius s))"
    by (simp add: frame_simps [OF frame] commit_containment_state)
  assume "a \<in> set (con_actions c)"
  with conjunct2 [OF conjunct2 [OF spec]] obtain j where
    "is_planned (new_containment i f radius (fst (now s)) (im_state s)) (committing i f radius (fst (now s)))
      (fst (now s)) ?st (actions s') j a"
    unfolding c acts by (auto simp: in_set_conv_nth list_all2_conv_all_nth)
  then obtain r where r: "om_find (tp_resources (rs_topology ?st)) j = Some r"
    and planned: "om_find (actions s') a = Some (planned_action (new_containment i f radius (fst (now s)) (im_state s))
      (committing i f radius (fst (now s))) j r a (fst (now s)) ?st)"
    by (auto simp: is_planned_def)
  have "revalidate_action ?st c (planned_action (new_containment i f radius (fst (now s)) (im_state s))
      (committing i f radius (fst (now s))) j r a (fst (now s)) ?st) = ErrorCode.OK"
    by (rule planned_action_revalidates [OF refl refl refl refl _ _ _ _ r])
      (simp_all add: c committing_def is_fault_current_def)
  then show "\<exists>act. om_find (actions s') a = Some act \<and> act_id act = a \<and>
      act_status act = ActionStatus.PLANNED \<and> revalidate_action (im_state s') c act = ErrorCode.OK"
    using planned by (simp add: revalidate_action_view [OF view])
qed

text \<open>
  C5. Nothing planned is lost: when a containment has just been authorized, the runtime is not
  shutting down, the store accepts records and the executor accepts actions, dispatching it succeeds,
  refuses nothing, hands every planned action to the executor and leaves every one dispatched.
\<close>

theorem authorized_containment_dispatches:
  assumes "authorize_containment i g s = Some (Inr c, s')"
    and "actions_fresh (length (con_mandatory c)) s"
    and "om_find (containments s) (con_generation c) = None"
    and "accepting s'" and "\<not> im_shutting_down s'"
    and "\<forall>a. executor a = Inr (token a)"
  shows "\<exists>summary s''. dispatch_containment (con_generation c) (Some executor) s' = (Inr summary, s'') \<and>
    dsp_dispatched summary = con_actions c \<and> dsp_refused summary = [] \<and>
    (\<forall>a \<in> set (con_actions c). \<exists>act. om_find (actions s'') a = Some act \<and>
       act_status act = ActionStatus.DISPATCHED)"
proof -
  note ready = committed_actions_ready [OF assms(1,2)]
  from assms(1) obtain f radius where c: "c = committed i f radius s"
    and frame: "frame s' = frame (snd (commit_containment i f radius s))"
    by (rule authorize_containment_success)
  have stored: "om_find (containments s') (con_generation c) = Some c"
    using assms(3) c by (simp add: frame_simps [OF frame] commit_containment_state planned_state_def om_emplace_def)
  let ?s = "snd (now s')" and ?t = "fst (now s')"
  let ?sm = "\<lparr>dsp_containment_generation = con_generation c, dsp_dispatched = [], dsp_refused = [],
    dsp_refusals = [], dsp_budget_remaining = 0\<rparr>"
  let ?as = "map (\<lambda>i. authorized ?t (the (om_find (actions s') i))) (con_actions c)"
  have "\<exists>act. om_find (actions ?s) a = Some act \<and> act_id act = a \<and> act_status act = ActionStatus.PLANNED \<and>
      revalidate_action (im_state ?s) c act = ErrorCode.OK" if "a \<in> set (con_actions c)" for a
    using ready(2) [OF that] by simp
  from authorize_actions_planned [OF ready(1) this, of ?t ?sm "[]"] obtain s1 where
    loop: "authorize_actions ?t c (con_actions c) ?sm [] ?s = (?sm, ?as, s1)"
    and s1: "im_store s1 = im_store ?s"
      "\<forall>i. om_find (actions s1) i = (if i \<in> set (con_actions c) then map_option (authorized ?t) (om_find (actions s') i)
                               else om_find (actions s') i)"
    by auto
  have begun: "dispatch_begin_locked (con_generation c) True s' = (Inr (?sm, ?as), stage_counters s1)"
    by (rule dispatch_begin_accepts [OF assms(5) stored _ loop]) (simp add: c containment_is_live_def)
  let ?s2 = "snd (flush (stage_counters s1))"
  have "accepting (stage_counters s1)" using assms(4) s1(1) by (simp add: accepting_def now_def)
  note flushed = flush_accepting [OF this]
  have "act_id (authorized ?t (the (om_find (actions s') a))) = a" if "a \<in> set (con_actions c)" for a
    using ready(2) [OF that] by (auto simp: authorized_def)
  then have ids: "map act_id ?as = con_actions c"
    by (simp add: map_idI comp_def)
  have "om_find (actions ?s2) (act_id b) = Some b \<and> act_status b = ActionStatus.AUTHORIZED" if "b \<in> set ?as" for b
    using that ready(2) s1(2) by (fastforce simp: authorized_def)
  from dispatch_record_accepted [where as = ?as and token = token and sm = ?sm, OF _ this] ready(1) obtain s3 where
    recorded: "dispatch_record_locked (map (\<lambda>a. (a, Inr (token a))) ?as) ?sm ?s2 =
      (Inr (?sm\<lparr>dsp_dispatched := con_actions c\<rparr>), s3)" "im_store s3 = im_store ?s2"
    "\<forall>a \<in> set ?as. \<exists>t. om_find (actions s3) (act_id a) = Some (dispatched t (token a) a)"
    unfolding ids by auto
  have "accepting s3" using flushed(2) recorded(2) by (simp add: accepting_def)
  note completed = complete_accepting [OF this]
  have "dispatch_containment (con_generation c) (Some executor) s' =
      (Inr (?sm\<lparr>dsp_dispatched := con_actions c\<rparr>), snd (flush s3))"
    using begun recorded(1) flushed(1) completed assms(6)
    by (simp add: dispatch_containment_def Let_def case_prod_beta comp_def)
  moreover have "\<exists>act. om_find (actions (snd (flush s3))) a = Some act \<and> act_status act = ActionStatus.DISPATCHED"
    if "a \<in> set (con_actions c)" for a
  proof -
    from ready(2) [OF that] obtain act where act: "om_find (actions s') a = Some act" "act_id act = a" by blast
    then have "authorized ?t act \<in> set ?as" using that by force
    from bspec [OF recorded(3) this] obtain t where
      "om_find (actions s3) (act_id (authorized ?t act)) = Some (dispatched t (token (authorized ?t act)) (authorized ?t act))"
      by blast
    then show ?thesis using act(2) by (simp add: dispatched_def authorized_def)
  qed
  ultimately show ?thesis by simp
qed

end
