(* ===== verification/Fcf_Engine_Fencing.thy ===== *)
theory Fcf_Engine_Fencing
  imports Fcf_Engine_Invariants
begin

text \<open>
  A fenced resource stays fenced under every section except the three that are allowed to change
  that: an update of its record, its removal, and a release that is granted for it.
\<close>

definition fenced :: "ResourceRecord \<Rightarrow> bool" where
  "fenced r \<longleftrightarrow> rr_quarantined r \<and> is_contained (rr_state r)"

text \<open>Resources outside \<open>X\<close> stay fenced.\<close>

definition keeps :: "ResourceId set \<Rightarrow> (ResourceId, ResourceRecord) omap \<Rightarrow> (ResourceId, ResourceRecord) omap \<Rightarrow> bool" where
  "keeps X m m' \<longleftrightarrow> (\<forall>i r. om_find m i = Some r \<longrightarrow> fenced r \<longrightarrow> i \<notin> X \<longrightarrow>
     (\<exists>r'. om_find m' i = Some r' \<and> fenced r'))"

named_theorems keeping \<open>updates of the resource map that keep fences\<close>

lemma keeps_refl [keeping]: "keeps X m m"
  by (auto simp: keeps_def)

lemma keeps_trans: "keeps X a b \<Longrightarrow> keeps X b c \<Longrightarrow> keeps X a c"
  unfolding keeps_def by blast

text \<open>An update of a record that does not unfence it.\<close>

definition fence_safe :: "(ResourceRecord \<Rightarrow> ResourceRecord) \<Rightarrow> bool" where
  "fence_safe f \<longleftrightarrow> (\<forall>r. fenced r \<longrightarrow> fenced (f r))"

lemma fence_safe_updates [keeping]:
  "fence_safe (rr_freshness_update a)" "fence_safe (rr_containment_domain_update b)"
  "fence_safe (rr_isolation_domain_update c)" "fence_safe (rr_failure_domain_update d)"
  "fence_safe (leave_domain e)"
  "fence_safe (\<lambda>r. if P r then rr_isolation_domain_update c r else r)"
  "fence_safe (\<lambda>r. if P r then rr_failure_domain_update d r else r)"
  by (auto simp: fence_safe_def fenced_def leave_domain_def)

lemma keeps_one:
  "fence_safe f \<Longrightarrow> keeps X m (om_map f m)"
  "fence_safe f \<Longrightarrow> keeps X m (om_adjust k f m)"
  "fence_safe f \<Longrightarrow> keeps X m (om_adjust_default d k f m)"
  "keeps X m (om_emplace k v m)"
  by (auto simp: keeps_def fence_safe_def)

lemma keeps_peel [keeping]:
  "fence_safe f \<Longrightarrow> keeps X a m \<Longrightarrow> keeps X a (om_map f m)"
  "fence_safe f \<Longrightarrow> keeps X a m \<Longrightarrow> keeps X a (om_adjust k f m)"
  "fence_safe f \<Longrightarrow> keeps X a m \<Longrightarrow> keeps X a (om_adjust_default d k f m)"
  "keeps X a m \<Longrightarrow> keeps X a (om_emplace k v m)"
  by (blast intro: keeps_trans keeps_one)+

lemma keeps_fold [keeping]:
  "(\<And>x m. keeps X a m \<Longrightarrow> keeps X a (f x m)) \<Longrightarrow> keeps X a m \<Longrightarrow> keeps X a (fold f xs m)"
  by (induction xs arbitrary: m) auto

lemma keeps_put: "(\<And>r. om_find m k = Some r \<Longrightarrow> fenced r \<Longrightarrow> k \<notin> X \<Longrightarrow> fenced v) \<Longrightarrow> keeps X m (om_put k v m)"
  by (auto simp: keeps_def)

lemma keeps_erase: "k \<in> X \<Longrightarrow> keeps X m (om_erase k m)"
  by (auto simp: keeps_def)

abbreviation keeps_fences :: "ResourceId set \<Rightarrow> Impl \<Rightarrow> Impl \<Rightarrow> bool" where
  "keeps_fences X s s' \<equiv> keeps X (resources s) (resources s')"

lemma keeps_same: "rs_topology (im_state s') = rs_topology (im_state s) \<Longrightarrow> keeps_fences X s s'"
  by (simp add: keeps_refl)

section \<open>Sections\<close>

lemma claim_members_keeps: "keeps X m (snd (claim_members d ms m))"
proof (induction d ms m rule: claim_members.induct)
  case (2 d member ms rs)
  have put: "keeps X rs (om_put member (r\<lparr>rr_containment_domain := d\<rparr>) rs)"
    if "om_find rs member = Some r" for r
    using that by (auto simp: keeps_def fenced_def)
  show ?case
  proof (cases "om_find rs member")
    case None
    with 2(1) show ?thesis by simp
  next
    case (Some r)
    with 2(2) put [OF Some] show ?thesis by (auto intro: keeps_refl keeps_trans)
  qed
qed (simp add: keeps_refl)

lemma begin_epoch_keeps: "keeps_fences X s (snd (begin_epoch_locked t reason s))"
  by (simp add: begin_epoch_locked_def advance_epoch_def Let_def keeping)

lemma register_domain_keeps: "keeps_fences X s (snd (register_domain_locked cd s))"
  using claim_members_keeps [of X "resources s" "cd_id cd" "cd_members cd"]
  by (auto simp: register_domain_locked_def Let_def keeps_refl split: option.split prod.split)

lemma update_domain_keeps: "keeps_fences X s (snd (update_domain_locked cd g s))"
proof -
  have "keeps X a m \<Longrightarrow> keeps X a (if P then m else om_adjust_default d k (leave_domain e) m)" for a m P d k e
    by (auto intro!: keeping)
  then show ?thesis
    by (auto simp: update_domain_locked_def Let_def split: option.split intro!: keeping)
qed

lemma remove_domains_keep:
  "keeps_fences X s (snd (remove_domain_locked i g s))"
  "keeps_fences X s (snd (register_isolation_domain_locked idm s))"
  "keeps_fences X s (snd (remove_isolation_domain_locked i' g s))"
  "keeps_fences X s (snd (register_failure_domain_locked fd s))"
  "keeps_fences X s (snd (remove_failure_domain_locked i'' g s))"
  by (auto simp: remove_domain_locked_def register_isolation_domain_locked_def remove_isolation_domain_locked_def
      register_failure_domain_locked_def remove_failure_domain_locked_def Let_def
      split: option.split intro!: keeping)

text \<open>The sections that may unfence: each only its own resource.\<close>

lemma join_domains_resources [simp]: "tp_resources (join_domains r tp) = tp_resources tp"
  by (simp add: join_domains_def Let_def)

lemma register_resource_keeps: "keeps_fences X s (snd (register_resource_locked r s))"
  by (auto simp: register_resource_locked_def now_def Let_def keeps_refl split: option.split
      intro!: keeping)

lemma move_domains_resources [simp]: "tp_resources (move_domains a b tp) = tp_resources tp"
  by (simp add: move_domains_def Let_def)

lemma update_resource_keeps: "keeps_fences {rr_id r} s (snd (update_resource_locked r g s))"
  by (auto simp: update_resource_locked_def now_def Let_def keeps_refl split: option.split
      intro!: keeps_put)

lemma leave_domains_resources [simp]: "tp_resources (leave_domains r i tp) = tp_resources tp"
  by (simp add: leave_domains_def Let_def)

lemma remove_resource_keeps: "keeps_fences {i} s (snd (remove_resource_locked i g s))"
  by (auto simp: remove_resource_locked_def Let_def keeps_refl split: option.split intro!: keeps_erase)

lemma publish_evidence_keeps: "keeps_fences X s (snd (publish_resource_evidence_locked i g f k m src s))"
  by (auto simp: publish_resource_evidence_locked_def apply_evidence_def fenced_def now_def Let_def keeps_refl
      split: option.split intro!: keeps_put)

lemma revoke_previous_keeps: "keeps X a (resources s) \<Longrightarrow> keeps X a (resources (revoke_previous w b s))"
  by (auto simp: revoke_previous_def require_revalidation_def Let_def split: option.split intro!: keeping)

lemma register_worker_keeps: "keeps_fences X s (snd (register_worker_locked w b e k s))"
proof -
  have "keeps X (resources s) (resources (snd (admit_worker key e k t)))"
    if "keeps X (resources s) (resources t)" for key t
    using revoke_previous_keeps [OF that] by (simp add: admit_worker_def now_def Let_def)
  then show ?thesis
    by (auto simp: register_worker_locked_def reattach_worker_def now_def Let_def keeps_refl split: option.split)
qed

lemma lose_resource_keeps: "keeps X a (resources s) \<Longrightarrow> keeps X a (resources (lose_resource t i s))"
  by (erule keeps_trans) (auto simp: lose_resource_def stage_resource_def lost_resource_def fenced_def
      is_contained_def Let_def intro!: keeps_put)

lemma lose_authority_keeps: "keeps_fences X s (snd (lose_authority_locked w b detail t s))"
proof -
  have "keeps X (resources s) (resources (fold (lose_resource t') ids x))"
    if "resources x = resources s" for t' ids x
    by (rule fold_invariant_list [where P = "\<lambda>x. keeps X (resources s) (resources x)"])
      (simp_all add: that keeps_refl lose_resource_keeps)
  then show ?thesis
    by (auto simp: lose_authority_locked_def now_def Let_def keeps_refl split: option.split)
qed

lemma fence_resource_keeps: "keeps X a (resources s) \<Longrightarrow> keeps X a (resources (fence_resource g q t i s))"
  by (erule keeps_trans) (auto simp: fence_resource_def stage_resource_def fence_record_def fenced_def
      is_contained_def Let_def keeps_refl split: option.split intro!: keeps_put)

lemma drain_resource_keeps: "keeps X a (resources s) \<Longrightarrow> keeps X a (resources (drain_resource t i s))"
  by (erule keeps_trans) (auto simp: drain_resource_def stage_resource_def drain_record_def fenced_def
      is_contained_def is_operable_def Let_def keeps_refl split: option.split intro!: keeps_put)

lemma commit_containment_keeps: "keeps_fences X s (snd (commit_containment i f radius s))"
proof -
  have "keeps X (resources s) (resources (fold (drain_resource t) ds (fold (fence_resource g q t) fs x)))"
    if "resources x = resources s" for t ds g q fs x
    by (rule fold_invariant_list [where P = "\<lambda>x. keeps X (resources s) (resources x)"],
        rule fold_invariant_list [where P = "\<lambda>x. keeps X (resources s) (resources x)"])
      (simp_all add: that keeps_refl fence_resource_keeps drain_resource_keeps)
  then show ?thesis
    by (simp add: commit_containment_def stage_fault_def now_def Let_def case_prod_beta)
qed

lemma result_keeps: "keeps_fences X s (snd (record_action_result_locked x s))"
proof -
  have claim: "keeps X (resources s) (resources (record_claim x i t))" if "resources t = resources s" for i t
    using that by (auto simp: record_claim_def stage_resource_def fenced_def Let_def keeps_refl
        split: option.split intro!: keeps_put)
  show ?thesis
    by (auto simp: record_action_result_locked_def now_def Let_def keeps_refl split: option.split intro!: claim)
qed

lemma clear_fault_topology [simp]: "rs_topology (im_state (clear_fault i s)) = rs_topology (im_state s)"
  by (simp add: clear_fault_def stage_fault_def now_def Let_def split: option.split)

lemma authorize_release_keeps:
  "keeps_fences {i. i = rlr_resource x \<and> rel_granted (assess_release (im_state s) x)} s
     (snd (authorize_release_locked x s))"
proof (cases "rel_granted (assess_release (im_state s) x)")
  case False
  from frame_simps(7) [OF release_refused_state [OF this]] show ?thesis by (simp add: keeps_refl)
next
  case True
  then obtain r where "om_find (resources s) (rlr_resource x) = Some r"
    using assess_release_grants_known by blast
  from release_granted_state [OF True this] obtain t g r'
    where f: "frame (snd (authorize_release_locked x s)) = frame (snd (close_containment g (rlr_resource x) t))"
      and t: "resources t = om_put (rlr_resource x) r' (resources s)" by auto
  from frame_simps(7) [OF f] t True show ?thesis by (auto intro!: keeps_put)
qed

section \<open>Who may unfence\<close>

text \<open>The resources whose fence a request may lift.\<close>

fun may_unfence :: "Request \<Rightarrow> Impl \<Rightarrow> ResourceId set" where
  "may_unfence (UpdateResource r g) s = {rr_id r}"
| "may_unfence (RemoveResource i g) s = {i}"
| "may_unfence (AuthorizeRelease x) s =
     {i. i = rlr_resource x \<and> rel_granted (assess_release (im_state s) x)}"
| "may_unfence _ s = {}"

lemma keeps_mono: "keeps X m m' \<Longrightarrow> X \<subseteq> Y \<Longrightarrow> keeps Y m m'"
  by (auto simp: keeps_def)

lemma locked_keeps: "locked q s = Some (r, s') \<Longrightarrow> keeps_fences (may_unfence q s) s s'"
proof (erule locked_cases)
  show "keeps_fences (may_unfence q s) s s''" if "authorize_containment_locked i g s = Some (x, s'')" for i g x s''
    using that commit_containment_keeps [of "may_unfence q s" s]
    by (auto simp: authorize_containment_locked_def keeps_refl split: sum.splits option.splits if_splits)
      (metis snd_conv)
  show "keeps_fences (may_unfence q s) s s''" if "verify_containment_locked g s = Some (x, s'')" for g x s''
    using that by (auto simp: verify_containment_locked_def commit_verification_def settle_fault_def stage_fault_def
        now_def Let_def keeps_refl split: option.splits if_splits)
qed (simp_all add: untouched keeps_refl begin_epoch_keeps register_domain_keeps update_domain_keeps
    remove_domains_keep register_resource_keeps update_resource_keeps remove_resource_keeps
    publish_evidence_keeps register_worker_keeps lose_authority_keeps result_keeps authorize_release_keeps)

text \<open>
  C2. A fence is lifted only on purpose. If a resource is quarantined in a contained state before
  a request and no longer so after it, then the request updates that very resource's record, removes
  it, or is a release of it whose assessment, made in the state before, was granted. No
  acknowledgement, result, evidence, registration, epoch or verification lifts a fence.
\<close>

theorem fence_lifted_only_by_release:
  assumes "serve q s = Some (status, s')"
    and "om_find (resources s) i = Some r" and "rr_quarantined r" and "is_contained (rr_state r)"
    and "\<nexists>r'. om_find (resources s') i = Some r' \<and> rr_quarantined r' \<and> is_contained (rr_state r')"
  shows "(\<exists>r' g. q = UpdateResource r' g \<and> rr_id r' = i) \<or> (\<exists>g. q = RemoveResource i g) \<or>
     (\<exists>x. q = AuthorizeRelease x \<and> rlr_resource x = i \<and> rel_granted (assess_release (im_state s) x))"
proof -
  from assms(1) obtain x t where l: "locked q s = Some (x, t)" and c: "complete (x, t) = (status, s')"
    by (auto simp: serve_def)
  have "resources s' = resources t" using complete_fields(7) [of "(x, t)"] c by simp
  with locked_keeps [OF l] assms(2-5) have "i \<in> may_unfence q s"
    unfolding keeps_def fenced_def by metis
  then show ?thesis by (cases q) auto
qed

end
