(* ===== verification/Fcf_Engine_Demo.thy ===== *)
theory Fcf_Engine_Demo
  imports Fcf_Engine_Dispatched Fcf_Engine_Fencing
begin

text \<open>
  Concrete runtimes on which the properties of the engine apply: one with a current fault on the
  topology of the blast radius example, one that has just been constructed.
\<close>

section \<open>A runtime with a current fault\<close>

definition demo_live_fault :: FaultRecord where
  "demo_live_fault = demo_fault\<lparr>fr_state := FaultState.CONTAINMENT_REQUIRED, fr_actionable := True\<rparr>"

definition demo_dead_worker :: WorkerRecord where
  "demo_dead_worker = WorkerRecord_default\<lparr>wr_key := WorkerKey (Id 3) (Id 4), wr_registered_epoch := Id 1,
     wr_state := WorkerState.AUTHORITY_REVOKED\<rparr>"

definition demo_workers :: WorkerRegistry where
  "demo_workers = WorkerRegistry_default\<lparr>
     wreg_incarnations := [(WorkerKey (Id 3) (Id 4), demo_dead_worker)]\<rparr>"

definition demo_snapshot :: RuntimeSnapshot where
  "demo_snapshot = RuntimeSnapshot_default\<lparr>rs_epoch := Id 1, rs_topology_generation := Id 1,
     rs_policy := make_default_policy, rs_policy_generation := pol_generation make_default_policy,
     rs_topology := demo_topology, rs_faults := [(Id 7, demo_live_fault)], rs_workers := demo_workers\<rparr>"

definition demo_store :: DurableStore where
  "demo_store = \<lparr>ds_journal = [], ds_refuses = \<lambda>_ _. None\<rparr>"

definition demo_runtime :: Impl where
  "demo_runtime = \<lparr>im_config = Config_default (\<lambda>_. 5), im_state = demo_snapshot, im_store = Some demo_store,
     im_pending = [], im_durable_sequence = 0, im_durability_healthy = True, im_shutting_down = False,
     im_digest_by_fault = [], im_fault_by_digest = [], im_releases = [], im_authority_loss_faults = [],
     im_next_fault = 8, im_next_action = 1, im_next_degraded = 1, im_ticks = 0\<rparr>"

lemma demo_runtime_fields [simp]:
  "im_state demo_runtime = demo_snapshot" "im_store demo_runtime = Some demo_store"
  "im_pending demo_runtime = []" "im_durable_sequence demo_runtime = 0"
  "\<not> im_shutting_down demo_runtime" "im_next_action demo_runtime = 1"
  by (simp_all add: demo_runtime_def)

lemma demo_snapshot_fields [simp]:
  "rs_epoch demo_snapshot = Id 1" "rs_topology demo_snapshot = demo_topology"
  "rs_policy demo_snapshot = make_default_policy" "rs_faults demo_snapshot = [(Id 7, demo_live_fault)]"
  "rs_workers demo_snapshot = demo_workers" "rs_containments demo_snapshot = []" "rs_actions demo_snapshot = []"
  "rs_containment_generation demo_snapshot = id_invalid"
  by (simp_all add: demo_snapshot_def RuntimeSnapshot_default_def)

lemma demo_live_radius:
  "\<exists>radius. compute_blast_radius (radius_input demo_live_fault (Id 1) demo_snapshot) = Some (Inr radius) \<and>
     \<not> br_budget_exhausted radius \<and> br_mandatory radius = [Id 1, Id 2, Id 3, Id 6] \<and>
     br_precautionary radius = []"
proof -
  have "map_option (map_sum (\<lambda>_. ()) (\<lambda>r. (br_budget_exhausted r, br_mandatory r, br_precautionary r)))
      (compute_blast_radius (radius_input demo_live_fault (Id 1) demo_snapshot)) =
    Some (Inr (False, [Id 1, Id 2, Id 3, Id 6], []))"
    by code_simp
  then show ?thesis
    by (cases "compute_blast_radius (radius_input demo_live_fault (Id 1) demo_snapshot)")
      (auto simp: map_sum_def split: sum.splits)
qed

lemma authorize_containment_accepted:
  assumes "authorization_refusal i g (im_state s) = Inr f"
    and "compute_blast_radius (radius_input f (next_generation (rs_containment_generation (im_state s))) (im_state s)) =
      Some (Inr radius)"
    and "\<not> br_budget_exhausted radius"
    and "is_legal_fault_transition (fr_state f) FaultState.CONTAINMENT_IN_PROGRESS"
    and "accepting (snd (commit_containment i f radius s))"
  shows "authorize_containment i g s =
    Some (Inr (committed i f radius s), snd (flush (snd (commit_containment i f radius s))))"
proof -
  have "commit_containment i f radius s = (Inr (committed i f radius s), snd (commit_containment i f radius s))"
    using commit_containment_state(1) [of i f radius s] by (simp add: prod_eq_iff)
  then have "authorize_containment_locked i g s =
      Some (Inr (committed i f radius s), snd (commit_containment i f radius s))"
    using assms(1-4) by (simp add: authorize_containment_locked_def)
  then show ?thesis
    using complete_accepting [OF assms(5)] by (simp add: authorize_containment_def)
qed

lemma commit_store [simp]: "im_store (snd (commit_containment i f radius s)) = im_store s"
proof -
  have fences: "im_store (fold (fence_resource g q t) ids s) = im_store s"
    "im_store (fold (drain_resource t) ids s) = im_store s" for g q t ids s
    by (induction ids arbitrary: s)
      (simp_all add: fence_resource_def drain_resource_def stage_resource_def Let_def split: option.split)
  have plans: "im_store (snd (plan_actions b f t ids c s)) = im_store s" for b f t ids c s
    by (induction b f t ids c s rule: plan_actions.induct)
      (simp_all add: allocate_action_id_def Let_def split: option.split)
  show ?thesis
    by (simp add: commit_containment_def stage_fault_def Let_def case_prod_beta fences plans)
      (simp add: now_def)
qed

lemma commit_shutting_down [simp]:
  "im_shutting_down (snd (commit_containment i f radius s)) = im_shutting_down s"
proof -
  have fences: "im_shutting_down (fold (fence_resource g q t) ids s) = im_shutting_down s"
    "im_shutting_down (fold (drain_resource t) ids s) = im_shutting_down s" for g q t ids s
    by (induction ids arbitrary: s)
      (simp_all add: fence_resource_def drain_resource_def stage_resource_def Let_def split: option.split)
  have plans: "im_shutting_down (snd (plan_actions b f t ids c s)) = im_shutting_down s" for b f t ids c s
    by (induction b f t ids c s rule: plan_actions.induct)
      (simp_all add: allocate_action_id_def Let_def split: option.split)
  show ?thesis
    by (simp add: commit_containment_def stage_fault_def Let_def case_prod_beta fences plans)
      (simp add: now_def)
qed

lemma demo_authorized:
  "\<exists>c s'. authorize_containment (Id 7) (Id 1) demo_runtime = Some (Inr c, s') \<and>
     con_mandatory c = [Id 1, Id 2, Id 3, Id 6] \<and> con_precautionary c = [] \<and> con_generation c = Id 1 \<and>
     accepting s' \<and> \<not> im_shutting_down s'"
proof -
  obtain radius where radius:
    "compute_blast_radius (radius_input demo_live_fault (Id 1) demo_snapshot) = Some (Inr radius)"
    "\<not> br_budget_exhausted radius" "br_mandatory radius = [Id 1, Id 2, Id 3, Id 6]"
    "br_precautionary radius = []" using demo_live_radius by blast
  have gen: "next_generation (rs_containment_generation demo_snapshot) = Id 1"
    by (simp add: next_generation_def)
  have refusal: "authorization_refusal (Id 7) (Id 1) demo_snapshot = Inr demo_live_fault"
    by (simp add: authorization_refusal_def demo_live_fault_def demo_fault_def is_fault_current_def
        FaultEvidence_default_def FaultRecord_default_def id_valid_def)
  have "accepting (snd (commit_containment (Id 7) demo_live_fault radius demo_runtime))"
    by (simp add: accepting_def demo_store_def)
  from authorize_containment_accepted [OF _ _ radius(2) _ this, of "Id 1"] refusal radius gen
  have "authorize_containment (Id 7) (Id 1) demo_runtime =
    Some (Inr (committed (Id 7) demo_live_fault radius demo_runtime),
      snd (flush (snd (commit_containment (Id 7) demo_live_fault radius demo_runtime))))"
    by (simp add: demo_live_fault_def is_legal_fault_transition_def)
  moreover have "br_generation radius = Id 1"
    using compute_generation [OF radius(1)] by (simp add: radius_input_def)
  moreover have "accepting (snd (flush (snd (commit_containment (Id 7) demo_live_fault radius demo_runtime))))"
    by (rule flush_accepting) fact
  ultimately show ?thesis using radius by simp
qed

section \<open>The properties of the engine on the demo runtimes\<close>

lemma demo_actions_fresh: "n < 100 \<Longrightarrow> actions_fresh n demo_runtime"
  by (simp add: actions_fresh_def)

theorem committed_containment_fences_witness:
  "\<exists>c s' f r. authorize_containment (Id 7) (Id 1) demo_runtime = Some (Inr c, s') \<and>
     om_find (faults s') (Id 7) = Some f \<and> fr_state f = FaultState.CONTAINMENT_IN_PROGRESS \<and>
     om_find (resources s') (Id 6) = Some r \<and> fenced_by (Id 1) r \<and>
     om_find (resources s') (Id 4) = Some (demo_resource 4)"
proof -
  obtain c s' where c: "authorize_containment (Id 7) (Id 1) demo_runtime = Some (Inr c, s')"
    "con_mandatory c = [Id 1, Id 2, Id 3, Id 6]" "con_precautionary c = []" "con_generation c = Id 1"
    using demo_authorized by blast
  have "om_find (tp_resources demo_topology) (Id 6) =
      Some ((demo_resource 6)\<lparr>rr_isolation_domain := Id 20, rr_freshness := EvidenceFreshness.STALE\<rparr>)"
    and "om_find (tp_resources demo_topology) (Id 4) = Some (demo_resource 4)"
    by code_simp+
  then have "om_find (resources demo_runtime) (Id 6) \<noteq> None"
    and "om_find (resources demo_runtime) (Id 4) = Some (demo_resource 4)"
    by simp_all
  with committed_containment_fences [OF c(1)] c show ?thesis by fastforce
qed

theorem committed_containment_plan_witness:
  "\<exists>c s'. authorize_containment (Id 7) (Id 1) demo_runtime = Some (Inr c, s') \<and>
     om_find (containments s') (Id 1) = Some c \<and>
     con_actions c = drawn_ids 1 (length (planned_targets c FaultKind.DEVICE_FAILURE demo_runtime))"
proof -
  obtain c s' where c: "authorize_containment (Id 7) (Id 1) demo_runtime = Some (Inr c, s')"
    "con_mandatory c = [Id 1, Id 2, Id 3, Id 6]" "con_generation c = Id 1"
    using demo_authorized by blast
  have "actions_fresh (length (con_mandatory c)) demo_runtime"
    and "om_find (containments demo_runtime) (con_generation c) = None"
    using c by (simp_all add: demo_actions_fresh)
  from committed_containment_plan [OF c(1) this] c
  show ?thesis by (auto simp: demo_live_fault_def demo_fault_def)
qed

theorem authorized_containment_dispatches_witness:
  "\<exists>c s' summary s''. authorize_containment (Id 7) (Id 1) demo_runtime = Some (Inr c, s') \<and>
     dispatch_containment (Id 1) (Some (\<lambda>a. Inr ''token'')) s' = (Inr summary, s'') \<and>
     dsp_dispatched summary = con_actions c \<and> dsp_refused summary = []"
proof -
  obtain c s' where c: "authorize_containment (Id 7) (Id 1) demo_runtime = Some (Inr c, s')"
    "con_mandatory c = [Id 1, Id 2, Id 3, Id 6]" "con_generation c = Id 1" "accepting s'" "\<not> im_shutting_down s'"
    using demo_authorized by blast
  have "actions_fresh (length (con_mandatory c)) demo_runtime"
    and "om_find (containments demo_runtime) (con_generation c) = None"
    using c by (simp_all add: demo_actions_fresh)
  from authorized_containment_dispatches [OF c(1) this c(4,5), of "\<lambda>a. Inr ''token''" "\<lambda>a. ''token''"] c
  show ?thesis by fastforce
qed

text \<open>A call of \<open>begin_epoch\<close> on the demo runtime.\<close>

lemma demo_epoch: "\<exists>s'. serve (BeginEpoch 9 ''restart'') demo_runtime = Some (ok_status, s')"
proof -
  obtain e t where locked: "begin_epoch_locked 9 ''restart'' demo_runtime = (Inr e, t)" and store: "im_store t = Some demo_store"
    by (simp add: begin_epoch_locked_def Let_def)
  have "accepting t" by (simp add: accepting_def store demo_store_def)
  then show ?thesis
    using complete_accepting [of t "()"] by (simp add: serve_def locked answer_def)
qed

theorem served_success_is_durable_witness:
  "\<exists>s' t ds'. serve (BeginEpoch 9 ''restart'') demo_runtime = Some (ok_status, s') \<and>
     locked (BeginEpoch 9 ''restart'') demo_runtime = Some (ok_status, t) \<and>
     im_store s' = Some ds' \<and> ds_journal ds' = im_pending t"
proof -
  obtain s' where s': "serve (BeginEpoch 9 ''restart'') demo_runtime = Some (ok_status, s')"
    using demo_epoch by blast
  from served_success_is_durable [OF s' demo_runtime_fields(2,3)] s'
  show ?thesis by (auto simp: demo_store_def)
qed

theorem dead_incarnation_stays_dead_witness:
  "\<exists>s' w. serve (BeginEpoch 9 ''restart'') demo_runtime = Some (ok_status, s') \<and>
     om_find (incarnations s') (WorkerKey (Id 3) (Id 4)) = Some w \<and> \<not> holds_live_authority (wr_state w)"
proof -
  obtain s' where s': "serve (BeginEpoch 9 ''restart'') demo_runtime = Some (ok_status, s')"
    using demo_epoch by blast
  have "om_find (incarnations demo_runtime) (WorkerKey (Id 3) (Id 4)) = Some demo_dead_worker" "dead demo_dead_worker"
    by (simp_all add: demo_workers_def dead_def demo_dead_worker_def id_valid_def)
  from dead_incarnation_stays_dead [OF served_steps [OF s'] this] s' show ?thesis by blast
qed

theorem fault_lifecycle_refined_witness:
  "\<exists>s' f. serve (BeginEpoch 9 ''restart'') demo_runtime = Some (ok_status, s') \<and>
     om_find (faults s') (Id 7) = Some f \<and>
     is_legal_fault_transition\<^sup>*\<^sup>* FaultState.CONTAINMENT_REQUIRED (fr_state f)"
proof -
  obtain s' where s': "serve (BeginEpoch 9 ''restart'') demo_runtime = Some (ok_status, s')"
    using demo_epoch by blast
  have "om_find (faults demo_runtime) (Id 7) = Some demo_live_fault" by simp
  from fault_lifecycle_refined [OF served_steps [OF s'] this] s'
  show ?thesis by (auto simp: demo_live_fault_def)
qed

section \<open>A fresh runtime\<close>

definition fresh_runtime :: Impl where
  "fresh_runtime = Engine_construct (Config_default (\<lambda>_. 5))"

lemma fresh_runtime_fields:
  "rs_workers (im_state fresh_runtime) = WorkerRegistry_default" "rs_epoch (im_state fresh_runtime) = Id 1"
  "cfg_max_workers (im_config fresh_runtime) = 100000"
  by (simp_all add: fresh_runtime_def Engine_construct_def add_history_def now_def RuntimeSnapshot_default_def
      Config_default_def id_valid_def Let_def)

theorem no_split_brain_witness:
  "\<exists>s x. reachable s \<and> om_find (incarnations s) (WorkerKey (Id 3) (Id 4)) = Some x \<and>
     holds_live_authority (wr_state x) \<and> boot_is_current (rs_workers (im_state s)) (Id 3) (Id 4)"
proof -
  let ?s = "snd (register_worker_locked (Id 3) (Id 4) ''host'' (Id 1) fresh_runtime)"
  have admitted: "register_worker_locked (Id 3) (Id 4) ''host'' (Id 1) fresh_runtime =
      admit_worker (WorkerKey (Id 3) (Id 4)) ''host'' (Id 1) fresh_runtime"
    by (simp add: register_worker_locked_def fresh_runtime_fields WorkerRegistry_default_def id_valid_def)
  have "revoke_previous (Id 3) (Id 4) fresh_runtime = fresh_runtime"
    by (simp add: revoke_previous_def fresh_runtime_fields WorkerRegistry_default_def)
  then obtain x where x: "om_find (incarnations ?s) (WorkerKey (Id 3) (Id 4)) = Some x"
    "wr_state x = WorkerState.ACTIVE" "wr_registered_epoch x = Id 1"
    by (simp add: admitted admit_worker_def fresh_runtime_fields Let_def case_prod_beta)
  have "reachable fresh_runtime" by (simp add: fresh_runtime_def reachable.constructed)
  moreover have "step fresh_runtime ?s"
    by (rule step.call [of "RegisterWorker (Id 3) (Id 4) ''host'' (Id 1)"]) (simp add: answer_def)
  ultimately have "reachable ?s" by (rule reachable.stepped)
  from no_split_brain [OF this x(1) _ x(1)] this x show ?thesis
    by (auto simp: holds_live_authority_def)
qed

definition fenced_runtime :: Impl where
  "fenced_runtime = demo_runtime\<lparr>im_state := demo_snapshot\<lparr>rs_topology := Topology_default\<lparr>tp_resources :=
     [(Id 5, (demo_resource 5)\<lparr>rr_quarantined := True, rr_state := ResourceOperationalState.FENCED\<rparr>)]\<rparr>\<rparr>\<rparr>"

lemma remove_resource_removes:
  assumes "om_find (resources s) i = Some r" and "id_valid (rr_generation r)" and "\<not> live_member (im_state s) i"
  shows "\<exists>t. remove_resource_locked i (rr_generation r) s = (ok_status, t) \<and>
    om_find (resources t) i = None \<and> im_store t = im_store s"
proof -
  have "im_store (fold (\<lambda>d. stage DurableEventKind.DEPENDENCY_REMOVE None (wr_id d)) ds s) = im_store s"
    for ds :: "DependencyId list" and s
    by (induction ds arbitrary: s) simp_all
  then show ?thesis
    using assms by (simp add: remove_resource_locked_def Let_def)
qed

theorem fence_lifted_only_by_release_witness:
  "\<exists>s' g. serve (RemoveResource (Id 5) (Id 1)) fenced_runtime = Some (ok_status, s') \<and>
     RemoveResource (Id 5) (Id 1) = RemoveResource (Id 5) g \<and> om_find (resources s') (Id 5) = None"
proof -
  let ?r = "(demo_resource 5)\<lparr>rr_quarantined := True, rr_state := ResourceOperationalState.FENCED\<rparr>"
  have found: "om_find (resources fenced_runtime) (Id 5) = Some ?r" by (simp add: fenced_runtime_def)
  have live: "\<not> live_member (im_state fenced_runtime) (Id 5)"
    by (simp add: live_member_def fenced_runtime_def)
  obtain t where t: "remove_resource_locked (Id 5) (Id 1) fenced_runtime = (ok_status, t)"
    "om_find (resources t) (Id 5) = None" "im_store t = Some demo_store"
    using remove_resource_removes [OF found _ live]
    by (auto simp: demo_resource_def id_valid_def fenced_runtime_def)
  have "accepting t" by (simp add: accepting_def t demo_store_def)
  then have s': "serve (RemoveResource (Id 5) (Id 1)) fenced_runtime = Some (ok_status, snd (flush t))"
    using complete_accepting [of t "()"] by (simp add: serve_def answer_def t)
  have gone: "om_find (resources (snd (flush t))) (Id 5) = None" using t by simp
  from fence_lifted_only_by_release [OF s' found] gone s' show ?thesis
    by (auto simp: is_contained_def)
qed

end
