(* ===== verification/Fcf_Codec_Document.thy ===== *)
theory Fcf_Codec_Document
  imports Fcf_Engine_Dispatched
begin

text \<open>
  The whole-document codecs of \<open>src/state_codec.cpp\<close>: the topology, whose reader also checks that
  every reference resolves, and the state document a snapshot consists of.
\<close>

section \<open>Early returns and collections\<close>

text \<open>\<open>if (!read_x(reader, x)) return false;\<close>\<close>

definition early :: "'a option reader \<Rightarrow> ('a \<Rightarrow> 'b option reader) \<Rightarrow> 'b option reader" where
  "early m f = do { r \<leftarrow> m; (case r of None \<Rightarrow> State_Monad.return None | Some x \<Rightarrow> f x) }"

definition read_collection :: "'a option reader \<Rightarrow> ('a \<Rightarrow> 'c \<Rightarrow> 'c option) \<Rightarrow> 'c \<Rightarrow> 'c option reader" where
  "read_collection rd put c = do { n \<leftarrow> rd_count kMaxCollectionCount; read_loop (unat n) rd put c }"

text \<open>\<open>emplace\<close> without a look for a duplicate: the first value of a key stays.\<close>

definition put_emplaced :: "('a \<Rightarrow> 'k::linorder) \<Rightarrow> 'a \<Rightarrow> ('k, 'a) omap \<Rightarrow> ('k, 'a) omap option" where
  "put_emplaced key x m = Some (om_emplace (key x) x m)"

definition put_pair :: "'k::linorder \<times> 'v \<Rightarrow> ('k, 'v) omap \<Rightarrow> ('k, 'v) omap option" where
  "put_pair e m = Some (om_emplace (fst e) (snd e) m)"

definition put_edge :: "DependencyEdge \<Rightarrow> DependencyGraph \<Rightarrow> DependencyGraph option" where
  "put_edge edge g = (if om_find (dg_edges g) (de_id edge) \<noteq> None then None else Some (graph_insert edge g))"

definition read_id_pair :: "('a Id \<times> 'b Id) option reader" where
  "read_id_pair = do { a \<leftarrow> rd_id; b \<leftarrow> rd_id; ok \<leftarrow> rd_ok;
     State_Monad.return (if ok then Some (a, b) else None) }"

definition write_id_pair :: "'a Id \<times> 'b Id \<Rightarrow> ByteWriter \<Rightarrow> ByteWriter" where
  "write_id_pair e = writes [wr_id (fst e), wr_id (snd e)]"

section \<open>The topology\<close>

definition write_topology :: "Topology \<Rightarrow> ByteWriter \<Rightarrow> ByteWriter" where
  "write_topology tp = writes [
     wr_id (tp_generation tp),
     wr_many write_resource (map snd (tp_resources tp)),
     wr_many write_containment_domain (map snd (tp_containment_domains tp)),
     wr_many write_isolation_domain (map snd (tp_isolation_domains tp)),
     wr_many write_failure_domain (map snd (tp_failure_domains tp)),
     wr_many write_dependency (map snd (dg_edges (tp_dependencies tp)))]"

definition members_resolve :: "Topology \<Rightarrow> ResourceId IdSet \<Rightarrow> bool" where
  "members_resolve tp ms \<longleftrightarrow> list_all (\<lambda>m. om_find (tp_resources tp) m \<noteq> None) ms"

text \<open>Every reference of a durable topology must resolve.\<close>

definition topology_resolves :: "Topology \<Rightarrow> bool" where
  "topology_resolves tp \<longleftrightarrow>
     list_all (\<lambda>(_, d). members_resolve tp (cd_members d)) (tp_containment_domains tp) \<and>
     list_all (\<lambda>(_, d). members_resolve tp (idm_members d)) (tp_isolation_domains tp) \<and>
     list_all (\<lambda>(_, d). members_resolve tp (fd_members d)) (tp_failure_domains tp) \<and>
     list_all (\<lambda>(_, e). om_find (tp_resources tp) (de_source e) \<noteq> None \<and>
       om_find (tp_resources tp) (de_destination e) \<noteq> None) (dg_edges (tp_dependencies tp)) \<and>
     list_all (\<lambda>(_, r).
       (id_valid (rr_containment_domain r) \<longrightarrow> om_find (tp_containment_domains tp) (rr_containment_domain r) \<noteq> None) \<and>
       (id_valid (rr_isolation_domain r) \<longrightarrow> om_find (tp_isolation_domains tp) (rr_isolation_domain r) \<noteq> None) \<and>
       (id_valid (rr_failure_domain r) \<longrightarrow> om_find (tp_failure_domains tp) (rr_failure_domain r) \<noteq> None))
       (tp_resources tp)"

definition read_topology :: "Topology option reader" where
  "read_topology = do {
     generation \<leftarrow> rd_id;
     early (read_collection read_resource (put_keyed rr_id) []) (\<lambda>rs.
     early (read_collection read_containment_domain (put_keyed cd_id) []) (\<lambda>cds.
     early (read_collection read_isolation_domain (put_keyed idm_id) []) (\<lambda>ids.
     early (read_collection read_failure_domain (put_keyed fd_id) []) (\<lambda>fds.
     early (read_collection read_dependency put_edge DependencyGraph_default) (\<lambda>g. do {
       ok \<leftarrow> rd_ok;
       let tp = \<lparr>tp_generation = generation, tp_resources = rs, tp_containment_domains = cds,
         tp_isolation_domains = ids, tp_failure_domains = fds, tp_dependencies = g\<rparr>;
       if \<not> ok then State_Monad.return None
       else if \<not> topology_resolves tp then do { rd_reject; State_Monad.return None }
       else State_Monad.return (Some tp) }))))) }"

section \<open>The state document\<close>

definition write_state_document :: "RuntimeSnapshot \<Rightarrow> ByteWriter \<Rightarrow> ByteWriter" where
  "write_state_document st = writes [
     wr_u32 1,
     wr_id (rs_epoch st),
     wr_id (rs_topology_generation st),
     wr_id (rs_policy_generation st),
     wr_id (rs_containment_generation st),
     wr_id (rs_verification_generation st),
     wr_id (rs_release_generation st),
     wr_id (rs_history_sequence st),
     wr_u64 (rs_now_ms st),
     write_topology (rs_topology st),
     write_policy (rs_policy st),
     wr_many write_fault (map snd (rs_faults st)),
     wr_many write_worker (map snd (wreg_incarnations (rs_workers st))),
     wr_many write_id_pair (wreg_current_boot (rs_workers st)),
     wr_many write_id_pair (wreg_last_incarnation (rs_workers st)),
     wr_many write_containment (map snd (rs_containments st)),
     wr_many write_action (map snd (rs_actions st)),
     wr_many write_degraded (map snd (rs_degraded_modes st)),
     wr_many write_degraded_contract (map snd (rs_degraded_contracts st)),
     wr_many write_history_event (rs_history st),
     wr_u64 (rs_history_total st)]"

text \<open>\<open>current_incarnation\<close> of the registry is not part of the document.\<close>

definition read_workers :: "WorkerRegistry option reader" where
  "read_workers =
     early (read_collection read_worker (put_emplaced wr_key) []) (\<lambda>incarnations.
     early (read_collection read_id_pair put_pair []) (\<lambda>boots.
     early (read_collection read_id_pair put_pair []) (\<lambda>last_incarnations.
       State_Monad.return (Some (WorkerRegistry_default\<lparr>wreg_incarnations := incarnations,
         wreg_current_boot := boots, wreg_last_incarnation := last_incarnations\<rparr>)))))"

definition read_snapshot_tables :: "RuntimeSnapshot \<Rightarrow> RuntimeSnapshot option reader" where
  "read_snapshot_tables st =
     early (read_collection read_fault (put_emplaced (\<lambda>f. fe_id (fr_evidence f))) []) (\<lambda>fs.
     early read_workers (\<lambda>ws.
     early (read_collection read_containment (put_emplaced con_generation) []) (\<lambda>cs.
     early (read_collection read_action (put_emplaced act_id) []) (\<lambda>as.
     early (read_collection read_degraded (put_emplaced dma_contract) []) (\<lambda>ds.
     early (read_collection read_degraded_contract (put_emplaced dmc_id) []) (\<lambda>dcs.
     early (read_collection read_history_event push_back []) (\<lambda>hs. do {
       total_events \<leftarrow> rd_u64;
       ok \<leftarrow> rd_ok;
       if \<not> ok then State_Monad.return None
       else if total_events < of_nat (length hs) then do { rd_reject; State_Monad.return None }
       else State_Monad.return (Some (st\<lparr>rs_faults := fs, rs_workers := ws, rs_containments := cs,
         rs_actions := as, rs_degraded_modes := ds, rs_degraded_contracts := dcs, rs_history := hs,
         rs_history_total := total_events\<rparr>)) })))))))"

definition read_state_document :: "RuntimeSnapshot option reader" where
  "read_state_document = do {
     version \<leftarrow> rd_u32;
     ok \<leftarrow> rd_ok;
     if \<not> ok \<or> version \<noteq> 1 then do { rd_reject; State_Monad.return None }
     else do {
       epoch \<leftarrow> rd_id;
       topology_generation \<leftarrow> rd_id;
       policy_generation \<leftarrow> rd_id;
       containment_generation \<leftarrow> rd_id;
       verification_generation \<leftarrow> rd_id;
       release_generation \<leftarrow> rd_id;
       history_sequence \<leftarrow> rd_id;
       now_ms \<leftarrow> rd_u64;
       early read_topology (\<lambda>tp.
       early read_policy (\<lambda>policy.
         read_snapshot_tables (RuntimeSnapshot_default\<lparr>rs_epoch := epoch,
           rs_topology_generation := topology_generation, rs_policy_generation := policy_generation,
           rs_containment_generation := containment_generation,
           rs_verification_generation := verification_generation,
           rs_release_generation := release_generation, rs_history_sequence := history_sequence,
           rs_now_ms := now_ms, rs_topology := tp, rs_policy := policy\<rparr>))) } }"

section \<open>What is written\<close>

definition enc_id_pair :: "'a Id \<times> 'b Id \<Rightarrow> u8 list" where
  "enc_id_pair e = enc_id (fst e) @ enc_id (snd e) @ []"

definition enc_topology :: "Topology \<Rightarrow> u8 list" where
  "enc_topology tp =
     enc_id (tp_generation tp) @
     enc_many enc_resource (map snd (tp_resources tp)) @
     enc_many enc_containment_domain (map snd (tp_containment_domains tp)) @
     enc_many enc_isolation_domain (map snd (tp_isolation_domains tp)) @
     enc_many enc_failure_domain (map snd (tp_failure_domains tp)) @
     enc_many enc_dependency (map snd (dg_edges (tp_dependencies tp))) @ []"

definition accepts_topology :: "Topology \<Rightarrow> bool" where
  "accepts_topology tp \<longleftrightarrow>
     list_all accepts_resource (map snd (tp_resources tp)) \<and>
     list_all accepts_containment_domain (map snd (tp_containment_domains tp)) \<and>
     list_all accepts_isolation_domain (map snd (tp_isolation_domains tp)) \<and>
     list_all accepts_failure_domain (map snd (tp_failure_domains tp)) \<and>
     list_all accepts_dependency (map snd (dg_edges (tp_dependencies tp)))"

definition enc_state_document :: "RuntimeSnapshot \<Rightarrow> u8 list" where
  "enc_state_document st =
     le_u32 1 @ enc_id (rs_epoch st) @ enc_id (rs_topology_generation st) @
     enc_id (rs_policy_generation st) @ enc_id (rs_containment_generation st) @
     enc_id (rs_verification_generation st) @ enc_id (rs_release_generation st) @
     enc_id (rs_history_sequence st) @ le_u64 (rs_now_ms st) @
     enc_topology (rs_topology st) @ enc_policy (rs_policy st) @
     enc_many enc_fault (map snd (rs_faults st)) @
     enc_many enc_worker (map snd (wreg_incarnations (rs_workers st))) @
     enc_many enc_id_pair (wreg_current_boot (rs_workers st)) @
     enc_many enc_id_pair (wreg_last_incarnation (rs_workers st)) @
     enc_many enc_containment (map snd (rs_containments st)) @
     enc_many enc_action (map snd (rs_actions st)) @
     enc_many enc_degraded (map snd (rs_degraded_modes st)) @
     enc_many enc_degraded_contract (map snd (rs_degraded_contracts st)) @
     enc_many enc_history_event (rs_history st) @ le_u64 (rs_history_total st) @ []"

definition accepts_state_document :: "RuntimeSnapshot \<Rightarrow> bool" where
  "accepts_state_document st \<longleftrightarrow>
     accepts_topology (rs_topology st) \<and> accepts_policy (rs_policy st) \<and>
     list_all accepts_fault (map snd (rs_faults st)) \<and>
     list_all accepts_worker (map snd (wreg_incarnations (rs_workers st))) \<and>
     list_all accepts_containment (map snd (rs_containments st)) \<and>
     list_all accepts_action (map snd (rs_actions st)) \<and>
     list_all accepts_degraded (map snd (rs_degraded_modes st)) \<and>
     list_all accepts_degraded_contract (map snd (rs_degraded_contracts st)) \<and>
     list_all accepts_history_event (rs_history st)"

lemma emits_id_pair: "emits (write_id_pair e) (enc_id_pair e) True"
  unfolding write_id_pair_def [abs_def] enc_id_pair_def
  by (rule emits_weaken, (rule emits_intros)+) simp

lemma emits_topology: "emits (write_topology tp) (enc_topology tp) (accepts_topology tp)"
  unfolding write_topology_def [abs_def] enc_topology_def
  by (rule emits_weaken, (rule emits_intros emits_many rc_resource.emits_rec rc_containment_domain.emits_rec
      rc_isolation_domain.emits_rec rc_failure_domain.emits_rec rc_dependency.emits_rec)+)
    (simp add: accepts_topology_def)

lemma emits_state_document:
  "emits (write_state_document st) (enc_state_document st) (accepts_state_document st)"
  unfolding write_state_document_def [abs_def] enc_state_document_def
  by (rule emits_weaken, (rule emits_intros emits_many emits_topology emits_id_pair rc_policy.emits_rec
      rc_fault.emits_rec rc_worker.emits_rec rc_containment.emits_rec rc_action.emits_rec
      rc_degraded.emits_rec rc_degraded_contract.emits_rec rc_history_event.emits_rec)+)
    (simp add: accepts_state_document_def)

section \<open>What is read\<close>

lemma reads_early: "reads m bs (Some x) \<Longrightarrow> reads (f x) cs y \<Longrightarrow> reads (early m f) (bs @ cs) y"
  unfolding early_def by (rule reads_bind [of m bs "Some x"]) (simp_all only: option.case)

lemma early_run:
  "reads m bs (Some x) \<Longrightarrow> run_state (early m f) (byte_reader (bs @ rest)) = run_state (f x) (byte_reader rest)"
  by (simp add: early_def readsD)

lemma reads_collection:
  assumes "\<And>x. x \<in> set xs \<Longrightarrow> reads rd (enc x) (Some x)" and "put_all put xs c = Some c'"
    and "length xs \<le> unat kMaxCollectionCount"
  shows "reads (read_collection rd put c) (enc_many enc xs) (Some c')"
  unfolding read_collection_def enc_many_def
proof (rule reads_bind [OF reads_count [OF assms(3)]])
  show "reads (read_loop (unat (of_nat (length xs) :: u32)) rd put c) (concat (map enc xs)) (Some c')"
    using reads_loop [OF assms(1,2)] assms(3) by (simp add: unat_of_nat_u32)
qed

lemma reads_id_pair: "reads read_id_pair (enc_id_pair e) (Some e)"
  by (cases e) (simp add: reads_def read_id_pair_def enc_id_pair_def field_reads)

lemma put_all_emplaced:
  "om_wf (m0 @ m) \<Longrightarrow> list_all (\<lambda>(k, v). key v = k) m \<Longrightarrow>
   put_all (put_emplaced key) (map snd m) m0 = Some (m0 @ m)"
proof (induction m arbitrary: m0)
  case (Cons e m)
  obtain k v where e: "e = (k, v)" by (cases e)
  have wf: "om_wf ((m0 @ [(k, v)]) @ m)" using Cons.prems(1) e by simp
  then have wf1: "om_wf (m0 @ [(k, v)])" by (simp add: om_wf_def sorted_wrt_append)
  then have "om_find m0 k = None" by (auto simp: om_find_None_iff om_wf_def sorted_wrt_append)
  with wf1 e Cons.prems(2) have "put_emplaced key v m0 = Some (m0 @ [(k, v)])"
    by (simp add: put_emplaced_def om_emplace_def om_put_last)
  with Cons.IH [OF wf] Cons.prems(2) e show ?case by simp
qed simp

lemma put_all_pair: "om_wf (m0 @ m) \<Longrightarrow> put_all put_pair m m0 = Some (m0 @ m)"
proof (induction m arbitrary: m0)
  case (Cons e m)
  obtain k v where e: "e = (k, v)" by (cases e)
  have wf: "om_wf ((m0 @ [(k, v)]) @ m)" using Cons.prems(1) e by simp
  then have wf1: "om_wf (m0 @ [(k, v)])" by (simp add: om_wf_def sorted_wrt_append)
  then have "om_find m0 k = None" by (auto simp: om_find_None_iff om_wf_def sorted_wrt_append)
  with Cons.IH [OF wf] e wf1 show ?case by (simp add: put_pair_def om_emplace_def om_put_last)
qed simp

text \<open>A well-formed graph is determined by its edges.\<close>

lemma om_wf_unique:
  assumes "om_wf m" and "om_wf n" and "om_find m = om_find n"
  shows "m = n"
proof -
  have distinct: "distinct (map fst m)" "distinct (map fst n)"
    using assms om_wf_distinct by blast+
  with assms(3) have "set m = set n" by (simp add: map_of_inject_set)
  moreover from this distinct have "inj_on fst (set m \<union> set n)" by (simp add: distinct_map)
  moreover have "sorted (map fst m)" "sorted (map fst n)"
    using assms by (simp_all add: om_wf_def strict_sorted_iff)
  ultimately show ?thesis using distinct by (intro map_sorted_distinct_set_unique)
qed

lemma graph_insert_fresh:
  assumes "graph_wf g" and "om_find (dg_edges g) (de_id e) = None"
  shows "graph_wf (graph_insert e g)"
proof -
  have look: "om_find (om_put (de_id e) e (dg_edges g)) = (om_find (dg_edges g))(de_id e \<mapsto> e)"
    by (rule ext) simp
  from assms show ?thesis
    unfolding graph_wf_def graph_insert_def by (auto simp: look intro!: index_ok_add)
qed

lemma index_ok_unique:
  assumes "index_ok sel look a" and "index_ok sel look b"
  shows "a = b"
proof -
  have sets: "index_set a r = index_set b r" for r
    using assms unfolding index_ok_def
    by (metis strict_sorted_equal)
  have "om_find a r = om_find b r" for r
    using sets [of r] assms unfolding index_ok_def index_set_def
    by (auto split: option.splits)
  then have "om_find a = om_find b" by (rule ext)
  with assms show ?thesis unfolding index_ok_def by (metis om_wf_unique)
qed

lemma graph_wf_unique: "graph_wf g \<Longrightarrow> graph_wf h \<Longrightarrow> dg_edges g = dg_edges h \<Longrightarrow> g = h"
  using index_ok_unique unfolding graph_wf_def by (cases g; cases h) auto

lemma put_all_edges:
  "graph_wf g \<Longrightarrow> om_wf (dg_edges g @ m) \<Longrightarrow> list_all (\<lambda>(k, e). de_id e = k) m \<Longrightarrow>
   \<exists>g'. put_all put_edge (map snd m) g = Some g' \<and> graph_wf g' \<and> dg_edges g' = dg_edges g @ m"
proof (induction m arbitrary: g)
  case (Cons x m)
  obtain k e where x: "x = (k, e)" and k: "de_id e = k" using Cons.prems(3) by (cases x) simp
  have wf: "om_wf ((dg_edges g @ [(k, e)]) @ m)" using Cons.prems(2) x by simp
  then have wf1: "om_wf (dg_edges g @ [(k, e)])" by (simp add: om_wf_def sorted_wrt_append)
  then have absent: "om_find (dg_edges g) k = None" by (auto simp: om_find_None_iff om_wf_def sorted_wrt_append)
  have insert: "dg_edges (graph_insert e g) = dg_edges g @ [(k, e)]"
    using wf1 k by (simp add: graph_insert_def om_put_last)
  have "graph_wf (graph_insert e g)"
    using Cons.prems(1) absent k by (intro graph_insert_fresh) simp_all
  from Cons.IH [OF this] wf insert Cons.prems(3) obtain g' where
    "put_all put_edge (map snd m) (graph_insert e g) = Some g'" "graph_wf g'" "dg_edges g' = dg_edges g @ x # m"
    using x by auto
  moreover have "put_edge e g = Some (graph_insert e g)" using absent k by (simp add: put_edge_def)
  ultimately show ?case using x by simp
qed simp

text \<open>
  What the reader demands beyond the writer: canonical tables keyed by their records' identities,
  collections below the ceiling, exact adjacency indexes, and references that resolve.
\<close>

definition table_good :: "('a \<Rightarrow> bool) \<Rightarrow> ('a \<Rightarrow> 'k::linorder) \<Rightarrow> ('k, 'a) omap \<Rightarrow> bool" where
  "table_good canon key m \<longleftrightarrow> om_wf m \<and> list_all (\<lambda>(k, v). key v = k) m \<and>
     list_all canon (map snd m) \<and> length m \<le> unat kMaxCollectionCount"

definition topology_tables_good :: "Topology \<Rightarrow> bool" where
  "topology_tables_good tp \<longleftrightarrow>
     table_good canon_resource rr_id (tp_resources tp) \<and>
     table_good canon_containment_domain cd_id (tp_containment_domains tp) \<and>
     table_good canon_isolation_domain idm_id (tp_isolation_domains tp) \<and>
     table_good canon_failure_domain fd_id (tp_failure_domains tp) \<and>
     table_good canon_dependency de_id (dg_edges (tp_dependencies tp)) \<and>
     graph_wf (tp_dependencies tp)"

definition canon_topology :: "Topology \<Rightarrow> bool" where
  "canon_topology tp \<longleftrightarrow> topology_tables_good tp \<and> topology_resolves tp"

context record_codec
begin

lemma reads_table:
  assumes "list_all accepts (map snd m)" and "table_good canon key m"
    and "put_all put (map snd m) c = Some c'"
  shows "reads (read_collection rd put c) (enc_many enc (map snd m)) (Some c')"
  using assms by (intro reads_collection reads_rec) (auto simp: table_good_def list_all_iff)

lemma reads_keyed:
  assumes "list_all accepts (map snd m)" and "table_good canon key m"
  shows "reads (read_collection rd (put_keyed key) []) (enc_many enc (map snd m)) (Some m)"
  by (rule reads_table [OF assms]) (use assms(2) put_all_keyed [of "[]" m key] in \<open>simp add: table_good_def\<close>)

lemma reads_emplaced:
  assumes "list_all accepts (map snd m)" and "table_good canon key m"
  shows "reads (read_collection rd (put_emplaced key) []) (enc_many enc (map snd m)) (Some m)"
  by (rule reads_table [OF assms]) (use assms(2) put_all_emplaced [of "[]" m key] in \<open>simp add: table_good_def\<close>)

lemma reads_sequence:
  assumes "list_all accepts xs" and "list_all canon xs" and "length xs \<le> unat kMaxCollectionCount"
  shows "reads (read_collection rd push_back []) (enc_many enc xs) (Some xs)"
  by (rule reads_collection [OF reads_rec _ assms(3)]) (use assms in \<open>auto simp: list_all_iff put_all_push_back\<close>)

end

lemma reads_edges:
  assumes "list_all accepts_dependency (map snd (dg_edges g))"
    and "table_good canon_dependency de_id (dg_edges g)" and "graph_wf g"
  shows "reads (read_collection read_dependency put_edge DependencyGraph_default)
    (enc_many enc_dependency (map snd (dg_edges g))) (Some g)"
proof (rule rc_dependency.reads_table [OF assms(1,2)])
  have "dg_edges DependencyGraph_default = []" by (simp add: DependencyGraph_default_def)
  with assms(2) put_all_edges [OF graph_wf_default, of "dg_edges g"] obtain g' where
    "put_all put_edge (map snd (dg_edges g)) DependencyGraph_default = Some g'" "graph_wf g'" "dg_edges g' = dg_edges g"
    by (auto simp: table_good_def)
  with graph_wf_unique [OF _ assms(3)] show "put_all put_edge (map snd (dg_edges g)) DependencyGraph_default = Some g"
    by simp
qed

lemma read_topology_checks:
  assumes accepts: "accepts_topology tp" and canon: "topology_tables_good tp"
  shows "run_state read_topology (byte_reader (enc_topology tp @ rest)) =
    (if topology_resolves tp then (Some tp, byte_reader rest)
     else run_state (do { rd_reject; State_Monad.return None }) (byte_reader rest))"
proof -
  let ?check = "do {
      ok \<leftarrow> rd_ok;
      let tp = \<lparr>tp_generation = tp_generation tp, tp_resources = tp_resources tp,
        tp_containment_domains = tp_containment_domains tp, tp_isolation_domains = tp_isolation_domains tp,
        tp_failure_domains = tp_failure_domains tp, tp_dependencies = tp_dependencies tp\<rparr>;
      if \<not> ok then State_Monad.return None
      else if \<not> topology_resolves tp then do { rd_reject; State_Monad.return None }
      else State_Monad.return (Some tp) } :: Topology option reader"
  note parts = accepts [unfolded accepts_topology_def] canon [unfolded topology_tables_good_def]
  note tables = rc_resource.reads_keyed [of "tp_resources tp" rr_id]
    rc_containment_domain.reads_keyed [of "tp_containment_domains tp" cd_id]
    rc_isolation_domain.reads_keyed [of "tp_isolation_domains tp" idm_id]
    rc_failure_domain.reads_keyed [of "tp_failure_domains tp" fd_id]
    reads_edges [of "tp_dependencies tp"]
  have "run_state read_topology (byte_reader (enc_topology tp @ rest)) = run_state ?check (byte_reader rest)"
    using parts tables unfolding read_topology_def enc_topology_def
    by (simp add: early_run field_reads del: Let_def)
  also have "\<dots> = (if topology_resolves tp then (Some tp, byte_reader rest)
     else run_state (do { rd_reject; State_Monad.return None }) (byte_reader rest))"
    by (cases tp) (simp add: field_reads Let_def)
  finally show ?thesis .
qed

interpretation rc_topology: record_codec write_topology read_topology enc_topology accepts_topology canon_topology
proof
  fix tp :: Topology
  show "emits (write_topology tp) (enc_topology tp) (accepts_topology tp)" by (rule emits_topology)
  assume "accepts_topology tp" and "canon_topology tp"
  then show "reads read_topology (enc_topology tp) (Some tp)"
    by (simp add: reads_def read_topology_checks canon_topology_def)
qed

definition canon_workers :: "WorkerRegistry \<Rightarrow> bool" where
  "canon_workers ws \<longleftrightarrow>
     table_good canon_worker wr_key (wreg_incarnations ws) \<and>
     om_wf (wreg_current_boot ws) \<and> length (wreg_current_boot ws) \<le> unat kMaxCollectionCount \<and>
     om_wf (wreg_last_incarnation ws) \<and> length (wreg_last_incarnation ws) \<le> unat kMaxCollectionCount \<and>
     wreg_current_incarnation ws = []"

definition canon_state_document :: "RuntimeSnapshot \<Rightarrow> bool" where
  "canon_state_document st \<longleftrightarrow>
     canon_topology (rs_topology st) \<and> canon_policy (rs_policy st) \<and> canon_workers (rs_workers st) \<and>
     table_good canon_fault (\<lambda>f. fe_id (fr_evidence f)) (rs_faults st) \<and>
     table_good canon_containment con_generation (rs_containments st) \<and>
     table_good canon_action act_id (rs_actions st) \<and>
     table_good canon_degraded dma_contract (rs_degraded_modes st) \<and>
     table_good canon_degraded_contract dmc_id (rs_degraded_contracts st) \<and>
     list_all canon_history_event (rs_history st) \<and> length (rs_history st) \<le> unat kMaxCollectionCount \<and>
     of_nat (length (rs_history st)) \<le> rs_history_total st"

lemma reads_pairs:
  "om_wf m \<Longrightarrow> length m \<le> unat kMaxCollectionCount \<Longrightarrow>
   reads (read_collection read_id_pair put_pair []) (enc_many enc_id_pair m) (Some m)"
  by (rule reads_collection [OF reads_id_pair]) (use put_all_pair [of "[]" m] in simp_all)

lemma reads_workers:
  assumes "list_all accepts_worker (map snd (wreg_incarnations ws))" and "canon_workers ws"
  shows "reads read_workers (enc_many enc_worker (map snd (wreg_incarnations ws)) @
    enc_many enc_id_pair (wreg_current_boot ws) @ enc_many enc_id_pair (wreg_last_incarnation ws) @ []) (Some ws)"
  unfolding read_workers_def
proof (intro reads_early)
  show "reads (read_collection read_worker (put_emplaced wr_key) [])
      (enc_many enc_worker (map snd (wreg_incarnations ws))) (Some (wreg_incarnations ws))"
    using assms by (intro rc_worker.reads_emplaced) (simp_all add: canon_workers_def)
  show "reads (read_collection read_id_pair put_pair []) (enc_many enc_id_pair (wreg_current_boot ws))
      (Some (wreg_current_boot ws))"
    using assms by (intro reads_pairs) (simp_all add: canon_workers_def)
  show "reads (read_collection read_id_pair put_pair []) (enc_many enc_id_pair (wreg_last_incarnation ws))
      (Some (wreg_last_incarnation ws))"
    using assms by (intro reads_pairs) (simp_all add: canon_workers_def)
  have "WorkerRegistry_default\<lparr>wreg_incarnations := wreg_incarnations ws,
      wreg_current_boot := wreg_current_boot ws, wreg_last_incarnation := wreg_last_incarnation ws\<rparr> = ws"
    using assms(2) by (simp add: WorkerRegistry_default_def canon_workers_def)
  then show "reads (State_Monad.return (Some (WorkerRegistry_default\<lparr>wreg_incarnations := wreg_incarnations ws,
      wreg_current_boot := wreg_current_boot ws, wreg_last_incarnation := wreg_last_incarnation ws\<rparr>))) [] (Some ws)"
    by (simp only: reads_return)
qed

definition enc_snapshot_tables :: "RuntimeSnapshot \<Rightarrow> u8 list" where
  "enc_snapshot_tables st =
     enc_many enc_fault (map snd (rs_faults st)) @
     (enc_many enc_worker (map snd (wreg_incarnations (rs_workers st))) @
      enc_many enc_id_pair (wreg_current_boot (rs_workers st)) @
      enc_many enc_id_pair (wreg_last_incarnation (rs_workers st)) @ []) @
     enc_many enc_containment (map snd (rs_containments st)) @
     enc_many enc_action (map snd (rs_actions st)) @
     enc_many enc_degraded (map snd (rs_degraded_modes st)) @
     enc_many enc_degraded_contract (map snd (rs_degraded_contracts st)) @
     enc_many enc_history_event (rs_history st) @ le_u64 (rs_history_total st) @ []"

lemma reads_snapshot_tables:
  assumes "accepts_state_document st" and "canon_state_document st"
    and "st0\<lparr>rs_faults := rs_faults st, rs_workers := rs_workers st, rs_containments := rs_containments st,
         rs_actions := rs_actions st, rs_degraded_modes := rs_degraded_modes st,
         rs_degraded_contracts := rs_degraded_contracts st, rs_history := rs_history st,
         rs_history_total := rs_history_total st\<rparr> = st"
  shows "reads (read_snapshot_tables st0) (enc_snapshot_tables st) (Some st)"
  unfolding read_snapshot_tables_def enc_snapshot_tables_def
proof (intro reads_early)
  note parts = assms(1) [unfolded accepts_state_document_def] assms(2) [unfolded canon_state_document_def]
  show "reads (read_collection read_fault (put_emplaced (\<lambda>f. fe_id (fr_evidence f))) [])
      (enc_many enc_fault (map snd (rs_faults st))) (Some (rs_faults st))"
    using parts by (intro rc_fault.reads_emplaced) simp_all
  show "reads read_workers (enc_many enc_worker (map snd (wreg_incarnations (rs_workers st))) @
      enc_many enc_id_pair (wreg_current_boot (rs_workers st)) @
      enc_many enc_id_pair (wreg_last_incarnation (rs_workers st)) @ []) (Some (rs_workers st))"
    using parts by (intro reads_workers) simp_all
  show "reads (read_collection read_containment (put_emplaced con_generation) [])
      (enc_many enc_containment (map snd (rs_containments st))) (Some (rs_containments st))"
    using parts by (intro rc_containment.reads_emplaced) simp_all
  show "reads (read_collection read_action (put_emplaced act_id) [])
      (enc_many enc_action (map snd (rs_actions st))) (Some (rs_actions st))"
    using parts by (intro rc_action.reads_emplaced) simp_all
  show "reads (read_collection read_degraded (put_emplaced dma_contract) [])
      (enc_many enc_degraded (map snd (rs_degraded_modes st))) (Some (rs_degraded_modes st))"
    using parts by (intro rc_degraded.reads_emplaced) simp_all
  show "reads (read_collection read_degraded_contract (put_emplaced dmc_id) [])
      (enc_many enc_degraded_contract (map snd (rs_degraded_contracts st))) (Some (rs_degraded_contracts st))"
    using parts by (intro rc_degraded_contract.reads_emplaced) simp_all
  show "reads (read_collection read_history_event push_back [])
      (enc_many enc_history_event (rs_history st)) (Some (rs_history st))"
    using parts by (intro rc_history_event.reads_sequence) simp_all
  show "reads (do {
      total_events \<leftarrow> rd_u64;
      ok \<leftarrow> rd_ok;
      if \<not> ok then State_Monad.return None
      else if total_events < of_nat (length (rs_history st)) then do { rd_reject; State_Monad.return None }
      else State_Monad.return (Some (st0\<lparr>rs_faults := rs_faults st, rs_workers := rs_workers st,
        rs_containments := rs_containments st, rs_actions := rs_actions st,
        rs_degraded_modes := rs_degraded_modes st, rs_degraded_contracts := rs_degraded_contracts st,
        rs_history := rs_history st, rs_history_total := total_events\<rparr>)) })
      (le_u64 (rs_history_total st) @ []) (Some st)"
    using parts by (intro reads_bind [OF reads_u64] reads_bind_Nil [OF reads_ok])
      (simp only: assms(3), simp add: reads_return leD)
qed

interpretation rc_state_document: record_codec write_state_document read_state_document enc_state_document
  accepts_state_document canon_state_document
proof
  fix st :: RuntimeSnapshot
  show "emits (write_state_document st) (enc_state_document st) (accepts_state_document st)"
    by (rule emits_state_document)
  assume accepts: "accepts_state_document st" and canon: "canon_state_document st"
  let ?st0 = "RuntimeSnapshot_default\<lparr>rs_epoch := rs_epoch st,
    rs_topology_generation := rs_topology_generation st, rs_policy_generation := rs_policy_generation st,
    rs_containment_generation := rs_containment_generation st,
    rs_verification_generation := rs_verification_generation st,
    rs_release_generation := rs_release_generation st, rs_history_sequence := rs_history_sequence st,
    rs_now_ms := rs_now_ms st, rs_topology := rs_topology st, rs_policy := rs_policy st\<rparr>"
  have tables: "reads (read_snapshot_tables ?st0) (enc_snapshot_tables st) (Some st)"
    by (rule reads_snapshot_tables [OF accepts canon]) (cases st, simp)
  have topology: "reads read_topology (enc_topology (rs_topology st)) (Some (rs_topology st))"
    using accepts canon
    by (intro rc_topology.reads_rec) (simp_all add: accepts_state_document_def canon_state_document_def)
  have policy: "reads read_policy (enc_policy (rs_policy st)) (Some (rs_policy st))"
    using accepts canon
    by (intro rc_policy.reads_rec) (simp_all add: accepts_state_document_def canon_state_document_def)
  have enc: "enc_state_document st =
     le_u32 1 @ enc_id (rs_epoch st) @ enc_id (rs_topology_generation st) @
     enc_id (rs_policy_generation st) @ enc_id (rs_containment_generation st) @
     enc_id (rs_verification_generation st) @ enc_id (rs_release_generation st) @
     enc_id (rs_history_sequence st) @ le_u64 (rs_now_ms st) @
     enc_topology (rs_topology st) @ enc_policy (rs_policy st) @ enc_snapshot_tables st"
    by (simp add: enc_state_document_def enc_snapshot_tables_def)
  show "reads read_state_document (enc_state_document st) (Some st)"
    unfolding enc read_state_document_def
    by (rule reads_bind [OF reads_u32], rule reads_bind_Nil [OF reads_ok],
        simp only: not_True_eq_False simp_thms if_False,
        intro reads_bind [OF reads_id] reads_bind [OF reads_u64] reads_early [OF topology] reads_early [OF policy]
          tables)
qed

text \<open>
  C37. The state document round-trips: a snapshot that was written without an error and whose
  tables are canonical and resolve is read back as the very same state, to its last byte.
\<close>

theorem state_document_roundtrip:
  assumes "bw_ok (write_state_document st ByteWriter_default)" and "canon_state_document st"
  shows "run_state read_state_document (byte_reader (bw_buffer (write_state_document st ByteWriter_default))) =
    (Some st, byte_reader [])"
  using assms by (rule rc_state_document.roundtrip)

text \<open>
  \<open>grows f n A\<close>: from a good writer with room for \<open>n\<close> more bytes, \<open>f\<close> stays good and appends at
  most \<open>n\<close> bytes, provided \<open>A\<close>.
\<close>

definition grows :: "(ByteWriter \<Rightarrow> ByteWriter) \<Rightarrow> int \<Rightarrow> bool \<Rightarrow> bool" where
  "grows f n A \<longleftrightarrow> 0 \<le> n \<and> (\<forall>w. bw_ok w \<longrightarrow> A \<longrightarrow> int (length (bw_buffer w)) + n \<le> kMaxDocumentBytes \<longrightarrow>
     bw_ok (f w) \<and> int (length (bw_buffer (f w))) \<le> int (length (bw_buffer w)) + n)"

lemma grows_comp: "grows f m A \<Longrightarrow> grows g n B \<Longrightarrow> grows (\<lambda>w. g (f w)) (m + n) (A \<and> B)"
  unfolding grows_def by (smt (verit))

lemma grows_Nil: "grows (writes []) 0 True"
  by (simp add: grows_def writes_def)

lemma grows_Cons: "grows f m A \<Longrightarrow> grows (writes fs) n B \<Longrightarrow> grows (writes (f # fs)) (m + n) (A \<and> B)"
  using grows_comp [of f m A "writes fs" n B] by (simp add: writes_def [abs_def] comp_def)

lemma grows_u8: "grows (wr_u8 v) 1 True"
  by (simp add: grows_def wr_u8_def)

lemma grows_u16: "grows (wr_u16 v) 2 True"
  using grows_comp [OF grows_u8 grows_u8] by (simp add: wr_u16_def [abs_def])

lemma grows_u32: "grows (wr_u32 v) 4 True"
  using grows_comp [OF grows_u16 grows_u16] by (simp add: wr_u32_def [abs_def])

lemma grows_u64: "grows (wr_u64 v) 8 True"
  using grows_comp [OF grows_u32 grows_u32] by (simp add: wr_u64_def [abs_def])

lemma grows_raw: "grows (wr_raw bs) (int (length bs)) True"
  by (simp add: grows_def wr_raw_def)

lemma grows_str: "grows (wr_str s) (4 + int (length s)) (str_good s)"
proof -
  have "grows (\<lambda>w. wr_raw (str_bytes s) (wr_u32 (of_nat (length s)) w)) (4 + int (length s)) True"
    using grows_comp [OF grows_u32 grows_raw [of "str_bytes s"]] by simp
  then show ?thesis by (auto simp: grows_def wr_str_def str_good_def)
qed

lemma grows_id: "grows (wr_id i) 8 True"
  unfolding wr_id_def by (rule grows_u64)

lemma grows_enum: "grows (wr_enum vals e) 2 True"
  unfolding wr_enum_def by (rule grows_u16)

lemma grows_boolean: "grows (wr_boolean b) 1 True"
  unfolding wr_boolean_def by (rule grows_u8)

lemma grows_fold_Nil: "grows (fold wr []) 0 True"
  by (simp add: grows_def)

lemma grows_fold_Cons: "grows (wr x) m A \<Longrightarrow> grows (fold wr xs) n B \<Longrightarrow> grows (fold wr (x # xs)) (m + n) (A \<and> B)"
  using grows_comp [of "wr x" m A "fold wr xs" n B] by (simp add: comp_def)

lemma grows_many: "grows (fold wr xs) n A \<Longrightarrow> grows (wr_many wr xs) (4 + n) A"
  using grows_comp [OF grows_u32, of "fold wr xs" n A] by (simp add: wr_many_def [abs_def])

lemma grows_ids: "grows (wr_ids ids) (4 + 8 * int (length ids)) True"
proof -
  have "grows (fold wr_id ids) (8 * int (length ids)) True"
  proof (induction ids)
    case (Cons i ids)
    with grows_fold_Cons [of wr_id i 8 True, OF grows_id Cons] show ?case by (simp add: algebra_simps comp_def)
  qed (simp add: grows_def)
  from grows_comp [OF grows_u32 this] show ?thesis by (simp add: wr_ids_def [abs_def])
qed

lemma grows_enum_set: "grows (wr_enum_set vals es) (4 + 2 * int (length es)) True"
proof -
  have "grows (fold (wr_enum vals) es) (2 * int (length es)) True"
  proof (induction es)
    case (Cons e es)
    with grows_fold_Cons [of "wr_enum vals" e 2 True, OF grows_enum Cons] show ?case by (simp add: algebra_simps comp_def)
  qed (simp add: grows_def)
  from grows_comp [OF grows_u32 this] show ?thesis by (simp add: wr_enum_set_def [abs_def])
qed

lemmas grows_intros = grows_Cons grows_Nil grows_u16 grows_u32 grows_u64 grows_raw grows_str grows_id grows_enum
  grows_boolean grows_ids grows_enum_set grows_many grows_fold_Nil grows_fold_Cons

lemma str_good_samples: "str_good []" "str_good ''default''"
  by code_simp+

lemma grows_ok: "grows f n A \<Longrightarrow> A \<Longrightarrow> n \<le> kMaxDocumentBytes \<Longrightarrow> bw_ok (f ByteWriter_default)"
  by (simp add: grows_def ByteWriter_default_def)

lemma grows_weaken: "grows f n A \<Longrightarrow> n \<le> m \<Longrightarrow> (B \<Longrightarrow> A) \<Longrightarrow> grows f m B"
  unfolding grows_def by (smt (verit))

lemma grows_fault_rule:
  "grows (write_fault_rule r) (100 + 2 * int (length (rule_propagating_kinds r)) +
     2 * int (length (rule_non_propagating_kinds r))) True"
  unfolding write_fault_rule_def by (rule grows_weaken, (rule grows_intros)+) simp_all

lemma grows_fault:
  "grows (write_fault f) (300 + int (length (fe_details (fr_evidence f))) + int (length (fr_details f)) +
     int (length (fe_digest (fr_evidence f)))) (str_good (fe_details (fr_evidence f)) \<and> str_good (fr_details f))"
  unfolding write_fault_def write_fault_evidence_def by (rule grows_weaken, (rule grows_intros)+) simp_all

definition sample_document :: RuntimeSnapshot where
  "sample_document = RuntimeSnapshot_default\<lparr>rs_epoch := Id 3, rs_policy := sample_policy,
     rs_faults := [(Id 7, FaultRecord_default\<lparr>fr_evidence := FaultEvidence_default\<lparr>fe_id := Id 7\<rparr>\<rparr>)]\<rparr>"

lemma canon_sample_policy: "canon_policy sample_policy"
proof -
  have rules: "list_all canon_fault_rule (map snd (pol_rules sample_policy))" by code_simp
  have fallback: "canon_fault_rule (pol_fallback sample_policy)" by code_simp
  show ?thesis
    unfolding canon_policy_def
    by (intro conjI rules fallback)
      (simp_all add: sample_policy_def ContainmentPolicy_default_def AdministrativeOverride_default_def
        id_set_good_def om_wf_def FaultRule_default_def kMaxRules_def)
qed

lemma canon_sample_document: "canon_state_document sample_document"
proof -
  have fault: "canon_fault (FaultRecord_default\<lparr>fr_evidence := FaultEvidence_default\<lparr>fe_id := Id 7\<rparr>\<rparr>)" by code_simp
  show ?thesis
    by (simp add: canon_state_document_def sample_document_def RuntimeSnapshot_default_def fault canon_sample_policy
        canon_topology_def topology_tables_good_def canon_workers_def table_good_def Topology_default_def WorkerRegistry_default_def
        DependencyGraph_default_def topology_resolves_def kMaxCollectionCount_def om_wf_Cons
        graph_wf_default [unfolded DependencyGraph_default_def])
qed

theorem state_document_roundtrip_witness:
  "run_state read_state_document (byte_reader (bw_buffer (write_state_document sample_document ByteWriter_default))) =
     (Some sample_document, byte_reader [])"
proof (rule state_document_roundtrip)
  show "bw_ok (write_state_document sample_document ByteWriter_default)"
    by (simp add: write_state_document_def write_topology_def write_policy_def write_admin_override_def
        sample_document_def sample_policy_def RuntimeSnapshot_default_def Topology_default_def
        DependencyGraph_default_def WorkerRegistry_default_def ContainmentPolicy_default_def FaultRule_default_def
        AdministrativeOverride_default_def FaultRecord_default_def FaultEvidence_default_def)
      (rule grows_ok, (rule grows_intros grows_fault_rule grows_fault)+, simp_all add: kMaxDocumentBytes_def str_good_samples)
  show "canon_state_document sample_document" by (rule canon_sample_document)
qed

end
