(* ===== verification/Fcf_Texts.thy ===== *)
theory Fcf_Texts
  imports Fcf_Codec_Document
begin

text \<open>
  The texts the program composes itself, names of kinds and rendered identities, are short and
  seven-bit, so the messages and journal records that hold nothing else always encode.
\<close>

section \<open>Seven-bit texts\<close>

definition seven_bit :: "string \<Rightarrow> bool" where
  "seven_bit s \<longleftrightarrow> list_all (\<lambda>c. of_char c < (128 :: nat)) s"

lemma seven_bit_simps [simp]:
  "seven_bit []" "seven_bit (c # s) \<longleftrightarrow> of_char c < (128 :: nat) \<and> seven_bit s"
  "seven_bit (s @ t) \<longleftrightarrow> seven_bit s \<and> seven_bit t"
  by (simp_all add: seven_bit_def)

lemma seven_bit_good:
  assumes "seven_bit s" and "length s \<le> 65536"
  shows "str_good s"
proof -
  have "(of_nat (of_char c) :: u8) < 0x80" if "of_char c < (128 :: nat)" for c
    using that by (simp add: word_less_nat_alt unat_of_nat)
  with assms(1) have "list_all (\<lambda>b. b < 0x80) (str_bytes s)"
    by (auto simp: seven_bit_def str_bytes_def list_all_iff)
  then have "is_valid_utf8 s" unfolding is_valid_utf8_def by (rule utf8_from_ascii)
  with assms(2) show ?thesis by (simp add: str_good_def kMaxStringBytes_def)
qed

section \<open>Rendered identities\<close>

lemma seven_bit_digits: "seven_bit acc \<Longrightarrow> seven_bit (dec_loop v acc)"
proof (induction v acc rule: dec_loop.induct)
  case (1 v acc)
  have "unat (v mod 10) < 10" using word_mod_less_divisor [of 10 v] by (simp add: word_less_nat_alt)
  then have "of_char (digit_char (unat (v mod 10))) < (128 :: nat)" by (simp add: digit_char_def)
  with 1 show ?case by (subst dec_loop.simps) simp
qed

lemma length_digits: "unat v < 10 ^ k \<Longrightarrow> length (dec_loop v acc) \<le> k + length acc"
proof (induction k arbitrary: v acc)
  case 0
  then have "v = 0" by (simp add: unat_eq_0)
  then show ?case by (subst dec_loop.simps) simp
next
  case (Suc k)
  have "unat (v div 10) < 10 ^ k" using Suc.prems by (simp add: unat_div_distrib less_mult_imp_div_less)
  from Suc.IH [OF this, of "digit_char (unat (v mod 10)) # acc"] show ?case by (subst dec_loop.simps) simp
qed

lemma id_text:
  assumes "seven_bit kName"
  shows "seven_bit (id_to_string kName i)" and "length (id_to_string kName i) \<le> length kName + 21"
proof -
  show "seven_bit (id_to_string kName i)"
    using assms by (simp add: id_to_string_def seven_bit_digits)
  have "unat (id_value i) < 10 ^ 20" by (rule less_trans [OF unsigned_less]) simp
  from length_digits [OF this, of "[]"] show "length (id_to_string kName i) \<le> length kName + 21"
    by (simp add: id_to_string_def)
qed

section \<open>Records of a key\<close>

lemma grows_history_event:
  "grows (write_history_event e) (100 + int (length (he_detail e)) + int (length (he_authority e)))
     (str_good (he_detail e) \<and> str_good (he_authority e))"
  unfolding write_history_event_def by (rule grows_weaken, (rule grows_intros)+) simp_all

lemma grows_blob: "grows (wr_blob bs) (4 + int (length bs)) (int (length bs) \<le> kMaxBlobBytes)"
proof -
  have "grows (\<lambda>w. wr_raw bs (wr_u32 (of_nat (length bs)) w)) (4 + int (length bs)) True"
    using grows_comp [OF grows_u32 grows_raw [of bs]] by simp
  then show ?thesis by (auto simp: grows_def wr_blob_def)
qed

lemma grows_if: "grows f n A \<Longrightarrow> grows (\<lambda>w. if b then f w else w) n A"
  by (simp add: grows_def)

text \<open>Whatever needs at most a thousand bytes is staged, with an audit event of short texts or without.\<close>

lemma small_event_encodes:
  assumes "grows body 1000 True"
    and "\<And>h. history = Some h \<Longrightarrow> seven_bit (he_detail h) \<and> length (he_detail h) \<le> 1000 \<and>
      seven_bit (he_authority h) \<and> length (he_authority h) \<le> 1000"
  shows "\<exists>bytes. encode_event kind history body = Some bytes"
proof -
  have ok: "bw_ok (body ByteWriter_default)" and payload: "int (length (bw_buffer (body ByteWriter_default))) \<le> 1000"
    using assms(1) [unfolded grows_def, THEN conjunct2, rule_format, of ByteWriter_default]
    by (simp_all add: ByteWriter_default_def kMaxDocumentBytes_def)
  define h where "h = (case history of None \<Rightarrow> HistoryEvent_default | Some h \<Rightarrow> h)"
  have texts: "str_good (he_detail h)" "str_good (he_authority h)" "length (he_detail h) \<le> 1000" "length (he_authority h) \<le> 1000"
    using assms(2) by (cases history; force simp: h_def HistoryEvent_default_def intro: seven_bit_good)+
  let ?event = "\<lparr>dev_kind = kind, dev_has_history = history \<noteq> None, dev_history = h,
    dev_payload = bw_buffer (body ByteWriter_default)\<rparr>"
  have "grows (write_durable_event ?event) 4000 True"
    unfolding write_durable_event_def DurableEvent.select_convs
    by (rule grows_weaken, (rule grows_intros grows_if grows_blob grows_history_event)+)
      (use texts payload in \<open>simp_all add: kMaxBlobBytes_def\<close>)
  then have "bw_ok (write_durable_event ?event ByteWriter_default)"
    by (rule grows_ok) (simp_all add: kMaxDocumentBytes_def)
  with ok show ?thesis by (simp add: encode_event_def Let_def h_def)
qed

end
