(* ===== verification/Fcf_Document_Limits.thy ===== *)
theory Fcf_Document_Limits
  imports Fcf_Texts
begin

text \<open>
  Where the runtime accepts a state its own snapshot reader refuses.
\<close>

lemma claim_members_find:
  "om_find rs m = None \<Longrightarrow> om_find (snd (claim_members d ms rs)) m = None"
proof (induction d ms rs rule: claim_members.induct)
  case (2 d member ms rs)
  show ?case
  proof (cases "om_find rs member")
    case (Some r)
    with 2 have "m \<noteq> member" by auto
    with 2 Some show ?thesis by simp
  qed (use 2 in simp)
qed simp

lemma registered_domain_unresolved:
  assumes "register_domain_locked d s = (Inr d', s')"
    and "m \<in> set (cd_members d)" and "om_find (resources s) m = None"
  shows "\<not> topology_resolves (rs_topology (im_state s'))"
proof -
  have known: "rs_topology (im_state (fold stage_known_resource ms t)) = rs_topology (im_state t)" for ms t
    by (induction ms arbitrary: t)
      (simp_all add: stage_known_resource_def stage_resource_def split: option.split)
  obtain rs where claimed: "claim_members (cd_id d) (cd_members d) (resources s) = (None, rs)"
    and new: "om_find (tp_containment_domains (rs_topology (im_state s))) (cd_id d) = None"
    and members: "cd_members d' = cd_members d"
    and tp: "tp_resources (rs_topology (im_state s')) = rs"
      "tp_containment_domains (rs_topology (im_state s')) =
        om_emplace (cd_id d) d' (tp_containment_domains (rs_topology (im_state s)))"
    using assms(1)
    by (auto simp: register_domain_locked_def Let_def known split: if_splits prod.splits option.splits)
  have absent: "om_find rs m = None"
    using claim_members_find [OF assms(3), of "cd_id d" "cd_members d"] claimed by simp
  have "(cd_id d, d') \<in> set (om_emplace (cd_id d) d' (tp_containment_domains (rs_topology (im_state s))))"
    using new by (intro map_of_SomeD) simp
  moreover have "\<not> members_resolve (rs_topology (im_state s')) (cd_members d')"
    using assms(2) absent members tp by (auto simp: members_resolve_def list_all_iff)
  ultimately show ?thesis
    unfolding topology_resolves_def tp(2) by (auto simp: list_all_iff)
qed

lemma unresolved_document_refused:
  assumes "accepts_state_document st" and "topology_tables_good (rs_topology st)"
    and "\<not> topology_resolves (rs_topology st)"
  shows "fst (run_state read_state_document (byte_reader (enc_state_document st @ rest))) = None"
proof -
  have "accepts_topology (rs_topology st)" using assms(1) by (simp add: accepts_state_document_def)
  note refused = read_topology_checks [OF this assms(2)]
  show ?thesis
    by (simp add: read_state_document_def enc_state_document_def field_reads early_def refused assms(3))
      (simp add: rd_reject_def)
qed

lemma unresolved_written_refused:
  assumes "topology_tables_good (rs_topology st)" and "\<not> topology_resolves (rs_topology st)"
    and "bw_ok (write_state_document st ByteWriter_default)"
  shows "fst (run_state read_state_document
    (byte_reader (bw_buffer (write_state_document st ByteWriter_default)))) = None"
proof -
  from emitsD [OF emits_state_document assms(3)]
  have enc: "accepts_state_document st"
    "bw_buffer (write_state_document st ByteWriter_default) = enc_state_document st"
    by (simp_all add: ByteWriter_default_def)
  from unresolved_document_refused [OF enc(1) assms(1,2), of "[]"] show ?thesis by (simp add: enc(2))
qed

text \<open>
  C38. A forward declaration is accepted and cannot be recovered: \<open>register_domain\<close> lets a
  boundary name members that are not registered yet, but a snapshot taken before they register is
  refused by the reader of the state document, which demands that every member resolves.
\<close>

theorem forward_declared_domain_unreadable:
  assumes "register_domain_locked d s = (Inr d', s')"
    and "m \<in> set (cd_members d)" and "om_find (resources s) m = None"
    and "topology_tables_good (rs_topology (im_state s'))"
    and "bw_ok (write_state_document (im_state s') ByteWriter_default)"
  shows "fst (run_state read_state_document
    (byte_reader (bw_buffer (write_state_document (im_state s') ByteWriter_default)))) = None"
  by (rule unresolved_written_refused [OF assms(4) registered_domain_unresolved [OF assms(1-3)] assms(5)])

definition quiet_runtime :: Impl where
  "quiet_runtime = \<lparr>im_config = (Config_default (\<lambda>_. 5))\<lparr>cfg_max_history_in_memory := 0\<rparr>,
     im_state = sample_document, im_store = None,
     im_pending = [], im_durable_sequence = 0, im_durability_healthy = True, im_shutting_down = False,
     im_digest_by_fault = [], im_fault_by_digest = [], im_releases = [], im_authority_loss_faults = [],
     im_next_fault = 8, im_next_action = 1, im_next_degraded = 1, im_ticks = 0\<rparr>"

definition forward_domain :: ContainmentDomain where
  "forward_domain = ContainmentDomain_default\<lparr>cd_id := Id 5, cd_members := [Id 9]\<rparr>"

lemma quiet_registered:
  "\<exists>d' s' e. register_domain_locked forward_domain quiet_runtime = (Inr d', s') \<and>
     im_state s' = sample_document\<lparr>rs_topology_generation := Id 1,
       rs_topology := Topology_default\<lparr>tp_containment_domains := [(Id 5, forward_domain\<lparr>cd_generation := Id 1\<rparr>)]\<rparr>,
       rs_history_sequence := Id 1, rs_history := [e], rs_history_total := 1\<rparr> \<and>
     str_good (he_detail e) \<and> str_good (he_authority e)"
proof -
  have texts: "str_good (''containment domain '' @ str_ContainmentDomainId (Id 5) @ '' '')"
    "str_good (''TopologyGeneration '' @ str_TopologyGeneration (Id 1))"
    by code_simp+
  have "im_state (stage k h b s) = im_state s" "im_state (stage_counters s) = im_state s" for k h b s
    by (simp_all add: stage_counters_def stage_def split: option.split)
  with texts show ?thesis
    by (simp add: register_domain_locked_def quiet_runtime_def forward_domain_def sample_document_def
        RuntimeSnapshot_default_def Topology_default_def ContainmentDomain_default_def next_generation_def
        id_valid_def Let_def record_event_def add_history_def trim_history_def now_def stage_known_resource_def
        om_emplace_def hist_def topology_authority_def Config_default_def)
qed

lemma grows_containment_domain:
  "grows (write_containment_domain d) (100 + int (length (cd_name d)) +
     8 * int (length (cd_members d))) (str_good (cd_name d))"
  unfolding write_containment_domain_def by (rule grows_weaken, (rule grows_intros)+) simp_all

theorem forward_declared_domain_unreadable_witness:
  "\<exists>d' s'. register_domain_locked forward_domain quiet_runtime = (Inr d', s') \<and>
     fst (run_state read_state_document
       (byte_reader (bw_buffer (write_state_document (im_state s') ByteWriter_default)))) = None"
proof -
  obtain d' s' e where s': "register_domain_locked forward_domain quiet_runtime = (Inr d', s')"
    and st: "im_state s' = sample_document\<lparr>rs_topology_generation := Id 1,
       rs_topology := Topology_default\<lparr>tp_containment_domains := [(Id 5, forward_domain\<lparr>cd_generation := Id 1\<rparr>)]\<rparr>,
       rs_history_sequence := Id 1, rs_history := [e], rs_history_total := 1\<rparr>"
    and good: "str_good (he_detail e)" "str_good (he_authority e)"
    using quiet_registered by blast
  have member: "Id 9 \<in> set (cd_members forward_domain)" by (simp add: forward_domain_def)
  have absent: "om_find (resources quiet_runtime) (Id 9) = None"
    by (simp add: quiet_runtime_def sample_document_def RuntimeSnapshot_default_def Topology_default_def)
  have "canon_containment_domain (forward_domain\<lparr>cd_generation := Id 1\<rparr>)"
    by (simp add: canon_containment_domain_def forward_domain_def ContainmentDomain_default_def id_set_good_def
        kMaxMembersPerRecord_def id_valid_def)
  then have tables: "topology_tables_good (rs_topology (im_state s'))"
    by (simp add: st topology_tables_good_def table_good_def Topology_default_def forward_domain_def
        DependencyGraph_default_def kMaxCollectionCount_def om_wf_Cons ContainmentDomain_default_def
        graph_wf_default [unfolded DependencyGraph_default_def])
  have short: "int (length (he_detail e)) \<le> kMaxStringBytes" "int (length (he_authority e)) \<le> kMaxStringBytes"
    using good by (simp_all add: str_good_def)
  have "bw_ok (write_state_document (im_state s') ByteWriter_default)"
    by (simp add: st write_state_document_def write_topology_def write_policy_def write_admin_override_def
        sample_document_def sample_policy_def RuntimeSnapshot_default_def Topology_default_def forward_domain_def
        DependencyGraph_default_def WorkerRegistry_default_def ContainmentPolicy_default_def FaultRule_default_def
        AdministrativeOverride_default_def FaultRecord_default_def FaultEvidence_default_def
        ContainmentDomain_default_def)
      (rule grows_ok, (rule grows_intros grows_fault_rule grows_fault grows_history_event grows_containment_domain)+,
        use good short in \<open>simp_all add: kMaxDocumentBytes_def kMaxStringBytes_def str_good_samples\<close>)
  from forward_declared_domain_unreadable [OF s' member absent tables this] s' show ?thesis by blast
qed

end
