(* ===== verification/Fcf_Crc32c.thy ===== *)
theory Fcf_Crc32c
  imports Fcf_Bytes
begin

text \<open>
  The CRC32C checksum of \<open>src/detail/crc32c.cpp\<close> that protects journal records, snapshots and wire
  frames. The table-driven update is shown equal to the bit-at-a-time division by the Castagnoli
  polynomial, and from that the detection of every burst of up to four bytes.
\<close>

section \<open>The code\<close>

text \<open>One round of the loop over the bits of a table entry.\<close>

definition crc_round :: "u32 \<Rightarrow> u32" where
  "crc_round crc = (if crc AND 1 \<noteq> 0 then drop_bit 1 crc XOR 0x82F63B78 else drop_bit 1 crc)"

definition crc_entry :: "nat \<Rightarrow> u32" where
  "crc_entry i = (crc_round ^^ 8) (of_nat i)"

definition kTable :: "u32 list" where
  "kTable = map crc_entry [0..<256]"

definition crc_step :: "u8 \<Rightarrow> u32 \<Rightarrow> u32" where
  "crc_step b crc = kTable ! unat ((crc XOR ucast b) AND 0xFF) XOR drop_bit 8 crc"

definition crc_update :: "u8 list \<Rightarrow> u32 \<Rightarrow> u32" where
  "crc_update bytes = fold crc_step bytes"

definition crc_value :: "u32 \<Rightarrow> u32" where
  "crc_value state = state XOR 0xFFFFFFFF"

definition crc_compute :: "u8 list \<Rightarrow> u32" where
  "crc_compute bytes = crc_value (crc_update bytes 0xFFFFFFFF)"

section \<open>The reference: division bit by bit\<close>

lemma u32_bit: "bit (c :: u32) n \<Longrightarrow> n < 32"
  using bit_imp_le_length [of c n] by simp

lemma xor_cancel: "a XOR c = b XOR c \<Longrightarrow> a = (b :: 'w::len word)"
proof -
  assume "a XOR c = b XOR c"
  then have "(a XOR c) XOR c = (b XOR c) XOR c" by (rule arg_cong)
  then show "a = b" by (simp only: xor.assoc xor_self_eq xor.right_neutral)
qed

lemma crc_round_xor: "crc_round (a XOR b) = crc_round a XOR crc_round b"
proof -
  have bit0: "(c AND 1 \<noteq> 0) = bit c 0" for c :: u32
    by (simp add: and_one_eq bit_0 odd_iff_mod_2_eq_one)
  show ?thesis
    unfolding crc_round_def bit0
    by (rule bit_word_eqI) (auto simp: bit_simps)
qed

lemma crc_rounds_xor: "(crc_round ^^ n) (a XOR b) = (crc_round ^^ n) a XOR (crc_round ^^ n) b"
  by (induction n) (simp_all add: crc_round_xor)

lemma crc_round_inj: "crc_round a = crc_round b \<Longrightarrow> a = b"
proof -
  assume eq: "crc_round a = crc_round b"
  have bit0: "(c AND 1 \<noteq> 0) = bit c 0" for c :: u32
    by (simp add: and_one_eq bit_0 odd_iff_mod_2_eq_one)
  have top: "bit (crc_round c) 31 = bit c 0" for c
    unfolding crc_round_def bit0 by (auto simp: bit_simps dest: u32_bit)
  have low: "bit a 0 = bit b 0" using eq top by metis
  then have "drop_bit 1 a = drop_bit 1 b"
    using eq unfolding crc_round_def bit0 by (auto split: if_splits dest: xor_cancel)
  then have "bit a (Suc n) = bit b (Suc n)" for n
    by (metis add.commute bit_drop_bit_eq comp_apply plus_1_eq_Suc)
  with low show "a = b" by (metis bit_word_eqI not0_implies_Suc)
qed

lemma crc_rounds_inj: "(crc_round ^^ n) a = (crc_round ^^ n) b \<Longrightarrow> a = b"
  by (induction n) (auto dest: crc_round_inj)

lemma crc_rounds_shift: "n + m \<le> 32 \<Longrightarrow> (\<And>i. i < n \<Longrightarrow> \<not> bit c i) \<Longrightarrow> (crc_round ^^ n) c = drop_bit n c"
proof (induction n arbitrary: c)
  case (Suc n)
  have "\<not> bit c 0" using Suc.prems(2) by simp
  then have "crc_round c = drop_bit 1 c"
    by (simp add: crc_round_def and_one_eq bit_0 odd_iff_mod_2_eq_one)
  then show ?case
    using Suc.IH [of "drop_bit 1 c"] Suc.prems by (simp add: funpow_Suc_right bit_drop_bit_eq del: funpow.simps)
qed simp

text \<open>The table lookup is eight rounds on the state with the byte added to its low end.\<close>

lemma crc_step_rounds: "crc_step b crc = (crc_round ^^ 8) (crc XOR ucast b)"
proof -
  let ?low = "(crc XOR ucast b) AND 0xFF" and ?high = "crc AND NOT 0xFF"
  have ff: "(0xFF :: u32) = mask 8" by (simp add: mask_eq_exp_minus_1)
  have "?low \<le> mask 8" unfolding ff by (rule word_and_le1)
  then have bound: "unat ?low < 256" unfolding ff by (simp add: word_le_nat_alt mask_eq_exp_minus_1)
  have "(crc_round ^^ 8) ?high = drop_bit 8 ?high"
    by (rule crc_rounds_shift [of 8 0]) (auto simp: ff bit_simps)
  also have "\<dots> = drop_bit 8 crc"
    unfolding ff by (rule bit_word_eqI) (auto simp: bit_simps dest: u32_bit)
  finally have high: "(crc_round ^^ 8) ?high = drop_bit 8 crc" .
  have low: "kTable ! unat ?low = (crc_round ^^ 8) ?low"
    using bound by (simp add: kTable_def crc_entry_def)
  have split: "crc XOR ucast b = ?low XOR ?high"
    unfolding ff by (rule bit_word_eqI) (auto simp: bit_simps dest: bit_imp_le_length)
  show ?thesis
    unfolding crc_step_def low using high by (subst (2) split) (simp add: crc_rounds_xor)
qed

text \<open>The message as one bit string, least significant bit of each byte first.\<close>

fun crc_bits :: "u8 list \<Rightarrow> u32 \<Rightarrow> u32" where
  "crc_bits [] crc = crc"
| "crc_bits (b # bs) crc = crc_bits bs (fold (\<lambda>i crc. crc_round (crc XOR (if bit b i then 1 else 0))) [0..<8] crc)"

lemma crc_fold_bits:
  "n \<le> 8 \<Longrightarrow> fold (\<lambda>i crc. crc_round (crc XOR (if bit b i then 1 else 0))) [0..<n] crc =
    (crc_round ^^ n) (crc XOR (ucast b AND mask n))"
proof (induction n)
  case (Suc n)
  let ?x = "ucast b AND mask n :: u32" and ?d = "if bit b n then push_bit n 1 else 0 :: u32"
  have split: "(ucast b AND mask (Suc n) :: u32) = ?x XOR ?d"
    by (rule bit_word_eqI) (auto simp: bit_simps less_Suc_eq dest: bit_imp_le_length)
  have "(crc_round ^^ n) ?d = drop_bit n ?d"
    using Suc.prems by (intro crc_rounds_shift [of n 0]) (auto simp: bit_simps)
  also have "\<dots> = (if bit b n then 1 else 0)"
    using Suc.prems by (cases "bit b n") (auto intro!: bit_word_eqI simp: bit_simps bit_1_iff)
  finally show ?case
    using Suc by (simp add: split crc_rounds_xor ac_simps)
qed simp

text \<open>
  The table-driven checksum is the bitwise one: feeding the bytes through the table gives
  exactly the remainder of feeding the message bit by bit, from the least significant bit of each
  byte, through the division by the Castagnoli polynomial.
\<close>

theorem crc_compute_bitwise: "crc_compute bytes = crc_bits bytes 0xFFFFFFFF XOR 0xFFFFFFFF"
proof -
  have "crc_update bs crc = crc_bits bs crc" for bs crc
  proof (induction bs arbitrary: crc)
    case (Cons b bs)
    have "(ucast b AND mask 8 :: u32) = ucast b"
      by (rule bit_word_eqI) (auto simp: bit_simps dest: bit_imp_le_length)
    then have "crc_step b crc = fold (\<lambda>i crc. crc_round (crc XOR (if bit b i then 1 else 0))) [0..<8] crc"
      by (subst crc_fold_bits) (simp_all add: crc_step_rounds)
    with Cons show ?case by (simp add: crc_update_def)
  qed (simp add: crc_update_def)
  then show ?thesis by (simp add: crc_compute_def crc_value_def)
qed

section \<open>What it detects\<close>

lemma crc_update_append: "crc_update (xs @ ys) crc = crc_update ys (crc_update xs crc)"
  by (simp add: crc_update_def)

lemma crc_update_inj: "crc_update bs a = crc_update bs b \<Longrightarrow> a = b"
proof (induction bs arbitrary: a b)
  case (Cons x bs)
  then have "crc_step x a = crc_step x b" by (simp add: crc_update_def)
  then have "a XOR ucast x = b XOR ucast x" unfolding crc_step_rounds by (rule crc_rounds_inj)
  then show ?case by (rule xor_cancel)
qed (simp add: crc_update_def)

lemma le_value_bit: "bit (le_value bs :: 'w::len word) n \<Longrightarrow> n < 8 * length bs"
proof (induction bs arbitrary: n)
  case (Cons b bs)
  then have "bit (ucast b :: 'w word) n \<or> 8 \<le> n \<and> bit (le_value bs :: 'w word) (n - 8)"
    by (auto simp: bit_simps)
  moreover have "bit (ucast b :: 'w word) n \<Longrightarrow> n < 8" by (auto simp: bit_simps dest: bit_imp_le_length)
  moreover have "bit (le_value bs :: 'w word) (n - 8) \<Longrightarrow> n - 8 < 8 * length bs" by (rule Cons.IH)
  ultimately show ?case by auto
qed simp

text \<open>Up to four bytes enter the state as one word.\<close>

lemma crc_update_word:
  "length bs \<le> 4 \<Longrightarrow> crc_update bs crc = (crc_round ^^ (8 * length bs)) (crc XOR le_value bs)"
proof (induction bs arbitrary: crc)
  case (Cons b bs)
  let ?v = "le_value bs :: u32"
  have v: "bit ?v n \<Longrightarrow> n < 24" for n
    using le_value_bit [of bs n] Cons.prems by fastforce
  have "(crc_round ^^ 8) (push_bit 8 ?v) = drop_bit 8 (push_bit 8 ?v)"
    by (rule crc_rounds_shift [of 8 0]) (auto simp: bit_simps)
  also have "\<dots> = ?v" by (rule bit_word_eqI) (auto simp: bit_simps dest: v)
  finally have shift: "(crc_round ^^ 8) (push_bit 8 ?v) = ?v" .
  have word: "(le_value (b # bs) :: u32) = ucast b XOR push_bit 8 ?v"
    by (rule bit_word_eqI) (auto simp: bit_simps dest: bit_imp_le_length)
  have "crc_update (b # bs) crc = crc_update bs (crc_step b crc)" by (simp add: crc_update_def)
  also have "\<dots> = (crc_round ^^ (8 * length bs)) (crc_step b crc XOR ?v)"
    using Cons by simp
  also have "crc_step b crc XOR ?v = (crc_round ^^ 8) (crc XOR le_value (b # bs))"
    unfolding word crc_step_rounds by (simp add: crc_rounds_xor shift ac_simps)
  finally have run: "crc_update (b # bs) crc =
      (crc_round ^^ (8 * length bs)) ((crc_round ^^ 8) (crc XOR le_value (b # bs)))" .
  have count: "8 * length (b # bs) = 8 * length bs + 8" by simp
  show ?case unfolding run count funpow_add comp_apply ..
qed (simp add: crc_update_def)

lemma le_value_inj:
  "length as = length bs \<Longrightarrow> length bs \<le> 4 \<Longrightarrow> (le_value as :: u32) = le_value bs \<Longrightarrow> as = bs"
proof (induction as bs rule: list_induct2)
  case (Cons a as b bs)
  let ?a = "le_value as :: u32" and ?b = "le_value bs :: u32"
  have small: "bit ?a n \<Longrightarrow> n < 24" "bit ?b n \<Longrightarrow> n < 24" for n
    using le_value_bit [of as n] le_value_bit [of bs n] Cons by fastforce+
  have eq: "bit (ucast a OR push_bit 8 ?a) n = bit (ucast b OR push_bit 8 ?b :: u32) n" for n
    using Cons.prems by simp
  have "bit a n = bit b n" for n
    using eq [of n] by (cases "n < 8") (auto simp: bit_simps dest: bit_imp_le_length)
  then have "a = b" by (rule bit_word_eqI)
  moreover have "bit ?a n = bit ?b n" for n
    using eq [of "n + 8"] small [of n] by (cases "n < 24") (auto simp: bit_simps dest: bit_imp_le_length)
  then have "?a = ?b" by (rule bit_word_eqI)
  ultimately show ?case using Cons by simp
qed simp

lemma crc_burst:
  assumes "length xs = length ys" and "length ys \<le> 4"
    and "crc_compute (pre @ xs @ post) = crc_compute (pre @ ys @ post)"
  shows "xs = ys"
proof -
  have "crc_update post (crc_update xs (crc_update pre 0xFFFFFFFF)) =
      crc_update post (crc_update ys (crc_update pre 0xFFFFFFFF))"
    using assms(3) unfolding crc_compute_def crc_value_def crc_update_append by (rule xor_cancel)
  then have "crc_update xs (crc_update pre 0xFFFFFFFF) = crc_update ys (crc_update pre 0xFFFFFFFF)"
    by (rule crc_update_inj)
  then have "crc_update pre 0xFFFFFFFF XOR le_value xs = crc_update pre 0xFFFFFFFF XOR le_value ys"
    using assms(1,2) by (simp only: crc_update_word) (rule crc_rounds_inj)
  then have "(le_value xs :: u32) = le_value ys"
    by (simp only: xor.commute [of "crc_update pre 0xFFFFFFFF"]) (rule xor_cancel)
  with assms(1,2) show ?thesis by (intro le_value_inj)
qed

end
