(* ===== verification/Fcf_Little_Endian.thy ===== *)
theory Fcf_Little_Endian
  imports Fcf_Bytes Fcf_Error
begin

text \<open>
  The fixed-width little-endian helpers that \<open>src/persistence.cpp\<close> and \<open>src/wire.cpp\<close> use for their
  headers, outside the bounded writer and reader: the loops over the bytes of a value.
\<close>

definition put_u16 :: "u16 \<Rightarrow> u8 list" where
  "put_u16 value = [ucast (value AND 0xFF), ucast (drop_bit 8 value AND 0xFF)]"

definition get_u16 :: "u8 list \<Rightarrow> u16" where
  "get_u16 bytes = ucast (bytes ! 0) OR push_bit 8 (ucast (bytes ! 1))"

definition put_u32 :: "u32 \<Rightarrow> u8 list" where
  "put_u32 value = map (\<lambda>i. ucast (drop_bit (8 * i) value AND 0xFF)) [0..<4]"

definition put_u64 :: "u64 \<Rightarrow> u8 list" where
  "put_u64 value = map (\<lambda>i. ucast (drop_bit (8 * i) value AND 0xFF)) [0..<8]"

definition get_u32 :: "u8 list \<Rightarrow> u32" where
  "get_u32 bytes = fold (\<lambda>i value. value OR push_bit (8 * i) (ucast (bytes ! i))) [0..<4] 0"

definition get_u64 :: "u8 list \<Rightarrow> u64" where
  "get_u64 bytes = fold (\<lambda>i value. value OR push_bit (8 * i) (ucast (bytes ! i))) [0..<8] 0"

section \<open>Reading back\<close>

lemma length_put [simp]: "length (put_u32 v) = 4" "length (put_u64 w) = 8" "length (put_u16 u) = 2"
  by (simp_all add: put_u16_def put_u32_def put_u64_def)

text \<open>The loops of \<open>get\<close> over the bytes of \<open>put\<close> collect the value from its low end.\<close>

lemma collect_bytes:
  fixes v :: "'w::len word"
  assumes "\<And>i. i < m \<Longrightarrow> bytes ! i = (ucast (drop_bit (8 * i) v AND mask 8) :: u8)"
  shows "fold (\<lambda>i value. value OR push_bit (8 * i) (ucast (bytes ! i))) [0..<m] 0 = v AND mask (8 * m)"
  using assms
proof (induction m)
  case (Suc m)
  have "(v AND mask (8 * m)) OR push_bit (8 * m) (ucast (ucast (drop_bit (8 * m) v AND mask 8) :: u8)) =
      v AND mask (8 * Suc m)"
    by (rule bit_word_eqI) (auto simp: bit_simps dest: bit_imp_le_length)
  with Suc show ?case by simp
qed simp

lemma get_put_u32 [simp]: "get_u32 (put_u32 v @ rest) = v"
proof -
  have "get_u32 (put_u32 v @ rest) = v AND mask (8 * 4)"
    unfolding get_u32_def
    by (rule collect_bytes) (simp add: put_u32_def nth_append mask_eq_exp_minus_1)
  also have "\<dots> = v" by (rule bit_word_eqI) (auto simp: bit_simps)
  finally show ?thesis .
qed

lemma get_put_u64 [simp]: "get_u64 (put_u64 v @ rest) = v"
proof -
  have "get_u64 (put_u64 v @ rest) = v AND mask (8 * 8)"
    unfolding get_u64_def
    by (rule collect_bytes) (simp add: put_u64_def nth_append mask_eq_exp_minus_1)
  also have "\<dots> = v" by (rule bit_word_eqI) (auto simp: bit_simps)
  finally show ?thesis .
qed

lemma get_put_u64_exact [simp]: "get_u64 (put_u64 v) = v"
  using get_put_u64 [of v "[]"] by simp

lemma get_put_u16 [simp]: "get_u16 (put_u16 v @ rest) = v"
proof -
  have "(v AND mask 8) OR push_bit 8 (drop_bit 8 v AND mask 8) = v"
    by (rule bit_word_eqI) (auto simp: bit_simps)
  moreover have "ucast (ucast (v AND mask 8) :: u8) = v AND mask 8"
    "ucast (ucast (drop_bit 8 v AND mask 8) :: u8) = drop_bit 8 v AND mask 8"
    by (rule bit_word_eqI; auto simp: bit_simps dest: bit_imp_le_length)+
  ultimately show ?thesis by (simp add: get_u16_def put_u16_def byte_masks(1))
qed

end
