(* ===== verification/Fcf_Persistence.thy ===== *)
theory Fcf_Persistence
  imports Fcf_Crc32c Fcf_Little_Endian "HOL-Library.Sublist"
begin

text \<open>
  The durable store of \<open>src/persistence.cpp\<close> in its POSIX branch: a directory with an atomically
  replaced snapshot and an append-only journal. The answers of the system calls are parameters of
  the operations: a record of outcomes says which call fails, and how many bytes each \<open>read\<close> and
  \<open>write\<close> transfers. What is written to the journal is visible to every later \<open>read\<close> at once, but
  only what a successful \<open>fsync\<close> has covered is certain to be there after a crash.
\<close>

section \<open>Layout\<close>

definition kMaxJournalRecordBytes :: u32 where "kMaxJournalRecordBytes = 8388608"
definition kMaxSnapshotPayloadBytes :: u32 where "kMaxSnapshotPayloadBytes = 134217728"
definition kMaxJournalFileBytes :: nat where "kMaxJournalFileBytes = 536870912"
definition kSnapshotMagic :: "u8 list" where "kSnapshotMagic = [0x46, 0x43, 0x46, 0x53, 0x4E, 0x41, 0x50, 0x31]"
definition kSnapshotHeaderBytes :: nat where "kSnapshotHeaderBytes = 28"
definition kSnapshotFormatVersion :: u32 where "kSnapshotFormatVersion = 1"
definition kJournalRecordMagic :: u32 where "kJournalRecordMagic = 0x314A4346"
definition kJournalHeaderBytes :: nat where "kJournalHeaderBytes = 12"

section \<open>Files and system calls\<close>

text \<open>What \<open>lstat\<close> tells of a path.\<close>

datatype FileNode = Missing | Symlink | Special | File "u8 list"

record StoreDir =
  sd_snapshot :: FileNode
  sd_temp :: FileNode
  sd_journal :: FileNode

text \<open>An error of \<open>lstat\<close> other than \<open>ENOENT\<close>, an error of \<open>open\<close>, what each \<open>read\<close> returns and the
  error text of one that fails. The file keeps its content between these calls.\<close>

record ReadCalls =
  rc_stat :: "string option"
  rc_open :: "string option"
  rc_read :: "nat \<Rightarrow> int"
  rc_errno :: string

record WriteCalls =
  wc_open :: "string option"
  wc_write :: "nat \<Rightarrow> int"
  wc_fsync :: bool
  wc_rename :: bool

record TruncateCalls =
  tc_truncate :: bool
  tc_fsync :: bool

text \<open>A call never transfers more than it was asked for; the loops end since each round makes progress.\<close>

function transfer :: "(nat \<Rightarrow> int) \<Rightarrow> nat \<Rightarrow> nat \<Rightarrow> nat \<Rightarrow> int \<times> nat" where
  "transfer moved call len offset =
     (if len \<le> offset then (1, offset)
      else if moved call \<le> 0 then (moved call, offset)
      else transfer moved (Suc call) len (offset + min (nat (moved call)) (len - offset)))"
  by pat_completeness auto
termination by (relation "measure (\<lambda>(_, _, len, offset). len - offset)") auto

declare transfer.simps [simp del]

definition read_file :: "ReadCalls \<Rightarrow> nat \<Rightarrow> FileNode \<Rightarrow> u8 list option Result" where
  "read_file io ceiling node =
     (case rc_stat io of
        Some errno \<Rightarrow> fail PERSISTENCE_IO ''persist.read'' ''stat failed'' errno
      | None \<Rightarrow> (case node of
          Missing \<Rightarrow> Inr None
        | Symlink \<Rightarrow> fail PERSISTENCE_CORRUPT ''persist.read'' ''durable state path is a symlink; refusing substitution'' []
        | Special \<Rightarrow> fail PERSISTENCE_CORRUPT ''persist.read'' ''durable state path is not a file'' []
        | File content \<Rightarrow>
            if ceiling < length content
            then fail PERSISTENCE_CORRUPT ''persist.read'' ''durable file exceeds the size ceiling'' []
            else (case rc_open io of
                Some errno \<Rightarrow> fail PERSISTENCE_IO ''persist.read'' ''open failed'' errno
              | None \<Rightarrow> (case transfer (rc_read io) 0 (length content) 0 of (got, offset) \<Rightarrow>
                  if got < 0 then fail PERSISTENCE_IO ''persist.read'' ''read failed'' (rc_errno io)
                  else if offset \<noteq> length content then fail PERSISTENCE_CORRUPT ''persist.read'' ''short read'' []
                  else Inr (Some (take offset content))))))"

definition write_file_atomic :: "WriteCalls \<Rightarrow> u8 list \<Rightarrow> StoreDir \<Rightarrow> Status \<times> StoreDir" where
  "write_file_atomic io bytes dir =
     (case wc_open io of
        Some errno \<Rightarrow> (fail PERSISTENCE_IO ''persist.write'' ''temp create failed'' errno, dir)
      | None \<Rightarrow> (case transfer (wc_write io) 0 (length bytes) 0 of (put, offset) \<Rightarrow>
          if put \<le> 0 then (fail PERSISTENCE_IO ''persist.write'' ''temp write failed'' [], dir\<lparr>sd_temp := Missing\<rparr>)
          else if \<not> wc_fsync io then (fail PERSISTENCE_IO ''persist.write'' ''temp flush failed'' [], dir\<lparr>sd_temp := Missing\<rparr>)
          else if \<not> wc_rename io then (fail PERSISTENCE_IO ''persist.write'' ''atomic replace failed'' [], dir\<lparr>sd_temp := Missing\<rparr>)
          else (ok_status, dir\<lparr>sd_snapshot := File (take offset bytes), sd_temp := Missing\<rparr>)))"

section \<open>The store\<close>

text \<open>The store, and beside what the journal holds the content that its last successful \<open>fsync\<close>
  covered. Opening the journal flushes nothing.\<close>

record FileStore =
  fs_dir :: StoreDir
  fs_open :: bool
  fs_flush_on_append :: bool
  fs_stable :: "u8 list"

definition journal_content :: "StoreDir \<Rightarrow> u8 list" where
  "journal_content dir = (case sd_journal dir of File bytes \<Rightarrow> bytes | _ \<Rightarrow> [])"

text \<open>What a crash may leave of a file of content \<open>live\<close> whose last flushed content is \<open>flushed\<close>. What was
  appended since the flush reaches the disk from the front and may be cut at any byte; a truncation
  that was not flushed may be undone.\<close>

definition survives :: "u8 list \<Rightarrow> u8 list \<Rightarrow> u8 list \<Rightarrow> bool" where
  "survives flushed live bytes \<longleftrightarrow>
     (if prefix flushed live then prefix flushed bytes \<and> prefix bytes live
      else bytes = flushed \<or> prefix bytes live)"

record StoreOptions =
  so_directory :: string
  so_flush_on_append :: bool
  so_create_directory :: bool

text \<open>The outcome of creating the directory, of looking at it, and of opening the journal.\<close>

record OpenCalls =
  oc_create :: "string option"
  oc_is_directory :: bool
  oc_open :: "string option"

definition open_files :: "OpenCalls \<Rightarrow> FileStore \<Rightarrow> Status \<times> FileStore" where
  "open_files io st =
     (case oc_open io of
        Some errno \<Rightarrow> (fail PERSISTENCE_IO ''persist.open'' ''cannot open journal'' errno, st\<lparr>fs_open := False\<rparr>)
      | None \<Rightarrow> (ok_status, st\<lparr>fs_dir := (fs_dir st)\<lparr>sd_journal := File (journal_content (fs_dir st))\<rparr>, fs_open := True\<rparr>))"

definition store_open :: "OpenCalls \<Rightarrow> StoreOptions \<Rightarrow> StoreDir \<Rightarrow> FileStore Result" where
  "store_open io options dir =
     (if so_directory options = []
      then Inl (make_error INVALID_ARGUMENT ''persist.open'' ''state directory must not be empty'' [])
      else case (if so_create_directory options then oc_create io else None) of
        Some message \<Rightarrow> Inl (make_error PERSISTENCE_IO ''persist.open'' ''cannot create state directory'' message)
      | None \<Rightarrow>
          if \<not> oc_is_directory io
          then Inl (make_error PERSISTENCE_IO ''persist.open'' ''state directory is not a directory'' (so_directory options))
          else (case open_files io \<lparr>fs_dir = dir, fs_open = False,
                    fs_flush_on_append = so_flush_on_append options, fs_stable = []\<rparr> of
              (Inl e, _) \<Rightarrow> Inl e
            | (Inr _, st) \<Rightarrow> Inr st))"

text \<open>The bytes of a journal record and of a snapshot image.\<close>

definition journal_record :: "u64 \<Rightarrow> u8 list \<Rightarrow> u8 list" where
  "journal_record sequence payload =
     (let region = put_u64 sequence @ payload
      in put_u32 kJournalRecordMagic @ put_u32 (of_nat (8 + length payload)) @ put_u32 (crc_compute region) @ region)"

definition snapshot_image :: "u64 \<Rightarrow> u8 list \<Rightarrow> u8 list" where
  "snapshot_image sequence payload =
     (let region = put_u64 sequence @ payload;
          head = kSnapshotMagic @ put_u32 kSnapshotFormatVersion @ put_u64 (of_nat (8 + length payload))
      in head @ put_u32 (crc_compute head) @ put_u32 (crc_compute region) @ region)"

definition store_append :: "WriteCalls \<Rightarrow> u64 \<Rightarrow> u8 list \<Rightarrow> FileStore \<Rightarrow> Status \<times> FileStore" where
  "store_append io sequence payload st =
     (if unat kMaxJournalRecordBytes < length payload
      then (fail PERSISTENCE_IO ''persist.append'' ''record exceeds the journal record ceiling''
              (nat_to_string (length payload)), st)
      else if \<not> fs_open st then (fail PERSISTENCE_IO ''persist.append'' ''journal is not open'' [], st)
      else let record = journal_record sequence payload in
        case transfer (wc_write io) 0 (length record) 0 of (put, offset) \<Rightarrow>
          let st = st\<lparr>fs_dir := (fs_dir st)\<lparr>sd_journal := File (journal_content (fs_dir st) @ take offset record)\<rparr>\<rparr>
          in if put \<le> 0 then (fail PERSISTENCE_IO ''persist.append'' ''journal write failed'' [], st)
             else if \<not> fs_flush_on_append st then (ok_status, st)
             else if \<not> wc_fsync io then (fail PERSISTENCE_IO ''persist.append'' ''journal flush failed'' [], st)
             else (ok_status, st\<lparr>fs_stable := journal_content (fs_dir st)\<rparr>))"

definition truncate_journal_locked :: "TruncateCalls \<Rightarrow> FileStore \<Rightarrow> Status \<times> FileStore" where
  "truncate_journal_locked io st =
     (if \<not> fs_open st then (fail PERSISTENCE_IO ''persist.truncate'' ''journal is not open'' [], st)
      else if \<not> tc_truncate io then (fail PERSISTENCE_IO ''persist.truncate'' ''journal truncate failed'' [], st)
      else let st = st\<lparr>fs_dir := (fs_dir st)\<lparr>sd_journal := File []\<rparr>\<rparr>
        in if \<not> tc_fsync io then (fail PERSISTENCE_IO ''persist.truncate'' ''journal flush failed'' [], st)
           else (ok_status, st\<lparr>fs_stable := []\<rparr>))"

definition save_snapshot ::
    "WriteCalls \<Rightarrow> TruncateCalls \<Rightarrow> u8 list \<Rightarrow> u64 \<Rightarrow> FileStore \<Rightarrow> Status \<times> FileStore" where
  "save_snapshot io tio payload sequence st =
     (if unat kMaxSnapshotPayloadBytes < length payload
      then (fail PERSISTENCE_IO ''persist.snapshot'' ''snapshot exceeds the payload ceiling''
              (nat_to_string (length payload)), st)
      else case write_file_atomic io (snapshot_image sequence payload) (fs_dir st) of
          (Inl e, dir) \<Rightarrow> (Inl e, st\<lparr>fs_dir := dir\<rparr>)
        | (Inr _, dir) \<Rightarrow> truncate_journal_locked tio (st\<lparr>fs_dir := dir\<rparr>))"

section \<open>Recovery\<close>

record Recovery =
  rec_snapshot_present :: bool
  rec_snapshot_payload :: "u8 list"
  rec_snapshot_sequence :: u64
  rec_journal_records :: "u8 list list"
  rec_journal_sequences :: "u64 list"
  rec_torn_tail_bytes :: nat
  rec_records_applied :: nat
  rec_records_skipped :: nat

definition Recovery_default :: Recovery where
  "Recovery_default = \<lparr>rec_snapshot_present = False, rec_snapshot_payload = [], rec_snapshot_sequence = 0,
     rec_journal_records = [], rec_journal_sequences = [], rec_torn_tail_bytes = 0,
     rec_records_applied = 0, rec_records_skipped = 0\<rparr>"

definition corrupt :: "string \<Rightarrow> string \<Rightarrow> 'a Result" where
  "corrupt what detail = Inl (make_error PERSISTENCE_CORRUPT ''persist.recover'' what detail)"

definition recover_snapshot :: "u8 list \<Rightarrow> Recovery \<Rightarrow> Recovery Result" where
  "recover_snapshot bytes r =
     (if length bytes < kSnapshotHeaderBytes then corrupt ''snapshot header truncated'' (nat_to_string (length bytes))
      else if take 8 bytes \<noteq> kSnapshotMagic then corrupt ''snapshot magic mismatch'' []
      else if get_u32 (drop 8 bytes) \<noteq> kSnapshotFormatVersion
      then Inl (make_error PERSISTENCE_UNSUPPORTED_VERSION ''persist.recover'' ''unsupported snapshot format version''
             (nat_to_string (unat (get_u32 (drop 8 bytes)))))
      else let payload_len = get_u64 (drop 12 bytes) in
        if unat kMaxSnapshotPayloadBytes < unat payload_len
        then corrupt ''snapshot declares an absurd payload length'' (nat_to_string (unat payload_len))
        else if get_u32 (drop 20 bytes) \<noteq> crc_compute (take (kSnapshotHeaderBytes - 8) bytes)
        then corrupt ''snapshot header checksum mismatch'' []
        else if 2 ^ 64 - 1 - unat payload_len < kSnapshotHeaderBytes
        then corrupt ''snapshot length overflows the address space'' []
        else let expected_total = kSnapshotHeaderBytes + unat payload_len in
          if length bytes \<noteq> expected_total
          then corrupt ''snapshot length mismatch (truncated or trailing bytes)''
                 (nat_to_string (length bytes) @ '' != '' @ nat_to_string expected_total)
          else let payload = take (unat payload_len) (drop kSnapshotHeaderBytes bytes) in
            if crc_compute payload \<noteq> get_u32 (drop 24 bytes) then corrupt ''snapshot payload checksum mismatch'' []
            else if length payload < 8 then corrupt ''snapshot payload is shorter than its sequence header'' []
            else Inr (r\<lparr>rec_snapshot_sequence := get_u64 payload, rec_snapshot_payload := drop 8 payload,
                   rec_snapshot_present := True\<rparr>))"

text \<open>The loop over the journal; \<open>bytes\<close> is what is left of it from \<open>offset\<close> on.\<close>

function recover_journal :: "nat \<Rightarrow> u8 list \<Rightarrow> Recovery \<Rightarrow> Recovery Result" where
  "recover_journal offset bytes r =
     (if bytes = [] then Inr r
      else if length bytes < kJournalHeaderBytes then Inr (r\<lparr>rec_torn_tail_bytes := length bytes\<rparr>)
      else if get_u32 bytes \<noteq> kJournalRecordMagic
      then corrupt ''journal record magic mismatch'' (''offset='' @ nat_to_string offset)
      else let record_len = get_u32 (drop 4 bytes) in
        if kMaxJournalRecordBytes < record_len
        then corrupt ''journal record declares an absurd length'' (''offset='' @ nat_to_string offset)
        else let whole = kJournalHeaderBytes + unat record_len in
          if length bytes < whole then Inr (r\<lparr>rec_torn_tail_bytes := length bytes\<rparr>)
          else let payload = take (unat record_len) (drop kJournalHeaderBytes bytes) in
            if crc_compute payload \<noteq> get_u32 (drop 8 bytes)
            then corrupt ''journal record checksum mismatch'' (''offset='' @ nat_to_string offset)
            else if record_len < 8
            then corrupt ''journal record is shorter than its sequence header'' (''offset='' @ nat_to_string offset)
            else let sequence = get_u64 payload in
              recover_journal (offset + whole) (drop whole bytes)
                (if sequence \<le> rec_snapshot_sequence r
                 then r\<lparr>rec_records_skipped := rec_records_skipped r + 1\<rparr>
                 else r\<lparr>rec_journal_records := rec_journal_records r @ [drop 8 payload],
                        rec_journal_sequences := rec_journal_sequences r @ [sequence]\<rparr>))"
  by pat_completeness auto
termination
  by (relation "measure (\<lambda>(_, bytes, _). length bytes)") (auto simp: kJournalHeaderBytes_def)

declare recover_journal.simps [simp del]

fun check_order :: "u64 \<Rightarrow> (u64 \<times> u8 list) list \<Rightarrow> Status" where
  "check_order previous [] = ok_status"
| "check_order previous ((sequence, _) # rest) =
     (if previous \<noteq> 0 \<and> sequence \<noteq> previous + 1
      then corrupt ''journal sequence gap detected''
             (nat_to_string (unat previous) @ '' -> '' @ nat_to_string (unat sequence))
      else check_order sequence rest)"

text \<open>\<open>std::stable_sort\<close> of the indexes by their sequence is \<open>sort_key\<close> on the records themselves.\<close>

definition order_records :: "Recovery \<Rightarrow> Recovery Result" where
  "order_records r =
     (let ordered = sort_key fst (zip (rec_journal_sequences r) (rec_journal_records r))
      in case check_order (rec_snapshot_sequence r) ordered of
           Inl e \<Rightarrow> Inl e
         | Inr _ \<Rightarrow> Inr (r\<lparr>rec_journal_records := map snd ordered, rec_journal_sequences := map fst ordered,
             rec_records_applied := length ordered\<rparr>))"

definition recover :: "ReadCalls \<Rightarrow> ReadCalls \<Rightarrow> StoreDir \<Rightarrow> Recovery Result" where
  "recover sio jio dir =
     (case read_file sio (kSnapshotHeaderBytes + 8 + unat kMaxSnapshotPayloadBytes) (sd_snapshot dir) of
        Inl e \<Rightarrow> Inl e
      | Inr snapshot_bytes \<Rightarrow>
          (case (case snapshot_bytes of None \<Rightarrow> Inr Recovery_default
                 | Some bytes \<Rightarrow> recover_snapshot bytes Recovery_default) of
             Inl e \<Rightarrow> Inl e
           | Inr r \<Rightarrow>
               (case read_file jio kMaxJournalFileBytes (sd_journal dir) of
                  Inl e \<Rightarrow> Inl e
                | Inr journal_bytes \<Rightarrow>
                    (case (case journal_bytes of None \<Rightarrow> Inr r | Some bytes \<Rightarrow> recover_journal 0 bytes r) of
                       Inl e \<Rightarrow> Inl e
                     | Inr r \<Rightarrow> order_records r))))"

end
