(* ===== verification/Fcf_Durability.thy ===== *)
theory Fcf_Durability
  imports Fcf_Persistence "HOL-Library.Multiset"
begin

text \<open>
  What the durable store guarantees: appended records come back in order whatever the crash left
  behind them, a snapshot is replaced atomically, corruption is reported, and the two places where
  the store accepts what it cannot recover.
\<close>

section \<open>Reading a journal\<close>

text \<open>Payloads the reader accepts: the stored length counts the sequence in front of the payload.\<close>

definition recordable :: "u8 list \<Rightarrow> bool" where
  "recordable payload \<longleftrightarrow> 8 + length payload \<le> unat kMaxJournalRecordBytes"

definition journal_of :: "(u64 \<times> u8 list) list \<Rightarrow> u8 list" where
  "journal_of ws = concat (map (\<lambda>(sequence, payload). journal_record sequence payload) ws)"

definition take_record :: "u64 \<times> u8 list \<Rightarrow> Recovery \<Rightarrow> Recovery" where
  "take_record w r =
     (if fst w \<le> rec_snapshot_sequence r then r\<lparr>rec_records_skipped := rec_records_skipped r + 1\<rparr>
      else r\<lparr>rec_journal_records := rec_journal_records r @ [snd w],
             rec_journal_sequences := rec_journal_sequences r @ [fst w]\<rparr>)"

lemma length_journal_record: "length (journal_record s p) = 20 + length p"
  by (simp add: journal_record_def Let_def)

lemma recordable_length:
  assumes "recordable p"
  shows "unat (of_nat (8 + length p) :: u32) = 8 + length p"
    and "\<not> kMaxJournalRecordBytes < (of_nat (8 + length p) :: u32)"
    and "\<not> (of_nat (8 + length p) :: u32) < 8"
proof -
  have bound: "8 + length p \<le> 8388608"
    using assms by (simp add: recordable_def kMaxJournalRecordBytes_def)
  then show unat: "unat (of_nat (8 + length p) :: u32) = 8 + length p"
    by (simp add: unat_of_nat del: of_nat_add)
  show "\<not> kMaxJournalRecordBytes < (of_nat (8 + length p) :: u32)"
    using bound unat by (simp add: word_less_nat_alt kMaxJournalRecordBytes_def del: of_nat_add)
  show "\<not> (of_nat (8 + length p) :: u32) < 8"
    using bound unat by (simp add: word_less_nat_alt del: of_nat_add)
qed

lemma journal_record_parts:
  fixes s :: u64 and p rest :: "u8 list"
  defines "bytes \<equiv> journal_record s p @ rest"
  shows "get_u32 bytes = kJournalRecordMagic"
    and "get_u32 (drop 4 bytes) = of_nat (8 + length p)"
    and "get_u32 (drop 8 bytes) = crc_compute (put_u64 s @ p)"
    and "drop 12 bytes = put_u64 s @ p @ rest"
  unfolding bytes_def journal_record_def Let_def by (simp_all add: drop_append)

lemma scan_record:
  assumes "recordable p"
  shows "recover_journal offset (journal_record s p @ rest) r =
    recover_journal (offset + length (journal_record s p)) rest (take_record (s, p) r)"
proof -
  let ?bytes = "journal_record s p @ rest"
  note parts = journal_record_parts [of s p rest] and len = recordable_length [OF assms]
  have long: "?bytes \<noteq> []" "\<not> length ?bytes < 12" "\<not> length ?bytes < 12 + (8 + length p)"
    and whole: "length (journal_record s p) = 12 + (8 + length p)"
    using length_journal_record [of s p] by auto
  have payload: "take (8 + length p) (put_u64 s @ p @ rest) = put_u64 s @ p"
    and left: "drop (12 + (8 + length p)) ?bytes = rest" "drop 8 (put_u64 s @ p) = p"
    using whole by simp_all
  show ?thesis
    by (subst recover_journal.simps)
      (simp only: kJournalHeaderBytes_def Let_def parts len long whole payload left get_put_u64 if_False if_True
        not_True_eq_False not_False_eq_True take_record_def fst_conv snd_conv refl simp_thms)
qed

lemma take_journal_record:
  assumes "12 \<le> n"
  shows "take n (journal_record s p) =
    put_u32 kJournalRecordMagic @ put_u32 (of_nat (8 + length p)) @ put_u32 (crc_compute (put_u64 s @ p)) @
      take (n - 12) (put_u64 s @ p)"
  using assms unfolding journal_record_def Let_def by (simp add: take_append)

lemma scan_torn:
  assumes "recordable p" and "n < length (journal_record s p)"
  shows "recover_journal offset (take n (journal_record s p)) r =
    Inr (if n = 0 then r else r\<lparr>rec_torn_tail_bytes := n\<rparr>)"
proof -
  define bytes where "bytes = take n (journal_record s p)"
  have n: "length bytes = n" using assms(2) by (simp add: bytes_def)
  note len = recordable_length [OF assms(1)] and short = assms(2) [unfolded length_journal_record]
  consider "n = 0" | "0 < n" "n < 12" | "12 \<le> n" by linarith
  then have "recover_journal offset bytes r = Inr (if n = 0 then r else r\<lparr>rec_torn_tail_bytes := n\<rparr>)"
  proof cases
    case 1 then show ?thesis using n by (subst recover_journal.simps) simp
  next
    case 2
    then have "bytes \<noteq> []" using n by auto
    with 2 n show ?thesis by (subst recover_journal.simps) (simp add: kJournalHeaderBytes_def)
  next
    case 3
    have head: "get_u32 bytes = kJournalRecordMagic" "get_u32 (drop 4 bytes) = of_nat (8 + length p)"
      unfolding bytes_def take_journal_record [OF 3] by (simp_all add: drop_append)
    have "bytes \<noteq> []" "\<not> length bytes < 12" "length bytes < 12 + (8 + length p)"
      using 3 n short by auto
    with 3 head len show ?thesis
      by (subst recover_journal.simps) (simp add: kJournalHeaderBytes_def Let_def n del: of_nat_add)
  qed
  then show ?thesis by (simp only: bytes_def)
qed

lemma scan_journal:
  "list_all (\<lambda>w. recordable (snd w)) ws \<Longrightarrow>
   recover_journal offset (journal_of ws @ t) r =
     recover_journal (offset + length (journal_of ws)) t (fold take_record ws r)"
proof (induction ws arbitrary: offset r)
  case (Cons w ws)
  obtain s p where w: "w = (s, p)" by (cases w)
  with Cons scan_record [of p offset s "journal_of ws @ t" r] show ?case
    by (simp add: journal_of_def add.assoc)
qed (simp add: journal_of_def)

abbreviation fresh :: "u64 \<Rightarrow> (u64 \<times> u8 list) list \<Rightarrow> (u64 \<times> u8 list) list" where
  "fresh base \<equiv> filter (\<lambda>w. \<not> fst w \<le> base)"

lemma fold_take_record:
  "fold take_record ws r = r\<lparr>
     rec_journal_records := rec_journal_records r @ map snd (fresh (rec_snapshot_sequence r) ws),
     rec_journal_sequences := rec_journal_sequences r @ map fst (fresh (rec_snapshot_sequence r) ws),
     rec_records_skipped := rec_records_skipped r + length (filter (\<lambda>w. fst w \<le> rec_snapshot_sequence r) ws)\<rparr>"
  by (induction ws arbitrary: r) (auto simp: take_record_def)

section \<open>Replay order\<close>

text \<open>The records of a run: consecutive sequences after \<open>base\<close>.\<close>

definition numbered :: "u64 \<Rightarrow> u8 list list \<Rightarrow> (u64 \<times> u8 list) list" where
  "numbered base payloads = zip (map (\<lambda>i. base + 1 + of_nat i) [0..<length payloads]) payloads"

lemma numbered_Cons: "numbered base (p # ps) = (base + 1, p) # numbered (base + 1) ps"
proof -
  have "map (\<lambda>i. base + 1 + of_nat i) [0..<Suc (length ps)] =
      (base + 1) # map (\<lambda>i. base + 1 + 1 + of_nat i) [0..<length ps]"
    by (simp add: map_upt_Suc del: upt_Suc)
  then show ?thesis by (simp add: numbered_def del: upt_Suc)
qed

lemma fst_numbered: "map fst (numbered base ps) = map (\<lambda>i. base + 1 + of_nat i) [0..<length ps]"
  and snd_numbered: "map snd (numbered base ps) = ps"
  by (simp_all add: numbered_def)

lemma unat_numbered:
  fixes base :: u64
  assumes "unat base + length ps < 2 ^ 64" and "i < length ps"
  shows "unat (base + 1 + of_nat i) = unat base + 1 + i"
proof -
  have "base + 1 + of_nat i = (of_nat (unat base + 1 + i) :: u64)" by simp
  then have "unat (base + 1 + of_nat i) = (unat base + 1 + i) mod 2 ^ 64"
    by (simp add: unat_of_nat del: of_nat_add of_nat_Suc)
  with assms show ?thesis by simp
qed

lemma sorted_numbered:
  assumes "unat base + length ps < 2 ^ 64"
  shows "sorted (map fst (numbered base ps))" and "distinct (map fst (numbered base ps))"
proof -
  have "sorted_wrt (<) (map fst (numbered base ps))"
    unfolding fst_numbered sorted_wrt_map
    by (rule sorted_wrt_mono_rel [of _ "(<)"])
      (auto simp: word_less_nat_alt unat_numbered [OF assms] strict_sorted_iff)
  then show "sorted (map fst (numbered base ps))" "distinct (map fst (numbered base ps))"
    by (simp_all only: strict_sorted_iff)
qed

lemma sort_key_numbered:
  assumes "unat base + length ps < 2 ^ 64" and "mset ws = mset (numbered base ps)"
  shows "sort_key fst ws = numbered base ps"
proof -
  have perm: "mset (sort_key fst ws) = mset (numbered base ps)" using assms(2) by simp
  then have "mset (map fst (sort_key fst ws)) = mset (map fst (numbered base ps))" by simp
  then have "distinct (map fst (sort_key fst ws))"
    using sorted_numbered(2) [OF assms(1)] by (metis mset_eq_imp_distinct_iff)
  moreover from perm have sets: "set (sort_key fst ws) = set (numbered base ps)" by (rule mset_eq_setD)
  moreover have "inj_on fst (set (sort_key fst ws) \<union> set (numbered base ps))"
    using sorted_numbered(2) [OF assms(1)] sets by (simp add: distinct_map)
  ultimately show ?thesis
    using sorted_numbered [OF assms(1)] by (intro map_sorted_distinct_set_unique) auto
qed

lemma check_order_numbered: "check_order base (numbered base ps) = ok_status"
proof (induction ps arbitrary: base)
  case (Cons p ps)
  then show ?case by (simp add: numbered_Cons)
qed (simp add: numbered_def)

section \<open>Transfers\<close>

lemma transfer_bounds:
  assumes "transfer moved call len offset = (g, offset')" and "offset \<le> len"
  shows "offset' \<le> len" and "0 < g \<longleftrightarrow> offset' = len"
  using assms
proof (induction moved call len offset rule: transfer.induct)
  case (1 moved call len offset)
  {
    case 1 then show ?case
      using 1 "1.IH" by (subst (asm) (2) transfer.simps) (auto split: if_splits)
  next
    case 2 then show ?case
      using 2 "1.IH" by (subst (asm) (2) transfer.simps) (auto split: if_splits)
  }
qed

definition reads_fully :: "ReadCalls \<Rightarrow> bool" where
  "reads_fully io \<longleftrightarrow> rc_stat io = None \<and> rc_open io = None \<and> (\<forall>call. 0 < rc_read io call)"

lemma transfer_progress: "(\<And>call. 0 < moved call) \<Longrightarrow> 0 < fst (transfer moved call len offset)"
proof (induction moved call len offset rule: transfer.induct)
  case (1 moved call len offset)
  then show ?case
    by (subst transfer.simps) (use "1.prems" [of call] in simp)
qed

lemma read_file_full:
  assumes "reads_fully io" and "length content \<le> ceiling"
  shows "read_file io ceiling (File content) = Inr (Some content)"
proof -
  obtain g offset where t: "transfer (rc_read io) 0 (length content) 0 = (g, offset)" by fastforce
  have "0 < g" using transfer_progress [of "rc_read io" 0 "length content" 0] assms(1) t
    by (simp add: reads_fully_def)
  with transfer_bounds [OF t] have "offset = length content" by simp
  with t \<open>0 < g\<close> assms show ?thesis by (simp add: read_file_def reads_fully_def)
qed

lemma read_file_missing: "reads_fully io \<Longrightarrow> read_file io ceiling Missing = Inr None"
  by (simp add: read_file_def reads_fully_def)

section \<open>Snapshots\<close>

definition snapshotable :: "u8 list \<Rightarrow> bool" where
  "snapshotable payload \<longleftrightarrow> 8 + length payload \<le> unat kMaxSnapshotPayloadBytes"

lemma length_snapshot_image: "length (snapshot_image s p) = 36 + length p"
  by (simp add: snapshot_image_def Let_def kSnapshotMagic_def)

lemma recover_snapshot_image:
  assumes "snapshotable p"
  shows "recover_snapshot (snapshot_image s p) r = Inr (r\<lparr>rec_snapshot_sequence := s,
    rec_snapshot_payload := p, rec_snapshot_present := True\<rparr>)"
proof -
  let ?region = "put_u64 s @ p" and ?head = "kSnapshotMagic @ put_u32 kSnapshotFormatVersion @ put_u64 (of_nat (8 + length p))"
  have magic: "length kSnapshotMagic = 8" by (simp add: kSnapshotMagic_def)
  have bound: "8 + length p \<le> 134217728"
    using assms by (simp add: snapshotable_def kMaxSnapshotPayloadBytes_def)
  then have len: "unat (of_nat (8 + length p) :: u64) = 8 + length p"
    by (simp add: unat_of_nat del: of_nat_add)
  define image where "image = ?head @ put_u32 (crc_compute ?head) @ put_u32 (crc_compute ?region) @ ?region"
  have image: "snapshot_image s p = image" by (simp add: snapshot_image_def Let_def image_def)
  have parts: "length image = 28 + (8 + length p)" "take 8 image = kSnapshotMagic"
    "get_u32 (drop 8 image) = kSnapshotFormatVersion" "get_u64 (drop 12 image) = of_nat (8 + length p)"
    "get_u32 (drop 20 image) = crc_compute ?head" "take 20 image = ?head"
    "get_u32 (drop 24 image) = crc_compute ?region" "drop 28 image = ?region"
    unfolding image_def by (simp_all add: magic drop_append take_append)
  have "take (8 + length p) ?region = ?region" by simp
  moreover have "\<not> 18446744073709551607 - length p < 28" using bound by linarith
  ultimately show ?thesis
    using bound unfolding recover_snapshot_def Let_def image
    by (simp add: parts kSnapshotHeaderBytes_def len kMaxSnapshotPayloadBytes_def del: of_nat_add)
qed

text \<open>The snapshot file of a store that holds \<open>snap\<close>, and where its journal starts.\<close>

definition stored_snapshot :: "(u64 \<times> u8 list) option \<Rightarrow> FileNode" where
  "stored_snapshot snap = (case snap of None \<Rightarrow> Missing | Some (s, p) \<Rightarrow> File (snapshot_image s p))"

definition snapshot_base :: "(u64 \<times> u8 list) option \<Rightarrow> u64" where
  "snapshot_base snap = (case snap of None \<Rightarrow> 0 | Some (s, _) \<Rightarrow> s)"

definition snapshot_payload :: "(u64 \<times> u8 list) option \<Rightarrow> u8 list" where
  "snapshot_payload snap = (case snap of None \<Rightarrow> [] | Some (_, p) \<Rightarrow> p)"

lemma recover_stored_snapshot:
  assumes "reads_fully sio" and "sd_snapshot dir = stored_snapshot snap" and "snapshotable (snapshot_payload snap)"
  shows "(case read_file sio (kSnapshotHeaderBytes + 8 + unat kMaxSnapshotPayloadBytes) (sd_snapshot dir) of
      Inl e \<Rightarrow> Inl e
    | Inr bytes \<Rightarrow> (case bytes of None \<Rightarrow> Inr Recovery_default | Some b \<Rightarrow> recover_snapshot b Recovery_default)) =
    Inr (Recovery_default\<lparr>rec_snapshot_sequence := snapshot_base snap, rec_snapshot_payload := snapshot_payload snap,
      rec_snapshot_present := snap \<noteq> None\<rparr>)"
proof (cases snap)
  case None
  then show ?thesis
    using assms(1,2) by (simp add: stored_snapshot_def snapshot_base_def snapshot_payload_def read_file_missing Recovery_default_def)
next
  case (Some sp)
  then obtain a b where snap: "snap = Some (a, b)" by (cases sp) simp
  with assms(3) have small: "snapshotable b" by (simp add: snapshot_payload_def)
  then have "length (snapshot_image a b) \<le> kSnapshotHeaderBytes + 8 + unat kMaxSnapshotPayloadBytes"
    by (simp add: length_snapshot_image snapshotable_def kSnapshotHeaderBytes_def)
  with snap small assms(1,2) show ?thesis
    by (simp add: stored_snapshot_def snapshot_base_def snapshot_payload_def read_file_full recover_snapshot_image)
qed

lemma recover_by_parts:
  assumes "reads_fully sio" and "sd_snapshot dir = stored_snapshot snap" and "snapshotable (snapshot_payload snap)"
    and "read_file jio kMaxJournalFileBytes (sd_journal dir) = Inr (Some bytes)"
  shows "recover sio jio dir =
    (case recover_journal 0 bytes (Recovery_default\<lparr>rec_snapshot_sequence := snapshot_base snap,
        rec_snapshot_payload := snapshot_payload snap, rec_snapshot_present := snap \<noteq> None\<rparr>) of
       Inl e \<Rightarrow> Inl e
     | Inr r \<Rightarrow> order_records r)"
  using recover_stored_snapshot [OF assms(1-3)] assms(4) unfolding recover_def
  by (auto split: sum.splits option.splits)

lemma recover_run:
  assumes "reads_fully sio" and "reads_fully jio"
    and "sd_snapshot dir = stored_snapshot snap" and "snapshotable (snapshot_payload snap)"
    and "sd_journal dir = File (journal_of ws @ take n (journal_record s p))"
    and "n < length (journal_record s p)"
    and "list_all (\<lambda>w. recordable (snd w)) ((s, p) # ws)"
    and "length (journal_of ws) + n \<le> kMaxJournalFileBytes"
    and "mset (fresh (snapshot_base snap) ws) = mset (numbered (snapshot_base snap) ps)"
    and "unat (snapshot_base snap) + length ps < 2 ^ 64"
  shows "recover sio jio dir = Inr
    \<lparr>rec_snapshot_present = (snap \<noteq> None), rec_snapshot_payload = snapshot_payload snap,
     rec_snapshot_sequence = snapshot_base snap, rec_journal_records = ps,
     rec_journal_sequences = map (\<lambda>i. snapshot_base snap + 1 + of_nat i) [0..<length ps],
     rec_torn_tail_bytes = n, rec_records_applied = length ps,
     rec_records_skipped = length ws - length ps\<rparr>"
proof -
  let ?base = "snapshot_base snap"
  let ?r = "Recovery_default\<lparr>rec_snapshot_sequence := ?base, rec_snapshot_payload := snapshot_payload snap,
    rec_snapshot_present := snap \<noteq> None\<rparr>"
  let ?torn = "take n (journal_record s p)"
  have journal: "read_file jio kMaxJournalFileBytes (sd_journal dir) = Inr (Some (journal_of ws @ ?torn))"
    using assms(2,5,6,8) by (simp add: read_file_full)
  let ?fresh = "fresh ?base ws" and ?stale = "filter (\<lambda>w. fst w \<le> ?base) ws"
  let ?q = "(fold take_record ws ?r)\<lparr>rec_torn_tail_bytes := n\<rparr>"
  have scan: "recover_journal 0 (journal_of ws @ ?torn) ?r = Inr ?q"
  proof -
    have "recordable p" "list_all (\<lambda>w. recordable (snd w)) ws" using assms(7) by simp_all
    then show ?thesis using assms(6)
      by (subst scan_journal) (simp_all add: scan_torn fold_take_record Recovery_default_def)
  qed
  have "sort_key fst ?fresh = numbered ?base ps" using assms(9,10) by (intro sort_key_numbered)
  then have order: "order_records ?q = Inr (?q\<lparr>rec_journal_records := ps,
      rec_journal_sequences := map (\<lambda>i. ?base + 1 + of_nat i) [0..<length ps], rec_records_applied := length ps\<rparr>)"
    by (simp add: order_records_def fold_take_record Recovery_default_def zip_map_fst_snd check_order_numbered
        fst_numbered snd_numbered) (simp add: numbered_def)
  have "length ?fresh = length ps"
    using assms(9) by (metis size_mset length_map snd_numbered)
  then have skipped: "length ?stale = length ws - length ps"
    using sum_length_filter_compl [of "\<lambda>w. fst w \<le> ?base" ws] by simp
  have "recover sio jio dir = order_records ?q"
    using recover_by_parts [OF assms(1,3,4) journal] scan by simp
  then show ?thesis
    unfolding order by (simp add: fold_take_record Recovery_default_def skipped)
qed

section \<open>Appending\<close>

text \<open>Appends one after the other, as a flush makes them: the first error ends the run.\<close>

fun append_all :: "WriteCalls list \<Rightarrow> (u64 \<times> u8 list) list \<Rightarrow> FileStore \<Rightarrow> Status \<times> FileStore" where
  "append_all (io # ios) ((sequence, payload) # ws) st =
     (case store_append io sequence payload st of
        (Inl e, st) \<Rightarrow> (Inl e, st)
      | (Inr _, st) \<Rightarrow> append_all ios ws st)"
| "append_all _ _ st = (ok_status, st)"

lemma store_append_effect:
  assumes "store_append io s p st = (status, st')" and "fs_open st" and "recordable p"
  obtains n where "n \<le> length (journal_record s p)"
    and "st' = st\<lparr>fs_dir := (fs_dir st)\<lparr>sd_journal := File (journal_content (fs_dir st) @ take n (journal_record s p))\<rparr>,
      fs_stable := (if status = ok_status \<and> fs_flush_on_append st
        then journal_content (fs_dir st) @ journal_record s p else fs_stable st)\<rparr>"
    and "status = ok_status \<longrightarrow> n = length (journal_record s p)"
proof -
  obtain put n where t: "transfer (wc_write io) 0 (length (journal_record s p)) 0 = (put, n)" by fastforce
  have small: "\<not> unat kMaxJournalRecordBytes < length p"
    using assms(3) by (simp add: recordable_def)
  show ?thesis
    by (rule that [of n])
      (use assms(1,2) t small transfer_bounds [OF t] in
        \<open>auto simp: store_append_def Let_def journal_content_def split: if_splits\<close>)
qed

lemma append_all_effect:
  "append_all ios ws st = (ok_status, st') \<Longrightarrow> fs_open st \<Longrightarrow> sd_journal (fs_dir st) = File bytes \<Longrightarrow>
   list_all (\<lambda>w. recordable (snd w)) ws \<Longrightarrow> length ios = length ws \<Longrightarrow>
   st' = st\<lparr>fs_dir := (fs_dir st)\<lparr>sd_journal := File (bytes @ journal_of ws)\<rparr>,
     fs_stable := (if fs_flush_on_append st \<and> ws \<noteq> [] then bytes @ journal_of ws else fs_stable st)\<rparr>"
proof (induction ios ws st arbitrary: bytes rule: append_all.induct)
  case (1 io ios s p ws st)
  obtain status st1 where a: "store_append io s p st = (status, st1)" by fastforce
  with "1.prems"(1) have ok: "status = ok_status" and run: "append_all ios ws st1 = (ok_status, st')"
    by (auto split: sum.splits)
  have rp: "recordable p" using "1.prems"(4) by simp
  from a "1.prems"(2) rp obtain n where "n \<le> length (journal_record s p)"
    and effect: "st1 = st\<lparr>fs_dir := (fs_dir st)\<lparr>sd_journal :=
        File (journal_content (fs_dir st) @ take n (journal_record s p))\<rparr>,
      fs_stable := (if status = ok_status \<and> fs_flush_on_append st
        then journal_content (fs_dir st) @ journal_record s p else fs_stable st)\<rparr>"
    and n: "status = ok_status \<longrightarrow> n = length (journal_record s p)"
    by (rule store_append_effect)
  have st1: "st1 = st\<lparr>fs_dir := (fs_dir st)\<lparr>sd_journal := File (bytes @ journal_record s p)\<rparr>,
      fs_stable := (if fs_flush_on_append st then bytes @ journal_record s p else fs_stable st)\<rparr>"
    using effect n ok "1.prems"(3) by (simp add: journal_content_def)
  have "st' = st1\<lparr>fs_dir := (fs_dir st1)\<lparr>sd_journal := File ((bytes @ journal_record s p) @ journal_of ws)\<rparr>,
      fs_stable := (if fs_flush_on_append st1 \<and> ws \<noteq> [] then (bytes @ journal_record s p) @ journal_of ws
        else fs_stable st1)\<rparr>"
    by (rule "1.IH" [OF a [symmetric, unfolded ok] refl run]) (use "1.prems" st1 in simp_all)
  then show ?case using st1 by (simp add: journal_of_def)
qed (simp_all add: journal_of_def)

text \<open>The crash of a store whose journal was flushed up to \<open>flushed\<close> and then grew by \<open>tail\<close>.\<close>

lemma survives_appended:
  assumes "survives flushed (flushed @ tail) bytes"
  obtains m where "m \<le> length tail" and "bytes = flushed @ take m tail"
proof -
  from assms have "prefix flushed bytes" "prefix bytes (flushed @ tail)" by (simp_all add: survives_def)
  then obtain cut where cut: "bytes = flushed @ cut" "prefix cut tail" by (auto elim!: prefixE)
  then show ?thesis by (intro that [of "length cut"]) (auto elim!: prefixE)
qed

lemma numbered_above:
  assumes "unat base + length ps < 2 ^ 64" and "w \<in> set (numbered base ps)"
  shows "\<not> fst w \<le> base"
proof -
  from assms(2) have "fst w \<in> set (map fst (numbered base ps))" by simp
  then obtain i where i: "i < length ps" "fst w = base + 1 + of_nat i"
    unfolding fst_numbered by (auto simp del: upt_Suc)
  with unat_numbered [OF assms(1) i(1)] show ?thesis by (simp add: word_le_nat_alt)
qed

lemma fresh_numbered:
  assumes "unat base + length ps < 2 ^ 64" and "mset ws = mset (numbered base ps)"
  shows "fresh base ws = ws"
  using numbered_above [OF assms(1)] mset_eq_setD [OF assms(2)] by (intro filter_True) blast

lemma recordable_numbered:
  assumes "mset ws = mset (numbered base ps)" and "list_all recordable ps"
  shows "list_all (\<lambda>w. recordable (snd w)) ws"
proof -
  have "recordable (snd w)" if "w \<in> set ws" for w
  proof -
    from that have "snd w \<in> set (map snd (numbered base ps))" using mset_eq_setD [OF assms(1)] by simp
    then show ?thesis using assms(2) by (simp only: snd_numbered) (simp add: list_all_iff)
  qed
  then show ?thesis by (simp add: list_all_iff)
qed

text \<open>What a crash leaves of an acknowledged run of appends and the one after it.\<close>

lemma crashed_journal:
  assumes "fs_open st" and "fs_flush_on_append st" and "sd_journal (fs_dir st) = File []" and "fs_stable st = []"
    and "append_all ios ws st = (ok_status, st')" and "length ios = length ws"
    and "list_all (\<lambda>w. recordable (snd w)) ws"
    and "store_append io s p st' = (status, st'')" and "recordable p"
    and "length (journal_content (fs_dir st'')) \<le> kMaxJournalFileBytes"
    and "survives (fs_stable st'') (journal_content (fs_dir st'')) bytes"
  obtains m where "m \<le> length (journal_record s p)" and "status = ok_status \<longrightarrow> m = length (journal_record s p)"
    and "bytes = journal_of ws @ take m (journal_record s p)"
    and "length (journal_of ws) + m \<le> kMaxJournalFileBytes"
    and "sd_snapshot (fs_dir st'') = sd_snapshot (fs_dir st)"
proof -
  let ?image = "journal_record s p"
  have st': "st' = st\<lparr>fs_dir := (fs_dir st)\<lparr>sd_journal := File (journal_of ws)\<rparr>, fs_stable := journal_of ws\<rparr>"
    using append_all_effect [OF assms(5,1,3,7,6)] assms(2,4) by (simp add: journal_of_def)
  have "fs_open st'" using st' assms(1) by simp
  from assms(8) this assms(9) obtain n where n: "n \<le> length ?image" "status = ok_status \<longrightarrow> n = length ?image"
    and st'': "st'' = st'\<lparr>fs_dir := (fs_dir st')\<lparr>sd_journal := File (journal_content (fs_dir st') @ take n ?image)\<rparr>,
      fs_stable := (if status = ok_status \<and> fs_flush_on_append st'
        then journal_content (fs_dir st') @ ?image else fs_stable st')\<rparr>"
    by (rule store_append_effect)
  have live: "journal_content (fs_dir st'') = journal_of ws @ take n ?image"
    and stable: "fs_stable st'' = (if status = ok_status then journal_of ws @ ?image else journal_of ws)"
    using st' st'' assms(2) by (simp_all add: journal_content_def)
  have "\<exists>m \<le> n. (status = ok_status \<longrightarrow> m = n) \<and> bytes = journal_of ws @ take m ?image"
  proof (cases "status = ok_status")
    case True
    with n live stable assms(11) have "survives (journal_of ws @ ?image) ((journal_of ws @ ?image) @ []) bytes" by simp
    then have "bytes = journal_of ws @ ?image" by (elim survives_appended) simp
    with True n show ?thesis by (intro exI [of _ n]) simp
  next
    case False
    with live stable assms(11) have "survives (journal_of ws) (journal_of ws @ take n ?image) bytes" by simp
    then obtain m where "m \<le> length (take n ?image)" "bytes = journal_of ws @ take m (take n ?image)" by (rule survives_appended)
    with False show ?thesis by (intro exI [of _ m]) (simp add: min_absorb1)
  qed
  then obtain m where "m \<le> n" "status = ok_status \<longrightarrow> m = n" "bytes = journal_of ws @ take m ?image" by blast
  with n live assms(10) st' st'' show ?thesis by (intro that [of m]) auto
qed

text \<open>
  C6. Acknowledged records survive a crash, the interrupted one is all or nothing. A store that
  flushes on every append starts with an empty journal; a run of appends is acknowledged, in whatever
  order concurrent operations made them, and one more is attempted, which a failing write or flush
  may cut at any byte. Whatever journal a crash then leaves (everything that was flushed, and of the
  rest any leading part), recovery answers: it returns the snapshot and exactly the acknowledged
  records in the order of their sequences, the last one included when it was acknowledged, and
  otherwise either completely or not at all. The records must fit the reader's limits: payload and
  sequence within the ceiling of a record, the journal within 512 MiB. The writer checks neither: it
  acknowledges payloads of eight more sizes, and recovery then refuses the whole journal.
\<close>

theorem acknowledged_appends_recovered:
  assumes "reads_fully sio" and "reads_fully jio"
    and "fs_open st" and "fs_flush_on_append st" and "sd_journal (fs_dir st) = File []" and "fs_stable st = []"
    and "sd_snapshot (fs_dir st) = stored_snapshot snap" and "snapshotable (snapshot_payload snap)"
    and "append_all ios ws st = (ok_status, st')" and "length ios = length ws"
    and "mset ws = mset (numbered (snapshot_base snap) ps)"
    and "store_append io (snapshot_base snap + 1 + of_nat (length ps)) p st' = (status, st'')"
    and "list_all recordable (p # ps)"
    and "unat (snapshot_base snap) + length ps + 1 < 2 ^ 64"
    and "length (journal_content (fs_dir st'')) \<le> kMaxJournalFileBytes"
    and "survives (fs_stable st'') (journal_content (fs_dir st'')) bytes"
  shows "\<exists>r. recover sio jio ((fs_dir st'')\<lparr>sd_journal := File bytes\<rparr>) = Inr r \<and>
    rec_snapshot_payload r = snapshot_payload snap \<and> rec_snapshot_sequence r = snapshot_base snap \<and>
    (rec_journal_records r = ps @ [p] \<or> status \<noteq> ok_status \<and> rec_journal_records r = ps)"
proof -
  let ?base = "snapshot_base snap" and ?s = "snapshot_base snap + 1 + of_nat (length ps)"
  let ?dir = "(fs_dir st'')\<lparr>sd_journal := File bytes\<rparr>"
  have rp: "recordable p" using assms(13) by simp
  have records: "list_all (\<lambda>w. recordable (snd w)) ws" using assms(11,13) by (simp add: recordable_numbered)
  from crashed_journal [OF assms(3-6,9,10) records assms(12) rp assms(15,16)]
  obtain m where m: "m \<le> length (journal_record ?s p)" "status = ok_status \<longrightarrow> m = length (journal_record ?s p)"
    and bytes: "bytes = journal_of ws @ take m (journal_record ?s p)"
    and room: "length (journal_of ws) + m \<le> kMaxJournalFileBytes"
    and "sd_snapshot (fs_dir st'') = sd_snapshot (fs_dir st)" .
  then have snapshot: "sd_snapshot ?dir = stored_snapshot snap" using assms(7) by simp
  have journal: "sd_journal ?dir = File (journal_of ws @ take m (journal_record ?s p))" using bytes by simp
  note base = assms(1,2) snapshot assms(8)
  show ?thesis
  proof (cases "m = length (journal_record ?s p)")
    case True
    let ?ws = "ws @ [(?s, p)]"
    have all: "mset ?ws = mset (numbered ?base (ps @ [p]))" using assms(11) by (simp add: numbered_def)
    have "recover sio jio ?dir = Inr
      \<lparr>rec_snapshot_present = (snap \<noteq> None), rec_snapshot_payload = snapshot_payload snap,
       rec_snapshot_sequence = ?base, rec_journal_records = ps @ [p],
       rec_journal_sequences = map (\<lambda>i. ?base + 1 + of_nat i) [0..<length (ps @ [p])],
       rec_torn_tail_bytes = 0, rec_records_applied = length (ps @ [p]),
       rec_records_skipped = length ?ws - length (ps @ [p])\<rparr>"
      by (rule recover_run [where n = 0 and s = ?s and p = p, OF base])
        (use journal True rp records room all fresh_numbered [OF _ all] assms(14) in
          \<open>simp_all add: journal_of_def length_journal_record\<close>)
    then show ?thesis by simp
  next
    case False
    with m have cut: "m < length (journal_record ?s p)" "status \<noteq> ok_status" by auto
    have "recover sio jio ?dir = Inr
      \<lparr>rec_snapshot_present = (snap \<noteq> None), rec_snapshot_payload = snapshot_payload snap,
       rec_snapshot_sequence = ?base, rec_journal_records = ps,
       rec_journal_sequences = map (\<lambda>i. ?base + 1 + of_nat i) [0..<length ps],
       rec_torn_tail_bytes = m, rec_records_applied = length ps,
       rec_records_skipped = length ws - length ps\<rparr>"
      by (rule recover_run [OF base journal cut(1)])
        (use rp records room fresh_numbered [OF _ assms(11)] assms(11,14) in simp_all)
    with cut(2) show ?thesis by simp
  qed
qed

section \<open>Replacing the snapshot\<close>

lemma write_file_atomic_cases:
  obtains e where "write_file_atomic io bytes dir = (Inl e, dir)"
  | e where "write_file_atomic io bytes dir = (Inl e, dir\<lparr>sd_temp := Missing\<rparr>)"
  | "write_file_atomic io bytes dir = (ok_status, dir\<lparr>sd_snapshot := File bytes, sd_temp := Missing\<rparr>)"
proof -
  obtain put n where t: "transfer (wc_write io) 0 (length bytes) 0 = (put, n)" by fastforce
  have all: "0 < put \<Longrightarrow> take n bytes = bytes" using transfer_bounds [OF t] by simp
  show ?thesis
  proof (cases "wc_open io")
    case None
    show ?thesis
    proof (cases "put \<le> 0 \<or> \<not> wc_fsync io \<or> \<not> wc_rename io")
      case True
      with None t show ?thesis
        by (cases "put \<le> 0"; cases "wc_fsync io") (simp_all add: write_file_atomic_def that(2))
    next
      case False
      with None t all show ?thesis by (intro that(3)) (simp add: write_file_atomic_def)
    qed
  qed (simp add: write_file_atomic_def that(1))
qed

lemma recover_cong:
  "sd_snapshot dir = sd_snapshot dir' \<Longrightarrow> sd_journal dir = sd_journal dir' \<Longrightarrow>
   recover sio jio dir = recover sio jio dir'"
  by (simp only: recover_def)

lemma recover_snapshot_oversized:
  assumes "\<not> snapshotable p" and "length p \<le> unat kMaxSnapshotPayloadBytes"
  shows "\<exists>what detail. recover_snapshot (snapshot_image s p) r = corrupt what detail"
proof -
  let ?head = "kSnapshotMagic @ put_u32 kSnapshotFormatVersion @ put_u64 (of_nat (8 + length p))"
    and ?region = "put_u64 s @ p"
  have magic: "length kSnapshotMagic = 8" by (simp add: kSnapshotMagic_def)
  have bound: "8 + length p \<le> 134217736" "134217728 < 8 + length p"
    using assms by (simp_all add: snapshotable_def kMaxSnapshotPayloadBytes_def)
  then have len: "unat (of_nat (8 + length p) :: u64) = 8 + length p"
    by (simp add: unat_of_nat del: of_nat_add)
  define image where "image = ?head @ put_u32 (crc_compute ?head) @ put_u32 (crc_compute ?region) @ ?region"
  have image: "snapshot_image s p = image" by (simp add: snapshot_image_def Let_def image_def)
  have parts: "length image = 28 + (8 + length p)" "take 8 image = kSnapshotMagic"
    "get_u32 (drop 8 image) = kSnapshotFormatVersion" "get_u64 (drop 12 image) = of_nat (8 + length p)"
    unfolding image_def by (simp_all add: magic drop_append take_append)
  show ?thesis
    using bound unfolding recover_snapshot_def Let_def image
    by (simp add: parts kSnapshotHeaderBytes_def len kMaxSnapshotPayloadBytes_def del: of_nat_add) blast
qed

lemma recover_oversized:
  assumes "reads_fully sio" and "sd_snapshot dir = File (snapshot_image sequence payload)"
    and "length payload \<le> unat kMaxSnapshotPayloadBytes" and "\<not> snapshotable payload"
  shows "\<exists>e. recover sio jio dir = Inl e \<and> err_code e = PERSISTENCE_CORRUPT"
proof -
  have "length (snapshot_image sequence payload) \<le> kSnapshotHeaderBytes + 8 + unat kMaxSnapshotPayloadBytes"
    using assms(3) by (simp add: length_snapshot_image kSnapshotHeaderBytes_def)
  then have read: "read_file sio (kSnapshotHeaderBytes + 8 + unat kMaxSnapshotPayloadBytes) (sd_snapshot dir) =
      Inr (Some (snapshot_image sequence payload))"
    using assms(1,2) by (simp add: read_file_full)
  obtain what detail where "recover_snapshot (snapshot_image sequence payload) Recovery_default = corrupt what detail"
    using recover_snapshot_oversized [OF assms(4,3)] by blast
  then show ?thesis unfolding recover_def read by (simp add: corrupt_def)
qed

lemma save_snapshot_cases:
  assumes "save_snapshot io tio payload sequence st = (status, st')"
  obtains "status \<noteq> ok_status" and "\<And>sio jio. recover sio jio (fs_dir st') = recover sio jio (fs_dir st)"
  | "length payload \<le> unat kMaxSnapshotPayloadBytes"
    and "sd_snapshot (fs_dir st') = File (snapshot_image sequence payload)"
    and "sd_journal (fs_dir st') = File [] \<or> status \<noteq> ok_status \<and> sd_journal (fs_dir st') = sd_journal (fs_dir st)"
proof (cases "unat kMaxSnapshotPayloadBytes < length payload")
  case True
  with assms show ?thesis by (intro that(1)) (auto simp: save_snapshot_def)
next
  case False
  let ?dir = "fs_dir st"
  have same: "recover sio jio (?dir\<lparr>sd_temp := Missing\<rparr>) = recover sio jio ?dir" for sio jio
    by (rule recover_cong) simp_all
  show ?thesis
  proof (cases rule: write_file_atomic_cases [of io "snapshot_image sequence payload" ?dir])
    case 3
    with assms False have "truncate_journal_locked tio
        (st\<lparr>fs_dir := ?dir\<lparr>sd_snapshot := File (snapshot_image sequence payload), sd_temp := Missing\<rparr>\<rparr>) = (status, st')"
      by (simp add: save_snapshot_def)
    with False show ?thesis
      by (intro that(2)) (auto simp: truncate_journal_locked_def Let_def split: if_splits)
  qed (use assms False same in \<open>auto simp: save_snapshot_def intro!: that(1)\<close>)
qed

text \<open>
  C7. A snapshot is replaced atomically: whatever system call of \<open>save_snapshot\<close> fails, it reports
  the failure and the directory recovers exactly as before; or the new snapshot is in place. Then
  recovery returns the new payload at its sequence, and of the records appended after that sequence
  (\<open>ps\<close>, while concurrent operations went on) all when the journal could not be truncated, which is
  reported as a failure, and otherwise none: a reported success has emptied the journal, and the
  acknowledged records the snapshot does not cover are lost. The last eight payload sizes below the
  ceiling are written, reported as saved, and refused as corrupt by every recovery. A rename that
  returned is taken to be durable; the code does not flush the directory.
\<close>

theorem save_snapshot_atomic:
  assumes "reads_fully sio" and "reads_fully jio"
    and "sd_journal (fs_dir st) = File (journal_of ws @ take n (journal_record s p))"
    and "n < length (journal_record s p)" and "list_all (\<lambda>w. recordable (snd w)) ((s, p) # ws)"
    and "length (journal_of ws) + n \<le> kMaxJournalFileBytes"
    and "mset (fresh sequence ws) = mset (numbered sequence ps)" and "unat sequence + length ps < 2 ^ 64"
    and "save_snapshot io tio payload sequence st = (status, st')"
  shows "status \<noteq> ok_status \<and> recover sio jio (fs_dir st') = recover sio jio (fs_dir st) \<or>
    snapshotable payload \<and> (\<exists>r. recover sio jio (fs_dir st') = Inr r \<and> rec_snapshot_present r \<and>
       rec_snapshot_payload r = payload \<and> rec_snapshot_sequence r = sequence \<and>
       (rec_journal_records r = [] \<or> status \<noteq> ok_status \<and> rec_journal_records r = ps)) \<or>
    \<not> snapshotable payload \<and> (\<exists>e. recover sio jio (fs_dir st') = Inl e \<and> err_code e = PERSISTENCE_CORRUPT)"
  using assms(9)
proof (cases rule: save_snapshot_cases)
  case 2
  let ?snap = "Some (sequence, payload)"
  note image = 2(2) and journal = 2(3)
  show ?thesis
  proof (cases "snapshotable payload")
    case True
    have files: "sd_snapshot (fs_dir st') = stored_snapshot ?snap" "snapshotable (snapshot_payload ?snap)"
      using image True by (simp_all add: stored_snapshot_def snapshot_payload_def)
    obtain ws' n' ps' where left: "sd_journal (fs_dir st') = File (journal_of ws' @ take n' (journal_record s p))"
      "n' < length (journal_record s p)" "list_all (\<lambda>w. recordable (snd w)) ((s, p) # ws')"
      "length (journal_of ws') + n' \<le> kMaxJournalFileBytes" "mset (fresh sequence ws') = mset (numbered sequence ps')"
      "unat sequence + length ps' < 2 ^ 64" "ps' = [] \<or> status \<noteq> ok_status \<and> ps' = ps"
    proof -
      from journal show ?thesis
      proof (elim disjE conjE)
        assume "sd_journal (fs_dir st') = File []"
        then show ?thesis
          using assms(5) unsigned_less [of sequence, where 'a = nat] that [of "[]" 0 "[]"]
          by (simp add: journal_of_def length_journal_record numbered_def)
      next
        assume "status \<noteq> ok_status" "sd_journal (fs_dir st') = sd_journal (fs_dir st)"
        then show ?thesis using that [of ws n ps] assms(3-8) by simp
      qed
    qed
    have "recover sio jio (fs_dir st') = Inr
      \<lparr>rec_snapshot_present = (?snap \<noteq> None), rec_snapshot_payload = snapshot_payload ?snap,
       rec_snapshot_sequence = snapshot_base ?snap, rec_journal_records = ps',
       rec_journal_sequences = map (\<lambda>i. snapshot_base ?snap + 1 + of_nat i) [0..<length ps'],
       rec_torn_tail_bytes = n', rec_records_applied = length ps',
       rec_records_skipped = length ws' - length ps'\<rparr>"
      by (rule recover_run [OF assms(1,2) files left(1-4)]) (use left(5,6) in \<open>simp_all add: snapshot_base_def\<close>)
    with True left(7) show ?thesis by (auto simp: snapshot_base_def snapshot_payload_def)
  next
    case False
    from False recover_oversized [OF assms(1) image 2(1) False] show ?thesis by blast
  qed
qed simp

section \<open>Corruption\<close>

text \<open>
  C33. A damaged record is never replayed: when up to four consecutive bytes of the payload region
  of one journal record, its sequence included, read back differently, recovery reports the journal
  as corrupt, whatever records stand before and after it.
\<close>

theorem burst_is_detected:
  assumes "reads_fully sio" and "reads_fully jio"
    and "sd_snapshot dir = stored_snapshot snap" and "snapshotable (snapshot_payload snap)"
    and "put_u64 s @ p = a @ m @ b" and "length m' = length m" and "length m \<le> 4" and "m' \<noteq> m"
    and "sd_journal dir = File (journal_of ws @ take 12 (journal_record s p) @ a @ m' @ b @ rest)"
    and "length (journal_content dir) \<le> kMaxJournalFileBytes"
    and "list_all (\<lambda>w. recordable (snd w)) ((s, p) # ws)"
  shows "\<exists>e. recover sio jio dir = Inl e \<and> err_code e = PERSISTENCE_CORRUPT"
proof -
  let ?head = "take 12 (journal_record s p)" and ?region = "a @ m' @ b"
  have region: "length (a @ m' @ b) = 8 + length p"
    using assms(5,6) by (metis length_append length_put(2))
  have damaged: "crc_compute ?region \<noteq> crc_compute (put_u64 s @ p)"
    unfolding assms(5) using crc_burst [of m' m a b] assms(6-8) by metis
  have head: "?head = put_u32 kJournalRecordMagic @ put_u32 (of_nat (8 + length p)) @ put_u32 (crc_compute (put_u64 s @ p))"
    using take_journal_record [of 12 s p] by simp
  have rp: "recordable p" and rws: "list_all (\<lambda>w. recordable (snd w)) ws" using assms(11) by simp_all
  note len = recordable_length [OF rp]
  have refused: "\<exists>e. recover_journal offset (?head @ ?region @ rest) r = Inl e \<and> err_code e = PERSISTENCE_CORRUPT" for offset r
  proof -
    define bytes where "bytes = ?head @ ?region @ rest"
    have parts: "get_u32 bytes = kJournalRecordMagic" "get_u32 (drop 4 bytes) = of_nat (8 + length p)"
      "get_u32 (drop 8 bytes) = crc_compute (put_u64 s @ p)"
      unfolding bytes_def head by (simp_all add: drop_append)
    have payload: "take (8 + length p) (drop 12 bytes) = ?region"
      using region unfolding bytes_def head by (simp add: drop_append)
    have "length bytes = 12 + (8 + length p) + length rest"
      using region unfolding bytes_def head by simp
    then have "\<not> length bytes < 12" "\<not> length bytes < 12 + (8 + length p)" "bytes \<noteq> []" by auto
    with parts payload len damaged have "recover_journal offset bytes r =
        corrupt ''journal record checksum mismatch'' (''offset='' @ nat_to_string offset)"
      by (subst recover_journal.simps) (simp add: kJournalHeaderBytes_def Let_def del: of_nat_add)
    then show ?thesis by (simp add: bytes_def corrupt_def)
  qed
  have journal: "read_file jio kMaxJournalFileBytes (sd_journal dir) = Inr (Some (journal_of ws @ ?head @ ?region @ rest))"
    using assms(2,9,10) by (simp add: read_file_full journal_content_def)
  from refused obtain e where "recover_journal (length (journal_of ws)) (?head @ ?region @ rest)
      (fold take_record ws (Recovery_default\<lparr>rec_snapshot_sequence := snapshot_base snap,
        rec_snapshot_payload := snapshot_payload snap, rec_snapshot_present := snap \<noteq> None\<rparr>)) = Inl e"
    "err_code e = PERSISTENCE_CORRUPT" by blast
  with scan_journal [OF rws, of 0] recover_by_parts [OF assms(1,3,4) journal] show ?thesis by simp
qed

section \<open>What the store accepts and cannot recover\<close>

lemma scan_refused:
  assumes "reads_fully sio" and "reads_fully jio"
    and "sd_snapshot dir = stored_snapshot snap" and "snapshotable (snapshot_payload snap)"
    and "sd_journal dir = File (journal_of ws @ bytes)" and "list_all (\<lambda>w. recordable (snd w)) ws"
    and "length (journal_content dir) \<le> kMaxJournalFileBytes"
    and "\<And>offset r. \<exists>what detail. recover_journal offset bytes r = corrupt what detail"
  shows "\<exists>e. recover sio jio dir = Inl e \<and> err_code e = PERSISTENCE_CORRUPT"
proof -
  have journal: "read_file jio kMaxJournalFileBytes (sd_journal dir) = Inr (Some (journal_of ws @ bytes))"
    using assms(2,5,7) by (simp add: read_file_full journal_content_def)
  obtain what detail where "recover_journal (length (journal_of ws)) bytes
      (fold take_record ws (Recovery_default\<lparr>rec_snapshot_sequence := snapshot_base snap,
        rec_snapshot_payload := snapshot_payload snap, rec_snapshot_present := snap \<noteq> None\<rparr>)) = corrupt what detail"
    using assms(8) by blast
  with scan_journal [OF assms(6), of 0] recover_by_parts [OF assms(1,3,4) journal] show ?thesis
    by (simp add: corrupt_def)
qed

text \<open>
  The ceiling of the writer is eight bytes too high: a payload of more than the record
  ceiling less the sequence is appended, flushed and acknowledged, and from then on recovery refuses
  the whole journal because the stored length is absurd.
\<close>

theorem oversized_record_unrecoverable:
  assumes "reads_fully sio" and "reads_fully jio"
    and "sd_snapshot (fs_dir st) = stored_snapshot snap" and "snapshotable (snapshot_payload snap)"
    and "sd_journal (fs_dir st) = File (journal_of ws)" and "list_all (\<lambda>w. recordable (snd w)) ws"
    and "\<not> recordable p" and "length p \<le> unat kMaxJournalRecordBytes"
    and "store_append io s p st = (ok_status, st')"
    and "length (journal_content (fs_dir st')) \<le> kMaxJournalFileBytes"
  shows "\<exists>e. recover sio jio (fs_dir st') = Inl e \<and> err_code e = PERSISTENCE_CORRUPT"
proof -
  obtain put n where t: "transfer (wc_write io) 0 (length (journal_record s p)) 0 = (put, n)" by fastforce
  have st': "sd_journal (fs_dir st') = File (journal_of ws @ journal_record s p)"
    "sd_snapshot (fs_dir st') = sd_snapshot (fs_dir st)"
    using assms(5,8,9) t transfer_bounds [OF t]
    by (auto simp: store_append_def Let_def journal_content_def split: if_splits)
  have "unat (of_nat (8 + length p) :: u32) = 8 + length p"
    using assms(8) by (simp add: unat_of_nat kMaxJournalRecordBytes_def del: of_nat_add)
  then have absurd: "kMaxJournalRecordBytes < (of_nat (8 + length p) :: u32)"
    using assms(7) by (simp add: word_less_nat_alt recordable_def kMaxJournalRecordBytes_def del: of_nat_add)
  have long: "journal_record s p \<noteq> []" "\<not> length (journal_record s p) < 12"
    using length_journal_record [of s p] by auto
  have parts: "get_u32 (journal_record s p) = kJournalRecordMagic"
    "get_u32 (drop 4 (journal_record s p)) = of_nat (8 + length p)"
    using journal_record_parts [of s p "[]"] by simp_all
  have "recover_journal offset (journal_record s p) r =
      corrupt ''journal record declares an absurd length'' (''offset='' @ nat_to_string offset)" for offset r
    using long parts absurd
    by (subst recover_journal.simps) (simp add: kJournalHeaderBytes_def Let_def del: of_nat_add)
  then show ?thesis
    using assms(3,10) st' by (intro scan_refused [OF assms(1,2) _ assms(4) _ assms(6), of _ "journal_record s p"]) auto
qed

lemma put_u32_bytes: "\<exists>a b c d. put_u32 v = [a, b, c, d]"
  unfolding put_u32_def by (simp add: upt_rec numeral_eq_Suc)

lemma get_u32_top:
  assumes "d \<noteq> 0"
  shows "kMaxJournalRecordBytes < get_u32 (a # b # c # d # rest)"
proof (rule ccontr)
  assume "\<not> ?thesis"
  then have small: "get_u32 (a # b # c # d # rest) \<le> 8388608" by (simp add: kMaxJournalRecordBytes_def)
  have upt: "[0..<4] = [0, 1, 2, 3 :: nat]" by (simp add: upt_rec numeral_eq_Suc)
  obtain i where i: "bit d i" using assms by (metis bit_0_eq bit_eqI bot_apply bot_bool_def)
  then have "i < 8" using bit_imp_le_length [of d i] by simp
  then have top: "bit (get_u32 (a # b # c # d # rest)) (24 + i)"
    using i unfolding get_u32_def upt by (simp add: bit_simps)
  have "get_u32 (a # b # c # d # rest) < 2 ^ 24" using small by (rule le_less_trans) simp
  then have "get_u32 (a # b # c # d # rest) AND mask 24 = get_u32 (a # b # c # d # rest)"
    by (simp add: mask_eq_iff word_less_def)
  with top have "bit (get_u32 (a # b # c # d # rest) AND mask 24) (24 + i)" by simp
  then show False by (simp add: bit_simps)
qed

lemma magic_bytes: "put_u32 kJournalRecordMagic = [0x46, 0x43, 0x4A, 0x31]"
  by code_simp

lemma get_u32_bytes:
  "get_u32 (a # b # c # d # rest) = ucast a OR push_bit 8 (ucast b) OR push_bit 16 (ucast c) OR push_bit 24 (ucast d)"
proof -
  have upt: "[0..<4] = [0, 1, 2, 3 :: nat]" by (simp add: upt_rec numeral_eq_Suc)
  show ?thesis unfolding get_u32_def upt by (simp add: or.assoc)
qed

lemma torn_header_refused:
  assumes "1 \<le> n" and "n \<le> 7" and "12 \<le> n + length rest" and "take 4 rest = put_u32 kJournalRecordMagic"
  shows "\<exists>what detail. recover_journal offset (take n (journal_record s p) @ rest) r = corrupt what detail"
proof -
  obtain a b c d where len: "put_u32 (of_nat (8 + length p)) = [a, b, c, d]" using put_u32_bytes by blast
  obtain tail where bytes: "journal_record s p = 0x46 # 0x43 # 0x4A # 0x31 # a # b # c # d # tail"
    unfolding journal_record_def Let_def magic_bytes len by simp
  obtain rest' where rest: "rest = 0x46 # 0x43 # 0x4A # 0x31 # rest'"
    using assms(4) unfolding magic_bytes by (metis append_Cons append_Nil append_take_drop_id)
  let ?bytes = "take n (journal_record s p) @ rest"
  have long: "?bytes \<noteq> []" "\<not> length ?bytes < kJournalHeaderBytes"
    using assms(1-3) by (auto simp: bytes kJournalHeaderBytes_def)
  have "get_u32 ?bytes \<noteq> kJournalRecordMagic \<or> kMaxJournalRecordBytes < get_u32 (drop 4 ?bytes)"
  proof (cases "n \<le> 3")
    case True
    with assms(1) consider "n = 1" | "n = 2" | "n = 3" by linarith
    then have "get_u32 ?bytes \<noteq> kJournalRecordMagic"
      by cases (simp_all add: bytes rest get_u32_bytes kJournalRecordMagic_def)
    then show ?thesis ..
  next
    case False
    with assms(2) consider "n = 4" | "n = 5" | "n = 6" | "n = 7" by linarith
    then have "kMaxJournalRecordBytes < get_u32 (drop 4 ?bytes)"
      by cases (simp_all add: bytes rest get_u32_top)
    then show ?thesis ..
  qed
  then show ?thesis
    using long by (subst recover_journal.simps) (auto simp: Let_def)
qed

text \<open>
  C34. A torn tail is discarded in memory only. When a crash left one to seven bytes of a record at
  the end of the journal, recovery succeeds with the records before it and reports the torn bytes,
  but the journal is not cut: what is appended and acknowledged next, the recovery mark itself in a
  restarted runtime, lands behind the torn bytes, and from then on, however many acknowledged records
  follow, recovery refuses the journal as corrupt. Only a saved snapshot, which empties the journal,
  ends this.
\<close>

theorem torn_tail_blocks_later_recovery:
  assumes "reads_fully sio" and "reads_fully jio"
    and "sd_snapshot (fs_dir st) = stored_snapshot snap" and "snapshotable (snapshot_payload snap)"
    and "fs_open st" and "list_all (\<lambda>w. recordable (snd w)) ((s, p) # ws)"
    and "sd_journal (fs_dir st) = File (journal_of ws @ take n (journal_record s p))" and "1 \<le> n" and "n \<le> 7"
    and "mset (fresh (snapshot_base snap) ws) = mset (numbered (snapshot_base snap) ps)"
    and "unat (snapshot_base snap) + length ps < 2 ^ 64"
    and "append_all ios ws' st = (ok_status, st')" and "length ios = length ws'" and "ws' \<noteq> []"
    and "list_all (\<lambda>w. recordable (snd w)) ws'"
    and "length (journal_content (fs_dir st')) \<le> kMaxJournalFileBytes"
  shows "(\<exists>r. recover sio jio (fs_dir st) = Inr r \<and> rec_snapshot_payload r = snapshot_payload snap \<and>
      rec_journal_records r = ps \<and> rec_torn_tail_bytes r = n) \<and>
    (\<exists>e. recover sio jio (fs_dir st') = Inl e \<and> err_code e = PERSISTENCE_CORRUPT)"
proof
  have torn: "n < length (journal_record s p)" using assms(9) by (simp add: length_journal_record)
  have journal: "sd_journal (fs_dir st') = File (journal_of ws @ take n (journal_record s p) @ journal_of ws')"
    and snapshot: "sd_snapshot (fs_dir st') = stored_snapshot snap"
    using append_all_effect [OF assms(12,5,7,15,13)] assms(3) by simp_all
  have "length (journal_of ws) + n \<le> kMaxJournalFileBytes"
    using assms(16) torn by (simp add: journal journal_content_def)
  from recover_run [OF assms(1-4,7) torn assms(6) this assms(10,11)]
  show "\<exists>r. recover sio jio (fs_dir st) = Inr r \<and> rec_snapshot_payload r = snapshot_payload snap \<and>
      rec_journal_records r = ps \<and> rec_torn_tail_bytes r = n" by simp
  obtain s' p' rest where ws': "ws' = (s', p') # rest" using assms(14) by (metis list.exhaust prod.exhaust)
  then have next_record: "12 \<le> n + length (journal_of ws')" "take 4 (journal_of ws') = put_u32 kJournalRecordMagic"
    by (simp_all add: journal_of_def length_journal_record) (simp add: journal_record_def Let_def)
  show "\<exists>e. recover sio jio (fs_dir st') = Inl e \<and> err_code e = PERSISTENCE_CORRUPT"
    by (rule scan_refused [OF assms(1,2) snapshot assms(4) journal _ assms(16)
          torn_header_refused [OF assms(8,9) next_record]]) (use assms(6) in simp)
qed

section \<open>Concrete stores\<close>

definition easy_reads :: ReadCalls where
  "easy_reads = \<lparr>rc_stat = None, rc_open = None, rc_read = (\<lambda>_. 1048576), rc_errno = []\<rparr>"

definition easy_writes :: WriteCalls where
  "easy_writes = \<lparr>wc_open = None, wc_write = (\<lambda>_. 1000000000), wc_fsync = True, wc_rename = True\<rparr>"

definition empty_store :: FileStore where
  "empty_store = \<lparr>fs_dir = \<lparr>sd_snapshot = Missing, sd_temp = Missing, sd_journal = File []\<rparr>,
     fs_open = True, fs_flush_on_append = True, fs_stable = []\<rparr>"

lemma easy_reads: "reads_fully easy_reads"
  by (simp add: reads_fully_def easy_reads_def)

text \<open>A store whose journal holds the given bytes, all flushed, and the append that completes in one call.\<close>

definition store_holding :: "u8 list \<Rightarrow> FileStore" where
  "store_holding bytes = empty_store\<lparr>fs_dir := (fs_dir empty_store)\<lparr>sd_journal := File bytes\<rparr>, fs_stable := bytes\<rparr>"

lemma store_holding [simp]:
  "fs_open (store_holding bytes)" "fs_flush_on_append (store_holding bytes)" "fs_stable (store_holding bytes) = bytes"
  "sd_journal (fs_dir (store_holding bytes)) = File bytes"
  "sd_snapshot (fs_dir (store_holding bytes)) = stored_snapshot None"
  "journal_content (fs_dir (store_holding bytes)) = bytes"
  "snapshotable (snapshot_payload None)"
  by (simp_all add: store_holding_def empty_store_def stored_snapshot_def journal_content_def
      snapshotable_def snapshot_payload_def kMaxSnapshotPayloadBytes_def)

lemma append_holding:
  "length p \<le> unat kMaxJournalRecordBytes \<Longrightarrow>
   store_append easy_writes s p (store_holding bytes) = (ok_status, store_holding (bytes @ journal_record s p))"
  by (simp add: store_append_def easy_writes_def transfer.simps [of _ _ _ 0] transfer.simps [of _ _ _ "20 + length p"]
      length_journal_record Let_def kMaxJournalRecordBytes_def store_holding_def empty_store_def journal_content_def)

lemma one_byte: "recordable [b]" "Suc 0 \<le> unat kMaxJournalRecordBytes" "snapshotable []" "journal_record s p \<noteq> []"
  using length_journal_record [of s p]
  by (auto simp: recordable_def kMaxJournalRecordBytes_def snapshotable_def kMaxSnapshotPayloadBytes_def)

definition cut_writes :: WriteCalls where
  "cut_writes = easy_writes\<lparr>wc_write := (\<lambda>call. if call = 0 then 5 else -1)\<rparr>"

lemma append_cut:
  "store_append cut_writes s [b] (store_holding bytes) =
    (fail PERSISTENCE_IO ''persist.append'' ''journal write failed'' [],
     (store_holding (bytes @ take 5 (journal_record s [b])))\<lparr>fs_stable := bytes\<rparr>)"
  by (simp add: store_append_def cut_writes_def easy_writes_def transfer.simps
      length_journal_record one_byte Let_def kMaxJournalRecordBytes_def store_holding_def empty_store_def journal_content_def)

text \<open>Two records acknowledged out of order, a third one cut after five bytes of which the crash keeps two.\<close>

lemma acknowledged_appends_recovered_witness:
  "let (status, st) = append_all [easy_writes, easy_writes] [(2, [8]), (1, [7])] (store_holding []);
       (status', st') = store_append cut_writes 3 [9] st;
       crashed = journal_record 2 [8] @ journal_record 1 [7] @ take 2 (journal_record 3 [9])
   in status = ok_status \<and> status' \<noteq> ok_status \<and> survives (fs_stable st') (journal_content (fs_dir st')) crashed \<and>
      (\<exists>r. recover easy_reads easy_reads ((fs_dir st')\<lparr>sd_journal := File crashed\<rparr>) = Inr r \<and>
        rec_snapshot_sequence r = 0 \<and> rec_journal_records r \<in> {[[7], [8]], [[7], [8], [9]]})"
proof -
  let ?bytes = "(journal_record 2 [8] @ journal_record 1 [7])"
  let ?crashed = "journal_record 2 [8] @ journal_record 1 [7] @ take 2 (journal_record 3 [9])"
  let ?st = "(store_holding (?bytes @ take 5 (journal_record 3 [9])))\<lparr>fs_stable := ?bytes\<rparr>"
  have run: "append_all [easy_writes, easy_writes] [(2, [8]), (1, [7])] (store_holding []) =
      (ok_status, store_holding ?bytes)"
    by (simp add: append_holding one_byte)
  have ws: "mset [(2, [8]), (1, [7])] = mset (numbered (snapshot_base None) [[7], [8]])"
    by (simp add: numbered_def snapshot_base_def add_mset_commute)
  have next_append: "store_append cut_writes (snapshot_base None + 1 + of_nat (length [[7], [8 :: u8]])) [9] (store_holding ?bytes) =
      (fail PERSISTENCE_IO ''persist.append'' ''journal write failed'' [], ?st)"
    by (simp add: snapshot_base_def append_cut)
  have kept: "survives (fs_stable ?st) (journal_content (fs_dir ?st)) ?crashed"
  proof -
    have "prefix (take 2 (take 5 (journal_record 3 [9 :: u8]))) (take 5 (journal_record 3 [9]))" by (rule take_is_prefix)
    then show ?thesis by (simp add: survives_def store_holding_def empty_store_def journal_content_def)
  qed
  note acknowledged_appends_recovered [OF easy_reads easy_reads _ _ _ _ _ _ run _ ws next_append _ _ _ kept]
  then have "\<exists>r. recover easy_reads easy_reads ((fs_dir ?st)\<lparr>sd_journal := File ?crashed\<rparr>) = Inr r \<and>
      rec_snapshot_sequence r = 0 \<and> (rec_journal_records r = [[7], [8], [9]] \<or> rec_journal_records r = [[7], [8]])"
    by (fastforce simp: one_byte length_journal_record kMaxJournalFileBytes_def snapshot_base_def)
  with kept show ?thesis unfolding run by (auto simp: append_cut Let_def)
qed

text \<open>A snapshot at sequence 1 of a journal with the records 1 and 2; the truncation fails.\<close>

lemma save_snapshot_atomic_witness:
  "let journal = store_holding (journal_record 1 [7] @ journal_record 2 [8]);
       (status, st) = save_snapshot easy_writes \<lparr>tc_truncate = False, tc_fsync = True\<rparr> [9] 1 journal
   in recover easy_reads easy_reads (fs_dir st) = recover easy_reads easy_reads (fs_dir journal) \<or>
     (\<exists>r. recover easy_reads easy_reads (fs_dir st) = Inr r \<and> rec_snapshot_payload r = [9] \<and>
       rec_journal_records r \<in> {[], [[8]]})"
proof -
  let ?st = "store_holding (journal_record 1 [7] @ journal_record 2 [8])"
  obtain status st where save: "save_snapshot easy_writes \<lparr>tc_truncate = False, tc_fsync = True\<rparr> [9] 1 ?st = (status, st)"
    by fastforce
  have small: "snapshotable [9]" by (simp add: snapshotable_def kMaxSnapshotPayloadBytes_def)
  have "status \<noteq> ok_status \<and> recover easy_reads easy_reads (fs_dir st) = recover easy_reads easy_reads (fs_dir ?st) \<or>
    snapshotable [9] \<and> (\<exists>r. recover easy_reads easy_reads (fs_dir st) = Inr r \<and> rec_snapshot_present r \<and>
       rec_snapshot_payload r = [9] \<and> rec_snapshot_sequence r = 1 \<and>
       (rec_journal_records r = [] \<or> status \<noteq> ok_status \<and> rec_journal_records r = [[8]])) \<or>
    \<not> snapshotable [9] \<and> (\<exists>e. recover easy_reads easy_reads (fs_dir st) = Inl e \<and> err_code e = PERSISTENCE_CORRUPT)"
    by (rule save_snapshot_atomic [OF easy_reads easy_reads _ _ _ _ _ _ save, of "[(1, [7]), (2, [8])]" 0 1 "[7]"])
      (simp_all add: journal_of_def one_byte length_journal_record kMaxJournalFileBytes_def numbered_def word_le_nat_alt)
  with small show ?thesis unfolding save Let_def by auto
qed

lemma burst_is_detected_witness:
  "\<exists>e. recover easy_reads easy_reads (fs_dir (store_holding (take 12 (journal_record 1 [7]) @ put_u64 1 @ [6]))) = Inl e \<and>
     err_code e = PERSISTENCE_CORRUPT"
  by (rule burst_is_detected [OF easy_reads easy_reads, of _ None 1 "[7]" "put_u64 1" "[7]" "[]" "[6]" "[]" "[]"])
    (simp_all add: journal_of_def one_byte length_journal_record kMaxJournalFileBytes_def)

lemma oversized_record_unrecoverable_witness:
  "\<exists>st. store_append easy_writes 1 (replicate 8388608 0) (store_holding []) = (ok_status, st) \<and>
     (\<exists>e. recover easy_reads easy_reads (fs_dir st) = Inl e \<and> err_code e = PERSISTENCE_CORRUPT)"
proof -
  let ?p = "replicate 8388608 0 :: u8 list"
  have size: "length ?p \<le> unat kMaxJournalRecordBytes" by (simp only: length_replicate kMaxJournalRecordBytes_def) simp
  have append: "store_append easy_writes 1 ?p (store_holding []) = (ok_status, store_holding (journal_record 1 ?p))"
    by (subst append_holding [OF size]) simp
  have large: "\<not> recordable ?p" by (simp only: recordable_def length_replicate kMaxJournalRecordBytes_def) simp
  have fits: "length (journal_content (fs_dir (store_holding (journal_record 1 ?p)))) \<le> kMaxJournalFileBytes"
    by (simp only: store_holding length_journal_record length_replicate kMaxJournalFileBytes_def)
  have "\<exists>e. recover easy_reads easy_reads (fs_dir (store_holding (journal_record 1 ?p))) = Inl e \<and> err_code e = PERSISTENCE_CORRUPT"
    by (rule oversized_record_unrecoverable [OF easy_reads easy_reads store_holding(5) store_holding(7) _ _ large size append fits, of "[]"])
      (simp_all only: store_holding(4) journal_of_def list.simps concat.simps append_Nil list.pred_inject)
  with append show ?thesis by blast
qed

lemma torn_tail_blocks_later_recovery_witness:
  "\<exists>st. append_all [easy_writes, easy_writes] [(1, [8]), (2, [9])] (store_holding (take 3 (journal_record 1 [7]))) = (ok_status, st) \<and>
     (\<exists>r. recover easy_reads easy_reads (fs_dir (store_holding (take 3 (journal_record 1 [7])))) = Inr r \<and> rec_torn_tail_bytes r = 3) \<and>
     (\<exists>e. recover easy_reads easy_reads (fs_dir st) = Inl e \<and> err_code e = PERSISTENCE_CORRUPT)"
proof -
  let ?torn = "take 3 (journal_record 1 [7])"
  let ?st = "store_holding (?torn @ journal_record 1 [8] @ journal_record 2 [9])"
  have run: "append_all [easy_writes, easy_writes] [(1, [8]), (2, [9])] (store_holding ?torn) = (ok_status, ?st)"
    by (simp add: append_holding one_byte)
  have "(\<exists>r. recover easy_reads easy_reads (fs_dir (store_holding ?torn)) = Inr r \<and> rec_snapshot_payload r = snapshot_payload None \<and>
      rec_journal_records r = [] \<and> rec_torn_tail_bytes r = 3) \<and>
    (\<exists>e. recover easy_reads easy_reads (fs_dir ?st) = Inl e \<and> err_code e = PERSISTENCE_CORRUPT)"
    by (rule torn_tail_blocks_later_recovery [OF easy_reads easy_reads store_holding(5) store_holding(7) _ _ _ _ _ _ _ run,
        of 1 "[7]" "[]"])
      (simp_all add: journal_of_def one_byte length_journal_record kMaxJournalFileBytes_def numbered_def snapshot_base_def)
  with run show ?thesis by blast
qed

end
