(* ===== verification/Fcf_Engine_Recovery.thy ===== *)
theory Fcf_Engine_Recovery
  imports Fcf_Codec_Document Fcf_Durability
begin

text \<open>
  Durability of the runtime (end of \<open>src/engine.cpp\<close>): \<open>persist_snapshot\<close>, \<open>shutdown\<close> and
  \<open>recover_from_store\<close> with the replay of every kind of journal event. What the store answers is an
  argument: the outcome of \<open>save_snapshot\<close> and of \<open>recover\<close> of \<open>Fcf_Persistence\<close>.
\<close>

section \<open>Persisting\<close>

definition persist_snapshot :: "(u8 list \<Rightarrow> u64 \<Rightarrow> 'fs \<Rightarrow> Status \<times> 'fs) \<Rightarrow> Impl \<Rightarrow> 'fs \<Rightarrow> Status \<times> 'fs" where
  "persist_snapshot save s fs =
     (if im_store s = None then (ok_status, fs)
      else let writer = write_state_document (im_state s) ByteWriter_default
        in if \<not> bw_ok writer
           then (fail ErrorCode.PERSISTENCE_IO ''persist.snapshot'' ''state document encoding failed'' [], fs)
           else save (bw_buffer writer) (im_durable_sequence s) fs)"

definition shutdown :: "(u8 list \<Rightarrow> u64 \<Rightarrow> 'fs \<Rightarrow> Status \<times> 'fs) \<Rightarrow> Impl \<Rightarrow> 'fs \<Rightarrow> Impl \<times> 'fs" where
  "shutdown save s fs =
     (if im_shutting_down s then (s, fs)
      else let s = request_shutdown s in (s, snd (persist_snapshot save s fs)))"

section \<open>Replaying one event\<close>

text \<open>The final checks of \<open>apply_event\<close>: no failed read, and no trailing bytes in a payload.\<close>

definition consumed :: "DurableEvent \<Rightarrow> ByteReader \<Rightarrow> bool" where
  "consumed event reader \<longleftrightarrow> brd_ok reader \<and> (dev_payload event = [] \<or> brd_rest reader = [])"

definition replay :: "'a option reader \<Rightarrow> ('a \<Rightarrow> Impl \<Rightarrow> Impl) \<Rightarrow> DurableEvent \<Rightarrow> Impl \<Rightarrow> bool \<times> Impl" where
  "replay rd install event s =
     (case run_state rd (byte_reader (dev_payload event)) of
        (None, _) \<Rightarrow> (False, s)
      | (Some x, reader) \<Rightarrow> (consumed event reader, install x s))"

definition read_key :: "'tag Id option reader" where
  "read_key = do { i \<leftarrow> rd_id; State_Monad.return (Some i) }"

definition read_degraded_pair :: "(DegradedModeContract \<times> DegradedModeAssessment) option reader" where
  "read_degraded_pair =
     early read_degraded_contract (\<lambda>contract.
     early read_degraded (\<lambda>assessment. State_Monad.return (Some (contract, assessment))))"

definition restore_history :: "HistoryEvent \<Rightarrow> RuntimeSnapshot \<Rightarrow> RuntimeSnapshot" where
  "restore_history event st = st\<lparr>
     rs_history := rs_history st @ [event],
     rs_history_total := rs_history_total st + 1,
     rs_history_sequence := (if rs_history_sequence st < he_sequence event then he_sequence event
       else rs_history_sequence st)\<rparr>"

definition apply_event :: "DurableEvent \<Rightarrow> Impl \<Rightarrow> bool \<times> Impl" where
  "apply_event event s =
     (case dev_kind event of
        DurableEventKind.RESOURCE_UPSERT \<Rightarrow>
          replay read_resource (\<lambda>r. upd_resources (om_put (rr_id r) r)) event s
      | DurableEventKind.RESOURCE_REMOVE \<Rightarrow> replay read_key (\<lambda>i. upd_resources (om_erase i)) event s
      | DurableEventKind.CONTAINMENT_DOMAIN_UPSERT \<Rightarrow>
          replay read_containment_domain (\<lambda>d. upd_topology (tp_containment_domains_update (om_put (cd_id d) d))) event s
      | DurableEventKind.CONTAINMENT_DOMAIN_REMOVE \<Rightarrow>
          replay read_key (\<lambda>i. upd_topology (tp_containment_domains_update (om_erase i))) event s
      | DurableEventKind.ISOLATION_DOMAIN_UPSERT \<Rightarrow>
          replay read_isolation_domain (\<lambda>d. upd_topology (tp_isolation_domains_update (om_put (idm_id d) d))) event s
      | DurableEventKind.ISOLATION_DOMAIN_REMOVE \<Rightarrow>
          replay read_key (\<lambda>i. upd_topology (tp_isolation_domains_update (om_erase i))) event s
      | DurableEventKind.FAILURE_DOMAIN_UPSERT \<Rightarrow>
          replay read_failure_domain (\<lambda>d. upd_topology (tp_failure_domains_update (om_put (fd_id d) d))) event s
      | DurableEventKind.FAILURE_DOMAIN_REMOVE \<Rightarrow>
          replay read_key (\<lambda>i. upd_topology (tp_failure_domains_update (om_erase i))) event s
      | DurableEventKind.DEPENDENCY_UPSERT \<Rightarrow>
          replay read_dependency (\<lambda>e. upd_topology (tp_dependencies_update (graph_insert e))) event s
      | DurableEventKind.DEPENDENCY_REMOVE \<Rightarrow>
          replay read_key (\<lambda>i. upd_topology (tp_dependencies_update (\<lambda>g. fst (graph_erase i g)))) event s
      | DurableEventKind.POLICY_SET \<Rightarrow>
          replay read_policy (\<lambda>p. upd_state (\<lambda>st. st\<lparr>rs_policy := p, rs_policy_generation := pol_generation p\<rparr>)) event s
      | DurableEventKind.FAULT_UPSERT \<Rightarrow>
          replay read_fault (\<lambda>f. upd_state (rs_faults_update (om_put (fe_id (fr_evidence f)) f))) event s
      | DurableEventKind.CONTAINMENT_UPSERT \<Rightarrow>
          replay read_containment (\<lambda>c. upd_state (rs_containments_update (om_put (con_generation c) c))) event s
      | DurableEventKind.ACTION_UPSERT \<Rightarrow>
          replay read_action (\<lambda>a. upd_state (rs_actions_update (om_put (act_id a) a))) event s
      | DurableEventKind.WORKER_UPSERT \<Rightarrow>
          replay read_worker (\<lambda>w. upd_workers (wreg_incarnations_update (om_put (wr_key w) w))) event s
      | DurableEventKind.WORKER_CURRENT_BOOT \<Rightarrow>
          replay read_id_pair (\<lambda>(worker, boot). upd_workers (wreg_current_boot_update (om_put worker boot))) event s
      | DurableEventKind.CURRENT_FAULT \<Rightarrow> replay read_key (\<lambda>(_ :: FaultId) s. s) event s
      | DurableEventKind.DEGRADED_UPSERT \<Rightarrow>
          replay read_degraded_pair (\<lambda>(contract, assessment). upd_state (\<lambda>st. st\<lparr>
            rs_degraded_contracts := om_put (dmc_id contract) contract (rs_degraded_contracts st),
            rs_degraded_modes := om_put (dma_contract assessment) assessment (rs_degraded_modes st)\<rparr>)) event s
      | DurableEventKind.COUNTERS \<Rightarrow> replay read_counters apply_counters event s
      | DurableEventKind.HISTORY \<Rightarrow>
          if \<not> dev_has_history event then (False, s)
          else replay (State_Monad.return (Some ())) (\<lambda>_. upd_state (restore_history (dev_history event))) event s
      | DurableEventKind.RECOVERY_MARK \<Rightarrow> replay (State_Monad.return (Some ())) (\<lambda>_ s. s) event s)"

section \<open>Replaying the journal\<close>

text \<open>The loop over the journal records; it stops at the first that does not decode or apply.\<close>

fun replay_journal :: "nat \<Rightarrow> u8 list list \<Rightarrow> u64 list \<Rightarrow> u64 \<Rightarrow> Impl \<Rightarrow> string option \<times> u64 \<times> Impl" where
  "replay_journal index (bytes # records) (sequence # sequences) last_sequence s =
     (case decode_durable_event bytes of
        None \<Rightarrow> (Some (''journal record '' @ nat_to_string index @ '' does not decode''), last_sequence, s)
      | Some event \<Rightarrow>
          (case apply_event event s of
             (False, s) \<Rightarrow>
               (Some (''journal record '' @ nat_to_string index @ '' (sequence '' @ nat_to_string (unat sequence) @
                  '', kind '' @ DurableEventKind_str (dev_kind event) @ '', '' @
                  nat_to_string (length (dev_payload event)) @ '' payload bytes) is invalid''), last_sequence, s)
           | (True, s) \<Rightarrow> replay_journal (Suc index) records sequences sequence s))"
| "replay_journal _ _ _ last_sequence s = (None, last_sequence, s)"

text \<open>The safety net: counters are raised above every identity that was recovered.\<close>

definition raise_above :: "u64 \<Rightarrow> u64 \<Rightarrow> u64" where
  "raise_above i counter = (if counter \<le> i then i + 1 else counter)"

definition derive_containment :: "ContainmentGeneration \<times> ContainmentRecord \<Rightarrow> RuntimeSnapshot \<Rightarrow> RuntimeSnapshot" where
  "derive_containment entry st =
     (let st = (if rs_containment_generation st < fst entry then st\<lparr>rs_containment_generation := fst entry\<rparr> else st)
      in if rs_verification_generation st < con_verification_generation (snd entry)
         then st\<lparr>rs_verification_generation := con_verification_generation (snd entry)\<rparr> else st)"

definition derive_worker :: "WorkerKey \<times> WorkerRecord \<Rightarrow> WorkerRegistry \<Rightarrow> WorkerRegistry" where
  "derive_worker entry ws =
     (let worker = wk_worker (fst entry);
          seen = (case om_find (wreg_last_incarnation ws) worker of None \<Rightarrow> id_invalid | Some i \<Rightarrow> i);
          ws = ws\<lparr>wreg_last_incarnation := om_put worker (max seen (wr_incarnation (snd entry))) (wreg_last_incarnation ws)\<rparr>
      in if om_find (wreg_current_boot ws) worker = None
         then ws\<lparr>wreg_current_boot := om_put worker (wk_boot (fst entry)) (wreg_current_boot ws)\<rparr> else ws)"

definition derive_counters :: "Impl \<Rightarrow> Impl" where
  "derive_counters s =
     (let s = s\<lparr>im_next_fault := fold (\<lambda>e. raise_above (id_value (fst e))) (faults s) (im_next_fault s),
                im_next_action := fold (\<lambda>e. raise_above (id_value (fst e))) (actions s) (im_next_action s),
                im_next_degraded := fold (\<lambda>e. raise_above (id_value (fst e))) (rs_degraded_modes (im_state s)) (im_next_degraded s)\<rparr>;
          s = upd_state (fold derive_containment (containments s)) s
      in upd_workers (fold derive_worker (incarnations s)) s)"

section \<open>Recovery\<close>

definition reset_runtime :: "DurableStore \<Rightarrow> Impl \<Rightarrow> Impl" where
  "reset_runtime ds s = s\<lparr>
     im_store := Some ds,
     im_state := RuntimeSnapshot_default\<lparr>
       rs_policy := make_default_policy,
       rs_policy_generation := pol_generation make_default_policy,
       rs_topology_generation := Id 1,
       rs_epoch := (if id_valid (cfg_initial_epoch (im_config s)) then cfg_initial_epoch (im_config s) else Id 1)\<rparr>,
     im_releases := [], im_authority_loss_faults := [],
     im_next_fault := 1, im_next_action := 1, im_next_degraded := 1\<rparr>"

definition load_snapshot :: "Recovery \<Rightarrow> Impl \<Rightarrow> Impl option" where
  "load_snapshot recovery s =
     (if rec_snapshot_present recovery then
        (case run_state read_state_document (byte_reader (rec_snapshot_payload recovery)) of
           (Some loaded, reader) \<Rightarrow> if brd_ok reader \<and> brd_rest reader = [] then Some (s\<lparr>im_state := loaded\<rparr>) else None
         | (None, _) \<Rightarrow> None)
      else Some s)"

text \<open>The audit records of a recovery; the last one travels with the recovery mark.\<close>

definition record_recovery :: "Recovery \<Rightarrow> Impl \<Rightarrow> Impl" where
  "record_recovery recovery s =
     (let s = (if rec_torn_tail_bytes recovery \<noteq> 0
               then snd (add_history (hist HistoryEventType.RECOVERY_APPLIED
                 (''discarded '' @ nat_to_string (rec_torn_tail_bytes recovery) @
                  '' torn journal bytes from the last crash'') []) s)
               else s);
          s = record_event (hist HistoryEventType.RECOVERY_APPLIED
            (''recovered durable state at epoch '' @ str_CoordinatorEpoch (rs_epoch (im_state s)) @
             ''; snapshot='' @ (if rec_snapshot_present recovery then ''yes'' else ''no'') @
             '' journal records applied='' @ nat_to_string (rec_records_applied recovery)) [])
            DurableEventKind.RECOVERY_MARK (\<lambda>w. w) s
      in stage_counters s)"

definition recover_from_store :: "Recovery Result \<Rightarrow> DurableStore \<Rightarrow> u64 \<Rightarrow> Impl \<Rightarrow> CoordinatorEpoch Result \<times> Impl" where
  "recover_from_store recovered ds now_ms s =
     (case recovered of
        Inl e \<Rightarrow> (Inl e, s)
      | Inr recovery \<Rightarrow>
          let s = reset_runtime ds s in
          (case load_snapshot recovery s of
             None \<Rightarrow> (fail ErrorCode.PERSISTENCE_CORRUPT ''persist.recover''
                       ''the durable snapshot is corrupt or was not consumed exactly'' [], s)
           | Some s \<Rightarrow>
               (case replay_journal 0 (rec_journal_records recovery) (rec_journal_sequences recovery)
                       (rec_snapshot_sequence recovery) s of
                  (Some detail, _, s) \<Rightarrow>
                    (fail ErrorCode.PERSISTENCE_CORRUPT ''persist.recover''
                       (''durable journal cannot be replayed: '' @ detail) [], s)
                | (None, last_sequence, s) \<Rightarrow>
                    let s = rebuild_digest_index (derive_counters s);
                        s = s\<lparr>im_durable_sequence := last_sequence, im_state := (im_state s)\<lparr>rs_now_ms := now_ms\<rparr>\<rparr>;
                        (status, s) = flush (record_recovery recovery s)
                    in (case status of
                          Inl e \<Rightarrow> (Inl e, s)
                        | Inr _ \<Rightarrow> begin_epoch now_ms ''coordinator restart; live authority requires revalidation'' s))))"

end
