(* ===== verification/Fcf_Engine_Restart.thy ===== *)
theory Fcf_Engine_Restart
  imports Fcf_Engine_Recovery Fcf_Document_Limits
begin

text \<open>
  What a restart preserves: every record the journal redoes, the whole of a snapshot, and with it
  every fence; and what it loses.
\<close>

section \<open>The journal is a redo log\<close>

text \<open>What \<open>stage\<close> encodes for \<open>body\<close> makes the replay install \<open>upd\<close>.\<close>

definition redoes :: "DurableEventKind \<Rightarrow> (ByteWriter \<Rightarrow> ByteWriter) \<Rightarrow> (Impl \<Rightarrow> Impl) \<Rightarrow> bool" where
  "redoes kind body upd \<longleftrightarrow> (\<forall>history bytes s. encode_event kind history body = Some bytes \<longrightarrow>
     (\<exists>event. decode_durable_event bytes = Some event \<and> apply_event event s = (True, upd s)))"

lemma encoded_event:
  assumes "encode_event kind history body = Some bytes"
  obtains event where "decode_durable_event bytes = Some event" and "dev_kind event = kind"
    and "dev_payload event = bw_buffer (body ByteWriter_default)" and "bw_ok (body ByteWriter_default)"
    and "dev_has_history event \<longleftrightarrow> history \<noteq> None" and "\<forall>h. history = Some h \<longrightarrow> dev_history event = h"
proof -
  let ?event = "\<lparr>dev_kind = kind, dev_has_history = history \<noteq> None,
    dev_history = (case history of None \<Rightarrow> HistoryEvent_default | Some h \<Rightarrow> h),
    dev_payload = bw_buffer (body ByteWriter_default)\<rparr>"
  have ok: "bw_ok (body ByteWriter_default)" "bw_ok (write_durable_event ?event ByteWriter_default)"
    and bytes: "bytes = bw_buffer (write_durable_event ?event ByteWriter_default)"
    using assms by (auto simp: encode_event_def Let_def split: if_splits)
  have "canon_durable_event ?event" by (simp add: canon_durable_event_def split: option.split)
  then have "decode_durable_event bytes = Some ?event"
    using rc_durable_event.roundtrip [OF ok(2)] bytes by (simp add: decode_durable_event_def byte_reader_def)
  with ok(1) show ?thesis by (intro that [of ?event]) simp_all
qed

lemma replay_read:
  assumes "reads rd (dev_payload event) (Some x)"
  shows "replay rd install event s = (True, install x s)"
  using readsD [OF assms, of "[]"] by (simp add: replay_def consumed_def byte_reader_def)

lemma redoesI:
  assumes "\<And>event s. dev_kind event = kind \<Longrightarrow> apply_event event s = replay rd install event s"
    and "bw_ok (body ByteWriter_default) \<Longrightarrow> reads rd (bw_buffer (body ByteWriter_default)) (Some x)"
  shows "redoes kind body (install x)"
  unfolding redoes_def
proof (intro allI impI)
  fix history bytes s
  assume "encode_event kind history body = Some bytes"
  then obtain event where event: "decode_durable_event bytes = Some event" "dev_kind event = kind"
    "dev_payload event = bw_buffer (body ByteWriter_default)" "bw_ok (body ByteWriter_default)"
    by (rule encoded_event)
  with assms have "apply_event event s = (True, install x s)" by (simp add: replay_read)
  with event(1) show "\<exists>event. decode_durable_event bytes = Some event \<and> apply_event event s = (True, install x s)"
    by blast
qed

context record_codec
begin

lemma reads_written: "bw_ok (wr x ByteWriter_default) \<Longrightarrow> canon x \<Longrightarrow> reads rd (bw_buffer (wr x ByteWriter_default)) (Some x)"
  using emitsD [OF emits_rec] reads_rec by (simp add: ByteWriter_default_def)

lemma redoes_record:
  assumes "\<And>event s. dev_kind event = kind \<Longrightarrow> apply_event event s = replay rd install event s" and "canon x"
  shows "redoes kind (wr x) (install x)"
  using assms(2) by (intro redoesI [OF assms(1)] reads_written)

end

section \<open>The codecs of the remaining payloads\<close>

definition enc_counters :: "Counters \<Rightarrow> u8 list" where
  "enc_counters c =
     enc_id (ctr_epoch c) @ enc_id (ctr_topology_generation c) @ enc_id (ctr_policy_generation c) @
     enc_id (ctr_containment_generation c) @ enc_id (ctr_verification_generation c) @
     enc_id (ctr_release_generation c) @ enc_id (ctr_history_sequence c) @ le_u64 (ctr_next_fault_id c) @
     le_u64 (ctr_next_action_id c) @ le_u64 (ctr_next_degraded_id c) @ []"

interpretation rc_counters: record_codec write_counters read_counters enc_counters "\<lambda>_. True" "\<lambda>_. True"
proof
  fix c :: Counters
  show "emits (write_counters c) (enc_counters c) True"
    unfolding write_counters_def [abs_def] enc_counters_def by (rule emits_weaken, (rule emits_intros)+) simp
  show "reads read_counters (enc_counters c) (Some c)"
    by (cases c) (simp add: reads_def read_counters_def enc_counters_def field_reads)
qed

interpretation rc_key: record_codec wr_id read_key "\<lambda>i. le_u64 (id_value i)" "\<lambda>_. True" "\<lambda>_. True"
proof
  fix i :: "'a Id"
  show "emits (wr_id i) (enc_id i) True" by (rule emits_id)
  show "reads read_key (enc_id i) (Some i)" by (simp add: reads_def read_key_def field_reads)
qed

interpretation rc_id_pair: record_codec write_id_pair read_id_pair enc_id_pair "\<lambda>_. True" "\<lambda>_. True"
  by unfold_locales (rule emits_id_pair, rule reads_id_pair)

definition write_degraded_pair :: "DegradedModeContract \<times> DegradedModeAssessment \<Rightarrow> ByteWriter \<Rightarrow> ByteWriter" where
  "write_degraded_pair p = writes [write_degraded_contract (fst p), write_degraded (snd p)]"

interpretation rc_degraded_pair: record_codec write_degraded_pair read_degraded_pair
  "\<lambda>p. enc_degraded_contract (fst p) @ enc_degraded (snd p)"
  "\<lambda>p. accepts_degraded_contract (fst p) \<and> accepts_degraded (snd p)"
  "\<lambda>p. canon_degraded_contract (fst p) \<and> canon_degraded (snd p)"
proof
  fix p :: "DegradedModeContract \<times> DegradedModeAssessment"
  have "emits (write_degraded_pair p) (enc_degraded_contract (fst p) @ enc_degraded (snd p) @ [])
      (accepts_degraded_contract (fst p) \<and> accepts_degraded (snd p) \<and> True)"
    unfolding write_degraded_pair_def
    by (rule emits_weaken, (rule emits_intros rc_degraded_contract.emits_rec rc_degraded.emits_rec)+) simp
  then show "emits (write_degraded_pair p) (enc_degraded_contract (fst p) @ enc_degraded (snd p))
      (accepts_degraded_contract (fst p) \<and> accepts_degraded (snd p))" by simp
  assume "accepts_degraded_contract (fst p) \<and> accepts_degraded (snd p)"
    "canon_degraded_contract (fst p) \<and> canon_degraded (snd p)"
  then have contract: "reads read_degraded_contract (enc_degraded_contract (fst p)) (Some (fst p))"
    and assessment: "reads read_degraded (enc_degraded (snd p)) (Some (snd p))"
    using rc_degraded_contract.reads_rec rc_degraded.reads_rec by blast+
  show "reads read_degraded_pair (enc_degraded_contract (fst p) @ enc_degraded (snd p)) (Some p)"
    unfolding reads_def read_degraded_pair_def
    by (simp add: early_run [OF contract] early_run [OF assessment])
qed

text \<open>Records without a body: an audit event on its own is restored, a mark changes nothing.\<close>

lemma redoes_mark: "redoes DurableEventKind.RECOVERY_MARK (\<lambda>w. w) (\<lambda>s. s)"
  by (rule redoesI [where install = "\<lambda>_ s. s" and x = "()" and rd = "State_Monad.return (Some ())"])
    (simp_all add: apply_event_def reads_def ByteWriter_default_def)

lemma redoes_history:
  assumes "encode_event DurableEventKind.HISTORY (Some h) (\<lambda>w. w) = Some bytes"
  shows "\<exists>event. decode_durable_event bytes = Some event \<and> apply_event event s = (True, upd_state (restore_history h) s)"
proof -
  from assms obtain event where event: "decode_durable_event bytes = Some event" "dev_kind event = DurableEventKind.HISTORY"
    "dev_payload event = []" "dev_has_history event" "dev_history event = h"
    by (auto elim!: encoded_event simp: ByteWriter_default_def)
  moreover have "reads (State_Monad.return (Some ())) (dev_payload event) (Some ())" by (simp add: event reads_def)
  ultimately show ?thesis by (auto simp: apply_event_def replay_read)
qed

text \<open>
  C9. The journal is a redo log, for each of the twenty-one kinds of record: decoding the bytes
  that were staged and applying the event installs exactly the record that was staged, removes exactly
  the identity, sets exactly the counters, appends exactly the audit event, or changes nothing (the
  mark of a recovery and the pointer to the current fault), in any state, and for the kinds other than
  the audit event whatever audit event travels with it. A record has to satisfy what its reader demands
  (a valid identity, ordered members, limits); one that does not is refused by the replay, and the
  runtime can stage such a policy.
\<close>

theorem journal_is_redo_log:
  assumes "canon_resource r" and "canon_containment_domain cd"
    and "canon_isolation_domain idm" and "canon_failure_domain fd" and "canon_dependency e" and "canon_policy pol"
    and "canon_fault f" and "canon_containment c" and "canon_action a" and "canon_worker w"
    and "canon_degraded_contract (fst dg)" and "canon_degraded (snd dg)"
  shows "redoes DurableEventKind.RESOURCE_UPSERT (write_resource r) (upd_resources (om_put (rr_id r) r)) \<and>
    redoes DurableEventKind.CONTAINMENT_DOMAIN_UPSERT (write_containment_domain cd) (upd_topology (tp_containment_domains_update (om_put (cd_id cd) cd))) \<and>
    redoes DurableEventKind.ISOLATION_DOMAIN_UPSERT (write_isolation_domain idm) (upd_topology (tp_isolation_domains_update (om_put (idm_id idm) idm))) \<and>
    redoes DurableEventKind.FAILURE_DOMAIN_UPSERT (write_failure_domain fd) (upd_topology (tp_failure_domains_update (om_put (fd_id fd) fd))) \<and>
    redoes DurableEventKind.DEPENDENCY_UPSERT (write_dependency e) (upd_topology (tp_dependencies_update (graph_insert e))) \<and>
    redoes DurableEventKind.POLICY_SET (write_policy pol) (upd_state (\<lambda>st. st\<lparr>rs_policy := pol, rs_policy_generation := pol_generation pol\<rparr>)) \<and>
    redoes DurableEventKind.FAULT_UPSERT (write_fault f) (upd_state (rs_faults_update (om_put (fe_id (fr_evidence f)) f))) \<and>
    redoes DurableEventKind.CONTAINMENT_UPSERT (write_containment c) (upd_state (rs_containments_update (om_put (con_generation c) c))) \<and>
    redoes DurableEventKind.ACTION_UPSERT (write_action a) (upd_state (rs_actions_update (om_put (act_id a) a))) \<and>
    redoes DurableEventKind.WORKER_UPSERT (write_worker w) (upd_workers (wreg_incarnations_update (om_put (wr_key w) w))) \<and>
    redoes DurableEventKind.RESOURCE_REMOVE (wr_id i) (upd_resources (om_erase i)) \<and>
    redoes DurableEventKind.DEPENDENCY_REMOVE (wr_id j) (upd_topology (tp_dependencies_update (\<lambda>g. fst (graph_erase j g)))) \<and>
    redoes DurableEventKind.WORKER_CURRENT_BOOT (write_id_pair b) (upd_workers (wreg_current_boot_update (om_put (fst b) (snd b)))) \<and>
    redoes DurableEventKind.DEGRADED_UPSERT (write_degraded_pair dg) (upd_state (\<lambda>st. st\<lparr>
       rs_degraded_contracts := om_put (dmc_id (fst dg)) (fst dg) (rs_degraded_contracts st),
       rs_degraded_modes := om_put (dma_contract (snd dg)) (snd dg) (rs_degraded_modes st)\<rparr>)) \<and>
    redoes DurableEventKind.COUNTERS (write_counters ctr) (apply_counters ctr) \<and>
    redoes DurableEventKind.CONTAINMENT_DOMAIN_REMOVE (wr_id cdi) (upd_topology (tp_containment_domains_update (om_erase cdi))) \<and>
    redoes DurableEventKind.ISOLATION_DOMAIN_REMOVE (wr_id idi) (upd_topology (tp_isolation_domains_update (om_erase idi))) \<and>
    redoes DurableEventKind.FAILURE_DOMAIN_REMOVE (wr_id fdi) (upd_topology (tp_failure_domains_update (om_erase fdi))) \<and>
    redoes DurableEventKind.CURRENT_FAULT (wr_id (k :: FaultId)) (\<lambda>s. s) \<and>
    redoes DurableEventKind.RECOVERY_MARK (\<lambda>w. w) (\<lambda>s. s) \<and>
    (\<forall>bytes s. encode_event DurableEventKind.HISTORY (Some h) (\<lambda>w. w) = Some bytes \<longrightarrow>
       (\<exists>event. decode_durable_event bytes = Some event \<and> apply_event event s = (True, upd_state (restore_history h) s)))"
proof (intro conjI)
  show "redoes DurableEventKind.RESOURCE_UPSERT (write_resource r) (upd_resources (om_put (rr_id r) r))"
    using rc_resource.redoes_record [of _ "\<lambda>r. upd_resources (om_put (rr_id r) r)"] assms by (simp add: apply_event_def)
  show "redoes DurableEventKind.CONTAINMENT_DOMAIN_UPSERT (write_containment_domain cd) (upd_topology (tp_containment_domains_update (om_put (cd_id cd) cd)))"
    using rc_containment_domain.redoes_record [of _ "\<lambda>cd. upd_topology (tp_containment_domains_update (om_put (cd_id cd) cd))"] assms by (simp add: apply_event_def)
  show "redoes DurableEventKind.ISOLATION_DOMAIN_UPSERT (write_isolation_domain idm) (upd_topology (tp_isolation_domains_update (om_put (idm_id idm) idm)))"
    using rc_isolation_domain.redoes_record [of _ "\<lambda>idm. upd_topology (tp_isolation_domains_update (om_put (idm_id idm) idm))"] assms by (simp add: apply_event_def)
  show "redoes DurableEventKind.FAILURE_DOMAIN_UPSERT (write_failure_domain fd) (upd_topology (tp_failure_domains_update (om_put (fd_id fd) fd)))"
    using rc_failure_domain.redoes_record [of _ "\<lambda>fd. upd_topology (tp_failure_domains_update (om_put (fd_id fd) fd))"] assms by (simp add: apply_event_def)
  show "redoes DurableEventKind.DEPENDENCY_UPSERT (write_dependency e) (upd_topology (tp_dependencies_update (graph_insert e)))"
    using rc_dependency.redoes_record [of _ "\<lambda>e. upd_topology (tp_dependencies_update (graph_insert e))"] assms by (simp add: apply_event_def)
  show "redoes DurableEventKind.POLICY_SET (write_policy pol) (upd_state (\<lambda>st. st\<lparr>rs_policy := pol, rs_policy_generation := pol_generation pol\<rparr>))"
    using rc_policy.redoes_record [of _ "\<lambda>pol. upd_state (\<lambda>st. st\<lparr>rs_policy := pol, rs_policy_generation := pol_generation pol\<rparr>)"] assms by (simp add: apply_event_def)
  show "redoes DurableEventKind.FAULT_UPSERT (write_fault f) (upd_state (rs_faults_update (om_put (fe_id (fr_evidence f)) f)))"
    using rc_fault.redoes_record [of _ "\<lambda>f. upd_state (rs_faults_update (om_put (fe_id (fr_evidence f)) f))"] assms by (simp add: apply_event_def)
  show "redoes DurableEventKind.CONTAINMENT_UPSERT (write_containment c) (upd_state (rs_containments_update (om_put (con_generation c) c)))"
    using rc_containment.redoes_record [of _ "\<lambda>c. upd_state (rs_containments_update (om_put (con_generation c) c))"] assms by (simp add: apply_event_def)
  show "redoes DurableEventKind.ACTION_UPSERT (write_action a) (upd_state (rs_actions_update (om_put (act_id a) a)))"
    using rc_action.redoes_record [of _ "\<lambda>a. upd_state (rs_actions_update (om_put (act_id a) a))"] assms by (simp add: apply_event_def)
  show "redoes DurableEventKind.WORKER_UPSERT (write_worker w) (upd_workers (wreg_incarnations_update (om_put (wr_key w) w)))"
    using rc_worker.redoes_record [of _ "\<lambda>w. upd_workers (wreg_incarnations_update (om_put (wr_key w) w))"] assms by (simp add: apply_event_def)
  show "redoes DurableEventKind.RESOURCE_REMOVE (wr_id i) (upd_resources (om_erase i))"
    using rc_key.redoes_record [of _ "\<lambda>i. upd_resources (om_erase i)"] by (simp add: apply_event_def)
  show "redoes DurableEventKind.DEPENDENCY_REMOVE (wr_id j) (upd_topology (tp_dependencies_update (\<lambda>g. fst (graph_erase j g))))"
    using rc_key.redoes_record [of _ "\<lambda>j. upd_topology (tp_dependencies_update (\<lambda>g. fst (graph_erase j g)))"] by (simp add: apply_event_def)
  show "redoes DurableEventKind.WORKER_CURRENT_BOOT (write_id_pair b) (upd_workers (wreg_current_boot_update (om_put (fst b) (snd b))))"
    using rc_id_pair.redoes_record [of _ "\<lambda>(worker, boot). upd_workers (wreg_current_boot_update (om_put worker boot))" b]
    by (simp add: apply_event_def case_prod_beta')
  show "redoes DurableEventKind.DEGRADED_UPSERT (write_degraded_pair dg) (upd_state (\<lambda>st. st\<lparr>
       rs_degraded_contracts := om_put (dmc_id (fst dg)) (fst dg) (rs_degraded_contracts st),
       rs_degraded_modes := om_put (dma_contract (snd dg)) (snd dg) (rs_degraded_modes st)\<rparr>))"
    using rc_degraded_pair.redoes_record [of _ "\<lambda>(contract, assessment). upd_state (\<lambda>st. st\<lparr>
       rs_degraded_contracts := om_put (dmc_id contract) contract (rs_degraded_contracts st),
       rs_degraded_modes := om_put (dma_contract assessment) assessment (rs_degraded_modes st)\<rparr>)" dg] assms
    by (simp add: apply_event_def case_prod_beta')
  show "redoes DurableEventKind.COUNTERS (write_counters ctr) (apply_counters ctr)"
    using rc_counters.redoes_record [of _ apply_counters] by (simp add: apply_event_def)
  show "redoes DurableEventKind.CONTAINMENT_DOMAIN_REMOVE (wr_id cdi) (upd_topology (tp_containment_domains_update (om_erase cdi)))"
    using rc_key.redoes_record [of _ "\<lambda>i. upd_topology (tp_containment_domains_update (om_erase i))"] by (simp add: apply_event_def)
  show "redoes DurableEventKind.ISOLATION_DOMAIN_REMOVE (wr_id idi) (upd_topology (tp_isolation_domains_update (om_erase idi)))"
    using rc_key.redoes_record [of _ "\<lambda>i. upd_topology (tp_isolation_domains_update (om_erase i))"] by (simp add: apply_event_def)
  show "redoes DurableEventKind.FAILURE_DOMAIN_REMOVE (wr_id fdi) (upd_topology (tp_failure_domains_update (om_erase fdi)))"
    using rc_key.redoes_record [of _ "\<lambda>i. upd_topology (tp_failure_domains_update (om_erase i))"] by (simp add: apply_event_def)
  show "redoes DurableEventKind.CURRENT_FAULT (wr_id k) (\<lambda>s. s)" for k :: FaultId
    using rc_key.redoes_record [of _ "\<lambda>(_ :: FaultId) s. s"] by (simp add: apply_event_def)
  show "redoes DurableEventKind.RECOVERY_MARK (\<lambda>w. w) (\<lambda>s. s)" by (rule redoes_mark)
qed (use redoes_history in blast)

section \<open>Restarting from a snapshot\<close>

lemma save_snapshot_ok:
  assumes "save_snapshot io tio payload sequence fs = (ok_status, fs')"
  shows "sd_snapshot (fs_dir fs') = File (snapshot_image sequence payload)" and "sd_journal (fs_dir fs') = File []"
proof -
  have "\<not> unat kMaxSnapshotPayloadBytes < length payload"
    using assms by (auto simp: save_snapshot_def split: if_splits)
  then have "sd_snapshot (fs_dir fs') = File (snapshot_image sequence payload) \<and> sd_journal (fs_dir fs') = File []"
    using assms
    by (cases rule: write_file_atomic_cases [of io "snapshot_image sequence payload" "fs_dir fs"])
      (auto simp: save_snapshot_def truncate_journal_locked_def Let_def split: if_splits)
  then show "sd_snapshot (fs_dir fs') = File (snapshot_image sequence payload)" "sd_journal (fs_dir fs') = File []"
    by simp_all
qed

lemma saved_recovery:
  assumes "reads_fully sio" and "reads_fully jio" and "snapshotable payload"
    and "save_snapshot io tio payload sequence fs = (ok_status, fs')"
  shows "recover sio jio (fs_dir fs') = Inr (Recovery_default\<lparr>rec_snapshot_present := True,
    rec_snapshot_payload := payload, rec_snapshot_sequence := sequence\<rparr>)"
proof -
  let ?snap = "Some (sequence, payload)"
  have files: "sd_snapshot (fs_dir fs') = stored_snapshot ?snap" "snapshotable (snapshot_payload ?snap)"
    "sd_journal (fs_dir fs') = File (journal_of [] @ take 0 (journal_record 0 []))"
    using save_snapshot_ok [OF assms(4)] assms(3)
    by (simp_all add: stored_snapshot_def snapshot_payload_def journal_of_def)
  have rest: "0 < length (journal_record 0 [])" "list_all (\<lambda>w. recordable (snd w)) [(0 :: u64, [])]"
    "length (journal_of []) + 0 \<le> kMaxJournalFileBytes"
    "mset (fresh (snapshot_base ?snap) []) = mset (numbered (snapshot_base ?snap) [])"
    "unat (snapshot_base ?snap) + length ([] :: u8 list list) < 2 ^ 64"
    using unsigned_less [of sequence, where 'a = nat]
    by (simp_all add: length_journal_record recordable_def kMaxJournalRecordBytes_def journal_of_def
        numbered_def snapshot_base_def)
  from recover_run [OF assms(1,2) files rest] show ?thesis
    by (simp add: snapshot_base_def snapshot_payload_def Recovery_default_def)
qed

lemma rebuild_digest_keeps:
  assumes "\<And>a b t. g (t\<lparr>im_digest_by_fault := a, im_fault_by_digest := b\<rparr>) = g t"
  shows "g (rebuild_digest_index s) = g s"
proof -
  have "g (rebuild_digest_index s) = g (s\<lparr>im_digest_by_fault := [], im_fault_by_digest := []\<rparr>)"
    unfolding rebuild_digest_index_def by (rule fold_preserves) (auto simp: assms)
  then show ?thesis by (simp only: assms)
qed

lemma rebuild_digest_index_state:
  "im_state (rebuild_digest_index s) = im_state s" "im_store (rebuild_digest_index s) = im_store s"
  by (rule rebuild_digest_keeps, simp)+

lemma derive_containment_fields:
  "rs_topology (fold derive_containment cs st) = rs_topology st"
  "rs_policy (fold derive_containment cs st) = rs_policy st"
  "rs_faults (fold derive_containment cs st) = rs_faults st"
  "rs_containments (fold derive_containment cs st) = rs_containments st"
  "rs_workers (fold derive_containment cs st) = rs_workers st"
  "rs_epoch (fold derive_containment cs st) = rs_epoch st"
  "rs_release_generation (fold derive_containment cs st) = rs_release_generation st"
  by (induction cs arbitrary: st) (simp_all add: derive_containment_def Let_def)

lemma derive_worker_incarnations: "wreg_incarnations (fold derive_worker es ws) = wreg_incarnations ws"
  by (induction es arbitrary: ws) (simp_all add: derive_worker_def Let_def)

lemma derive_counters_fields:
  "rs_topology (im_state (derive_counters s)) = rs_topology (im_state s)"
  "rs_policy (im_state (derive_counters s)) = rs_policy (im_state s)"
  "rs_faults (im_state (derive_counters s)) = rs_faults (im_state s)"
  "rs_containments (im_state (derive_counters s)) = rs_containments (im_state s)"
  "wreg_incarnations (rs_workers (im_state (derive_counters s))) = wreg_incarnations (rs_workers (im_state s))"
  "rs_epoch (im_state (derive_counters s)) = rs_epoch (im_state s)"
  "rs_release_generation (im_state (derive_counters s)) = rs_release_generation (im_state s)"
  "im_store (derive_counters s) = im_store s" "im_pending (derive_counters s) = im_pending s"
  by (simp_all add: derive_counters_def Let_def derive_containment_fields derive_worker_incarnations)

lemma frame_record_recovery [simp]: "frame (record_recovery recovery s) = frame s"
  by (simp add: record_recovery_def Let_def)

lemmas record_recovery_fields [simp] = frame_simps [OF frame_record_recovery]

lemma record_recovery_store [simp]: "im_store (record_recovery recovery s) = im_store s"
proof -
  have history: "im_store (snd (add_history e s)) = im_store s" for e s
    by (simp add: add_history_def now_def Let_def)
  show ?thesis by (simp add: record_recovery_def Let_def history)
qed

lemma completed_recovery:
  assumes "load_snapshot recovery (reset_runtime ds s) = Some t"
    and "replay_journal 0 (rec_journal_records recovery) (rec_journal_sequences recovery)
      (rec_snapshot_sequence recovery) t = (None, q, u)"
    and "ds_refuses ds = (\<lambda>_ _. None)" and "im_store u = Some ds"
  obtains s' where
    "recover_from_store (Inr recovery) ds now_ms s = (Inr (next_generation (rs_epoch (im_state u))), s')"
    and "rs_epoch (im_state s') = next_generation (rs_epoch (im_state u))"
    and "rs_policy (im_state s') = rs_policy (im_state u)"
    and "rs_faults (im_state s') = rs_faults (im_state u)"
    and "rs_containments (im_state s') = rs_containments (im_state u)"
    and "resources s' = om_map (rr_freshness_update (\<lambda>_. EvidenceFreshness.REVALIDATION_REQUIRED)) (resources u)"
    and "incarnations s' = om_map suspect_worker (incarnations u)"
proof -
  define d where "d = (let s = rebuild_digest_index (derive_counters u)
    in s\<lparr>im_durable_sequence := q, im_state := (im_state s)\<lparr>rs_now_ms := now_ms\<rparr>\<rparr>)"
  define f where "f = flush (record_recovery recovery d)"
  have fields: "rs_epoch (im_state d) = rs_epoch (im_state u)" "rs_policy (im_state d) = rs_policy (im_state u)"
    "rs_faults (im_state d) = rs_faults (im_state u)" "rs_containments (im_state d) = rs_containments (im_state u)"
    "rs_topology (im_state d) = rs_topology (im_state u)" "incarnations d = incarnations u" "im_store d = Some ds"
    unfolding d_def Let_def by (simp_all add: rebuild_digest_index_state derive_counters_fields assms(4))
  have accepting: "accepting (record_recovery recovery d)" using fields assms(3) by (simp add: accepting_def)
  have ok: "fst f = ok_status" and accepting': "accepting (snd f)"
    unfolding f_def using flush_accepting [OF accepting] by simp_all
  let ?epoch = "begin_epoch now_ms ''coordinator restart; live authority requires revalidation'' (snd f)"
  have run: "recover_from_store (Inr recovery) ds now_ms s = ?epoch"
    using assms(1,2) ok unfolding recover_from_store_def d_def f_def
    by (simp add: Let_def case_prod_beta split: sum.split)
  define e where "e = snd (begin_epoch_locked now_ms ''coordinator restart; live authority requires revalidation'' (snd f))"
  have locked: "begin_epoch_locked now_ms ''coordinator restart; live authority requires revalidation'' (snd f) = (Inr (rs_epoch (im_state e)), e)"
    unfolding e_def by (simp add: begin_epoch_locked_def Let_def)
  have "accepting e" using accepting' unfolding e_def accepting_def by (simp add: begin_epoch_locked_def Let_def)
  then have done_run: "?epoch = (Inr (rs_epoch (im_state e)), snd (flush e))"
    unfolding begin_epoch_def locked by (rule complete_accepting)
  have last: "rs_epoch (im_state e) = next_generation (rs_epoch (im_state u))"
    "rs_policy (im_state e) = rs_policy (im_state u)" "rs_faults (im_state e) = rs_faults (im_state u)"
    "rs_containments (im_state e) = rs_containments (im_state u)"
    "resources e = om_map (rr_freshness_update (\<lambda>_. EvidenceFreshness.REVALIDATION_REQUIRED)) (resources u)"
    "incarnations e = om_map suspect_worker (incarnations u)"
    unfolding e_def begin_epoch_locked_def Let_def
    by (simp_all add: advance_epoch_def f_def fields)
  show ?thesis
    by (rule that [of "snd (flush e)"]) (simp_all add: run done_run last)
qed

text \<open>
  C8. A restart keeps every fence and no authority. When a runtime persisted its snapshot and a
  new one, whatever it held before, recovers from that store, the recovery succeeds at the next
  coordinator epoch; policy, faults and containments are the persisted ones; every resource keeps its
  state, quarantine and generations but must be revalidated; and no worker incarnation holds live
  authority. This holds of the states whose document its reader accepts (every member and reference
  resolves, the tables are ordered and the policy is within the reader's limits - a boundary declared
  ahead of its members or a policy beyond the limits is not), whose document is at most the snapshot
  ceiling less eight bytes, and when the store accepts the records the recovery itself appends.
\<close>

theorem restart_from_snapshot:
  assumes "reads_fully sio" and "reads_fully jio"
    and "im_store s \<noteq> None" and "canon_state_document (im_state s)"
    and "snapshotable (bw_buffer (write_state_document (im_state s) ByteWriter_default))"
    and "persist_snapshot (save_snapshot io tio) s fs = (ok_status, fs')"
    and "ds_refuses ds = (\<lambda>_ _. None)"
    and "recover_from_store (recover sio jio (fs_dir fs')) ds now_ms s0 = (restarted, s1)"
  shows "restarted = Inr (next_generation (rs_epoch (im_state s))) \<and>
    rs_policy (im_state s1) = rs_policy (im_state s) \<and> rs_faults (im_state s1) = rs_faults (im_state s) \<and>
    rs_containments (im_state s1) = rs_containments (im_state s) \<and>
    resources s1 = om_map (rr_freshness_update (\<lambda>_. EvidenceFreshness.REVALIDATION_REQUIRED)) (resources s) \<and>
    (\<forall>k w. om_find (incarnations s1) k = Some w \<longrightarrow> \<not> holds_live_authority (wr_state w))"
proof -
  let ?doc = "bw_buffer (write_state_document (im_state s) ByteWriter_default)"
  have ok: "bw_ok (write_state_document (im_state s) ByteWriter_default)"
    and save: "save_snapshot io tio ?doc (im_durable_sequence s) fs = (ok_status, fs')"
    using assms(3,6) by (auto simp: persist_snapshot_def Let_def split: if_splits)
  let ?rec = "Recovery_default\<lparr>rec_snapshot_present := True, rec_snapshot_payload := ?doc,
    rec_snapshot_sequence := im_durable_sequence s\<rparr>"
  let ?t = "(reset_runtime ds s0)\<lparr>im_state := im_state s\<rparr>"
  have recovery: "recover sio jio (fs_dir fs') = Inr ?rec"
    by (rule saved_recovery [OF assms(1,2,5) save])
  have loaded: "load_snapshot ?rec (reset_runtime ds s0) = Some ?t"
    using rc_state_document.roundtrip [OF ok assms(4)] by (simp add: load_snapshot_def byte_reader_def)
  have replayed: "replay_journal 0 (rec_journal_records ?rec) (rec_journal_sequences ?rec) (rec_snapshot_sequence ?rec) ?t =
      (None, im_durable_sequence s, ?t)"
    by (simp add: Recovery_default_def)
  have store: "im_store ?t = Some ds" by (simp add: reset_runtime_def)
  obtain s' where s': "recover_from_store (Inr ?rec) ds now_ms s0 = (Inr (next_generation (rs_epoch (im_state ?t))), s')"
    and fields: "rs_policy (im_state s') = rs_policy (im_state ?t)" "rs_faults (im_state s') = rs_faults (im_state ?t)"
    "rs_containments (im_state s') = rs_containments (im_state ?t)"
    "resources s' = om_map (rr_freshness_update (\<lambda>_. EvidenceFreshness.REVALIDATION_REQUIRED)) (resources ?t)"
    "incarnations s' = om_map suspect_worker (incarnations ?t)"
    using completed_recovery [OF loaded replayed assms(7) store, of now_ms] by metis
  have "s1 = s'" "restarted = Inr (next_generation (rs_epoch (im_state s)))"
    using assms(8) s' unfolding recovery by simp_all
  moreover have "\<not> holds_live_authority (wr_state (suspect_worker w))" for w
    by (simp add: suspect_worker_def holds_live_authority_def)
  ultimately show ?thesis using fields by (auto simp: om_find_map)
qed

section \<open>What a restart loses\<close>

lemma replay_keeps:
  assumes "\<And>x s. g (install x s) = g s"
  shows "g (snd (replay rd install event s)) = g s"
  by (auto simp: replay_def assms split: prod.splits option.splits)

lemma apply_event_release: "rs_release_generation (im_state (snd (apply_event event s))) = rs_release_generation (im_state s)"
  unfolding apply_event_def
  by (cases "dev_kind event")
    (auto intro!: replay_keeps [where g = "\<lambda>s. rs_release_generation (im_state s)"]
      simp: apply_counters_def restore_history_def split: prod.splits)

lemma replay_journal_keeps:
  assumes "\<And>event s. g (snd (apply_event event s)) = g s"
  shows "g (snd (snd (replay_journal index records sequences q s))) = g s"
proof (induction index records sequences q s rule: replay_journal.induct)
  case (1 index bytes records sequence sequences q s)
  show ?case
  proof (cases "decode_durable_event bytes")
    case (Some event)
    obtain ok t where t: "apply_event event s = (ok, t)" by fastforce
    with assms [of event s] have "g t = g s" by simp
    with Some t 1 [OF Some t [symmetric]] show ?thesis by (cases ok) simp_all
  qed simp
qed simp_all

text \<open>
  C35. Release generations are not durable in the journal: whatever its records are, a runtime
  that recovers without a snapshot comes back with the release generation reset, so the generations
  it grants from then on repeat those granted before the restart.
\<close>

theorem journal_forgets_release_generation:
  assumes "\<not> rec_snapshot_present recovery"
    and "recover_from_store (Inr recovery) ds now_ms s = (Inr epoch, s')"
  shows "rs_release_generation (im_state s') = id_invalid"
proof -
  have loaded: "load_snapshot recovery (reset_runtime ds s) = Some (reset_runtime ds s)"
    using assms(1) by (simp add: load_snapshot_def)
  obtain detail q u where replayed: "replay_journal 0 (rec_journal_records recovery) (rec_journal_sequences recovery)
      (rec_snapshot_sequence recovery) (reset_runtime ds s) = (detail, q, u)" by (metis prod_cases3)
  have "rs_release_generation (im_state u) = rs_release_generation (im_state (reset_runtime ds s))"
    using replay_journal_keeps [of "\<lambda>s. rs_release_generation (im_state s)", OF apply_event_release] replayed
    by (metis snd_conv)
  then have u: "rs_release_generation (im_state u) = id_invalid"
    by (simp add: reset_runtime_def RuntimeSnapshot_default_def)
  have epoch: "rs_release_generation (im_state (snd (begin_epoch now reason t))) = rs_release_generation (im_state t)" for now reason t
    by (simp only: begin_epoch_def complete_fields) (simp add: begin_epoch_locked_def Let_def advance_epoch_def)
  have "rs_release_generation (im_state (snd (recover_from_store (Inr recovery) ds now_ms s))) = rs_release_generation (im_state u)"
    if "\<exists>epoch. fst (recover_from_store (Inr recovery) ds now_ms s) = Inr epoch"
    using that loaded replayed unfolding recover_from_store_def
    by (auto simp: Let_def case_prod_beta epoch rebuild_digest_index_state derive_counters_fields split: option.splits sum.splits)
  with assms(2) u show ?thesis by simp
qed

section \<open>What a removal does not record\<close>

text \<open>The kinds of the records staged so far.\<close>

definition staged_kinds :: "DurableEventKind set \<Rightarrow> PendingWrite list \<Rightarrow> bool" where
  "staged_kinds kinds ws \<longleftrightarrow> list_all (\<lambda>(_, bytes). \<forall>event. decode_durable_event bytes = Some event \<longrightarrow> dev_kind event \<in> kinds) ws"

lemma staged_kinds_stage:
  "staged_kinds kinds (im_pending s) \<Longrightarrow> kind \<in> kinds \<Longrightarrow> staged_kinds kinds (im_pending (stage kind history body s))"
  by (auto simp: stage_def staged_kinds_def split: option.split elim!: encoded_event)

lemma staged_kinds_record:
  "staged_kinds kinds (im_pending s) \<Longrightarrow> kind \<in> kinds \<Longrightarrow> staged_kinds kinds (im_pending (record_event e kind body s))"
  by (simp add: record_event_def case_prod_beta staged_kinds_stage add_history_def now_def Let_def)

lemma staged_kinds_counters:
  "staged_kinds kinds (im_pending s) \<Longrightarrow> DurableEventKind.COUNTERS \<in> kinds \<Longrightarrow> staged_kinds kinds (im_pending (stage_counters s))"
  by (simp add: stage_counters_def staged_kinds_stage)

lemma staged_kinds_fold:
  "staged_kinds kinds (im_pending s) \<Longrightarrow> kind \<in> kinds \<Longrightarrow>
   staged_kinds kinds (im_pending (fold (\<lambda>d. stage kind None (body d)) ds s))"
  by (induction ds arbitrary: s) (simp_all add: staged_kinds_stage)

lemma replay_staged_keeps:
  assumes "staged_kinds kinds ws"
    and "\<And>event s. dev_kind event \<in> kinds \<Longrightarrow> g (snd (apply_event event s)) = g s"
  shows "g (snd (snd (replay_journal index (map snd ws) (map fst ws) q s))) = g s"
  using assms(1)
proof (induction ws arbitrary: index q s)
  case (Cons w ws)
  show ?case
  proof (cases "decode_durable_event (snd w)")
    case (Some event)
    obtain ok t where t: "apply_event event s = (ok, t)" by fastforce
    have "dev_kind event \<in> kinds" using Cons.prems Some by (auto simp: staged_kinds_def)
    with assms(2) [of event s] t have "g t = g s" by simp
    with Some t Cons show ?thesis by (cases ok) (simp_all add: staged_kinds_def)
  qed simp
qed simp

text \<open>The removal is staged first and always encodes; what follows it touches no resource.\<close>

lemma removal_staged:
  assumes "remove_resource_locked i expected s = (Inr (), s')" and "im_pending s = []"
  obtains h bytes ws where "encode_event DurableEventKind.RESOURCE_REMOVE (Some h) (wr_id i) = Some bytes"
    and "im_pending s' = (im_durable_sequence s + 1, bytes) # ws"
    and "staged_kinds {DurableEventKind.DEPENDENCY_REMOVE, DurableEventKind.COUNTERS} ws"
proof -
  let ?kinds = "{DurableEventKind.DEPENDENCY_REMOVE, DurableEventKind.COUNTERS}"
  define detail where "detail = ''resource '' @ str_ResourceId i @ '' removed''"
  obtain u :: Impl and ds :: "DependencyId list" where
    s': "s' = stage_counters (fold (\<lambda>d. stage DurableEventKind.DEPENDENCY_REMOVE None (wr_id d)) ds
      (record_event (resource_event HistoryEventType.TOPOLOGY_UPDATED detail i u) DurableEventKind.RESOURCE_REMOVE (wr_id i) u))"
    and u: "im_pending u = []" "im_durable_sequence u = im_durable_sequence s"
  proof -
    obtain removed where removed: "om_find (resources s) i = Some removed"
      using assms(1) by (cases "om_find (resources s) i") (simp_all add: remove_resource_locked_def)
    have guards: "\<not> (\<not> id_valid expected \<or> rr_generation removed \<noteq> expected)" "\<not> live_member (im_state s) i"
      using assms(1) removed by (auto simp: remove_resource_locked_def split: if_splits)
    note shape = assms(1) [unfolded remove_resource_locked_def removed option.case Let_def if_not_P [OF guards(1)]
      if_not_P [OF guards(2)] prod.inject, THEN conjunct2, symmetric]
    show ?thesis by (rule that [OF shape [folded detail_def]]) (simp_all add: assms(2))
  qed
  define h where "h = fst (add_history (resource_event HistoryEventType.TOPOLOGY_UPDATED detail i u) u)"
  have texts: "he_detail h = detail" "he_authority h = topology_authority u"
    by (simp_all add: h_def add_history_def now_def resource_event_def hist_def Let_def)
  have "seven_bit detail" "length detail \<le> 1000" "seven_bit (topology_authority u)" "length (topology_authority u) \<le> 1000"
    using id_text [of "''ResourceId''" i] id_text [of "''TopologyGeneration''" "rs_topology_generation (im_state u)"]
    by (simp_all add: detail_def topology_authority_def)
  moreover have "grows (wr_id i) 1000 True" by (rule grows_weaken [OF grows_id]) simp_all
  ultimately obtain bytes where bytes: "encode_event DurableEventKind.RESOURCE_REMOVE (Some h) (wr_id i) = Some bytes"
    using small_event_encodes [of "wr_id i" "Some h"] texts by auto
  have step: "\<exists>ws. im_pending (stage kind history body x) = im_pending x @ ws \<and> staged_kinds ?kinds ws"
    if "kind \<in> ?kinds" for kind history body x
  proof (cases "encode_event kind history body")
    case None
    then show ?thesis by (simp add: stage_def staged_kinds_def)
  next
    case (Some bytes)
    have "dev_kind event = kind" if "decode_durable_event bytes = Some event" for event
      using that Some by (auto elim!: encoded_event)
    with that Some show ?thesis by (auto simp: stage_def staged_kinds_def)
  qed
  have both: "staged_kinds ?kinds (ws @ ws')" if "staged_kinds ?kinds ws" "staged_kinds ?kinds ws'" for ws ws'
    using that by (simp add: staged_kinds_def)
  let ?remove = "\<lambda>d. stage DurableEventKind.DEPENDENCY_REMOVE None (wr_id (d :: DependencyId))"
  have fold: "\<exists>ws. im_pending (fold ?remove ds x) = im_pending x @ ws \<and> staged_kinds ?kinds ws" for ds x
  proof (induction ds arbitrary: x)
    case (Cons d ds)
    obtain ws where "im_pending (?remove d x) = im_pending x @ ws" "staged_kinds ?kinds ws"
      using step [of DurableEventKind.DEPENDENCY_REMOVE None "wr_id d" x] by auto
    moreover obtain ws' where "im_pending (fold ?remove ds (?remove d x)) = im_pending (?remove d x) @ ws'" "staged_kinds ?kinds ws'"
      using Cons.IH by blast
    ultimately have "im_pending (fold ?remove (d # ds) x) = im_pending x @ ws @ ws' \<and> staged_kinds ?kinds (ws @ ws')"
      using both by simp
    then show ?case by blast
  qed (simp add: staged_kinds_def)
  let ?r = "record_event (resource_event HistoryEventType.TOPOLOGY_UPDATED detail i u) DurableEventKind.RESOURCE_REMOVE (wr_id i) u"
  have "im_pending (snd (add_history e u)) = []" "im_durable_sequence (snd (add_history e u)) = im_durable_sequence s" for e
    using u by (simp_all add: add_history_def now_def Let_def)
  then have "im_pending ?r = [(im_durable_sequence s + 1, bytes)]"
    using bytes by (simp add: record_event_def case_prod_beta stage_def h_def)
  with fold [of ds ?r] obtain ws where ws: "staged_kinds ?kinds ws"
    "im_pending (fold ?remove ds ?r) = (im_durable_sequence s + 1, bytes) # ws" by auto
  obtain ws' where "im_pending s' = im_pending (fold ?remove ds ?r) @ ws'" "staged_kinds ?kinds ws'"
    using step [of DurableEventKind.COUNTERS] unfolding s' stage_counters_def by blast
  with bytes ws both [of ws ws'] show ?thesis by (intro that [of h bytes "ws @ ws'"]) simp_all
qed

lemma removal_replayed:
  assumes "remove_resource_locked i expected s = (Inr (), s')" and "im_pending s = []"
    and "replay_journal 0 (map snd (im_pending s')) (map fst (im_pending s')) q t = (detail, q', t')"
  shows "resources t' = om_erase i (resources t)"
    and "tp_containment_domains (rs_topology (im_state t')) = tp_containment_domains (rs_topology (im_state t))"
proof -
  let ?kinds = "{DurableEventKind.DEPENDENCY_REMOVE, DurableEventKind.COUNTERS}"
  obtain h bytes ws where first: "encode_event DurableEventKind.RESOURCE_REMOVE (Some h) (wr_id i) = Some bytes"
    and pending: "im_pending s' = (im_durable_sequence s + 1, bytes) # ws" and kinds: "staged_kinds ?kinds ws"
    using removal_staged [OF assms(1,2)] .
  have "redoes DurableEventKind.RESOURCE_REMOVE (wr_id i) (upd_resources (om_erase i))"
    using rc_key.redoes_record [of _ "\<lambda>i. upd_resources (om_erase i)"] by (simp add: apply_event_def)
  then obtain event where event: "decode_durable_event bytes = Some event"
    "apply_event event t = (True, upd_resources (om_erase i) t)"
    using first unfolding redoes_def by blast
  have rest: "replay_journal 1 (map snd ws) (map fst ws) (im_durable_sequence s + 1) (upd_resources (om_erase i) t) = (detail, q', t')"
    using assms(3) event by (simp add: pending)
  have keep: "resources (snd (apply_event event u)) = resources u"
    "tp_containment_domains (rs_topology (im_state (snd (apply_event event u)))) = tp_containment_domains (rs_topology (im_state u))"
    if "dev_kind event \<in> ?kinds" for event u
    using that unfolding apply_event_def
    by (auto intro!: replay_keeps [where g = resources]
        replay_keeps [where g = "\<lambda>s. tp_containment_domains (rs_topology (im_state s))"] simp: apply_counters_def)
  from replay_staged_keeps [of _ _ resources, OF kinds keep(1), of 1 "im_durable_sequence s + 1" "upd_resources (om_erase i) t"] rest
  show "resources t' = om_erase i (resources t)" by simp
  from replay_staged_keeps [of _ _ "\<lambda>s. tp_containment_domains (rs_topology (im_state s))", OF kinds keep(2), of 1
      "im_durable_sequence s + 1" "upd_resources (om_erase i) t"] rest
  show "tp_containment_domains (rs_topology (im_state t')) = tp_containment_domains (rs_topology (im_state t))" by simp
qed

text \<open>
  C36. Removing a resource is not redone completely: in memory its domain loses the member, but no
  record of the domain is staged. Replaying the records of the removal on the same topology removes
  the resource and leaves it a member of the domain, so the recovered topology names a resource that is
  not registered, and the reader refuses the next snapshot of that state, whatever else is in it, once
  it is written (with tables in order).
\<close>

theorem removal_not_redone:
  assumes "remove_resource_locked i expected s = (Inr (), s')" and "im_pending s = []"
    and "om_find (resources s) i = Some r" and "rr_containment_domain r = d" and "id_valid d"
    and "om_find (tp_containment_domains (rs_topology (im_state s))) d = Some cd" and "i \<in> set (cd_members cd)"
    and "rs_topology (im_state t) = rs_topology (im_state s)"
    and "replay_journal 0 (map snd (im_pending s')) (map fst (im_pending s')) q t = (detail, q', t')"
  shows "om_find (tp_containment_domains (rs_topology (im_state s'))) d = Some (cd\<lparr>cd_members := id_set_del (cd_members cd) i\<rparr>) \<and>
    om_find (tp_containment_domains (rs_topology (im_state t'))) d = Some cd \<and>
    om_find (resources t') i = None \<and> \<not> topology_resolves (rs_topology (im_state t')) \<and>
    (\<forall>st. rs_topology st = rs_topology (im_state t') \<longrightarrow> topology_tables_good (rs_topology st) \<longrightarrow>
       bw_ok (write_state_document st ByteWriter_default) \<longrightarrow>
       fst (run_state read_state_document (byte_reader (bw_buffer (write_state_document st ByteWriter_default)))) = None)"
proof -
  note removed = assms(1) [unfolded remove_resource_locked_def assms(3) option.case]
  have live: "om_find (tp_containment_domains (rs_topology (im_state s'))) d = Some (cd\<lparr>cd_members := id_set_del (cd_members cd) i\<rparr>)"
    using removed assms(4-6) by (auto simp: Let_def leave_domains_def split: if_splits)
  note replayed = removal_replayed [OF assms(1,2,9)]
  have domain: "om_find (tp_containment_domains (rs_topology (im_state t'))) d = Some cd"
    and gone: "om_find (resources t') i = None" using replayed assms(6,8) by simp_all
  have dangling: "\<not> topology_resolves (rs_topology (im_state t'))"
  proof
    assume "topology_resolves (rs_topology (im_state t'))"
    moreover have "(d, cd) \<in> set (tp_containment_domains (rs_topology (im_state t')))"
      using domain by (rule map_of_SomeD)
    ultimately have "members_resolve (rs_topology (im_state t')) (cd_members cd)"
      by (auto simp: topology_resolves_def list_all_iff)
    with assms(7) gone show False by (fastforce simp: members_resolve_def list_all_iff)
  qed
  have "fst (run_state read_state_document (byte_reader (bw_buffer (write_state_document st ByteWriter_default)))) = None"
    if "rs_topology st = rs_topology (im_state t')" "topology_tables_good (rs_topology st)"
      "bw_ok (write_state_document st ByteWriter_default)" for st
    using unresolved_written_refused that dangling by simp
  with live domain gone dangling show ?thesis by blast
qed

section \<open>Concrete restarts\<close>

lemma journal_is_redo_log_witness:
  "redoes DurableEventKind.RESOURCE_UPSERT (write_resource (ResourceRecord_default\<lparr>rr_id := Id 3\<rparr>))
    (upd_resources (om_put (Id 3) (ResourceRecord_default\<lparr>rr_id := Id 3\<rparr>)))"
proof -
  have canon: "canon_resource (ResourceRecord_default\<lparr>rr_id := Id 3\<rparr>)"
    "canon_containment_domain (ContainmentDomain_default\<lparr>cd_id := Id 3\<rparr>)"
    "canon_isolation_domain (IsolationDomain_default\<lparr>idm_id := Id 3\<rparr>)"
    "canon_failure_domain (FailureDomain_default\<lparr>fd_id := Id 3\<rparr>)"
    "canon_dependency (DependencyEdge_default\<lparr>de_id := Id 3, de_source := Id 1, de_destination := Id 2\<rparr>)"
    "canon_fault (FaultRecord_default\<lparr>fr_evidence := FaultEvidence_default\<lparr>fe_id := Id 7\<rparr>\<rparr>)"
    "canon_containment sample_containment"
    "canon_action (ContainmentAction_default\<lparr>act_id := Id 3\<rparr>)"
    "canon_worker (WorkerRecord_default\<lparr>wr_key := WorkerKey (Id 1) (Id 2)\<rparr>)"
    "canon_degraded_contract (fst (DegradedModeContract_default\<lparr>dmc_id := Id 1\<rparr>, DegradedModeAssessment_default\<lparr>dma_contract := Id 1\<rparr>))"
    "canon_degraded (snd (DegradedModeContract_default\<lparr>dmc_id := Id 1\<rparr>, DegradedModeAssessment_default\<lparr>dma_contract := Id 1\<rparr>))"
    by (simp_all add: canon_resource_def canon_containment_domain_def canon_isolation_domain_def canon_failure_domain_def
        canon_dependency_def canon_fault_def canon_fault_evidence_def canon_action_def canon_worker_def canon_authority_envelope_def
        canon_degraded_contract_def canon_degraded_def id_set_good_def enum_set_good_def
        ContainmentDomain_default_def IsolationDomain_default_def FailureDomain_default_def DependencyEdge_default_def
        FaultRecord_default_def FaultEvidence_default_def ContainmentAction_default_def AuthorityEnvelope_default_def
        WorkerRecord_default_def DegradedModeContract_default_def DegradedModeAssessment_default_def om_wf_def
        canon_containment_def sample_containment_def ContainmentRecord_default_def kMaxCollectionCount_def
        canon_verification_def ContainmentVerification_default_def canon_explanation_def id_valid_def)
  from journal_is_redo_log [OF canon(1-5) canon_sample_policy canon(6-11), THEN conjunct1]
  show ?thesis by simp
qed

definition sample_runtime :: Impl where
  "sample_runtime = (Engine_construct (Config_default (\<lambda>_. 5)))\<lparr>
     im_state := sample_document, im_store := Some \<lparr>ds_journal = [], ds_refuses = (\<lambda>_ _. None)\<rparr>,
     im_durable_sequence := 4\<rparr>"

lemma grows_small:
  assumes "grows f n A" and "A" and "n \<le> m" and "m \<le> kMaxDocumentBytes"
  shows "bw_ok (f ByteWriter_default) \<and> int (length (bw_buffer (f ByteWriter_default))) \<le> m"
  using assms(1) [unfolded grows_def, THEN conjunct2, rule_format, of ByteWriter_default] assms(2-4)
  by (simp add: ByteWriter_default_def)

lemma sample_document_small:
  "bw_ok (write_state_document sample_document ByteWriter_default) \<and>
   int (length (bw_buffer (write_state_document sample_document ByteWriter_default))) \<le> 100000"
proof (rule grows_small)
  show "grows (write_state_document sample_document) 100000 True"
    unfolding write_state_document_def write_topology_def write_policy_def write_admin_override_def
    by (simp add: sample_document_def sample_policy_def RuntimeSnapshot_default_def Topology_default_def
        DependencyGraph_default_def WorkerRegistry_default_def ContainmentPolicy_default_def FaultRule_default_def
        AdministrativeOverride_default_def FaultRecord_default_def FaultEvidence_default_def)
      (rule grows_weaken, (rule grows_intros grows_fault_rule grows_fault)+, simp_all add: str_good_samples)
qed (simp_all add: kMaxDocumentBytes_def)

lemma restart_from_snapshot_witness:
  "\<exists>fs s. persist_snapshot (save_snapshot easy_writes \<lparr>tc_truncate = True, tc_fsync = True\<rparr>) sample_runtime
      (store_holding [1, 2, 3]) = (ok_status, fs) \<and>
     recover_from_store (recover easy_reads easy_reads (fs_dir fs)) \<lparr>ds_journal = [], ds_refuses = (\<lambda>_ _. None)\<rparr> 9
       (Engine_construct (Config_default (\<lambda>_. 6))) = (Inr (Id 4), s) \<and>
     rs_faults (im_state s) = rs_faults sample_document"
proof -
  let ?doc = "bw_buffer (write_state_document (im_state sample_runtime) ByteWriter_default)"
    and ?tc = "\<lparr>tc_truncate = True, tc_fsync = True\<rparr>"
    and ?ds = "\<lparr>ds_journal = [], ds_refuses = (\<lambda>_ _. None)\<rparr>"
  have state: "im_state sample_runtime = sample_document" "im_store sample_runtime = Some ?ds"
    by (simp_all add: sample_runtime_def)
  have small: "bw_ok (write_state_document (im_state sample_runtime) ByteWriter_default)" "length ?doc \<le> 100000"
    using sample_document_small unfolding state by simp_all
  then have fits: "snapshotable ?doc" by (simp add: snapshotable_def kMaxSnapshotPayloadBytes_def)
  have one: "transfer (\<lambda>_. 1000000000) 0 (length (snapshot_image q ?doc)) 0 =
      (1, length (snapshot_image q ?doc)) \<or> transfer (\<lambda>_. 1000000000) 0 (length (snapshot_image q ?doc)) 0 =
      (1000000000, length (snapshot_image q ?doc))" for q
    using small(2) by (simp add: transfer.simps [of _ 0] transfer.simps [of _ "Suc 0"] length_snapshot_image)
  obtain fs where save: "save_snapshot easy_writes ?tc ?doc (im_durable_sequence sample_runtime) (store_holding [1, 2, 3]) = (ok_status, fs)"
    using one [of "im_durable_sequence sample_runtime"] small(2)
    by (auto simp: save_snapshot_def write_file_atomic_def easy_writes_def truncate_journal_locked_def Let_def
        kMaxSnapshotPayloadBytes_def store_holding_def empty_store_def)
  then have persist: "persist_snapshot (save_snapshot easy_writes ?tc) sample_runtime (store_holding [1, 2, 3]) = (ok_status, fs)"
    using small(1) state by (simp add: persist_snapshot_def Let_def)
  obtain restarted s1 where run: "recover_from_store (recover easy_reads easy_reads (fs_dir fs)) ?ds 9
      (Engine_construct (Config_default (\<lambda>_. 6))) = (restarted, s1)" by fastforce
  have "canon_state_document (im_state sample_runtime)"
    unfolding state by (rule canon_sample_document)
  from restart_from_snapshot [OF easy_reads easy_reads _ this fits persist _ run]
  have "restarted = Inr (next_generation (rs_epoch sample_document))" "rs_faults (im_state s1) = rs_faults sample_document"
    unfolding state by simp_all
  with persist run show ?thesis
    by (auto simp: sample_document_def next_generation_def RuntimeSnapshot_default_def)
qed

lemma journal_forgets_release_generation_witness:
  "\<exists>epoch s'. recover_from_store (Inr Recovery_default) \<lparr>ds_journal = [], ds_refuses = (\<lambda>_ _. None)\<rparr> 9
      (sample_runtime\<lparr>im_state := sample_document\<lparr>rs_release_generation := Id 8\<rparr>\<rparr>) = (Inr epoch, s') \<and>
     rs_release_generation (im_state s') = id_invalid"
proof -
  let ?ds = "\<lparr>ds_journal = [], ds_refuses = (\<lambda>_ _. None)\<rparr>"
    and ?s = "sample_runtime\<lparr>im_state := sample_document\<lparr>rs_release_generation := Id 8\<rparr>\<rparr>"
  obtain epoch s' where run: "recover_from_store (Inr Recovery_default) ?ds 9 ?s = (Inr epoch, s')"
  proof -
    have "load_snapshot Recovery_default (reset_runtime ?ds ?s) = Some (reset_runtime ?ds ?s)"
      "replay_journal 0 (rec_journal_records Recovery_default) (rec_journal_sequences Recovery_default)
        (rec_snapshot_sequence Recovery_default) (reset_runtime ?ds ?s) = (None, 0, reset_runtime ?ds ?s)"
      by (simp_all add: load_snapshot_def Recovery_default_def)
    moreover have "ds_refuses ?ds = (\<lambda>_ _. None)" by simp
    moreover have "im_store (reset_runtime ?ds ?s) = Some ?ds" by (simp add: reset_runtime_def)
    ultimately obtain s' where "recover_from_store (Inr Recovery_default) ?ds 9 ?s =
        (Inr (next_generation (rs_epoch (im_state (reset_runtime ?ds ?s)))), s')"
      by (rule completed_recovery [of _ _ _ _ _ _ 9])
    then show ?thesis by (rule that)
  qed
  from journal_forgets_release_generation [OF _ run] run show ?thesis
    by (auto simp: Recovery_default_def)
qed

definition domain_runtime :: Impl where
  "domain_runtime = sample_runtime\<lparr>im_state := sample_document\<lparr>rs_topology := Topology_default\<lparr>
     tp_resources := [(Id 1, ResourceRecord_default\<lparr>rr_id := Id 1, rr_generation := Id 1, rr_containment_domain := Id 2\<rparr>)],
     tp_containment_domains := [(Id 2, ContainmentDomain_default\<lparr>cd_id := Id 2, cd_members := [Id 1]\<rparr>)]\<rparr>\<rparr>,
     im_pending := []\<rparr>"

lemma removal_not_redone_witness:
  "\<exists>s' detail q t'. remove_resource_locked (Id 1) (Id 1) domain_runtime = (Inr (), s') \<and>
     replay_journal 0 (map snd (im_pending s')) (map fst (im_pending s')) 4 domain_runtime = (detail, q, t') \<and>
     om_find (tp_containment_domains (rs_topology (im_state t'))) (Id 2) =
       Some (ContainmentDomain_default\<lparr>cd_id := Id 2, cd_members := [Id 1]\<rparr>) \<and>
     om_find (resources t') (Id 1) = None \<and> \<not> topology_resolves (rs_topology (im_state t'))"
proof -
  have find: "om_find (resources domain_runtime) (Id 1) = Some (ResourceRecord_default\<lparr>rr_id := Id 1, rr_generation := Id 1, rr_containment_domain := Id 2\<rparr>)"
    "om_find (tp_containment_domains (rs_topology (im_state domain_runtime))) (Id 2) = Some (ContainmentDomain_default\<lparr>cd_id := Id 2, cd_members := [Id 1]\<rparr>)"
    by (simp_all add: domain_runtime_def)
  have idle: "\<not> live_member (im_state domain_runtime) (Id 1)"
    by (simp add: live_member_def domain_runtime_def sample_document_def RuntimeSnapshot_default_def)
  obtain s' where removed: "remove_resource_locked (Id 1) (Id 1) domain_runtime = (Inr (), s')"
    using find(1) idle by (simp add: remove_resource_locked_def Let_def)
  obtain detail q t' where replayed: "replay_journal 0 (map snd (im_pending s')) (map fst (im_pending s')) 4 domain_runtime = (detail, q, t')"
    by (metis prod_cases3)
  from removal_not_redone [OF removed _ find(1) _ _ find(2) _ refl replayed] removed replayed show ?thesis
    by (auto simp: domain_runtime_def)
qed

end
