(* ===== verification/Fcf_Wire.thy ===== *)
theory Fcf_Wire
  imports Fcf_Crc32c Fcf_Little_Endian
begin

text \<open>
  The framed wire protocol (\<open>include/fcf/wire.hpp\<close>, \<open>src/wire.cpp\<close>): the message kinds, the encoder and
  the bounded streaming decoder. What a stream of frames rests on are two facts about the pair: a
  complete frame decodes whatever follows it, and a proper prefix of one asks for more bytes.
\<close>

section \<open>Layout\<close>

definition kWireMagic :: u32 where "kWireMagic = 0x31464346"
definition kWireHeaderBytes :: nat where "kWireHeaderBytes = 20"
definition kMaxFramePayloadBytes :: u32 where "kMaxFramePayloadBytes = 1048576"
definition kWireProtocolVersion :: u16 where "kWireProtocolVersion = 1"

datatype (plugins only: code size) MessageKind =
    HELLO
  | HELLO_ACK
  | WORKER_EVIDENCE_ACK
  | HEARTBEAT
  | WORKER_EVIDENCE
  | FAULT_REPORT
  | ACTION_DISPATCH
  | ACTION_ACK
  | ACTION_RESULT
  | QUERY_REQUEST
  | QUERY_RESPONSE
  | CONTROL_REQUEST
  | CONTROL_RESPONSE
  | SHUTDOWN
  | REJECT

definition MessageKind_values :: "MessageKind list" where
  "MessageKind_values = [
     MessageKind.HELLO, MessageKind.HELLO_ACK, MessageKind.WORKER_EVIDENCE_ACK, MessageKind.HEARTBEAT,
     MessageKind.WORKER_EVIDENCE, MessageKind.FAULT_REPORT, MessageKind.ACTION_DISPATCH,
     MessageKind.ACTION_ACK, MessageKind.ACTION_RESULT, MessageKind.QUERY_REQUEST,
     MessageKind.QUERY_RESPONSE, MessageKind.CONTROL_REQUEST, MessageKind.CONTROL_RESPONSE,
     MessageKind.SHUTDOWN, MessageKind.REJECT]"

primrec MessageKind_str :: "MessageKind \<Rightarrow> string" where
  "MessageKind_str MessageKind.HELLO = ''HELLO''"
| "MessageKind_str MessageKind.HELLO_ACK = ''HELLO_ACK''"
| "MessageKind_str MessageKind.WORKER_EVIDENCE_ACK = ''WORKER_EVIDENCE_ACK''"
| "MessageKind_str MessageKind.HEARTBEAT = ''HEARTBEAT''"
| "MessageKind_str MessageKind.WORKER_EVIDENCE = ''WORKER_EVIDENCE''"
| "MessageKind_str MessageKind.FAULT_REPORT = ''FAULT_REPORT''"
| "MessageKind_str MessageKind.ACTION_DISPATCH = ''ACTION_DISPATCH''"
| "MessageKind_str MessageKind.ACTION_ACK = ''ACTION_ACK''"
| "MessageKind_str MessageKind.ACTION_RESULT = ''ACTION_RESULT''"
| "MessageKind_str MessageKind.QUERY_REQUEST = ''QUERY_REQUEST''"
| "MessageKind_str MessageKind.QUERY_RESPONSE = ''QUERY_RESPONSE''"
| "MessageKind_str MessageKind.CONTROL_REQUEST = ''CONTROL_REQUEST''"
| "MessageKind_str MessageKind.CONTROL_RESPONSE = ''CONTROL_RESPONSE''"
| "MessageKind_str MessageKind.SHUTDOWN = ''SHUTDOWN''"
| "MessageKind_str MessageKind.REJECT = ''REJECT''"

lemma MessageKind_set_values: "set MessageKind_values = UNIV"
proof -
  have "e \<in> set MessageKind_values" for e
    by (cases e) (simp_all add: MessageKind_values_def)
  then show ?thesis by blast
qed

interpretation en_MessageKind: enum_table MessageKind_values MessageKind_str
  by unfold_locales
    (rule MessageKind_set_values, code_simp, code_simp, simp add: MessageKind_values_def)

definition kMessageKindMax :: u16 where
  "kMessageKindMax = of_nat (length MessageKind_values - 1)"

record Frame =
  fm_version :: u16
  fm_kind :: MessageKind
  fm_payload :: "u8 list"

definition Frame_default :: Frame where
  "Frame_default = \<lparr>fm_version = 0, fm_kind = MessageKind.REJECT, fm_payload = []\<rparr>"

section \<open>Encoding\<close>

definition frame_header :: "MessageKind \<Rightarrow> u8 list \<Rightarrow> u8 list" where
  "frame_header kind payload =
     put_u32 kWireMagic @ put_u16 kWireProtocolVersion @ put_u16 (of_nat (enum_index MessageKind_values kind)) @
     put_u32 (of_nat (length payload))"

definition encode_frame :: "MessageKind \<Rightarrow> u8 list \<Rightarrow> u8 list Result" where
  "encode_frame kind payload =
     (if length payload > unat kMaxFramePayloadBytes then
        fail ErrorCode.FRAME_TOO_LARGE ''wire.encode'' ''payload exceeds the hard frame ceiling''
          (nat_to_string (length payload))
      else
        (let header = frame_header kind payload
         in Inr (header @ put_u32 (crc_compute header) @ put_u32 (crc_compute payload) @ payload)))"

section \<open>Decoding\<close>

datatype (plugins only: code size) DecodeState = COMPLETE | NEED_MORE | FATAL

record FrameDecodeResult =
  fd_state :: DecodeState
  fd_frame :: Frame
  fd_consumed :: nat
  fd_error :: ErrorCode
  fd_detail :: string

definition FrameDecodeResult_default :: FrameDecodeResult where
  "FrameDecodeResult_default = \<lparr>fd_state = DecodeState.NEED_MORE, fd_frame = Frame_default, fd_consumed = 0,
     fd_error = ErrorCode.OK, fd_detail = []\<rparr>"

definition fatal_frame :: "ErrorCode \<Rightarrow> string \<Rightarrow> FrameDecodeResult" where
  "fatal_frame code detail =
     FrameDecodeResult_default\<lparr>fd_state := DecodeState.FATAL, fd_error := code, fd_detail := detail\<rparr>"

definition decode_frame_streaming :: "u8 list \<Rightarrow> FrameDecodeResult" where
  "decode_frame_streaming buffer =
     (if length buffer \<ge> 4 \<and> get_u32 buffer \<noteq> kWireMagic then
        fatal_frame ErrorCode.FRAME_CORRUPT ''bad frame magic''
      else if length buffer < kWireHeaderBytes then FrameDecodeResult_default
      else
        let version = get_u16 (drop 4 buffer) in
        if version \<noteq> kWireProtocolVersion then
          fatal_frame ErrorCode.PROTOCOL_VERSION_UNSUPPORTED
            (''unsupported protocol version '' @ nat_to_string (unat version))
        else
          let raw_kind = get_u16 (drop 6 buffer) in
          if raw_kind > kMessageKindMax then
            fatal_frame ErrorCode.FRAME_CORRUPT
              (''unknown mandatory message type '' @ nat_to_string (unat raw_kind))
          else
            let payload_len = get_u32 (drop 8 buffer) in
            if payload_len > kMaxFramePayloadBytes then
              fatal_frame ErrorCode.FRAME_TOO_LARGE
                (''declared payload length '' @ nat_to_string (unat payload_len) @ '' exceeds ceiling'')
            else if get_u32 (drop 12 buffer) \<noteq> crc_compute (take (kWireHeaderBytes - 8) buffer) then
              fatal_frame ErrorCode.FRAME_CORRUPT ''header checksum mismatch''
            else
              let total = kWireHeaderBytes + unat payload_len in
              if length buffer < total then FrameDecodeResult_default
              else
                let payload = take (unat payload_len) (drop kWireHeaderBytes buffer) in
                if crc_compute payload \<noteq> get_u32 (drop 16 buffer) then
                  fatal_frame ErrorCode.FRAME_CORRUPT ''payload checksum mismatch''
                else
                  FrameDecodeResult_default\<lparr>fd_state := DecodeState.COMPLETE,
                    fd_frame := \<lparr>fm_version = version, fm_kind = MessageKind_values ! unat raw_kind,
                                 fm_payload = payload\<rparr>,
                    fd_consumed := total\<rparr>)"

definition decode_frame :: "u8 list \<Rightarrow> Frame Result" where
  "decode_frame buffer =
     (let streaming = decode_frame_streaming buffer in
      if fd_state streaming = DecodeState.NEED_MORE then
        fail ErrorCode.FRAME_CORRUPT ''wire.decode'' ''truncated frame'' (nat_to_string (length buffer))
      else if fd_state streaming = DecodeState.FATAL then
        fail (fd_error streaming) ''wire.decode'' (fd_detail streaming) []
      else if fd_consumed streaming \<noteq> length buffer then
        fail ErrorCode.FRAME_CORRUPT ''wire.decode'' ''trailing bytes after frame''
          (nat_to_string (length buffer - fd_consumed streaming))
      else Inr (fd_frame streaming))"

section \<open>What the decoder makes of an encoded frame\<close>

lemma encode_frame_eq:
  assumes "encode_frame kind payload = Inr bytes"
  shows "bytes = frame_header kind payload @ put_u32 (crc_compute (frame_header kind payload)) @
      put_u32 (crc_compute payload) @ payload"
    and "length payload \<le> unat kMaxFramePayloadBytes"
  using assms by (auto simp: encode_frame_def Let_def split: if_splits)

lemma length_frame_header [simp]: "length (frame_header kind payload) = 12"
  by (simp add: frame_header_def)

lemma length_encoded: "encode_frame kind payload = Inr bytes \<Longrightarrow> length bytes = 20 + length payload"
  by (auto dest: encode_frame_eq(1))

lemma header_fields:
  "get_u32 (frame_header kind payload @ rest) = kWireMagic"
  "get_u16 (drop 4 (frame_header kind payload @ rest)) = kWireProtocolVersion"
  "get_u16 (drop 6 (frame_header kind payload @ rest)) = of_nat (enum_index MessageKind_values kind)"
  "get_u32 (drop 8 (frame_header kind payload @ rest)) = of_nat (length payload)"
  by (simp_all add: frame_header_def)

lemma kind_index:
  "unat (of_nat (enum_index MessageKind_values kind) :: u16) = enum_index MessageKind_values kind"
  "\<not> kMessageKindMax < of_nat (enum_index MessageKind_values kind)"
  "MessageKind_values ! enum_index MessageKind_values kind = kind"
proof -
  have less: "enum_index MessageKind_values kind < 15"
    using en_MessageKind.index_less [of kind] by (simp add: MessageKind_values_def)
  then show eq: "unat (of_nat (enum_index MessageKind_values kind) :: u16) = enum_index MessageKind_values kind"
    by (simp add: unat_of_nat)
  show "\<not> kMessageKindMax < of_nat (enum_index MessageKind_values kind)"
  proof -
    have "unat kMessageKindMax = 14" by code_simp
    with less show ?thesis by (simp add: word_less_nat_alt eq)
  qed
  show "MessageKind_values ! enum_index MessageKind_values kind = kind"
    by (rule nth_enum_index) (simp add: MessageKind_set_values)
qed

lemma payload_length:
  assumes "length payload \<le> unat kMaxFramePayloadBytes"
  shows "unat (of_nat (length payload) :: u32) = length payload"
    and "\<not> kMaxFramePayloadBytes < of_nat (length payload)"
  using unat_of_nat_u32 [OF assms] assms by (simp_all add: word_less_nat_alt)

text \<open>The decision of the decoder on any buffer that starts with a header it accepts.\<close>

lemma decode_behind_header:
  assumes "length payload \<le> unat kMaxFramePayloadBytes"
    and "buffer = frame_header kind payload @ put_u32 (crc_compute (frame_header kind payload)) @ put_u32 crc @ data"
  shows "decode_frame_streaming buffer =
     (if length data < length payload then FrameDecodeResult_default
      else if crc_compute (take (length payload) data) \<noteq> crc then
        fatal_frame ErrorCode.FRAME_CORRUPT ''payload checksum mismatch''
      else FrameDecodeResult_default\<lparr>fd_state := DecodeState.COMPLETE,
        fd_frame := \<lparr>fm_version = kWireProtocolVersion, fm_kind = kind, fm_payload = take (length payload) data\<rparr>,
        fd_consumed := 20 + length payload\<rparr>)"
proof -
  let ?h = "frame_header kind payload" and ?hc = "put_u32 (crc_compute (frame_header kind payload))"
  have whole: "\<not> length buffer < kWireHeaderBytes" "take (kWireHeaderBytes - 8) buffer = ?h"
    "drop kWireHeaderBytes buffer = data"
    "(length buffer < kWireHeaderBytes + length payload) = (length data < length payload)"
    "get_u32 (drop 12 buffer) = crc_compute ?h" "get_u32 (drop 16 buffer) = crc"
    by (simp_all add: assms(2) kWireHeaderBytes_def)
  have fields: "get_u32 buffer = kWireMagic" "get_u16 (drop 4 buffer) = kWireProtocolVersion"
    "get_u16 (drop 6 buffer) = of_nat (enum_index MessageKind_values kind)"
    "get_u32 (drop 8 buffer) = of_nat (length payload)"
    unfolding assms(2) by (rule header_fields)+
  show ?thesis
    unfolding decode_frame_streaming_def Let_def fields kind_index(1,3) payload_length(1) [OF assms(1)]
    by (simp only: whole(1) fields kind_index(2) payload_length(2) [OF assms(1)] whole(2-) simp_thms if_False refl)
      (simp add: kWireHeaderBytes_def)
qed

text \<open>The frame that the receiver gets for what \<open>encode_frame\<close> was given.\<close>

definition sent_frame :: "MessageKind \<Rightarrow> u8 list \<Rightarrow> Frame" where
  "sent_frame kind payload = \<lparr>fm_version = kWireProtocolVersion, fm_kind = kind, fm_payload = payload\<rparr>"

lemma decode_encoded:
  assumes "encode_frame kind payload = Inr bytes"
  shows "decode_frame_streaming (bytes @ rest) = FrameDecodeResult_default\<lparr>fd_state := DecodeState.COMPLETE,
     fd_frame := sent_frame kind payload, fd_consumed := length bytes\<rparr>"
proof -
  note bytes = encode_frame_eq [OF assms]
  have "decode_frame_streaming (bytes @ rest) = FrameDecodeResult_default\<lparr>fd_state := DecodeState.COMPLETE,
     fd_frame := sent_frame kind payload, fd_consumed := 20 + length payload\<rparr>"
    unfolding bytes(1)
    by (subst decode_behind_header [OF bytes(2), where crc = "crc_compute payload" and data = "payload @ rest"])
      (simp_all add: sent_frame_def)
  then show ?thesis by (simp add: length_encoded [OF assms])
qed

lemma decode_prefix:
  assumes "encode_frame kind payload = Inr bytes" and "k < length bytes"
  shows "decode_frame_streaming (take k bytes) = FrameDecodeResult_default"
proof (cases "k < 20")
  case True
  have "get_u32 (take k bytes) = kWireMagic" if "4 \<le> k"
  proof -
    have "take k bytes = put_u32 kWireMagic @ drop 4 (take k bytes)"
      using that encode_frame_eq(1) [OF assms(1)]
      by (simp add: frame_header_def take_append)
    then show ?thesis by (metis get_put_u32)
  qed
  then show ?thesis
    using True assms(2) by (cases "4 \<le> k") (simp_all add: decode_frame_streaming_def kWireHeaderBytes_def)
next
  case False
  note bytes = encode_frame_eq [OF assms(1)]
  have short: "k - 20 < length payload" using assms(2) False length_encoded [OF assms(1)] by simp
  have split: "take k bytes = frame_header kind payload @ put_u32 (crc_compute (frame_header kind payload)) @
      put_u32 (crc_compute payload) @ take (k - 20) payload"
    using False by (simp add: bytes(1))
  show ?thesis
    using decode_behind_header [OF bytes(2) split] short by simp
qed

section \<open>Damage\<close>

text \<open>
  C22. A damaged frame is never delivered: when up to four consecutive bytes of the header fields
  or of the payload of an encoded frame arrive differently, and all its bytes have arrived, the
  decoder reports a fatal error, whatever follows the frame.
\<close>

theorem damaged_frame_is_fatal:
  assumes "encode_frame kind payload = Inr bytes"
    and "length m' = length m" and "length m \<le> 4" and "m' \<noteq> m"
    and "(\<exists>tail. bytes = a @ m @ b @ tail \<and> length (a @ m @ b) = 12 \<and> damaged = a @ m' @ b @ tail) \<or>
      (payload = a @ m @ b \<and> damaged = take 20 bytes @ a @ m' @ b)"
  shows "fd_state (decode_frame_streaming (damaged @ rest)) = DecodeState.FATAL"
  using assms(5)
proof (elim disjE exE conjE)
  fix tail assume bytes: "bytes = a @ m @ b @ tail" and len: "length (a @ m @ b) = 12"
    and damaged: "damaged = a @ m' @ b @ tail"
  let ?h = "frame_header kind payload"
  have "a @ m @ b = take 12 bytes" using bytes len by simp
  then have head: "a @ m @ b = ?h" by (simp add: encode_frame_eq(1) [OF assms(1)])
  then have tail: "tail = put_u32 (crc_compute ?h) @ put_u32 (crc_compute payload) @ payload"
    using encode_frame_eq(1) [OF assms(1)] bytes by (metis append_assoc same_append_eq)
  have "crc_compute (a @ m' @ b) \<noteq> crc_compute ?h"
    using crc_burst [of m' m a b] assms(2-4) head by metis
  moreover have "length (damaged @ rest) \<ge> 20" "take 12 (damaged @ rest) = a @ m' @ b"
    "get_u32 (drop 12 (damaged @ rest)) = crc_compute ?h"
    using len assms(2) by (simp_all add: damaged tail)
  ultimately show ?thesis
    by (simp add: decode_frame_streaming_def kWireHeaderBytes_def fatal_frame_def Let_def)
next
  assume payload: "payload = a @ m @ b" and damaged: "damaged = take 20 bytes @ a @ m' @ b"
  note bytes = encode_frame_eq [OF assms(1)]
  have "damaged @ rest = frame_header kind payload @ put_u32 (crc_compute (frame_header kind payload)) @
      put_u32 (crc_compute payload) @ a @ m' @ b @ rest"
    by (simp add: damaged bytes(1))
  note decoded = decode_behind_header [OF bytes(2) this]
  have "take (length payload) (a @ m' @ b @ rest) = a @ m' @ b"
    by (simp add: payload assms(2))
  moreover have "crc_compute (a @ m' @ b) \<noteq> crc_compute payload"
    unfolding payload using crc_burst [of m' m a b] assms(2-4) by metis
  ultimately show ?thesis
    unfolding decoded by (simp add: payload assms(2) fatal_frame_def)
qed

theorem damaged_frame_is_fatal_witness:
  "fd_state (decode_frame_streaming ([0x46, 0x43, 0x46, 0x31, 1, 0, 14, 0, 1] @
     drop 9 (case encode_frame MessageKind.REJECT [] of Inr bytes \<Rightarrow> bytes) @ [7])) = DecodeState.FATAL"
proof -
  have encoded: "encode_frame MessageKind.REJECT [] =
      Inr (frame_header MessageKind.REJECT [] @ put_u32 (crc_compute (frame_header MessageKind.REJECT [])) @
        put_u32 (crc_compute []))"
    by (simp add: encode_frame_def Let_def)
  have header: "frame_header MessageKind.REJECT [] = [0x46, 0x43, 0x46, 0x31, 1, 0, 14, 0] @ [0] @ [0, 0, 0]"
    by code_simp
  have "fd_state (decode_frame_streaming (([0x46, 0x43, 0x46, 0x31, 1, 0, 14, 0, 1] @
     drop 9 (case encode_frame MessageKind.REJECT [] of Inr bytes \<Rightarrow> bytes)) @ [7])) = DecodeState.FATAL"
    by (rule damaged_frame_is_fatal [OF encoded, where m = "[0]" and m' = "[1]" and b = "[0, 0, 0]"
          and a = "[0x46, 0x43, 0x46, 0x31, 1, 0, 14, 0]"])
      (simp_all add: encoded header)
  then show ?thesis by simp
qed

end
