(* ===== verification/Fcf_Net.thy ===== *)
theory Fcf_Net
  imports Fcf_Wire
begin

text \<open>
  A connected socket (\<open>include/fcf/net.hpp\<close>, \<open>src/net.cpp\<close>): sending one frame over partial writes, and
  reassembling frames from whatever pieces \<open>recv\<close> returns, within a bounded buffer. The system calls
  are parameters: \<open>send\<close> is the function from the number of the call to its result, and the arrivals of
  a connection are the list of what its \<open>recv\<close> calls return, whose end is the end of the stream.
\<close>

definition kMaxConnectionBufferBytes :: nat where "kMaxConnectionBufferBytes = 8388608"
definition kReceiveChunkBytes :: nat where "kReceiveChunkBytes = 65536"
definition kSendChunkBytes :: nat where "kSendChunkBytes = 1048576"

record Socket =
  sk_valid :: bool
  sk_residual :: "u8 list"

section \<open>Sending\<close>

text \<open>\<open>send\<close> takes at most what it is offered; each round of the loop makes progress or fails.\<close>

function send_loop :: "(nat \<Rightarrow> int) \<Rightarrow> nat \<Rightarrow> nat \<Rightarrow> nat \<Rightarrow> bool \<times> nat" where
  "send_loop written call len offset =
     (if len \<le> offset then (True, offset)
      else if written call \<le> 0 then (False, offset)
      else send_loop written (Suc call) len
             (offset + min (nat (written call)) (min (len - offset) kSendChunkBytes)))"
  by pat_completeness auto
termination by (relation "measure (\<lambda>(_, _, len, offset). len - offset)") (auto simp: kSendChunkBytes_def)

declare send_loop.simps [simp del]

text \<open>The second component is what went out on the wire.\<close>

definition send_frame :: "(nat \<Rightarrow> int) \<Rightarrow> MessageKind \<Rightarrow> u8 list \<Rightarrow> Socket \<Rightarrow> Status \<times> u8 list" where
  "send_frame written kind payload socket =
     (case encode_frame kind payload of
        Inl e \<Rightarrow> (Inl e, [])
      | Inr bytes \<Rightarrow>
          if \<not> sk_valid socket then
            (fail ErrorCode.EXECUTOR_UNAVAILABLE ''net.send'' ''socket is closed'' [], [])
          else
            (case send_loop written 0 (length bytes) 0 of (sent, offset) \<Rightarrow>
               if \<not> sent then
                 (fail ErrorCode.EXECUTOR_UNAVAILABLE ''net.send'' ''send failed'' [], take offset bytes)
               else (ok_status, take offset bytes)))"

section \<open>Receiving\<close>

datatype Received = Chunk "u8 list" | Receive_Failed

abbreviation receive_error :: "ErrorCode \<Rightarrow> string \<Rightarrow> 'a Result" where
  "receive_error code detail \<equiv> fail code ''net.receive'' detail []"

fun receive_loop :: "Received list \<Rightarrow> u8 list \<Rightarrow> Frame Result \<times> Received list \<times> u8 list" where
  "receive_loop arrivals residual =
     (let decoded = decode_frame_streaming residual in
      if fd_state decoded = DecodeState.COMPLETE then
        (Inr (fd_frame decoded), arrivals, drop (fd_consumed decoded) residual)
      else if fd_state decoded = DecodeState.FATAL then
        (receive_error (fd_error decoded) (fd_detail decoded), arrivals, residual)
      else
        (case arrivals of
           [] \<Rightarrow> (receive_error ErrorCode.EXECUTOR_UNAVAILABLE ''peer closed the connection'', [], residual)
         | Receive_Failed # rest \<Rightarrow>
             (receive_error ErrorCode.EXECUTOR_UNAVAILABLE ''receive failed'', rest, residual)
         | Chunk got # rest \<Rightarrow>
             if got = [] then
               (receive_error ErrorCode.EXECUTOR_UNAVAILABLE ''peer closed the connection'', rest, residual)
             else if length residual + length got > kMaxConnectionBufferBytes then
               (receive_error ErrorCode.RESOURCE_EXHAUSTED ''connection buffer ceiling exceeded'', rest, residual)
             else receive_loop rest (residual @ got)))"

declare receive_loop.simps [simp del]

definition receive_frame :: "Received list \<Rightarrow> Socket \<Rightarrow> Frame Result \<times> Received list \<times> Socket" where
  "receive_frame arrivals socket =
     (if \<not> sk_valid socket then
        (receive_error ErrorCode.EXECUTOR_UNAVAILABLE ''socket is closed'', arrivals, socket)
      else
        (case receive_loop arrivals (sk_residual socket) of (result, arrivals, residual) \<Rightarrow>
           (result, arrivals, socket\<lparr>sk_residual := residual\<rparr>)))"

text \<open>Everything a connection still holds: the buffered bytes and the bytes to come.\<close>

fun chunk_bytes :: "Received \<Rightarrow> nat" where
  "chunk_bytes (Chunk got) = length got"
| "chunk_bytes Receive_Failed = 0"

definition bytes_left :: "Received list \<Rightarrow> u8 list \<Rightarrow> nat" where
  "bytes_left arrivals residual = length residual + sum_list (map chunk_bytes arrivals)"

lemma decode_complete:
  assumes "fd_state (decode_frame_streaming buffer) = DecodeState.COMPLETE"
  shows "20 \<le> fd_consumed (decode_frame_streaming buffer)"
    and "fd_consumed (decode_frame_streaming buffer) \<le> length buffer"
  using assms
  by (auto simp: decode_frame_streaming_def Let_def fatal_frame_def FrameDecodeResult_default_def
      kWireHeaderBytes_def split: if_splits)

lemma receive_loop_consumes:
  "receive_loop arrivals residual = (Inr f, arrivals', residual') \<Longrightarrow>
   bytes_left arrivals' residual' + 20 \<le> bytes_left arrivals residual"
proof (induction arrivals residual rule: receive_loop.induct)
  case (1 arrivals residual)
  show ?case
  proof (cases "fd_state (decode_frame_streaming residual) = DecodeState.COMPLETE")
    case True
    then show ?thesis
      using 1(2) decode_complete [OF True]
      by (subst (asm) receive_loop.simps) (auto simp: Let_def bytes_left_def)
  next
    case False
    with 1(2) obtain got rest where
      "arrivals = Chunk got # rest" and "receive_loop rest (residual @ got) = (Inr f, arrivals', residual')"
      and "fd_state (decode_frame_streaming residual) \<noteq> DecodeState.FATAL" "got \<noteq> []"
      and "\<not> length residual + length got > kMaxConnectionBufferBytes"
      by (subst (asm) receive_loop.simps) (auto simp: Let_def split: if_splits list.splits Received.splits)
    with 1(1) False have "bytes_left arrivals' residual' + 20 \<le> bytes_left rest (residual @ got)" by blast
    then show ?thesis by (simp add: bytes_left_def \<open>arrivals = Chunk got # rest\<close>)
  qed
qed

text \<open>
  The loop of a connection: frames are received until an error ends it. Each frame takes at least
  its header from the connection, so the loop ends on every input.
\<close>

function receive_frames :: "Received list \<Rightarrow> Socket \<Rightarrow> Frame list \<times> Error" where
  "receive_frames arrivals socket =
     (case receive_frame arrivals socket of
        (Inl e, _) \<Rightarrow> ([], e)
      | (Inr f, arrivals', socket') \<Rightarrow>
          (case receive_frames arrivals' socket' of (fs, e) \<Rightarrow> (f # fs, e)))"
  by pat_completeness auto
termination
  by (relation "measure (\<lambda>(arrivals, socket). bytes_left arrivals (sk_residual socket))")
    (auto simp: receive_frame_def dest: receive_loop_consumes split: if_splits prod.splits)

declare receive_frames.simps [simp del]

section \<open>A stream of frames\<close>

definition arriving :: "u8 list list \<Rightarrow> bool" where
  "arriving pieces \<longleftrightarrow> (\<forall>piece \<in> set pieces. piece \<noteq> [] \<and> length piece \<le> kReceiveChunkBytes)"

lemma encoded_fits: "encode_frame kind payload = Inr bytes \<Longrightarrow> length bytes \<le> 1048596"
  using encode_frame_eq(2) [of kind payload bytes] length_encoded [of kind payload bytes]
  by (simp add: kMaxFramePayloadBytes_def)

lemma receive_next:
  assumes "encode_frame kind payload = Inr bytes"
  shows "residual @ concat pieces = bytes @ later \<Longrightarrow> arriving pieces \<Longrightarrow>
    \<exists>pieces' residual'. receive_loop (map Chunk pieces) residual =
        (Inr (sent_frame kind payload), map Chunk pieces', residual') \<and>
      residual' @ concat pieces' = later \<and> arriving pieces'"
proof (induction pieces arbitrary: residual)
  case Nil
  then have "decode_frame_streaming residual = decode_frame_streaming (bytes @ later)" by simp
  with Nil show ?case
    by (subst receive_loop.simps) (auto simp: decode_encoded [OF assms] arriving_def intro!: exI [of _ "[]"])
next
  case (Cons piece pieces)
  show ?case
  proof (cases "length bytes \<le> length residual")
    case True
    then have "take (length bytes) (residual @ concat (piece # pieces)) = take (length bytes) residual" by simp
    then have split: "residual = bytes @ drop (length bytes) residual"
      unfolding Cons.prems(1) by simp (metis append_take_drop_id)
    then have "drop (length bytes) residual @ concat (piece # pieces) = later"
      using Cons.prems(1) by (metis append_assoc same_append_eq)
    moreover have "receive_loop (map Chunk (piece # pieces)) residual =
        (Inr (sent_frame kind payload), map Chunk (piece # pieces), drop (length bytes) residual)"
      using decode_encoded [OF assms, of "drop (length bytes) residual"] split
      by (subst receive_loop.simps) simp
    ultimately show ?thesis using Cons.prems(2) by blast
  next
    case False
    then have "take (length residual) (residual @ concat (piece # pieces)) = take (length residual) bytes"
      unfolding Cons.prems(1) by simp
    then have prefix: "residual = take (length residual) bytes" by simp
    have fits: "\<not> length residual + length piece > kMaxConnectionBufferBytes" "piece \<noteq> []"
      using encoded_fits [OF assms] False Cons.prems(2)
      by (auto simp: arriving_def kMaxConnectionBufferBytes_def kReceiveChunkBytes_def)
    have "decode_frame_streaming residual = FrameDecodeResult_default"
      using decode_prefix [OF assms, of "length residual"] False prefix by simp
    then have step: "receive_loop (map Chunk (piece # pieces)) residual =
        receive_loop (map Chunk pieces) (residual @ piece)"
      using fits by (subst receive_loop.simps) (simp add: FrameDecodeResult_default_def)
    show ?thesis
      unfolding step using Cons.IH [of "residual @ piece"] Cons.prems by (auto simp: arriving_def)
  qed
qed

lemma receive_end:
  assumes "concat pieces = []" and "arriving pieces"
  shows "receive_loop (map Chunk pieces) [] =
    (receive_error ErrorCode.EXECUTOR_UNAVAILABLE ''peer closed the connection'', [], [])"
proof -
  have "pieces = []" using assms by (cases pieces) (auto simp: arriving_def)
  then show ?thesis
    by (subst receive_loop.simps)
      (simp add: decode_frame_streaming_def kWireHeaderBytes_def FrameDecodeResult_default_def)
qed

lemma receive_frames_split:
  assumes "list_all2 (\<lambda>(kind, payload) bytes. encode_frame kind payload = Inr bytes) messages outs"
    and "residual @ concat pieces = concat outs" and "arriving pieces"
  shows "receive_frames (map Chunk pieces) \<lparr>sk_valid = True, sk_residual = residual\<rparr> =
    (map (\<lambda>(kind, payload). sent_frame kind payload) messages,
     make_error ErrorCode.EXECUTOR_UNAVAILABLE ''net.receive'' ''peer closed the connection'' [])"
  using assms
proof (induction arbitrary: residual pieces rule: list_all2_induct)
  case Nil
  then have "residual = []" and "concat pieces = []" by simp_all
  with receive_end [OF _ Nil(2)] show ?case
    by (subst receive_frames.simps) (simp add: receive_frame_def)
next
  case (Cons m messages bytes outs)
  obtain kind payload where m: "m = (kind, payload)" by (cases m)
  with Cons(1) have encoded: "encode_frame kind payload = Inr bytes" by simp
  from Cons.prems(1) have "residual @ concat pieces = bytes @ concat outs" by simp
  from receive_next [OF encoded this Cons.prems(2)] obtain pieces' residual' where
    loop: "receive_loop (map Chunk pieces) residual =
        (Inr (sent_frame kind payload), map Chunk pieces', residual')"
    and rest: "residual' @ concat pieces' = concat outs" "arriving pieces'" by blast
  show ?case
    by (subst receive_frames.simps) (simp add: receive_frame_def loop Cons.IH [OF rest] m)
qed

lemma send_loop_complete: "send_loop written call len offset = (True, sent) \<Longrightarrow> len \<le> sent"
proof (induction written call len offset rule: send_loop.induct)
  case (1 written call len offset)
  show ?case
  proof (cases "len \<le> offset")
    case True
    with 1(2) show ?thesis by (subst (asm) send_loop.simps) simp
  next
    case False
    with 1(2) have "\<not> written call \<le> 0" by (subst (asm) send_loop.simps) (auto split: if_splits)
    moreover have "send_loop written (Suc call) len
        (offset + min (nat (written call)) (min (len - offset) kSendChunkBytes)) = (True, sent)"
      using 1(2) False by (subst (asm) send_loop.simps) (simp split: if_splits)
    ultimately show ?thesis using False 1(1) by blast
  qed
qed

lemma send_frame_ok:
  "send_frame written kind payload socket = (ok_status, out) \<Longrightarrow> encode_frame kind payload = Inr out"
  by (auto simp: send_frame_def dest: send_loop_complete split: sum.splits if_splits prod.splits)

text \<open>
  C23. Framing survives TCP: frames that were sent with success over one connection, however \<open>send\<close>
  split them, arrive at the receiver as exactly these frames in this order, however the byte stream was
  cut into the pieces that \<open>recv\<close> returned; then the loop of the connection ends with the closed peer.
\<close>

theorem stream_reassembled:
  assumes "list_all2 (\<lambda>(written, kind, payload) out.
      send_frame written kind payload sender = (ok_status, out)) messages outs"
    and "concat pieces = concat outs"
    and "\<forall>piece \<in> set pieces. piece \<noteq> [] \<and> length piece \<le> kReceiveChunkBytes"
  shows "receive_frames (map Chunk pieces) \<lparr>sk_valid = True, sk_residual = []\<rparr> =
    (map (\<lambda>(_, kind, payload). sent_frame kind payload) messages,
     make_error ErrorCode.EXECUTOR_UNAVAILABLE ''net.receive'' ''peer closed the connection'' [])"
proof -
  have "list_all2 (\<lambda>(kind, payload) out. encode_frame kind payload = Inr out) (map snd messages) outs"
    using assms(1) unfolding list.rel_map
    by (rule list.rel_mono_strong) (auto dest: send_frame_ok)
  from receive_frames_split [OF this, of "[]"] assms(2,3) show ?thesis
    by (simp add: arriving_def case_prod_unfold)
qed

theorem stream_reassembled_witness:
  "receive_frames (map Chunk [[0x46, 0x43], drop 2 (snd (send_frame (\<lambda>_. 7) MessageKind.HEARTBEAT [] \<lparr>sk_valid = True, sk_residual = []\<rparr>))])
     \<lparr>sk_valid = True, sk_residual = []\<rparr> =
   ([sent_frame MessageKind.HEARTBEAT []],
    make_error ErrorCode.EXECUTOR_UNAVAILABLE ''net.receive'' ''peer closed the connection'' [])"
proof -
  let ?socket = "\<lparr>sk_valid = True, sk_residual = []\<rparr>"
  obtain out where sent: "send_frame (\<lambda>_. 7) MessageKind.HEARTBEAT [] ?socket = (ok_status, out)"
    and bytes: "out = [0x46, 0x43] @ drop 2 out" "length out = 20"
  proof
    let ?out = "frame_header MessageKind.HEARTBEAT [] @
        put_u32 (crc_compute (frame_header MessageKind.HEARTBEAT [])) @ put_u32 (crc_compute [])"
    show "send_frame (\<lambda>_. 7) MessageKind.HEARTBEAT [] ?socket = (ok_status, ?out)"
      by (simp add: send_frame_def encode_frame_def Let_def send_loop.simps kSendChunkBytes_def)
    have "frame_header MessageKind.HEARTBEAT [] = [0x46, 0x43, 0x46, 0x31, 1, 0, 3, 0, 0, 0, 0, 0]" by code_simp
    then show "?out = [0x46, 0x43] @ drop 2 ?out" and "length ?out = 20" by simp_all
  qed
  from bytes have "drop 2 out \<noteq> []" by auto
  with stream_reassembled [of ?socket "[(\<lambda>_. 7, MessageKind.HEARTBEAT, [])]" "[out]" "[[0x46, 0x43], drop 2 out]"]
    sent bytes show ?thesis
    by (simp add: kReceiveChunkBytes_def)
qed

lemma receive_loop_bounded:
  "length residual \<le> kMaxConnectionBufferBytes \<Longrightarrow>
   receive_loop arrivals residual = (result, arrivals', residual') \<Longrightarrow>
   length arrivals \<le> length arrivals' + (kMaxConnectionBufferBytes - length residual) + 1 \<and>
   length residual' \<le> kMaxConnectionBufferBytes"
proof (induction arrivals residual rule: receive_loop.induct)
  case (1 arrivals residual)
  show ?case
  proof (cases "\<exists>got rest. arrivals = Chunk got # rest \<and> got \<noteq> [] \<and>
      \<not> length residual + length got > kMaxConnectionBufferBytes \<and>
      fd_state (decode_frame_streaming residual) = DecodeState.NEED_MORE")
    case True
    then obtain got rest where step: "arrivals = Chunk got # rest" "got \<noteq> []"
      "\<not> length residual + length got > kMaxConnectionBufferBytes"
      "fd_state (decode_frame_streaming residual) = DecodeState.NEED_MORE" by blast
    then have "receive_loop rest (residual @ got) = (result, arrivals', residual')"
      using 1(3) by (subst (asm) receive_loop.simps) simp
    with step 1(1) [OF refl _ _ step(1)] have
      "length rest \<le> length arrivals' + (kMaxConnectionBufferBytes - length (residual @ got)) + 1 \<and>
       length residual' \<le> kMaxConnectionBufferBytes" by auto
    moreover have "0 < length got" using step(2) by simp
    ultimately show ?thesis
      unfolding step(1) length_append list.size using step(3) by linarith
  next
    case False
    have "length residual' \<le> length residual \<and> length arrivals \<le> Suc (length arrivals')"
      using 1(3) False
      by (subst (asm) receive_loop.simps)
        (cases "fd_state (decode_frame_streaming residual)",
         auto simp: Let_def split: if_splits list.splits Received.splits)
    with 1(2) show ?thesis by linarith
  qed
qed

lemma receive_frames_bounded:
  "20 * length (fst (receive_frames arrivals socket)) \<le> bytes_left arrivals (sk_residual socket)"
proof (induction arrivals socket rule: receive_frames.induct)
  case (1 arrivals socket)
  show ?case
  proof (cases "receive_frame arrivals socket")
    case (fields r arrivals' socket')
    show ?thesis
    proof (cases r)
      case (Inl e)
      with fields show ?thesis by (subst receive_frames.simps) simp
    next
      case (Inr f)
      with fields have "bytes_left arrivals' (sk_residual socket') + 20 \<le> bytes_left arrivals (sk_residual socket)"
        by (auto simp: receive_frame_def dest: receive_loop_consumes split: if_splits prod.splits)
      moreover have "20 * length (fst (receive_frames arrivals' socket')) \<le> bytes_left arrivals' (sk_residual socket')"
        using 1 [OF fields [symmetric] Inr refl] by simp
      ultimately show ?thesis using fields Inr by (subst receive_frames.simps) (simp add: case_prod_unfold)
    qed
  qed
qed

text \<open>
  C24. Receiving is bounded: whatever arrives, one call to \<open>receive_frame\<close> returns after at most
  one \<open>recv\<close> more than the free bytes of the connection buffer, the buffer never exceeds its ceiling, and
  the loop of a connection delivers at most one frame per twenty bytes that arrived.
\<close>

theorem receive_is_bounded:
  assumes "length (sk_residual socket) \<le> kMaxConnectionBufferBytes"
    and "receive_frame arrivals socket = (result, arrivals', socket')"
  shows "length arrivals \<le> length arrivals' + (kMaxConnectionBufferBytes - length (sk_residual socket)) + 1 \<and>
    length (sk_residual socket') \<le> kMaxConnectionBufferBytes \<and>
    20 * length (fst (receive_frames arrivals socket)) \<le> bytes_left arrivals (sk_residual socket)"
proof (cases "sk_valid socket")
  case True
  obtain r a residual where loop: "receive_loop arrivals (sk_residual socket) = (r, a, residual)"
    by (cases "receive_loop arrivals (sk_residual socket)")
  with True assms(2) have "a = arrivals'" "sk_residual socket' = residual"
    by (auto simp: receive_frame_def)
  with receive_loop_bounded [OF assms(1) loop] receive_frames_bounded show ?thesis by blast
next
  case False
  with assms receive_frames_bounded show ?thesis by (simp add: receive_frame_def)
qed

theorem receive_is_bounded_witness:
  "20 * length (fst (receive_frames [Chunk [0x46]] \<lparr>sk_valid = True, sk_residual = []\<rparr>)) \<le> 1"
  using receive_is_bounded [of "\<lparr>sk_valid = True, sk_residual = []\<rparr>" "[Chunk [0x46]]"]
  by (cases "receive_frame [Chunk [0x46]] \<lparr>sk_valid = True, sk_residual = []\<rparr>") (simp add: bytes_left_def)

end
