(* ===== verification/Fcf_Protocol.thy ===== *)
theory Fcf_Protocol
  imports Fcf_Codec_State Fcf_Net
begin

text \<open>
  The messages of the worker plane and of the control plane (\<open>include/fcf/protocol.hpp\<close>,
  \<open>src/protocol.cpp\<close>): their records, encoders and decoders. The body of each message is an instance of
  \<open>record_codec\<close>; the round trip of the message around it is proved once, in the context of that locale.
\<close>

definition kProtocolFormatVersion :: u32 where "kProtocolFormatVersion = 1"

section \<open>What every message shares\<close>

definition malformed :: "string \<Rightarrow> Error" where
  "malformed stage = make_error ErrorCode.FRAME_CORRUPT stage ''malformed message payload'' []"

text \<open>The encoders write the format version, then the body, and check the latched flag.\<close>

definition encode_message :: "string \<Rightarrow> string \<Rightarrow> (ByteWriter \<Rightarrow> ByteWriter) \<Rightarrow> u8 list Result" where
  "encode_message stage failed body =
     (let writer = body (wr_u32 kProtocolFormatVersion ByteWriter_default) in
      if \<not> bw_ok writer then fail ErrorCode.INVALID_ARGUMENT stage failed []
      else Inr (bw_buffer writer))"

definition rd_at_end :: "bool reader" where
  "rd_at_end = State (\<lambda>r. (brd_rest r = [], r))"

text \<open>
  The decoders check the version, read the body, and refuse a body that is malformed, that ran out of
  bytes, or that left some. \<open>None\<close> stands for the early returns of \<open>malformed\<close> inside a body.
\<close>

definition decode_message :: "string \<Rightarrow> 'a option reader \<Rightarrow> u8 list \<Rightarrow> 'a Result" where
  "decode_message stage body payload =
     fst (run_state (do {
       version \<leftarrow> rd_u32;
       ok \<leftarrow> rd_ok;
       if \<not> ok \<or> version \<noteq> kProtocolFormatVersion then
         State_Monad.return (fail ErrorCode.PROTOCOL_VERSION_UNSUPPORTED stage ''unsupported payload version'' [])
       else do {
         message \<leftarrow> body;
         ok \<leftarrow> rd_ok;
         at_end \<leftarrow> rd_at_end;
         State_Monad.return
           (case message of
              None \<Rightarrow> Inl (malformed stage)
            | Some m \<Rightarrow> if \<not> ok \<or> \<not> at_end then Inl (malformed stage) else Inr m) } })
       (byte_reader payload))"

context record_codec
begin

lemma message_roundtrip:
  assumes "encode_message stage failed (wr x) = Inr bytes" and "canon x"
  shows "decode_message stage' rd bytes = Inr x"
proof -
  let ?v = "wr_u32 kProtocolFormatVersion ByteWriter_default"
  have ok: "bw_ok (wr x ?v)" and bytes: "bytes = bw_buffer (wr x ?v)"
    using assms(1) by (auto simp: encode_message_def Let_def split: if_splits)
  have body: "bytes = bw_buffer ?v @ enc x" and accepted: "accepts x" and "bw_ok ?v"
    using emitsD [OF emits_rec ok] by (auto simp: bytes)
  moreover have "bw_buffer ?v = le_u32 kProtocolFormatVersion"
    using emitsD [OF emits_u32 \<open>bw_ok ?v\<close>] by (simp add: ByteWriter_default_def)
  ultimately have "bytes = le_u32 kProtocolFormatVersion @ enc x" by simp
  with readsD [OF reads_rec [OF accepted assms(2)], of "[]"] show ?thesis
    by (simp add: decode_message_def field_reads rd_at_end_def) (simp add: byte_reader_def)
qed

end

text \<open>A boolean is one byte, which the decoders check themselves.\<close>

definition rd_flag :: "bool option reader" where
  "rd_flag = do {
     raw \<leftarrow> rd_u8;
     ok \<leftarrow> rd_ok;
     State_Monad.return (if \<not> ok \<or> raw > 1 then None else Some (raw = 1)) }"

lemma byte_read: "run_state rd_u8 (byte_reader (enc_bool b @ rest)) = (if b then 1 else 0, byte_reader rest)"
  using reads_u8 [THEN readsD, of "if b then 1 else 0" rest] by (simp add: enc_bool_def)

lemmas byte_reads = byte_read byte_read [unfolded One_nat_def]

lemma flag_reads: "run_state rd_flag (byte_reader (enc_bool b @ rest)) = (Some b, byte_reader rest)"
  by (simp add: rd_flag_def byte_reads field_reads)

lemmas enum_reads =
  enum_table.reads_enum [OF en_EvidenceFreshness.enum_table_axioms, THEN readsD]
  enum_table.reads_enum [OF en_ContainmentMechanism.enum_table_axioms, THEN readsD]
  enum_table.reads_enum [OF en_ErrorCode.enum_table_axioms, THEN readsD]

section \<open>Sessions\<close>

record HelloMessage =
  hm_worker :: WorkerId
  hm_boot :: WorkerBootId
  hm_epoch :: CoordinatorEpoch
  hm_sequence :: EvidenceSequence
  hm_endpoint :: string

definition write_hello :: "HelloMessage \<Rightarrow> ByteWriter \<Rightarrow> ByteWriter" where
  "write_hello m = writes [
     wr_id (hm_worker m),
     wr_id (hm_boot m),
     wr_id (hm_epoch m),
     wr_id (hm_sequence m),
     wr_str (hm_endpoint m)]"

definition read_hello :: "HelloMessage option reader" where
  "read_hello = do {
     x_worker \<leftarrow> rd_id;
     x_boot \<leftarrow> rd_id;
     x_epoch \<leftarrow> rd_id;
     x_sequence \<leftarrow> rd_id;
     x_endpoint \<leftarrow> rd_str;
     State_Monad.return (if id_valid x_worker \<and> id_valid x_boot then
       Some \<lparr>hm_worker = x_worker, hm_boot = x_boot, hm_epoch = x_epoch, hm_sequence =
       x_sequence, hm_endpoint = x_endpoint\<rparr>
     else None) }"

definition enc_hello :: "HelloMessage \<Rightarrow> u8 list" where
  "enc_hello m =
     enc_id (hm_worker m) @
     enc_id (hm_boot m) @
     enc_id (hm_epoch m) @
     enc_id (hm_sequence m) @
     enc_str (hm_endpoint m) @ []"

interpretation rc_hello: record_codec write_hello read_hello enc_hello
  "\<lambda>m. str_good (hm_endpoint m)"
  "\<lambda>m. id_valid (hm_worker m) \<and> id_valid (hm_boot m)"
proof
  fix m :: HelloMessage
  show "emits (write_hello m) (enc_hello m) (str_good (hm_endpoint m))"
    unfolding write_hello_def [abs_def] enc_hello_def
    by (rule emits_weaken, (rule emits_intros)+) simp
  assume "str_good (hm_endpoint m)" and "id_valid (hm_worker m) \<and> id_valid (hm_boot m)"
  then show "reads read_hello (enc_hello m) (Some m)"
    by (cases m) (simp add: reads_def read_hello_def enc_hello_def field_reads flag_reads byte_reads enum_reads str_reads )
qed

definition encode_hello :: "HelloMessage \<Rightarrow> u8 list Result" where
  "encode_hello m = encode_message ''protocol.hello'' ''message did not encode'' (write_hello m)"

definition decode_hello :: "u8 list \<Rightarrow> HelloMessage Result" where
  "decode_hello payload = decode_message ''protocol.hello'' read_hello payload"

record HelloAckMessage =
  ha_accepted :: bool
  ha_epoch :: CoordinatorEpoch
  ha_incarnation :: WorkerIncarnation
  ha_detail :: string

definition write_hello_ack :: "HelloAckMessage \<Rightarrow> ByteWriter \<Rightarrow> ByteWriter" where
  "write_hello_ack m = writes [
     wr_boolean (ha_accepted m),
     wr_id (ha_epoch m),
     wr_id (ha_incarnation m),
     wr_str (ha_detail m)]"

definition read_hello_ack :: "HelloAckMessage option reader" where
  "read_hello_ack = do {
     r_accepted \<leftarrow> rd_flag;
     (case r_accepted of None \<Rightarrow> State_Monad.return None | Some x_accepted \<Rightarrow> do {
       x_epoch \<leftarrow> rd_id;
       x_incarnation \<leftarrow> rd_id;
       x_detail \<leftarrow> rd_str;
       State_Monad.return (Some \<lparr>ha_accepted = x_accepted, ha_epoch = x_epoch, ha_incarnation = x_incarnation,
         ha_detail = x_detail\<rparr>) }) }"

definition enc_hello_ack :: "HelloAckMessage \<Rightarrow> u8 list" where
  "enc_hello_ack m =
     enc_bool (ha_accepted m) @
     enc_id (ha_epoch m) @
     enc_id (ha_incarnation m) @
     enc_str (ha_detail m) @ []"

interpretation rc_hello_ack: record_codec write_hello_ack read_hello_ack enc_hello_ack
  "\<lambda>m. str_good (ha_detail m)"
  "\<lambda>m. True"
proof
  fix m :: HelloAckMessage
  show "emits (write_hello_ack m) (enc_hello_ack m) (str_good (ha_detail m))"
    unfolding write_hello_ack_def [abs_def] enc_hello_ack_def
    by (rule emits_weaken, (rule emits_intros)+) simp
  assume "str_good (ha_detail m)" and "True"
  then show "reads read_hello_ack (enc_hello_ack m) (Some m)"
    by (cases m) (simp add: reads_def read_hello_ack_def enc_hello_ack_def field_reads flag_reads byte_reads enum_reads str_reads )
qed

definition encode_hello_ack :: "HelloAckMessage \<Rightarrow> u8 list Result" where
  "encode_hello_ack m = encode_message ''protocol.hello_ack'' ''message did not encode'' (write_hello_ack m)"

definition decode_hello_ack :: "u8 list \<Rightarrow> HelloAckMessage Result" where
  "decode_hello_ack payload = decode_message ''protocol.hello_ack'' read_hello_ack payload"

section \<open>Resource evidence\<close>

record WorkerEvidenceMessage =
  we_worker :: WorkerId
  we_boot :: WorkerBootId
  we_epoch :: CoordinatorEpoch
  we_resource :: ResourceId
  we_generation :: ResourceGeneration
  we_freshness :: EvidenceFreshness
  we_sequence :: EvidenceSequence
  we_mechanism :: ContainmentMechanism

definition write_worker_evidence :: "WorkerEvidenceMessage \<Rightarrow> ByteWriter \<Rightarrow> ByteWriter" where
  "write_worker_evidence m = writes [
     wr_id (we_worker m),
     wr_id (we_boot m),
     wr_id (we_epoch m),
     wr_id (we_resource m),
     wr_id (we_generation m),
     wr_enum EvidenceFreshness_values (we_freshness m),
     wr_id (we_sequence m),
     wr_enum ContainmentMechanism_values (we_mechanism m)]"

definition read_worker_evidence :: "WorkerEvidenceMessage option reader" where
  "read_worker_evidence = do {
     x_worker \<leftarrow> rd_id;
     x_boot \<leftarrow> rd_id;
     x_epoch \<leftarrow> rd_id;
     x_resource \<leftarrow> rd_id;
     x_generation \<leftarrow> rd_id;
     x_freshness \<leftarrow> rd_enum_checked EvidenceFreshness_values;
     x_sequence \<leftarrow> rd_id;
     x_mechanism \<leftarrow> rd_enum_checked ContainmentMechanism_values;
     State_Monad.return (if id_valid x_worker \<and> id_valid x_boot \<and> id_valid x_resource then
       Some \<lparr>we_worker = x_worker, we_boot = x_boot, we_epoch = x_epoch, we_resource =
       x_resource, we_generation = x_generation, we_freshness = x_freshness, we_sequence =
       x_sequence, we_mechanism = x_mechanism\<rparr>
     else None) }"

definition enc_worker_evidence :: "WorkerEvidenceMessage \<Rightarrow> u8 list" where
  "enc_worker_evidence m =
     enc_id (we_worker m) @
     enc_id (we_boot m) @
     enc_id (we_epoch m) @
     enc_id (we_resource m) @
     enc_id (we_generation m) @
     enc_enum EvidenceFreshness_values (we_freshness m) @
     enc_id (we_sequence m) @
     enc_enum ContainmentMechanism_values (we_mechanism m) @ []"

interpretation rc_worker_evidence: record_codec write_worker_evidence read_worker_evidence enc_worker_evidence
  "\<lambda>m. True"
  "\<lambda>m. id_valid (we_worker m) \<and> id_valid (we_boot m) \<and> id_valid (we_resource m)"
proof
  fix m :: WorkerEvidenceMessage
  show "emits (write_worker_evidence m) (enc_worker_evidence m) (True)"
    unfolding write_worker_evidence_def [abs_def] enc_worker_evidence_def
    by (rule emits_weaken, (rule emits_intros)+) simp
  assume "True" and "id_valid (we_worker m) \<and> id_valid (we_boot m) \<and> id_valid (we_resource m)"
  then show "reads read_worker_evidence (enc_worker_evidence m) (Some m)"
    by (cases m) (simp add: reads_def read_worker_evidence_def enc_worker_evidence_def field_reads flag_reads byte_reads enum_reads str_reads )
qed

definition encode_worker_evidence :: "WorkerEvidenceMessage \<Rightarrow> u8 list Result" where
  "encode_worker_evidence m = encode_message ''protocol.evidence'' ''message did not encode'' (write_worker_evidence m)"

definition decode_worker_evidence :: "u8 list \<Rightarrow> WorkerEvidenceMessage Result" where
  "decode_worker_evidence payload = decode_message ''protocol.evidence'' read_worker_evidence payload"

record WorkerEvidenceAck =
  wea_granted :: bool
  wea_fenced :: bool
  wea_generation :: ResourceGeneration
  wea_detail :: string

definition write_worker_evidence_ack :: "WorkerEvidenceAck \<Rightarrow> ByteWriter \<Rightarrow> ByteWriter" where
  "write_worker_evidence_ack m = writes [
     wr_boolean (wea_granted m),
     wr_boolean (wea_fenced m),
     wr_id (wea_generation m),
     wr_str (wea_detail m)]"

definition read_worker_evidence_ack :: "WorkerEvidenceAck option reader" where
  "read_worker_evidence_ack = do {
     x_granted \<leftarrow> rd_u8;
     x_fenced \<leftarrow> rd_u8;
     ok \<leftarrow> rd_ok;
     if \<not> ok \<or> x_granted > 1 \<or> x_fenced > 1 then State_Monad.return None
     else do {
       x_generation \<leftarrow> rd_id;
       x_detail \<leftarrow> rd_str;
       State_Monad.return (Some \<lparr>wea_granted = (x_granted = 1), wea_fenced = (x_fenced = 1), wea_generation =
         x_generation, wea_detail = x_detail\<rparr>) } }"

definition enc_worker_evidence_ack :: "WorkerEvidenceAck \<Rightarrow> u8 list" where
  "enc_worker_evidence_ack m =
     enc_bool (wea_granted m) @
     enc_bool (wea_fenced m) @
     enc_id (wea_generation m) @
     enc_str (wea_detail m) @ []"

interpretation rc_worker_evidence_ack: record_codec write_worker_evidence_ack read_worker_evidence_ack enc_worker_evidence_ack
  "\<lambda>m. str_good (wea_detail m)"
  "\<lambda>m. True"
proof
  fix m :: WorkerEvidenceAck
  show "emits (write_worker_evidence_ack m) (enc_worker_evidence_ack m) (str_good (wea_detail m))"
    unfolding write_worker_evidence_ack_def [abs_def] enc_worker_evidence_ack_def
    by (rule emits_weaken, (rule emits_intros)+) simp
  assume "str_good (wea_detail m)" and "True"
  then show "reads read_worker_evidence_ack (enc_worker_evidence_ack m) (Some m)"
    by (cases m) (simp add: reads_def read_worker_evidence_ack_def enc_worker_evidence_ack_def field_reads flag_reads byte_reads enum_reads str_reads )
qed

definition encode_worker_evidence_ack :: "WorkerEvidenceAck \<Rightarrow> u8 list Result" where
  "encode_worker_evidence_ack m = encode_message ''protocol.evidence_ack'' ''message did not encode'' (write_worker_evidence_ack m)"

definition decode_worker_evidence_ack :: "u8 list \<Rightarrow> WorkerEvidenceAck Result" where
  "decode_worker_evidence_ack payload = decode_message ''protocol.evidence_ack'' read_worker_evidence_ack payload"

section \<open>Faults and actions\<close>

record FaultReportMessage =
  frp_worker :: WorkerId
  frp_boot :: WorkerBootId
  frp_epoch :: CoordinatorEpoch
  frp_evidence :: FaultEvidence

definition write_fault_report :: "FaultReportMessage \<Rightarrow> ByteWriter \<Rightarrow> ByteWriter" where
  "write_fault_report m = writes [
     wr_id (frp_worker m),
     wr_id (frp_boot m),
     wr_id (frp_epoch m),
     write_fault_evidence (frp_evidence m)]"

definition read_fault_report :: "FaultReportMessage option reader" where
  "read_fault_report = do {
     x_worker \<leftarrow> rd_id;
     x_boot \<leftarrow> rd_id;
     x_epoch \<leftarrow> rd_id;
     r_evidence \<leftarrow> read_fault_evidence;
     (case r_evidence of None \<Rightarrow> State_Monad.return None | Some x_evidence \<Rightarrow> do {
       State_Monad.return (Some \<lparr>frp_worker = x_worker, frp_boot = x_boot, frp_epoch = x_epoch, frp_evidence =
         x_evidence\<rparr>) }) }"

definition enc_fault_report :: "FaultReportMessage \<Rightarrow> u8 list" where
  "enc_fault_report m =
     enc_id (frp_worker m) @
     enc_id (frp_boot m) @
     enc_id (frp_epoch m) @
     enc_fault_evidence (frp_evidence m) @ []"

interpretation rc_fault_report: record_codec write_fault_report read_fault_report enc_fault_report
  "\<lambda>m. accepts_fault_evidence (frp_evidence m)"
  "\<lambda>m. canon_fault_evidence (frp_evidence m)"
proof
  fix m :: FaultReportMessage
  show "emits (write_fault_report m) (enc_fault_report m) (accepts_fault_evidence (frp_evidence m))"
    unfolding write_fault_report_def [abs_def] enc_fault_report_def
    by (rule emits_weaken, (rule emits_intros rc_fault_evidence.emits_rec)+) simp
  assume "accepts_fault_evidence (frp_evidence m)" and "canon_fault_evidence (frp_evidence m)"
  then show "reads read_fault_report (enc_fault_report m) (Some m)"
    by (cases m) (simp add: reads_def read_fault_report_def enc_fault_report_def field_reads flag_reads byte_reads enum_reads str_reads rc_fault_evidence.reads_rec [THEN readsD])
qed

definition encode_fault_report :: "FaultReportMessage \<Rightarrow> u8 list Result" where
  "encode_fault_report m = encode_message ''protocol.fault_report'' ''message did not encode'' (write_fault_report m)"

definition decode_fault_report :: "u8 list \<Rightarrow> FaultReportMessage Result" where
  "decode_fault_report payload = decode_message ''protocol.fault_report'' read_fault_report payload"

record ActionDispatchMessage =
  adm_action :: ContainmentAction

definition write_action_dispatch :: "ActionDispatchMessage \<Rightarrow> ByteWriter \<Rightarrow> ByteWriter" where
  "write_action_dispatch m = writes [
     write_action (adm_action m)]"

definition read_action_dispatch :: "ActionDispatchMessage option reader" where
  "read_action_dispatch = do {
     r_action \<leftarrow> read_action;
     (case r_action of None \<Rightarrow> State_Monad.return None | Some x_action \<Rightarrow> do {
       State_Monad.return (Some \<lparr>adm_action = x_action\<rparr>) }) }"

definition enc_action_dispatch :: "ActionDispatchMessage \<Rightarrow> u8 list" where
  "enc_action_dispatch m =
     enc_action (adm_action m) @ []"

interpretation rc_action_dispatch: record_codec write_action_dispatch read_action_dispatch enc_action_dispatch
  "\<lambda>m. accepts_action (adm_action m)"
  "\<lambda>m. canon_action (adm_action m)"
proof
  fix m :: ActionDispatchMessage
  show "emits (write_action_dispatch m) (enc_action_dispatch m) (accepts_action (adm_action m))"
    unfolding write_action_dispatch_def [abs_def] enc_action_dispatch_def
    by (rule emits_weaken, (rule emits_intros rc_action.emits_rec)+) simp
  assume "accepts_action (adm_action m)" and "canon_action (adm_action m)"
  then show "reads read_action_dispatch (enc_action_dispatch m) (Some m)"
    by (cases m) (simp add: reads_def read_action_dispatch_def enc_action_dispatch_def field_reads flag_reads byte_reads enum_reads str_reads rc_action.reads_rec [THEN readsD])
qed

definition encode_action_dispatch :: "ActionDispatchMessage \<Rightarrow> u8 list Result" where
  "encode_action_dispatch m = encode_message ''protocol.action_dispatch'' ''message did not encode'' (write_action_dispatch m)"

definition decode_action_dispatch :: "u8 list \<Rightarrow> ActionDispatchMessage Result" where
  "decode_action_dispatch payload = decode_message ''protocol.action_dispatch'' read_action_dispatch payload"

definition write_ack_fields :: "ActionAcknowledgment \<Rightarrow> ByteWriter \<Rightarrow> ByteWriter" where
  "write_ack_fields m = writes [
     wr_id (ack_action m),
     wr_id (ack_action_generation m),
     wr_id (ack_epoch m),
     wr_id (ack_worker m),
     wr_id (ack_worker_boot m),
     wr_boolean (ack_accepted m),
     wr_str (ack_executor_token m),
     wr_str (ack_detail m)]"

definition read_ack_fields :: "ActionAcknowledgment option reader" where
  "read_ack_fields = do {
     x_action \<leftarrow> rd_id;
     x_action_generation \<leftarrow> rd_id;
     x_epoch \<leftarrow> rd_id;
     x_worker \<leftarrow> rd_id;
     x_worker_boot \<leftarrow> rd_id;
     r_accepted \<leftarrow> rd_flag;
     (case r_accepted of None \<Rightarrow> State_Monad.return None | Some x_accepted \<Rightarrow> do {
       x_executor_token \<leftarrow> rd_str;
       x_detail \<leftarrow> rd_str;
       ok \<leftarrow> rd_ok;
       State_Monad.return (if ok \<and> id_valid x_action then
         Some \<lparr>ack_action = x_action, ack_action_generation = x_action_generation, ack_epoch =
         x_epoch, ack_worker = x_worker, ack_worker_boot = x_worker_boot, ack_accepted =
         x_accepted, ack_executor_token = x_executor_token, ack_detail = x_detail\<rparr>
       else None) }) }"

definition enc_ack_fields :: "ActionAcknowledgment \<Rightarrow> u8 list" where
  "enc_ack_fields m =
     enc_id (ack_action m) @
     enc_id (ack_action_generation m) @
     enc_id (ack_epoch m) @
     enc_id (ack_worker m) @
     enc_id (ack_worker_boot m) @
     enc_bool (ack_accepted m) @
     enc_str (ack_executor_token m) @
     enc_str (ack_detail m) @ []"

interpretation rc_ack_fields: record_codec write_ack_fields read_ack_fields enc_ack_fields
  "\<lambda>m. str_good (ack_executor_token m) \<and> str_good (ack_detail m)"
  "\<lambda>m. id_valid (ack_action m)"
proof
  fix m :: ActionAcknowledgment
  show "emits (write_ack_fields m) (enc_ack_fields m) (str_good (ack_executor_token m) \<and> str_good (ack_detail m))"
    unfolding write_ack_fields_def [abs_def] enc_ack_fields_def
    by (rule emits_weaken, (rule emits_intros)+) simp
  assume "str_good (ack_executor_token m) \<and> str_good (ack_detail m)" and "id_valid (ack_action m)"
  then show "reads read_ack_fields (enc_ack_fields m) (Some m)"
    by (cases m) (simp add: reads_def read_ack_fields_def enc_ack_fields_def field_reads flag_reads byte_reads enum_reads str_reads )
qed

text \<open>\<open>ActionAckMessage\<close> has this one field.\<close>

definition encode_action_ack :: "ActionAcknowledgment \<Rightarrow> u8 list Result" where
  "encode_action_ack m = encode_message ''protocol.action_ack'' ''message did not encode'' (write_ack_fields m)"

definition decode_action_ack :: "u8 list \<Rightarrow> ActionAcknowledgment Result" where
  "decode_action_ack payload = decode_message ''protocol.action_ack'' read_ack_fields payload"

definition write_result_fields :: "ActionResult \<Rightarrow> ByteWriter \<Rightarrow> ByteWriter" where
  "write_result_fields m = writes [
     wr_id (ares_action m),
     wr_id (ares_action_generation m),
     wr_id (ares_epoch m),
     wr_id (ares_worker m),
     wr_id (ares_worker_boot m),
     wr_boolean (ares_success m),
     wr_enum ContainmentMechanism_values (ares_mechanism m),
     wr_str (ares_detail m)]"

definition read_result_fields :: "ActionResult option reader" where
  "read_result_fields = do {
     x_action \<leftarrow> rd_id;
     x_action_generation \<leftarrow> rd_id;
     x_epoch \<leftarrow> rd_id;
     x_worker \<leftarrow> rd_id;
     x_worker_boot \<leftarrow> rd_id;
     r_success \<leftarrow> rd_flag;
     (case r_success of None \<Rightarrow> State_Monad.return None | Some x_success \<Rightarrow> do {
       x_mechanism \<leftarrow> rd_enum_checked ContainmentMechanism_values;
       x_detail \<leftarrow> rd_str;
       ok \<leftarrow> rd_ok;
       State_Monad.return (if ok \<and> id_valid x_action then
         Some \<lparr>ares_action = x_action, ares_action_generation = x_action_generation, ares_epoch
         = x_epoch, ares_worker = x_worker, ares_worker_boot = x_worker_boot, ares_success =
         x_success, ares_mechanism = x_mechanism, ares_detail = x_detail\<rparr>
       else None) }) }"

definition enc_result_fields :: "ActionResult \<Rightarrow> u8 list" where
  "enc_result_fields m =
     enc_id (ares_action m) @
     enc_id (ares_action_generation m) @
     enc_id (ares_epoch m) @
     enc_id (ares_worker m) @
     enc_id (ares_worker_boot m) @
     enc_bool (ares_success m) @
     enc_enum ContainmentMechanism_values (ares_mechanism m) @
     enc_str (ares_detail m) @ []"

interpretation rc_result_fields: record_codec write_result_fields read_result_fields enc_result_fields
  "\<lambda>m. str_good (ares_detail m)"
  "\<lambda>m. id_valid (ares_action m)"
proof
  fix m :: ActionResult
  show "emits (write_result_fields m) (enc_result_fields m) (str_good (ares_detail m))"
    unfolding write_result_fields_def [abs_def] enc_result_fields_def
    by (rule emits_weaken, (rule emits_intros)+) simp
  assume "str_good (ares_detail m)" and "id_valid (ares_action m)"
  then show "reads read_result_fields (enc_result_fields m) (Some m)"
    by (cases m) (simp add: reads_def read_result_fields_def enc_result_fields_def field_reads flag_reads byte_reads enum_reads str_reads )
qed

text \<open>\<open>ActionResultMessage\<close> has this one field.\<close>

definition encode_action_result :: "ActionResult \<Rightarrow> u8 list Result" where
  "encode_action_result m = encode_message ''protocol.action_result'' ''message did not encode'' (write_result_fields m)"

definition decode_action_result :: "u8 list \<Rightarrow> ActionResult Result" where
  "decode_action_result payload = decode_message ''protocol.action_result'' read_result_fields payload"

section \<open>Rejections and control\<close>

record RejectMessage =
  rj_code :: ErrorCode
  rj_detail :: string

definition write_reject :: "RejectMessage \<Rightarrow> ByteWriter \<Rightarrow> ByteWriter" where
  "write_reject m = writes [
     wr_enum ErrorCode_values (rj_code m),
     wr_str (rj_detail m)]"

definition read_reject :: "RejectMessage option reader" where
  "read_reject = do {
     x_code \<leftarrow> rd_enum_checked ErrorCode_values;
     x_detail \<leftarrow> rd_str;
     State_Monad.return (Some \<lparr>rj_code = x_code, rj_detail = x_detail\<rparr>) }"

definition enc_reject :: "RejectMessage \<Rightarrow> u8 list" where
  "enc_reject m =
     enc_enum ErrorCode_values (rj_code m) @
     enc_str (rj_detail m) @ []"

interpretation rc_reject: record_codec write_reject read_reject enc_reject
  "\<lambda>m. str_good (rj_detail m)"
  "\<lambda>m. True"
proof
  fix m :: RejectMessage
  show "emits (write_reject m) (enc_reject m) (str_good (rj_detail m))"
    unfolding write_reject_def [abs_def] enc_reject_def
    by (rule emits_weaken, (rule emits_intros)+) simp
  assume "str_good (rj_detail m)" and "True"
  then show "reads read_reject (enc_reject m) (Some m)"
    by (cases m) (simp add: reads_def read_reject_def enc_reject_def field_reads flag_reads byte_reads enum_reads str_reads )
qed

definition encode_reject :: "RejectMessage \<Rightarrow> u8 list Result" where
  "encode_reject m = encode_message ''protocol.reject'' ''message did not encode'' (write_reject m)"

definition decode_reject :: "u8 list \<Rightarrow> RejectMessage Result" where
  "decode_reject payload = decode_message ''protocol.reject'' read_reject payload"

record ControlRequest =
  crq_command :: string
  crq_arguments :: "string list"

record ControlResponse =
  crs_ok :: bool
  crs_code :: ErrorCode
  crs_message :: string
  crs_lines :: "string list"

definition ControlResponse_default :: ControlResponse where
  "ControlResponse_default = \<lparr>crs_ok = False, crs_code = ErrorCode.OK, crs_message = [], crs_lines = []\<rparr>"

definition write_control_request :: "ControlRequest \<Rightarrow> ByteWriter \<Rightarrow> ByteWriter" where
  "write_control_request m = writes [
     wr_str (crq_command m),
     wr_many wr_str (crq_arguments m)]"

definition read_control_request :: "ControlRequest option reader" where
  "read_control_request = do {
     x_command \<leftarrow> rd_str;
     n \<leftarrow> rd_count 1024;
     r_arguments \<leftarrow> read_loop (unat n) rd_str_item push_back [];
     (case r_arguments of None \<Rightarrow> State_Monad.return None | Some x_arguments \<Rightarrow>
       State_Monad.return (if x_command \<noteq> [] then Some \<lparr>crq_command = x_command, crq_arguments = x_arguments\<rparr> else None)) }"

definition enc_control_request :: "ControlRequest \<Rightarrow> u8 list" where
  "enc_control_request m = enc_str (crq_command m) @ enc_many enc_str (crq_arguments m) @ []"

text \<open>The reader's ceiling on the number of arguments is not one of the writer.\<close>

definition canon_control_request :: "ControlRequest \<Rightarrow> bool" where
  "canon_control_request m \<longleftrightarrow> crq_command m \<noteq> [] \<and> length (crq_arguments m) \<le> 1024"

interpretation rc_control_request: record_codec write_control_request read_control_request enc_control_request
  "\<lambda>m. str_good (crq_command m) \<and> list_all str_good (crq_arguments m)" canon_control_request
proof
  fix m :: ControlRequest
  show "emits (write_control_request m) (enc_control_request m)
      (str_good (crq_command m) \<and> list_all str_good (crq_arguments m))"
    unfolding write_control_request_def [abs_def] enc_control_request_def
    by (rule emits_weaken, (rule emits_intros emits_many [OF emits_str])+) simp
  assume "str_good (crq_command m) \<and> list_all str_good (crq_arguments m)" and "canon_control_request m"
  then have canon: "str_good (crq_command m)" "list_all str_good (crq_arguments m)"
    "crq_command m \<noteq> []" "length (crq_arguments m) \<le> unat (1024 :: u32)"
    by (simp_all add: canon_control_request_def)
  note loop = rc_str.reads_many [OF canon(2) _ put_all_push_back [of _ "[]"] canon(4)]
  show "reads read_control_request (enc_control_request m) (Some m)"
    using canon loop
    by (simp add: reads_def read_control_request_def enc_control_request_def str_reads count_reads list_all_iff)
qed

definition encode_control_request :: "ControlRequest \<Rightarrow> u8 list Result" where
  "encode_control_request m =
     (case encode_message ''protocol.control_request'' ''request did not encode'' (write_control_request m) of
        Inl e \<Rightarrow> Inl e
      | Inr bytes \<Rightarrow>
          if crq_command m = [] then
            fail ErrorCode.INVALID_ARGUMENT ''protocol.control_request'' ''request did not encode'' []
          else Inr bytes)"

definition decode_control_request :: "u8 list \<Rightarrow> ControlRequest Result" where
  "decode_control_request payload = decode_message ''protocol.control_request'' read_control_request payload"

definition write_control_response :: "ControlResponse \<Rightarrow> ByteWriter \<Rightarrow> ByteWriter" where
  "write_control_response m = writes [
     wr_boolean (crs_ok m),
     wr_enum ErrorCode_values (crs_code m),
     wr_str (crs_message m),
     wr_many wr_str (crs_lines m)]"

definition read_control_response :: "ControlResponse option reader" where
  "read_control_response = do {
     r_ok \<leftarrow> rd_flag;
     (case r_ok of None \<Rightarrow> State_Monad.return None | Some x_ok \<Rightarrow> do {
       x_code \<leftarrow> rd_enum_checked ErrorCode_values;
       x_message \<leftarrow> rd_str;
       n \<leftarrow> rd_count 1048576;
       r_lines \<leftarrow> read_loop (unat n) rd_str_item push_back [];
       (case r_lines of None \<Rightarrow> State_Monad.return None | Some x_lines \<Rightarrow>
         State_Monad.return (Some \<lparr>crs_ok = x_ok, crs_code = x_code, crs_message = x_message, crs_lines = x_lines\<rparr>)) }) }"

definition enc_control_response :: "ControlResponse \<Rightarrow> u8 list" where
  "enc_control_response m =
     enc_bool (crs_ok m) @ enc_enum ErrorCode_values (crs_code m) @ enc_str (crs_message m) @
     enc_many enc_str (crs_lines m) @ []"

interpretation rc_control_response: record_codec write_control_response read_control_response enc_control_response
  "\<lambda>m. str_good (crs_message m) \<and> list_all str_good (crs_lines m)" "\<lambda>m. length (crs_lines m) \<le> 1048576"
proof
  fix m :: ControlResponse
  show "emits (write_control_response m) (enc_control_response m)
      (str_good (crs_message m) \<and> list_all str_good (crs_lines m))"
    unfolding write_control_response_def [abs_def] enc_control_response_def
    by (rule emits_weaken, (rule emits_intros emits_many [OF emits_str])+) simp
  assume canon: "str_good (crs_message m) \<and> list_all str_good (crs_lines m)" "length (crs_lines m) \<le> 1048576"
  then have lines: "list_all str_good (crs_lines m)" "length (crs_lines m) \<le> unat (1048576 :: u32)"
    by simp_all
  note loop = rc_str.reads_many [OF lines(1) _ put_all_push_back [of _ "[]"] lines(2)]
  show "reads read_control_response (enc_control_response m) (Some m)"
    using canon lines loop
    by (cases m) (simp add: reads_def read_control_response_def enc_control_response_def str_reads count_reads
        flag_reads enum_reads list_all_iff)
qed

definition encode_control_response :: "ControlResponse \<Rightarrow> u8 list Result" where
  "encode_control_response m =
     encode_message ''protocol.control_response'' ''response did not encode'' (write_control_response m)"

definition decode_control_response :: "u8 list \<Rightarrow> ControlResponse Result" where
  "decode_control_response payload = decode_message ''protocol.control_response'' read_control_response payload"

end
