(* ===== verification/Fcf_Protocol_Props.thy ===== *)
theory Fcf_Protocol_Props
  imports Fcf_Codec_Document Fcf_Protocol
begin

text \<open>
  What the message codecs guarantee: every message round-trips, a message of another format version is
  refused, and the one request the encoder accepts and the decoder refuses.
\<close>

lemma encode_request_eq:
  "encode_control_request m = Inr bytes \<Longrightarrow>
   encode_message ''protocol.control_request'' ''request did not encode'' (write_control_request m) = Inr bytes \<and>
   crq_command m \<noteq> []"
  by (simp add: encode_control_request_def split: sum.splits if_splits)

text \<open>
  C25. Messages round-trip: whatever an encoder of the protocol returned is decoded by its decoder to
  the message that was sent, when the identities the receiver requires are valid. For the embedded
  evidence and action records this is the canonical form that their own readers require, for control
  messages the ceilings on the number of arguments and lines.
\<close>

theorem messages_roundtrip:
  shows "(encode_hello hello = Inr bytes \<longrightarrow> id_valid (hm_worker hello) \<and> id_valid (hm_boot hello) \<longrightarrow>
      decode_hello bytes = Inr hello) \<and>
    (encode_hello_ack hello_ack = Inr bytes \<longrightarrow> decode_hello_ack bytes = Inr hello_ack) \<and>
    (encode_worker_evidence ev = Inr bytes \<longrightarrow>
      id_valid (we_worker ev) \<and> id_valid (we_boot ev) \<and> id_valid (we_resource ev) \<longrightarrow>
      decode_worker_evidence bytes = Inr ev) \<and>
    (encode_worker_evidence_ack ev_ack = Inr bytes \<longrightarrow> decode_worker_evidence_ack bytes = Inr ev_ack) \<and>
    (encode_fault_report report = Inr bytes \<longrightarrow> canon_fault_evidence (frp_evidence report) \<longrightarrow>
      decode_fault_report bytes = Inr report) \<and>
    (encode_action_dispatch dispatch = Inr bytes \<longrightarrow> canon_action (adm_action dispatch) \<longrightarrow>
      decode_action_dispatch bytes = Inr dispatch) \<and>
    (encode_action_ack ack = Inr bytes \<longrightarrow> id_valid (ack_action ack) \<longrightarrow> decode_action_ack bytes = Inr ack) \<and>
    (encode_action_result result = Inr bytes \<longrightarrow> id_valid (ares_action result) \<longrightarrow>
      decode_action_result bytes = Inr result) \<and>
    (encode_reject rejection = Inr bytes \<longrightarrow> decode_reject bytes = Inr rejection) \<and>
    (encode_control_request request = Inr bytes \<longrightarrow> length (crq_arguments request) \<le> 1024 \<longrightarrow>
      decode_control_request bytes = Inr request) \<and>
    (encode_control_response response = Inr bytes \<longrightarrow> length (crs_lines response) \<le> 1048576 \<longrightarrow>
      decode_control_response bytes = Inr response)"
  unfolding encode_hello_def decode_hello_def encode_hello_ack_def decode_hello_ack_def
    encode_worker_evidence_def decode_worker_evidence_def encode_worker_evidence_ack_def
    decode_worker_evidence_ack_def encode_fault_report_def decode_fault_report_def encode_action_dispatch_def
    decode_action_dispatch_def encode_action_ack_def decode_action_ack_def encode_action_result_def
    decode_action_result_def encode_reject_def decode_reject_def decode_control_request_def
    encode_control_response_def decode_control_response_def
  by (intro conjI impI rc_hello.message_roundtrip rc_hello_ack.message_roundtrip
      rc_worker_evidence.message_roundtrip rc_worker_evidence_ack.message_roundtrip
      rc_fault_report.message_roundtrip rc_action_dispatch.message_roundtrip rc_ack_fields.message_roundtrip
      rc_result_fields.message_roundtrip rc_reject.message_roundtrip rc_control_request.message_roundtrip
      rc_control_response.message_roundtrip)
    (auto dest: encode_request_eq simp: canon_control_request_def)

definition sample_hello :: HelloMessage where
  "sample_hello = \<lparr>hm_worker = Id 1, hm_boot = Id 2, hm_epoch = Id 1, hm_sequence = Id 1, hm_endpoint = ''node''\<rparr>"

definition sample_dispatch :: ActionDispatchMessage where
  "sample_dispatch = \<lparr>adm_action = ContainmentAction_default\<lparr>act_id := Id 1\<rparr>\<rparr>"

definition sample_request :: ControlRequest where
  "sample_request = \<lparr>crq_command = ''history'', crq_arguments = [''1'']\<rparr>"

lemma message_encodes:
  "bw_ok (body (wr_u32 kProtocolFormatVersion ByteWriter_default)) \<Longrightarrow> \<exists>bytes. encode_message st failed body = Inr bytes"
  by (simp add: encode_message_def)

theorem messages_roundtrip_witness:
  "(\<exists>bytes. encode_hello sample_hello = Inr bytes \<and> decode_hello bytes = Inr sample_hello) \<and>
   (\<exists>bytes. encode_action_dispatch sample_dispatch = Inr bytes \<and> decode_action_dispatch bytes = Inr sample_dispatch) \<and>
   (\<exists>bytes. encode_control_request sample_request = Inr bytes \<and> decode_control_request bytes = Inr sample_request)"
proof (intro conjI)
  have "bw_ok (write_hello sample_hello (wr_u32 kProtocolFormatVersion ByteWriter_default))" by code_simp
  then obtain bytes where "encode_hello sample_hello = Inr bytes"
    unfolding encode_hello_def using message_encodes by blast
  with messages_roundtrip [of sample_hello bytes]
  show "\<exists>bytes. encode_hello sample_hello = Inr bytes \<and> decode_hello bytes = Inr sample_hello"
    by (auto simp: sample_hello_def id_valid_def)
next
  have "grows (write_action (adm_action sample_dispatch)) 400 True"
    unfolding write_action_def write_authority_envelope_def sample_dispatch_def ContainmentAction_default_def
      AuthorityEnvelope_default_def ContainmentAction.simps AuthorityEnvelope.simps ActionDispatchMessage.simps
    by (rule grows_weaken, (rule grows_intros)+)
      (simp_all add: str_good_def kMaxStringBytes_def is_valid_utf8_def str_bytes_def)
  then have "grows (write_action_dispatch sample_dispatch) (400 + 0) (True \<and> True)"
    unfolding write_action_dispatch_def by (rule grows_Cons [OF _ grows_Nil])
  then have "grows (\<lambda>w. write_action_dispatch sample_dispatch (wr_u32 kProtocolFormatVersion w))
      (4 + (400 + 0)) (True \<and> (True \<and> True))"
    by (rule grows_comp [OF grows_u32])
  then have "bw_ok (write_action_dispatch sample_dispatch (wr_u32 kProtocolFormatVersion ByteWriter_default))"
    by (rule grows_ok) (simp_all add: kMaxDocumentBytes_def)
  then obtain bytes where sent: "encode_action_dispatch sample_dispatch = Inr bytes"
    unfolding encode_action_dispatch_def using message_encodes by blast
  have "canon_action (adm_action sample_dispatch)"
    by (simp add: sample_dispatch_def canon_action_def canon_authority_envelope_def ContainmentAction_default_def
        AuthorityEnvelope_default_def id_valid_def om_wf_def)
  with sent messages_roundtrip [where dispatch = sample_dispatch and bytes = bytes]
  show "\<exists>bytes. encode_action_dispatch sample_dispatch = Inr bytes \<and> decode_action_dispatch bytes = Inr sample_dispatch"
    by blast
next
  have "bw_ok (write_control_request sample_request (wr_u32 kProtocolFormatVersion ByteWriter_default))"
    by code_simp
  then obtain bytes where "encode_control_request sample_request = Inr bytes"
    by (auto simp: encode_control_request_def encode_message_def sample_request_def)
  with messages_roundtrip [where request = sample_request and bytes = bytes]
  show "\<exists>bytes. encode_control_request sample_request = Inr bytes \<and> decode_control_request bytes = Inr sample_request"
    by (auto simp: sample_request_def)
qed

lemma grows_empty_strings: "grows (fold wr_str (replicate n [])) (4 * int n) True"
proof (induction n)
  case (Suc n)
  have "grows (wr_str []) 4 True"
    using grows_str [of "[]"] by (simp add: str_good_def kMaxStringBytes_def is_valid_utf8_def str_bytes_def)
  from grows_fold_Cons [OF this Suc] show ?case by (simp add: algebra_simps comp_def)
next
  case 0
  show ?case by (simp add: grows_def)
qed

text \<open>A request that is \<open>n\<close> empty arguments long encodes, as long as it fits the document ceiling.\<close>

lemma empty_arguments_encode:
  assumes "n \<le> 1000000"
  shows "\<exists>bytes. encode_control_request \<lparr>crq_command = ''status'', crq_arguments = replicate n []\<rparr> = Inr bytes"
proof -
  let ?m = "\<lparr>crq_command = ''status'', crq_arguments = replicate n []\<rparr>"
  have good: "str_good ''status''" by code_simp
  have "grows (write_control_request ?m) (14 + 4 * int n) True"
    unfolding write_control_request_def ControlRequest.select_convs
    by (rule grows_weaken, (rule grows_Cons grows_Nil grows_str grows_many grows_empty_strings)+)
      (simp_all add: good)
  then have "grows (\<lambda>w. write_control_request ?m (wr_u32 kProtocolFormatVersion w)) (4 + (14 + 4 * int n)) (True \<and> True)"
    by (rule grows_comp [OF grows_u32])
  then have "bw_ok (write_control_request ?m (wr_u32 kProtocolFormatVersion ByteWriter_default))"
    by (rule grows_ok) (use assms in \<open>simp_all add: kMaxDocumentBytes_def\<close>)
  then show ?thesis by (simp add: encode_control_request_def encode_message_def)
qed

text \<open>
  A limit of the decoder is not one of the encoder: a control request with more than 1024
  arguments that fits into the writer is encoded without an error, and the receiver rejects it as a
  malformed message.
\<close>

theorem long_request_undecodable:
  assumes "encode_control_request m = Inr bytes"
    and "1024 < length (crq_arguments m)" and "length (crq_arguments m) \<le> 1048576"
  shows "decode_control_request bytes = Inl (malformed ''protocol.control_request'')"
proof -
  let ?v = "wr_u32 kProtocolFormatVersion ByteWriter_default" and ?args = "crq_arguments m"
  have ok: "bw_ok (write_control_request m ?v)" and bytes: "bytes = bw_buffer (write_control_request m ?v)"
    using encode_request_eq [OF assms(1)] by (auto simp: encode_message_def Let_def split: if_splits)
  note body = emitsD [OF rc_control_request.emits_rec ok]
  with emitsD [OF emits_u32, of kProtocolFormatVersion ByteWriter_default]
  have eq: "bytes = le_u32 kProtocolFormatVersion @ enc_str (crq_command m) @ le_u32 (of_nat (length ?args)) @
      concat (map enc_str ?args)" and good: "str_good (crq_command m)"
    by (simp_all add: bytes ByteWriter_default_def enc_control_request_def enc_many_def)
  have n: "unat (of_nat (length ?args) :: u32) = length ?args"
    using assms(3) by (intro unat_of_nat_u32 [of _ 1048576]) simp
  with assms(2) have big: "(1024 :: u32) < of_nat (length ?args)" by (simp add: word_less_nat_alt)
  have "run_state (rd_count 1024) (byte_reader (le_u32 (of_nat (length ?args)) @ rest)) =
      (0, (byte_reader rest)\<lparr>brd_ok := False\<rparr>)" for rest
    using big by (simp add: rd_count_def field_reads rd_reject_def)
  moreover have "run_state rd_ok ((byte_reader rest)\<lparr>brd_ok := False\<rparr>) = (False, (byte_reader rest)\<lparr>brd_ok := False\<rparr>)" for rest
    by (simp add: rd_ok_def)
  ultimately show ?thesis
    unfolding eq using good
    by (simp add: decode_control_request_def decode_message_def read_control_request_def field_reads str_reads rd_at_end_def)
qed

theorem long_request_undecodable_witness:
  "\<exists>bytes. encode_control_request \<lparr>crq_command = ''status'', crq_arguments = replicate 1025 []\<rparr> = Inr bytes \<and>
    decode_control_request bytes = Inl (malformed ''protocol.control_request'')"
proof -
  obtain bytes where "encode_control_request \<lparr>crq_command = ''status'', crq_arguments = replicate 1025 []\<rparr> = Inr bytes"
    using empty_arguments_encode [of 1025] by auto
  with long_request_undecodable [OF this] show ?thesis by auto
qed

end
