(* ===== verification/Fcf_Control.thy ===== *)
theory Fcf_Control
  imports Fcf_Engine_Release Fcf_Engine_Dispatch Fcf_Protocol
begin

text \<open>
  The control surface of the coordinator (\<open>src/coordinator.cpp\<close>, first half): parsing the arguments of a
  request and executing one command of the closed vocabulary against the runtime. A command that
  computes a blast radius or retries a publication is an option: \<open>None\<close> is a computation that does
  not return.
\<close>

section \<open>Arguments\<close>

text \<open>The digit loop is the one of \<open>parse_id\<close>.\<close>

definition parse_u64 :: "string \<Rightarrow> u64 option" where
  "parse_u64 text = (if text = [] then None else parse_digits text 0)"

definition parse_flag :: "string \<Rightarrow> bool option" where
  "parse_flag text =
     (if text = ''1'' \<or> text = ''true'' \<or> text = ''yes'' then Some True
      else if text = ''0'' \<or> text = ''false'' \<or> text = ''no'' then Some False
      else None)"

fun split_commas :: "string \<Rightarrow> string \<Rightarrow> string list" where
  "split_commas [] current = [current]"
| "split_commas (c # text) current =
     (if c = CHR '','' then current # split_commas text [] else split_commas text (current @ [c]))"

definition split_csv :: "string \<Rightarrow> string list" where
  "split_csv text = (if text = ''-'' \<or> text = [] then [] else split_commas text [])"

text \<open>\<open>kName\<close> is the name of the identity's domain.\<close>

definition parse_id_argument :: "string \<Rightarrow> string \<Rightarrow> 'tag Id option" where
  "parse_id_argument kName text =
     (if text = [] \<or> text = ''-'' \<or> text = ''0'' then Some id_invalid else parse_id kName text)"

abbreviation id_argument :: "string \<Rightarrow> string \<Rightarrow> 'tag Id option" where
  "id_argument \<equiv> parse_id_argument"

text \<open>The loop over the members of a domain.\<close>

fun parse_members :: "string list \<Rightarrow> ResourceId IdSet \<Rightarrow> ResourceId IdSet option" where
  "parse_members [] members = Some members"
| "parse_members (member # rest) members =
     (case id_argument ''ResourceId'' member of
        None \<Rightarrow> None
      | Some i \<Rightarrow> if \<not> id_valid i then None else parse_members rest (id_set_add members i))"

definition members_argument :: "string list \<Rightarrow> ResourceId IdSet option" where
  "members_argument args = (if 4 \<le> length args then parse_members (split_csv (args ! 3)) [] else Some [])"

section \<open>Responses\<close>

definition failure :: "ErrorCode \<Rightarrow> string \<Rightarrow> ControlResponse" where
  "failure code message = ControlResponse_default\<lparr>crs_ok := False, crs_code := code, crs_message := message\<rparr>"

definition success :: "string list \<Rightarrow> ControlResponse" where
  "success ls = ControlResponse_default\<lparr>crs_ok := True, crs_lines := ls\<rparr>"

text \<open>\<open>failure(error.code(), error.to_string())\<close> where the runtime answers with an error.\<close>

definition respond :: "('a \<Rightarrow> string list) \<Rightarrow> 'a Result \<Rightarrow> ControlResponse" where
  "respond ls result =
     (case result of Inl e \<Rightarrow> failure (err_code e) (Error_to_string e) | Inr x \<Rightarrow> success (ls x))"

abbreviation respond_with :: "('a \<Rightarrow> string list) \<Rightarrow> 'a Result \<times> Impl \<Rightarrow> ControlResponse \<times> Impl" where
  "respond_with ls \<equiv> map_prod (respond ls) id"

definition join_ids :: "ResourceId IdSet \<Rightarrow> string" where
  "join_ids ids = fold (\<lambda>i out. (if out \<noteq> [] then out @ '','' else out) @ str_ResourceId i) ids []"

definition flag_str :: "bool \<Rightarrow> string" where
  "flag_str b = (if b then ''1'' else ''0'')"

abbreviation count_str :: "'a list \<Rightarrow> string" where
  "count_str xs \<equiv> nat_to_string (length xs)"

definition explanation_str :: "ExplanationLine \<Rightarrow> string" where
  "explanation_str line = el_category line @ '' '' @ el_text line"

definition finding_str :: "string \<Rightarrow> VerificationFinding \<Rightarrow> string" where
  "finding_str label finding =
     label @ vf_check finding @ ''='' @ (if vf_passed finding then ''pass'' else ''fail'') @ '' '' @ vf_detail finding"

section \<open>Queries\<close>

definition status_command :: "Impl \<Rightarrow> ControlResponse" where
  "status_command s =
     (let status = query_system_status s in success ([
        ''epoch='' @ str_CoordinatorEpoch (sst_epoch status),
        ''topology_generation='' @ str_TopologyGeneration (sst_topology_generation status),
        ''policy_generation='' @ str_PolicyGeneration (sst_policy_generation status),
        ''containment_generation='' @ str_ContainmentGeneration (sst_containment_generation status),
        ''verification_generation='' @ str_VerificationGeneration (sst_verification_generation status),
        ''history_sequence='' @ id_to_string ''HistorySequence'' (sst_history_sequence status),
        ''resources='' @ nat_to_string (sst_resource_count status),
        ''dependencies='' @ nat_to_string (sst_dependency_count status),
        ''faults='' @ nat_to_string (sst_fault_count status),
        ''current_faults='' @ nat_to_string (sst_current_fault_count status),
        ''live_containments='' @ nat_to_string (sst_live_containment_count status),
        ''quarantined_resources='' @ nat_to_string (sst_quarantined_resource_count status),
        ''worker_incarnations='' @ nat_to_string (sst_worker_incarnation_count status),
        ''live_workers='' @ nat_to_string (sst_live_worker_count status),
        ''degraded_status='' @ DegradedModeStatus_str (sst_degraded_status status),
        ''durability_healthy='' @ flag_str (sst_durability_healthy status),
        ''recovery_incomplete='' @ flag_str (sst_recovery_incomplete status)] @
        map (\<lambda>note. ''note='' @ note) (sst_notes status)))"

definition control_faults :: "Impl \<Rightarrow> ControlResponse" where
  "control_faults s = success (map (\<lambda>(i, f).
     str_FaultId i @ '' kind='' @ FaultKind_str (fe_kind (fr_evidence f)) @
     '' state='' @ FaultState_str (fr_state f) @
     '' subject='' @ str_ResourceId (fe_subject (fr_evidence f)) @
     '' generation='' @ str_FaultGeneration (fe_generation (fr_evidence f)) @
     '' containment='' @ str_ContainmentGeneration (fr_containment_generation f) @
     '' duplicates='' @ nat_to_string (unat (fr_duplicate_count f))) (faults s))"

definition control_containments :: "Impl \<Rightarrow> ControlResponse" where
  "control_containments s = success (map (\<lambda>c.
     str_ContainmentGeneration (con_generation c) @ '' fault='' @ str_FaultId (con_fault c) @
     '' status='' @ ContainmentStatus_str (con_status c) @
     '' outcome='' @ ContainmentActionKind_str (con_outcome c) @
     '' mandatory='' @ count_str (con_mandatory c) @
     '' unaffected='' @ count_str (con_unaffected c) @
     '' unresolved='' @ count_str (con_unresolved c) @
     '' verified='' @ flag_str (con_verified c)) (list_containments s))"

definition control_workers :: "Impl \<Rightarrow> ControlResponse" where
  "control_workers s = success (map (\<lambda>(key, w).
     str_WorkerId (wk_worker key) @ '' boot='' @ str_WorkerBootId (wk_boot key) @
     '' incarnation='' @ str_WorkerIncarnation (wr_incarnation w) @
     '' state='' @ WorkerState_str (wr_state w) @
     '' freshness='' @ EvidenceFreshness_str (wr_freshness w) @
     '' authority='' @ join_ids (wr_live_authority w)) (incarnations s))"

definition control_history :: "string list \<Rightarrow> Impl \<Rightarrow> ControlResponse" where
  "control_history args s =
     (case (if 1 \<le> length args then parse_u64 (args ! 0) else Some 1) of
        None \<Rightarrow> failure ErrorCode.INVALID_ARGUMENT ''history: <from_sequence> must be numeric''
      | Some from_sequence \<Rightarrow>
          (case (if 2 \<le> length args then parse_u64 (args ! 1) else Some 200) of
             None \<Rightarrow> failure ErrorCode.INVALID_ARGUMENT ''history: <limit> must be numeric''
           | Some limit \<Rightarrow> success (map (\<lambda>e. id_to_string ''HistorySequence'' (he_sequence e) @ '' '' @
               HistoryEventType_str (he_type e) @ '' '' @ he_detail e)
               (query_history from_sequence (unat limit) s))))"

definition control_snapshot_info :: "Impl \<Rightarrow> ControlResponse" where
  "control_snapshot_info s =
     (let st = im_state s in success [
        ''epoch='' @ str_CoordinatorEpoch (rs_epoch st),
        ''resources='' @ count_str (resources s),
        ''domains='' @ count_str (tp_containment_domains (rs_topology st)),
        ''isolation_domains='' @ count_str (tp_isolation_domains (rs_topology st)),
        ''failure_domains='' @ count_str (tp_failure_domains (rs_topology st)),
        ''dependencies='' @ count_str (dg_edges (tp_dependencies (rs_topology st))),
        ''faults='' @ count_str (faults s),
        ''containments='' @ count_str (containments s),
        ''actions='' @ count_str (actions s),
        ''history_in_memory='' @ count_str (rs_history st),
        ''history_total='' @ nat_to_string (unat (rs_history_total st)),
        ''durability_healthy='' @ flag_str (im_durability_healthy s)])"

text \<open>The commands that take one identity and query by it.\<close>

definition control_query ::
    "string \<Rightarrow> string \<Rightarrow> string \<Rightarrow> ('tag Id \<Rightarrow> ControlResponse) \<Rightarrow> string list \<Rightarrow> ControlResponse" where
  "control_query usage kName bad run args =
     (if length args < 1 then failure ErrorCode.INVALID_ARGUMENT usage
      else
        (case id_argument kName (args ! 0) of
           None \<Rightarrow> failure ErrorCode.INVALID_ID bad
         | Some i \<Rightarrow> run i))"

definition containment_lines :: "ContainmentRecord \<Rightarrow> string list" where
  "containment_lines c = [
     ''generation='' @ str_ContainmentGeneration (con_generation c),
     ''status='' @ ContainmentStatus_str (con_status c),
     ''verified='' @ flag_str (con_verified c),
     ''verification_outcome='' @ VerificationOutcome_str (con_verification_outcome c),
     ''degraded_status='' @ DegradedModeStatus_str (con_degraded_status c),
     ''mandatory='' @ join_ids (con_mandatory c),
     ''unaffected='' @ join_ids (con_unaffected c),
     ''released='' @ join_ids (con_released c),
     ''action_count='' @ count_str (con_actions c)] @
     map (\<lambda>i. ''action='' @ str_ActionId i) (con_actions c)"

definition control_containment :: "string list \<Rightarrow> Impl \<Rightarrow> ControlResponse" where
  "control_containment args s =
     control_query ''containment <generation>'' ''ContainmentGeneration'' ''containment: bad generation''
       (\<lambda>g. respond containment_lines (query_containment g s)) args"

definition control_explain :: "string list \<Rightarrow> Impl \<Rightarrow> ControlResponse" where
  "control_explain args s =
     control_query ''explain <containment>'' ''ContainmentGeneration'' ''explain: bad generation''
       (\<lambda>g. respond (map explanation_str) (explain_containment g s)) args"

text \<open>The command checks the generation and dispatches nothing.\<close>

definition control_dispatch :: "string list \<Rightarrow> ControlResponse" where
  "control_dispatch args =
     control_query ''dispatch <containment>'' ''ContainmentGeneration'' ''dispatch: bad generation''
       (\<lambda>g :: ContainmentGeneration. success [''dispatch_requires_executor=1'']) args"

definition resource_lines :: "ResourceStatusView \<Rightarrow> string list" where
  "resource_lines view =
     (let r = rsv_resource view in [
        ''resource='' @ str_ResourceId (rr_id r),
        ''state='' @ ResourceOperationalState_str (rr_state r),
        ''generation='' @ str_ResourceGeneration (rr_generation r),
        ''quarantined='' @ flag_str (rsv_quarantined view),
        ''operable='' @ flag_str (rsv_operable view),
        ''contained='' @ flag_str (rsv_contained view),
        ''freshness='' @ EvidenceFreshness_str (rr_freshness r),
        ''mechanism='' @ ContainmentMechanism_str (rr_mechanism r),
        ''owner_boot='' @ str_WorkerBootId (rr_owner_boot r),
        ''containment='' @ str_ContainmentGeneration (rsv_containment_generation view)])"

definition control_resource :: "string list \<Rightarrow> Impl \<Rightarrow> ControlResponse" where
  "control_resource args s =
     control_query ''resource <id>'' ''ResourceId'' ''resource: bad identity''
       (\<lambda>i. respond resource_lines (query_resource_status i s)) args"

definition action_lines :: "ContainmentAction \<Rightarrow> string list" where
  "action_lines a = [
     ''action='' @ str_ActionId (act_id a),
     ''kind='' @ ContainmentActionKind_str (act_kind a),
     ''status='' @ ActionStatus_str (act_status a),
     ''target='' @ str_ResourceId (act_target a),
     ''rejection_code='' @ ErrorCode_str (act_rejection_code a),
     ''rejection_detail='' @ act_rejection_detail a]"

definition control_action :: "string list \<Rightarrow> Impl \<Rightarrow> ControlResponse" where
  "control_action args s =
     control_query ''action <id>'' ''ActionId'' ''action: bad identity''
       (\<lambda>i. respond action_lines (query_action i s)) args"

section \<open>Registration\<close>

abbreviation bad_argument :: "ErrorCode \<Rightarrow> string \<Rightarrow> Impl \<Rightarrow> ControlResponse \<times> Impl" where
  "bad_argument code message s \<equiv> (failure code message, s)"

definition control_register_domain :: "string list \<Rightarrow> Impl \<Rightarrow> ControlResponse \<times> Impl" where
  "control_register_domain args s =
     (if length args < 3 then
        bad_argument ErrorCode.INVALID_ARGUMENT ''register-domain <id> <name> <co_isolate> [members csv]'' s
      else
        (case id_argument ''ContainmentDomainId'' (args ! 0) of
           None \<Rightarrow> bad_argument ErrorCode.INVALID_ID ''register-domain: bad domain identity'' s
         | Some i \<Rightarrow>
             (case parse_flag (args ! 2) of
                None \<Rightarrow> bad_argument ErrorCode.INVALID_ARGUMENT ''register-domain: co_isolate must be 0 or 1'' s
              | Some co_isolate \<Rightarrow>
                  (case members_argument args of
                     None \<Rightarrow> bad_argument ErrorCode.INVALID_ID ''register-domain: bad member identity'' s
                   | Some members \<Rightarrow>
                       respond_with (\<lambda>d. [''containment_domain='' @ str_ContainmentDomainId (cd_id d)])
                         (register_domain (ContainmentDomain_default\<lparr>cd_id := i, cd_name := args ! 1,
                            cd_co_isolate_members := co_isolate, cd_members := members\<rparr>) s)))))"

definition control_register_isolation_domain :: "string list \<Rightarrow> Impl \<Rightarrow> ControlResponse \<times> Impl" where
  "control_register_isolation_domain args s =
     (if length args < 3 then
        bad_argument ErrorCode.INVALID_ARGUMENT
          ''register-isolation-domain <id> <name> <mechanism> [members csv]'' s
      else
        (case id_argument ''IsolationDomainId'' (args ! 0) of
           None \<Rightarrow> bad_argument ErrorCode.INVALID_ID ''register-isolation-domain: bad identity'' s
         | Some i \<Rightarrow>
             (case enum_parse ContainmentMechanism_values ContainmentMechanism_str (args ! 2) of
                None \<Rightarrow> bad_argument ErrorCode.INVALID_ARGUMENT ''register-isolation-domain: bad mechanism'' s
              | Some mechanism \<Rightarrow>
                  (case members_argument args of
                     None \<Rightarrow> bad_argument ErrorCode.INVALID_ID ''register-isolation-domain: bad member'' s
                   | Some members \<Rightarrow>
                       respond_with (\<lambda>d. [''isolation_domain='' @ str_IsolationDomainId (idm_id d)])
                         (register_isolation_domain (IsolationDomain_default\<lparr>idm_id := i, idm_name := args ! 1,
                            idm_mechanism := mechanism, idm_members := members\<rparr>) s)))))"

definition control_register_failure_domain :: "string list \<Rightarrow> Impl \<Rightarrow> ControlResponse \<times> Impl" where
  "control_register_failure_domain args s =
     (if length args < 3 then
        bad_argument ErrorCode.INVALID_ARGUMENT
          ''register-failure-domain <id> <name> <kind> [members csv]'' s
      else
        (case id_argument ''FailureDomainId'' (args ! 0) of
           None \<Rightarrow> bad_argument ErrorCode.INVALID_ID ''register-failure-domain: bad identity'' s
         | Some i \<Rightarrow>
             (case enum_parse FailureDomainKind_values FailureDomainKind_str (args ! 2) of
                None \<Rightarrow> bad_argument ErrorCode.INVALID_ARGUMENT ''register-failure-domain: bad kind'' s
              | Some kind \<Rightarrow>
                  (case members_argument args of
                     None \<Rightarrow> bad_argument ErrorCode.INVALID_ID ''register-failure-domain: bad member'' s
                   | Some members \<Rightarrow>
                       respond_with (\<lambda>d. [''failure_domain='' @ str_FailureDomainId (fd_id d)])
                         (register_failure_domain (FailureDomain_default\<lparr>fd_id := i, fd_name := args ! 1,
                            fd_kind := kind, fd_provenance := EvidenceProvenance.OPERATOR,
                            fd_freshness := EvidenceFreshness.FRESH, fd_members := members\<rparr>) s)))))"

definition stored_resource_lines :: "ResourceRecord \<Rightarrow> string list" where
  "stored_resource_lines r = [''resource='' @ str_ResourceId (rr_id r),
     ''resource_generation='' @ str_ResourceGeneration (rr_generation r)]"

definition control_register_resource :: "string list \<Rightarrow> Impl \<Rightarrow> ControlResponse \<times> Impl" where
  "control_register_resource args s =
     (if length args < 9 then
        bad_argument ErrorCode.INVALID_ARGUMENT
          (''register-resource <id> <name> <class> <protection> <cd> <idom> <fdom> '' @ ''<worker> <boot>'') s
      else
        (case id_argument ''ResourceId'' (args ! 0) of
           None \<Rightarrow> bad_argument ErrorCode.INVALID_ID ''register-resource: bad resource identity'' s
         | Some i \<Rightarrow>
             (case enum_parse ResourceClass_values ResourceClass_str (args ! 2) of
                None \<Rightarrow> bad_argument ErrorCode.INVALID_ARGUMENT ''register-resource: bad class'' s
              | Some cls \<Rightarrow>
                  (case enum_parse ProtectionClass_values ProtectionClass_str (args ! 3) of
                     None \<Rightarrow> bad_argument ErrorCode.INVALID_ARGUMENT ''register-resource: bad protection class'' s
                   | Some protection \<Rightarrow>
                       (case (id_argument ''ContainmentDomainId'' (args ! 4),
                              id_argument ''IsolationDomainId'' (args ! 5),
                              id_argument ''FailureDomainId'' (args ! 6),
                              id_argument ''WorkerId'' (args ! 7),
                              id_argument ''WorkerBootId'' (args ! 8)) of
                          (Some cd, Some idom, Some fdom, Some worker, Some boot) \<Rightarrow>
                            respond_with stored_resource_lines
                              (register_resource (ResourceRecord_default\<lparr>rr_id := i, rr_name := args ! 1,
                                 rr_resource_class := cls, rr_protection := protection,
                                 rr_containment_domain := cd, rr_isolation_domain := idom,
                                 rr_failure_domain := fdom, rr_owner_worker := worker, rr_owner_boot := boot,
                                 rr_state := ResourceOperationalState.UNKNOWN,
                                 rr_freshness := EvidenceFreshness.UNKNOWN\<rparr>) s)
                        | _ \<Rightarrow> bad_argument ErrorCode.INVALID_ID ''register-resource: bad identity argument'' s)))))"

definition control_set_resource_owner :: "string list \<Rightarrow> Impl \<Rightarrow> ControlResponse \<times> Impl" where
  "control_set_resource_owner args s =
     (if length args < 3 then
        bad_argument ErrorCode.INVALID_ARGUMENT ''set-resource-owner <resource> <worker> <boot>'' s
      else
        (case (id_argument ''ResourceId'' (args ! 0), id_argument ''WorkerId'' (args ! 1),
               id_argument ''WorkerBootId'' (args ! 2)) of
           (Some resource, Some worker, Some boot) \<Rightarrow>
             (case om_find (resources s) resource of
                None \<Rightarrow> bad_argument ErrorCode.UNKNOWN_RESOURCE ''set-resource-owner: unknown resource'' s
              | Some r \<Rightarrow>
                  respond_with stored_resource_lines
                    (update_resource (r\<lparr>rr_owner_worker := worker, rr_owner_boot := boot,
                       rr_state := ResourceOperationalState.ACTIVE, rr_freshness := EvidenceFreshness.FRESH,
                       rr_evidence_sequence := next_generation (rr_evidence_sequence r)\<rparr>) (rr_generation r) s))
         | _ \<Rightarrow> bad_argument ErrorCode.INVALID_ID ''set-resource-owner: bad identity argument'' s))"

definition control_register_dependency :: "string list \<Rightarrow> Impl \<Rightarrow> ControlResponse \<times> Impl" where
  "control_register_dependency args s =
     (if length args < 4 then
        bad_argument ErrorCode.INVALID_ARGUMENT
          ''register-dependency <id> <source> <destination> <kind> [conditional]'' s
      else
        (case (id_argument ''DependencyId'' (args ! 0), id_argument ''ResourceId'' (args ! 1),
               id_argument ''ResourceId'' (args ! 2)) of
           (Some i, Some source, Some destination) \<Rightarrow>
             (case enum_parse DependencyKind_values DependencyKind_str (args ! 3) of
                None \<Rightarrow> bad_argument ErrorCode.INVALID_ARGUMENT ''register-dependency: bad dependency kind'' s
              | Some kind \<Rightarrow>
                  (case (if 5 \<le> length args then parse_flag (args ! 4)
                         else Some (de_conditional DependencyEdge_default)) of
                     None \<Rightarrow> bad_argument ErrorCode.INVALID_ARGUMENT
                               ''register-dependency: conditional must be 0 or 1'' s
                   | Some conditional \<Rightarrow>
                       respond_with (\<lambda>e. [''dependency='' @ str_DependencyId (de_id e)])
                         (register_dependency (DependencyEdge_default\<lparr>de_id := i, de_source := source,
                            de_destination := destination, de_kind := kind, de_conditional := conditional,
                            de_provenance := EvidenceProvenance.OPERATOR, de_freshness := EvidenceFreshness.FRESH,
                            de_integrity := IntegrityStatus.VERIFIED, de_confidence_permille := 1000,
                            de_evidence_source := ''control-plane''\<rparr>) s)))
         | _ \<Rightarrow> bad_argument ErrorCode.INVALID_ID ''register-dependency: bad identity argument'' s))"

section \<open>Faults\<close>

text \<open>
  The retry of \<open>publish-fault\<close>: while the publication conflicts and no sequence was chosen yet, one above
  the highest recorded sequence of the subject and kind is tried. \<open>from_value\<close> of the wrapped sum is the
  invalid sequence.
\<close>

definition highest_sequence :: "FaultEvidence \<Rightarrow> Impl \<Rightarrow> u64" where
  "highest_sequence evidence s =
     fold (\<lambda>(_, f) highest.
       if fe_subject (fr_evidence f) = fe_subject evidence \<and> fe_kind (fr_evidence f) = fe_kind evidence
       then max highest (id_value (fe_observation_sequence (fr_evidence f))) else highest) (faults s) 0"

definition conflicting :: "'a Result \<Rightarrow> bool" where
  "conflicting published = (case published of Inl e \<Rightarrow> err_code e = ErrorCode.DUPLICATE_CONFLICT | Inr _ \<Rightarrow> False)"

partial_function (option) retry_publish ::
    "FaultEvidence \<Rightarrow> EvidenceSequence \<Rightarrow> (FaultRecord \<times> bool) Result \<Rightarrow> Impl \<Rightarrow>
     ((FaultRecord \<times> bool) Result \<times> Impl) option" where
  "retry_publish evidence sequence published s =
     (if conflicting published \<and> \<not> id_valid sequence then
        (let sequence = Id (highest_sequence evidence s + 1);
             evidence = evidence\<lparr>fe_observation_sequence := sequence\<rparr>;
             (published, s) = publish_fault evidence s
         in retry_publish evidence sequence published s)
      else Some (published, s))"

definition operator_evidence :: "FaultId \<Rightarrow> FaultKind \<Rightarrow> ResourceId \<Rightarrow> string \<Rightarrow> CoordinatorEpoch \<Rightarrow> FaultEvidence" where
  "operator_evidence i kind subject details epoch = FaultEvidence_default\<lparr>
     fe_id := i, fe_kind := kind, fe_subject := subject, fe_details := details,
     fe_reporter_kind := ReporterKind.OPERATOR, fe_epoch := epoch,
     fe_provenance := EvidenceProvenance.OPERATOR, fe_observation_sequence := Id 1,
     fe_publication_time_ms := 0, fe_freshness := EvidenceFreshness.FRESH,
     fe_integrity := IntegrityStatus.VERIFIED, fe_confidence_permille := 1000\<rparr>"

definition published_lines :: "FaultRecord \<times> bool \<Rightarrow> string list" where
  "published_lines p = (case p of (f, duplicate) \<Rightarrow> [
     ''fault='' @ str_FaultId (fe_id (fr_evidence f)),
     ''fault_generation='' @ str_FaultGeneration (fe_generation (fr_evidence f)),
     ''duplicate='' @ flag_str duplicate,
     ''state='' @ FaultState_str (fr_state f)])"

definition control_publish_fault :: "string list \<Rightarrow> Impl \<Rightarrow> (ControlResponse \<times> Impl) option" where
  "control_publish_fault args s =
     (if length args < 3 then
        Some (bad_argument ErrorCode.INVALID_ARGUMENT ''publish-fault <id> <kind> <subject> [details]'' s)
      else
        (case (id_argument ''FaultId'' (args ! 0), id_argument ''ResourceId'' (args ! 2)) of
           (Some i, Some subject) \<Rightarrow>
             (case enum_parse FaultKind_values FaultKind_str (args ! 1) of
                None \<Rightarrow> Some (bad_argument ErrorCode.INVALID_ARGUMENT ''publish-fault: bad fault kind'' s)
              | Some kind \<Rightarrow>
                  (let evidence = operator_evidence i kind subject (if 4 \<le> length args then args ! 3 else [])
                         (rs_epoch (im_state s));
                       (published, s) = publish_fault evidence s
                   in map_option (respond_with published_lines) (retry_publish evidence id_invalid published s)))
         | _ \<Rightarrow> Some (bad_argument ErrorCode.INVALID_ID ''publish-fault: bad identity argument'' s)))"

definition control_worker_lost :: "string list \<Rightarrow> Impl \<Rightarrow> (ControlResponse \<times> Impl) option" where
  "control_worker_lost args s =
     (if length args < 3 then
        Some (bad_argument ErrorCode.INVALID_ARGUMENT ''worker-lost <worker> <boot> <fault kind>'' s)
      else
        (case (id_argument ''WorkerId'' (args ! 0), id_argument ''WorkerBootId'' (args ! 1)) of
           (Some worker, Some boot) \<Rightarrow>
             (case enum_parse FaultKind_values FaultKind_str (args ! 2) of
                None \<Rightarrow> Some (bad_argument ErrorCode.INVALID_ARGUMENT ''worker-lost: bad fault kind'' s)
              | Some kind \<Rightarrow>
                  map_option (respond_with (\<lambda>c. [''containment='' @ str_ContainmentGeneration (con_generation c),
                      ''mandatory='' @ count_str (con_mandatory c)]))
                    (worker_authority_lost worker boot kind ''operator-observed authority loss'' 0 s))
         | _ \<Rightarrow> Some (bad_argument ErrorCode.INVALID_ID ''worker-lost: bad identity argument'' s)))"

definition radius_lines :: "BlastRadius \<Rightarrow> string list" where
  "radius_lines radius = [
     ''recommended='' @ ContainmentActionKind_str (br_recommended radius),
     ''mandatory='' @ join_ids (br_mandatory radius),
     ''precautionary='' @ join_ids (br_precautionary radius),
     ''unaffected='' @ join_ids (br_unaffected radius),
     ''unresolved='' @ join_ids (br_unresolved radius),
     ''hard_constraints_satisfied='' @ flag_str (br_hard_constraints_satisfied radius)] @
     map (\<lambda>line. ''explain '' @ explanation_str line) (br_explanation radius)"

text \<open>A command over one identity whose runtime operation changes the state or may not return.\<close>

definition control_operation ::
    "string \<Rightarrow> string \<Rightarrow> string \<Rightarrow> ('tag Id \<Rightarrow> Impl \<Rightarrow> (ControlResponse \<times> Impl) option) \<Rightarrow> string list \<Rightarrow> Impl \<Rightarrow>
     (ControlResponse \<times> Impl) option" where
  "control_operation usage kName bad run args s =
     (if length args < 1 then Some (bad_argument ErrorCode.INVALID_ARGUMENT usage s)
      else
        (case id_argument kName (args ! 0) of
           None \<Rightarrow> Some (bad_argument ErrorCode.INVALID_ID bad s)
         | Some i \<Rightarrow> run i s))"

definition control_evaluate :: "string list \<Rightarrow> Impl \<Rightarrow> (ControlResponse \<times> Impl) option" where
  "control_evaluate =
     control_operation ''evaluate <fault>'' ''FaultId'' ''evaluate: bad fault identity''
       (\<lambda>fault s. map_option (\<lambda>r. (respond radius_lines r, s)) (evaluate_containment fault id_invalid s))"

definition contain_lines :: "ContainmentRecord \<Rightarrow> string list" where
  "contain_lines c = [
     ''containment='' @ str_ContainmentGeneration (con_generation c),
     ''status='' @ ContainmentStatus_str (con_status c),
     ''outcome='' @ ContainmentActionKind_str (con_outcome c),
     ''mandatory='' @ join_ids (con_mandatory c),
     ''precautionary='' @ join_ids (con_precautionary c),
     ''unaffected='' @ join_ids (con_unaffected c),
     ''unresolved='' @ join_ids (con_unresolved c),
     ''action_count='' @ count_str (con_actions c)] @
     map (\<lambda>i. ''action='' @ str_ActionId i) (con_actions c)"

definition control_contain :: "string list \<Rightarrow> Impl \<Rightarrow> (ControlResponse \<times> Impl) option" where
  "control_contain =
     control_operation ''contain <fault>'' ''FaultId'' ''contain: bad fault identity''
       (\<lambda>fault s.
          (case query_fault fault s of
             Inl e \<Rightarrow> Some (bad_argument (err_code e) (Error_to_string e) s)
           | Inr f \<Rightarrow>
               map_option (respond_with contain_lines)
                 (authorize_containment fault (fe_generation (fr_evidence f)) s)))"

definition verification_lines :: "ContainmentVerification \<Rightarrow> string list" where
  "verification_lines v = [
     ''outcome='' @ VerificationOutcome_str (cv_outcome v),
     ''proven_contained='' @ count_str (cv_proven_contained v),
     ''unproven='' @ count_str (cv_unproven v),
     ''propagation_blocked='' @ flag_str (cv_propagation_blocked v),
     ''degraded_mode_valid='' @ flag_str (cv_degraded_mode_valid v),
     ''blast_radius_increased='' @ flag_str (cv_blast_radius_increased v),
     ''secondary_failure='' @ flag_str (cv_secondary_failure v),
     ''summary='' @ cv_summary v] @
     map (finding_str ''check '') (cv_findings v)"

definition control_verify :: "string list \<Rightarrow> Impl \<Rightarrow> (ControlResponse \<times> Impl) option" where
  "control_verify =
     control_operation ''verify <containment>'' ''ContainmentGeneration'' ''verify: bad generation''
       (\<lambda>generation s. map_option (respond_with verification_lines) (verify_containment generation s))"

section \<open>Degraded operation and release\<close>

definition degraded_lines :: "DegradedModeAssessment \<Rightarrow> string list" where
  "degraded_lines a = [
     ''status='' @ DegradedModeStatus_str (dma_status a),
     ''permitted='' @ join_ids (dma_permitted a),
     ''prohibited='' @ join_ids (dma_prohibited a),
     ''revalidation_required='' @ join_ids (dma_revalidation_required a),
     ''capacity_percent='' @ nat_to_string (unat (dma_available_capacity_percent a)),
     ''contract='' @ str_DegradedModeId (dma_contract a)]"

definition control_degraded :: "string list \<Rightarrow> Impl \<Rightarrow> (ControlResponse \<times> Impl) option" where
  "control_degraded =
     control_operation ''degraded <containment>'' ''ContainmentGeneration'' ''degraded: bad generation''
       (\<lambda>generation s.
          (case query_containment generation s of
             Inl e \<Rightarrow> Some (bad_argument (err_code e) (Error_to_string e) s)
           | Inr _ \<Rightarrow>
               Some (respond_with degraded_lines
                 (authorize_degraded_mode (DegradedModeContract_default\<lparr>
                    dmc_name := ''auto/'' @ str_ContainmentGeneration generation,
                    dmc_containment_generation := generation\<rparr>) s))))"

definition release_lines :: "ReleaseAssessment \<Rightarrow> string list" where
  "release_lines a = [
     ''decision='' @ ReleaseDecision_str (rel_decision a),
     ''granted='' @ flag_str (rel_granted a),
     ''release_generation='' @ str_ReleaseGeneration (rel_generation a),
     ''summary='' @ rel_summary a] @
     map (finding_str ''criterion '') (rel_criteria a)"

definition control_release :: "string list \<Rightarrow> Impl \<Rightarrow> ControlResponse \<times> Impl" where
  "control_release args s =
     (if length args < 3 then
        bad_argument ErrorCode.INVALID_ARGUMENT ''release <resource> <containment> <authority>'' s
      else
        (case (id_argument ''ResourceId'' (args ! 0), id_argument ''ContainmentGeneration'' (args ! 1)) of
           (Some resource, Some generation) \<Rightarrow>
             (let request = ReleaseRequest_default\<lparr>rlr_resource := resource,
                    rlr_containment_generation := generation, rlr_authority := args ! 2,
                    rlr_epoch := rs_epoch (im_state s)\<rparr>;
                  request = (case om_find (resources s) resource of
                    None \<Rightarrow> request
                  | Some r \<Rightarrow> request\<lparr>rlr_expected_generation := rr_generation r,
                                      rlr_evidence_sequence := rr_evidence_sequence r\<rparr>)
              in respond_with release_lines (authorize_release request s))
         | _ \<Rightarrow> bad_argument ErrorCode.INVALID_ID ''release: bad identity argument'' s))"

section \<open>The command table\<close>

definition execute_engine_control :: "ControlRequest \<Rightarrow> Impl \<Rightarrow> (ControlResponse \<times> Impl) option" where
  "execute_engine_control request s =
     (let command = crq_command request; args = crq_arguments request in
      if command = ''status'' then Some (status_command s, s)
      else if command = ''faults'' then Some (control_faults s, s)
      else if command = ''containments'' then Some (control_containments s, s)
      else if command = ''workers'' then Some (control_workers s, s)
      else if command = ''history'' then Some (control_history args s, s)
      else if command = ''register-domain'' then Some (control_register_domain args s)
      else if command = ''register-isolation-domain'' then Some (control_register_isolation_domain args s)
      else if command = ''register-failure-domain'' then Some (control_register_failure_domain args s)
      else if command = ''register-resource'' then Some (control_register_resource args s)
      else if command = ''set-resource-owner'' then Some (control_set_resource_owner args s)
      else if command = ''register-dependency'' then Some (control_register_dependency args s)
      else if command = ''publish-fault'' then control_publish_fault args s
      else if command = ''worker-lost'' then control_worker_lost args s
      else if command = ''evaluate'' then control_evaluate args s
      else if command = ''contain'' then control_contain args s
      else if command = ''containment'' then Some (control_containment args s, s)
      else if command = ''explain'' then Some (control_explain args s, s)
      else if command = ''dispatch'' then Some (control_dispatch args, s)
      else if command = ''verify'' then control_verify args s
      else if command = ''resource'' then Some (control_resource args s, s)
      else if command = ''action'' then Some (control_action args s, s)
      else if command = ''degraded'' then control_degraded args s
      else if command = ''release'' then Some (control_release args s)
      else if command = ''snapshot-info'' then Some (control_snapshot_info s, s)
      else if command = ''shutdown'' then Some (success [''shutdown=accepted''], s)
      else Some (failure ErrorCode.NOT_FOUND (''unknown control command: '' @ command), s))"

end
