(* ===== verification/Fcf_Coordinator.thy ===== *)
theory Fcf_Coordinator
  imports Fcf_Control Fcf_Engine_Recovery
begin

text \<open>
  The coordinator service (\<open>include/fcf/coordinator.hpp\<close>, \<open>src/coordinator.cpp\<close>, second half): the handler
  of a frame, the executor that dispatches over the peers' sockets, and the end of a connection. A
  socket is a number; what \<open>send\<close> answers on it is a parameter, and every frame whose sending was
  attempted is logged with its outcome. A handler runs as one step; the locks of the code are per
  runtime operation, so other handlers may run between the operations of one.
\<close>

section \<open>State\<close>

text \<open>The local variables of the thread that serves a connection.\<close>

record Connection =
  cn_worker :: WorkerId
  cn_boot :: WorkerBootId
  cn_hello_done :: bool

definition Connection_default :: Connection where
  "Connection_default = \<lparr>cn_worker = id_invalid, cn_boot = id_invalid, cn_hello_done = False\<rparr>"

type_synonym Sent = "nat \<times> MessageKind \<times> u8 list \<times> Status"

record Coordinator =
  co_engine :: Impl
  co_stopped :: bool
  co_max_connections :: nat
  co_active_connections :: nat
  co_live_sockets :: "nat list"
  co_peer_sockets :: "(WorkerBootId, nat) omap"
  co_shutdown_requested :: bool
  co_connections :: "(nat, Connection) omap"
  co_sent :: "Sent list"

text \<open>The sockets and what \<open>send\<close> returns for a payload on each of them.\<close>

record Network =
  nw_socket :: "nat \<Rightarrow> Socket"
  nw_written :: "nat \<Rightarrow> u8 list \<Rightarrow> nat \<Rightarrow> int"

definition transmit :: "Network \<Rightarrow> nat \<Rightarrow> MessageKind \<Rightarrow> u8 list \<Rightarrow> Status" where
  "transmit net socket kind payload = fst (send_frame (nw_written net socket payload) kind payload (nw_socket net socket))"

definition post :: "Network \<Rightarrow> nat \<Rightarrow> MessageKind \<Rightarrow> u8 list \<Rightarrow> Coordinator \<Rightarrow> Status \<times> Coordinator" where
  "post net socket kind payload co =
     (let status = transmit net socket kind payload
      in (status, co\<lparr>co_sent := co_sent co @ [(socket, kind, payload, status)]\<rparr>))"

definition reject :: "Network \<Rightarrow> nat \<Rightarrow> ErrorCode \<Rightarrow> string \<Rightarrow> Coordinator \<Rightarrow> Coordinator" where
  "reject net socket code detail co =
     (case encode_reject \<lparr>rj_code = code, rj_detail = detail\<rparr> of
        Inl _ \<Rightarrow> co
      | Inr payload \<Rightarrow> snd (post net socket MessageKind.REJECT payload co))"

abbreviation reject_error :: "Network \<Rightarrow> nat \<Rightarrow> Error \<Rightarrow> Coordinator \<Rightarrow> Coordinator" where
  "reject_error net socket e \<equiv> reject net socket (err_code e) (Error_to_string e)"

abbreviation upd_engine :: "Impl \<Rightarrow> Coordinator \<Rightarrow> Coordinator" where
  "upd_engine s co \<equiv> co\<lparr>co_engine := s\<rparr>"

section \<open>Dispatch over the peers\<close>

definition dead_owner :: "RuntimeSnapshot \<Rightarrow> AuthorityEnvelope \<Rightarrow> bool" where
  "dead_owner snapshot envelope \<longleftrightarrow>
     (case om_find (tp_resources (rs_topology snapshot)) (env_target envelope) of
        None \<Rightarrow> False | Some r \<Rightarrow> rr_owner_boot r = env_worker_boot envelope) \<and>
     (case om_find (wreg_incarnations (rs_workers snapshot)) (WorkerKey (env_worker envelope) (env_worker_boot envelope)) of
        None \<Rightarrow> False | Some w \<Rightarrow> \<not> holds_live_authority (wr_state w))"

text \<open>The answer of the executor and the frame it tried to send.\<close>

definition socket_dispatch ::
    "Network \<Rightarrow> (WorkerBootId, nat) omap \<Rightarrow> RuntimeSnapshot \<Rightarrow> ContainmentAction \<Rightarrow> string Result \<times> Sent list" where
  "socket_dispatch net peers snapshot action =
     (let boot = env_worker_boot (act_envelope action) in
      if \<not> id_valid boot then (Inr (''coordinator:logical:'' @ str_ActionId (act_id action)), [])
      else
        (case om_find peers boot of
           None \<Rightarrow>
             if dead_owner snapshot (act_envelope action) then
               (Inr (''coordinator:dead-incarnation:'' @ str_ActionId (act_id action)), [])
             else
               (fail ErrorCode.EXECUTOR_UNAVAILABLE ''coordinator.dispatch''
                  ''no live connection for the target worker incarnation'' (str_WorkerBootId boot), [])
         | Some peer \<Rightarrow>
             (case encode_action_dispatch \<lparr>adm_action = action\<rparr> of
                Inl e \<Rightarrow> (Inl e, [])
              | Inr payload \<Rightarrow>
                  (let sent = transmit net peer MessageKind.ACTION_DISPATCH payload;
                       log = [(peer, MessageKind.ACTION_DISPATCH, payload, sent)]
                   in case sent of
                        Inl e \<Rightarrow> (Inl e, log)
                      | Inr _ \<Rightarrow> (Inr (''peer:'' @ str_WorkerBootId boot), log)))))"

text \<open>
  The executor is called between the two locked parts of the dispatch and takes its own snapshot
  there; the actions it is called for are the ones that the first part authorised.
\<close>

definition dispatch_over_peers ::
    "Network \<Rightarrow> ContainmentGeneration \<Rightarrow> Coordinator \<Rightarrow> DispatchSummary Result \<times> Coordinator" where
  "dispatch_over_peers net generation co =
     (case dispatch_begin_locked generation True (co_engine co) of (begun, s) \<Rightarrow>
       (let snapshot = im_state (snd (flush s));
            executor = socket_dispatch net (co_peer_sockets co) snapshot;
            frames = (case begun of Inl _ \<Rightarrow> [] | Inr (_, to_dispatch) \<Rightarrow> concat (map (snd \<circ> executor) to_dispatch));
            (result, s) = dispatch_containment generation (Some (fst \<circ> executor)) (co_engine co)
        in (result, co\<lparr>co_engine := s, co_sent := co_sent co @ frames\<rparr>)))"

text \<open>What the coordinator enforces itself; \<open>None\<close> for an action that a live peer reports on.\<close>

definition own_mechanism :: "RuntimeSnapshot \<Rightarrow> ContainmentAction \<Rightarrow> ContainmentMechanism option" where
  "own_mechanism snapshot action =
     (let envelope = act_envelope action in
      if \<not> id_valid (env_worker_boot envelope) then Some ContainmentMechanism.LOGICAL_CONTAINMENT
      else
        (case om_find (wreg_incarnations (rs_workers snapshot))
                (WorkerKey (env_worker envelope) (env_worker_boot envelope)) of
           None \<Rightarrow> None
         | Some w \<Rightarrow> if holds_live_authority (wr_state w) then None
                     else Some ContainmentMechanism.PROCESS_CONTAINMENT))"

definition settle_action :: "RuntimeSnapshot \<Rightarrow> ActionId \<Rightarrow> Impl \<Rightarrow> Impl" where
  "settle_action snapshot i s =
     (case om_find (rs_actions snapshot) i of
        None \<Rightarrow> s
      | Some action \<Rightarrow>
          (case own_mechanism snapshot action of
             None \<Rightarrow> s
           | Some mechanism \<Rightarrow>
               (let ack = ActionAcknowledgment_default\<lparr>ack_action := i,
                      ack_action_generation := act_generation action, ack_epoch := rs_epoch (im_state s),
                      ack_accepted := True, ack_executor_token := ''coordinator:enforcement'',
                      ack_detail := ''containment enforced by the coordinator''\<rparr>;
                    s = snd (record_action_ack ack s);
                    result = ActionResult_default\<lparr>ares_action := i,
                      ares_action_generation := act_generation action, ares_epoch := rs_epoch (im_state s),
                      ares_success := True, ares_mechanism := mechanism,
                      ares_detail := (if mechanism = ContainmentMechanism.PROCESS_CONTAINMENT
                        then ''the owning process was observed dead and its authority revoked''
                        else ''authority revoked and admission disabled by the coordinator'')\<rparr>
                in snd (record_action_result result s))))"

definition dispatch_and_settle :: "Network \<Rightarrow> ContainmentGeneration \<Rightarrow> Coordinator \<Rightarrow> Coordinator" where
  "dispatch_and_settle net generation co =
     (case dispatch_over_peers net generation co of
        (Inl _, co) \<Rightarrow> co
      | (Inr summary, co) \<Rightarrow>
          (let snapshot = im_state (co_engine co) in
           if om_find (rs_containments snapshot) generation = None then co
           else upd_engine (for_each (dsp_dispatched summary) (settle_action snapshot) (co_engine co)) co))"

section \<open>Control requests\<close>

fun poll_peers :: "Network \<Rightarrow> nat list \<Rightarrow> nat \<Rightarrow> Coordinator \<Rightarrow> nat \<times> Coordinator" where
  "poll_peers net [] sent co = (sent, co)"
| "poll_peers net (peer # peers) sent co =
     (case post net peer MessageKind.QUERY_REQUEST [] co of
        (Inl _, co) \<Rightarrow> poll_peers net peers sent co
      | (Inr _, co) \<Rightarrow> poll_peers net peers (sent + 1) co)"

definition execute :: "Network \<Rightarrow> ControlRequest \<Rightarrow> Coordinator \<Rightarrow> (ControlResponse \<times> Coordinator) option" where
  "execute net request co =
     (if crq_command request = ''shutdown'' then
        Some (success [''shutdown=accepted''], co\<lparr>co_shutdown_requested := True\<rparr>)
      else if crq_command request = ''poll-workers'' then
        (case poll_peers net (map snd (co_peer_sockets co)) 0 co of (sent, co) \<Rightarrow>
           Some (success [''polled='' @ nat_to_string sent], co))
      else
        map_option (map_prod id (\<lambda>s. upd_engine s co)) (execute_engine_control request (co_engine co)))"

section \<open>Frames of a connection\<close>

definition HelloAckMessage_default :: HelloAckMessage where
  "HelloAckMessage_default = \<lparr>ha_accepted = False, ha_epoch = id_invalid, ha_incarnation = id_invalid, ha_detail = []\<rparr>"

definition WorkerEvidenceAck_default :: WorkerEvidenceAck where
  "WorkerEvidenceAck_default = \<lparr>wea_granted = False, wea_fenced = False, wea_generation = id_invalid, wea_detail = []\<rparr>"

definition handle_hello ::
    "Network \<Rightarrow> nat \<Rightarrow> u8 list \<Rightarrow> Connection \<Rightarrow> Coordinator \<Rightarrow> Connection \<times> Coordinator" where
  "handle_hello net socket payload cn co =
     (case decode_hello payload of
        Inl e \<Rightarrow> (cn, reject_error net socket e co)
      | Inr hello \<Rightarrow>
          (case register_worker (hm_worker hello) (hm_boot hello) (hm_endpoint hello) (hm_sequence hello)
                  (co_engine co) of (registered, s) \<Rightarrow>
            (let (ack, cn, co) =
                   (case registered of
                      Inl e \<Rightarrow> (HelloAckMessage_default\<lparr>ha_accepted := False, ha_detail := Error_to_string e\<rparr>,
                                cn, upd_engine s co)
                    | Inr w \<Rightarrow> (\<lparr>ha_accepted = True, ha_epoch = rs_epoch (im_state s),
                                 ha_incarnation = wr_incarnation w, ha_detail = ''registered''\<rparr>,
                                \<lparr>cn_worker = hm_worker hello, cn_boot = hm_boot hello, cn_hello_done = True\<rparr>,
                                co\<lparr>co_engine := s,
                                   co_peer_sockets := om_put (hm_boot hello) socket (co_peer_sockets co)\<rparr>))
             in case encode_hello_ack ack of
                  Inl e \<Rightarrow> (cn, reject_error net socket e co)
                | Inr reply \<Rightarrow> (cn, snd (post net socket MessageKind.HELLO_ACK reply co)))))"

text \<open>Evidence for a resource under containment is recorded without granting authority.\<close>

definition fenced_evidence :: "Network \<Rightarrow> nat \<Rightarrow> WorkerEvidenceMessage \<Rightarrow> Coordinator \<Rightarrow> Coordinator" where
  "fenced_evidence net socket ev co =
     (case publish_resource_evidence (we_resource ev) id_invalid (we_freshness ev) (we_sequence ev)
             (we_mechanism ev) (''worker '' @ str_WorkerBootId (we_boot ev)) (co_engine co) of (published, s) \<Rightarrow>
       (let ack = \<lparr>wea_granted = False, wea_fenced = True,
              wea_generation = (case published of Inl _ \<Rightarrow> id_invalid | Inr r \<Rightarrow> rr_generation r),
              wea_detail = ''resource is under containment; evidence recorded without granting authority''\<rparr>;
            co = upd_engine s co
        in case encode_worker_evidence_ack ack of
             Inl _ \<Rightarrow> co
           | Inr reply \<Rightarrow> snd (post net socket MessageKind.WORKER_EVIDENCE_ACK reply co)))"

text \<open>Any other resource is handed to the reporting incarnation.\<close>

definition grant_evidence ::
    "Network \<Rightarrow> nat \<Rightarrow> WorkerEvidenceMessage \<Rightarrow> ResourceRecord \<Rightarrow> Coordinator \<Rightarrow> Coordinator" where
  "grant_evidence net socket ev r co =
     (case update_resource (r\<lparr>rr_owner_worker := we_worker ev, rr_owner_boot := we_boot ev,
             rr_state := ResourceOperationalState.ACTIVE\<rparr>) (rr_generation r) (co_engine co) of
        (Inl e, s) \<Rightarrow> reject_error net socket e (upd_engine s co)
      | (Inr updated, s) \<Rightarrow>
          (case publish_resource_evidence (we_resource ev) (rr_generation updated) EvidenceFreshness.FRESH
                  (we_sequence ev) (we_mechanism ev) (''worker '' @ str_WorkerBootId (we_boot ev)) s of
             (Inl e, s) \<Rightarrow> reject_error net socket e (upd_engine s co)
           | (Inr published, s) \<Rightarrow>
               (let ack = \<lparr>wea_granted = True, wea_fenced = False, wea_generation = rr_generation published,
                      wea_detail = ''evidence accepted and authority granted''\<rparr>;
                    co = upd_engine s co
                in case encode_worker_evidence_ack ack of
                     Inl e \<Rightarrow> reject_error net socket e co
                   | Inr reply \<Rightarrow> snd (post net socket MessageKind.WORKER_EVIDENCE_ACK reply co))))"

definition handle_evidence :: "Network \<Rightarrow> nat \<Rightarrow> u8 list \<Rightarrow> Connection \<Rightarrow> Coordinator \<Rightarrow> Coordinator" where
  "handle_evidence net socket payload cn co =
     (case decode_worker_evidence payload of
        Inl e \<Rightarrow> reject_error net socket e co
      | Inr ev \<Rightarrow>
          if \<not> cn_hello_done cn \<or> we_boot ev \<noteq> cn_boot cn then
            reject net socket ErrorCode.STALE_WORKER_BOOT
              ''evidence for an incarnation that did not complete the handshake'' co
          else if we_epoch ev \<noteq> rs_epoch (im_state (co_engine co)) then
            reject net socket ErrorCode.STALE_EPOCH ''stale coordinator epoch'' co
          else
            (case om_find (resources (co_engine co)) (we_resource ev) of
               None \<Rightarrow> reject net socket ErrorCode.UNKNOWN_RESOURCE ''unknown resource'' co
             | Some r \<Rightarrow>
                 if id_valid (we_generation ev) \<and> we_generation ev \<noteq> rr_generation r then
                   reject net socket ErrorCode.STALE_RESOURCE_GENERATION
                     ''evidence targets a superseded resource generation'' co
                 else if rr_quarantined r \<or> is_contained (rr_state r) then fenced_evidence net socket ev co
                 else grant_evidence net socket ev r co))"

definition handle_fault_report ::
    "Network \<Rightarrow> nat \<Rightarrow> u8 list \<Rightarrow> Connection \<Rightarrow> Coordinator \<Rightarrow> Coordinator option" where
  "handle_fault_report net socket payload cn co =
     (case decode_fault_report payload of
        Inl e \<Rightarrow> Some (reject_error net socket e co)
      | Inr report \<Rightarrow>
          if \<not> cn_hello_done cn \<or> frp_boot report \<noteq> cn_boot cn then
            Some (reject net socket ErrorCode.STALE_WORKER_BOOT ''fault report from an unhandshaken incarnation'' co)
          else
            (case publish_fault ((frp_evidence report)\<lparr>fe_reporter_kind := ReporterKind.WORKER,
                    fe_reporter_worker := frp_worker report, fe_reporter_boot := frp_boot report\<rparr>)
                    (co_engine co) of
               (Inl e, s) \<Rightarrow> Some (reject_error net socket e (upd_engine s co))
             | (Inr (f, duplicate), s) \<Rightarrow>
                 if duplicate \<or> \<not> is_fault_current (fr_state f) then Some (upd_engine s co)
                 else
                   (case authorize_containment (fe_id (fr_evidence f)) (fe_generation (fr_evidence f)) s of
                      None \<Rightarrow> None
                    | Some (Inl _, s) \<Rightarrow> Some (upd_engine s co)
                    | Some (Inr c, s) \<Rightarrow> Some (dispatch_and_settle net (con_generation c) (upd_engine s co)))))"

definition handle_ack :: "Network \<Rightarrow> nat \<Rightarrow> u8 list \<Rightarrow> Connection \<Rightarrow> Coordinator \<Rightarrow> Coordinator" where
  "handle_ack net socket payload cn co =
     (case decode_action_ack payload of
        Inl e \<Rightarrow> reject_error net socket e co
      | Inr ack \<Rightarrow>
          if \<not> cn_hello_done cn then
            reject net socket ErrorCode.STALE_WORKER_BOOT ''acknowledgment from an unhandshaken connection'' co
          else
            (case record_action_ack ack (co_engine co) of
               (Inl e, s) \<Rightarrow> reject_error net socket e (upd_engine s co)
             | (Inr _, s) \<Rightarrow> upd_engine s co))"

definition handle_result :: "Network \<Rightarrow> nat \<Rightarrow> u8 list \<Rightarrow> Connection \<Rightarrow> Coordinator \<Rightarrow> Coordinator" where
  "handle_result net socket payload cn co =
     (case decode_action_result payload of
        Inl e \<Rightarrow> reject_error net socket e co
      | Inr result \<Rightarrow>
          if \<not> cn_hello_done cn then
            reject net socket ErrorCode.STALE_WORKER_BOOT ''result from an unhandshaken connection'' co
          else
            (case record_action_result result (co_engine co) of
               (Inl e, s) \<Rightarrow> reject_error net socket e (upd_engine s co)
             | (Inr _, s) \<Rightarrow> upd_engine s co))"

definition handle_control :: "Network \<Rightarrow> nat \<Rightarrow> u8 list \<Rightarrow> Coordinator \<Rightarrow> Coordinator option" where
  "handle_control net socket payload co =
     (case decode_control_request payload of
        Inl e \<Rightarrow> Some (reject_error net socket e co)
      | Inr request \<Rightarrow>
          (case execute net request co of
             None \<Rightarrow> None
           | Some (response, co) \<Rightarrow>
               Some (case encode_control_response response of
                  Inl e \<Rightarrow> reject_error net socket e co
                | Inr reply \<Rightarrow> snd (post net socket MessageKind.CONTROL_RESPONSE reply co))))"

definition handle_frame ::
    "Network \<Rightarrow> nat \<Rightarrow> Frame \<Rightarrow> Connection \<Rightarrow> Coordinator \<Rightarrow> (Connection \<times> Coordinator) option" where
  "handle_frame net socket fm cn co =
     (case fm_kind fm of
        MessageKind.HELLO \<Rightarrow> Some (handle_hello net socket (fm_payload fm) cn co)
      | MessageKind.WORKER_EVIDENCE \<Rightarrow> Some (cn, handle_evidence net socket (fm_payload fm) cn co)
      | MessageKind.HEARTBEAT \<Rightarrow> Some (cn, co)
      | MessageKind.FAULT_REPORT \<Rightarrow> map_option (Pair cn) (handle_fault_report net socket (fm_payload fm) cn co)
      | MessageKind.ACTION_ACK \<Rightarrow> Some (cn, handle_ack net socket (fm_payload fm) cn co)
      | MessageKind.ACTION_RESULT \<Rightarrow> Some (cn, handle_result net socket (fm_payload fm) cn co)
      | MessageKind.CONTROL_REQUEST \<Rightarrow> map_option (Pair cn) (handle_control net socket (fm_payload fm) co)
      | MessageKind.REJECT \<Rightarrow>
          Some (cn, reject net socket ErrorCode.FRAME_CORRUPT ''message kind is not valid from a peer'' co)
      | MessageKind.ACTION_DISPATCH \<Rightarrow>
          Some (cn, reject net socket ErrorCode.FRAME_CORRUPT ''message kind is not valid from a peer'' co)
      | _ \<Rightarrow> Some (cn, reject net socket ErrorCode.FRAME_CORRUPT ''message kind is not valid in this direction'' co))"

section \<open>Connections\<close>

text \<open>A new connection is closed at once when the coordinator stopped or is full.\<close>

definition accept_connection :: "nat \<Rightarrow> Coordinator \<Rightarrow> Coordinator" where
  "accept_connection socket co =
     (if co_stopped co \<or> co_active_connections co \<ge> co_max_connections co then co
      else co\<lparr>co_active_connections := co_active_connections co + 1,
              co_live_sockets := co_live_sockets co @ [socket],
              co_connections := om_put socket Connection_default (co_connections co)\<rparr>)"

text \<open>The end of \<open>serve\<close>: the registrations go, and a handshaken incarnation has lost its authority.\<close>

definition end_connection :: "Network \<Rightarrow> nat \<Rightarrow> Connection \<Rightarrow> Coordinator \<Rightarrow> Coordinator option" where
  "end_connection net socket cn co =
     (let co = co\<lparr>co_peer_sockets := (if cn_hello_done cn then om_erase (cn_boot cn) (co_peer_sockets co)
                                      else co_peer_sockets co),
                  co_live_sockets := remove1 socket (co_live_sockets co),
                  co_active_connections := co_active_connections co - 1,
                  co_connections := om_erase socket (co_connections co)\<rparr>
      in if \<not> cn_hello_done cn then Some co
         else
           (case worker_authority_lost (cn_worker cn) (cn_boot cn) FaultKind.PROCESS_DEATH
                   ''worker connection closed without graceful retirement'' 0 (co_engine co) of
              None \<Rightarrow> None
            | Some (Inl _, s) \<Rightarrow> Some (upd_engine s co)
            | Some (Inr c, s) \<Rightarrow> Some (dispatch_and_settle net (con_generation c) (upd_engine s co))))"

fun serve_frames ::
    "Network \<Rightarrow> nat \<Rightarrow> Frame list \<Rightarrow> Connection \<Rightarrow> Coordinator \<Rightarrow> (Connection \<times> Coordinator) option" where
  "serve_frames net socket [] cn co = Some (cn, co)"
| "serve_frames net socket (fm # fms) cn co =
     (case handle_frame net socket fm cn co of
        None \<Rightarrow> None
      | Some (cn, co) \<Rightarrow> serve_frames net socket fms cn co)"

text \<open>One connection from its first frame to its end, over what arrives on its socket.\<close>

definition serve_connection :: "Network \<Rightarrow> nat \<Rightarrow> Received list \<Rightarrow> Coordinator \<Rightarrow> Coordinator option" where
  "serve_connection net socket arrivals co =
     (case serve_frames net socket (fst (receive_frames arrivals (nw_socket net socket))) Connection_default co of
        None \<Rightarrow> None
      | Some (cn, co) \<Rightarrow> end_connection net socket cn co)"

section \<open>Start and stop\<close>

text \<open>
  \<open>ready\<close> and \<open>bound\<close> are what initialising the network and binding the listener answer; \<open>store\<close> is the
  configured durable store with what reading it recovers.
\<close>

definition start_coordinator ::
    "Status \<Rightarrow> Status \<Rightarrow> Config \<Rightarrow> (DurableStore \<times> Recovery Result) option \<Rightarrow> u64 \<Rightarrow> nat \<Rightarrow> Coordinator Result" where
  "start_coordinator ready bound config store now_ms max_connections =
     (case ready of
        Inl e \<Rightarrow> Inl e
      | Inr _ \<Rightarrow>
          (case (case store of
                   None \<Rightarrow> (ok_status, Engine_construct config)
                 | Some (ds, recovered) \<Rightarrow>
                     (case attach_store (Some ds) False (Engine_construct config) of
                        (Inl e, s) \<Rightarrow> (Inl e, s)
                      | (Inr _, s) \<Rightarrow> map_prod (map_sum id (\<lambda>_. ())) id (recover_from_store recovered ds now_ms s))) of
             (Inl e, _) \<Rightarrow> Inl e
           | (Inr _, s) \<Rightarrow>
               (case bound of
                  Inl e \<Rightarrow> Inl e
                | Inr _ \<Rightarrow> Inr \<lparr>co_engine = s, co_stopped = False, co_max_connections = max_connections,
                    co_active_connections = 0, co_live_sockets = [], co_peer_sockets = [],
                    co_shutdown_requested = False, co_connections = [], co_sent = []\<rparr>)))"

text \<open>
  Stopping closes the listener and every live socket, so no connection is accepted and each live one
  ends; when the last has ended the runtime shuts down.
\<close>

definition begin_stop :: "Coordinator \<Rightarrow> Coordinator" where
  "begin_stop co = co\<lparr>co_stopped := True\<rparr>"

definition finish_stop ::
    "(u8 list \<Rightarrow> u64 \<Rightarrow> 'fs \<Rightarrow> Status \<times> 'fs) \<Rightarrow> Coordinator \<Rightarrow> 'fs \<Rightarrow> (Coordinator \<times> 'fs) option" where
  "finish_stop save co fs =
     (if co_active_connections co \<noteq> 0 then None
      else (case shutdown save (co_engine co) fs of (s, fs) \<Rightarrow> Some (upd_engine s co, fs)))"

text \<open>The shutdown flag that the owner thread waits for, and the control surface of an embedding program.\<close>

definition Coordinator_request_shutdown :: "Coordinator \<Rightarrow> Coordinator" where
  "Coordinator_request_shutdown co = co\<lparr>co_shutdown_requested := True\<rparr>"

definition execute_control :: "Network \<Rightarrow> ControlRequest \<Rightarrow> Coordinator \<Rightarrow> (ControlResponse \<times> Coordinator) option" where
  "execute_control = execute"

section \<open>Interleaved connections\<close>

datatype Event = Accepted nat | Delivered nat Frame | Disconnected nat

definition co_event :: "Network \<Rightarrow> Event \<Rightarrow> Coordinator \<Rightarrow> Coordinator option" where
  "co_event net event co =
     (case event of
        Accepted socket \<Rightarrow> Some (accept_connection socket co)
      | Delivered socket fm \<Rightarrow>
          (case om_find (co_connections co) socket of
             None \<Rightarrow> Some co
           | Some cn \<Rightarrow>
               map_option (\<lambda>(cn, co). co\<lparr>co_connections := om_put socket cn (co_connections co)\<rparr>)
                 (handle_frame net socket fm cn co))
      | Disconnected socket \<Rightarrow>
          (case om_find (co_connections co) socket of
             None \<Rightarrow> Some co
           | Some cn \<Rightarrow> end_connection net socket cn co))"

inductive co_run :: "Coordinator \<Rightarrow> (Network \<times> Event) list \<Rightarrow> Coordinator \<Rightarrow> bool" where
  co_start: "co_run co [] co"
| co_step: "co_run co events co' \<Longrightarrow> co_event net event co' = Some co'' \<Longrightarrow> co_run co (events @ [(net, event)]) co''"

end
