(* ===== verification/Fcf_Engine_Keyed.thy ===== *)
theory Fcf_Engine_Keyed
  imports Fcf_Engine_Fencing
begin

text \<open>
  The resource table is well formed: in key order, and every record under its own identity, which is
  what the blast radius relies on. Only the sections that update or remove a domain can break it,
  because they create records for members that were announced and never registered.
\<close>

definition keyed :: "(ResourceId, ResourceRecord) omap \<Rightarrow> bool" where
  "keyed m \<longleftrightarrow> om_wf m \<and> (\<forall>i r. om_find m i = Some r \<longrightarrow> rr_id r = i)"

lemma resources_keyed_iff: "resources_keyed tp \<longleftrightarrow> keyed (tp_resources tp)"
proof
  show "resources_keyed tp \<Longrightarrow> keyed (tp_resources tp)"
    using keyed_wf [of tp] keyed_id [of tp] by (simp add: keyed_def)
  show "keyed (tp_resources tp) \<Longrightarrow> resources_keyed tp"
    using om_in_set_iff [of "tp_resources tp"] by (auto simp: resources_keyed_def keyed_def list_all_iff)
qed

named_theorems keying \<open>updates of the resource table that keep it well formed\<close>

lemma keyed_empty [keying]: "keyed []"
  by (simp add: keyed_def)

text \<open>An update of a record that leaves its identity alone.\<close>

definition id_safe :: "(ResourceRecord \<Rightarrow> ResourceRecord) \<Rightarrow> bool" where
  "id_safe f \<longleftrightarrow> (\<forall>r. rr_id (f r) = rr_id r)"

lemma id_safe_updates [keying]:
  "id_safe (rr_freshness_update a)" "id_safe (rr_containment_domain_update b)"
  "id_safe (rr_isolation_domain_update c)" "id_safe (rr_failure_domain_update d)"
  by (auto simp: id_safe_def)

lemma keyed_updates [keying]:
  "id_safe f \<Longrightarrow> keyed m \<Longrightarrow> keyed (om_map f m)"
  "id_safe f \<Longrightarrow> keyed m \<Longrightarrow> keyed (om_adjust k f m)"
  "keyed m \<Longrightarrow> keyed (om_emplace (rr_id v) v m)"
  by (auto simp: keyed_def id_safe_def split: if_splits)

lemma keyed_erase [keying]: "keyed m \<Longrightarrow> keyed (om_erase k m)"
  by (auto simp: keyed_def split: if_splits)

lemma keyed_put:
  "rr_id v = k \<Longrightarrow> keyed m \<Longrightarrow> keyed (om_put k v m)"
  "rr_id v = k \<Longrightarrow> keyed m \<Longrightarrow> keyed (om_emplace k v m)"
  by (auto simp: keyed_def split: if_splits)

lemma keyed_found: "keyed m \<Longrightarrow> om_find m i = Some r \<Longrightarrow> rr_id r = i"
  by (simp add: keyed_def)

lemma keyed_fold [keying]: "(\<And>x m. keyed m \<Longrightarrow> keyed (f x m)) \<Longrightarrow> keyed m \<Longrightarrow> keyed (fold f xs m)"
  by (induction xs arbitrary: m) auto

abbreviation keeps_keyed :: "Impl \<Rightarrow> Impl \<Rightarrow> bool" where
  "keeps_keyed s s' \<equiv> keyed (resources s) \<longrightarrow> keyed (resources s')"

section \<open>Sections\<close>

lemma claim_members_keyed: "keyed m \<Longrightarrow> keyed (snd (claim_members d ms m))"
proof (induction d ms m rule: claim_members.induct)
  case (2 d member ms rs)
  show ?case
  proof (cases "om_find rs member")
    case None
    with 2 show ?thesis by simp
  next
    case (Some r)
    then have "keyed (om_put member (r\<lparr>rr_containment_domain := d\<rparr>) rs)"
      using 2(3) keyed_found [OF 2(3) Some] by (intro keyed_put) simp_all
    with Some 2 show ?thesis by simp
  qed
qed simp

lemma topology_keyed:
  "keeps_keyed s (snd (begin_epoch_locked t reason s))"
  "keeps_keyed s (snd (register_domain_locked cd s))"
  "keeps_keyed s (snd (register_isolation_domain_locked idm s))"
  "keeps_keyed s (snd (register_failure_domain_locked fd s))"
  "keeps_keyed s (snd (register_resource_locked r s))"
  "keeps_keyed s (snd (update_resource_locked r g s))"
  "keeps_keyed s (snd (remove_resource_locked i g s))"
proof -
  show "keeps_keyed s (snd (register_domain_locked cd s))"
    using claim_members_keyed [of "resources s" "cd_id cd" "cd_members cd"]
    by (auto simp: register_domain_locked_def Let_def split: option.split prod.split)
qed (auto simp: begin_epoch_locked_def advance_epoch_def register_isolation_domain_locked_def
    register_failure_domain_locked_def register_resource_locked_def update_resource_locked_def
    remove_resource_locked_def now_def Let_def split: option.split intro!: keying keyed_put)

lemma publish_evidence_keyed: "keeps_keyed s (snd (publish_resource_evidence_locked i g f k m src s))"
  by (auto simp: publish_resource_evidence_locked_def apply_evidence_def now_def Let_def
      split: option.split intro!: keyed_put dest: keyed_found)

lemma register_worker_keyed: "keeps_keyed s (snd (register_worker_locked w b e k s))"
proof -
  have revoke: "keyed (resources t) \<Longrightarrow> keyed (resources (revoke_previous w b t))" for w b t
    by (auto simp: revoke_previous_def require_revalidation_def Let_def split: option.split intro!: keying)
  have "keyed (resources (snd (admit_worker key e k t)))" if "keyed (resources t)" for key t
    using revoke [OF that] by (simp add: admit_worker_def now_def Let_def)
  then show ?thesis
    by (auto simp: register_worker_locked_def reattach_worker_def now_def Let_def split: option.split)
qed

text \<open>The loops that put a changed record back under the key they read it from.\<close>

lemma loops_keyed:
  "keyed (resources s) \<Longrightarrow> keyed (resources (fence_resource g q t i s))"
  "keyed (resources s) \<Longrightarrow> keyed (resources (drain_resource t i s))"
  "keyed (resources s) \<Longrightarrow> keyed (resources (record_claim x i s))"
  by (auto simp: fence_resource_def fence_record_def drain_resource_def
      drain_record_def record_claim_def stage_resource_def Let_def split: option.split intro!: keyed_put
      dest: keyed_found)

lemma lose_resources_keyed:
  assumes "keyed (resources s)" and "\<And>i. i \<in> set ids \<Longrightarrow> om_find (resources s) i \<noteq> None"
  shows "keyed (resources (fold (lose_resource t) ids s))"
  using assms
proof (induction ids arbitrary: s)
  case (Cons i ids)
  then obtain r where r: "om_find (resources s) i = Some r" by fastforce
  then have l: "resources (lose_resource t i s) = om_put i (lost_resource t r) (resources s)"
    by (simp add: lose_resource_def stage_resource_def Let_def)
  have "keyed (resources (lose_resource t i s))"
    using Cons.prems(1) keyed_found [OF Cons.prems(1) r] unfolding l by (intro keyed_put) (simp_all add: lost_resource_def)
  with Cons show ?case by (auto simp: l)
qed simp

lemma entry_found: "keyed m \<Longrightarrow> i \<in> set (map fst (filter P m)) \<Longrightarrow> \<exists>r. om_find m i = Some r"
  by (auto simp: keyed_def om_in_set_iff)

lemma lose_authority_keyed: "keeps_keyed s (snd (lose_authority_locked w b detail t s))"
  unfolding lose_authority_locked_def now_def Let_def
  by (auto split: option.split simp del: set_map set_filter om_find_None_iff
      intro!: lose_resources_keyed intro: entry_found)

lemma commit_containment_keyed: "keeps_keyed s (snd (commit_containment i f radius s))"
proof -
  have "keyed (resources (fold (drain_resource t) ds (fold (fence_resource g q t) fs x)))"
    if "keyed (resources x)" for t ds g q fs x
    by (rule fold_invariant_list [where P = "\<lambda>x. keyed (resources x)"],
        rule fold_invariant_list [where P = "\<lambda>x. keyed (resources x)"]) (simp_all add: that loops_keyed)
  then show ?thesis by (simp add: commit_containment_def stage_fault_def now_def Let_def case_prod_beta)
qed

lemma result_keyed: "keeps_keyed s (snd (record_action_result_locked x s))"
  by (auto simp: record_action_result_locked_def now_def Let_def split: option.split intro!: loops_keyed)

lemma authorize_release_keyed: "keeps_keyed s (snd (authorize_release_locked x s))"
proof (cases "rel_granted (assess_release (im_state s) x)")
  case False
  from frame_simps(7) [OF release_refused_state [OF this]] show ?thesis by simp
next
  case True
  then obtain r where r: "om_find (resources s) (rlr_resource x) = Some r"
    using assess_release_grants_known by blast
  from release_granted_state [OF True this] obtain t g tm
    where f: "frame (snd (authorize_release_locked x s)) = frame (snd (close_containment g (rlr_resource x) t))"
      and t: "resources t = om_put (rlr_resource x) (released_resource
        (next_generation (rs_release_generation (im_state s))) tm r) (resources s)" by auto
  from frame_simps(7) [OF f] t r show ?thesis
    by (auto simp: released_resource_def intro!: keyed_put dest: keyed_found)
qed

section \<open>Who may break it\<close>

text \<open>Every section but the update and the removals of domains keeps the table well formed.\<close>

fun reshapes_domains :: "Request \<Rightarrow> bool" where
  "reshapes_domains (UpdateDomain d g) = True"
| "reshapes_domains (RemoveDomain i g) = True"
| "reshapes_domains (RemoveIsolationDomain i g) = True"
| "reshapes_domains (RemoveFailureDomain i g) = True"
| "reshapes_domains _ = False"

lemma locked_keyed:
  assumes "locked q s = Some (r, s')" and "\<not> reshapes_domains q"
  shows "keeps_keyed s s'"
proof -
  have contain: "keeps_keyed s s''" if "authorize_containment_locked i g s = Some (x, s'')" for i g x s''
    using that commit_containment_keyed [of s]
    by (auto simp: authorize_containment_locked_def split: sum.splits option.splits if_splits) (metis snd_conv)
  have verify: "keeps_keyed s s''" if "verify_containment_locked g s = Some (x, s'')" for g x s''
    using that by (auto simp: verify_containment_locked_def commit_verification_def settle_fault_def stage_fault_def
        now_def Let_def split: option.splits if_splits)
  show ?thesis
  proof (cases q)
    case (AuthorizeContainment i g)
    with assms contain show ?thesis by (fastforce simp: answer_def bind_eq_Some_conv)
  next
    case (VerifyContainment g)
    with assms verify show ?thesis by (fastforce simp: answer_def bind_eq_Some_conv)
  qed (use assms in \<open>auto simp: untouched topology_keyed publish_evidence_keyed register_worker_keyed
      lose_authority_keyed result_keyed authorize_release_keyed dest!: locked_answer\<close>)
qed

end
