(* ===== verification/Fcf_Coordinator_Requests.thy ===== *)
theory Fcf_Coordinator_Requests
  imports Fcf_Coordinator Fcf_Engine_Dispatched Fcf_Engine_Keyed
begin

text \<open>
  The abstract specification of the service: which locked sections of the runtime, with which
  arguments, an event of the service is entitled to run, and the runs of the runtime that consist of
  such sections. It states the guards of the handlers (the handshake, the incarnation, the epoch, the
  generation and the containment of a resource, the novelty of a fault) apart from their code.
\<close>

section \<open>What an event may ask of the runtime\<close>

text \<open>
  The sections of the runtime that each event of the service is entitled to run, with their
  arguments: a specification of the guards, against which the handlers are proved below.
\<close>

text \<open>The dispatch over the peers and the answers the coordinator gives for what it enforces itself.\<close>

fun dispatch_request :: "Request \<Rightarrow> bool" where
  "dispatch_request (DispatchBegin g b) = b"
| "dispatch_request (DispatchRecord attempts summary) = True"
| "dispatch_request (RecordAck ack) = (ack_accepted ack \<and> ack_executor_token ack = ''coordinator:enforcement'')"
| "dispatch_request (RecordResult res) = (ares_success res \<and>
     ares_mechanism res \<in> {ContainmentMechanism.LOGICAL_CONTAINMENT, ContainmentMechanism.PROCESS_CONTAINMENT})"
| "dispatch_request _ = False"

text \<open>The loss of the authority of one incarnation.\<close>

fun loss_request :: "FaultKind \<Rightarrow> WorkerId \<Rightarrow> WorkerBootId \<Rightarrow> Request \<Rightarrow> bool" where
  "loss_request kind w b (LoseAuthority w' b' detail t) = (w' = w \<and> b' = b)"
| "loss_request kind w b (NoteAuthorityLoss key i) = (key = WorkerKey w b)"
| "loss_request kind w b (PublishFault e) = (fe_kind e = kind \<and> fe_reporter_kind e = ReporterKind.COORDINATOR)"
| "loss_request kind w b (AuthorizeContainment i g) = True"
| "loss_request kind w b _ = False"

text \<open>Evidence that passes every check: the handshake, the epoch, the resource and its generation.\<close>

definition evidence_accepted ::
    "u8 list \<Rightarrow> Connection \<Rightarrow> Impl \<Rightarrow> WorkerEvidenceMessage \<Rightarrow> ResourceRecord \<Rightarrow> bool" where
  "evidence_accepted payload cn s ev r \<longleftrightarrow> decode_worker_evidence payload = Inr ev \<and>
     cn_hello_done cn \<and> we_boot ev = cn_boot cn \<and> we_epoch ev = rs_epoch (im_state s) \<and>
     om_find (resources s) (we_resource ev) = Some r \<and>
     (id_valid (we_generation ev) \<longrightarrow> we_generation ev = rr_generation r)"

abbreviation handed :: "WorkerEvidenceMessage \<Rightarrow> ResourceRecord \<Rightarrow> ResourceRecord" where
  "handed ev r \<equiv> r\<lparr>rr_owner_worker := we_worker ev, rr_owner_boot := we_boot ev,
     rr_state := ResourceOperationalState.ACTIVE\<rparr>"

abbreviation source_of :: "WorkerEvidenceMessage \<Rightarrow> string" where
  "source_of ev \<equiv> ''worker '' @ str_WorkerBootId (we_boot ev)"

text \<open>
  It is published for its resource under the name of the incarnation: with the freshness it claims
  when something contains the resource, as fresh otherwise; only then the resource changes hands.
\<close>

fun evidence_request :: "WorkerEvidenceMessage \<Rightarrow> ResourceRecord \<Rightarrow> Request \<Rightarrow> bool" where
  "evidence_request ev r (PublishEvidence i g f k m src) =
     (i = we_resource ev \<and> k = we_sequence ev \<and> m = we_mechanism ev \<and> src = source_of ev \<and>
      (if rr_quarantined r \<or> is_contained (rr_state r) then g = id_invalid \<and> f = we_freshness ev
       else f = EvidenceFreshness.FRESH))"
| "evidence_request ev r (UpdateResource x g) =
     (\<not> (rr_quarantined r \<or> is_contained (rr_state r)) \<and> x = handed ev r \<and> g = rr_generation r)"
| "evidence_request ev r _ = False"

text \<open>A report is published as the reporter's; only a new fault that is current is contained.\<close>

abbreviation stamped :: "FaultReportMessage \<Rightarrow> FaultEvidence" where
  "stamped report \<equiv> (frp_evidence report)\<lparr>fe_reporter_kind := ReporterKind.WORKER,
     fe_reporter_worker := frp_worker report, fe_reporter_boot := frp_boot report\<rparr>"

definition report_request :: "FaultReportMessage \<Rightarrow> Impl \<Rightarrow> Request \<Rightarrow> bool" where
  "report_request report s q \<longleftrightarrow> q = PublishFault (stamped report) \<or>
     (\<exists>f s'. publish_fault (stamped report) s = (Inr (f, False), s') \<and> is_fault_current (fr_state f) \<and>
        (q = AuthorizeContainment (fe_id (fr_evidence f)) (fe_generation (fr_evidence f)) \<or> dispatch_request q))"

definition frame_request :: "Frame \<Rightarrow> Connection \<Rightarrow> Impl \<Rightarrow> Request \<Rightarrow> bool" where
  "frame_request fm cn s q =
     (case fm_kind fm of
        MessageKind.HELLO \<Rightarrow> \<exists>h. decode_hello (fm_payload fm) = Inr h \<and>
          q = RegisterWorker (hm_worker h) (hm_boot h) (hm_endpoint h) (hm_sequence h)
      | MessageKind.WORKER_EVIDENCE \<Rightarrow>
          \<exists>ev r. evidence_accepted (fm_payload fm) cn s ev r \<and> evidence_request ev r q
      | MessageKind.FAULT_REPORT \<Rightarrow> \<exists>report. decode_fault_report (fm_payload fm) = Inr report \<and>
          cn_hello_done cn \<and> frp_boot report = cn_boot cn \<and> report_request report s q
      | MessageKind.ACTION_ACK \<Rightarrow>
          \<exists>ack. decode_action_ack (fm_payload fm) = Inr ack \<and> cn_hello_done cn \<and> q = RecordAck ack
      | MessageKind.ACTION_RESULT \<Rightarrow>
          \<exists>res. decode_action_result (fm_payload fm) = Inr res \<and> cn_hello_done cn \<and> q = RecordResult res
      | MessageKind.CONTROL_REQUEST \<Rightarrow>
          (\<exists>request. decode_control_request (fm_payload fm) = Inr request) \<and> \<not> reshapes_domains q
      | _ \<Rightarrow> False)"

definition event_request :: "Event \<Rightarrow> Coordinator \<Rightarrow> Request \<Rightarrow> bool" where
  "event_request event co q =
     (case event of
        Accepted socket \<Rightarrow> False
      | Delivered socket fm \<Rightarrow>
          \<exists>cn. om_find (co_connections co) socket = Some cn \<and> frame_request fm cn (co_engine co) q
      | Disconnected socket \<Rightarrow>
          \<exists>cn. om_find (co_connections co) socket = Some cn \<and> cn_hello_done cn \<and>
            (loss_request FaultKind.PROCESS_DEATH (cn_worker cn) (cn_boot cn) q \<or> dispatch_request q))"

text \<open>Runs of the runtime through sections that satisfy \<open>P\<close>, and what happens between sections.\<close>

inductive runs :: "(Request \<Rightarrow> bool) \<Rightarrow> Impl \<Rightarrow> Impl \<Rightarrow> bool" for P where
  runs_refl: "runs P s s"
| runs_call: "runs P s t \<Longrightarrow> locked q t = Some (r, u) \<Longrightarrow> P q \<Longrightarrow> runs P s u"
| runs_between: "runs P s t \<Longrightarrow> background t u \<Longrightarrow> runs P s u"

lemma runs_trans: "runs P t u \<Longrightarrow> runs P s t \<Longrightarrow> runs P s u"
  by (induction rule: runs.induct) (auto intro: runs.intros)

lemma runs_mono: "runs P s t \<Longrightarrow> (\<And>q. P q \<Longrightarrow> Q q) \<Longrightarrow> runs Q s t"
  by (induction rule: runs.induct) (auto intro: runs.intros)

text \<open>The sections that frames of workers and the end of a connection run, next to \<open>UpdateResource\<close>.\<close>

fun worker_request :: "Request \<Rightarrow> bool" where
  "worker_request (RegisterWorker w b ep k) = True"
| "worker_request (PublishEvidence i g f k m src) = True"
| "worker_request (LoseAuthority w b detail t) = True"
| "worker_request (NoteAuthorityLoss key i) = True"
| "worker_request (PublishFault e) = True"
| "worker_request (AuthorizeContainment i g) = True"
| "worker_request (DispatchBegin g b) = True"
| "worker_request (DispatchRecord attempts summary) = True"
| "worker_request (RecordAck ack) = True"
| "worker_request (RecordResult res) = True"
| "worker_request _ = False"

fun worker_event :: "Event \<Rightarrow> bool" where
  "worker_event (Delivered socket fm) = (fm_kind fm \<noteq> MessageKind.CONTROL_REQUEST)"
| "worker_event _ = True"

lemma dispatch_is_worker: "dispatch_request q \<Longrightarrow> worker_request q"
  and loss_is_worker: "loss_request kind w b q \<Longrightarrow> worker_request q"
  by (cases q; simp)+

lemma evidence_requests:
  "evidence_request ev r q \<Longrightarrow> worker_request q \<or> q = UpdateResource (handed ev r) (rr_generation r) \<and>
     \<not> (rr_quarantined r \<or> is_contained (rr_state r))"
  by (cases q) auto

lemma worker_event_requests:
  assumes "event_request event co q" and "worker_event event"
  shows "worker_request q \<or> (\<exists>i r w b. om_find (resources (co_engine co)) i = Some r \<and>
    \<not> (rr_quarantined r \<or> is_contained (rr_state r)) \<and> q = UpdateResource
      (r\<lparr>rr_owner_worker := w, rr_owner_boot := b, rr_state := ResourceOperationalState.ACTIVE\<rparr>) (rr_generation r))"
proof (cases event)
  case (Delivered socket fm)
  then obtain cn where f: "frame_request fm cn (co_engine co) q" and k: "fm_kind fm \<noteq> MessageKind.CONTROL_REQUEST"
    using assms by (auto simp: event_request_def)
  show ?thesis
  proof (cases "fm_kind fm = MessageKind.WORKER_EVIDENCE")
    case True
    with f obtain ev r where "om_find (resources (co_engine co)) (we_resource ev) = Some r" "evidence_request ev r q"
      by (auto simp: frame_request_def evidence_accepted_def)
    then show ?thesis using evidence_requests [of ev r q] by blast
  next
    case False
    with f k have "worker_request q"
      by (cases "fm_kind fm") (auto simp: frame_request_def report_request_def dispatch_is_worker)
    then show ?thesis ..
  qed
qed (use assms in \<open>auto simp: event_request_def dispatch_is_worker loss_is_worker\<close>)

end
