(* ===== verification/Fcf_Coordinator_Relations.thy ===== *)
theory Fcf_Coordinator_Relations
  imports Fcf_Coordinator_Requests
begin

text \<open>
  Relations between runtime states that the service maintains. A locale says what a relation has to
  satisfy for the handlers of the worker plane to maintain it, and two extensions say the same of
  every worker and of the operator's commands; the interpretations give that the service is a run of
  the runtime and of the sections its events are entitled to, that it keeps the resource table in
  order, and that workers keep the fences.
\<close>

section \<open>What every event of the worker plane maintains\<close>

lemma frame_clear_pending [simp]: "frame (s\<lparr>im_pending := []\<rparr>) = frame s"
  by (simp add: frame_def)

lemma post_engine [simp]:
  "co_engine (snd (post net socket kind payload co)) = co_engine co"
  "co_engine (reject net socket code detail co) = co_engine co"
  by (simp_all add: post_def reject_def Let_def split: sum.split)

lemma own_mechanisms: "own_mechanism snapshot action = Some m \<Longrightarrow>
   m \<in> {ContainmentMechanism.LOGICAL_CONTAINMENT, ContainmentMechanism.PROCESS_CONTAINMENT}"
  by (auto simp: own_mechanism_def Let_def split: if_splits option.splits)

text \<open>
  A relation between runtime states that the service maintains: it holds of the sections that are
  allowed, of what happens between sections, and of the updates that grant a resource.
\<close>

locale runtime_relation =
  fixes R :: "Impl \<Rightarrow> Impl \<Rightarrow> bool"
    and allowed :: "Request \<Rightarrow> bool"
    and grantable :: "Impl \<Rightarrow> ResourceRecord \<Rightarrow> ResourceGeneration \<Rightarrow> bool"
  assumes request: "locked q s = Some (r, s') \<Longrightarrow> allowed q \<Longrightarrow> R s s'"
    and between: "background s s' \<Longrightarrow> R s s'"
    and grant: "grantable s x g \<Longrightarrow> R s (snd (update_resource_locked x g s))"
    and refl: "R s s"
    and trans: "R a b \<Longrightarrow> R b c \<Longrightarrow> R a c"
begin

text \<open>Everything in \<open>Q\<close> is allowed; the updates of resources must be grantable.\<close>

definition permits :: "Impl \<Rightarrow> (Request \<Rightarrow> bool) \<Rightarrow> bool" where
  "permits s Q \<longleftrightarrow> (\<forall>q. Q q \<longrightarrow> (case q of UpdateResource x g \<Rightarrow> grantable s x g | _ \<Rightarrow> allowed q))"

lemma permitsD: "permits s Q \<Longrightarrow> Q q \<Longrightarrow> (case q of UpdateResource x g \<Rightarrow> grantable s x g | _ \<Rightarrow> allowed q)"
  by (simp add: permits_def)

lemma permits_allowed: "permits s dispatch_request \<Longrightarrow> dispatch_request q \<Longrightarrow> allowed q"
  "permits s (loss_request kind w b) \<Longrightarrow> loss_request kind w b q \<Longrightarrow> allowed q"
  using permitsD [of s _ q] by (cases q; force)+

lemma completed:
  assumes "locked q s = answer (x, t)" and "allowed q"
  shows "R s (snd (complete (x, t)))"
proof (rule trans)
  show "R s t" by (rule request [of q]) (use assms in \<open>simp_all add: answer_def\<close>)
  show "R t (snd (complete (x, t)))" by (rule between [OF background_complete])
qed

lemma operations:
  "allowed (PublishEvidence i g f k m src) \<Longrightarrow> R s (snd (publish_resource_evidence i g f k m src s))"
  "allowed (RegisterWorker w b ep k) \<Longrightarrow> R s (snd (register_worker w b ep k s))"
  "allowed (PublishFault ev) \<Longrightarrow> R s (snd (publish_fault ev s))"
  "allowed (RecordAck ack) \<Longrightarrow> R s (snd (record_action_ack ack s))"
  "allowed (RecordResult res) \<Longrightarrow> R s (snd (record_action_result res s))"
  unfolding publish_resource_evidence_def register_worker_def publish_fault_def
    record_action_ack_def record_action_result_def
  by (metis completed locked.simps prod.collapse)+

lemma granted: "grantable s x g \<Longrightarrow> R s (snd (update_resource x g s))"
  unfolding update_resource_def
  by (erule trans [OF grant]) (metis between background_complete prod.collapse)

lemma authorized:
  assumes "authorize_containment i g s = Some (x, s')" and "allowed (AuthorizeContainment i g)"
  shows "R s s'"
proof -
  from assms(1) obtain p where l: "authorize_containment_locked i g s = Some p" and c: "complete p = (x, s')"
    by (auto simp: authorize_containment_def)
  have "locked (AuthorizeContainment i g) s = answer (fst p, snd p)" by (simp add: l)
  from completed [OF this assms(2)] c show ?thesis by simp
qed

lemma dispatched:
  assumes allowed: "\<And>q. dispatch_request q \<Longrightarrow> allowed q"
  shows "R s (snd (dispatch_containment g (Some ex) s))"
proof (cases "dispatch_begin_locked g True s")
  case (Pair begun t)
  have first: "R s t"
    by (rule request [of "DispatchBegin g True"])
      (simp_all only: locked.simps Pair answer_def fst_conv snd_conv allowed dispatch_request.simps)
  show ?thesis
  proof (cases begun)
    case (Inl e)
    with Pair have "snd (dispatch_containment g (Some ex) s) = t\<lparr>im_pending := []\<rparr>" by (simp add: dispatch_containment_def)
    with trans [OF first between [OF background.dropped]] show ?thesis by simp
  next
    case (Inr q)
    obtain summary to_dispatch where q: "q = (summary, to_dispatch)" by (cases q)
    let ?attempts = "map (\<lambda>a. (a, ex a)) to_dispatch" and ?t = "snd (flush t)"
    obtain rec u where rec: "dispatch_record_locked ?attempts summary ?t = (rec, u)"
      by (cases "dispatch_record_locked ?attempts summary ?t")
    then have "locked (DispatchRecord ?attempts summary) ?t = answer (rec, u)" by simp
    then have "R ?t (snd (complete (rec, u)))" by (rule completed) (simp add: allowed)
    moreover have "R t ?t" by (rule between [OF background.flushed])
    moreover have "snd (dispatch_containment g (Some ex) s) = snd (complete (rec, u))"
      using Pair rec by (simp add: dispatch_containment_def Inr q case_prod_beta Let_def split: sum.split)
    ultimately show ?thesis using first trans by metis
  qed
qed

text \<open>The loss of a worker's authority: its own section, and everything that follows it.\<close>

lemma after_loss:
  assumes "lose_authority_locked w b detail t s = (lost, u)"
    and "worker_authority_lost w b kind detail t s = Some (x, s')"
    and allowed: "\<And>q. loss_request kind w b q \<Longrightarrow> allowed q"
  shows "R u s'"
proof -
  obtain flushed v where flushed: "flush u = (flushed, v)" by (cases "flush u")
  with between [OF background.flushed, of u] have uv: "R u v" by simp
  show ?thesis
  proof (cases lost)
    case (Inl y)
    with assms have "s' = u\<lparr>im_pending := []\<rparr>" by (simp add: worker_authority_lost_def)
    with between [OF background.dropped, of u] show ?thesis by simp
  next
    case (Inr q)
    obtain subject generation where q: "q = (subject, generation)" by (cases q)
    let ?ev = "authority_loss_evidence kind subject generation detail t (rs_epoch (im_state v))"
    have "allowed (PublishFault ?ev)" by (rule allowed) (simp add: authority_loss_evidence_def)
    then have published: "R v (snd (publish_fault ?ev v))" by (rule operations)
    obtain pub z where pub: "publish_fault ?ev v = (pub, z)" by (cases "publish_fault ?ev v")
    with uv published trans have uz: "R u z" by (metis snd_conv)
    let ?n = "\<lambda>i. z\<lparr>im_authority_loss_faults := om_put (WorkerKey w b) i (im_authority_loss_faults z)\<rparr>"
    have "R z (?n i)" for i
      by (rule request [of "NoteAuthorityLoss (WorkerKey w b) i"]) (simp_all add: allowed)
    with uz trans have un: "R u (?n i)" for i by blast
    have contained: "R r s'" if "authorize_containment i g r = Some (x, s')" for i g r
      using that by (rule authorized) (simp add: allowed)
    have "s' = v \<or> s' = z \<or> (\<exists>i g. authorize_containment i g (?n i) = Some (x, s'))"
      using assms(1,2) Inr q flushed pub
      by (auto simp: worker_authority_lost_def Let_def split: sum.splits prod.splits)
    with uv uz un contained trans show ?thesis by blast
  qed
qed

lemma authority_lost:
  assumes "worker_authority_lost w b kind detail t s = Some (x, s')"
    and allowed: "\<And>q. loss_request kind w b q \<Longrightarrow> allowed q"
  shows "R s s'"
proof (cases "lose_authority_locked w b detail t s")
  case (Pair lost u)
  have "R s u"
    by (rule request [of "LoseAuthority w b detail t"]) (simp_all add: Pair loss_answer_def allowed)
  with after_loss [OF Pair assms] trans show ?thesis by blast
qed

abbreviation keeps_up :: "Coordinator \<Rightarrow> Coordinator \<Rightarrow> bool" where
  "keeps_up co co' \<equiv> R (co_engine co) (co_engine co')"

lemma settled:
  assumes allowed: "\<And>q. dispatch_request q \<Longrightarrow> allowed q"
  shows "R s (settle_action snapshot i s)"
proof -
  have acked: "R s (snd (record_action_ack ack s))"
    if "ack_accepted ack" "ack_executor_token ack = ''coordinator:enforcement''" for ack s
    by (rule operations(4)) (use that in \<open>simp add: allowed\<close>)
  have resulted: "R s (snd (record_action_result res s))"
    if "ares_success res" "own_mechanism snapshot action = Some (ares_mechanism res)" for res s action
    by (rule operations(5)) (use that own_mechanisms [OF that(2)] in \<open>simp add: allowed\<close>)
  show ?thesis
    unfolding settle_action_def Let_def
    by (auto split: option.split intro!: refl trans [OF acked resulted])
qed

lemma settled_all:
  assumes allowed: "\<And>q. dispatch_request q \<Longrightarrow> allowed q"
  shows "R s (for_each xs (settle_action snapshot) s)"
  by (induction xs arbitrary: s) (auto intro: refl trans [OF settled [OF allowed]])

lemma dispatched_and_settled:
  assumes allowed: "\<And>q. dispatch_request q \<Longrightarrow> allowed q"
  shows "keeps_up co (dispatch_and_settle net g co)"
proof (cases "dispatch_over_peers net g co")
  case (Pair result co1)
  have "keeps_up co (snd (dispatch_over_peers net g co))"
    using dispatched [OF allowed, of "co_engine co" g]
    by (simp add: dispatch_over_peers_def case_prod_beta Let_def)
  with Pair have "keeps_up co co1" by simp
  with trans [OF this settled_all [OF allowed]] Pair show ?thesis
    by (auto simp: dispatch_and_settle_def Let_def split: sum.split)
qed

lemma hello_handled:
  assumes "\<And>h. decode_hello payload = Inr h \<Longrightarrow>
    allowed (RegisterWorker (hm_worker h) (hm_boot h) (hm_endpoint h) (hm_sequence h))"
  shows "keeps_up co (snd (handle_hello net socket payload cn co))"
  using operations(2) [OF assms]
  by (auto simp: handle_hello_def Let_def case_prod_beta intro: refl split: sum.split)

lemma fenced_handled:
  assumes "allowed (PublishEvidence (we_resource ev) id_invalid (we_freshness ev) (we_sequence ev) (we_mechanism ev) (source_of ev))"
  shows "keeps_up co (fenced_evidence net socket ev co)"
  using operations(1) [OF assms]
  by (auto simp: fenced_evidence_def Let_def case_prod_beta intro: refl split: sum.split)

lemma granting_handled:
  assumes "grantable (co_engine co) (handed ev r) (rr_generation r)"
    and "\<And>g. allowed (PublishEvidence (we_resource ev) g EvidenceFreshness.FRESH (we_sequence ev) (we_mechanism ev) (source_of ev))"
  shows "keeps_up co (grant_evidence net socket ev r co)"
proof -
  note updated = granted [OF assms(1)]
  note published = trans [OF updated operations(1) [OF assms(2)]]
  show ?thesis
    using updated published
    by (auto simp: grant_evidence_def Let_def split: sum.split prod.split) (metis snd_conv)+
qed

lemma evidence_handled:
  assumes "\<And>ev r. evidence_accepted payload cn (co_engine co) ev r \<Longrightarrow> permits (co_engine co) (evidence_request ev r)"
  shows "keeps_up co (handle_evidence net socket payload cn co)"
proof -
  have "if rr_quarantined r \<or> is_contained (rr_state r) then keeps_up co (fenced_evidence net socket ev co)
      else keeps_up co (grant_evidence net socket ev r co)"
    if "evidence_accepted payload cn (co_engine co) ev r" for ev r
  proof -
    note permitted = permitsD [OF assms [OF that]]
    show ?thesis
    proof (cases "rr_quarantined r \<or> is_contained (rr_state r)")
      case True
      then have "allowed (PublishEvidence (we_resource ev) id_invalid (we_freshness ev) (we_sequence ev) (we_mechanism ev) (source_of ev))"
        using permitted [of "PublishEvidence (we_resource ev) id_invalid (we_freshness ev) (we_sequence ev) (we_mechanism ev) (source_of ev)"]
        by simp
      with True fenced_handled show ?thesis by simp
    next
      case False
      then have "allowed (PublishEvidence (we_resource ev) g EvidenceFreshness.FRESH (we_sequence ev) (we_mechanism ev) (source_of ev))" for g
        using permitted [of "PublishEvidence (we_resource ev) g EvidenceFreshness.FRESH (we_sequence ev) (we_mechanism ev) (source_of ev)"]
        by simp
      moreover have "grantable (co_engine co) (handed ev r) (rr_generation r)"
        using permitted [of "UpdateResource (handed ev r) (rr_generation r)"] False by simp
      ultimately show ?thesis using False granting_handled by simp
    qed
  qed
  then show ?thesis
    by (auto simp: handle_evidence_def evidence_accepted_def refl split: sum.split option.split)
qed

lemma report_handled:
  assumes "handle_fault_report net socket payload cn co = Some co'"
    and permitted: "\<And>report q. decode_fault_report payload = Inr report \<Longrightarrow> cn_hello_done cn \<Longrightarrow>
      frp_boot report = cn_boot cn \<Longrightarrow> report_request report (co_engine co) q \<Longrightarrow> allowed q"
  shows "keeps_up co co'"
proof (cases "decode_fault_report payload")
  case (Inr report)
  show ?thesis
  proof (cases "cn_hello_done cn \<and> frp_boot report = cn_boot cn")
    case True
    with permitted [OF Inr] have ok: "report_request report (co_engine co) q \<Longrightarrow> allowed q" for q by blast
    obtain published s where p: "publish_fault (stamped report) (co_engine co) = (published, s)"
      by (cases "publish_fault (stamped report) (co_engine co)")
    have "allowed (PublishFault (stamped report))" by (rule ok) (simp add: report_request_def)
    from operations(3) [OF this, of "co_engine co"] p have sp: "R (co_engine co) s" by simp
    have contained: "R (co_engine co) t \<and> R (co_engine co) (co_engine (dispatch_and_settle net g (upd_engine t co)))"
      if "published = Inr (f, False)" "is_fault_current (fr_state f)"
        "authorize_containment (fe_id (fr_evidence f)) (fe_generation (fr_evidence f)) s = Some (x, t)" for f x t g
    proof -
      have "allowed q" if "q = AuthorizeContainment (fe_id (fr_evidence f)) (fe_generation (fr_evidence f)) \<or> dispatch_request q" for q
        using p that \<open>published = _\<close> \<open>is_fault_current _\<close> by (intro ok) (auto simp: report_request_def)
      with trans [OF sp authorized [OF that(3)]] have "R (co_engine co) t" and d: "dispatch_request q \<Longrightarrow> allowed q" for q
        by blast+
      with trans [OF this(1) dispatched_and_settled [OF d, of "upd_engine t co" net g, simplified]] show ?thesis by simp
    qed
    show ?thesis
      using assms(1) Inr True p sp contained
      by (auto simp: handle_fault_report_def split: if_splits sum.splits prod.splits option.splits)
  qed (use assms(1) Inr in \<open>auto simp: handle_fault_report_def refl split: if_splits\<close>)
qed (use assms(1) in \<open>auto simp: handle_fault_report_def refl\<close>)

lemma ack_handled:
  assumes "\<And>ack. decode_action_ack payload = Inr ack \<Longrightarrow> cn_hello_done cn \<Longrightarrow> allowed (RecordAck ack)"
  shows "keeps_up co (handle_ack net socket payload cn co)"
  using operations(4) [OF assms, of _ "co_engine co"]
  by (auto simp: handle_ack_def refl split: sum.split prod.split)

lemma result_handled:
  assumes "\<And>res. decode_action_result payload = Inr res \<Longrightarrow> cn_hello_done cn \<Longrightarrow> allowed (RecordResult res)"
  shows "keeps_up co (handle_result net socket payload cn co)"
  using operations(5) [OF assms, of _ "co_engine co"]
  by (auto simp: handle_result_def refl split: sum.split prod.split)

text \<open>Every frame of a worker, and the end of its connection.\<close>

lemma frame_handled:
  assumes h: "handle_frame net socket fm cn co = Some (cn', co')" and k: "fm_kind fm \<noteq> MessageKind.CONTROL_REQUEST"
    and p: "permits (co_engine co) (frame_request fm cn (co_engine co))"
  shows "keeps_up co co'"
proof -
  note ok = permitsD [OF p]
  consider "fm_kind fm = MessageKind.HELLO" | "fm_kind fm = MessageKind.WORKER_EVIDENCE"
    | "fm_kind fm = MessageKind.FAULT_REPORT" | "fm_kind fm = MessageKind.ACTION_ACK"
    | "fm_kind fm = MessageKind.ACTION_RESULT" | "co_engine co' = co_engine co"
    using h k by (cases "fm_kind fm") (auto simp: handle_frame_def)
  then show ?thesis
  proof cases
    case 1
    have "keeps_up co (snd (handle_hello net socket (fm_payload fm) cn co))"
      by (rule hello_handled) (use ok [of "RegisterWorker _ _ _ _"] 1 in \<open>simp add: frame_request_def\<close>)
    with h 1 show ?thesis by (auto simp: handle_frame_def)
  next
    case 2
    have "permits (co_engine co) (evidence_request ev r)" if "evidence_accepted (fm_payload fm) cn (co_engine co) ev r" for ev r
      using p that 2 unfolding permits_def frame_request_def by auto
    from evidence_handled [OF this] h 2 show ?thesis by (auto simp: handle_frame_def)
  next
    case 3
    then obtain "handle_fault_report net socket (fm_payload fm) cn co = Some co'" using h by (auto simp: handle_frame_def)
    then show ?thesis
    proof (rule report_handled)
      fix report q
      assume "decode_fault_report (fm_payload fm) = Inr report" "cn_hello_done cn" "frp_boot report = cn_boot cn"
        and r: "report_request report (co_engine co) q"
      with ok [of q] 3 have "case q of UpdateResource x g \<Rightarrow> grantable (co_engine co) x g | _ \<Rightarrow> allowed q"
        by (simp add: frame_request_def)
      with r show "allowed q" by (cases q) (auto simp: report_request_def)
    qed
  next
    case 4
    have "keeps_up co (handle_ack net socket (fm_payload fm) cn co)"
      by (rule ack_handled) (use ok [of "RecordAck _"] 4 in \<open>simp add: frame_request_def\<close>)
    with h 4 show ?thesis by (auto simp: handle_frame_def)
  next
    case 5
    have "keeps_up co (handle_result net socket (fm_payload fm) cn co)"
      by (rule result_handled) (use ok [of "RecordResult _"] 5 in \<open>simp add: frame_request_def\<close>)
    with h 5 show ?thesis by (auto simp: handle_frame_def)
  qed (simp add: refl)
qed

lemma connection_ended:
  assumes "end_connection net socket cn co = Some co'"
    and allowed: "\<And>q. cn_hello_done cn \<Longrightarrow>
      loss_request FaultKind.PROCESS_DEATH (cn_worker cn) (cn_boot cn) q \<or> dispatch_request q \<Longrightarrow> allowed q"
  shows "keeps_up co co'"
proof -
  define gone where "gone = co\<lparr>co_peer_sockets := (if cn_hello_done cn then om_erase (cn_boot cn) (co_peer_sockets co)
      else co_peer_sockets co), co_live_sockets := remove1 socket (co_live_sockets co),
    co_active_connections := co_active_connections co - 1, co_connections := om_erase socket (co_connections co)\<rparr>"
  have g: "co_engine gone = co_engine co" by (simp add: gone_def)
  show ?thesis
  proof (cases "cn_hello_done cn")
    case True
    note ok = allowed [OF True]
    have "keeps_up co (dispatch_and_settle net k (upd_engine t gone))" if "R (co_engine co) t" for k t
      using trans [OF that dispatched_and_settled [of "upd_engine t gone" net k, simplified]] ok by simp
    moreover have "R (co_engine co) t"
      if "worker_authority_lost (cn_worker cn) (cn_boot cn) FaultKind.PROCESS_DEATH d n (co_engine co) = Some (x, t)" for d n x t
      using that by (rule authority_lost) (simp add: ok)
    ultimately show ?thesis
      using assms(1) g True unfolding end_connection_def gone_def [symmetric] Let_def
      by (auto split: option.splits prod.splits sum.splits)
  next
    case False
    with assms(1) g refl show ?thesis unfolding end_connection_def gone_def [symmetric] Let_def by auto
  qed
qed

lemma permitted_event:
  assumes "co_event net event co = Some co'" and "worker_event event"
    and p: "permits (co_engine co) (event_request event co)"
  shows "keeps_up co co'"
proof (cases event)
  case (Accepted socket)
  with assms(1) show ?thesis by (auto simp: co_event_def accept_connection_def refl)
next
  case (Delivered socket fm)
  show ?thesis
  proof (cases "om_find (co_connections co) socket")
    case (Some cn)
    then obtain cn' co1 where h: "handle_frame net socket fm cn co = Some (cn', co1)" and "co_engine co' = co_engine co1"
      using assms(1) Delivered by (auto simp: co_event_def)
    moreover have "permits (co_engine co) (frame_request fm cn (co_engine co))"
      using p Delivered Some by (simp add: permits_def event_request_def)
    ultimately show ?thesis using frame_handled [OF h] assms(2) Delivered by simp
  qed (use assms(1) Delivered in \<open>simp add: co_event_def refl\<close>)
next
  case (Disconnected socket)
  show ?thesis
  proof (cases "om_find (co_connections co) socket")
    case (Some cn)
    then have e: "end_connection net socket cn co = Some co'" using assms(1) Disconnected by (simp add: co_event_def)
    show ?thesis
    proof (rule connection_ended [OF e])
      fix q assume "cn_hello_done cn"
        and q: "loss_request FaultKind.PROCESS_DEATH (cn_worker cn) (cn_boot cn) q \<or> dispatch_request q"
      then have "event_request event co q" using Disconnected Some by (simp add: event_request_def)
      from permitsD [OF p this] q show "allowed q" by (cases q) auto
    qed
  qed (use assms(1) Disconnected in \<open>simp add: co_event_def refl\<close>)
qed

end

text \<open>A relation that every section of the worker plane maintains.\<close>

locale worker_relation = runtime_relation +
  assumes workers: "worker_request q \<Longrightarrow> allowed q"
begin

text \<open>The update that evidence for an uncontained resource asks for.\<close>

definition grants_at :: "Impl \<Rightarrow> bool" where
  "grants_at s \<longleftrightarrow> (\<forall>i r w b. om_find (resources s) i = Some r \<longrightarrow> \<not> (rr_quarantined r \<or> is_contained (rr_state r)) \<longrightarrow>
     grantable s (r\<lparr>rr_owner_worker := w, rr_owner_boot := b, rr_state := ResourceOperationalState.ACTIVE\<rparr>) (rr_generation r))"

lemma worker_permits:
  "worker_request q \<Longrightarrow> (case q of UpdateResource x g \<Rightarrow> grantable s x g | _ \<Rightarrow> allowed q)"
  using workers [of q] by (cases q) simp_all

lemma worker_event_permitted:
  assumes "grants_at (co_engine co)" and "worker_event event"
  shows "permits (co_engine co) (event_request event co)"
  unfolding permits_def
proof (intro allI impI)
  fix q assume "event_request event co q"
  from worker_event_requests [OF this assms(2)] assms(1)
  show "case q of UpdateResource x g \<Rightarrow> grantable (co_engine co) x g | _ \<Rightarrow> allowed q"
    using worker_permits [of q] by (auto simp: grants_at_def)
qed

lemma worker_evidence_handled:
  assumes "grants_at (co_engine co)"
  shows "keeps_up co (handle_evidence net socket payload cn co)"
proof (rule evidence_handled)
  fix ev r assume "evidence_accepted payload cn (co_engine co) ev r"
  then have found: "om_find (resources (co_engine co)) (we_resource ev) = Some r" by (simp add: evidence_accepted_def)
  show "permits (co_engine co) (evidence_request ev r)"
    unfolding permits_def
  proof (intro allI impI)
    fix q assume "evidence_request ev r q"
    from evidence_requests [OF this] assms found
    show "case q of UpdateResource x g \<Rightarrow> grantable (co_engine co) x g | _ \<Rightarrow> allowed q"
      using worker_permits [of q] by (auto simp: grants_at_def)
  qed
qed

lemma loss_followed:
  "lose_authority_locked w b detail t s = (lost, u) \<Longrightarrow> worker_authority_lost w b kind detail t s = Some (x, s') \<Longrightarrow> R u s'"
  by (rule after_loss) (auto intro: workers loss_is_worker)

lemma dispatched_by_worker: "keeps_up co (dispatch_and_settle net g co)"
  by (rule dispatched_and_settled) (auto intro: workers dispatch_is_worker)

lemma worker_event_kept:
  "co_event net event co = Some co' \<Longrightarrow> worker_event event \<Longrightarrow> grants_at (co_engine co) \<Longrightarrow> keeps_up co co'"
  by (rule permitted_event [OF _ _ worker_event_permitted])

lemma worker_run_kept:
  assumes "co_run co events co'" and "\<forall>(net, event) \<in> set events. worker_event event" and "\<And>s. grants_at s"
  shows "keeps_up co co'"
  using assms(1,2)
proof (induction rule: co_run.induct)
  case (co_step co events co' net event co'')
  with worker_event_kept [OF _ _ assms(3)] have "keeps_up co' co''" by auto
  with co_step show ?case by (auto intro: trans)
qed (rule refl)

end

section \<open>The control plane\<close>

text \<open>
  A relation that every section but the reshaping of domains maintains: the control plane, which has
  no command for those, maintains it as well.
\<close>

locale service_relation = worker_relation +
  assumes operators: "\<not> reshapes_domains q \<Longrightarrow> allowed q"
    and any_grant: "grantable s x g"
begin

lemma served: "locked q s = answer p \<Longrightarrow> \<not> reshapes_domains q \<Longrightarrow> R s (snd (complete p))"
  using completed [of q s "fst p" "snd p"] operators by simp

lemma operator_operations:
  "R s (snd (register_domain d s))"
  "R s (snd (register_isolation_domain idm s))"
  "R s (snd (register_failure_domain fd s))"
  "R s (snd (register_resource x s))"
  "R s (snd (update_resource x g s))"
  "R s (snd (register_dependency e s))"
  "R s (snd (authorize_degraded_mode c s))"
  "R s (snd (authorize_release y s))"
  unfolding register_domain_def register_isolation_domain_def register_failure_domain_def register_resource_def
    update_resource_def register_dependency_def authorize_degraded_mode_def authorize_release_def
  using served [OF locked.simps(2)] served [OF locked.simps(5)] served [OF locked.simps(7)]
    served [OF locked.simps(9)] served [OF locked.simps(10)] served [OF locked.simps(12)]
    served [OF locked.simps(28)] served [OF locked.simps(31)]
  by simp_all

lemma verified: "verify_containment g s = Some (x, s') \<Longrightarrow> R s s'"
proof -
  assume "verify_containment g s = Some (x, s')"
  then obtain p where "verify_containment_locked g s = Some p" and c: "complete p = (x, s')"
    by (auto simp: verify_containment_def)
  with served [of "VerifyContainment g" s p] show ?thesis by simp
qed

lemma published_then: "publish_fault ev s = (x, t) \<Longrightarrow> R t u \<Longrightarrow> R s u"
  using trans [OF operations(3) [OF operators]] by (metis reshapes_domains.simps snd_conv)

lemma contained: "authorize_containment i g s = Some (x, s') \<Longrightarrow> R s s'"
  by (erule authorized) (simp add: operators)

lemma operator_lost: "worker_authority_lost w b kind detail t s = Some (x, s') \<Longrightarrow> R s s'"
  by (erule authority_lost) (auto intro: workers loss_is_worker)

lemma republished: "retry_publish ev q published s = Some (x, s') \<Longrightarrow> R s s'"
  by (rule retry_publish.raw_induct [of "\<lambda>ev q published s (x, s'). R s s'" ev q published s "(x, s')", simplified])
    (auto simp: Let_def intro: refl published_then split: if_splits prod.splits)

lemma control_registrations:
  "R s (snd (control_register_domain args s))"
  "R s (snd (control_register_isolation_domain args s))"
  "R s (snd (control_register_failure_domain args s))"
  "R s (snd (control_register_resource args s))"
  "R s (snd (control_set_resource_owner args s))"
  "R s (snd (control_register_dependency args s))"
  "R s (snd (control_release args s))"
  unfolding control_register_domain_def control_register_isolation_domain_def control_register_failure_domain_def
    control_register_resource_def control_set_resource_owner_def control_register_dependency_def control_release_def
  by (auto simp: Let_def intro: refl operator_operations split: option.split)


lemma responded: "p = (x, s') \<Longrightarrow> R s (snd p) \<Longrightarrow> R s s'"
  by simp

lemma responded_with: "respond_with f p = (x, s') \<Longrightarrow> R s (snd p) \<Longrightarrow> R s s'"
  by (cases p) auto

lemma control_operated:
  assumes "control_operation usage kName bad run args s = Some (x, s')"
    and "\<And>i y t. run i s = Some (y, t) \<Longrightarrow> R s t"
  shows "R s s'"
  using assms refl by (auto simp: control_operation_def split: if_splits option.splits)

lemma control_operations:
  "control_publish_fault args s = Some (x, s') \<Longrightarrow> R s s'"
  "control_worker_lost args s = Some (x, s') \<Longrightarrow> R s s'"
  "control_evaluate args s = Some (x, s') \<Longrightarrow> R s s'"
  "control_contain args s = Some (x, s') \<Longrightarrow> R s s'"
  "control_verify args s = Some (x, s') \<Longrightarrow> R s s'"
  "control_degraded args s = Some (x, s') \<Longrightarrow> R s s'"
proof -
  show "control_publish_fault args s = Some (x, s') \<Longrightarrow> R s s'"
  proof -
    assume "control_publish_fault args s = Some (x, s')"
    then consider "s' = s"
      | ev published t y where "publish_fault ev s = (published, t)" "retry_publish ev id_invalid published t = Some (y, s')"
      by (auto simp: control_publish_fault_def Let_def split: if_splits option.splits prod.splits)
    then show ?thesis
      by cases (auto intro: refl published_then republished)
  qed
  show "control_worker_lost args s = Some (x, s') \<Longrightarrow> R s s'"
    by (auto simp: control_worker_lost_def intro: refl operator_lost split: if_splits option.splits)
  show "control_evaluate args s = Some (x, s') \<Longrightarrow> R s s'"
    unfolding control_evaluate_def by (erule control_operated) (auto intro: refl)
  show "control_contain args s = Some (x, s') \<Longrightarrow> R s s'"
    unfolding control_contain_def
    by (erule control_operated) (auto split: sum.splits intro: refl dest: contained)
  show "control_verify args s = Some (x, s') \<Longrightarrow> R s s'"
    unfolding control_verify_def by (erule control_operated) (auto dest: verified)
  show "control_degraded args s = Some (x, s') \<Longrightarrow> R s s'"
    unfolding control_degraded_def
    by (erule control_operated) (auto split: sum.splits intro: refl dest: responded_with [OF _ operator_operations(7)])
qed

lemma controlled: "execute_engine_control request s = Some (x, s') \<Longrightarrow> R s s'"
  unfolding execute_engine_control_def Let_def
  by (auto split: if_splits intro: refl dest: control_operations responded [OF _ control_registrations(1)]
    responded [OF _ control_registrations(2)] responded [OF _ control_registrations(3)]
    responded [OF _ control_registrations(4)] responded [OF _ control_registrations(5)]
    responded [OF _ control_registrations(6)] responded [OF _ control_registrations(7)])

lemma polled: "co_engine (snd (poll_peers net peers k co)) = co_engine co"
  by (induction net peers k co rule: poll_peers.induct)
    (auto split: sum.split prod.split, (metis post_engine(1) snd_conv)+)

lemma executed: "execute net request co = Some (x, co') \<Longrightarrow> keeps_up co co'"
  using polled [of net "map snd (co_peer_sockets co)" 0 co]
  by (auto simp: execute_def refl split: if_splits prod.splits dest: controlled)

lemma control_handled: "handle_control net socket payload co = Some co' \<Longrightarrow> keeps_up co co'"
  by (auto simp: handle_control_def refl split: sum.splits option.splits prod.splits dest: executed)

lemma event_kept:
  assumes "co_event net event co = Some co'"
  shows "keeps_up co co'"
proof (cases "worker_event event")
  case True
  with worker_event_kept [OF assms] show ?thesis by (simp add: grants_at_def any_grant)
next
  case False
  then obtain socket fm where "event = Delivered socket fm" "fm_kind fm = MessageKind.CONTROL_REQUEST"
    by (cases event) auto
  with assms control_handled show ?thesis
    by (auto simp: co_event_def handle_frame_def refl split: option.splits)
qed

lemma run_kept: "co_run co events co' \<Longrightarrow> keeps_up co co'"
  by (induction rule: co_run.induct) (auto intro: refl trans event_kept)

end

text \<open>
  Four relations that the service maintains: being a run of the runtime, and of the sections without
  the reshaping of domains; the order of the resource table; and the fences, next to the updates of
  resources that nothing fences. The fifth is a run of whatever sections an event is entitled to.
\<close>

interpretation runtime: service_relation "step\<^sup>*\<^sup>*" "\<lambda>_. True" "\<lambda>_ _ _. True"
proof unfold_locales
  show "step\<^sup>*\<^sup>* s (snd (update_resource_locked x g s))" for s x g
    using step.call [of "UpdateResource x g" s] by (simp add: answer_def r_into_rtranclp)
qed (blast intro: step.call step.between rtranclp_trans)+

interpretation entitled: runtime_relation "runs P" P "\<lambda>_ x g. P (UpdateResource x g)" for P
proof unfold_locales
  show "runs P s s'" if "locked q s = Some (r, s')" "P q" for q s r s'
    using that by (rule runs_call [OF runs_refl])
  show "runs P s s'" if "background s s'" for s s'
    using that by (rule runs_between [OF runs_refl])
  show "runs P s (snd (update_resource_locked x g s))" if "P (UpdateResource x g)" for s x g
    by (rule runs_call [OF runs_refl, of "UpdateResource x g" s]) (simp_all add: answer_def that)
qed (auto intro: runs_refl runs_trans)

interpretation operator: service_relation "runs (\<lambda>q. \<not> reshapes_domains q)" "\<lambda>q. \<not> reshapes_domains q" "\<lambda>_ _ _. True"
proof unfold_locales
  show "runs (\<lambda>q. \<not> reshapes_domains q) s (snd (update_resource_locked x g s))" for s x g
    by (rule entitled.grant) simp
  show "\<not> reshapes_domains q" if "worker_request q" for q using that by (cases q) simp_all
qed (auto intro: entitled.request entitled.between entitled.refl entitled.trans)

interpretation keying: service_relation keeps_keyed "\<lambda>q. \<not> reshapes_domains q" "\<lambda>_ _ _. True"
proof unfold_locales
  show "\<not> reshapes_domains q" if "worker_request q" for q using that by (cases q) simp_all
qed (auto simp: topology_keyed dest: locked_keyed background_frame [THEN frame_simps(7)])

interpretation fences: worker_relation "\<lambda>s s'. keyed (resources s) \<longrightarrow> keyed (resources s') \<and> keeps_fences {} s s'"
  worker_request "\<lambda>s x g. keyed (resources s) \<longrightarrow> (\<forall>r. om_find (resources s) (rr_id x) = Some r \<longrightarrow> \<not> fenced r)"
proof unfold_locales
  show "keyed (resources s) \<longrightarrow> keyed (resources s') \<and> keeps_fences {} s s'"
    if "locked q s = Some (r, s')" and "worker_request q" for q s r s'
    using locked_keyed [OF that(1)] locked_keeps [OF that(1)] that(2) by (cases q) simp_all
  show "keyed (resources s) \<longrightarrow> keyed (resources s') \<and> keeps_fences {} s s'" if "background s s'" for s s'
    using frame_simps(7) [OF background_frame [OF that]] by (simp add: keeps_refl)
  show "keyed (resources s) \<longrightarrow> keyed (resources (snd (update_resource_locked x g s))) \<and>
      keeps_fences {} s (snd (update_resource_locked x g s))"
    if "keyed (resources s) \<longrightarrow> (\<forall>r. om_find (resources s) (rr_id x) = Some r \<longrightarrow> \<not> fenced r)" for s x g
    using topology_keyed(6) [of s x g] update_resource_keeps [of x s g] that unfolding keeps_def by (metis singletonD)
qed (auto simp: keeps_refl intro: keeps_trans)

lemma fences_grant: "fences.grants_at s"
  unfolding fences.grants_at_def by (auto simp: fenced_def dest: keyed_found)

text \<open>Every event, worker plane or control plane, runs the sections it is entitled to.\<close>

lemma event_entitled:
  assumes "co_event net event co = Some co'"
  shows "runs (event_request event co) (co_engine co) (co_engine co')"
proof (cases "worker_event event")
  case True
  have "entitled.permits P s P" for P s
    by (auto simp: entitled.permits_def split: Request.split)
  with entitled.permitted_event [OF assms True] show ?thesis by blast
next
  case False
  then obtain socket fm where event: "event = Delivered socket fm" "fm_kind fm = MessageKind.CONTROL_REQUEST"
    by (cases event) auto
  show ?thesis
  proof (cases "om_find (co_connections co) socket")
    case (Some cn)
    then obtain co1 where h: "handle_control net socket (fm_payload fm) co = Some co1" and e: "co_engine co' = co_engine co1"
      using assms event by (auto simp: co_event_def handle_frame_def)
    show ?thesis
    proof (cases "decode_control_request (fm_payload fm)")
      case (Inl x)
      with h e show ?thesis by (auto simp: handle_control_def intro: runs_refl)
    next
      case (Inr request)
      have "runs (\<lambda>q. \<not> reshapes_domains q) (co_engine co) (co_engine co')"
        using operator.control_handled [OF h] e by simp
      then show ?thesis
        by (rule runs_mono) (simp add: event_request_def event Some frame_request_def Inr)
    qed
  qed (use assms event in \<open>simp add: co_event_def runs_refl\<close>)
qed

end
