(* ===== verification/Fcf_Coordinator_Serve.thy ===== *)
theory Fcf_Coordinator_Serve
  imports Fcf_Coordinator_Relations
begin

text \<open>
  The thread that serves one connection against the events of the service: the handlers leave the
  registrations of the connections alone, so serving a connection from its first frame to its end is
  the run of its events.
\<close>

section \<open>Handlers do not touch the registrations\<close>

abbreviation conns :: "(nat, Connection) omap \<Rightarrow> Coordinator \<Rightarrow> Coordinator" where
  "conns m \<equiv> co_connections_update (\<lambda>_. m)"

lemma updates_conns [simp]:
  "co_engine_update f (conns m co) = conns m (co_engine_update f co)"
  "co_peer_sockets_update g (conns m co) = conns m (co_peer_sockets_update g co)"
  "co_shutdown_requested_update h (conns m co) = conns m (co_shutdown_requested_update h co)"
  "co_sent_update k (conns m co) = conns m (co_sent_update k co)"
  by simp_all

lemma post_conns [simp]: "post net socket kind payload (conns m co) = map_prod id (conns m) (post net socket kind payload co)"
  by (simp add: post_def Let_def)

lemma reject_conns [simp]: "reject net socket code detail (conns m co) = conns m (reject net socket code detail co)"
  by (simp add: reject_def split: sum.split)

lemma over_peers_conns [simp]:
  "dispatch_over_peers net g (conns m co) = map_prod id (conns m) (dispatch_over_peers net g co)"
  by (simp add: dispatch_over_peers_def case_prod_beta Let_def)

lemma settle_conns [simp]: "dispatch_and_settle net g (conns m co) = conns m (dispatch_and_settle net g co)"
  by (cases "dispatch_over_peers net g co") (simp add: dispatch_and_settle_def Let_def split: sum.split)

lemma hello_conns [simp]:
  "handle_hello net socket payload cn (conns m co) = map_prod id (conns m) (handle_hello net socket payload cn co)"
  by (simp add: handle_hello_def case_prod_beta Let_def split: sum.split)

lemma fenced_conns [simp]: "fenced_evidence net socket ev (conns m co) = conns m (fenced_evidence net socket ev co)"
  by (simp add: fenced_evidence_def case_prod_beta Let_def split: sum.split)

lemma granted_conns [simp]:
  "grant_evidence net socket ev r (conns m co) = conns m (grant_evidence net socket ev r co)"
proof -
  obtain updated s where u: "update_resource (r\<lparr>rr_owner_worker := we_worker ev, rr_owner_boot := we_boot ev,
      rr_state := ResourceOperationalState.ACTIVE\<rparr>) (rr_generation r) (co_engine co) = (updated, s)"
    by (rule prod.exhaust)
  show ?thesis
  proof (cases updated)
    case (Inl e)
    with u show ?thesis by (simp add: grant_evidence_def)
  next
    case (Inr x)
    obtain published t where "publish_resource_evidence (we_resource ev) (rr_generation x) EvidenceFreshness.FRESH
        (we_sequence ev) (we_mechanism ev) (''worker '' @ str_WorkerBootId (we_boot ev)) s = (published, t)"
      by (rule prod.exhaust)
    with u Inr show ?thesis by (cases published) (simp_all add: grant_evidence_def Let_def split: sum.split)
  qed
qed

lemma evidence_conns [simp]:
  "handle_evidence net socket payload cn (conns m co) = conns m (handle_evidence net socket payload cn co)"
proof (cases "decode_worker_evidence payload")
  case (Inr ev)
  then show ?thesis
    by (cases "om_find (resources (co_engine co)) (we_resource ev)") (simp_all add: handle_evidence_def)
qed (simp add: handle_evidence_def)

lemma report_conns [simp]:
  "handle_fault_report net socket payload cn (conns m co) =
     map_option (conns m) (handle_fault_report net socket payload cn co)"
  by (simp add: handle_fault_report_def case_prod_beta Let_def split: sum.split option.split)

lemma answers_conns [simp]:
  "handle_ack net socket payload cn (conns m co) = conns m (handle_ack net socket payload cn co)"
  "handle_result net socket payload cn (conns m co) = conns m (handle_result net socket payload cn co)"
  by (simp_all add: handle_ack_def handle_result_def case_prod_beta split: sum.split)

lemma polled_conns [simp]:
  "poll_peers net peers k (conns m co) = map_prod id (conns m) (poll_peers net peers k co)"
proof (induction net peers k co rule: poll_peers.induct)
  case (2 net peer peers k co)
  obtain st co1 where "post net peer MessageKind.QUERY_REQUEST [] co = (st, co1)"
    by (cases "post net peer MessageKind.QUERY_REQUEST [] co")
  with 2 show ?case by (cases st) simp_all
qed simp

lemma control_conns [simp]:
  "handle_control net socket payload (conns m co) = map_option (conns m) (handle_control net socket payload co)"
  by (simp add: handle_control_def execute_def case_prod_beta split: sum.split option.split)

lemma frame_conns [simp]:
  "handle_frame net socket fm cn (conns m co) = map_option (map_prod id (conns m)) (handle_frame net socket fm cn co)"
  by (cases "fm_kind fm") (simp_all add: handle_frame_def option.map_comp comp_def)

section \<open>What the registrations are\<close>

definition registry :: "Coordinator \<Rightarrow> (nat, Connection) omap \<times> (WorkerBootId, nat) omap \<times> nat list \<times> nat \<times> nat" where
  "registry co = (co_connections co, co_peer_sockets co, co_live_sockets co, co_active_connections co,
     co_max_connections co)"

lemma registry_updates [simp]:
  "registry (co_engine_update f co) = registry co" "registry (co_sent_update k co) = registry co"
  "registry (co_shutdown_requested_update h co) = registry co"
  by (simp_all add: registry_def)

lemma post_registry [simp]:
  "registry (snd (post net socket kind payload co)) = registry co"
  "registry (reject net socket code detail co) = registry co"
  by (simp_all add: post_def reject_def Let_def split: sum.split)

lemma settle_registry [simp]: "registry (dispatch_and_settle net g co) = registry co"
proof -
  have "registry (snd (dispatch_over_peers net g co)) = registry co"
    by (simp add: dispatch_over_peers_def case_prod_beta Let_def)
  then show ?thesis
    by (cases "dispatch_over_peers net g co") (simp add: dispatch_and_settle_def Let_def split: sum.split)
qed

lemma evidence_registry [simp]:
  "registry (fenced_evidence net socket ev co) = registry co"
  "registry (grant_evidence net socket ev r co) = registry co"
  "registry (handle_evidence net socket payload cn co) = registry co"
proof -
  show fenced: "registry (fenced_evidence net socket ev co) = registry co" for ev
    by (simp add: fenced_evidence_def case_prod_beta Let_def split: sum.split)
  show granted: "registry (grant_evidence net socket ev r co) = registry co" for ev r
    by (simp add: grant_evidence_def Let_def split: sum.split prod.split)
  show "registry (handle_evidence net socket payload cn co) = registry co"
    by (simp add: handle_evidence_def fenced granted split: sum.split option.split)
qed

lemma report_registry:
  "handle_fault_report net socket payload cn co = Some co' \<Longrightarrow> registry co' = registry co"
  by (auto simp: handle_fault_report_def split: if_splits sum.splits prod.splits option.splits)

lemma answers_registry [simp]:
  "registry (handle_ack net socket payload cn co) = registry co"
  "registry (handle_result net socket payload cn co) = registry co"
  by (simp_all add: handle_ack_def handle_result_def split: sum.split prod.split)

lemma polled_registry: "registry (snd (poll_peers net peers k co)) = registry co"
proof (induction net peers k co rule: poll_peers.induct)
  case (2 net peer peers k co)
  obtain st co1 where p: "post net peer MessageKind.QUERY_REQUEST [] co = (st, co1)"
    by (cases "post net peer MessageKind.QUERY_REQUEST [] co")
  with post_registry(1) [of net peer MessageKind.QUERY_REQUEST "[]" co] have "registry co1 = registry co" by simp
  with p 2 show ?case by (cases st) simp_all
qed simp

lemma control_registry:
  assumes "handle_control net socket payload co = Some co'"
  shows "registry co' = registry co"
proof -
  have "registry co1 = registry co" if "execute net request co = Some (x, co1)" for request x co1
    using that polled_registry [of net "map snd (co_peer_sockets co)" 0 co]
    by (auto simp: execute_def split: if_splits prod.splits)
  with assms show ?thesis by (auto simp: handle_control_def split: sum.splits option.splits prod.splits)
qed

text \<open>Only a \<open>HELLO\<close> registers a peer.\<close>

lemma other_frame_registry:
  assumes "handle_frame net socket fm cn co = Some (cn', co')" and "fm_kind fm \<noteq> MessageKind.HELLO"
  shows "cn' = cn \<and> registry co' = registry co"
  using assms by (cases "fm_kind fm") (auto simp: handle_frame_def dest: report_registry control_registry)

lemma hello_registry:
  "handle_hello net socket payload cn co = (cn', co') \<Longrightarrow>
     (cn' = cn \<and> registry co' = registry co) \<or>
     (\<exists>hello. decode_hello payload = Inr hello \<and> cn_hello_done cn' \<and> cn_boot cn' = hm_boot hello \<and>
        registry co' = registry (co\<lparr>co_peer_sockets := om_put (hm_boot hello) socket (co_peer_sockets co)\<rparr>))"
  by (auto simp: handle_hello_def Let_def split: sum.splits prod.splits) (auto simp: registry_def)

section \<open>Serving a connection is the run of its events\<close>

lemma om_erase_put [simp]: "om_erase k (om_put k v m) = om_erase k m"
  by (induction k v m rule: om_put.induct) (auto simp: om_erase_def)

lemma serve_conns:
  "serve_frames net socket fms cn (conns m co) = map_option (map_prod id (conns m)) (serve_frames net socket fms cn co)"
  by (induction net socket fms cn co rule: serve_frames.induct) (auto split: option.split)

lemma end_conns:
  "om_erase socket m = om_erase socket m' \<Longrightarrow>
     end_connection net socket cn (conns m co) = end_connection net socket cn (conns m' co)"
  by (cases "cn_hello_done cn") (auto simp: end_connection_def Let_def split: option.split sum.split prod.split)

abbreviation deliveries :: "Network \<Rightarrow> nat \<Rightarrow> Frame list \<Rightarrow> (Network \<times> Event) list" where
  "deliveries net socket \<equiv> map (\<lambda>fm. (net, Delivered socket fm))"

lemma delivered_step:
  assumes "handle_frame net socket fm cn co = Some (cn', co')"
  shows "co_event net (Delivered socket fm) (conns (om_put socket cn m) co) = Some (conns (om_put socket cn' m) co')"
  using assms by (simp add: co_event_def)

lemma deliveries_run:
  assumes "serve_frames net socket fms cn co = Some (cn', co')"
    and "co_run start events (conns (om_put socket cn m) co)"
  shows "co_run start (events @ deliveries net socket fms) (conns (om_put socket cn' m) co')"
  using assms
proof (induction net socket fms cn co arbitrary: events rule: serve_frames.induct)
  case (2 net socket fm fms cn co)
  then obtain cn1 co1 where h: "handle_frame net socket fm cn co = Some (cn1, co1)"
    and rest: "serve_frames net socket fms cn1 co1 = Some (cn', co')" by (auto split: option.splits)
  from "2.IH" [OF h refl rest co_step [OF "2.prems"(2) delivered_step [OF h]]] show ?case by simp
qed simp

end
