(* ===== verification/Fcf_Coordinator_Props.thy ===== *)
theory Fcf_Coordinator_Props
  imports Fcf_Coordinator_Serve Fcf_Engine_Demo Fcf_Protocol_Props
begin

text \<open>
  The properties of the coordinator service over runs in which the frames of its connections
  interleave, and of the single handlers where the guarantees of the service stop.
\<close>

section \<open>A service with one connection\<close>

definition service_over :: "Impl \<Rightarrow> Coordinator" where
  "service_over s = \<lparr>co_engine = s, co_stopped = False, co_max_connections = 8, co_active_connections = 0,
     co_live_sockets = [], co_peer_sockets = [], co_shutdown_requested = False, co_connections = [], co_sent = []\<rparr>"

definition quiet_network :: Network where
  "quiet_network = \<lparr>nw_socket = (\<lambda>_. \<lparr>sk_valid = True, sk_residual = []\<rparr>), nw_written = (\<lambda>_ _ _. 0)\<rparr>"

definition frame_of :: "MessageKind \<Rightarrow> u8 list \<Rightarrow> Frame" where
  "frame_of kind payload = \<lparr>fm_version = kWireProtocolVersion, fm_kind = kind, fm_payload = payload\<rparr>"

abbreviation hello_events :: "u8 list \<Rightarrow> (Network \<times> Event) list" where
  "hello_events payload \<equiv>
     [(quiet_network, Accepted 0), (quiet_network, Delivered 0 (frame_of MessageKind.HELLO payload))]"

lemma co_runs: "co_run co [] co"
  "co_run co events co' \<Longrightarrow> co_event net event co' = Some co'' \<Longrightarrow> events' = events @ [(net, event)] \<Longrightarrow>
     co_run co events' co''"
  by (auto intro: co_start co_step)

lemma hello_run: "\<exists>co'. co_run (service_over s) (hello_events payload) co'"
proof -
  obtain co1 where a: "co_event quiet_network (Accepted 0) (service_over s) = Some co1"
    by (simp add: co_event_def)
  obtain co2 where b: "co_event quiet_network (Delivered 0 (frame_of MessageKind.HELLO payload)) co1 = Some co2"
    by (cases "om_find (co_connections co1) 0") (auto simp: co_event_def handle_frame_def frame_of_def)
  from co_runs(2) [OF co_runs(2) [OF co_runs(1) a] b] show ?thesis by auto
qed

lemma hello_payload: "\<exists>payload. encode_hello sample_hello = Inr payload"
proof -
  have "bw_ok (write_hello sample_hello (wr_u32 kProtocolFormatVersion ByteWriter_default))" by code_simp
  then show ?thesis unfolding encode_hello_def by (rule message_encodes)
qed

section \<open>The service refines the runtime\<close>

text \<open>
  C10. The service refines the runtime, event by event. Whatever frames have arrived on whatever
  connections, in whatever order, with sends failing or not, the next event moves the runtime by
  locked sections the event is entitled to and by what happens between sections (flushes and drops of
  what is staged, readings of the clock), and by nothing else: a \<open>HELLO\<close> only registers the
  incarnation it names; evidence is published, and its resource handed over, only behind a handshake of
  its incarnation in the current epoch, for a known resource and its current generation, and handed
  over only when the resource is neither quarantined nor contained; a report is published under the
  name of the reporter, and only a new fault that is current is contained and dispatched; answers to
  actions count only behind a handshake; the end of a handshaken connection takes the authority of that
  incarnation; operator commands never reshape domains; other frames run no section. So a run of
  the service is a run of the runtime, and reachable states stay reachable.
\<close>

theorem service_refines_runtime:
  assumes "co_run co events co'" and "co_event net event co' = Some co''"
  shows "runs (event_request event co') (co_engine co') (co_engine co'') \<and>
    step\<^sup>*\<^sup>* (co_engine co) (co_engine co'') \<and>
    (reachable (co_engine co) \<longrightarrow> reachable (co_engine co''))"
proof -
  from runtime.run_kept [OF co_run.co_step [OF assms]]
  have steps: "step\<^sup>*\<^sup>* (co_engine co) (co_engine co'')" .
  then have "reachable (co_engine co) \<longrightarrow> reachable (co_engine co'')"
    by (induction rule: rtranclp_induct) (auto intro: reachable.stepped)
  with steps event_entitled [OF assms(2)] show ?thesis by blast
qed

theorem service_refines_runtime_witness:
  "\<exists>payload co1 co2. decode_hello payload = Inr sample_hello \<and>
     co_run (service_over fresh_runtime) [(quiet_network, Accepted 0)] co1 \<and>
     co_event quiet_network (Delivered 0 (frame_of MessageKind.HELLO payload)) co1 = Some co2 \<and>
     runs (\<lambda>q. \<exists>w b ep k. q = RegisterWorker w b ep k) (co_engine co1) (co_engine co2) \<and> reachable (co_engine co2)"
proof -
  obtain payload where p: "encode_hello sample_hello = Inr payload" using hello_payload by blast
  then have d: "decode_hello payload = Inr sample_hello"
    using rc_hello.message_roundtrip by (simp add: encode_hello_def decode_hello_def sample_hello_def id_valid_def)
  obtain co1 where a: "co_event quiet_network (Accepted 0) (service_over fresh_runtime) = Some co1"
    by (simp add: co_event_def)
  obtain co2 where b: "co_event quiet_network (Delivered 0 (frame_of MessageKind.HELLO payload)) co1 = Some co2"
    by (cases "om_find (co_connections co1) 0") (auto simp: co_event_def handle_frame_def frame_of_def)
  have run: "co_run (service_over fresh_runtime) [(quiet_network, Accepted 0)] co1"
    by (rule co_runs(2) [OF co_runs(1) a]) simp
  have "reachable (co_engine (service_over fresh_runtime))"
    by (simp add: service_over_def fresh_runtime_def reachable.constructed)
  with service_refines_runtime [OF run b]
  have r: "runs (event_request (Delivered 0 (frame_of MessageKind.HELLO payload)) co1) (co_engine co1) (co_engine co2)"
    "reachable (co_engine co2)" by blast+
  from r(1) have "runs (\<lambda>q. \<exists>w b ep k. q = RegisterWorker w b ep k) (co_engine co1) (co_engine co2)"
    by (rule runs_mono) (auto simp: event_request_def frame_request_def frame_of_def)
  with r(2) run b d show ?thesis by blast
qed

text \<open>
  C13. The resource table is well formed along every run of the service, operator commands
  included: in key order and every record under its own identity, which is what the blast radius
  computation takes for granted. The service has no command for the updates and removals of domains
  that can break it.
\<close>

theorem resource_table_well_formed:
  assumes "co_run co events co'" and "resources_keyed (rs_topology (im_state (co_engine co)))"
  shows "resources_keyed (rs_topology (im_state (co_engine co')))"
  using keying.run_kept [OF assms(1)] assms(2) by (simp add: resources_keyed_iff)

theorem resource_table_well_formed_witness:
  "\<exists>co'. co_run (service_over demo_runtime) (hello_events []) co' \<and>
     resources_keyed (rs_topology (im_state (co_engine co')))"
proof -
  obtain co' where run: "co_run (service_over demo_runtime) (hello_events []) co'" using hello_run by blast
  from resource_table_well_formed [OF run] run demo_keyed show ?thesis by (auto simp: service_over_def)
qed

section \<open>Workers cannot lift a fence\<close>

text \<open>
  C11. No sequence of frames from workers, of new connections and of lost ones lifts a
  fence: along every run without a control request, a quarantined resource in a contained state is
  still there, quarantined and contained, at the end. Only the control plane can lift it.
\<close>

theorem workers_keep_fences:
  assumes "co_run co events co'"
    and "\<forall>(net, event) \<in> set events. worker_event event"
    and "resources_keyed (rs_topology (im_state (co_engine co)))"
    and "om_find (resources (co_engine co)) i = Some r" and "rr_quarantined r" and "is_contained (rr_state r)"
  shows "\<exists>r'. om_find (resources (co_engine co')) i = Some r' \<and> rr_quarantined r' \<and> is_contained (rr_state r')"
  using fences.worker_run_kept [OF assms(1,2) fences_grant] assms(3-)
  unfolding resources_keyed_iff keeps_def fenced_def by blast

theorem workers_keep_fences_witness:
  "\<exists>co' r. co_run (service_over fenced_runtime) (hello_events []) co' \<and>
     om_find (resources (co_engine co')) (Id 5) = Some r \<and> rr_quarantined r \<and> is_contained (rr_state r)"
proof -
  obtain co' where run: "co_run (service_over fenced_runtime) (hello_events []) co'" using hello_run by blast
  let ?r = "(demo_resource 5)\<lparr>rr_quarantined := True, rr_state := ResourceOperationalState.FENCED\<rparr>"
  have found: "om_find (resources (co_engine (service_over fenced_runtime))) (Id 5) = Some ?r"
    by (simp add: service_over_def fenced_runtime_def)
  have "resources_keyed (rs_topology (im_state (co_engine (service_over fenced_runtime))))"
    by (simp add: service_over_def fenced_runtime_def resources_keyed_def om_wf_def demo_resource_def)
  from workers_keep_fences [OF run _ this found] run show ?thesis
    by (auto simp: frame_of_def is_contained_def)
qed

end
