(* ===== verification/Fcf_Coordinator_Peers.thy ===== *)
theory Fcf_Coordinator_Peers
  imports Fcf_Coordinator_Props
begin

text \<open>
  The registrations of the service: serving a connection is the run of its events, which connections
  a peer entry may name, and the second \<open>HELLO\<close> that breaks this.
\<close>

section \<open>A served connection\<close>

text \<open>
  The loop of the thread that serves a connection and the interleaved model agree: when
  an admitted connection is served from its first frame to its end without another one in between,
  the service ends in the state that the events of the connection - accepted, one delivery per frame
  that its socket yields, disconnected - lead to.
\<close>

theorem served_connection_is_its_events:
  assumes "\<not> co_stopped co" and "co_active_connections co < co_max_connections co"
    and served: "serve_connection net socket arrivals (accept_connection socket co) = Some co'"
  shows "co_run co ((net, Accepted socket) #
      deliveries net socket (fst (receive_frames arrivals (nw_socket net socket))) @ [(net, Disconnected socket)]) co'"
proof -
  let ?fms = "fst (receive_frames arrivals (nw_socket net socket))" and ?co = "accept_connection socket co"
  define m where "m = co_connections co"
  have c: "co_connections ?co = om_put socket Connection_default m"
    using assms(1,2) by (simp add: accept_connection_def m_def)
  then have start: "?co = conns (om_put socket Connection_default m) ?co" by simp
  from served obtain cn1 co1 where f: "serve_frames net socket ?fms Connection_default ?co = Some (cn1, co1)"
    and e: "end_connection net socket cn1 co1 = Some co'"
    by (auto simp: serve_connection_def split: option.splits)
  have co1: "co1 = conns (om_put socket Connection_default m) co1"
    using f serve_conns [of net socket ?fms Connection_default "om_put socket Connection_default m" ?co] start by simp
  have "co_run co [(net, Accepted socket)] (conns (om_put socket Connection_default m) ?co)"
    using co_step [OF co_start, of net "Accepted socket" co ?co] start by (simp add: co_event_def)
  from deliveries_run [OF f this]
  have run: "co_run co ((net, Accepted socket) # deliveries net socket ?fms) (conns (om_put socket cn1 m) co1)" by simp
  have "end_connection net socket cn1 (conns (om_put socket cn1 m) co1) = Some co'"
    using e co1 end_conns [of socket "om_put socket cn1 m" "om_put socket Connection_default m" net cn1 co1] by simp
  then have "co_event net (Disconnected socket) (conns (om_put socket cn1 m) co1) = Some co'"
    by (simp add: co_event_def)
  from co_step [OF run this] show ?thesis by simp
qed

text \<open>A connection that closes before it sends anything.\<close>

theorem served_connection_is_its_events_witness:
  "\<exists>co'. serve_connection quiet_network 3 [] (accept_connection 3 (service_over fresh_runtime)) = Some co' \<and>
     co_run (service_over fresh_runtime) [(quiet_network, Accepted 3), (quiet_network, Disconnected 3)] co'"
proof -
  have none: "fst (receive_frames [] (nw_socket quiet_network 3)) = []" by code_simp
  then obtain co' where s: "serve_connection quiet_network 3 [] (accept_connection 3 (service_over fresh_runtime)) = Some co'"
    by (auto simp: serve_connection_def end_connection_def Connection_default_def)
  from served_connection_is_its_events [OF _ _ s] none s show ?thesis by (auto simp: service_over_def)
qed

section \<open>Peers\<close>

text \<open>
  Every peer entry names a connection that is open and that introduced itself under the entry's boot;
  the counter and the list of sockets agree with the open connections.
\<close>

definition peers_open :: "Coordinator \<Rightarrow> bool" where
  "peers_open co \<longleftrightarrow> (\<forall>b socket. om_find (co_peer_sockets co) b = Some socket \<longrightarrow>
     (\<exists>cn. om_find (co_connections co) socket = Some cn \<and> cn_hello_done cn \<and> cn_boot cn = b))"

definition connections_counted :: "Coordinator \<Rightarrow> bool" where
  "connections_counted co \<longleftrightarrow> distinct (co_live_sockets co) \<and>
     co_active_connections co = length (co_live_sockets co) \<and>
     co_active_connections co \<le> co_max_connections co \<and>
     (\<forall>socket. socket \<in> set (co_live_sockets co) \<longleftrightarrow> om_find (co_connections co) socket \<noteq> None)"

text \<open>A new connection has a socket of its own, and a connection introduces itself once.\<close>

fun orderly :: "Coordinator \<Rightarrow> Event \<Rightarrow> bool" where
  "orderly co (Accepted socket) = (om_find (co_connections co) socket = None)"
| "orderly co (Delivered socket fm) =
     (fm_kind fm = MessageKind.HELLO \<longrightarrow>
        (case om_find (co_connections co) socket of None \<Rightarrow> True | Some cn \<Rightarrow> \<not> cn_hello_done cn))"
| "orderly co (Disconnected socket) = True"

inductive orderly_run :: "Coordinator \<Rightarrow> (Network \<times> Event) list \<Rightarrow> Coordinator \<Rightarrow> bool" where
  orderly_start: "orderly_run co [] co"
| orderly_step: "orderly_run co events co' \<Longrightarrow> orderly co' event \<Longrightarrow> co_event net event co' = Some co'' \<Longrightarrow>
     orderly_run co (events @ [(net, event)]) co''"

definition registered_well :: "Coordinator \<Rightarrow> bool" where
  "registered_well co \<longleftrightarrow> peers_open co \<and> connections_counted co"

lemma registry_determines:
  assumes "registry co = registry co'"
  shows "peers_open co = peers_open co'" "connections_counted co = connections_counted co'"
  using assms by (simp_all add: registry_def peers_open_def connections_counted_def)

lemma delivered_keeps:
  assumes "orderly co (Delivered socket fm)" and "co_event net (Delivered socket fm) co = Some co'"
    and "registered_well co"
  shows "registered_well co'"
proof (cases "om_find (co_connections co) socket")
  case None
  with assms show ?thesis by (simp add: co_event_def)
next
  case (Some cn)
  with assms(2) obtain cn1 co1 where h: "handle_frame net socket fm cn co = Some (cn1, co1)"
    and co': "co' = conns (om_put socket cn1 (co_connections co1)) co1" by (auto simp: co_event_def)
  consider "cn1 = cn" "registry co1 = registry co"
    | b where "\<not> cn_hello_done cn" "cn_hello_done cn1" "cn_boot cn1 = b"
      "registry co1 = registry (co\<lparr>co_peer_sockets := om_put b socket (co_peer_sockets co)\<rparr>)"
    using other_frame_registry [OF h] hello_registry [of net socket "fm_payload fm" cn co cn1 co1] h assms(1) Some
    by (cases "fm_kind fm = MessageKind.HELLO") (auto simp: handle_frame_def)
  then show ?thesis
  proof cases
    case 1
    then show ?thesis using assms(3) Some
      by (simp add: co' registered_well_def peers_open_def connections_counted_def registry_def) (metis option.inject)
  next
    case 2
    then show ?thesis using assms(3) Some
      by (simp add: co' registered_well_def peers_open_def connections_counted_def registry_def) (metis option.inject)
  qed
qed

lemma accepted_keeps:
  assumes "orderly co (Accepted socket)" and "registered_well co"
  shows "registered_well (accept_connection socket co)"
proof -
  have "om_find (co_peer_sockets co) b \<noteq> Some socket" for b
    using assms unfolding registered_well_def peers_open_def by fastforce
  then show ?thesis
    using assms by (auto simp: accept_connection_def registered_well_def peers_open_def connections_counted_def)
qed

lemma ended_registry:
  "end_connection net socket cn co = Some co' \<Longrightarrow>
     registry co' = (om_erase socket (co_connections co),
       if cn_hello_done cn then om_erase (cn_boot cn) (co_peer_sockets co) else co_peer_sockets co,
       remove1 socket (co_live_sockets co), co_active_connections co - 1, co_max_connections co)"
proof (cases "cn_hello_done cn")
  case True
  have [simp]: "registry (conns m co) = (m, snd (registry co))" for m co by (simp add: registry_def)
  have [simp]: "registry (co\<lparr>co_peer_sockets := p, co_live_sockets := l, co_active_connections := n\<rparr>) =
      (co_connections co, p, l, n, co_max_connections co)" for co p l n by (simp add: registry_def)
  assume "end_connection net socket cn co = Some co'"
  with True show ?thesis by (auto simp: end_connection_def Let_def split: option.splits prod.splits sum.splits)
qed (auto simp: end_connection_def Let_def registry_def)

lemma disconnected_keeps:
  assumes "om_find (co_connections co) socket = Some cn" and "end_connection net socket cn co = Some co'"
    and "registered_well co"
  shows "registered_well co'"
proof -
  note r = ended_registry [OF assms(2), unfolded registry_def prod.inject]
  have owner: "cn_hello_done cn \<and> cn_boot cn = b" if "om_find (co_peer_sockets co) b = Some socket" for b
    using that assms(1,3) unfolding registered_well_def peers_open_def by fastforce
  have "peers_open co'"
    using assms(3) owner unfolding registered_well_def peers_open_def
    by (auto simp: r split: if_splits)
  moreover have "connections_counted co'"
    using assms(1,3) unfolding registered_well_def connections_counted_def
    by (auto simp: r length_remove1 set_remove1_eq)
  ultimately show ?thesis by (simp add: registered_well_def)
qed

lemma event_registered:
  assumes "orderly co event" and "co_event net event co = Some co'" and "registered_well co"
  shows "registered_well co'"
proof (cases event)
  case (Accepted socket)
  with assms accepted_keeps show ?thesis by (auto simp: co_event_def)
next
  case (Delivered socket fm)
  with assms delivered_keeps show ?thesis by blast
next
  case (Disconnected socket)
  with assms disconnected_keeps show ?thesis by (auto simp: co_event_def split: option.splits)
qed

text \<open>
  C14. The peer table never outlives the connections: as long as every connection has a socket of
  its own and introduces itself at most once, each entry of the table the executor dispatches over
  names a connection that is open and that introduced itself as the incarnation of the entry. With it
  the limit holds: no more connections are open than configured, and they are counted exactly.
\<close>

theorem peers_are_open_connections:
  assumes "orderly_run co events co'" and "registered_well co"
  shows "registered_well co'"
  using assms by (induction rule: orderly_run.induct) (auto intro: event_registered)

theorem peers_are_open_connections_witness:
  "\<exists>payload co'. encode_hello sample_hello = Inr payload \<and>
     orderly_run (service_over fresh_runtime) (hello_events payload) co' \<and> registered_well co'"
proof -
  obtain payload where p: "encode_hello sample_hello = Inr payload" using hello_payload by blast
  let ?co = "accept_connection 0 (service_over fresh_runtime)" and ?hello = "Delivered 0 (frame_of MessageKind.HELLO payload)"
  have first: "orderly_run (service_over fresh_runtime) [(quiet_network, Accepted 0)] ?co"
    using orderly_step [OF orderly_start, of "service_over fresh_runtime" "Accepted 0" quiet_network ?co]
    by (simp add: service_over_def co_event_def)
  have new: "om_find (co_connections ?co) 0 = Some Connection_default"
    by (simp add: accept_connection_def service_over_def)
  then obtain co' where "co_event quiet_network ?hello ?co = Some co'"
    by (auto simp: co_event_def handle_frame_def frame_of_def)
  moreover have "orderly ?co ?hello" using new by (simp add: Connection_default_def)
  ultimately have run: "orderly_run (service_over fresh_runtime) (hello_events payload) co'"
    using orderly_step [OF first] by simp
  have "registered_well (service_over fresh_runtime)"
    by (simp add: registered_well_def peers_open_def connections_counted_def service_over_def)
  from peers_are_open_connections [OF run this] run p show ?thesis by blast
qed

text \<open>
  C16. A connection that introduces itself twice breaks the table: once it has introduced itself
  as one incarnation and a second \<open>HELLO\<close> for another boot is accepted, closing the connection erases only
  the entry of the second. The entry of the first keeps naming the closed socket, which the executor
  and \<open>poll-workers\<close> go on to dereference.
\<close>

theorem second_hello_leaves_dangling_peer:
  assumes "om_find (co_connections co) socket = Some cn" and "om_find (co_peer_sockets co) b = Some socket"
    and "fm_kind fm = MessageKind.HELLO" and "decode_hello (fm_payload fm) = Inr hello" and "hm_boot hello \<noteq> b"
    and "register_worker (hm_worker hello) (hm_boot hello) (hm_endpoint hello) (hm_sequence hello) (co_engine co) = (Inr w, s)"
    and "co_event net (Delivered socket fm) co = Some co1" and "co_event net' (Disconnected socket) co1 = Some co2"
  shows "om_find (co_peer_sockets co2) b = Some socket \<and> om_find (co_connections co2) socket = None"
proof -
  obtain cn1 co' where h: "handle_hello net socket (fm_payload fm) cn co = (cn1, co')"
    by (cases "handle_hello net socket (fm_payload fm) cn co")
  then have boot: "cn_hello_done cn1" "cn_boot cn1 = hm_boot hello"
    and reg: "registry co' = registry (co\<lparr>co_peer_sockets := om_put (hm_boot hello) socket (co_peer_sockets co)\<rparr>)"
    using assms(4,6) by (auto simp: handle_hello_def Let_def split: sum.splits) (auto simp: registry_def)
  have co1: "co1 = conns (om_put socket cn1 (co_connections co')) co'"
    using assms(1,3,7) h by (simp add: co_event_def handle_frame_def)
  have "end_connection net' socket cn1 co1 = Some co2"
    using assms(8) by (simp add: co_event_def co1)
  note r = ended_registry [OF this, unfolded registry_def prod.inject]
  show ?thesis
    using reg assms(2,5) boot by (simp add: r co1 registry_def)
qed

text \<open>A runtime without resources answers the loss of an incarnation without consulting the blast radius.\<close>

lemma loss_without_resources:
  assumes "resources s = []"
  shows "\<exists>x s'. worker_authority_lost w b kind detail t s = Some (x, s')"
proof -
  have "loss_subject b [] = id_invalid" by (simp add: loss_subject_def)
  then have "\<exists>y u. lose_authority_locked w b detail t s = (Inl y, u)"
    using assms by (auto simp: lose_authority_locked_def id_valid_def Let_def split: option.split)
  then show ?thesis by (auto simp: worker_authority_lost_def)
qed

lemma ends_when_answered:
  assumes "worker_authority_lost (cn_worker cn) (cn_boot cn) FaultKind.PROCESS_DEATH
      ''worker connection closed without graceful retirement'' 0 (co_engine co) = Some (x, s)"
  shows "\<exists>co'. end_connection net socket cn co = Some co'"
  using assms by (cases x) (simp_all add: end_connection_def Let_def)

lemma ends_without_resources:
  "resources (co_engine co) = [] \<Longrightarrow> \<exists>co'. end_connection net socket cn co = Some co'"
  using loss_without_resources [of "co_engine co"] ends_when_answered by blast

lemma register_on_fresh:
  assumes "id_valid w" and "id_valid b"
  shows "\<exists>x t. register_worker w b endpoint k fresh_runtime = (Inr x, t) \<and> resources t = []"
proof -
  let ?p = "admit_worker (WorkerKey w b) endpoint k fresh_runtime"
  have "revoke_previous w b fresh_runtime = fresh_runtime"
    by (simp add: revoke_previous_def fresh_runtime_fields WorkerRegistry_default_def)
  then have fst: "\<exists>x. fst ?p = Inr x" and res: "resources (snd ?p) = resources fresh_runtime"
    and store: "im_store (snd ?p) = im_store fresh_runtime"
    by (simp_all add: admit_worker_def now_def Let_def)
  have empty: "resources fresh_runtime = []" "im_store fresh_runtime = None"
    by (simp_all add: fresh_runtime_def Engine_construct_def add_history_def now_def RuntimeSnapshot_default_def
        Topology_default_def Let_def)
  obtain x where p: "?p = (Inr x, snd ?p)" using fst by (metis prod.collapse)
  have "accepting (snd ?p)" using store empty by (simp add: accepting_def)
  from complete_accepting [OF this, of x] p
  have "register_worker w b endpoint k fresh_runtime = (Inr x, snd (flush (snd ?p)))"
    using assms by (simp add: register_worker_def register_worker_locked_def fresh_runtime_fields WorkerRegistry_default_def)
  then show ?thesis using res empty by simp
qed

theorem second_hello_leaves_dangling_peer_witness:
  "\<exists>co co1 co2 fm. co_event quiet_network (Delivered 0 fm) co = Some co1 \<and>
     co_event quiet_network (Disconnected 0) co1 = Some co2 \<and> registered_well co \<and> \<not> registered_well co2"
proof -
  obtain payload where p: "encode_hello sample_hello = Inr payload" using hello_payload by blast
  have d: "decode_hello payload = Inr sample_hello"
    using p rc_hello.message_roundtrip by (simp add: encode_hello_def decode_hello_def sample_hello_def id_valid_def)
  let ?cn = "\<lparr>cn_worker = Id 1, cn_boot = Id 9, cn_hello_done = True\<rparr>" and ?fm = "frame_of MessageKind.HELLO payload"
  define co where "co = (service_over fresh_runtime)\<lparr>co_connections := [(0, ?cn)], co_peer_sockets := [(Id 9, 0)],
    co_live_sockets := [0], co_active_connections := 1\<rparr>"
  have well: "registered_well co"
    by (auto simp: registered_well_def peers_open_def connections_counted_def co_def service_over_def)
  obtain x t where reg: "register_worker (hm_worker sample_hello) (hm_boot sample_hello) (hm_endpoint sample_hello)
      (hm_sequence sample_hello) (co_engine co) = (Inr x, t)" and res: "resources t = []"
    using register_on_fresh [of "Id 1" "Id 2" "''node''" "Id 1"] by (auto simp: sample_hello_def co_def service_over_def id_valid_def)
  have found: "om_find (co_connections co) 0 = Some ?cn" "om_find (co_peer_sockets co) (Id 9) = Some 0"
    by (simp_all add: co_def)
  obtain cn1 co' where h: "handle_hello quiet_network 0 payload ?cn co = (cn1, co')"
    by (cases "handle_hello quiet_network 0 payload ?cn co")
  then have eng: "co_engine co' = t" using d reg by (auto simp: handle_hello_def Let_def split: sum.splits)
  let ?co1 = "conns (om_put 0 cn1 (co_connections co')) co'"
  have one: "co_event quiet_network (Delivered 0 ?fm) co = Some ?co1"
    using found h by (simp add: co_event_def handle_frame_def frame_of_def)
  obtain co2 where two: "co_event quiet_network (Disconnected 0) ?co1 = Some co2"
    using ends_without_resources [of ?co1 quiet_network 0 cn1] res eng by (auto simp: co_event_def)
  have "om_find (co_peer_sockets co2) (Id 9) = Some 0 \<and> om_find (co_connections co2) 0 = None"
    by (rule second_hello_leaves_dangling_peer [OF found _ _ _ reg one two])
      (simp_all add: frame_of_def d sample_hello_def)
  then have "\<not> registered_well co2" by (fastforce simp: registered_well_def peers_open_def)
  with one two well show ?thesis by blast
qed

end
