(* ===== verification/Fcf_Coordinator_Authority.thy ===== *)
theory Fcf_Coordinator_Authority
  imports Fcf_Coordinator_Peers
begin

text \<open>
  Authority at the edge of the service: the end of a connection takes it away, and the evidence of a
  dead incarnation is still able to get it.
\<close>

section \<open>The end of a connection\<close>

context worker_relation
begin

lemma after_end:
  assumes "lose_authority_locked (cn_worker cn) (cn_boot cn)
      ''worker connection closed without graceful retirement'' 0 (co_engine co) = (lost, u)"
    and "cn_hello_done cn" and "end_connection net socket cn co = Some co'"
  shows "R u (co_engine co')"
proof -
  obtain x s where l: "worker_authority_lost (cn_worker cn) (cn_boot cn) FaultKind.PROCESS_DEATH
      ''worker connection closed without graceful retirement'' 0 (co_engine co) = Some (x, s)"
    using assms(2,3) by (auto simp: end_connection_def Let_def split: option.splits)
  from loss_followed [OF assms(1) l] have us: "R u s" .
  have "R s (co_engine (dispatch_and_settle net g co1))" if "co_engine co1 = s" for g co1
    using dispatched_by_worker [of co1 net g] that by simp
  with us trans have "R u (co_engine (dispatch_and_settle net g co1))" if "co_engine co1 = s" for g co1
    using that by blast
  with us assms(2,3) l show ?thesis
    by (cases x) (auto simp: end_connection_def Let_def)
qed

end

lemma loss_subject_valid:
  assumes "\<forall>(i, r) \<in> set m. id_valid i" and "id_valid i0 \<or> (\<exists>(i, r) \<in> set m. rr_owner_boot r = b)"
  shows "id_valid (fold (\<lambda>(i, r) subject. if rr_owner_boot r \<noteq> b then subject
       else if \<not> id_valid subject \<or> rr_resource_class r = ResourceClass.WORKER then i else subject) m i0)"
  using assms
proof (induction m arbitrary: i0)
  case (Cons e m)
  obtain i r where e: "e = (i, r)" by (cases e)
  let ?i1 = "if rr_owner_boot r \<noteq> b then i0
    else if \<not> id_valid i0 \<or> rr_resource_class r = ResourceClass.WORKER then i else i0"
  have "id_valid ?i1 \<or> (\<exists>(i, r) \<in> set m. rr_owner_boot r = b)"
    using Cons.prems by (auto simp: e)
  from Cons.IH [OF _ this] Cons.prems(1) show ?case by (simp add: e)
qed simp

text \<open>What the section that loses an incarnation's authority leaves behind.\<close>

lemma lose_resources_found:
  "om_find (resources (fold (lose_resource t) ids s)) i = om_find (resources s) i \<or>
   (\<exists>r. om_find (resources (fold (lose_resource t) ids s)) i = Some r \<and> fenced r)"
proof (induction ids arbitrary: s)
  case (Cons j ids)
  have l: "resources (lose_resource t j s) = om_put j (lost_resource t
      (case om_find (resources s) j of None \<Rightarrow> ResourceRecord_default | Some r \<Rightarrow> r)) (resources s)"
    by (simp add: lose_resource_def stage_resource_def Let_def)
  have "fenced (lost_resource t r)" for r by (simp add: fenced_def lost_resource_def is_contained_def)
  with Cons.IH [of "lose_resource t j s"] show ?case by (auto simp: l split: if_splits)
qed simp

lemma lose_resources_fenced:
  "i \<in> set ids \<Longrightarrow> \<exists>r. om_find (resources (fold (lose_resource t) ids s)) i = Some r \<and> fenced r"
proof (induction ids arbitrary: s)
  case (Cons j ids)
  have "\<exists>r. om_find (resources (lose_resource t i s)) i = Some r \<and> fenced r"
    by (simp add: lose_resource_def stage_resource_def fenced_def lost_resource_def is_contained_def Let_def)
  with lose_resources_found [of t ids "lose_resource t i s" i] Cons show ?case by auto
qed simp

lemma lose_resources_workers:
  "rs_workers (im_state (fold (lose_resource t) ids s)) = rs_workers (im_state s)"
  by (rule fold_preserves) (simp add: lose_resource_def stage_resource_def Let_def)

lemma lose_authority_effect:
  assumes "om_find (incarnations s) (WorkerKey w b) = Some x" and "id_valid (wr_registered_epoch x)"
    and "boot_is_current (rs_workers (im_state s)) w b" and "repeat_observation (WorkerKey w b) s = None"
    and "\<forall>(i, r) \<in> set (resources s). id_valid i"
    and u: "u = snd (lose_authority_locked w b detail t s)"
  shows "\<exists>x'. om_find (incarnations u) (WorkerKey w b) = Some x' \<and> dead x'"
    and "(i, r) \<in> set (resources s) \<Longrightarrow> rr_owner_boot r = b \<Longrightarrow>
      \<exists>r'. om_find (resources u) i = Some r' \<and> fenced r'"
proof -
  have current: "om_find (wreg_current_boot (rs_workers (im_state s))) w = Some b"
    using assms(3) by (auto simp: boot_is_current_def split: option.splits)
  show "\<exists>x'. om_find (incarnations u) (WorkerKey w b) = Some x' \<and> dead x'"
    using assms(1,2,4) current unfolding u lose_authority_locked_def
    by (simp add: now_def Let_def lose_resources_workers dead_def)
  show "\<exists>r'. om_find (resources u) i = Some r' \<and> fenced r'" if "(i, r) \<in> set (resources s)" "rr_owner_boot r = b"
  proof -
    have "id_valid (loss_subject b (resources s))"
      unfolding loss_subject_def by (rule loss_subject_valid) (use assms(5) that in auto)
    moreover have "i \<in> set (map fst (filter (\<lambda>(_, r). rr_owner_boot r = b) (resources s)))" using that by force
    ultimately show ?thesis
      using assms(1,4) current lose_resources_fenced unfolding u lose_authority_locked_def
      by (simp add: now_def Let_def)
  qed
qed

text \<open>
  C12. A lost connection takes the authority away. When the connection of a worker's current
  incarnation ends, and no containment of an earlier loss is on record for it, the incarnation is dead
  in the state the service reaches, and every resource it owned is quarantined in a contained state -
  also after the fault was published, its containment authorised, dispatched and settled.
\<close>

theorem lost_connection_fences_its_resources:
  assumes "end_connection net socket cn co = Some co'" and "cn_hello_done cn"
    and "om_find (incarnations (co_engine co)) (WorkerKey (cn_worker cn) (cn_boot cn)) = Some x"
    and "id_valid (wr_registered_epoch x)"
    and "boot_is_current (rs_workers (im_state (co_engine co))) (cn_worker cn) (cn_boot cn)"
    and "repeat_observation (WorkerKey (cn_worker cn) (cn_boot cn)) (co_engine co) = None"
    and "resources_keyed (rs_topology (im_state (co_engine co)))"
    and "\<forall>(i, r) \<in> set (resources (co_engine co)). id_valid i"
  shows "(\<exists>x'. om_find (incarnations (co_engine co')) (WorkerKey (cn_worker cn) (cn_boot cn)) = Some x' \<and> dead x') \<and>
    (\<forall>(i, r) \<in> set (resources (co_engine co)). rr_owner_boot r = cn_boot cn \<longrightarrow>
      (\<exists>r'. om_find (resources (co_engine co')) i = Some r' \<and> rr_quarantined r' \<and> is_contained (rr_state r')))"
proof -
  obtain lost u where l: "lose_authority_locked (cn_worker cn) (cn_boot cn)
      ''worker connection closed without graceful retirement'' 0 (co_engine co) = (lost, u)"
    by (rule prod.exhaust)
  then have u: "u = snd (lose_authority_locked (cn_worker cn) (cn_boot cn)
      ''worker connection closed without graceful retirement'' 0 (co_engine co))" by simp
  note effect = lose_authority_effect [OF assms(3-6,8) u]
  have "keyed (resources u)"
    using lose_authority_keyed assms(7) by (simp add: u resources_keyed_iff)
  with fences.after_end [OF l assms(2,1)] have kept: "keeps_fences {} u (co_engine co')" by simp
  from steps_workers_follow [OF runtime.after_end [OF l assms(2,1)]] effect(1)
  have "\<exists>x'. om_find (incarnations (co_engine co')) (WorkerKey (cn_worker cn) (cn_boot cn)) = Some x' \<and> dead x'"
    unfolding workers_follow_def dead_stay_dead_def by blast
  moreover have "\<exists>r'. om_find (resources (co_engine co')) i = Some r' \<and> rr_quarantined r' \<and> is_contained (rr_state r')"
    if "(i, r) \<in> set (resources (co_engine co))" "rr_owner_boot r = cn_boot cn" for i r
    using effect(2) [OF that] kept unfolding keeps_def fenced_def by blast
  ultimately show ?thesis by blast
qed

text \<open>A service whose runtime is at its fault ceiling, with a connection that owns a resource.\<close>

definition owning_connection :: Connection where
  "owning_connection = \<lparr>cn_worker = Id 3, cn_boot = Id 4, cn_hello_done = True\<rparr>"

definition owned_runtime :: Impl where
  "owned_runtime = demo_runtime\<lparr>im_config := (Config_default (\<lambda>_. 5))\<lparr>cfg_max_faults := 0\<rparr>,
     im_state := demo_snapshot\<lparr>
       rs_topology := Topology_default\<lparr>tp_resources :=
         [(Id 5, (demo_resource 5)\<lparr>rr_owner_worker := Id 3, rr_owner_boot := Id 4\<rparr>)]\<rparr>,
       rs_workers := WorkerRegistry_default\<lparr>
         wreg_incarnations := [(WorkerKey (Id 3) (Id 4), demo_dead_worker\<lparr>wr_state := WorkerState.ACTIVE\<rparr>)],
         wreg_current_boot := [(Id 3, Id 4)]\<rparr>\<rparr>\<rparr>"

lemma lose_authority_config: "im_config (snd (lose_authority_locked w b detail t s)) = im_config s"
proof -
  have "im_config (fold (lose_resource t) ids s) = im_config s" for t ids s
    by (rule fold_preserves) (simp add: lose_resource_def stage_resource_def Let_def)
  then show ?thesis by (simp add: lose_authority_locked_def now_def Let_def split: option.split)
qed

lemma loss_at_fault_ceiling:
  assumes "cfg_max_faults (im_config s) \<le> 0"
  shows "\<exists>x s'. worker_authority_lost w b kind detail t s = Some (x, s')"
proof -
  have refused: "\<exists>e t. publish_fault ev u = (Inl e, t)" if "cfg_max_faults (im_config u) \<le> 0" for ev u
    using that by (simp add: publish_fault_def publish_fault_locked_def)
  obtain lost u where l: "lose_authority_locked w b detail t s = (lost, u)" by (rule prod.exhaust)
  obtain st v where f: "flush u = (st, v)" by (rule prod.exhaust)
  have "im_config v = im_config s"
    using lose_authority_config [of w b detail t s] flush_fields(15) [of u] l f by simp
  with refused [of v] assms have full: "\<exists>e t. publish_fault ev v = (Inl e, t)" for ev by simp
  show ?thesis
  proof (cases lost)
    case (Inr q)
    obtain subject generation where q: "q = (subject, generation)" by (cases q)
    from full obtain e t' where
      "publish_fault (authority_loss_evidence kind subject generation detail t (rs_epoch (im_state v))) v = (Inl e, t')"
      by blast
    with l f Inr q show ?thesis by (cases st) (simp_all add: worker_authority_lost_def)
  qed (use l in \<open>simp add: worker_authority_lost_def\<close>)
qed

theorem lost_connection_fences_its_resources_witness:
  "\<exists>co' x' r'. end_connection quiet_network 0 owning_connection (service_over owned_runtime) = Some co' \<and>
     om_find (incarnations (co_engine co')) (WorkerKey (Id 3) (Id 4)) = Some x' \<and> dead x' \<and>
     om_find (resources (co_engine co')) (Id 5) = Some r' \<and> rr_quarantined r' \<and> is_contained (rr_state r')"
proof -
  let ?co = "service_over owned_runtime"
  have engine [simp]: "co_engine ?co = owned_runtime" by (simp add: service_over_def)
  have "cfg_max_faults (im_config owned_runtime) \<le> 0" by (simp add: owned_runtime_def)
  then obtain co' where e: "end_connection quiet_network 0 owning_connection ?co = Some co'"
    using loss_at_fault_ceiling ends_when_answered engine by metis
  have res: "resources owned_runtime = [(Id 5, (demo_resource 5)\<lparr>rr_owner_worker := Id 3, rr_owner_boot := Id 4\<rparr>)]"
    and inc: "incarnations owned_runtime = [(WorkerKey (Id 3) (Id 4), demo_dead_worker\<lparr>wr_state := WorkerState.ACTIVE\<rparr>)]"
    and boot: "boot_is_current (rs_workers (im_state owned_runtime)) (Id 3) (Id 4)"
    and none: "repeat_observation (WorkerKey (Id 3) (Id 4)) owned_runtime = None"
    by (simp_all add: owned_runtime_def boot_is_current_def repeat_observation_def demo_runtime_def)
  have key: "cn_worker owning_connection = Id 3" "cn_boot owning_connection = Id 4" "cn_hello_done owning_connection"
    by (simp_all add: owning_connection_def)
  have "resources_keyed (rs_topology (im_state owned_runtime))"
    by (simp add: resources_keyed_def res om_wf_def demo_resource_def)
  from lost_connection_fences_its_resources [OF e] this res inc boot none key
  have "(\<exists>x'. om_find (incarnations (co_engine co')) (WorkerKey (Id 3) (Id 4)) = Some x' \<and> dead x') \<and>
    (\<exists>r'. om_find (resources (co_engine co')) (Id 5) = Some r' \<and> rr_quarantined r' \<and> is_contained (rr_state r'))"
    by (simp add: id_valid_def demo_dead_worker_def)
  with e show ?thesis by blast
qed

section \<open>Evidence grants what it names\<close>

lemma update_resource_found:
  assumes "om_find (resources s) (rr_id r) = Some old" and "rr_generation old = g" and "id_valid g"
  shows "\<exists>r'. om_find (resources (snd (update_resource r g s))) (rr_id r) = Some r' \<and>
    rr_owner_worker r' = rr_owner_worker r \<and> rr_owner_boot r' = rr_owner_boot r \<and> rr_state r' = rr_state r"
proof -
  have "\<exists>r'. om_find (resources (snd (update_resource_locked r g s))) (rr_id r) = Some r' \<and>
      rr_owner_worker r' = rr_owner_worker r \<and> rr_owner_boot r' = rr_owner_boot r \<and> rr_state r' = rr_state r"
    using assms by (simp add: update_resource_locked_def now_def Let_def)
  then show ?thesis unfolding update_resource_def complete_fields .
qed

lemma publish_evidence_owner:
  assumes "om_find (resources s) i = Some r"
  shows "\<exists>r'. om_find (resources (snd (publish_resource_evidence j g f k m src s))) i = Some r' \<and>
    rr_owner_worker r' = rr_owner_worker r \<and> rr_owner_boot r' = rr_owner_boot r \<and>
    (rr_state r = ResourceOperationalState.ACTIVE \<longrightarrow> rr_state r' = ResourceOperationalState.ACTIVE)"
  unfolding publish_resource_evidence_def complete_fields
  using assms
  by (auto simp: publish_resource_evidence_locked_def apply_evidence_def now_def Let_def split: option.split)

lemma grant_evidence_hands_over:
  assumes "om_find (resources (co_engine co)) (rr_id r) = Some r" and "id_valid (rr_generation r)"
  shows "\<exists>r'. om_find (resources (co_engine (grant_evidence net socket ev r co))) (rr_id r) = Some r' \<and>
    rr_owner_worker r' = we_worker ev \<and> rr_owner_boot r' = we_boot ev \<and> rr_state r' = ResourceOperationalState.ACTIVE"
proof -
  obtain updated s where u: "update_resource (r\<lparr>rr_owner_worker := we_worker ev, rr_owner_boot := we_boot ev,
      rr_state := ResourceOperationalState.ACTIVE\<rparr>) (rr_generation r) (co_engine co) = (updated, s)"
    by (rule prod.exhaust)
  with update_resource_found [of "co_engine co" "r\<lparr>rr_owner_worker := we_worker ev, rr_owner_boot := we_boot ev,
      rr_state := ResourceOperationalState.ACTIVE\<rparr>" r "rr_generation r"] assms
  obtain r1 where r1: "om_find (resources s) (rr_id r) = Some r1" "rr_owner_worker r1 = we_worker ev"
    "rr_owner_boot r1 = we_boot ev" "rr_state r1 = ResourceOperationalState.ACTIVE" by auto
  show ?thesis
  proof (cases updated)
    case (Inl e)
    with u r1 show ?thesis by (simp add: grant_evidence_def)
  next
    case (Inr y)
    obtain published t where p: "publish_resource_evidence (we_resource ev) (rr_generation y) EvidenceFreshness.FRESH
        (we_sequence ev) (we_mechanism ev) (''worker '' @ str_WorkerBootId (we_boot ev)) s = (published, t)"
      by (rule prod.exhaust)
    with publish_evidence_owner [OF r1(1), of "we_resource ev" "rr_generation y" EvidenceFreshness.FRESH
        "we_sequence ev" "we_mechanism ev" "''worker '' @ str_WorkerBootId (we_boot ev)"] r1
    obtain r' where "om_find (resources t) (rr_id r) = Some r'" "rr_owner_worker r' = we_worker ev"
      "rr_owner_boot r' = we_boot ev" "rr_state r' = ResourceOperationalState.ACTIVE" by auto
    with u Inr p show ?thesis
      by (cases published) (simp_all add: grant_evidence_def Let_def split: sum.split)
  qed
qed

text \<open>A registered incarnation that has no authority any more is answered with its record.\<close>

lemma dead_worker_registers:
  assumes "accepting s" and "om_find (incarnations s) (WorkerKey w b) = Some x" and "dead x"
    and "wr_endpoint x = endpoint" and "id_valid w" and "id_valid b"
    and "int (length (incarnations s)) < cfg_max_workers (im_config s)"
  shows "register_worker w b endpoint k s = (Inr x, snd (flush s))"
proof -
  have "register_worker_locked w b endpoint k s = (Inr x, s)"
    using assms(2-) by (auto simp: register_worker_locked_def reattach_worker_def dead_def)
  with complete_accepting [OF assms(1), of x] show ?thesis by (simp add: register_worker_def)
qed

text \<open>
  C15. The handshake does not look at the state of the incarnation it admits, nor evidence at
  the worker it names. A dead incarnation - revoked or retired - that introduces itself again under
  its old boot and endpoint is accepted, and its evidence for any resource that is not contained makes
  it the owner: the resource is active and owned by the dead boot, under whatever worker identity the
  evidence carries, while the registry still counts the incarnation as dead. Who owned the resource
  before is not asked.
\<close>

theorem dead_incarnation_takes_resource:
  assumes "accepting (co_engine co)"
    and "om_find (incarnations (co_engine co)) (WorkerKey (hm_worker h) (hm_boot h)) = Some x" and "dead x"
    and "wr_endpoint x = hm_endpoint h" and "id_valid (hm_worker h)" and "id_valid (hm_boot h)"
    and "int (length (incarnations (co_engine co))) < cfg_max_workers (im_config (co_engine co))"
    and "decode_hello p = Inr h" and "handle_hello net socket p cn co = (cn1, co1)"
    and "decode_worker_evidence q = Inr ev" and "we_boot ev = hm_boot h"
    and "we_epoch ev = rs_epoch (im_state (co_engine co))"
    and "om_find (resources (co_engine co)) (we_resource ev) = Some r" and "rr_id r = we_resource ev"
    and "id_valid (rr_generation r)" and "we_generation ev = rr_generation r"
    and "\<not> rr_quarantined r" and "\<not> is_contained (rr_state r)"
    and after: "co2 = handle_evidence net socket q cn1 co1"
  shows "cn_hello_done cn1 \<and>
    (\<exists>r'. om_find (resources (co_engine co2)) (we_resource ev) = Some r' \<and> rr_owner_worker r' = we_worker ev \<and>
      rr_owner_boot r' = hm_boot h \<and> rr_state r' = ResourceOperationalState.ACTIVE) \<and>
    (\<exists>x'. om_find (incarnations (co_engine co2)) (WorkerKey (hm_worker h) (hm_boot h)) = Some x' \<and> dead x')"
proof -
  let ?s = "snd (flush (co_engine co))"
  have same: "frame ?s = frame (co_engine co)" by simp
  have greeted: "cn_hello_done cn1 \<and> cn_boot cn1 = hm_boot h \<and> co_engine co1 = ?s"
    using assms(8,9) dead_worker_registers [OF assms(1-7), of "hm_sequence h"]
    by (auto simp: handle_hello_def Let_def split: sum.splits)
  have "co2 = grant_evidence net socket ev r co1"
    using greeted assms(10-18) frame_simps [OF same] by (simp add: after handle_evidence_def)
  then have owned: "\<exists>r'. om_find (resources (co_engine co2)) (we_resource ev) = Some r' \<and> rr_owner_worker r' = we_worker ev \<and>
      rr_owner_boot r' = hm_boot h \<and> rr_state r' = ResourceOperationalState.ACTIVE"
    using grant_evidence_hands_over [of co1 r net socket ev] greeted assms(11-15) frame_simps [OF same] by simp
  have "step\<^sup>*\<^sup>* (co_engine co1) (co_engine co2)"
    unfolding after by (rule runtime.worker_evidence_handled) (simp add: runtime.grants_at_def)
  from steps_workers_follow [OF this] greeted assms(2,3) frame_simps [OF same]
  have "\<exists>x'. om_find (incarnations (co_engine co2)) (WorkerKey (hm_worker h) (hm_boot h)) = Some x' \<and> dead x'"
    by (simp add: workers_follow_def dead_stay_dead_def)
  with greeted owned show ?thesis by blast
qed

definition returning_hello :: HelloMessage where
  "returning_hello = \<lparr>hm_worker = Id 3, hm_boot = Id 4, hm_epoch = Id 1, hm_sequence = Id 1, hm_endpoint = []\<rparr>"

definition foreign_evidence :: WorkerEvidenceMessage where
  "foreign_evidence = \<lparr>we_worker = Id 8, we_boot = Id 4, we_epoch = Id 1, we_resource = Id 5, we_generation = Id 1,
     we_freshness = EvidenceFreshness.FRESH, we_sequence = Id 1, we_mechanism = ContainmentMechanism.NONE\<rparr>"

theorem dead_incarnation_takes_resource_witness:
  "\<exists>p q cn1 co1 r' x'. handle_hello quiet_network 0 p Connection_default (service_over demo_runtime) = (cn1, co1) \<and>
     om_find (resources (co_engine (handle_evidence quiet_network 0 q cn1 co1))) (Id 5) = Some r' \<and>
     rr_owner_worker r' = Id 8 \<and> rr_owner_boot r' = Id 4 \<and>
     om_find (incarnations (co_engine (handle_evidence quiet_network 0 q cn1 co1))) (WorkerKey (Id 3) (Id 4)) = Some x' \<and>
     dead x'"
proof -
  let ?co = "service_over demo_runtime"
  have "bw_ok (write_hello returning_hello (wr_u32 kProtocolFormatVersion ByteWriter_default))" by code_simp
  then have "\<exists>p. encode_hello returning_hello = Inr p" unfolding encode_hello_def by (rule message_encodes)
  then obtain p where p: "encode_hello returning_hello = Inr p" by blast
  have "bw_ok (write_worker_evidence foreign_evidence (wr_u32 kProtocolFormatVersion ByteWriter_default))" by code_simp
  then have "\<exists>q. encode_worker_evidence foreign_evidence = Inr q"
    unfolding encode_worker_evidence_def by (rule message_encodes)
  then obtain q where q: "encode_worker_evidence foreign_evidence = Inr q" by blast
  have dp: "decode_hello p = Inr returning_hello"
    using p rc_hello.message_roundtrip by (simp add: encode_hello_def decode_hello_def returning_hello_def id_valid_def)
  have dq: "decode_worker_evidence q = Inr foreign_evidence"
    using q rc_worker_evidence.message_roundtrip
    by (simp add: encode_worker_evidence_def decode_worker_evidence_def foreign_evidence_def id_valid_def)
  obtain cn1 co1 where h: "handle_hello quiet_network 0 p Connection_default ?co = (cn1, co1)"
    by (rule prod.exhaust)
  have engine [simp]: "co_engine ?co = demo_runtime" by (simp add: service_over_def)
  have ceiling: "cfg_max_workers (im_config demo_runtime) = 100000"
    by (simp add: demo_runtime_def Config_default_def)
  have "accepting (co_engine ?co)" by (simp add: accepting_def demo_store_def)
  moreover have "om_find (incarnations (co_engine ?co)) (WorkerKey (hm_worker returning_hello) (hm_boot returning_hello)) =
      Some demo_dead_worker" by (simp add: demo_workers_def returning_hello_def)
  moreover have "dead demo_dead_worker" "wr_endpoint demo_dead_worker = hm_endpoint returning_hello"
    "id_valid (hm_worker returning_hello)" "id_valid (hm_boot returning_hello)"
    by (simp_all add: dead_def demo_dead_worker_def returning_hello_def id_valid_def WorkerRecord_default_def)
  moreover have "int (length (incarnations (co_engine ?co))) < cfg_max_workers (im_config (co_engine ?co))"
    by (simp add: demo_workers_def ceiling)
  moreover note dp h dq
  moreover have "om_find (resources (co_engine ?co)) (we_resource foreign_evidence) = Some (demo_resource 5)"
    by (simp add: demo_topology_def foreign_evidence_def)
  moreover have "we_boot foreign_evidence = hm_boot returning_hello"
    "we_epoch foreign_evidence = rs_epoch (im_state (co_engine ?co))"
    "rr_id (demo_resource 5) = we_resource foreign_evidence" "id_valid (rr_generation (demo_resource 5))"
    "we_generation foreign_evidence = rr_generation (demo_resource 5)" "\<not> rr_quarantined (demo_resource 5)"
    "\<not> is_contained (rr_state (demo_resource 5))"
    by (simp_all add: foreign_evidence_def returning_hello_def demo_resource_def id_valid_def is_contained_def
        ResourceRecord_default_def)
  ultimately have "\<exists>r' x'. om_find (resources (co_engine (handle_evidence quiet_network 0 q cn1 co1))) (Id 5) = Some r' \<and>
     rr_owner_worker r' = Id 8 \<and> rr_owner_boot r' = Id 4 \<and>
     om_find (incarnations (co_engine (handle_evidence quiet_network 0 q cn1 co1))) (WorkerKey (Id 3) (Id 4)) = Some x' \<and>
     dead x'"
    using dead_incarnation_takes_resource [of ?co returning_hello demo_dead_worker p quiet_network 0 Connection_default
        cn1 co1 q foreign_evidence "demo_resource 5", OF _ _ _ _ _ _ _ _ _ _ _ _ _ _ _ _ _ _ refl]
    by (auto simp: returning_hello_def foreign_evidence_def)
  with h show ?thesis by blast
qed

end
