(* ===== verification/Fcf_Control_Retry.thy ===== *)
theory Fcf_Control_Retry
  imports Fcf_Coordinator_Props
begin

text \<open>
  The one loop of the control plane whose exit depends on the state: the retry of \<open>publish-fault\<close>. It
  returns unless the sequence it derives from the recorded observations wraps to the invalid one.
\<close>

lemma highest_sequence_cases:
  "highest_sequence ev s = 0 \<or> (\<exists>(i, f) \<in> set (faults s). highest_sequence ev s = id_value (fe_observation_sequence (fr_evidence f)))"
proof -
  have "fold (\<lambda>(_, f) highest. if P f then max highest (g f) else highest) m h = h \<or>
      (\<exists>(i, f) \<in> set m. fold (\<lambda>(_, f) highest. if P f then max highest (g f) else highest) m h = g f)"
    for m :: "(FaultId \<times> FaultRecord) list" and P and g :: "FaultRecord \<Rightarrow> u64" and h
  proof (induction m arbitrary: h)
    case (Cons e m)
    obtain i f where e: "e = (i, f)" by (cases e)
    from Cons.IH [of "max h (g f)"] Cons.IH [of h] show ?case
      by (auto simp: e max_def split: if_splits)
  qed simp
  from this [of "\<lambda>f. fe_subject (fr_evidence f) = fe_subject ev \<and> fe_kind (fr_evidence f) = fe_kind ev"
      "\<lambda>f. id_value (fe_observation_sequence (fr_evidence f))" "faults s" 0]
  show ?thesis by (simp add: highest_sequence_def)
qed

lemma retry_with_sequence: "id_valid q \<Longrightarrow> retry_publish ev q published s = Some (published, s)"
  by (simp add: retry_publish.simps)

lemma retry_once:
  assumes "highest_sequence ev s + 1 \<noteq> 0"
  shows "\<exists>r s'. retry_publish ev id_invalid published s = Some (r, s')"
proof (cases "conflicting published")
  case True
  have "id_valid (Id (highest_sequence ev s + 1))" using assms by (simp add: id_valid_def)
  note again = retry_with_sequence [OF this]
  show ?thesis by (subst retry_publish.simps) (auto simp: Let_def case_prod_beta again)
qed (simp add: retry_publish.simps)

text \<open>Publishing records no observation sequence but the one of the evidence.\<close>

definition sequences :: "Impl \<Rightarrow> u64 set" where
  "sequences s = (\<lambda>(i, f). id_value (fe_observation_sequence (fr_evidence f))) ` set (faults s)"

lemma publish_fault_sequences:
  "sequences (snd (publish_fault ev s)) \<subseteq>
     insert 0 (insert (id_value (fe_observation_sequence ev)) (sequences s))"
proof -
  have put: "(\<lambda>(i, f). id_value (fe_observation_sequence (fr_evidence f))) ` set (om_put k v m) \<subseteq>
      insert (id_value (fe_observation_sequence (fr_evidence v)))
        ((\<lambda>(i, f). id_value (fe_observation_sequence (fr_evidence f))) ` set m)" for k v and m :: "(FaultId, FaultRecord) omap"
    using set_om_put_subset [of k v m] by auto
  have norm: "fe_observation_sequence (fst (normalize_evidence ev s)) = fe_observation_sequence ev"
    "faults (snd (normalize_evidence ev s)) = faults s"
    by (simp_all add: normalize_evidence_def allocate_fault_id_def Let_def)
  have seqs: "sequences (snd (complete p)) = sequences (snd p)" for p :: "(FaultRecord \<times> bool) Result \<times> Impl"
    unfolding sequences_def complete_fields ..
  obtain e t where n: "normalize_evidence ev s = (e, t)" by (rule prod.exhaust)
  have dup: "sequences (snd (count_duplicate i t)) \<subseteq> insert 0 (sequences t)" for i
  proof (cases "om_find (faults t) i")
    case None
    then show ?thesis
      using put [of i "FaultRecord_default\<lparr>fr_duplicate_count := d, fr_last_updated_ms := u\<rparr>" "faults t" for d u]
      by (auto simp: count_duplicate_def now_def Let_def sequences_def FaultRecord_default_def FaultEvidence_default_def)
  next
    case (Some f)
    then show ?thesis
      using put [of i "f\<lparr>fr_duplicate_count := d, fr_last_updated_ms := u\<rparr>" "faults t" for d u] om_find_in_set [OF Some]
      by (force simp: count_duplicate_def now_def Let_def sequences_def)
  qed
  have emplace: "set (om_emplace k v m) \<subseteq> insert (k, v) (set m)" for k v and m :: "(FaultId, FaultRecord) omap"
    using set_om_put_subset [of k v m] by (auto simp: om_emplace_def split: if_splits)
  have admit: "sequences (snd (admit_fault e' t)) \<subseteq> insert (id_value (fe_observation_sequence e')) (sequences t)" for e'
    using emplace [of "fe_id e'" _ "faults t"]
    by (simp add: admit_fault_def new_fault_def now_def Let_def sequences_def) fastforce
  have [simp]: "sequences (record_event h k b u) = sequences u" for h k b u by (simp add: sequences_def)
  have st: "sequences t = sequences s" "fe_observation_sequence e = fe_observation_sequence ev"
    using norm n by (simp_all add: sequences_def)
  have "sequences (snd (publish_fault_locked ev s)) \<subseteq>
      insert 0 (insert (id_value (fe_observation_sequence ev)) (sequences s))"
    unfolding publish_fault_locked_def n Let_def prod.case
    using admit [of "e\<lparr>fe_digest := compute_evidence_digest e\<rparr>"] st
    by (auto simp: case_prod_beta split: option.split dest: subsetD [OF dup])
  then show ?thesis by (simp add: publish_fault_def seqs)
qed

lemma operator_sequence: "fe_observation_sequence (operator_evidence i k subject d e) = Id 1"
  by (simp add: operator_evidence_def)

text \<open>
  C17. \<open>publish-fault\<close> answers. Its retry loop ends, with an answer, whenever no recorded observation
  carries the largest sequence number: the sequence it derives is then valid, and a valid sequence ends
  the loop after a second publication, whatever that one answers.
\<close>

theorem publish_fault_command_returns:
  assumes "\<forall>(i, f) \<in> set (faults s). id_value (fe_observation_sequence (fr_evidence f)) \<noteq> 2 ^ 64 - 1"
  shows "\<exists>response s'. control_publish_fault args s = Some (response, s')"
proof -
  have "\<exists>r s'. retry_publish ev id_invalid published t = Some (r, s')"
    if "publish_fault ev s = (published, t)" and "fe_observation_sequence ev = Id 1" for ev published t
  proof (rule retry_once)
    have "sequences t \<subseteq> insert 0 (insert 1 (sequences s))"
      using publish_fault_sequences [of ev s] that by simp
    moreover have "highest_sequence ev t = 0 \<or> highest_sequence ev t \<in> sequences t"
      using highest_sequence_cases [of ev t] by (force simp: sequences_def)
    moreover have largest: "(2 ^ 64 - 1 :: u64) = - 1" by simp
    have "(- 1 :: u64) \<notin> insert 0 (insert 1 (sequences s))"
      using assms unfolding largest by (auto simp: sequences_def)
    ultimately have "highest_sequence ev t \<noteq> - 1" by (metis insertI1 subsetD)
    then show "highest_sequence ev t + 1 \<noteq> 0" by (simp add: add_eq_0_iff2)
  qed
  then have "retry_publish (operator_evidence i k subject d e) id_invalid (fst (publish_fault (operator_evidence i k subject d e) s))
      (snd (publish_fault (operator_evidence i k subject d e) s)) \<noteq> None" for i k subject d e
    by (metis (no_types) operator_sequence option.distinct(1) prod.collapse)
  then have "control_publish_fault args s \<noteq> None"
    by (auto simp: control_publish_fault_def Let_def case_prod_beta simp del: not_None_eq split: option.split)
  then show ?thesis by (metis not_Some_eq prod.collapse)
qed

theorem publish_fault_command_returns_witness:
  "\<exists>response s'. control_publish_fault [''7'', ''PROCESS_DEATH'', ''1''] demo_runtime = Some (response, s')"
  by (rule publish_fault_command_returns)
    (simp add: demo_live_fault_def demo_fault_def FaultEvidence_default_def)

section \<open>A used identity\<close>

text \<open>A publication under an identity that another observation has, when it is no recorded observation itself.\<close>

definition unrecorded :: "FaultEvidence \<Rightarrow> Impl \<Rightarrow> bool" where
  "unrecorded ev s \<longleftrightarrow> om_find (im_fault_by_digest s) (compute_evidence_digest (ev\<lparr>fe_generation := Id 1\<rparr>)) = None"

lemma used_identity_conflicts:
  assumes "om_find (faults s) i = Some f" and "id_valid i" and "id_valid subject"
    and "int (length (faults s)) < cfg_max_faults (im_config s)" and "id_valid (rs_epoch (im_state s))"
    and "unrecorded ev s" and "im_pending s = []"
    and ev: "ev = (operator_evidence i k subject d (rs_epoch (im_state s)))\<lparr>fe_observation_sequence := q\<rparr>"
  shows "publish_fault ev s = (fail ErrorCode.DUPLICATE_CONFLICT ''fault.publish''
     ''a different observation already uses this fault identity'' (str_FaultId i), s)"
proof -
  have n: "normalize_evidence ev s = (ev\<lparr>fe_generation := Id 1\<rparr>, s)"
    using assms(2,5) by (simp add: normalize_evidence_def ev operator_evidence_def FaultEvidence_default_def id_valid_def)
  have fields: "fe_subject ev = subject" "fe_epoch ev = rs_epoch (im_state s)" "fe_id ev = i"
    by (simp_all add: ev operator_evidence_def)
  have "publish_fault_locked ev s = (fail ErrorCode.DUPLICATE_CONFLICT ''fault.publish''
     ''a different observation already uses this fault identity'' (str_FaultId i), s)"
    using assms(1,3,4) assms(6) [unfolded unrecorded_def] n by (simp add: publish_fault_locked_def fields Let_def)
  then show ?thesis using assms(7) by (simp add: publish_fault_def)
qed

lemma operator_again: "operator_evidence i k subject d e = (operator_evidence i k subject d e)\<lparr>fe_observation_sequence := Id 1\<rparr>"
  by (simp add: operator_evidence_def)

text \<open>The loop only repeats the publication under the wrapped sequence.\<close>

lemma retry_stuck:
  assumes "publish_fault (ev\<lparr>fe_observation_sequence := id_invalid\<rparr>) s = (published, s)"
    and "conflicting published" and "highest_sequence ev s + 1 = 0"
  shows "retry_publish ev id_invalid published s = None"
proof (rule ccontr)
  assume "retry_publish ev id_invalid published s \<noteq> None"
  then obtain y where y: "retry_publish ev id_invalid published s = Some y" by blast
  have high: "highest_sequence (ev\<lparr>fe_observation_sequence := q\<rparr>) s = highest_sequence ev s" for q
    by (simp add: highest_sequence_def)
  have never: "\<not> (s' = s \<and> p' = published \<and> \<not> id_valid q' \<and> (\<exists>q. ev' = ev\<lparr>fe_observation_sequence := q\<rparr>))"
    if "retry_publish ev' q' p' s' = Some y" for ev' q' p' s'
    by (rule retry_publish.raw_induct [OF _ that, of "\<lambda>ev' q' p' s' y. \<not> (s' = s \<and> p' = published \<and> \<not> id_valid q' \<and>
        (\<exists>q. ev' = ev\<lparr>fe_observation_sequence := q\<rparr>))"])
      (use assms high in \<open>auto simp: Let_def id_valid_def split: if_splits prod.splits\<close>, metis Id.sel)
  have "\<nexists>q. ev = ev\<lparr>fe_observation_sequence := q\<rparr>" using never [OF y] by (simp add: id_valid_def)
  moreover have "ev = ev\<lparr>fe_observation_sequence := fe_observation_sequence ev\<rparr>" by simp
  ultimately show False by blast
qed

text \<open>
  C18. For a fault identity that another observation has, the retry of \<open>publish-fault\<close> cannot
  help, because the conflict is over the identity and not over the sequence. When neither the command's
  observation, under sequence 1, nor its second try, under the sequence after the highest recorded one,
  is a recorded observation itself, the command answers \<open>DUPLICATE_CONFLICT\<close> after the second try - or,
  when some recorded observation of the subject and kind carries the largest sequence number, does not
  answer at all: the next sequence wraps to the invalid one and the loop never ends.
\<close>

theorem used_fault_identity_conflicts_or_hangs:
  assumes "3 \<le> length args" and "id_argument ''FaultId'' (args ! 0) = Some i"
    and "id_argument ''ResourceId'' (args ! 2) = Some subject"
    and "enum_parse FaultKind_values FaultKind_str (args ! 1) = Some kind"
    and ev: "ev = operator_evidence i kind subject (if 4 \<le> length args then args ! 3 else []) (rs_epoch (im_state s))"
    and "om_find (faults s) i = Some f" and "id_valid i" and "id_valid subject"
    and "int (length (faults s)) < cfg_max_faults (im_config s)" and "id_valid (rs_epoch (im_state s))"
    and "unrecorded ev s" and "unrecorded (ev\<lparr>fe_observation_sequence := Id (highest_sequence ev s + 1)\<rparr>) s"
    and "im_pending s = []"
  shows "map_option (map_prod crs_code id) (control_publish_fault args s) =
    (if highest_sequence ev s = 2 ^ 64 - 1 then None else Some (ErrorCode.DUPLICATE_CONFLICT, s))"
proof -
  let ?conflict = "fail ErrorCode.DUPLICATE_CONFLICT ''fault.publish''
     ''a different observation already uses this fault identity'' (str_FaultId i) :: (FaultRecord \<times> bool) Result"
  let ?again = "ev\<lparr>fe_observation_sequence := Id (highest_sequence ev s + 1)\<rparr>"
  note conflicts = used_identity_conflicts [OF assms(6-10) _ assms(13)]
  have first: "publish_fault ev s = (?conflict, s)"
    by (rule conflicts [OF assms(11)]) (subst ev, rule operator_again)
  have again: "publish_fault ?again s = (?conflict, s)"
    by (rule conflicts [OF assms(12)]) (simp add: ev)
  have conflict: "conflicting ?conflict" by (simp add: conflicting_def)
  have "(2 ^ 64 - 1 :: u64) = - 1" by simp
  then have wrap: "highest_sequence ev s = 2 ^ 64 - 1 \<longleftrightarrow> highest_sequence ev s + 1 = 0"
    unfolding add_eq_0_iff2 by (rule arg_cong)
  have run: "control_publish_fault args s =
      map_option (respond_with published_lines) (retry_publish ev id_invalid ?conflict s)"
    using assms(1-4) first by (simp add: control_publish_fault_def ev)
  show ?thesis
  proof (cases "highest_sequence ev s + 1 = 0")
    case True
    from retry_stuck [OF _ conflict True] again True show ?thesis unfolding run wrap by simp
  next
    case False
    then have "retry_publish ev id_invalid ?conflict s = Some (?conflict, s)"
      using conflict again retry_with_sequence
      by (subst retry_publish.simps) (simp add: Let_def id_valid_def)
    with False show ?thesis unfolding run wrap by (simp add: respond_def failure_def)
  qed
qed

text \<open>
  A runtime as a recovery leaves it, its digest index rebuilt from its faults: the one recorded
  observation has the largest sequence number and the digest \<open>d\<close>.
\<close>

definition wrapped_runtime :: "u8 list \<Rightarrow> Impl" where
  "wrapped_runtime d = rebuild_digest_index (demo_runtime\<lparr>im_state := demo_snapshot\<lparr>
     rs_faults := [(Id 7, demo_live_fault\<lparr>fr_evidence := (fr_evidence demo_live_fault)\<lparr>fe_subject := Id 1,
       fe_kind := FaultKind.PROCESS_DEATH, fe_observation_sequence := Id (2 ^ 64 - 1), fe_digest := d\<rparr>\<rparr>)]\<rparr>\<rparr>)"

lemma wrapped_runtime:
  "rs_epoch (im_state (wrapped_runtime d)) = Id 1" "im_fault_by_digest (wrapped_runtime d) = [(d, Id 7)]"
  "im_pending (wrapped_runtime d) = []" "cfg_max_faults (im_config (wrapped_runtime d)) = 1000000"
  "faults (wrapped_runtime d) = [(Id 7, demo_live_fault\<lparr>fr_evidence := (fr_evidence demo_live_fault)\<lparr>fe_subject := Id 1,
     fe_kind := FaultKind.PROCESS_DEATH, fe_observation_sequence := Id (2 ^ 64 - 1), fe_digest := d\<rparr>\<rparr>)]"
  by (simp_all add: wrapped_runtime_def rebuild_digest_index_def demo_runtime_def Config_default_def)

lemma other_digest: "0 < n \<Longrightarrow> \<exists>d :: u8 list. length d = n \<and> d \<noteq> a \<and> d \<noteq> b"
proof -
  assume "0 < n"
  then have "replicate n (0 :: u8) \<noteq> replicate n 1" "replicate n (0 :: u8) \<noteq> replicate n 2"
    "replicate n (1 :: u8) \<noteq> replicate n 2" by (simp_all add: replicate_eq_replicate)
  then show ?thesis by (metis length_replicate)
qed

theorem used_fault_identity_conflicts_or_hangs_witness:
  "\<exists>d. length d = 32 \<and> im_fault_by_digest (wrapped_runtime d) = [(d, Id 7)] \<and>
     control_publish_fault [''7'', ''PROCESS_DEATH'', ''1''] (wrapped_runtime d) = None"
proof -
  let ?args = "[''7'', ''PROCESS_DEATH'', ''1'']" and ?ev = "operator_evidence (Id 7) FaultKind.PROCESS_DEATH (Id 1) [] (Id 1)"
  have args: "id_argument ''FaultId'' (?args ! 0) = Some (Id 7 :: FaultId)"
    "id_argument ''ResourceId'' (?args ! 2) = Some (Id 1 :: ResourceId)"
    "enum_parse FaultKind_values FaultKind_str (?args ! 1) = Some FaultKind.PROCESS_DEATH" by code_simp+
  let ?a = "compute_evidence_digest (?ev\<lparr>fe_generation := Id 1\<rparr>)"
    and ?b = "compute_evidence_digest (?ev\<lparr>fe_observation_sequence := id_invalid, fe_generation := Id 1\<rparr>)"
  obtain d :: "u8 list" where d: "length d = 32" "d \<noteq> ?a" "d \<noteq> ?b"
    using other_digest [of 32 ?a ?b] by auto
  have high: "highest_sequence ?ev (wrapped_runtime d) = - 1"
    unfolding highest_sequence_def wrapped_runtime by (simp add: operator_evidence_def)
  have "map_option (map_prod crs_code id) (control_publish_fault ?args (wrapped_runtime d)) =
    (if highest_sequence ?ev (wrapped_runtime d) = 2 ^ 64 - 1 then None else Some (ErrorCode.DUPLICATE_CONFLICT, wrapped_runtime d))"
    by (rule used_fault_identity_conflicts_or_hangs [OF _ args])
      (use d in \<open>simp_all add: high wrapped_runtime unrecorded_def id_valid_def\<close>)
  with d(1) show ?thesis by (auto simp: high wrapped_runtime)
qed

end
