(* ===== verification/Fcf_Worker_Process.thy ===== *)
theory Fcf_Worker_Process
  imports Fcf_Coordinator_Props
begin

text \<open>
  The worker process (\<open>apps/fcf-worker/main.cpp\<close>): its options, its handshake and its loop over the frames
  of the coordinator. The lines it prints, the frames it tries to send and the phases of its workload
  are logs of its state; whether a send succeeds is looked at for the handshake only, as in the code.
  The CUDA workload itself is compiled in only with a GPU toolkit and is a phase name here.
\<close>

section \<open>Options\<close>

text \<open>No check for overflow: the value wraps.\<close>

fun app_digits :: "string \<Rightarrow> u64 \<Rightarrow> u64 option" where
  "app_digits [] v = Some v"
| "app_digits (c # rest) v =
     (if c < CHR ''0'' \<or> c > CHR ''9'' then None
      else app_digits rest (v * 10 + of_nat (of_char c - of_char CHR ''0'')))"

definition app_parse_u64 :: "string \<Rightarrow> u64 option" where
  "app_parse_u64 text = (if text = [] then None else app_digits text 0)"

text \<open>A trailing empty piece is dropped.\<close>

fun app_split_csv :: "string \<Rightarrow> string \<Rightarrow> string list" where
  "app_split_csv [] current = (if current \<noteq> [] then [current] else [])"
| "app_split_csv (c # text) current =
     (if c = CHR '','' then current # app_split_csv text [] else app_split_csv text (current @ [c]))"

record WorkerOptions =
  wo_endpoint :: string
  wo_name :: string
  wo_cuda_elements :: u64
  wo_resources :: "ResourceId list"
  wo_worker :: WorkerId
  wo_boot :: WorkerBootId

definition WorkerOptions_default :: WorkerOptions where
  "WorkerOptions_default = \<lparr>wo_endpoint = [], wo_name = ''worker'', wo_cuda_elements = push_bit 20 1,
     wo_resources = [], wo_worker = id_invalid, wo_boot = id_invalid\<rparr>"

fun parse_resources :: "string list \<Rightarrow> ResourceId list \<Rightarrow> ResourceId list option" where
  "parse_resources [] parsed_ids = Some parsed_ids"
| "parse_resources (token # tokens) parsed_ids =
     (case app_parse_u64 token of
        None \<Rightarrow> None
      | Some parsed \<Rightarrow> parse_resources tokens (parsed_ids @ [Id parsed]))"

text \<open>\<open>Inl\<close> is the exit code of a process that ends over its options.\<close>

fun worker_options :: "string list \<Rightarrow> WorkerOptions \<Rightarrow> nat + WorkerOptions" where
  "worker_options [] wo = Inr wo"
| "worker_options [argument] wo = (if argument = ''--help'' then Inl 0 else Inl 2)"
| "worker_options (argument # value # args) wo =
     (if argument = ''--help'' then Inl 0
      else if argument = ''--connect'' then worker_options args (wo\<lparr>wo_endpoint := value\<rparr>)
      else if argument = ''--name'' then worker_options args (wo\<lparr>wo_name := value\<rparr>)
      else if argument = ''--id'' then
        (case app_parse_u64 value of
           None \<Rightarrow> Inl 2
         | Some parsed \<Rightarrow> worker_options args (wo\<lparr>wo_worker := Id parsed\<rparr>))
      else if argument = ''--boot'' then
        (case app_parse_u64 value of
           None \<Rightarrow> Inl 2
         | Some parsed \<Rightarrow> worker_options args (wo\<lparr>wo_boot := Id parsed\<rparr>))
      else if argument = ''--cuda-elements'' then
        (case app_parse_u64 value of
           None \<Rightarrow> Inl 2
         | Some parsed \<Rightarrow> if parsed = 0 then Inl 2 else worker_options args (wo\<lparr>wo_cuda_elements := parsed\<rparr>))
      else if argument = ''--resources'' then
        (case parse_resources (app_split_csv value []) (wo_resources wo) of
           None \<Rightarrow> Inl 2
         | Some ids \<Rightarrow> worker_options args (wo\<lparr>wo_resources := ids\<rparr>))
      else Inl 2)"

text \<open>\<open>endpoint.rfind(':')\<close>: the host before the last colon and the port after it.\<close>

definition split_endpoint :: "string \<Rightarrow> (string \<times> string) option" where
  "split_endpoint endpoint =
     (if CHR '':'' \<notin> set endpoint then None
      else Some (rev (tl (dropWhile (\<lambda>c. c \<noteq> CHR '':'') (rev endpoint))),
                 rev (takeWhile (\<lambda>c. c \<noteq> CHR '':'') (rev endpoint))))"

definition parse_endpoint :: "string \<Rightarrow> (string \<times> u64) option" where
  "parse_endpoint endpoint =
     (case split_endpoint endpoint of
        None \<Rightarrow> None
      | Some (host, port) \<Rightarrow>
          (case app_parse_u64 port of
             None \<Rightarrow> None
           | Some parsed \<Rightarrow> if parsed > 65535 then None else Some (host, parsed)))"

text \<open>\<open>ticks\<close> is the monotonic clock in microseconds, \<open>pid\<close> the identity of the process.\<close>

definition fresh_boot :: "u64 \<Rightarrow> u64 \<Rightarrow> WorkerBootId" where
  "fresh_boot ticks pid = Id (push_bit 16 ticks XOR pid)"

section \<open>State\<close>

record WorkerProcess =
  wp_worker :: WorkerId
  wp_boot :: WorkerBootId
  wp_resources :: "ResourceId list"
  wp_ack_epoch :: CoordinatorEpoch
  wp_generations :: "(ResourceId, ResourceGeneration) omap"
  wp_authorized :: "(ResourceId, bool) omap"
  wp_sent :: "(MessageKind \<times> u8 list) list"
  wp_emitted :: "string list"
  wp_work :: "string list"

definition emit :: "string \<Rightarrow> WorkerProcess \<Rightarrow> WorkerProcess" where
  "emit line wp = wp\<lparr>wp_emitted := wp_emitted wp @ [line]\<rparr>"

definition run_cuda_work :: "string \<Rightarrow> WorkerProcess \<Rightarrow> WorkerProcess" where
  "run_cuda_work phase wp = wp\<lparr>wp_work := wp_work wp @ [phase]\<rparr>"

definition worker_send :: "MessageKind \<Rightarrow> u8 list Result \<Rightarrow> WorkerProcess \<Rightarrow> WorkerProcess" where
  "worker_send kind payload wp =
     (case payload of Inl _ \<Rightarrow> wp | Inr bytes \<Rightarrow> wp\<lparr>wp_sent := wp_sent wp @ [(kind, bytes)]\<rparr>)"

definition worker_hello :: "WorkerOptions \<Rightarrow> WorkerBootId \<Rightarrow> HelloMessage" where
  "worker_hello wo boot = \<lparr>hm_worker = wo_worker wo, hm_boot = boot, hm_epoch = id_invalid, hm_sequence = Id 1,
     hm_endpoint = wo_name wo\<rparr>"

section \<open>Frames\<close>

definition worker_evidence :: "ResourceId \<Rightarrow> WorkerProcess \<Rightarrow> WorkerEvidenceMessage" where
  "worker_evidence resource wp = \<lparr>we_worker = wp_worker wp, we_boot = wp_boot wp, we_epoch = wp_ack_epoch wp,
     we_resource = resource,
     we_generation = (case om_find (wp_generations wp) resource of None \<Rightarrow> id_invalid | Some g \<Rightarrow> g),
     we_freshness = EvidenceFreshness.FRESH, we_sequence = Id 1,
     we_mechanism = ContainmentMechanism.LOGICAL_CONTAINMENT\<rparr>"

definition send_evidence :: "ResourceId \<Rightarrow> WorkerProcess \<Rightarrow> WorkerProcess" where
  "send_evidence resource wp =
     worker_send MessageKind.WORKER_EVIDENCE (encode_worker_evidence (worker_evidence resource wp)) wp"

text \<open>\<open>Inl\<close> ends the process with an exit code.\<close>

definition on_hello_ack :: "u8 list \<Rightarrow> WorkerProcess \<Rightarrow> nat option \<times> WorkerProcess" where
  "on_hello_ack payload wp =
     (case decode_hello_ack payload of
        Inl e \<Rightarrow> (Some 4, emit (''WORKER REJECTED '' @ Error_to_string e) wp)
      | Inr ack \<Rightarrow>
          if \<not> ha_accepted ack then (Some 4, emit (''WORKER REJECTED '' @ ha_detail ack) wp)
          else
            (None, run_cuda_work ''BASELINE'' (emit (''WORKER READY id='' @ str_WorkerId (wp_worker wp) @ '' boot='' @
               str_WorkerBootId (wp_boot wp) @ '' incarnation='' @ str_WorkerIncarnation (ha_incarnation ack) @
               '' epoch='' @ str_CoordinatorEpoch (ha_epoch ack)) (wp\<lparr>wp_ack_epoch := ha_epoch ack\<rparr>))))"

definition any_authorized :: "WorkerProcess \<Rightarrow> bool" where
  "any_authorized wp \<longleftrightarrow> list_ex (\<lambda>resource. om_find (wp_authorized wp) resource = Some True) (wp_resources wp)"

definition on_query :: "WorkerProcess \<Rightarrow> WorkerProcess" where
  "on_query wp =
     (let wp = for_each (wp_resources wp) send_evidence wp;
          wp = worker_send MessageKind.QUERY_RESPONSE (Inr []) wp
      in if any_authorized wp then run_cuda_work ''WORK'' wp
         else emit (''WORKER CUDA REFUSED no resource is currently authorised for this '' @ ''incarnation'') wp)"

text \<open>The acknowledgment does not name its resource: it is applied to all of them.\<close>

definition on_evidence_ack :: "u8 list \<Rightarrow> WorkerProcess \<Rightarrow> WorkerProcess" where
  "on_evidence_ack payload wp =
     (case decode_worker_evidence_ack payload of
        Inl _ \<Rightarrow> wp
      | Inr ack \<Rightarrow>
          (let wp = (if id_valid (wea_generation ack)
                     then wp\<lparr>wp_generations := for_each (wp_resources wp) (\<lambda>resource. om_put resource (wea_generation ack))
                            (wp_generations wp)\<rparr> else wp);
               wp = wp\<lparr>wp_authorized := for_each (wp_resources wp) (\<lambda>resource. om_put resource (wea_granted ack))
                      (wp_authorized wp)\<rparr>
           in emit (''WORKER EVIDENCE_ACK granted='' @ flag_str (wea_granted ack) @ '' fenced='' @
                flag_str (wea_fenced ack) @ '' generation='' @ str_ResourceGeneration (wea_generation ack) @
                '' detail='' @ wea_detail ack) wp))"

definition dispatch_ack :: "WorkerProcess \<Rightarrow> ContainmentAction \<Rightarrow> ActionAcknowledgment" where
  "dispatch_ack wp action = \<lparr>ack_action = act_id action, ack_action_generation = act_generation action,
     ack_epoch = env_epoch (act_envelope action), ack_worker = wp_worker wp, ack_worker_boot = wp_boot wp,
     ack_accepted = True, ack_executor_token = ''worker:'' @ str_WorkerBootId (wp_boot wp),
     ack_detail = ''accepted; the resource is fenced locally''\<rparr>"

definition dispatch_result :: "WorkerProcess \<Rightarrow> ContainmentAction \<Rightarrow> ActionResult" where
  "dispatch_result wp action = \<lparr>ares_action = act_id action, ares_action_generation = act_generation action,
     ares_epoch = env_epoch (act_envelope action), ares_worker = wp_worker wp, ares_worker_boot = wp_boot wp,
     ares_success = True,
     ares_mechanism = (if id_valid (env_target (act_envelope action)) then ContainmentMechanism.PROCESS_CONTAINMENT
                       else ContainmentMechanism.LOGICAL_CONTAINMENT),
     ares_detail = ''worker stopped issuing work for the target''\<rparr>"

definition on_dispatch :: "u8 list \<Rightarrow> WorkerProcess \<Rightarrow> WorkerProcess" where
  "on_dispatch payload wp =
     (case decode_action_dispatch payload of
        Inl e \<Rightarrow> emit (''WORKER DISPATCH_MALFORMED '' @ Error_to_string e) wp
      | Inr m \<Rightarrow>
          (let action = adm_action m;
               wp = emit (''WORKER DISPATCH action='' @ str_ActionId (act_id action) @ '' kind='' @
                      ContainmentActionKind_str (act_kind action) @ '' target='' @
                      str_ResourceId (act_target action)) wp;
               wp = worker_send MessageKind.ACTION_ACK (encode_action_ack (dispatch_ack wp action)) wp;
               wp = worker_send MessageKind.ACTION_RESULT (encode_action_result (dispatch_result wp action)) wp
           in emit (''WORKER ACK action='' @ str_ActionId (act_id action)) wp))"

definition on_reject :: "u8 list \<Rightarrow> WorkerProcess \<Rightarrow> WorkerProcess" where
  "on_reject payload wp =
     (case decode_reject payload of
        Inl _ \<Rightarrow> wp
      | Inr r \<Rightarrow> emit (''WORKER REJECT code='' @ ErrorCode_str (rj_code r) @ '' detail='' @ rj_detail r) wp)"

definition worker_frame :: "Frame \<Rightarrow> WorkerProcess \<Rightarrow> nat option \<times> WorkerProcess" where
  "worker_frame fm wp =
     (case fm_kind fm of
        MessageKind.HELLO_ACK \<Rightarrow> on_hello_ack (fm_payload fm) wp
      | MessageKind.QUERY_REQUEST \<Rightarrow> (None, on_query wp)
      | MessageKind.WORKER_EVIDENCE_ACK \<Rightarrow> (None, on_evidence_ack (fm_payload fm) wp)
      | MessageKind.ACTION_DISPATCH \<Rightarrow> (None, on_dispatch (fm_payload fm) wp)
      | MessageKind.REJECT \<Rightarrow> (None, on_reject (fm_payload fm) wp)
      | MessageKind.SHUTDOWN \<Rightarrow> (Some 0, emit ''WORKER EXIT'' (emit ''WORKER SHUTDOWN_REQUESTED'' wp))
      | _ \<Rightarrow> (None, wp))"

text \<open>The loop, over the frames that arrive and the error that ends them.\<close>

fun worker_loop :: "Frame list \<Rightarrow> Error \<Rightarrow> WorkerProcess \<Rightarrow> nat \<times> WorkerProcess" where
  "worker_loop [] e wp =
     (0, emit ''WORKER EXIT'' (emit (''WORKER DISCONNECTED '' @ Error_to_string e) wp))"
| "worker_loop (fm # fms) e wp =
     (case worker_frame fm wp of
        (Some code, wp) \<Rightarrow> (code, wp)
      | (None, wp) \<Rightarrow> worker_loop fms e wp)"

section \<open>The process\<close>

definition start_worker :: "WorkerOptions \<Rightarrow> WorkerBootId \<Rightarrow> WorkerProcess" where
  "start_worker wo boot = emit (''WORKER BEGIN id='' @ str_WorkerId (wo_worker wo) @ '' boot='' @ str_WorkerBootId boot)
     \<lparr>wp_worker = wo_worker wo, wp_boot = boot, wp_resources = wo_resources wo, wp_ack_epoch = id_invalid,
      wp_generations = [], wp_authorized = [], wp_sent = [], wp_emitted = [], wp_work = []\<rparr>"

text \<open>
  \<open>connected\<close> is what connecting to host and port answers, \<open>sent\<close> what sending the handshake does, and
  \<open>arrivals\<close> what the socket yields from then on.
\<close>

definition run_worker ::
    "(string \<Rightarrow> u64 \<Rightarrow> Socket Result) \<Rightarrow> (u8 list \<Rightarrow> Status) \<Rightarrow> Received list \<Rightarrow> WorkerOptions \<Rightarrow> WorkerBootId \<Rightarrow> string \<Rightarrow> u64 \<Rightarrow>
     nat \<times> WorkerProcess" where
  "run_worker connected sent arrivals wo boot host port =
     (let wp = start_worker wo boot in
      (case connected host port of
         Inl e \<Rightarrow> (3, emit (''WORKER CONNECT_FAILED '' @ Error_to_string e) wp)
       | Inr socket \<Rightarrow>
           (case encode_hello (worker_hello wo boot) of
              Inl e \<Rightarrow> (3, emit (''WORKER ENCODE_FAILED '' @ Error_to_string e) wp)
            | Inr payload \<Rightarrow>
                (case sent payload of
                   Inl _ \<Rightarrow> (3, emit ''WORKER HANDSHAKE_FAILED send'' wp)
                 | Inr _ \<Rightarrow>
                     (case receive_frames arrivals socket of (fms, e) \<Rightarrow>
                        worker_loop fms e (worker_send MessageKind.HELLO (Inr payload) wp))))))"

definition worker_main ::
    "(string \<Rightarrow> u64 \<Rightarrow> Socket Result) \<Rightarrow> (u8 list \<Rightarrow> Status) \<Rightarrow> Received list \<Rightarrow> u64 \<Rightarrow> u64 \<Rightarrow> string list \<Rightarrow>
     nat \<times> WorkerProcess option" where
  "worker_main connected sent arrivals ticks pid args =
     (case worker_options args WorkerOptions_default of
        Inl code \<Rightarrow> (code, None)
      | Inr wo \<Rightarrow>
          if wo_endpoint wo = [] \<or> \<not> id_valid (wo_worker wo) \<or> wo_resources wo = [] then (2, None)
          else
            (let boot = (if id_valid (wo_boot wo) then wo_boot wo else fresh_boot ticks pid) in
             (case parse_endpoint (wo_endpoint wo) of
                None \<Rightarrow> (2, None)
              | Some (host, port) \<Rightarrow>
                  map_prod id Some (run_worker connected sent arrivals wo boot host port))))"

end
