(* ===== verification/Fcf_Worker_Process_Props.thy ===== *)
theory Fcf_Worker_Process_Props
  imports Fcf_Worker_Process Fcf_Texts
begin

text \<open>
  The worker process against the coordinator it talks to: what it answers to a dispatched action, and
  what the acknowledgment of evidence for one of its resources does to the others.
\<close>

lemma emit_fields [simp]:
  "wp_authorized (emit line wp) = wp_authorized wp" "wp_sent (emit line wp) = wp_sent wp"
  "wp_work (emit line wp) = wp_work wp" "wp_resources (emit line wp) = wp_resources wp"
  "wp_worker (emit line wp) = wp_worker wp" "wp_boot (emit line wp) = wp_boot wp"
  by (simp_all add: emit_def)

lemma worker_send_fields [simp]:
  "wp_authorized (worker_send kind payload wp) = wp_authorized wp"
  "wp_work (worker_send kind payload wp) = wp_work wp"
  "wp_resources (worker_send kind payload wp) = wp_resources wp"
  "wp_worker (worker_send kind payload wp) = wp_worker wp" "wp_boot (worker_send kind payload wp) = wp_boot wp"
  "set (wp_sent (worker_send kind payload wp)) =
     (case payload of Inl _ \<Rightarrow> set (wp_sent wp) | Inr bytes \<Rightarrow> insert (kind, bytes) (set (wp_sent wp)))"
  by (simp_all add: worker_send_def split: sum.split)

lemma send_evidence_fields [simp]:
  "wp_authorized (fold send_evidence is wp) = wp_authorized wp" "wp_work (fold send_evidence is wp) = wp_work wp"
  "wp_resources (fold send_evidence is wp) = wp_resources wp"
  by (induction "is" arbitrary: wp) (simp_all add: send_evidence_def)

lemma query_work:
  "wp_work (on_query wp) = wp_work wp @ (if any_authorized wp then [''WORK''] else [])"
  by (simp add: on_query_def any_authorized_def run_cuda_work_def Let_def)

section \<open>A dispatched action\<close>

text \<open>The answers always encode: beside numbers they hold short texts of the worker's own.\<close>

lemma dispatch_answers_encode:
  "\<exists>bytes. encode_action_ack (dispatch_ack wp a) = Inr bytes"
  "\<exists>bytes. encode_action_result (dispatch_result wp a) = Inr bytes"
proof -
  have token: "str_good (ack_executor_token (dispatch_ack wp a))" "length (ack_executor_token (dispatch_ack wp a)) \<le> 100"
    using id_text [of "''WorkerBootId''" "wp_boot wp"] by (auto simp: dispatch_ack_def intro: seven_bit_good)
  have texts: "str_good (ack_detail (dispatch_ack wp a))" "length (ack_detail (dispatch_ack wp a)) \<le> 100"
    "str_good (ares_detail (dispatch_result wp a))" "length (ares_detail (dispatch_result wp a)) \<le> 100"
    by (auto simp: dispatch_ack_def dispatch_result_def intro: seven_bit_good)
  have "grows (\<lambda>w. write_ack_fields (dispatch_ack wp a) (wr_u32 kProtocolFormatVersion w)) (4 + 400) (True \<and> True)"
    unfolding write_ack_fields_def
    by (rule grows_comp [OF grows_u32], rule grows_weaken, (rule grows_intros)+) (use token texts in simp_all)
  then have "bw_ok (write_ack_fields (dispatch_ack wp a) (wr_u32 kProtocolFormatVersion ByteWriter_default))"
    by (rule grows_ok) (simp_all add: kMaxDocumentBytes_def)
  then show "\<exists>bytes. encode_action_ack (dispatch_ack wp a) = Inr bytes"
    unfolding encode_action_ack_def by (rule message_encodes)
  have "grows (\<lambda>w. write_result_fields (dispatch_result wp a) (wr_u32 kProtocolFormatVersion w)) (4 + 400) (True \<and> True)"
    unfolding write_result_fields_def
    by (rule grows_comp [OF grows_u32], rule grows_weaken, (rule grows_intros)+) (use texts in simp_all)
  then have "bw_ok (write_result_fields (dispatch_result wp a) (wr_u32 kProtocolFormatVersion ByteWriter_default))"
    by (rule grows_ok) (simp_all add: kMaxDocumentBytes_def)
  then show "\<exists>bytes. encode_action_result (dispatch_result wp a) = Inr bytes"
    unfolding encode_action_result_def by (rule message_encodes)
qed

text \<open>
  C20. The worker reports an enforcement that does not take place. Every action that is dispatched
  to it and decodes is answered by exactly two frames, an accepting acknowledgment that says that the
  resource is fenced locally and a successful result, by process containment for a valid target and by
  logical containment without one, that says that it stopped issuing work for the target; but the
  worker changes nothing: each of its resources is authorised as before, and the next query runs the
  workload if it ran before.
\<close>

theorem dispatched_action_is_not_enforced:
  assumes "decode_action_dispatch payload = Inr m"
    and "worker_frame \<lparr>fm_version = v, fm_kind = MessageKind.ACTION_DISPATCH, fm_payload = payload\<rparr> wp = (code, wp')"
  shows "code = None \<and>
    (\<exists>abytes rbytes. wp_sent wp' = wp_sent wp @ [(MessageKind.ACTION_ACK, abytes), (MessageKind.ACTION_RESULT, rbytes)] \<and>
       encode_action_ack (dispatch_ack wp (adm_action m)) = Inr abytes \<and>
       encode_action_result (dispatch_result wp (adm_action m)) = Inr rbytes) \<and>
    ack_accepted (dispatch_ack wp (adm_action m)) \<and>
    ack_detail (dispatch_ack wp (adm_action m)) = ''accepted; the resource is fenced locally'' \<and>
    ares_success (dispatch_result wp (adm_action m)) \<and>
    ares_mechanism (dispatch_result wp (adm_action m)) =
      (if id_valid (env_target (act_envelope (adm_action m))) then ContainmentMechanism.PROCESS_CONTAINMENT
       else ContainmentMechanism.LOGICAL_CONTAINMENT) \<and>
    ares_detail (dispatch_result wp (adm_action m)) = ''worker stopped issuing work for the target'' \<and>
    wp_authorized wp' = wp_authorized wp \<and>
    (any_authorized wp \<longrightarrow> wp_work (on_query wp') = wp_work wp @ [''WORK''])"
proof -
  have wp': "code = None" "wp' = on_dispatch payload wp" using assms(2) by (simp_all add: worker_frame_def)
  have fields: "wp_authorized wp' = wp_authorized wp" "wp_resources wp' = wp_resources wp" "wp_work wp' = wp_work wp"
    by (simp_all add: wp' on_dispatch_def Let_def split: sum.split)
  obtain abytes rbytes where answers: "encode_action_ack (dispatch_ack wp (adm_action m)) = Inr abytes"
    "encode_action_result (dispatch_result wp (adm_action m)) = Inr rbytes"
    using dispatch_answers_encode by blast
  have "dispatch_ack (emit line wp) a = dispatch_ack wp a"
    "dispatch_result (worker_send kind p (emit line wp)) a = dispatch_result wp a" for kind p line a
    by (simp_all add: dispatch_ack_def dispatch_result_def)
  then have "wp_sent wp' = wp_sent wp @ [(MessageKind.ACTION_ACK, abytes), (MessageKind.ACTION_RESULT, rbytes)]"
    using assms(1) answers by (simp add: wp' on_dispatch_def Let_def worker_send_def emit_def)
  with answers wp'(1) fields show ?thesis
    by (simp add: dispatch_ack_def dispatch_result_def query_work any_authorized_def)
qed

text \<open>A worker that is authorised for resource 5, and an action that targets it.\<close>

definition working :: "ResourceId list \<Rightarrow> WorkerProcess" where
  "working ids = \<lparr>wp_worker = Id 3, wp_boot = Id 4, wp_resources = ids, wp_ack_epoch = Id 1, wp_generations = [],
     wp_authorized = [(Id 5, True)], wp_sent = [], wp_emitted = [], wp_work = []\<rparr>"

definition targeted_dispatch :: ActionDispatchMessage where
  "targeted_dispatch = \<lparr>adm_action = ContainmentAction_default\<lparr>act_id := Id 1,
     act_envelope := AuthorityEnvelope_default\<lparr>env_target := Id 5\<rparr>\<rparr>\<rparr>"

theorem dispatched_action_is_not_enforced_witness:
  "\<exists>payload abytes rbytes wp'. decode_action_dispatch payload = Inr targeted_dispatch \<and>
     worker_frame \<lparr>fm_version = 1, fm_kind = MessageKind.ACTION_DISPATCH, fm_payload = payload\<rparr> (working [Id 5]) = (None, wp') \<and>
     wp_sent wp' = [(MessageKind.ACTION_ACK, abytes), (MessageKind.ACTION_RESULT, rbytes)] \<and>
     wp_work (on_query wp') = [''WORK'']"
proof -
  have "grows (write_action (adm_action targeted_dispatch)) 400 True"
    unfolding write_action_def write_authority_envelope_def targeted_dispatch_def ContainmentAction_default_def
      AuthorityEnvelope_default_def ContainmentAction.simps AuthorityEnvelope.simps ActionDispatchMessage.simps
    by (rule grows_weaken, (rule grows_intros)+)
      (simp_all add: str_good_def kMaxStringBytes_def is_valid_utf8_def str_bytes_def)
  then have "grows (write_action_dispatch targeted_dispatch) (400 + 0) (True \<and> True)"
    unfolding write_action_dispatch_def by (rule grows_Cons [OF _ grows_Nil])
  then have "grows (\<lambda>w. write_action_dispatch targeted_dispatch (wr_u32 kProtocolFormatVersion w))
      (4 + (400 + 0)) (True \<and> (True \<and> True))"
    by (rule grows_comp [OF grows_u32])
  then have "bw_ok (write_action_dispatch targeted_dispatch (wr_u32 kProtocolFormatVersion ByteWriter_default))"
    by (rule grows_ok) (simp_all add: kMaxDocumentBytes_def)
  then have "\<exists>payload. encode_action_dispatch targeted_dispatch = Inr payload"
    unfolding encode_action_dispatch_def by (rule message_encodes)
  then obtain payload where sent: "encode_action_dispatch targeted_dispatch = Inr payload" by blast
  have "canon_action (adm_action targeted_dispatch)"
    by (simp add: targeted_dispatch_def canon_action_def canon_authority_envelope_def ContainmentAction_default_def
        AuthorityEnvelope_default_def id_valid_def om_wf_def)
  with sent have d: "decode_action_dispatch payload = Inr targeted_dispatch"
    using rc_action_dispatch.message_roundtrip by (simp add: encode_action_dispatch_def decode_action_dispatch_def)
  obtain code wp' where w: "worker_frame \<lparr>fm_version = 1, fm_kind = MessageKind.ACTION_DISPATCH, fm_payload = payload\<rparr>
      (working [Id 5]) = (code, wp')" by (rule prod.exhaust)
  have "any_authorized (working [Id 5])" "wp_work (working [Id 5]) = []" "wp_sent (working [Id 5]) = []"
    by (simp_all add: any_authorized_def working_def)
  with dispatched_action_is_not_enforced [OF d w] d w show ?thesis by auto
qed

section \<open>Acknowledged evidence\<close>

text \<open>What the coordinator's acknowledgments for contained and for other resources say.\<close>

lemma post_log:
  "co_sent (snd (post net socket kind payload co)) = co_sent co @ [(socket, kind, payload, fst (post net socket kind payload co))]"
  by (simp add: post_def Let_def)

lemma reject_log:
  "co_sent (reject net socket code detail co) \<noteq> co_sent co @ [(socket, MessageKind.WORKER_EVIDENCE_ACK, p, st)]"
  by (simp add: reject_def post_log split: sum.split)

lemma fenced_ack:
  assumes "decode_worker_evidence q = Inr ev" and "om_find (resources (co_engine co)) (we_resource ev) = Some r"
    and "rr_quarantined r \<or> is_contained (rr_state r)"
    and "co_sent (handle_evidence net socket q cn co) = co_sent co @ [(socket, MessageKind.WORKER_EVIDENCE_ACK, p, st)]"
  shows "\<exists>ack. decode_worker_evidence_ack p = Inr ack \<and> \<not> wea_granted ack"
proof -
  have "handle_evidence net socket q cn co = fenced_evidence net socket ev co"
    using assms reject_log by (auto simp: handle_evidence_def split: if_splits)
  with assms(4) obtain ack where "encode_worker_evidence_ack ack = Inr p" and "\<not> wea_granted ack"
    by (auto simp: fenced_evidence_def Let_def post_log split: sum.splits prod.splits)
  then show ?thesis
    using rc_worker_evidence_ack.message_roundtrip
    by (auto simp: encode_worker_evidence_ack_def decode_worker_evidence_ack_def)
qed

lemma granted_ack:
  assumes "decode_worker_evidence q = Inr ev" and "om_find (resources (co_engine co)) (we_resource ev) = Some r"
    and "\<not> rr_quarantined r" and "\<not> is_contained (rr_state r)"
    and "co_sent (handle_evidence net socket q cn co) = co_sent co @ [(socket, MessageKind.WORKER_EVIDENCE_ACK, p, st)]"
  shows "\<exists>ack. decode_worker_evidence_ack p = Inr ack \<and> wea_granted ack"
proof -
  have "handle_evidence net socket q cn co = grant_evidence net socket ev r co"
    using assms reject_log by (auto simp: handle_evidence_def split: if_splits)
  with assms(5) obtain ack where "encode_worker_evidence_ack ack = Inr p" and "wea_granted ack"
    using reject_log [of net socket _ _ "upd_engine s co" p st for s]
    by (auto simp: grant_evidence_def Let_def post_log split: sum.splits prod.splits)
  then show ?thesis
    using rc_worker_evidence_ack.message_roundtrip
    by (auto simp: encode_worker_evidence_ack_def decode_worker_evidence_ack_def)
qed

lemma put_everywhere: "om_find (fold (\<lambda>k. om_put k v) ks m) i = (if i \<in> set ks then Some v else om_find m i)"
  by (induction ks arbitrary: m) auto

lemma acknowledged_authority:
  assumes "decode_worker_evidence_ack p = Inr ack" and "i \<in> set (wp_resources wp)"
  shows "om_find (wp_authorized (on_evidence_ack p wp)) i = Some (wea_granted ack)"
    and "wp_resources (on_evidence_ack p wp) = wp_resources wp"
  using assms by (simp_all add: on_evidence_ack_def Let_def put_everywhere)

text \<open>
  C19. A worker with two resources works on with a fenced one. It reports evidence for a
  contained resource and for one that is not; the coordinator acknowledges the first without granting
  authority and grants the second, and the first is still fenced afterwards. But the acknowledgment does
  not name its resource and the worker applies it to all of its resources: after the second one it
  counts the fenced resource as authorised, and a query makes it run its workload.
\<close>

theorem worker_works_on_fenced_resource:
  assumes "resources_keyed (rs_topology (im_state (co_engine co)))"
    and "decode_worker_evidence qa = Inr ea" and "om_find (resources (co_engine co)) (we_resource ea) = Some ra"
    and "rr_quarantined ra" and "is_contained (rr_state ra)"
    and "co1 = handle_evidence net socket qa cn co"
    and "co_sent co1 = co_sent co @ [(socket, MessageKind.WORKER_EVIDENCE_ACK, pa, sta)]"
    and "decode_worker_evidence qb = Inr eb" and "om_find (resources (co_engine co1)) (we_resource eb) = Some rb"
    and "\<not> rr_quarantined rb" and "\<not> is_contained (rr_state rb)"
    and "co2 = handle_evidence net socket qb cn co1"
    and "co_sent co2 = co_sent co1 @ [(socket, MessageKind.WORKER_EVIDENCE_ACK, pb, stb)]"
    and "we_resource ea \<in> set (wp_resources wp)"
  shows "om_find (wp_authorized (on_evidence_ack pa wp)) (we_resource ea) = Some False \<and>
    om_find (wp_authorized (on_evidence_ack pb (on_evidence_ack pa wp))) (we_resource ea) = Some True \<and>
    (\<exists>r. om_find (resources (co_engine co2)) (we_resource ea) = Some r \<and> rr_quarantined r \<and> is_contained (rr_state r)) \<and>
    ''WORK'' \<in> set (wp_work (on_query (on_evidence_ack pb (on_evidence_ack pa wp))))"
proof -
  obtain acka where a: "decode_worker_evidence_ack pa = Inr acka" "\<not> wea_granted acka"
    using fenced_ack [OF assms(2,3)] assms(4,6,7) by blast
  obtain ackb where b: "decode_worker_evidence_ack pb = Inr ackb" "wea_granted ackb"
    using granted_ack [OF assms(8-11)] assms(12,13) by blast
  note first = acknowledged_authority [OF a(1) assms(14)]
  have "we_resource ea \<in> set (wp_resources (on_evidence_ack pa wp))" using assms(14) first by simp
  note second = acknowledged_authority [OF b(1) this]
  have "any_authorized (on_evidence_ack pb (on_evidence_ack pa wp))"
    using second b first(2) assms(14) by (auto simp: any_authorized_def list_ex_iff)
  moreover have "\<exists>r. om_find (resources (co_engine co2)) (we_resource ea) = Some r \<and> fenced r"
    using fences.worker_evidence_handled [OF fences_grant, of co net socket qa cn]
      fences.worker_evidence_handled [OF fences_grant, of co1 net socket qb cn] assms(1,3-6,12)
    unfolding resources_keyed_iff keeps_def fenced_def by blast
  ultimately show ?thesis using first second a b by (auto simp: query_work fenced_def)
qed

section \<open>A fenced and a free resource\<close>

lemma evidence_ack_encodes:
  assumes "str_good d" and "length (str_bytes d) \<le> 1000"
  shows "\<exists>p. encode_worker_evidence_ack \<lparr>wea_granted = g, wea_fenced = f, wea_generation = n, wea_detail = d\<rparr> = Inr p"
proof -
  let ?m = "\<lparr>wea_granted = g, wea_fenced = f, wea_generation = n, wea_detail = d\<rparr>"
  have "grows (write_worker_evidence_ack ?m) (100 + int (length (str_bytes d))) True"
    unfolding write_worker_evidence_ack_def WorkerEvidenceAck.select_convs
    by (rule grows_weaken, (rule grows_intros)+) (simp_all add: assms)
  then have "grows (\<lambda>w. write_worker_evidence_ack ?m (wr_u32 kProtocolFormatVersion w))
      (4 + (100 + int (length (str_bytes d)))) (True \<and> True)"
    by (rule grows_comp [OF grows_u32])
  then have "bw_ok (write_worker_evidence_ack ?m (wr_u32 kProtocolFormatVersion ByteWriter_default))"
    by (rule grows_ok) (use assms(2) in \<open>simp_all add: kMaxDocumentBytes_def\<close>)
  then show ?thesis unfolding encode_worker_evidence_ack_def by (rule message_encodes)
qed

lemma evidence_accepted:
  assumes "accepting s" and "om_find (resources s) i = Some r" and "\<not> id_valid g \<or> rr_generation r = g"
    and "\<not> id_valid (rr_evidence_sequence r)"
  shows "\<exists>r' t. publish_resource_evidence i g f k m src s = (Inr r', t) \<and> accepting t \<and>
    (\<forall>j. j \<noteq> i \<longrightarrow> om_find (resources t) j = om_find (resources s) j) \<and> rs_epoch (im_state t) = rs_epoch (im_state s)"
proof -
  let ?p = "publish_resource_evidence_locked i g f k m src s"
  have p: "\<exists>r'. fst ?p = Inr r'" and store: "im_store (snd ?p) = im_store s"
    and others: "\<forall>j. j \<noteq> i \<longrightarrow> om_find (resources (snd ?p)) j = om_find (resources s) j"
    and epoch: "rs_epoch (im_state (snd ?p)) = rs_epoch (im_state s)"
    using assms(2-) by (auto simp: publish_resource_evidence_locked_def now_def Let_def)
  from p obtain r' where "?p = (Inr r', snd ?p)" by (metis prod.collapse)
  moreover have acc: "accepting (snd ?p)" using assms(1) store by (simp add: accepting_def)
  ultimately have "publish_resource_evidence i g f k m src s = (Inr r', snd (flush (snd ?p)))"
    using complete_accepting [OF acc, of r'] by (metis publish_resource_evidence_def)
  then show ?thesis using flush_accepting [OF acc] others epoch by simp
qed

lemma update_accepted:
  assumes "accepting s" and "om_find (resources s) (rr_id r) = Some old" and "rr_generation old = g" and "id_valid g"
  shows "\<exists>r' t. update_resource r g s = (Inr r', t) \<and> accepting t \<and> om_find (resources t) (rr_id r) = Some r' \<and>
    rr_evidence_sequence r' = rr_evidence_sequence r"
proof -
  let ?p = "update_resource_locked r g s"
  have p: "\<exists>r'. fst ?p = Inr r' \<and> om_find (resources (snd ?p)) (rr_id r) = Some r' \<and>
      rr_evidence_sequence r' = rr_evidence_sequence r"
    and store: "im_store (snd ?p) = im_store s"
    using assms(2-) by (auto simp: update_resource_locked_def now_def Let_def)
  from p obtain r' where r': "?p = (Inr r', snd ?p)" "om_find (resources (snd ?p)) (rr_id r) = Some r'"
    "rr_evidence_sequence r' = rr_evidence_sequence r" by (metis prod.collapse)
  have acc: "accepting (snd ?p)" using assms(1) store by (simp add: accepting_def)
  have "update_resource r g s = (Inr r', snd (flush (snd ?p)))"
    using complete_accepting [OF acc, of r'] r'(1) by (metis update_resource_def)
  then show ?thesis using flush_accepting [OF acc] r' by simp
qed

definition greeted :: Connection where
  "greeted = \<lparr>cn_worker = Id 3, cn_boot = Id 4, cn_hello_done = True\<rparr>"

definition evidence_for :: "ResourceId \<Rightarrow> WorkerEvidenceMessage" where
  "evidence_for i = \<lparr>we_worker = Id 3, we_boot = Id 4, we_epoch = Id 1, we_resource = i, we_generation = Id 1,
     we_freshness = EvidenceFreshness.FRESH, we_sequence = Id 1, we_mechanism = ContainmentMechanism.NONE\<rparr>"

definition half_fenced_runtime :: Impl where
  "half_fenced_runtime = demo_runtime\<lparr>im_state := demo_snapshot\<lparr>rs_topology := Topology_default\<lparr>tp_resources :=
     [(Id 5, (demo_resource 5)\<lparr>rr_quarantined := True, rr_state := ResourceOperationalState.FENCED\<rparr>),
      (Id 6, demo_resource 6)]\<rparr>\<rparr>\<rparr>"

lemma evidence_for_decodes:
  assumes "i = Id 5 \<or> i = Id 6"
  shows "\<exists>q. decode_worker_evidence q = Inr (evidence_for i)"
proof -
  have "bw_ok (write_worker_evidence (evidence_for (Id 5)) (wr_u32 kProtocolFormatVersion ByteWriter_default))"
    "bw_ok (write_worker_evidence (evidence_for (Id 6)) (wr_u32 kProtocolFormatVersion ByteWriter_default))"
    by code_simp+
  then have "bw_ok (write_worker_evidence (evidence_for i) (wr_u32 kProtocolFormatVersion ByteWriter_default))"
    using assms by auto
  then have "\<exists>q. encode_worker_evidence (evidence_for i) = Inr q"
    unfolding encode_worker_evidence_def by (rule message_encodes)
  then obtain q where "encode_worker_evidence (evidence_for i) = Inr q" by blast
  then have "decode_worker_evidence q = Inr (evidence_for i)"
    using rc_worker_evidence.message_roundtrip assms
    by (auto simp: encode_worker_evidence_def decode_worker_evidence_def evidence_for_def id_valid_def)
  then show ?thesis ..
qed

lemma fenced_evidence_log:
  assumes "decode_worker_evidence q = Inr ev" and "cn_hello_done cn" and "we_boot ev = cn_boot cn"
    and "we_epoch ev = rs_epoch (im_state (co_engine co))"
    and "om_find (resources (co_engine co)) (we_resource ev) = Some r" and "we_generation ev = rr_generation r"
    and "rr_quarantined r"
  shows "\<exists>p st. co_sent (handle_evidence net socket q cn co) =
    co_sent co @ [(socket, MessageKind.WORKER_EVIDENCE_ACK, p, st)]"
proof -
  have d: "str_good ''resource is under containment; evidence recorded without granting authority''"
    "length (str_bytes ''resource is under containment; evidence recorded without granting authority'') \<le> 1000"
    by code_simp+
  from assms have "handle_evidence net socket q cn co = fenced_evidence net socket ev co"
    by (simp add: handle_evidence_def)
  moreover have "\<exists>p. encode_worker_evidence_ack \<lparr>wea_granted = False, wea_fenced = True, wea_generation = n,
      wea_detail = ''resource is under containment; evidence recorded without granting authority''\<rparr> = Inr p" for n
    by (rule evidence_ack_encodes [OF d])
  ultimately show ?thesis
    by (auto simp: fenced_evidence_def Let_def case_prod_beta post_log split: sum.split) (metis Inl_Inr_False)+
qed

lemma granted_evidence_log:
  assumes "decode_worker_evidence q = Inr ev" and "cn_hello_done cn" and "we_boot ev = cn_boot cn"
    and "we_epoch ev = rs_epoch (im_state (co_engine co))" and "accepting (co_engine co)"
    and "om_find (resources (co_engine co)) (we_resource ev) = Some r" and "rr_id r = we_resource ev"
    and "we_generation ev = rr_generation r" and "id_valid (rr_generation r)"
    and "\<not> rr_quarantined r" and "\<not> is_contained (rr_state r)" and "\<not> id_valid (rr_evidence_sequence r)"
  shows "\<exists>p st. co_sent (handle_evidence net socket q cn co) =
    co_sent co @ [(socket, MessageKind.WORKER_EVIDENCE_ACK, p, st)]"
proof -
  let ?new = "r\<lparr>rr_owner_worker := we_worker ev, rr_owner_boot := we_boot ev, rr_state := ResourceOperationalState.ACTIVE\<rparr>"
  have h: "handle_evidence net socket q cn co = grant_evidence net socket ev r co"
    using assms by (simp add: handle_evidence_def)
  have "om_find (resources (co_engine co)) (rr_id ?new) = Some r" using assms(6,7) by simp
  from update_accepted [OF assms(5) this refl assms(9)] obtain r1 s1 where u:
    "update_resource ?new (rr_generation r) (co_engine co) = (Inr r1, s1)" "accepting s1"
    "om_find (resources s1) (we_resource ev) = Some r1" "\<not> id_valid (rr_evidence_sequence r1)"
    using assms(7,12) by auto
  from evidence_accepted [OF u(2,3) _ u(4), of "rr_generation r1"] obtain r2 s2 where e:
    "publish_resource_evidence (we_resource ev) (rr_generation r1) EvidenceFreshness.FRESH (we_sequence ev)
       (we_mechanism ev) (''worker '' @ str_WorkerBootId (we_boot ev)) s1 = (Inr r2, s2)"
    by blast
  have d: "str_good ''evidence accepted and authority granted''"
    "length (str_bytes ''evidence accepted and authority granted'') \<le> 1000"
    by code_simp+
  obtain p where "encode_worker_evidence_ack \<lparr>wea_granted = True, wea_fenced = False, wea_generation = rr_generation r2,
      wea_detail = ''evidence accepted and authority granted''\<rparr> = Inr p"
    using evidence_ack_encodes [OF d] by blast
  then show ?thesis unfolding h grant_evidence_def u(1) prod.case sum.case e Let_def
    by (simp add: post_log)
qed

lemma fenced_evidence_keeps:
  assumes "decode_worker_evidence q = Inr ev" and "cn_hello_done cn" and "we_boot ev = cn_boot cn"
    and "we_epoch ev = rs_epoch (im_state (co_engine co))" and "accepting (co_engine co)"
    and "om_find (resources (co_engine co)) (we_resource ev) = Some r" and "we_generation ev = rr_generation r"
    and "rr_quarantined r" and "\<not> id_valid (rr_evidence_sequence r)"
    and "co1 = handle_evidence net socket q cn co"
  shows "accepting (co_engine co1) \<and> rs_epoch (im_state (co_engine co1)) = rs_epoch (im_state (co_engine co)) \<and>
    (\<forall>j. j \<noteq> we_resource ev \<longrightarrow> om_find (resources (co_engine co1)) j = om_find (resources (co_engine co)) j)"
proof -
  have h: "co1 = fenced_evidence net socket ev co" using assms by (simp add: handle_evidence_def)
  have "\<not> id_valid id_invalid \<or> rr_generation r = id_invalid" by (simp add: id_valid_def)
  from evidence_accepted [OF assms(5,6) this assms(9), of "we_freshness ev" "we_sequence ev" "we_mechanism ev"
      "''worker '' @ str_WorkerBootId (we_boot ev)"] obtain r1 s1 where e:
    "publish_resource_evidence (we_resource ev) id_invalid (we_freshness ev) (we_sequence ev) (we_mechanism ev)
       (''worker '' @ str_WorkerBootId (we_boot ev)) (co_engine co) = (Inr r1, s1)" "accepting s1"
    "\<forall>j. j \<noteq> we_resource ev \<longrightarrow> om_find (resources s1) j = om_find (resources (co_engine co)) j"
    "rs_epoch (im_state s1) = rs_epoch (im_state (co_engine co))"
    by blast
  have "co_engine co1 = s1"
    unfolding h fenced_evidence_def e(1) prod.case sum.case Let_def by (simp split: sum.split)
  with e show ?thesis by simp
qed

theorem worker_works_on_fenced_resource_witness:
  "\<exists>qa qb co1 co2 pa pb sta stb. co1 = handle_evidence quiet_network 7 qa greeted (service_over half_fenced_runtime) \<and>
     co2 = handle_evidence quiet_network 7 qb greeted co1 \<and>
     co_sent co2 = [(7, MessageKind.WORKER_EVIDENCE_ACK, pa, sta), (7, MessageKind.WORKER_EVIDENCE_ACK, pb, stb)] \<and>
     om_find (wp_authorized (on_evidence_ack pb (on_evidence_ack pa (working [Id 5, Id 6])))) (Id 5) = Some True \<and>
     ''WORK'' \<in> set (wp_work (on_query (on_evidence_ack pb (on_evidence_ack pa (working [Id 5, Id 6])))))"
proof -
  let ?co = "service_over half_fenced_runtime"
  let ?r5 = "(demo_resource 5)\<lparr>rr_quarantined := True, rr_state := ResourceOperationalState.FENCED\<rparr>"
  have sent: "co_sent ?co = []" and engine: "co_engine ?co = half_fenced_runtime" by (simp_all add: service_over_def)
  have res: "resources half_fenced_runtime = [(Id 5, ?r5), (Id 6, demo_resource 6)]"
    and acc: "accepting half_fenced_runtime" and epoch: "rs_epoch (im_state half_fenced_runtime) = Id 1"
    by (simp_all add: half_fenced_runtime_def accepting_def demo_runtime_def demo_store_def demo_snapshot_def)
  have keyed: "resources_keyed (rs_topology (im_state half_fenced_runtime))"
    by (simp add: resources_keyed_def res om_wf_def demo_resource_def)
  have ev: "we_resource (evidence_for i) = i" "we_boot (evidence_for i) = cn_boot greeted" "cn_hello_done greeted"
    "we_epoch (evidence_for i) = Id 1" "we_generation (evidence_for i) = Id 1" for i
    by (simp_all add: evidence_for_def greeted_def)
  have rec: "rr_generation (demo_resource n) = Id 1" "rr_id (demo_resource n) = Id n" "\<not> rr_quarantined (demo_resource n)"
    "\<not> is_contained (rr_state (demo_resource n))" "\<not> id_valid (rr_evidence_sequence (demo_resource n))" for n
    by (simp_all add: demo_resource_def ResourceRecord_default_def id_valid_def is_contained_def)
  have valid: "id_valid (Id 1)" by (simp add: id_valid_def)
  obtain qa where qa: "decode_worker_evidence qa = Inr (evidence_for (Id 5))" using evidence_for_decodes by blast
  obtain qb where qb: "decode_worker_evidence qb = Inr (evidence_for (Id 6))" using evidence_for_decodes by blast
  define co1 where "co1 = handle_evidence quiet_network 7 qa greeted ?co"
  define co2 where "co2 = handle_evidence quiet_network 7 qb greeted co1"
  have r5: "om_find (resources (co_engine ?co)) (we_resource (evidence_for (Id 5))) = Some ?r5"
    by (simp add: engine res ev)
  obtain pa sta where a: "co_sent co1 = co_sent ?co @ [(7, MessageKind.WORKER_EVIDENCE_ACK, pa, sta)]"
    using fenced_evidence_log [OF qa ev(3,2) _ r5, of quiet_network 7] ev rec(1) engine epoch co1_def by auto
  have keeps: "accepting (co_engine co1) \<and> rs_epoch (im_state (co_engine co1)) = rs_epoch (im_state (co_engine ?co)) \<and>
      (\<forall>j. j \<noteq> we_resource (evidence_for (Id 5)) \<longrightarrow> om_find (resources (co_engine co1)) j = om_find (resources (co_engine ?co)) j)"
    by (rule fenced_evidence_keeps [OF qa ev(3,2) _ _ r5 _ _ _ co1_def]) (simp_all add: ev rec engine epoch acc)
  then have r6: "om_find (resources (co_engine co1)) (we_resource (evidence_for (Id 6))) = Some (demo_resource 6)"
    by (simp add: engine res ev)
  have "\<exists>p st. co_sent (handle_evidence quiet_network 7 qb greeted co1) =
      co_sent co1 @ [(7, MessageKind.WORKER_EVIDENCE_ACK, p, st)]"
    by (rule granted_evidence_log [OF qb ev(3,2) _ _ r6]) (use keeps in \<open>simp_all add: ev rec valid engine epoch\<close>)
  then obtain pb stb where b: "co_sent co2 = co_sent co1 @ [(7, MessageKind.WORKER_EVIDENCE_ACK, pb, stb)]"
    unfolding co2_def by blast
  have "rr_quarantined ?r5" "is_contained (rr_state ?r5)" "we_resource (evidence_for (Id 5)) \<in> set (wp_resources (working [Id 5, Id 6]))"
    by (simp_all add: is_contained_def ev working_def)
  from worker_works_on_fenced_resource [OF _ qa r5 this(1,2) co1_def a qb r6 rec(3,4) co2_def b this(3)]
  have "om_find (wp_authorized (on_evidence_ack pb (on_evidence_ack pa (working [Id 5, Id 6])))) (Id 5) = Some True"
    "''WORK'' \<in> set (wp_work (on_query (on_evidence_ack pb (on_evidence_ack pa (working [Id 5, Id 6])))))"
    using keyed unfolding engine ev by blast+
  moreover have "co_sent co2 = [(7, MessageKind.WORKER_EVIDENCE_ACK, pa, sta), (7, MessageKind.WORKER_EVIDENCE_ACK, pb, stb)]"
    using a b sent by simp
  ultimately show ?thesis using co1_def co2_def by blast
qed

end
