(* ===== verification/Fcf_Applications.thy ===== *)
theory Fcf_Applications
  imports Fcf_Worker_Process
begin

text \<open>
  The command line client (\<open>apps/fcf-cli/main.cpp\<close>) and the coordinator process
  (\<open>apps/fcf-coordinator/main.cpp\<close>): their options, the client's two modes, the start of the service and
  the commands it reads from its standard input. What a process prints, on either stream, is a list of
  lines; usage texts are left out. Opening a state directory, connecting and binding answer as parameters.
\<close>

section \<open>The client\<close>

record CliOptions =
  cli_endpoint :: string
  cli_state_directory :: string
  cli_request :: ControlRequest

definition CliOptions_default :: CliOptions where
  "CliOptions_default = \<lparr>cli_endpoint = [], cli_state_directory = [], cli_request = \<lparr>crq_command = [], crq_arguments = []\<rparr>\<rparr>"

text \<open>The first word that is not an option is the command, every later one an argument.\<close>

definition add_word :: "string \<Rightarrow> ControlRequest \<Rightarrow> ControlRequest" where
  "add_word word request =
     (if crq_command request = [] then request\<lparr>crq_command := word\<rparr>
      else request\<lparr>crq_arguments := crq_arguments request @ [word]\<rparr>)"

text \<open>\<open>Inl\<close> is the exit code of a process that ends over its options.\<close>

fun cli_options :: "string list \<Rightarrow> CliOptions \<Rightarrow> nat + CliOptions" where
  "cli_options [] cli = Inr cli"
| "cli_options (argument # args) cli =
     (if argument = ''--help'' \<or> argument = ''-h'' then Inl 0
      else if argument = ''--connect'' \<or> argument = ''--state-dir'' then
        (case args of
           [] \<Rightarrow> Inl 2
         | value # args \<Rightarrow>
             cli_options args (if argument = ''--connect'' then cli\<lparr>cli_endpoint := value\<rparr>
                               else cli\<lparr>cli_state_directory := value\<rparr>))
      else cli_options args (cli\<lparr>cli_request := add_word argument (cli_request cli)\<rparr>))"

definition cli_render :: "ControlResponse \<Rightarrow> string list" where
  "cli_render response =
     ((if crs_ok response then ''ok'' else ''err'') @ '' '' @ ErrorCode_str (crs_code response) @
      (if crs_message response \<noteq> [] then '' '' @ crs_message response else [])) # crs_lines response"

definition cli_answer :: "ControlResponse \<Rightarrow> nat \<times> string list" where
  "cli_answer response = (if crs_ok response then 0 else 1, cli_render response)"

text \<open>
  The exchange with a running coordinator. \<open>connected\<close> is what connecting answers, \<open>sent\<close> what sending
  the request does, \<open>arrivals\<close> what the socket yields afterwards.
\<close>

definition cli_connect ::
    "(string \<Rightarrow> u64 \<Rightarrow> Socket Result) \<Rightarrow> (u8 list \<Rightarrow> Status) \<Rightarrow> Received list \<Rightarrow> string \<Rightarrow> ControlRequest \<Rightarrow>
     nat \<times> string list" where
  "cli_connect connected sent arrivals endpoint request =
     (case split_endpoint endpoint of
        None \<Rightarrow> (2, [''--connect must be host:port''])
      | Some _ \<Rightarrow>
     (case parse_endpoint endpoint of
        None \<Rightarrow> (2, [''invalid port''])
      | Some (host, port) \<Rightarrow>
     (case connected host port of
        Inl e \<Rightarrow> (3, [''connect: '' @ Error_to_string e])
      | Inr socket \<Rightarrow>
     (case encode_control_request request of
        Inl e \<Rightarrow> (3, [''encode: '' @ Error_to_string e])
      | Inr payload \<Rightarrow>
     (case sent payload of
        Inl e \<Rightarrow> (3, [''send: '' @ Error_to_string e])
      | Inr _ \<Rightarrow>
     (case receive_frame arrivals socket of
        (Inl e, _) \<Rightarrow> (3, [''receive: '' @ Error_to_string e])
      | (Inr fm, _) \<Rightarrow>
          if fm_kind fm = MessageKind.REJECT then
            (1, case decode_reject (fm_payload fm) of
                  Inl _ \<Rightarrow> []
                | Inr r \<Rightarrow> [''rejected '' @ ErrorCode_str (rj_code r) @ '' '' @ rj_detail r])
          else
            (case decode_control_response (fm_payload fm) of
               Inl e \<Rightarrow> (3, [''decode: '' @ Error_to_string e])
             | Inr response \<Rightarrow> cli_answer response)))))))"

text \<open>
  The same command against a state directory in this process: the runtime is recovered from the store,
  which attaches it, and executes the command. \<open>opened\<close> is the store or why it does not open,
  \<open>recovered\<close> what reading it answers; the last component is the runtime when the process ends.
\<close>

definition cli_offline ::
    "DurableStore Result \<Rightarrow> Recovery Result \<Rightarrow> (nat \<Rightarrow> u64) \<Rightarrow> ControlRequest \<Rightarrow>
     ((nat \<times> string list) \<times> Impl option) option" where
  "cli_offline opened recovered clock request =
     (case opened of
        Inl e \<Rightarrow> Some ((3, [''state: '' @ Error_to_string e]), None)
      | Inr ds \<Rightarrow>
          (case recover_from_store recovered ds 0 (Engine_construct (Config_default clock)) of
             (Inl e, s) \<Rightarrow> Some ((3, [''recover: '' @ Error_to_string e]), Some s)
           | (Inr _, s) \<Rightarrow>
               map_option (\<lambda>(response, s). (cli_answer response, Some s)) (execute_engine_control request s)))"

definition cli_main ::
    "(string \<Rightarrow> u64 \<Rightarrow> Socket Result) \<Rightarrow> (u8 list \<Rightarrow> Status) \<Rightarrow> Received list \<Rightarrow>
     (string \<Rightarrow> DurableStore Result \<times> Recovery Result) \<Rightarrow> (nat \<Rightarrow> u64) \<Rightarrow> string list \<Rightarrow>
     ((nat \<times> string list) \<times> Impl option) option" where
  "cli_main connected sent arrivals store clock args =
     (case cli_options args CliOptions_default of
        Inl code \<Rightarrow> Some ((code, []), None)
      | Inr cli \<Rightarrow>
          if crq_command (cli_request cli) = [] then Some ((2, []), None)
          else if cli_endpoint cli \<noteq> [] then
            Some (cli_connect connected sent arrivals (cli_endpoint cli) (cli_request cli), None)
          else if cli_state_directory cli = [] then
            Some ((2, [''either --connect or --state-dir is required'']), None)
          else (case store (cli_state_directory cli) of (opened, recovered) \<Rightarrow>
                  cli_offline opened recovered clock (cli_request cli)))"

section \<open>The coordinator process\<close>

record CoordinatorOptions =
  cop_host :: string
  cop_port :: u16
  cop_state_directory :: string
  cop_read_stdin :: bool

definition CoordinatorOptions_default :: CoordinatorOptions where
  "CoordinatorOptions_default = \<lparr>cop_host = ''127.0.0.1'', cop_port = 0, cop_state_directory = [], cop_read_stdin = True\<rparr>"

fun coordinator_options :: "string list \<Rightarrow> CoordinatorOptions \<Rightarrow> nat + CoordinatorOptions" where
  "coordinator_options [] cop = Inr cop"
| "coordinator_options (argument # args) cop =
     (if argument = ''--help'' then Inl 0
      else if argument = ''--no-stdin'' then coordinator_options args (cop\<lparr>cop_read_stdin := False\<rparr>)
      else if argument = ''--capabilities'' then Inl 0
      else
        (case args of
           [] \<Rightarrow> Inl 2
         | value # args \<Rightarrow>
             if argument = ''--host'' then coordinator_options args (cop\<lparr>cop_host := value\<rparr>)
             else if argument = ''--port'' then
               (case app_parse_u64 value of
                  None \<Rightarrow> Inl 2
                | Some parsed \<Rightarrow> if parsed > 65535 then Inl 2 else coordinator_options args (cop\<lparr>cop_port := ucast parsed\<rparr>))
             else if argument = ''--state-dir'' then coordinator_options args (cop\<lparr>cop_state_directory := value\<rparr>)
             else Inl 2))"

text \<open>
  From the options to a started service, with the line it announces. \<open>store\<close> opens a state directory and
  reads it, \<open>ready\<close> and \<open>bound\<close> are the outcomes of initialising the network and of binding, with the
  port that was bound. \<open>Inl\<close> is an exit code with its message.
\<close>

definition coordinator_main ::
    "(string \<Rightarrow> (DurableStore \<times> Recovery Result) Result) \<Rightarrow> Status \<Rightarrow> (string \<Rightarrow> u16 \<Rightarrow> u16 Result) \<Rightarrow> (nat \<Rightarrow> u64) \<Rightarrow>
     string list \<Rightarrow> (nat \<times> string list) + string \<times> CoordinatorOptions \<times> Coordinator" where
  "coordinator_main store ready bound clock args =
     (case coordinator_options args CoordinatorOptions_default of
        Inl code \<Rightarrow> Inl (code, [])
      | Inr cop \<Rightarrow>
          (case (if cop_state_directory cop = [] then Inr None
                 else map_sum id Some (store (cop_state_directory cop))) of
             Inl e \<Rightarrow> Inl (3, [''state: '' @ Error_to_string e])
           | Inr opened \<Rightarrow>
               (let port = bound (cop_host cop) (cop_port cop) in
                (case start_coordinator ready (map_sum id (\<lambda>_. ()) port) (Config_default clock) opened 0 64 of
                   Inl e \<Rightarrow> Inl (4, [''start: '' @ Error_to_string e])
                 | Inr co \<Rightarrow>
                     Inr (''LISTENING '' @ nat_to_string (case port of Inl _ \<Rightarrow> 0 | Inr p \<Rightarrow> unat p) @ '' epoch '' @
                            str_CoordinatorEpoch (rs_epoch (im_state (co_engine co))), cop, co)))))"

subsection \<open>Commands on the standard input\<close>

text \<open>The pieces of a line between its spaces, empty ones included.\<close>

fun split_words :: "string \<Rightarrow> string \<Rightarrow> string list" where
  "split_words [] current = [current]"
| "split_words (c # line) current =
     (if c = CHR '' '' then current # split_words line [] else split_words line (current @ [c]))"

definition add_token :: "string \<Rightarrow> ControlRequest \<Rightarrow> ControlRequest" where
  "add_token token request =
     (if crq_command request = [] then request\<lparr>crq_command := token\<rparr>
      else if token \<noteq> [] then request\<lparr>crq_arguments := crq_arguments request @ [token]\<rparr>
      else request)"

definition request_of_line :: "string \<Rightarrow> ControlRequest" where
  "request_of_line line = fold add_token (split_words line []) \<lparr>crq_command = [], crq_arguments = []\<rparr>"

definition stdin_answer :: "ControlResponse \<Rightarrow> string list" where
  "stdin_answer response =
     ((if crs_ok response then ''ok'' else ''err'') @ '' '' @ ErrorCode_str (crs_code response) @ '' '' @
      crs_message response) # crs_lines response @ [''.'']"

text \<open>The reader runs until its input ends, then requests the shutdown.\<close>

fun stdin_loop :: "Network \<Rightarrow> string list \<Rightarrow> Coordinator \<Rightarrow> (string list \<times> Coordinator) option" where
  "stdin_loop net [] co = Some ([], Coordinator_request_shutdown co)"
| "stdin_loop net (line # lines) co =
     (let request = request_of_line line in
      if line = [] \<or> crq_command request = [] then stdin_loop net lines co
      else
        (case execute_control net request co of
           None \<Rightarrow> None
         | Some (response, co) \<Rightarrow> map_option (map_prod (append (stdin_answer response)) id) (stdin_loop net lines co)))"

end
