(* ===== verification/Fcf_Applications_Props.thy ===== *)
theory Fcf_Applications_Props
  imports Fcf_Applications Fcf_Engine_Restart
begin

text \<open>
  What looking at a state directory with the command line client does to it, and the round trip of a
  request through a line of the coordinator's standard input.
\<close>

section \<open>Lines\<close>

lemma split_words_word: "CHR '' '' \<notin> set w \<Longrightarrow> split_words w current = [current @ w]"
  by (induction w arbitrary: current) auto

lemma split_words_space:
  "CHR '' '' \<notin> set w \<Longrightarrow> split_words (w @ CHR '' '' # rest) current = (current @ w) # split_words rest []"
  by (induction w arbitrary: current) auto

text \<open>Words with a space before each.\<close>

definition spaced :: "string list \<Rightarrow> string" where
  "spaced ws = concat (map (Cons (CHR '' '')) ws)"

lemma split_words_spaced:
  assumes "CHR '' '' \<notin> set w" and "list_all (\<lambda>w. CHR '' '' \<notin> set w) ws"
  shows "split_words (w @ spaced ws) [] = w # ws"
  using assms by (induction ws arbitrary: w) (simp_all add: spaced_def split_words_word split_words_space)

lemma add_tokens:
  assumes "crq_command request \<noteq> []" and "list_all (\<lambda>w. w \<noteq> []) ws"
  shows "fold add_token ws request = request\<lparr>crq_arguments := crq_arguments request @ ws\<rparr>"
  using assms by (induction ws arbitrary: request) (simp_all add: add_token_def)

lemma request_of_spaced_line:
  assumes "command \<noteq> []" and "CHR '' '' \<notin> set command"
    and "list_all (\<lambda>w. w \<noteq> [] \<and> CHR '' '' \<notin> set w) args"
  shows "request_of_line (command @ spaced args) = \<lparr>crq_command = command, crq_arguments = args\<rparr>"
proof -
  have "list_all (\<lambda>w. CHR '' '' \<notin> set w) args" "list_all (\<lambda>w. w \<noteq> []) args"
    using assms(3) by (simp_all add: list_all_iff)
  then show ?thesis
    using assms(1,2) by (simp add: request_of_line_def split_words_spaced add_token_def add_tokens)
qed

section \<open>Inspecting a state directory\<close>

lemma flush_records_journal:
  "ds_refuses ds = (\<lambda>_ _. None) \<Longrightarrow>
     \<exists>ds'. im_store (snd (flush_records ws ds s)) = Some ds' \<and> ds_journal ds' = ds_journal ds @ ws \<and> ds_refuses ds' = (\<lambda>_ _. None)"
  by (induction ws ds s rule: flush_records.induct) (auto simp: append_record_def)

lemma flush_journal:
  assumes "im_store s = Some ds" and "ds_refuses ds = (\<lambda>_ _. None)"
  shows "\<exists>ds'. im_store (snd (flush s)) = Some ds' \<and> ds_journal ds' = ds_journal ds @ im_pending s \<and> ds_refuses ds' = (\<lambda>_ _. None)"
  using flush_records_journal [OF assms(2)] by (simp add: flush_def assms(1))

lemma counters_encode: "\<exists>bytes. encode_event DurableEventKind.COUNTERS None (write_counters c) = Some bytes"
proof -
  let ?body = "write_counters c ByteWriter_default"
  let ?event = "\<lparr>dev_kind = DurableEventKind.COUNTERS, dev_has_history = False, dev_history = HistoryEvent_default,
    dev_payload = bw_buffer ?body\<rparr>"
  have "grows (write_counters c) 200 True"
    unfolding write_counters_def by (rule grows_weaken, (rule grows_intros)+) simp_all
  then have small: "bw_ok ?body" "int (length (bw_buffer ?body)) \<le> 200"
    using grows_small [of "write_counters c" 200 True 200] by (simp_all add: kMaxDocumentBytes_def)
  have blob: "grows (wr_blob (bw_buffer ?body)) (4 + int (length (bw_buffer ?body))) True"
    using small(2) grows_weaken [OF grows_comp [OF grows_u32 grows_raw]]
    by (simp add: wr_blob_def [abs_def] kMaxBlobBytes_def)
  have "grows (\<lambda>w. if False then write_history_event HistoryEvent_default w else w) 0 True"
    by (simp add: grows_def)
  then have "grows (write_durable_event ?event) (2 + (1 + (0 + (4 + int (length (bw_buffer ?body)) + 0)))) (True \<and> True \<and> True \<and> True \<and> True)"
    unfolding write_durable_event_def DurableEvent.select_convs
    by (intro grows_Cons grows_enum grows_boolean blob grows_Nil)
  then have "bw_ok (write_durable_event ?event ByteWriter_default)"
    by (rule grows_ok) (use small(2) in \<open>simp_all add: kMaxDocumentBytes_def\<close>)
  with small(1) show ?thesis by (simp add: encode_event_def Let_def)
qed

lemma counters_staged: "\<exists>w. im_pending (stage_counters s) = im_pending s @ [w]"
  using counters_encode [of "counters s"] by (auto simp: stage_counters_def stage_def)

text \<open>A recovery that succeeds ends with a new epoch, and the epoch is in the journal.\<close>

lemma begin_epoch_journal:
  assumes "im_store s = Some ds" and "ds_refuses ds = (\<lambda>_ _. None)"
  shows "\<exists>ds' ws. im_store (snd (begin_epoch t reason s)) = Some ds' \<and> ds_journal ds' = ds_journal ds @ ws \<and> ws \<noteq> []"
proof -
  obtain epoch e where locked: "begin_epoch_locked t reason s = (Inr epoch, stage_counters e)"
    and store: "im_store (stage_counters e) = Some ds"
    using assms(1) by (simp add: begin_epoch_locked_def Let_def)
  obtain w where w: "im_pending (stage_counters e) = im_pending e @ [w]" using counters_staged by blast
  have "accepting (stage_counters e)" using assms(2) store by (simp add: accepting_def)
  then have "begin_epoch t reason s = (Inr epoch, snd (flush (stage_counters e)))"
    unfolding begin_epoch_def locked by (rule complete_accepting)
  with flush_journal [OF store assms(2)] w show ?thesis by auto
qed

lemma apply_event_store: "im_store (snd (apply_event event s)) = im_store s"
  unfolding apply_event_def
  by (cases "dev_kind event")
    (auto intro!: replay_keeps [where g = im_store] simp: apply_counters_def restore_history_def split: prod.splits)

lemma recovery_journal:
  assumes "recover_from_store recovered ds now_ms s = (Inr epoch, s')" and "ds_refuses ds = (\<lambda>_ _. None)"
  shows "\<exists>ds' ws. im_store s' = Some ds' \<and> ds_journal ds' = ds_journal ds @ ws \<and> ws \<noteq> []"
proof -
  obtain recovery t q u where r: "recovered = Inr recovery"
    and t: "load_snapshot recovery (reset_runtime ds s) = Some t"
    and u: "replay_journal 0 (rec_journal_records recovery) (rec_journal_sequences recovery)
      (rec_snapshot_sequence recovery) t = (None, q, u)"
    using assms(1) by (auto simp: recover_from_store_def Let_def split: sum.splits option.splits prod.splits)
  have "im_store t = Some ds"
    using t by (auto simp: load_snapshot_def reset_runtime_def split: if_splits prod.splits option.splits)
  then have store: "im_store u = Some ds"
    using replay_journal_keeps [of im_store, OF apply_event_store] u by (metis snd_conv)
  define v where "v = record_recovery recovery (let s = rebuild_digest_index (derive_counters u)
    in s\<lparr>im_durable_sequence := q, im_state := (im_state s)\<lparr>rs_now_ms := now_ms\<rparr>\<rparr>)"
  have v: "im_store v = Some ds"
    unfolding v_def Let_def by (simp add: rebuild_digest_index_state derive_counters_fields store)
  have "fst (flush v) = ok_status" using v assms(2) by (intro flush_accepting) (simp add: accepting_def)
  then have s': "s' = snd (begin_epoch now_ms ''coordinator restart; live authority requires revalidation'' (snd (flush v)))"
    using assms(1) t u unfolding r recover_from_store_def v_def
    by (simp add: Let_def case_prod_beta split: sum.splits)
  obtain ds1 where ds1: "im_store (snd (flush v)) = Some ds1" "ds_journal ds1 = ds_journal ds @ im_pending v"
    "ds_refuses ds1 = (\<lambda>_ _. None)" using flush_journal [OF v assms(2)] by blast
  from begin_epoch_journal [OF ds1(1,3)] ds1(2) show ?thesis unfolding s' by fastforce
qed

text \<open>
  C21. Looking at durable state changes it. The command line client offers to inspect a state
  directory offline, but even the status command recovers the runtime from it as a restart does: when
  it answers, the coordinator epoch is the next one, every resource must be revalidated, no worker
  incarnation holds live authority, and the journal of the directory has grown by what records that.
\<close>

theorem offline_inspection_is_a_restart:
  assumes "load_snapshot recovery (reset_runtime ds (Engine_construct (Config_default clock))) = Some t"
    and "replay_journal 0 (rec_journal_records recovery) (rec_journal_sequences recovery)
      (rec_snapshot_sequence recovery) t = (None, q, u)"
    and "ds_refuses ds = (\<lambda>_ _. None)"
    and "cli_offline (Inr ds) (Inr recovery) clock \<lparr>crq_command = ''status'', crq_arguments = args\<rparr> = Some ((code, out), Some s)"
  shows "code = 0 \<and> rs_epoch (im_state s) = next_generation (rs_epoch (im_state u)) \<and>
    resources s = om_map (rr_freshness_update (\<lambda>_. EvidenceFreshness.REVALIDATION_REQUIRED)) (resources u) \<and>
    (\<forall>k w. om_find (incarnations s) k = Some w \<longrightarrow> \<not> holds_live_authority (wr_state w)) \<and>
    (\<exists>ds' ws. im_store s = Some ds' \<and> ds_journal ds' = ds_journal ds @ ws \<and> ws \<noteq> [])"
proof -
  let ?s0 = "Engine_construct (Config_default clock)"
  have "im_store t = Some ds"
    using assms(1) by (auto simp: load_snapshot_def reset_runtime_def split: if_splits prod.splits option.splits)
  then have "im_store u = Some ds"
    using replay_journal_keeps [of im_store, OF apply_event_store] assms(2) by (metis snd_conv)
  from completed_recovery [OF assms(1-3) this, of 0] obtain s' where
    r: "recover_from_store (Inr recovery) ds 0 ?s0 = (Inr (next_generation (rs_epoch (im_state u))), s')"
    and s': "rs_epoch (im_state s') = next_generation (rs_epoch (im_state u))"
    "resources s' = om_map (rr_freshness_update (\<lambda>_. EvidenceFreshness.REVALIDATION_REQUIRED)) (resources u)"
    "incarnations s' = om_map suspect_worker (incarnations u)" by metis
  have "s = s'" "code = 0"
    using assms(4) r by (simp_all add: cli_offline_def execute_engine_control_def Let_def cli_answer_def
        status_command_def success_def)
  moreover have "\<not> holds_live_authority (wr_state (suspect_worker w))" for w
    by (simp add: suspect_worker_def holds_live_authority_def)
  ultimately show ?thesis using s' recovery_journal [OF r assms(3)] by (auto simp: om_find_map)
qed

theorem offline_inspection_is_a_restart_witness:
  "\<exists>out s ds'. cli_offline (Inr \<lparr>ds_journal = [], ds_refuses = (\<lambda>_ _. None)\<rparr>) (Inr Recovery_default) (\<lambda>_. 5)
       \<lparr>crq_command = ''status'', crq_arguments = []\<rparr> = Some ((0, out), Some s) \<and>
     rs_epoch (im_state s) = Id 2 \<and> im_store s = Some ds' \<and> ds_journal ds' \<noteq> []"
proof -
  let ?ds = "\<lparr>ds_journal = [], ds_refuses = (\<lambda>_ _. None)\<rparr>"
  let ?t = "reset_runtime ?ds (Engine_construct (Config_default (\<lambda>_. 5)))"
  let ?q = "\<lparr>crq_command = ''status'', crq_arguments = []\<rparr>"
  have t: "load_snapshot Recovery_default ?t = Some ?t" by (simp add: load_snapshot_def Recovery_default_def)
  have u: "replay_journal 0 (rec_journal_records Recovery_default) (rec_journal_sequences Recovery_default)
      (rec_snapshot_sequence Recovery_default) ?t = (None, 0, ?t)" by (simp add: Recovery_default_def)
  have epoch: "rs_epoch (im_state ?t) = Id 1"
    by (simp add: reset_runtime_def Engine_construct_def Config_default_def id_valid_def now_def add_history_def Let_def)
  have store: "im_store ?t = Some ?ds" by (simp add: reset_runtime_def)
  obtain e s where "recover_from_store (Inr Recovery_default) ?ds 0 (Engine_construct (Config_default (\<lambda>_. 5))) = (Inr e, s)"
    using completed_recovery [OF t u _ store, of 0] by (metis DurableStore.select_convs(2))
  then obtain code out s where c: "cli_offline (Inr ?ds) (Inr Recovery_default) (\<lambda>_. 5) ?q = Some ((code, out), Some s)"
    by (simp add: cli_offline_def execute_engine_control_def cli_answer_def)
  from offline_inspection_is_a_restart [OF t u _ c] c epoch show ?thesis by (auto simp: next_generation_def)
qed

end
