(* ===== verification/Spec2Isabelle.thy ===== *)
theory Spec2Isabelle
  imports Fcf_Actions Fcf_Engine_Demo Fcf_Document_Limits Fcf_Durability Fcf_Engine_Restart Fcf_Protocol_Props
    Fcf_Coordinator_Peers Fcf_Coordinator_Authority Fcf_Control_Retry
    Fcf_Worker_Process_Props Fcf_Applications_Props
begin

text \<open>
  The Fault Containment Fabric.

  The program contains faults in a fleet of shared resources. A coordinator process keeps a
  topology of resources, domains and typed dependencies. When a fault is reported it computes which
  resources the fault can reach (the blast radius), fences them, plans one containment action per
  fenced resource and dispatches the actions to the worker processes that own the resources. A fence
  is lifted by an assessed release only. Everything the coordinator decides is journaled before it is
  reported, so that a restart keeps the fences and drops the authority. This development models the
  program from the byte codecs to the three executables and proves what makes each layer correct,
  and where a layer does not keep what it promises.

  \<^bold>\<open>Conventions.\<close> A C++ struct is a record whose fields carry a short prefix (\<open>rr_\<close> for
  \<open>ResourceRecord\<close>), an enumeration a datatype with the source's constructors, a phantom identity
  \<open>Id\<close> over a 64-bit word, \<open>std::map\<close> an association list in ascending key order (\<open>om_*\<close>), so that
  iteration orders are visible, and \<open>std::set\<close> and \<open>IdSet\<close> ascending lists. Machine integers are
  words of their width. \<open>Result<T>\<close> is a sum with \<open>Inl\<close> for the error, an operation on the state
  returns its result and the new state, an output argument is a component of the result. Clock,
  system calls, executors and sockets answer through arguments; nothing is assumed of them but what
  a theorem says.

  \<^bold>\<open>Foundations.\<close>
  \<^item> \<open>Fcf_Prelude\<close>: ordered maps, decimal rendering, the collections of frame facts.
    \<open>Fcf_Ids\<close> (\<open>include/fcf/ids.hpp\<close>): identities, generations and identity sets (locale \<open>sorted_set\<close>).
    \<open>Fcf_Enum\<close> (\<open>detail/enum_macro.hpp\<close>): what every enumeration table guarantees (locale
    \<open>enum_table\<close>, interpreted for each enumeration). \<open>Fcf_Error\<close> (\<open>error.hpp\<close>, \<open>result.hpp\<close>).
  \<^item> Records and their pure functions: \<open>Fcf_Evidence\<close>, \<open>Fcf_Domain\<close>, \<open>Fcf_Dependency\<close>
    (\<open>src/dependency.cpp\<close>), \<open>Fcf_Fault\<close> (\<open>src/fault.cpp\<close>, the lifecycle table), \<open>Fcf_Worker\<close>
    (\<open>src/worker_registry.cpp\<close>), \<open>Fcf_Actions\<close> (\<open>src/actions.cpp\<close>), \<open>Fcf_Policy\<close> (\<open>src/policy.cpp\<close>),
    \<open>Fcf_Explain\<close> (\<open>src/explain.cpp\<close>), \<open>Fcf_Records\<close> (containments, verifications, degraded modes, plans,
    history).
  \<^item> Bytes: \<open>Fcf_Bytes\<close> (\<open>src/detail/bytes.cpp\<close>; the locale \<open>record_codec\<close>), \<open>Fcf_Little_Endian\<close>,
    \<open>Fcf_Crc32c\<close>, \<open>Fcf_Sha256\<close> and \<open>Fcf_Digest\<close> (the evidence digest); \<open>Fcf_Codec\<close>, \<open>Fcf_Codec_State\<close>
    and \<open>Fcf_Codec_Document\<close> (\<open>src/state_codec.cpp\<close>), each record codec an interpretation of
    \<open>record_codec\<close>; \<open>Fcf_Texts\<close> bounds the texts the runtime writes and shows that small events
    encode; \<open>Fcf_Codec_Props\<close> and \<open>Fcf_Document_Limits\<close> for the promises and limits of the codecs.

  \<^bold>\<open>Blast radius\<close> (\<open>src/blast_radius.cpp\<close>). \<open>Fcf_Blast_Radius\<close> follows the computation phase by phase;
  \<open>Fcf_Radius_Props\<close> proves that the sorted worklist computes exactly the resources reachable over hard
  edges, that the computation never throws on a well-formed table, the partition and the exposure
  bound; \<open>Fcf_Radius_Closed\<close> that every unresolved resource is contained when the rule demands it, and
  where the escalation stops short.

  \<^bold>\<open>Runtime\<close> (\<open>include/fcf/engine.hpp\<close>, \<open>src/engine.cpp\<close>). \<open>Fcf_Runtime\<close> holds \<open>Impl\<close>: the snapshot state,
  the identity counters, the staged journal records and the store. Each public method is a
  \<open>X_locked\<close> section followed by \<open>complete\<close>, the flush: \<open>Fcf_Engine_Topology\<close>, \<open>_Resources\<close>, \<open>_Faults\<close>,
  \<open>_Containment\<close>, \<open>_Dispatch\<close>, \<open>_Verify\<close>, \<open>_Release\<close>, \<open>_Recovery\<close>. \<open>Fcf_Engine_Steps\<close> makes them a
  transition system in which the sections of concurrent callers interleave (\<open>Request\<close>, \<open>locked\<close>;
  locale \<open>locked_section\<close>). A step is a locked section, what happens \<^emph>\<open>between\<close>
  (a flush of what is staged, what is staged dropped because a flush was refused, a reading of the
  clock: the relation \<open>background\<close>), or the attachment of the store. On it:
  \<^item> \<open>_Frame\<close>, \<open>_Staging\<close>, \<open>_Follow\<close>: what each section leaves alone and stages; a reported success is in
    the journal.
  \<^item> \<open>_Commit\<close>, \<open>_Dispatched\<close>: what an authorised containment fences and plans, and that an immediate
    dispatch reaches the executor.
  \<^item> \<open>_Invariants\<close>, \<open>_Fencing\<close>, \<open>_Keyed\<close>: the fault lifecycle, no authority for dead incarnations, no two
    live incarnations of a worker, fences lifted by an update, a removal or a granted release only, the
    well-formed resource table. They speak of one life of the process: a recovery starts a new one.
  \<^item> \<open>_Restart\<close>: the journal redoes what it recorded, a restart keeps fences and drops authority, and what
    the journal forgets. \<open>_Demo\<close>: concrete runtimes.

  \<^bold>\<open>Durable store\<close> (\<open>src/persistence.cpp\<close>). \<open>Fcf_Persistence\<close> models the POSIX branch: the journal format,
  the atomically replaced snapshot, and recovery, over outcomes of the system calls. The journal keeps
  apart what was written and what the last \<open>fsync\<close> covered (\<open>fs_stable\<close>); a crash leaves any content
  between the two (\<open>survives\<close>), so that a missing \<open>fsync\<close> loses records. The rename of a snapshot is
  taken as durable (the code does not flush the directory). \<open>Fcf_Durability\<close> proves the recovery of acknowledged appends after any crash, within the sizes recovery accepts, what a
  crash during a snapshot leaves, the detection of bursts, and two cases the store accepts and cannot recover. The runtime sees the
  store as the list of the records that crossed the durability boundary (\<open>DurableStore\<close>).

  \<^bold>\<open>Wire and service.\<close>
  \<^item> \<open>Fcf_Wire\<close>, \<open>Fcf_Net\<close>, \<open>Fcf_Protocol\<close>, \<open>Fcf_Protocol_Props\<close> (\<open>src/wire.cpp\<close>, \<open>src/net.cpp\<close>,
    \<open>src/protocol.cpp\<close>): frames, their reassembly from any pieces a stream arrives in, messages.
  \<^item> \<open>Fcf_Control\<close> and \<open>Fcf_Coordinator\<close> (\<open>src/coordinator.cpp\<close>): every control command, the handler of
    every frame, dispatch over the peers' sockets, the life of a connection, start and stop.
    \<open>Fcf_Coordinator_Relations\<close> has the interface between service and runtime: a relation that every
    section keeps (locale \<open>runtime_relation\<close>) is kept by every handler and command (\<open>worker_relation\<close>,
    \<open>service_relation\<close>); fences, the keyed table and \<open>runs\<close> are its interpretations. \<open>runs P\<close>, in
    \<open>Fcf_Coordinator_Requests\<close>, is a sequence of runtime steps whose requests all satisfy \<open>P\<close>, and
    \<open>event_request\<close> says which requests an event of the service is entitled to: evidence of a worker
    only under the guards of its handler, the operations of an operator only for an operator's command. \<open>_Serve\<close>, \<open>_Props\<close>, \<open>_Peers\<close>,
    \<open>_Authority\<close> and \<open>Fcf_Control_Retry\<close> hold the guarantees over interleaved connections (\<open>co_run\<close>) and
    their limits.
  \<^item> \<open>Fcf_Worker_Process\<close>, \<open>Fcf_Applications\<close> (\<open>apps/\<close>): the worker, the command line client and the
    coordinator process; \<open>Fcf_Worker_Process_Props\<close> puts the worker against the coordinator's handlers,
    \<open>Fcf_Applications_Props\<close> the client against the durable runtime.

  \<^bold>\<open>Properties.\<close> C1 to C5, C26 to C28: containment, fencing, durability, authority and the fault
  lifecycle in the runtime. C6 to C9, C33 to C38: recovery, snapshots, the redo log, the state document,
  and where they fail. C10 to C18: the service refines the runtime, workers keep fences, a lost
  connection loses its authority, the peers, and the handlers that go wrong. C19 to C21: the processes.
  C22 to C25: frames, streams, messages. C29 to C32: the blast radius. C39, C40: the digests. A property
  of kind error states a fault of the code as the code has it; each is a finding of the development.

  \<^bold>\<open>Termination, bounds and fuel.\<close> No definition uses fuel. Loops are structural recursions or have a
  measure: the unread bytes (\<open>recover_journal\<close>, \<open>receive_frames\<close>), the unsent bytes (\<open>send_loop\<close>, \<open>transfer\<close>),
  the resources not yet visited (the traversal). The traversal's failing lookup and the retry of the
  control plane, which may not end, are options; totality and return are proved where they hold. Sizes
  are the program's ceilings, checked as the code checks them; counters wrap at 64 bits.

  \<^bold>\<open>Not modelled.\<close> Threads and locks: a locked section of the runtime and a frame handler are atomic
  steps; the runtime's properties hold for every interleaving of sections, those of the service for every
  interleaving of handlers, while the code may also interleave the sections of two handlers.
  Shutting sockets down and waiting on condition variables are not visible in the model. Opening,
  binding and accepting sockets and the Windows branches of \<open>src/net.cpp\<close> and \<open>src/persistence.cpp\<close> are
  system calls. The CUDA workload is a name in a log. Usage texts, the capability report and the build
  stamps (\<open>version.hpp\<close>, \<open>provenance.hpp\<close>) are constants. Allocation failure and exceptions of the
  standard library are outside the model, but for the one lookup that the blast radius can fail.
\<close>

end
